(* ===== verification/Prelude.thy ===== *)
theory Prelude
  imports Main "HOL-Library.Char_ord" "HOL-Library.List_Lexorder"
begin

text \<open>
  Shared vocabulary of the development: the theorem collections the components fill, the
  outcome type of a fallible Python call, and the string methods of Python's standard library
  that the program uses.

  A Python \<open>str\<close> is a \<open>string\<close> whose characters are the code points below 256, so
  \<open>strip\<close>, \<open>lower\<close>, \<open>isdigit\<close> and \<open>int\<close> are given for exactly those. Comparison of
  strings is the lexicographic order of code points (\<open>List_Lexorder\<close> over \<open>Char_ord\<close>),
  which is the order Python's \<open>sorted\<close> uses.
\<close>

named_theorems py_defs \<open>definitions of the Python string methods\<close>
named_theorems store_defs \<open>definitions of the row and table operations\<close>
named_theorems authz_defs \<open>definitions of the permission evaluator\<close>
named_theorems wf_intros \<open>preservation of the store's well-formedness\<close>

lemma pred_option_code [code]: "pred_option P None = True" "pred_option P (Some x) = P x"
  by simp_all

text \<open>The exceptions that the modelled code raises, catches or lets escape.\<close>

datatype py_error =
    ValueError string
  | TypeErr
  | KeyErr string
  | IntegrityError
  | RuntimeErr string
  | IndexErr
  | AttributeErr
  | SaltApiError string
  | K8sError string
  | K8sConflict string
  | K8sUnavailable string
  | YamlError string
  | OsError string
  | Timeout string

type_synonym 'a res = "py_error + 'a"

fun res_bind :: "'a res \<Rightarrow> ('a \<Rightarrow> 'b res) \<Rightarrow> 'b res" where
  "res_bind (Inl e) f = Inl e"
| "res_bind (Inr x) f = f x"

lemma res_bind_Inr [simp]: "res_bind r f = Inr y \<longleftrightarrow> (\<exists>x. r = Inr x \<and> f x = Inr y)"
  by (cases r) auto

text \<open>A comprehension that stops at the first element whose evaluation raises.\<close>

fun res_map :: "('a \<Rightarrow> 'b res) \<Rightarrow> 'a list \<Rightarrow> 'b list res" where
  "res_map f [] = Inr []"
| "res_map f (x # xs) =
     (case f x of Inl e \<Rightarrow> Inl e
      | Inr y \<Rightarrow> (case res_map f xs of Inl e \<Rightarrow> Inl e | Inr ys \<Rightarrow> Inr (y # ys)))"

lemma res_map_Inr: "res_map f xs = Inr ys \<longleftrightarrow> list_all2 (\<lambda>x y. f x = Inr y) xs ys"
proof (induction xs arbitrary: ys)
  case Nil
  then show ?case by auto
next
  case (Cons x xs)
  show ?case
  proof (cases "f x")
    case (Inl e)
    then show ?thesis by (auto simp: list_all2_Cons1)
  next
    case (Inr y)
    then show ?thesis
      by (cases "res_map f xs") (auto simp: list_all2_Cons1 Cons.IH [symmetric])
  qed
qed

section \<open>String methods\<close>

definition is_space :: "char \<Rightarrow> bool" where [py_defs]:
  "is_space c = (let n = of_char c :: nat
     in (9 \<le> n \<and> n \<le> 13) \<or> (28 \<le> n \<and> n \<le> 32) \<or> n = 133 \<or> n = 160)"

definition lstrip_by :: "(char \<Rightarrow> bool) \<Rightarrow> string \<Rightarrow> string" where
  "lstrip_by P s = dropWhile P s"

definition rstrip_by :: "(char \<Rightarrow> bool) \<Rightarrow> string \<Rightarrow> string" where
  "rstrip_by P s = rev (dropWhile P (rev s))"

definition py_strip :: "string \<Rightarrow> string" where
  "py_strip s = rstrip_by is_space (lstrip_by is_space s)"

definition strip_char :: "char \<Rightarrow> string \<Rightarrow> string" where
  "strip_char c s = rstrip_by (\<lambda>x. x = c) (lstrip_by (\<lambda>x. x = c) s)"

fun starts_with :: "string \<Rightarrow> string \<Rightarrow> bool" where
  "starts_with [] s = True"
| "starts_with (p # ps) [] = False"
| "starts_with (p # ps) (c # cs) = (p = c \<and> starts_with ps cs)"

lemma starts_with_iff: "starts_with p s \<longleftrightarrow> (\<exists>r. s = p @ r)"
  by (induction p s rule: starts_with.induct) auto

text \<open>\<open>sub in s\<close>\<close>

fun py_contains :: "string \<Rightarrow> string \<Rightarrow> bool" where
  "py_contains sub [] = (sub = [])"
| "py_contains sub (c # cs) = (starts_with sub (c # cs) \<or> py_contains sub cs)"

text \<open>\<open>s.split(c)\<close> for a one-character separator: never empty, one piece more than separators.\<close>

fun py_split :: "char \<Rightarrow> string \<Rightarrow> string list" where
  "py_split c [] = [[]]"
| "py_split c (x # xs) =
     (if x = c then [] # py_split c xs
      else (case py_split c xs of [] \<Rightarrow> [[x]] | p # ps \<Rightarrow> (x # p) # ps))"

lemma py_split_nonempty [simp]: "py_split c s \<noteq> []"
  by (cases s) (auto split: list.splits)

lemma length_py_split: "length (py_split c s) = Suc (count_list s c)"
  by (induction s) (auto split: list.splits)

lemma py_split_no_sep: "c \<notin> set s \<Longrightarrow> py_split c s = [s]"
  by (induction s) auto

lemma py_split_append: "c \<notin> set s \<Longrightarrow> py_split c (s @ c # t) = s # py_split c t"
  by (induction s) auto

lemma py_split_pieces: "p \<in> set (py_split c s) \<Longrightarrow> c \<notin> set p"
proof (induction s arbitrary: p)
  case Nil
  then show ?case by simp
next
  case (Cons x xs)
  obtain q qs where q: "py_split c xs = q # qs"
    by (meson py_split_nonempty neq_Nil_conv)
  have ih: "c \<notin> set r" if "r \<in> set (q # qs)" for r
    using Cons.IH [of r] that q by simp
  show ?case
  proof (cases "x = c")
    case True
    with Cons.prems q have "p = [] \<or> p \<in> set (q # qs)" by simp
    with ih show ?thesis by (metis empty_iff empty_set)
  next
    case False
    with Cons.prems q have "p = x # q \<or> p \<in> set qs" by simp
    with False ih [of q] ih [of p] show ?thesis by (metis list.set_intros set_ConsD)
  qed
qed

text \<open>\<open>s.split()\<close>: runs of whitespace separate, no empty pieces.\<close>

fun split_ws_aux :: "string \<Rightarrow> string \<Rightarrow> string list" where
  "split_ws_aux acc [] = (if acc = [] then [] else [rev acc])"
| "split_ws_aux acc (c # cs) =
     (if is_space c then (if acc = [] then split_ws_aux [] cs else rev acc # split_ws_aux [] cs)
      else split_ws_aux (c # acc) cs)"

definition py_split_ws :: "string \<Rightarrow> string list" where
  "py_split_ws s = split_ws_aux [] s"

lemma split_ws_aux_pieces:
  "list_all (\<lambda>c. \<not> is_space c) acc
   \<Longrightarrow> list_all (\<lambda>p. p \<noteq> [] \<and> list_all (\<lambda>c. \<not> is_space c) p) (split_ws_aux acc s)"
  by (induction acc s rule: split_ws_aux.induct) simp_all

text \<open>\<open>s.partition(c)\<close>: (head, whether the separator was found, tail).\<close>

fun py_partition :: "char \<Rightarrow> string \<Rightarrow> string \<times> bool \<times> string" where
  "py_partition c [] = ([], False, [])"
| "py_partition c (x # xs) =
     (if x = c then ([], True, xs)
      else (case py_partition c xs of (a, f, b) \<Rightarrow> (x # a, f, b)))"

lemma py_partition_cat:
  "py_partition c s = (a, f, b) \<Longrightarrow> s = (if f then a @ c # b else a) \<and> c \<notin> set a"
  by (induction s arbitrary: a f b) (auto split: if_splits prod.splits)

lemma py_partition_append: "c \<notin> set a \<Longrightarrow> py_partition c (a @ c # b) = (a, True, b)"
  by (induction a) auto

fun py_join :: "string \<Rightarrow> string list \<Rightarrow> string" where
  "py_join sep [] = []"
| "py_join sep [x] = x"
| "py_join sep (x # y # ys) = x @ sep @ py_join sep (y # ys)"

text \<open>Joining by a character and splitting at it again gives the pieces back.\<close>

lemma py_split_join:
  assumes "xs \<noteq> []" and "\<And>x. x \<in> set xs \<Longrightarrow> c \<notin> set x"
  shows "py_split c (py_join [c] xs) = xs"
  using assms
  by (induction "[c]" xs rule: py_join.induct) (auto simp: py_split_no_sep py_split_append)

lemma py_split_append_any: "py_split c (s @ c # t) = py_split c s @ py_split c t"
proof (induction s)
  case Nil
  then show ?case by simp
next
  case (Cons x s)
  have hd: "xs \<noteq> [] \<Longrightarrow> hd (xs @ ys) = hd xs \<and> tl (xs @ ys) = tl xs @ ys" for xs ys :: "string list"
    by (cases xs) auto
  show ?case using Cons.IH hd [OF py_split_nonempty [of c s], of "py_split c t"]
    by (auto split: list.splits simp: Let_def)
qed

lemma py_join_append:
  "xs \<noteq> [] \<Longrightarrow> ys \<noteq> [] \<Longrightarrow> py_join sep (xs @ ys) = py_join sep xs @ sep @ py_join sep ys"
proof (induction sep xs rule: py_join.induct)
  case (2 sep x)
  then show ?case by (cases ys) auto
qed auto

lemma py_join_split: "py_join [c] (py_split c s) = s"
proof (induction s)
  case (Cons x s)
  obtain p ps where p: "py_split c s = p # ps" using py_split_nonempty [of c s] by (cases "py_split c s") auto
  show ?case using Cons.IH by (cases ps) (auto simp: p)
qed auto

definition lower_char :: "char \<Rightarrow> char" where [py_defs]:
  "lower_char c = (let n = of_char c :: nat
     in if (65 \<le> n \<and> n \<le> 90) \<or> (192 \<le> n \<and> n \<le> 222 \<and> n \<noteq> 215) then char_of (n + 32) else c)"

definition py_lower :: "string \<Rightarrow> string" where
  "py_lower s = map lower_char s"

section \<open>Decimal numbers\<close>

definition digit_char :: "nat \<Rightarrow> char" where
  "digit_char n = char_of (48 + n)"

definition digit_val :: "char \<Rightarrow> nat option" where
  "digit_val c = (let n = of_char c :: nat in if 48 \<le> n \<and> n \<le> 57 then Some (n - 48) else None)"

lemma digit_val_digit_char [simp]: "n < 10 \<Longrightarrow> digit_val (digit_char n) = Some n"
  by (simp add: digit_val_def digit_char_def of_char_of)

lemma digit_val_bound: "digit_val c = Some n \<Longrightarrow> n < 10"
  by (auto simp: digit_val_def Let_def split: if_splits)

fun nat_str :: "nat \<Rightarrow> string" where
  "nat_str n = (if n < 10 then [digit_char n] else nat_str (n div 10) @ [digit_char (n mod 10)])"

declare nat_str.simps [simp del]

definition py_str_int :: "int \<Rightarrow> string" where
  "py_str_int i = (if i < 0 then CHR ''-'' # nat_str (nat (- i)) else nat_str (nat i))"

fun digits_val :: "nat \<Rightarrow> string \<Rightarrow> nat option" where
  "digits_val acc [] = Some acc"
| "digits_val acc (c # cs) =
     (case digit_val c of None \<Rightarrow> None | Some d \<Rightarrow> digits_val (10 * acc + d) cs)"

lemma digits_val_append:
  "digits_val acc (s @ t) = (case digits_val acc s of None \<Rightarrow> None | Some a \<Rightarrow> digits_val a t)"
  by (induction acc s rule: digits_val.induct) (auto split: option.splits)

lemma digits_val_nat_str: "digits_val 0 (nat_str n) = Some n"
proof (induction n rule: nat_str.induct)
  case (1 n)
  show ?case
  proof (cases "n < 10")
    case True
    then show ?thesis by (subst nat_str.simps) simp
  next
    case False
    with "1.IH" have "digits_val 0 (nat_str (n div 10)) = Some (n div 10)" by simp
    with False show ?thesis
      by (subst nat_str.simps) (simp add: digits_val_append)
  qed
qed

text \<open>
  \<open>str.isdigit\<close> over the code points below 256: the ten ASCII digits and the superscripts two,
  three and one, which \<open>int\<close> does not accept.
\<close>

definition is_digit :: "char \<Rightarrow> bool" where [py_defs]:
  "is_digit c = (let n = of_char c :: nat in (48 \<le> n \<and> n \<le> 57) \<or> n \<in> {178, 179, 185})"

definition py_isdigit :: "string \<Rightarrow> bool" where
  "py_isdigit s = (s \<noteq> [] \<and> list_all is_digit s)"

text \<open>
  The text accepted by \<open>int(s)\<close>: surrounding whitespace, an optional sign, digits with single
  underscores between them.
\<close>

fun drop_underscores :: "bool \<Rightarrow> string \<Rightarrow> string option" where
  "drop_underscores prev [] = (if prev then Some [] else None)"
| "drop_underscores prev (c # cs) =
     (if c = CHR ''_'' then (if prev then drop_underscores False cs else None)
      else map_option ((#) c) (drop_underscores True cs))"

definition int_digits :: "string \<Rightarrow> nat option" where
  "int_digits s = Option.bind (drop_underscores False s) (digits_val 0)"

definition py_int :: "string \<Rightarrow> int option" where
  "py_int s = (case py_strip s of
     [] \<Rightarrow> None
   | c # cs \<Rightarrow>
       if c = CHR ''-'' then map_option (\<lambda>n. - int n) (int_digits cs)
       else if c = CHR ''+'' then map_option int (int_digits cs)
       else map_option int (int_digits (c # cs)))"

lemma drop_underscores_digits:
  "s \<noteq> [] \<or> prev \<Longrightarrow> CHR ''_'' \<notin> set s \<Longrightarrow> drop_underscores prev s = Some s"
  by (induction prev s rule: drop_underscores.induct) auto

lemma digit_char_ascii: "n < 10 \<Longrightarrow> of_char (digit_char n) = (48 + n :: nat)"
  by (simp add: digit_char_def of_char_of)

definition ascii_digit :: "char \<Rightarrow> bool" where
  "ascii_digit c = (let n = of_char c :: nat in 48 \<le> n \<and> n \<le> 57)"

lemma ascii_digit_char: "n < 10 \<Longrightarrow> ascii_digit (digit_char n)"
  by (simp add: ascii_digit_def digit_char_ascii)

lemma nat_str_digits: "list_all ascii_digit (nat_str n)"
proof (induction n rule: nat_str.induct)
  case (1 n)
  then show ?case
    by (subst nat_str.simps) (auto simp: ascii_digit_char)
qed

lemma nat_str_nonempty [simp]: "nat_str n \<noteq> []"
  by (subst nat_str.simps) simp

lemma ascii_digit_not_space: "ascii_digit c \<Longrightarrow> \<not> is_space c"
  by (auto simp: ascii_digit_def is_space_def Let_def)

lemma ascii_digit_no_sign: "ascii_digit c \<Longrightarrow> c \<noteq> CHR ''_'' \<and> c \<noteq> CHR ''-'' \<and> c \<noteq> CHR ''+''"
  by (auto simp: ascii_digit_def Let_def)

lemma ascii_digit_is_digit: "ascii_digit c \<Longrightarrow> is_digit c"
  by (auto simp: ascii_digit_def is_digit_def Let_def)

lemma py_strip_id: "list_all (\<lambda>c. \<not> is_space c) s \<Longrightarrow> py_strip s = s"
proof -
  assume a: "list_all (\<lambda>c. \<not> is_space c) s"
  then have "dropWhile is_space s = s" by (cases s) auto
  moreover from a have "dropWhile is_space (rev s) = rev s"
    by (cases "rev s") (auto simp: list_all_iff dest: arg_cong [of _ _ set])
  ultimately show ?thesis by (simp add: py_strip_def lstrip_by_def rstrip_by_def)
qed

lemma py_int_digits:
  assumes "s \<noteq> []" and "list_all ascii_digit s"
  shows "py_int s = map_option int (digits_val 0 s)"
proof -
  from assms(2) have ns: "list_all (\<lambda>c. \<not> is_space c) s"
    by (auto simp: list_all_iff dest: ascii_digit_not_space)
  from assms(2) have us: "CHR ''_'' \<notin> set s"
    by (auto simp: list_all_iff dest: ascii_digit_no_sign)
  obtain c cs where s: "s = c # cs" using assms(1) by (cases s) auto
  with assms(2) have "c \<noteq> CHR ''-''" and "c \<noteq> CHR ''+''"
    by (auto dest: ascii_digit_no_sign)
  with s us show ?thesis
    by (simp add: py_int_def py_strip_id [OF ns [unfolded s]] int_digits_def
        drop_underscores_digits del: drop_underscores.simps digits_val.simps)
qed

text \<open>Printing a natural number and reading it back.\<close>

lemma py_int_str: "0 \<le> i \<Longrightarrow> py_int (py_str_int i) = Some i"
  by (simp add: py_str_int_def py_int_digits nat_str_digits digits_val_nat_str)

lemma py_isdigit_str: "0 \<le> i \<Longrightarrow> py_isdigit (py_str_int i)"
  using nat_str_digits [of "nat i"]
  by (auto simp: py_str_int_def py_isdigit_def list_all_iff dest: ascii_digit_is_digit)

section \<open>Sorted enumerations and small list facts\<close>

lemma sorted_list_of_set_eq_Nil [simp]:
  "finite A \<Longrightarrow> sorted_list_of_set A = [] \<longleftrightarrow> A = {}"
  by (rule sorted_list_of_set_eq_Nil_iff)

text \<open>\<open>dict.get\<close> on an association list, and \<open>d[k] = v\<close> keeping the insertion order.\<close>

fun assoc_set :: "'k \<Rightarrow> 'v \<Rightarrow> ('k \<times> 'v) list \<Rightarrow> ('k \<times> 'v) list" where
  "assoc_set k v [] = [(k, v)]"
| "assoc_set k v ((k', v') # ps) =
     (if k = k' then (k, v) # ps else (k', v') # assoc_set k v ps)"

lemma map_of_assoc_set: "map_of (assoc_set k v ps) = (map_of ps)(k \<mapsto> v)"
  by (induction k v ps rule: assoc_set.induct) auto

lemma set_fst_assoc_set: "set (map fst (assoc_set k v ps)) = insert k (set (map fst ps))"
  by (induction k v ps rule: assoc_set.induct) auto

lemma distinct_assoc_set:
  "distinct (map fst ps) \<Longrightarrow> distinct (map fst (assoc_set k v ps))"
  by (induction k v ps rule: assoc_set.induct) (auto simp: set_fst_assoc_set [simplified])

end
