(* ===== verification/PyValue.thy ===== *)
theory PyValue
  imports Complex_Main Prelude
begin

text \<open>
  Dynamic Python values as they come out of JSON columns, request bodies and Salt replies, with
  the operations of the language and of the \<open>json\<close> module that the program applies to them:
  truth value, \<open>str\<close>, \<open>repr\<close>, \<open>dict.get\<close>, \<open>json.loads\<close> and \<open>json.dumps\<close> of a list of strings.

  A float carries its value and its printed form; the printed form of a float read by
  \<open>json.loads\<close> is its spelling in the document, and the value part of the non-finite ones is not
  used. A \<open>\u\<close> escape of a code point above 255 is outside the modelled strings and does not decode.
\<close>

datatype pyval =
    PNone
  | PBool bool
  | PInt int
  | PFloat rat string
  | PStr string
  | PList "pyval list"
  | PDict "(string \<times> pyval) list"

fun py_truth :: "pyval \<Rightarrow> bool" where
  "py_truth PNone = False"
| "py_truth (PBool b) = b"
| "py_truth (PInt i) = (i \<noteq> 0)"
| "py_truth (PFloat q _) = (q \<noteq> 0)"
| "py_truth (PStr s) = (s \<noteq> [])"
| "py_truth (PList xs) = (xs \<noteq> [])"
| "py_truth (PDict kvs) = (kvs \<noteq> [])"

fun dict_get :: "string \<Rightarrow> (string \<times> pyval) list \<Rightarrow> pyval option" where
  "dict_get k [] = None"
| "dict_get k ((k', v) # kvs) = (if k = k' then Some v else dict_get k kvs)"

lemma dict_get_map_of: "dict_get k kvs = map_of kvs k"
  by (induction k kvs rule: dict_get.induct) auto

section \<open>Printing\<close>

definition hex_char :: "nat \<Rightarrow> char" where
  "hex_char n = (if n < 10 then char_of (48 + n) else char_of (87 + n))"

definition hex_val :: "char \<Rightarrow> nat option" where
  "hex_val c = (let n = of_char c :: nat in
     if 48 \<le> n \<and> n \<le> 57 then Some (n - 48)
     else if 97 \<le> n \<and> n \<le> 102 then Some (n - 87)
     else if 65 \<le> n \<and> n \<le> 70 then Some (n - 55)
     else None)"

lemma hex_val_hex_char [simp]: "n < 16 \<Longrightarrow> hex_val (hex_char n) = Some n"
  by (auto simp: hex_val_def hex_char_def of_char_of Let_def)

definition repr_char :: "char \<Rightarrow> char \<Rightarrow> string" where
  "repr_char q c = (let n = of_char c :: nat in
     if c = q \<or> c = CHR 0x5C then [CHR 0x5C, c]
     else if n = 9 then [CHR 0x5C, CHR ''t'']
     else if n = 10 then [CHR 0x5C, CHR ''n'']
     else if n = 13 then [CHR 0x5C, CHR ''r'']
     else if n < 32 \<or> (127 \<le> n \<and> n \<le> 160) \<or> n = 173
       then [CHR 0x5C, CHR ''x'', hex_char (n div 16), hex_char (n mod 16)]
     else [c])"

definition repr_str :: "string \<Rightarrow> string" where
  "repr_str s =
     (let q = (if CHR 0x27 \<in> set s \<and> CHR 0x22 \<notin> set s then CHR 0x22 else CHR 0x27)
      in q # concat (map (repr_char q) s) @ [q])"

fun py_repr :: "pyval \<Rightarrow> string"
and repr_items :: "pyval list \<Rightarrow> string list"
and repr_pairs :: "(string \<times> pyval) list \<Rightarrow> string list" where
  "py_repr PNone = ''None''"
| "py_repr (PBool b) = (if b then ''True'' else ''False'')"
| "py_repr (PInt i) = py_str_int i"
| "py_repr (PFloat _ r) = r"
| "py_repr (PStr s) = repr_str s"
| "py_repr (PList xs) = ''['' @ py_join '', '' (repr_items xs) @ '']''"
| "py_repr (PDict kvs) = ''{'' @ py_join '', '' (repr_pairs kvs) @ ''}''"
| "repr_items [] = []"
| "repr_items (x # xs) = py_repr x # repr_items xs"
| "repr_pairs [] = []"
| "repr_pairs ((k, v) # kvs) = (repr_str k @ '': '' @ py_repr v) # repr_pairs kvs"

fun py_str :: "pyval \<Rightarrow> string" where
  "py_str (PStr s) = s"
| "py_str v = py_repr v"

section \<open>The json module\<close>

definition json_escape :: "char \<Rightarrow> string" where
  "json_escape c = (let n = of_char c :: nat in
     if n = 34 then [CHR 0x5C, CHR 0x22]
     else if n = 92 then [CHR 0x5C, CHR 0x5C]
     else if n = 10 then [CHR 0x5C, CHR ''n'']
     else if n = 13 then [CHR 0x5C, CHR ''r'']
     else if n = 9 then [CHR 0x5C, CHR ''t'']
     else if n = 12 then [CHR 0x5C, CHR ''f'']
     else if n = 8 then [CHR 0x5C, CHR ''b'']
     else if n < 32 \<or> 126 < n
       then [CHR 0x5C, CHR ''u'', CHR ''0'', CHR ''0'', hex_char (n div 16), hex_char (n mod 16)]
     else [c])"

definition json_quote :: "string \<Rightarrow> string" where
  "json_quote s = CHR 0x22 # concat (map json_escape s) @ [CHR 0x22]"

definition json_dumps_strs :: "string list \<Rightarrow> string" where
  "json_dumps_strs xs = ''['' @ py_join '', '' (map json_quote xs) @ '']''"

definition simple_escape :: "char \<Rightarrow> char option" where
  "simple_escape e =
     (if e = CHR 0x22 \<or> e = CHR 0x5C \<or> e = CHR ''/'' then Some e
      else if e = CHR ''n'' then Some (char_of (10::nat))
      else if e = CHR ''r'' then Some (char_of (13::nat))
      else if e = CHR ''t'' then Some (char_of (9::nat))
      else if e = CHR ''f'' then Some (char_of (12::nat))
      else if e = CHR ''b'' then Some (char_of (8::nat))
      else None)"

definition hex4 :: "char \<Rightarrow> char \<Rightarrow> char \<Rightarrow> char \<Rightarrow> nat option" where
  "hex4 a b c d =
     (case (hex_val a, hex_val b, hex_val c, hex_val d) of
        (Some i, Some j, Some k, Some l) \<Rightarrow> Some (4096 * i + 256 * j + 16 * k + l)
      | _ \<Rightarrow> None)"

definition push_char :: "char \<Rightarrow> (string \<times> string) option \<Rightarrow> (string \<times> string) option" where
  "push_char c r = map_option (\<lambda>(s, t). (c # s, t)) r"

lemma push_char_Some [simp]: "push_char c (Some (s, t)) = Some (c # s, t)"
  by (simp add: push_char_def)

fun json_str :: "string \<Rightarrow> (string \<times> string) option" where
  "json_str [] = None"
| "json_str (c # cs) =
     (if c = CHR 0x22 then Some ([], cs)
      else if c = CHR 0x5C then
        (case cs of
           [] \<Rightarrow> None
         | e # es \<Rightarrow>
             if e = CHR ''u'' then
               (case es of
                  h1 # h2 # h3 # h4 # r \<Rightarrow>
                    (case hex4 h1 h2 h3 h4 of
                       Some n \<Rightarrow> if n < 256 then push_char (char_of n) (json_str r) else None
                     | None \<Rightarrow> None)
                | _ \<Rightarrow> None)
             else (case simple_escape e of
                     Some x \<Rightarrow> push_char x (json_str es) | None \<Rightarrow> None))
      else if of_char c < (32::nat) then None
      else push_char c (json_str cs))"

definition json_ws :: "char \<Rightarrow> bool" where
  "json_ws c = (c \<in> {CHR '' '', CHR 0x09, CHR 0x0A, CHR 0x0D})"

definition skip_ws :: "string \<Rightarrow> string" where
  "skip_ws s = dropWhile json_ws s"

definition take_digits :: "string \<Rightarrow> string \<times> string" where
  "take_digits s = (takeWhile ascii_digit s, dropWhile ascii_digit s)"

definition digits_nat :: "string \<Rightarrow> nat" where
  "digits_nat s = (case digits_val 0 s of Some n \<Rightarrow> n | None \<Rightarrow> 0)"

definition json_frac :: "string \<Rightarrow> string \<times> string" where
  "json_frac s = (case s of
     c # cs \<Rightarrow> (case take_digits cs of
                (ds, r) \<Rightarrow> if c = CHR ''.'' \<and> ds \<noteq> [] then (ds, r) else ([], s))
   | [] \<Rightarrow> ([], s))"

definition json_exp :: "string \<Rightarrow> (bool \<times> string) option \<times> string" where
  "json_exp s = (case s of
     c # cs \<Rightarrow>
       if c = CHR ''e'' \<or> c = CHR ''E'' then
         (let neg = (case cs of d # _ \<Rightarrow> d = CHR ''-'' | [] \<Rightarrow> False);
              body = (case cs of d # ds \<Rightarrow> if d = CHR ''-'' \<or> d = CHR ''+'' then ds else cs | [] \<Rightarrow> cs)
          in case take_digits body of
               (ds, r) \<Rightarrow> if ds \<noteq> [] then (Some (neg, ds), r) else (None, s))
       else (None, s)
   | [] \<Rightarrow> (None, s))"

definition json_number :: "string \<Rightarrow> (pyval \<times> string) option" where
  "json_number s =
     (let neg = (case s of c # _ \<Rightarrow> c = CHR ''-'' | [] \<Rightarrow> False);
          body = (if neg then tl s else s)
      in case body of
           [] \<Rightarrow> None
         | c # cs \<Rightarrow>
             if \<not> ascii_digit c then None
             else
               (case (if c = CHR ''0'' then ([c], cs) else take_digits body) of
                  (ds, r1) \<Rightarrow>
                    (case json_frac r1 of
                       (fs, r2) \<Rightarrow>
                         (case json_exp r2 of
                            (ex, r3) \<Rightarrow>
                              let sg = (if neg then - 1 else 1);
                                  m = rat_of_nat (digits_nat (ds @ fs)) / 10 ^ length fs;
                                  k = (case ex of None \<Rightarrow> 1
                                       | Some (eneg, es) \<Rightarrow>
                                           if eneg then 1 / 10 ^ digits_nat es
                                           else 10 ^ digits_nat es);
                                  lexeme = take (length s - length r3) s
                              in if fs = [] \<and> ex = None
                                 then Some (PInt (sg * int (digits_nat ds)), r3)
                                 else Some (PFloat (of_int sg * m * k) lexeme, r3)))))"

definition drop_prefix :: "string \<Rightarrow> string \<Rightarrow> string option" where
  "drop_prefix p s = (if starts_with p s then Some (drop (length p) s) else None)"

definition json_literal :: "string \<Rightarrow> (pyval \<times> string) option" where
  "json_literal s =
     (case drop_prefix ''null'' s of Some r \<Rightarrow> Some (PNone, r) | None \<Rightarrow>
     (case drop_prefix ''true'' s of Some r \<Rightarrow> Some (PBool True, r) | None \<Rightarrow>
     (case drop_prefix ''false'' s of Some r \<Rightarrow> Some (PBool False, r) | None \<Rightarrow>
     (case drop_prefix ''NaN'' s of Some r \<Rightarrow> Some (PFloat 0 ''nan'', r) | None \<Rightarrow>
     (case drop_prefix ''Infinity'' s of Some r \<Rightarrow> Some (PFloat 0 ''inf'', r) | None \<Rightarrow>
     (case drop_prefix ''-Infinity'' s of Some r \<Rightarrow> Some (PFloat 0 ''-inf'', r) | None \<Rightarrow>
       json_number s))))))"

fun json_value :: "nat \<Rightarrow> string \<Rightarrow> (pyval \<times> string) option"
and json_elems :: "nat \<Rightarrow> string \<Rightarrow> (pyval list \<times> string) option"
and json_members :: "nat \<Rightarrow> string \<Rightarrow> ((string \<times> pyval) list \<times> string) option" where
  "json_value 0 s = None"
| "json_value (Suc n) s =
     (case s of
        [] \<Rightarrow> None
      | c # cs \<Rightarrow>
          if c = CHR 0x22 then map_option (\<lambda>(a, r). (PStr a, r)) (json_str cs)
          else if c = CHR ''['' then
            (case skip_ws cs of
               [] \<Rightarrow> None
             | d # ds \<Rightarrow>
                 if d = CHR '']'' then Some (PList [], ds)
                 else map_option (\<lambda>(xs, r). (PList xs, r)) (json_elems n (d # ds)))
          else if c = CHR ''{'' then
            (case skip_ws cs of
               [] \<Rightarrow> None
             | d # ds \<Rightarrow>
                 if d = CHR ''}'' then Some (PDict [], ds)
                 else map_option
                        (\<lambda>(kvs, r). (PDict (fold (\<lambda>(k, v) acc. assoc_set k v acc) kvs []), r))
                        (json_members n (d # ds)))
          else json_literal s)"
| "json_elems 0 s = None"
| "json_elems (Suc n) s =
     (case json_value n s of
        None \<Rightarrow> None
      | Some (v, r) \<Rightarrow>
          (case skip_ws r of
             [] \<Rightarrow> None
           | c # cs \<Rightarrow>
               if c = CHR '']'' then Some ([v], cs)
               else if c = CHR '','' then
                 map_option (\<lambda>(vs, q). (v # vs, q)) (json_elems n (skip_ws cs))
               else None))"
| "json_members 0 s = None"
| "json_members (Suc n) s =
     (case s of
        [] \<Rightarrow> None
      | q # qs \<Rightarrow>
          if q \<noteq> CHR 0x22 then None
          else
            (case json_str qs of
               None \<Rightarrow> None
             | Some (k, r) \<Rightarrow>
                 (case skip_ws r of
                    [] \<Rightarrow> None
                  | c # cs \<Rightarrow>
                      if c \<noteq> CHR '':'' then None
                      else
                        (case json_value n (skip_ws cs) of
                           None \<Rightarrow> None
                         | Some (v, r2) \<Rightarrow>
                             (case skip_ws r2 of
                                [] \<Rightarrow> None
                              | e # es \<Rightarrow>
                                  if e = CHR ''}'' then Some ([(k, v)], es)
                                  else if e = CHR '','' then
                                    map_option (\<lambda>(kvs, t). ((k, v) # kvs, t))
                                      (json_members n (skip_ws es))
                                  else None)))))"

text \<open>
  Every call of the three readers consumes at least one character before or after its recursive
  call, so the length of the text, doubled, is fuel enough. \<open>None\<close> is the \<open>ValueError\<close> of
  \<open>json.loads\<close>.
\<close>

definition json_loads :: "string \<Rightarrow> pyval option" where
  "json_loads s =
     (case json_value (2 * length s + 2) (skip_ws s) of
        Some (v, r) \<Rightarrow> if skip_ws r = [] then Some v else None
      | None \<Rightarrow> None)"

section \<open>Writing a list of strings and reading it back\<close>

lemma char_of_quotes: "char_of (34::nat) = CHR 0x22" "char_of (92::nat) = CHR 0x5C"
  by code_simp+

lemma json_str_escape: "json_str (json_escape c @ t) = push_char c (json_str t)"
proof -
  define n where "n = (of_char c :: nat)"
  have c: "char_of n = c" by (simp add: n_def)
  have n: "n < 256" by (simp add: n_def)
  consider "n = 34" | "n = 92" | "n \<in> {8, 9, 10, 12, 13}" | "n < 32 \<or> 126 < n" "n \<notin> {8, 9, 10, 12, 13}"
    | "32 \<le> n" "n \<le> 126" "n \<noteq> 34" "n \<noteq> 92" by fastforce
  then show ?thesis
  proof cases
    case 4
    then have e: "json_escape c = [CHR 0x5C, CHR ''u'', CHR ''0'', CHR ''0'', hex_char (n div 16), hex_char (n mod 16)]"
      by (auto simp: json_escape_def Let_def n_def)
    have "hex4 CHR ''0'' CHR ''0'' (hex_char (n div 16)) (hex_char (n mod 16)) = Some n"
      using n by (simp add: hex4_def hex_val_def [of "CHR ''0''"])
    then show ?thesis using n by (simp add: e c)
  next
    case 5
    then have "json_escape c = [c]" and "c \<noteq> CHR 0x22" and "c \<noteq> CHR 0x5C"
      by (auto simp: json_escape_def Let_def n_def)
    with 5 show ?thesis by (simp add: n_def)
  qed (auto simp: json_escape_def Let_def n_def [symmetric] c [symmetric] simple_escape_def
      char_of_quotes)
qed

lemma json_str_quote: "json_str (concat (map json_escape s) @ CHR 0x22 # r) = Some (s, r)"
  by (induction s) (simp_all add: json_str_escape del: json_str.simps(2), simp)

lemma json_value_quote: "json_value (Suc n) (json_quote s @ r) = Some (PStr s, r)"
  by (simp add: json_quote_def json_str_quote)

lemma skip_ws_quote [simp]: "skip_ws (json_quote s @ r) = json_quote s @ r"
  by (simp add: skip_ws_def json_quote_def json_ws_def)

lemma json_elems_strs:
  assumes "xs \<noteq> []" and "length xs < n"
  shows "json_elems n (py_join '', '' (map json_quote xs) @ '']'' @ r) = Some (map PStr xs, r)"
  using assms
proof (induction xs arbitrary: n)
  case Nil
  then show ?case by simp
next
  case (Cons x xs)
  from Cons.prems obtain m where n: "n = Suc (Suc m)" by (cases n; cases "n - 1") auto
  show ?case
  proof (cases xs)
    case Nil
    then show ?thesis
      by (simp add: n json_value_quote skip_ws_def json_ws_def del: json_value.simps)
  next
    case (Cons y ys)
    have "py_join '', '' (map json_quote (x # xs)) @ '']'' @ r
        = json_quote x @ '', '' @ py_join '', '' (map json_quote xs) @ '']'' @ r"
      using Cons by simp
    moreover have "skip_ws (CHR '' '' # py_join '', '' (map json_quote xs) @ '']'' @ r)
        = py_join '', '' (map json_quote xs) @ '']'' @ r"
      using Cons by (cases ys) (simp_all add: skip_ws_def json_ws_def json_quote_def)
    moreover have "json_elems (Suc m) (py_join '', '' (map json_quote xs) @ '']'' @ r) = Some (map PStr xs, r)"
      using Cons.IH [of "Suc m"] Cons.prems n Cons by simp
    ultimately show ?thesis
      by (simp add: n json_value_quote skip_ws_def json_ws_def del: json_value.simps)
  qed
qed

lemma length_json_dumps: "length xs \<le> length (py_join '', '' (map json_quote xs))"
proof (induction xs)
  case (Cons x xs)
  then show ?case by (cases xs) (auto simp: json_quote_def)
qed simp

theorem json_loads_dumps: "json_loads (json_dumps_strs xs) = Some (PList (map PStr xs))"
proof (cases "xs = []")
  case True
  then show ?thesis
    by (simp add: json_loads_def json_dumps_strs_def skip_ws_def json_ws_def numeral_eq_Suc)
next
  case False
  let ?s = "py_join '', '' (map json_quote xs)"
  obtain y ys where y: "xs = y # ys" using False by (cases xs) auto
  have sk: "skip_ws (?s @ '']'') = ?s @ '']''"
    using y by (cases ys) (simp_all add: skip_ws_def json_ws_def json_quote_def)
  obtain d ds where d: "?s @ '']'' = d # ds" "d \<noteq> CHR '']''"
    using y by (cases ys) (simp_all add: json_quote_def)
  define m where "m = 2 * length ?s + 5"
  have "json_elems m (?s @ '']'') = Some (map PStr xs, [])"
    using json_elems_strs [OF False, of m "[]"] length_json_dumps [of xs] by (simp add: m_def)
  then have "json_value (Suc m) (''['' @ ?s @ '']'') = Some (PList (map PStr xs), [])"
    using sk d by simp
  moreover have "2 * length (json_dumps_strs xs) + 2 = Suc m"
    by (simp add: m_def json_dumps_strs_def)
  ultimately show ?thesis
    by (simp add: json_loads_def json_dumps_strs_def skip_ws_def json_ws_def
        del: json_value.simps)
qed

end
