(* ===== verification/Store.thy ===== *)
theory Store
  imports PyValue
begin

text \<open>
  The data model of \<open>overstate_ui/models.py\<close>: one record per table that the modelled code reads or
  writes, and the \<open>store\<close>, the database as one session sees it. A table is the list of its rows
  in insertion order; \<open>seq\<close> holds the next value of each integer primary key and \<open>db_now\<close> the
  clock behind \<open>func.now()\<close>, in microseconds since the epoch. Deletes follow the foreign keys the
  models declare (\<open>ON DELETE CASCADE\<close>, \<open>ON DELETE SET NULL\<close>), as PostgreSQL executes them.
\<close>

text \<open>A \<open>datetime\<close> with or without \<open>tzinfo\<close>, as microseconds since the epoch (a naive one read as
  UTC).\<close>

datatype pydt = Naive int | Aware int

fun utc_micros :: "pydt \<Rightarrow> int" where
  "utc_micros (Naive t) = t"
| "utc_micros (Aware t) = t"

record user =
  u_id :: int
  u_username :: string
  u_password_hash :: "string option"
  u_role :: string
  u_kind :: string
  u_oidc_issuer :: "string option"
  u_oidc_sub :: "string option"
  u_created_at :: int

record minion =
  m_id :: string
  m_key_status :: string
  m_last_seen :: "int option"
  m_grains :: pyval
  m_conformity :: pyval

record job =
  j_jid :: string
  j_fun :: string
  j_tgt :: string
  j_tgt_type :: string
  j_user :: string
  j_started_at :: "pydt option"
  j_complete :: bool
  j_batch_group :: "string option"
  j_batch_state :: "(string \<times> pyval) list option"
  j_tgt_requested :: "string option"

record job_return =
  jr_jid :: string
  jr_minion_id :: string
  jr_success :: bool
  jr_retcode :: int
  jr_payload :: pyval

record audit_event =
  a_id :: int
  a_user :: string
  a_action :: string
  a_jid :: "string option"
  a_outcome :: "string option"
  a_permission :: "string option"
  a_minion_id :: "string option"
  a_detail :: "string option"
  a_created_at :: int

record minion_group =
  mg_id :: int
  mg_name :: string
  mg_members :: pyval
  mg_created_at :: int

record local_group =
  lg_id :: int
  lg_name :: string
  lg_created_at :: int

record local_group_member =
  lgm_group_id :: int
  lgm_user_id :: int

record user_idp_group =
  uig_user_id :: int
  uig_group_name :: string

record idp_role_mapping =
  irm_id :: int
  irm_idp_group :: string
  irm_role :: string
  irm_scope_kind :: string
  irm_scope_value :: string
  irm_origin :: string

record grant =
  g_id :: int
  g_subject_kind :: string
  g_subject_user_id :: "int option"
  g_subject_group_id :: "int option"
  g_role :: string
  g_scope_kind :: string
  g_scope_value :: string
  g_source :: string
  g_created_by :: "int option"
  g_created_at :: int

record saved_job =
  sj_id :: int
  sj_name :: string
  sj_fun :: string
  sj_tgt :: string
  sj_tgt_type :: string
  sj_args :: "pyval list"
  sj_batch :: "(string \<times> pyval) list option"

record api_token =
  t_id :: int
  t_user_id :: int
  t_name :: string
  t_token_hash :: string
  t_token_prefix :: string
  t_saved_job_id :: "int option"
  t_expires_at :: "int option"
  t_last_used_at :: "int option"
  t_revoked_at :: "int option"
  t_created_by :: "int option"
  t_created_at :: int

record salt_return =
  sr_fun :: string
  sr_jid :: string
  sr_minion_id :: string
  sr_success :: string
  sr_payload :: pyval
  sr_alter_time :: "pydt option"

record store =
  users :: "user list"
  settings :: "(string \<times> string) list"
  minions :: "minion list"
  jobs :: "job list"
  job_returns :: "job_return list"
  audit_events :: "audit_event list"
  minion_groups :: "minion_group list"
  local_groups :: "local_group list"
  local_group_members :: "local_group_member list"
  user_idp_groups :: "user_idp_group list"
  idp_role_mappings :: "idp_role_mapping list"
  grants :: "grant list"
  saved_jobs :: "saved_job list"
  api_tokens :: "api_token list"
  salt_returns :: "salt_return list"
  seq :: "string \<Rightarrow> int"
  db_now :: int

definition empty_store :: store where
  "empty_store = \<lparr>users = [], settings = [], minions = [], jobs = [], job_returns = [],
     audit_events = [], minion_groups = [], local_groups = [], local_group_members = [],
     user_idp_groups = [], idp_role_mappings = [], grants = [], saved_jobs = [], api_tokens = [],
     salt_returns = [], seq = (\<lambda>_. 1), db_now = 0\<rparr>"

section \<open>Keyed tables\<close>

text \<open>\<open>session.get\<close>, an update of the row with a key, and a delete by predicate.\<close>

fun find_row :: "('r \<Rightarrow> 'k) \<Rightarrow> 'k \<Rightarrow> 'r list \<Rightarrow> 'r option" where
  "find_row key k [] = None"
| "find_row key k (r # rs) = (if key r = k then Some r else find_row key k rs)"

definition update_rows :: "('r \<Rightarrow> bool) \<Rightarrow> ('r \<Rightarrow> 'r) \<Rightarrow> 'r list \<Rightarrow> 'r list" where
  "update_rows P f rs = map (\<lambda>r. if P r then f r else r) rs"

definition delete_rows :: "('r \<Rightarrow> bool) \<Rightarrow> 'r list \<Rightarrow> 'r list" where
  "delete_rows P rs = filter (\<lambda>r. \<not> P r) rs"

lemma find_row_Some: "find_row key k rs = Some r \<Longrightarrow> r \<in> set rs \<and> key r = k"
  by (induction key k rs rule: find_row.induct) (auto split: if_splits)

lemma find_row_None: "find_row key k rs = None \<longleftrightarrow> k \<notin> key ` set rs"
  by (induction key k rs rule: find_row.induct) auto

lemma find_row_append:
  "find_row key k (rs @ ss) = (case find_row key k rs of None \<Rightarrow> find_row key k ss | Some r \<Rightarrow> Some r)"
  by (induction key k rs rule: find_row.induct) auto

lemma find_row_update:
  assumes "\<And>r. key (f r) = key r"
  shows "find_row key k (update_rows (\<lambda>r. key r = k') f rs)
    = (if k = k' then map_option f (find_row key k rs) else find_row key k rs)"
  using assms by (induction rs) (auto simp: update_rows_def)

lemma find_row_delete: "find_row key k (delete_rows (\<lambda>r. key r = k) rs) = None"
  by (auto simp: find_row_None delete_rows_def)

lemma find_row_delete_other:
  "k \<noteq> k' \<Longrightarrow> find_row key k (delete_rows (\<lambda>r. key r = k') rs) = find_row key k rs"
  by (induction rs) (auto simp: delete_rows_def)

lemma set_delete_rows [simp]: "set (delete_rows P rs) = {r \<in> set rs. \<not> P r}"
  by (auto simp: delete_rows_def)

lemma length_update_rows [simp]: "length (update_rows P f rs) = length rs"
  by (simp add: update_rows_def)

text \<open>
  The contract of a keyed table as its clients use it: what a lookup returns after an insert, an
  update and a delete. The laws hold for a key that inserts keep fresh.
\<close>

locale keyed_table =
  fixes lookup :: "'s \<Rightarrow> 'k \<Rightarrow> 'r option"
    and insert_row :: "'r \<Rightarrow> 's \<Rightarrow> 's"
    and delete_row :: "'k \<Rightarrow> 's \<Rightarrow> 's"
    and row_key :: "'r \<Rightarrow> 'k"
  assumes lookup_key: "lookup s k = Some r \<Longrightarrow> row_key r = k"
    and lookup_insert: "lookup s (row_key r) = None \<Longrightarrow>
      lookup (insert_row r s) k = (if k = row_key r then Some r else lookup s k)"
    and lookup_delete: "lookup (delete_row k s) k' = (if k' = k then None else lookup s k')"
begin

lemma insert_then_delete:
  "lookup s (row_key r) = None \<Longrightarrow> lookup (delete_row (row_key r) (insert_row r s)) k = lookup s k"
  by (simp add: lookup_delete lookup_insert)

lemma delete_idem: "lookup (delete_row k (delete_row k s)) k' = lookup (delete_row k s) k'"
  by (simp add: lookup_delete)

lemma delete_commute:
  "lookup (delete_row k (delete_row k' s)) i = lookup (delete_row k' (delete_row k s)) i"
  by (simp add: lookup_delete)

end

section \<open>Row lookups\<close>

definition user_by_id :: "store \<Rightarrow> int \<Rightarrow> user option" where
  "user_by_id db i = find_row u_id i (users db)"

definition user_by_name :: "store \<Rightarrow> string \<Rightarrow> user option" where
  "user_by_name db n = find_row u_username n (users db)"

definition minion_by_id :: "store \<Rightarrow> string \<Rightarrow> minion option" where
  "minion_by_id db i = find_row m_id i (minions db)"

definition job_by_jid :: "store \<Rightarrow> string \<Rightarrow> job option" where
  "job_by_jid db j = find_row j_jid j (jobs db)"

definition grant_by_id :: "store \<Rightarrow> int \<Rightarrow> grant option" where
  "grant_by_id db i = find_row g_id i (grants db)"

definition local_group_by_id :: "store \<Rightarrow> int \<Rightarrow> local_group option" where
  "local_group_by_id db i = find_row lg_id i (local_groups db)"

definition minion_group_by_id :: "store \<Rightarrow> int \<Rightarrow> minion_group option" where
  "minion_group_by_id db i = find_row mg_id i (minion_groups db)"

definition minion_group_by_name :: "store \<Rightarrow> string \<Rightarrow> minion_group option" where
  "minion_group_by_name db n = find_row mg_name n (minion_groups db)"

definition saved_job_by_id :: "store \<Rightarrow> int \<Rightarrow> saved_job option" where
  "saved_job_by_id db i = find_row sj_id i (saved_jobs db)"

definition token_by_id :: "store \<Rightarrow> int \<Rightarrow> api_token option" where
  "token_by_id db i = find_row t_id i (api_tokens db)"

definition setting_row :: "store \<Rightarrow> string \<Rightarrow> string option" where
  "setting_row db k = map_of (settings db) k"

lemmas row_lookups = user_by_id_def user_by_name_def minion_by_id_def job_by_jid_def
  grant_by_id_def local_group_by_id_def minion_group_by_id_def minion_group_by_name_def
  saved_job_by_id_def token_by_id_def setting_row_def

section \<open>Inserts, updates and deletes\<close>

definition bump :: "string \<Rightarrow> store \<Rightarrow> store" where [store_defs]:
  "bump t db = db\<lparr>seq := (seq db)(t := seq db t + 1)\<rparr>"

definition put_setting :: "string \<Rightarrow> string \<Rightarrow> store \<Rightarrow> store" where [store_defs]:
  "put_setting k v db = db\<lparr>settings := assoc_set k v (settings db)\<rparr>"

definition insert_user :: "user \<Rightarrow> store \<Rightarrow> store" where
  "insert_user u db = db\<lparr>users := users db @ [u]\<rparr>"

definition set_user_role :: "int \<Rightarrow> string \<Rightarrow> store \<Rightarrow> store" where
  "set_user_role uid r db = db\<lparr>users := update_rows (\<lambda>u. u_id u = uid) (\<lambda>u. u\<lparr>u_role := r\<rparr>) (users db)\<rparr>"

definition forget_creator :: "int \<Rightarrow> int option \<Rightarrow> int option" where
  "forget_creator uid c = (if c = Some uid then None else c)"

text \<open>Deleting a user cascades to its grants, memberships, provider groups and tokens.\<close>

definition delete_user_row :: "int \<Rightarrow> store \<Rightarrow> store" where
  "delete_user_row uid db = db\<lparr>
     users := delete_rows (\<lambda>u. u_id u = uid) (users db),
     grants := map (\<lambda>g. g\<lparr>g_created_by := forget_creator uid (g_created_by g)\<rparr>)
       (delete_rows (\<lambda>g. g_subject_user_id g = Some uid) (grants db)),
     local_group_members := delete_rows (\<lambda>r. lgm_user_id r = uid) (local_group_members db),
     user_idp_groups := delete_rows (\<lambda>r. uig_user_id r = uid) (user_idp_groups db),
     api_tokens := map (\<lambda>t. t\<lparr>t_created_by := forget_creator uid (t_created_by t)\<rparr>)
       (delete_rows (\<lambda>t. t_user_id t = uid) (api_tokens db))\<rparr>"

definition insert_grant :: "grant \<Rightarrow> store \<Rightarrow> store" where
  "insert_grant g db = db\<lparr>grants := grants db @ [g]\<rparr>"

definition delete_grant_row :: "int \<Rightarrow> store \<Rightarrow> store" where
  "delete_grant_row gid db = db\<lparr>grants := delete_rows (\<lambda>g. g_id g = gid) (grants db)\<rparr>"

definition insert_local_group :: "local_group \<Rightarrow> store \<Rightarrow> store" where
  "insert_local_group g db = db\<lparr>local_groups := local_groups db @ [g]\<rparr>"

definition delete_local_group_row :: "int \<Rightarrow> store \<Rightarrow> store" where
  "delete_local_group_row gid db = db\<lparr>
     local_groups := delete_rows (\<lambda>g. lg_id g = gid) (local_groups db),
     local_group_members := delete_rows (\<lambda>r. lgm_group_id r = gid) (local_group_members db),
     grants := delete_rows (\<lambda>g. g_subject_group_id g = Some gid) (grants db)\<rparr>"

text \<open>The key a grant's partial unique indexes compare, per kind of subject.\<close>

definition grant_key :: "grant \<Rightarrow> int option \<times> int option \<times> string \<times> string \<times> string" where
  "grant_key g = (g_subject_user_id g, g_subject_group_id g, g_role g, g_scope_kind g, g_scope_value g)"

definition one_subject :: "grant \<Rightarrow> bool" where
  "one_subject g = ((g_subject_user_id g = None) \<noteq> (g_subject_group_id g = None))"

text \<open>
  \<open>session.add(Grant(...)); session.commit()\<close>: a violated constraint (the one-subject check, the
  unique index, a dangling subject) raises \<open>IntegrityError\<close>.
\<close>

definition add_grant :: "grant \<Rightarrow> store \<Rightarrow> store res" where
  "add_grant g db =
     (if \<not> one_subject g \<or> grant_key g \<in> grant_key ` set (grants db)
         \<or> \<not> pred_option (\<lambda>u. user_by_id db u \<noteq> None) (g_subject_user_id g)
         \<or> \<not> pred_option (\<lambda>i. local_group_by_id db i \<noteq> None) (g_subject_group_id g)
      then Inl IntegrityError
      else Inr (bump ''grants'' (insert_grant (g\<lparr>g_id := seq db ''grants'', g_created_at := db_now db\<rparr>) db)))"

interpretation users: keyed_table user_by_id insert_user delete_user_row u_id
  by unfold_locales
    (auto simp: user_by_id_def insert_user_def delete_user_row_def find_row_append find_row_delete
      find_row_delete_other split: option.splits dest: find_row_Some)

interpretation grants: keyed_table grant_by_id insert_grant delete_grant_row g_id
  by unfold_locales
    (auto simp: grant_by_id_def insert_grant_def delete_grant_row_def find_row_append
      find_row_delete find_row_delete_other split: option.splits dest: find_row_Some)

interpretation local_groups: keyed_table local_group_by_id insert_local_group
    delete_local_group_row lg_id
  by unfold_locales
    (auto simp: local_group_by_id_def insert_local_group_def delete_local_group_row_def
      find_row_append find_row_delete find_row_delete_other split: option.splits
      dest: find_row_Some)

section \<open>The audit trail\<close>

text \<open>\<open>audit.log_event\<close>: append a row and commit.\<close>

definition log_event ::
  "string \<Rightarrow> string \<Rightarrow> string option \<Rightarrow> string option \<Rightarrow> string option \<Rightarrow> string option
   \<Rightarrow> string option \<Rightarrow> store \<Rightarrow> store" where
  "log_event user action jid outcome permission minion_id detail db =
     bump ''audit_events'' (db\<lparr>audit_events := audit_events db @
       [\<lparr>a_id = seq db ''audit_events'', a_user = user, a_action = action, a_jid = jid,
         a_outcome = outcome, a_permission = permission, a_minion_id = minion_id,
         a_detail = detail, a_created_at = db_now db\<rparr>]\<rparr>)"

text \<open>Everything but the audit trail and its counter is unchanged: what a refused request may do.\<close>

definition same_but_audit :: "store \<Rightarrow> store \<Rightarrow> bool" where
  "same_but_audit db db' = (\<exists>new n.
     db' = db\<lparr>audit_events := audit_events db @ new, seq := (seq db)(''audit_events'' := n)\<rparr>)"

lemma same_but_audit_refl [simp, intro]: "same_but_audit db db"
  unfolding same_but_audit_def by (rule exI [of _ "[]"], rule exI [of _ "seq db ''audit_events''"]) simp

lemma same_but_audit_log [simp, intro]:
  "same_but_audit db (log_event u a j out p m d db)"
  unfolding same_but_audit_def log_event_def bump_def by (intro exI) simp

lemma same_but_audit_trans [trans]:
  assumes "same_but_audit db1 db2" and "same_but_audit db2 db3"
  shows "same_but_audit db1 db3"
proof -
  obtain x n where 1: "db2 = db1\<lparr>audit_events := audit_events db1 @ x, seq := (seq db1)(''audit_events'' := n)\<rparr>"
    using assms(1) by (auto simp: same_but_audit_def)
  obtain y k where 2: "db3 = db2\<lparr>audit_events := audit_events db2 @ y, seq := (seq db2)(''audit_events'' := k)\<rparr>"
    using assms(2) by (auto simp: same_but_audit_def)
  show ?thesis
    unfolding same_but_audit_def
    by (rule exI [of _ "x @ y"], rule exI [of _ k]) (simp add: 1 2)
qed

lemma same_but_audit_tables:
  assumes "same_but_audit db db'"
  shows "users db' = users db" "settings db' = settings db" "minions db' = minions db"
    "jobs db' = jobs db" "job_returns db' = job_returns db" "grants db' = grants db"
    "minion_groups db' = minion_groups db" "local_groups db' = local_groups db"
    "local_group_members db' = local_group_members db"
    "user_idp_groups db' = user_idp_groups db" "idp_role_mappings db' = idp_role_mappings db"
    "saved_jobs db' = saved_jobs db" "api_tokens db' = api_tokens db"
    "salt_returns db' = salt_returns db"
  using assms by (auto simp: same_but_audit_def)

lemma log_event_tables [simp]:
  "users (log_event u a j out p m d db) = users db"
  "settings (log_event u a j out p m d db) = settings db"
  "minions (log_event u a j out p m d db) = minions db"
  "jobs (log_event u a j out p m d db) = jobs db"
  "job_returns (log_event u a j out p m d db) = job_returns db"
  "grants (log_event u a j out p m d db) = grants db"
  "minion_groups (log_event u a j out p m d db) = minion_groups db"
  "local_groups (log_event u a j out p m d db) = local_groups db"
  "local_group_members (log_event u a j out p m d db) = local_group_members db"
  "user_idp_groups (log_event u a j out p m d db) = user_idp_groups db"
  "idp_role_mappings (log_event u a j out p m d db) = idp_role_mappings db"
  "saved_jobs (log_event u a j out p m d db) = saved_jobs db"
  "api_tokens (log_event u a j out p m d db) = api_tokens db"
  "salt_returns (log_event u a j out p m d db) = salt_returns db"
  "db_now (log_event u a j out p m d db) = db_now db"
  by (simp_all add: log_event_def bump_def)

lemma log_event_seq [simp]:
  "t \<noteq> ''audit_events'' \<Longrightarrow> seq (log_event u a j out p m d db) t = seq db t"
  by (simp add: log_event_def bump_def)

section \<open>Well-formedness of the authorization tables\<close>

text \<open>
  Primary keys are distinct and below their sequence, the unique indexes hold, and every foreign
  key resolves.
\<close>

definition wf_keys :: "store \<Rightarrow> bool" where
  "wf_keys db =
     (distinct (map u_id (users db)) \<and> distinct (map u_username (users db))
      \<and> distinct (map g_id (grants db)) \<and> distinct (map lg_id (local_groups db))
      \<and> distinct (map lg_name (local_groups db))
      \<and> list_all (\<lambda>u. u_id u < seq db ''users'') (users db)
      \<and> list_all (\<lambda>g. g_id g < seq db ''grants'') (grants db)
      \<and> list_all (\<lambda>g. lg_id g < seq db ''local_groups'') (local_groups db))"

definition wf_grants :: "store \<Rightarrow> bool" where
  "wf_grants db =
     (distinct (map grant_key (grants db)) \<and> list_all one_subject (grants db)
      \<and> list_all (\<lambda>g. g_subject_kind g
            = (if g_subject_user_id g = None then ''local_group'' else ''user'')) (grants db)
      \<and> list_all (\<lambda>g. pred_option (\<lambda>u. user_by_id db u \<noteq> None) (g_subject_user_id g)
            \<and> pred_option (\<lambda>i. local_group_by_id db i \<noteq> None) (g_subject_group_id g))
          (grants db))"

definition wf_members :: "store \<Rightarrow> bool" where
  "wf_members db =
     (distinct (map (\<lambda>r. (lgm_group_id r, lgm_user_id r)) (local_group_members db))
      \<and> list_all (\<lambda>r. user_by_id db (lgm_user_id r) \<noteq> None
            \<and> local_group_by_id db (lgm_group_id r) \<noteq> None) (local_group_members db))"

definition wf_store :: "store \<Rightarrow> bool" where
  "wf_store db = (wf_keys db \<and> wf_grants db \<and> wf_members db)"

lemmas wf_defs = wf_store_def wf_keys_def wf_grants_def wf_members_def row_lookups

lemma wf_store_log_event [wf_intros]:
  "wf_store db \<Longrightarrow> wf_store (log_event u a j out p m d db)"
  by (simp add: wf_defs)

lemma wf_empty: "wf_store empty_store"
  by (simp add: wf_defs empty_store_def)

end
