(* ===== verification/Catalog.thy ===== *)
theory Catalog
  imports Store
begin

text \<open>
  The permission catalog of \<open>overstate_ui/authz.py\<close>: the built-in roles with their permission
  sets, the roles that are granted on the whole fleet only, the permissions that need a fleet or a
  prefix scope, and the function classes; with the function allowlist of
  \<open>overstate_ui/jobs_helpers.py\<close> and the snapshot grains of \<open>overstate_ui/inventory.py\<close>.
\<close>

definition LADDER_ROLES :: "string list" where [authz_defs]:
  "LADDER_ROLES = [''viewer'', ''operator'', ''admin'']"

definition FLEET_ONLY_ROLES :: "string set" where [authz_defs]:
  "FLEET_ONLY_ROLES = set [''viewer'', ''operator'', ''admin'', ''security-reader'', ''auditor'',
    ''key-custodian'']"

definition VIEWER_PERMS :: "string set" where [authz_defs]:
  "VIEWER_PERMS = set [
    ''minion.read'', ''minion.onboard'', ''pillar.read'', ''mine.read'', ''job.read'',
    ''state.read'', ''schedule.read'', ''beacon.read'', ''group.read'', ''file.read'',
    ''reactor.read'', ''event.read'', ''audit.read'', ''key.read'', ''settings.read'']"

definition OPERATOR_DELTA :: "string set" where [authz_defs]:
  "OPERATOR_DELTA = set [
    ''minion.refresh'', ''minion.remove'', ''pillar.capture'', ''job.run.read'',
    ''job.run.change'', ''job.run.state'', ''job.run.orchestrate'', ''job.kill'', ''job.save'',
    ''job.batch'', ''key.accept'', ''key.delete'', ''schedule.write'', ''beacon.write'',
    ''group.write'', ''file.write'', ''file.sync'', ''reactor.write'', ''state.watch'',
    ''console.runner'', ''dashboard.probe'', ''pillar.secret.write'']"

definition ADMIN_DELTA :: "string set" where [authz_defs]:
  "ADMIN_DELTA = set [
    ''file.git'', ''reactor.persist'', ''master.read'', ''master.write'', ''master.rollout'',
    ''settings.write'', ''settings.rotate_eauth'', ''user.read'', ''user.admin'',
    ''grant.admin'']"

definition TEAM_VIEWER_PERMS :: "string set" where [authz_defs]:
  "TEAM_VIEWER_PERMS = set [
    ''minion.read'', ''job.read'', ''state.read'', ''schedule.read'', ''beacon.read'',
    ''group.read'', ''key.read'']"

definition TEAM_OPERATOR_DELTA :: "string set" where [authz_defs]:
  "TEAM_OPERATOR_DELTA = set [
    ''minion.refresh'', ''job.run.read'', ''job.run.change'', ''job.kill'', ''job.save'',
    ''job.batch'', ''pillar.secret.write'']"

text \<open>\<open>ROLE_PERMS.get(role)\<close>\<close>

definition ROLE_NAMES :: "string list" where [authz_defs]:
  "ROLE_NAMES = [''viewer'', ''operator'', ''admin'', ''team-viewer'', ''team-operator'', ''team-state'',
    ''secrets-reader'', ''scheduler'', ''security-reader'', ''auditor'', ''key-custodian'',
    ''file-reader'', ''file-editor'', ''team-lead'']"

definition ROLE_PERMS :: "string \<Rightarrow> string set option" where [authz_defs]:
  "ROLE_PERMS role =
     (if role = ''viewer'' then Some VIEWER_PERMS
      else if role = ''operator'' then Some (VIEWER_PERMS \<union> OPERATOR_DELTA)
      else if role = ''admin'' then Some (VIEWER_PERMS \<union> OPERATOR_DELTA \<union> ADMIN_DELTA)
      else if role = ''team-viewer'' then Some TEAM_VIEWER_PERMS
      else if role = ''team-operator'' then Some (TEAM_VIEWER_PERMS \<union> TEAM_OPERATOR_DELTA)
      else if role = ''team-state''
        then Some (TEAM_VIEWER_PERMS \<union> TEAM_OPERATOR_DELTA \<union> set [''job.run.state''])
      else if role = ''secrets-reader'' then Some (set [''minion.read'', ''pillar.read'', ''mine.read''])
      else if role = ''scheduler'' then Some (set [
    ''minion.read'', ''schedule.read'', ''schedule.write'', ''schedule.allow.read'',
    ''schedule.allow.change'', ''schedule.allow.state'', ''beacon.read'', ''beacon.write''])
      else if role = ''security-reader'' then Some (set [
    ''minion.read'', ''job.read'', ''state.read'', ''schedule.read'', ''beacon.read'',
    ''key.read'', ''audit.read'', ''group.read'', ''file.read'', ''reactor.read''])
      else if role = ''auditor'' then Some (set [
    ''audit.read'', ''minion.read'', ''job.read'', ''state.read'', ''schedule.read'',
    ''key.read'', ''group.read'', ''settings.read''])
      else if role = ''key-custodian'' then Some (set [
    ''key.read'', ''key.accept'', ''key.delete'', ''minion.read'', ''minion.remove'',
    ''minion.onboard''])
      else if role = ''file-reader'' then Some (set [''file.read''])
      else if role = ''file-editor'' then Some (set [''file.read'', ''file.write''])
      else if role = ''team-lead'' then Some (TEAM_VIEWER_PERMS \<union> TEAM_OPERATOR_DELTA \<union> set [
    ''job.run.state'', ''grant.delegate'', ''group.write'', ''user.read'', ''audit.read''])
      else None)"

definition ALL_PERMS :: "string set" where [authz_defs]:
  "ALL_PERMS = \<Union> (set (map (\<lambda>r. case ROLE_PERMS r of None \<Rightarrow> {} | Some p \<Rightarrow> p) ROLE_NAMES))"

definition LEGACY_FLOOR_PERMS :: "int \<Rightarrow> string set" where [authz_defs]:
  "LEGACY_FLOOR_PERMS n =
     (if n = 0 then ALL_PERMS else if n = 1 then OPERATOR_DELTA
      else if n = 2 then ADMIN_DELTA else {})"

definition FLEET_DOMAIN_PERMS :: "string set" where [authz_defs]:
  "FLEET_DOMAIN_PERMS = set [
    ''minion.onboard'', ''job.run.orchestrate'', ''key.accept'', ''state.watch'',
    ''file.sync'', ''file.git'', ''reactor.read'', ''reactor.write'', ''reactor.persist'',
    ''event.read'', ''master.read'', ''master.write'', ''master.rollout'', ''settings.read'',
    ''settings.write'', ''settings.rotate_eauth'', ''user.admin'', ''grant.admin'',
    ''console.runner'', ''dashboard.probe'', ''pillar.secret.write'']"

definition PREFIX_DOMAIN_PERMS :: "string set" where [authz_defs]:
  "PREFIX_DOMAIN_PERMS = set [''file.read'', ''file.write'']"

definition DELEGATE_PERMS :: "string set" where [authz_defs]:
  "DELEGATE_PERMS = set [''user.read'', ''audit.read'']"

definition API_READ_FUNS :: "string set" where [authz_defs]:
  "API_READ_FUNS = set [
    ''test.ping'', ''service.status'', ''schedule.list'', ''beacons.list'', ''sys.doc'',
    ''sys.list_functions'']"

definition READ_CLASS :: "string set" where [authz_defs]:
  "READ_CLASS = set [
    ''test.ping'', ''service.status'', ''schedule.list'', ''beacons.list'', ''sys.doc'',
    ''sys.list_functions'']"

definition CHANGE_CLASS :: "string set" where [authz_defs]:
  "CHANGE_CLASS = set [
    ''pkg.install'', ''pkg.remove'', ''service.restart'', ''ps.kill_pid'', ''mine.update'',
    ''saltutil.sync_all'', ''saltutil.refresh_pillar'']"

definition STATE_CLASS :: "string set" where [authz_defs]:
  "STATE_CLASS = set [''state.apply'', ''state.highstate'', ''state.show_sls'']"

datatype domain = Fleet | Prefix | Delegate | Minion

definition perm_domain :: "string \<Rightarrow> domain" where [authz_defs]:
  "perm_domain perm =
     (if perm \<in> FLEET_DOMAIN_PERMS then Fleet
      else if perm \<in> PREFIX_DOMAIN_PERMS then Prefix
      else if perm \<in> DELEGATE_PERMS then Delegate
      else Minion)"

section \<open>Function classes\<close>

text \<open>The functions of the preset and operation tables, and the rest of the allowlist.\<close>

definition PRESET_FUNS :: "string list" where
  "PRESET_FUNS = [''pkg.install'', ''pkg.remove'', ''service.restart'', ''service.status'',
    ''ps.kill_pid'', ''service.restart'', ''mine.update'', ''schedule.run_job'',
    ''saltutil.refresh_pillar'', ''saltutil.sync_all'']"

definition OPERATION_FUNS :: "string list" where
  "OPERATION_FUNS = [''test.ping'', ''state.apply'', ''state.highstate'', ''state.highstate'',
    ''pkg.install'', ''pkg.remove'', ''service.restart'', ''service.status'', ''ps.kill_pid'',
    ''service.restart'', ''mine.update'', ''saltutil.refresh_pillar'', ''saltutil.sync_all'',
    ''schedule.run_job'']"

definition ALLOWED_FUNS :: "string set" where
  "ALLOWED_FUNS = set OPERATION_FUNS \<union> set PRESET_FUNS \<union> set [
    ''schedule.list'', ''schedule.add'', ''schedule.enable_job'', ''schedule.disable_job'',
    ''schedule.delete'', ''beacons.list'', ''beacons.enable_beacon'',
    ''beacons.disable_beacon'', ''grains.items'', ''pillar.items'', ''mine.get'', ''sys.doc'',
    ''sys.list_functions'', ''state.show_highstate'', ''state.show_sls'',
    ''saltutil.kill_job'', ''schedule.run_job'']"

definition DESTRUCTIVE_FUNS :: "string set" where
  "DESTRUCTIVE_FUNS = set [''pkg.install'', ''pkg.remove'', ''service.restart'', ''ps.kill_pid'']"

definition CONFIRM_FUNS :: "string set" where
  "CONFIRM_FUNS = DESTRUCTIVE_FUNS \<union> set [''state.apply'', ''state.highstate'', ''state.orchestrate'',
    ''saltutil.sync_all'', ''saltutil.refresh_pillar'']"

definition function_class :: "string \<Rightarrow> string option" where [authz_defs]:
  "function_class fun =
     (if fun \<in> READ_CLASS then Some ''read''
      else if fun \<in> CHANGE_CLASS then Some ''change''
      else if fun \<in> STATE_CLASS then Some ''state''
      else if fun = ''state.orchestrate'' then Some ''orchestrate''
      else None)"

definition publish_perm :: "string \<Rightarrow> string option" where [authz_defs]:
  "publish_perm fun =
     (let cls = function_class fun in
      if cls \<in> set [Some ''read'', Some ''change'', Some ''state''] then Some (''job.run.'' @ the cls)
      else if fun \<in> set [''pillar.items'', ''grains.items'', ''state.show_highstate'']
        then Some ''pillar.read''
      else if fun = ''mine.get'' then Some ''mine.read''
      else if fun \<in> set [''beacons.enable_beacon'', ''beacons.disable_beacon''] then Some ''beacon.write''
      else if fun = ''saltutil.kill_job'' then Some ''job.kill''
      else if fun = ''schedule.add'' \<or> starts_with ''schedule.'' fun \<and> fun \<in> ALLOWED_FUNS
        then Some ''schedule.write''
      else None)"

definition SNAPSHOT_GRAINS :: "string list" where
  "SNAPSHOT_GRAINS = [''os'', ''osfinger'', ''osrelease'', ''fqdn'', ''ipv4'', ''cpuarch'', ''num_cpus'',
    ''mem_total'', ''virtual'', ''saltversion'', ''proxytype'', ''proxyid'']"

section \<open>Facts about the catalog\<close>

lemma ROLE_PERMS_names: "ROLE_PERMS r = Some p \<Longrightarrow> r \<in> set ROLE_NAMES"
  unfolding ROLE_PERMS_def ROLE_NAMES_def by (simp split: if_splits)

text \<open>Membership in the catalog, evaluated role by role.\<close>

lemma ALL_PERMS_member [code_unfold]:
  "perm \<in> ALL_PERMS \<longleftrightarrow>
     list_ex (\<lambda>r. perm \<in> (case ROLE_PERMS r of None \<Rightarrow> {} | Some p \<Rightarrow> p)) ROLE_NAMES"
  by (auto simp: ALL_PERMS_def list_ex_iff)

lemma ROLE_PERMS_all: "ROLE_PERMS r = Some p \<Longrightarrow> x \<in> p \<Longrightarrow> x \<in> ALL_PERMS"
  using ROLE_PERMS_names [of r p] by (auto simp: ALL_PERMS_def intro!: bexI [of _ r])

text \<open>A permission of the delegate or the fleet domain is not a minion-domain one, and so on.\<close>

lemma domain_cases:
  "perm_domain p = Fleet \<longleftrightarrow> p \<in> FLEET_DOMAIN_PERMS"
  "perm_domain p = Prefix \<longleftrightarrow> p \<in> PREFIX_DOMAIN_PERMS"
  "perm_domain p = Delegate \<longleftrightarrow> p \<in> DELEGATE_PERMS"
  by (auto simp: authz_defs)

lemma grant_delegate_minion: "perm_domain ''grant.delegate'' = Minion"
  by code_simp

text \<open>Only the administrator role carries \<open>grant.admin\<close> and \<open>user.admin\<close>.\<close>

lemma admin_only_table:
  "list_all (\<lambda>r. (case ROLE_PERMS r of None \<Rightarrow> False
      | Some p \<Rightarrow> (''grant.admin'' \<in> p) = (r = ''admin'') \<and> (''user.admin'' \<in> p) = (r = ''admin'')))
    ROLE_NAMES"
  by code_simp

lemma admin_only:
  assumes "ROLE_PERMS r = Some p"
  shows "''grant.admin'' \<in> p \<longleftrightarrow> r = ''admin''" and "''user.admin'' \<in> p \<longleftrightarrow> r = ''admin''"
  using admin_only_table ROLE_PERMS_names [OF assms] assms by (auto simp: list_all_iff dest!: bspec)

lemma publish_perm_run:
  "function_class f = Some c \<Longrightarrow> c \<noteq> ''orchestrate'' \<Longrightarrow> publish_perm f = Some (''job.run.'' @ c)"
  by (auto simp: publish_perm_def function_class_def split: if_splits)

lemma publish_perm_orchestrate: "publish_perm ''state.orchestrate'' = None"
  by code_simp

end
