(* ===== verification/Fnmatch.thy ===== *)
theory Fnmatch
  imports Prelude
begin

text \<open>
  \<open>fnmatch.fnmatchcase\<close> of Python's standard library, the matcher behind glob scopes, glob
  targets and glob grain values. A pattern is translated to tokens the way
  \<open>fnmatch.translate\<close> does it, the treatment of ranges, of empty ranges, of an unclosed
  bracket and of a leading \<open>!\<close> included, and the tokens are matched against the whole name.
\<close>

datatype tok =
    Star
  | AnyChar
  | Lit char
  | Cls bool "(char \<times> char) list"  \<comment> \<open>negated?, inclusive ranges\<close>
  | Never

definition in_ranges :: "char \<Rightarrow> (char \<times> char) list \<Rightarrow> bool" where
  "in_ranges c rs = list_ex (\<lambda>(a, b). a \<le> c \<and> c \<le> b) rs"

fun tok_char :: "tok \<Rightarrow> char \<Rightarrow> bool" where
  "tok_char Star c = False"
| "tok_char AnyChar c = True"
| "tok_char (Lit d) c = (c = d)"
| "tok_char (Cls neg rs) c = (in_ranges c rs \<noteq> neg)"
| "tok_char Never c = False"

fun tok_match :: "tok list \<Rightarrow> string \<Rightarrow> bool" where
  "tok_match [] s = (s = [])"
| "tok_match (Star # ts) [] = tok_match ts []"
| "tok_match (Star # ts) (c # cs) = (tok_match ts (c # cs) \<or> tok_match (Star # ts) cs)"
| "tok_match (t # ts) [] = False"
| "tok_match (t # ts) (c # cs) = (tok_char t c \<and> tok_match ts cs)"

section \<open>Bracket expressions\<close>

text \<open>The first hyphen at index \<open>k\<close> or later.\<close>

fun find_dash :: "nat \<Rightarrow> nat \<Rightarrow> string \<Rightarrow> nat option" where
  "find_dash k i [] = None"
| "find_dash k i (c # cs) = (if k \<le> i \<and> c = CHR ''-'' then Some i else find_dash k (Suc i) cs)"

lemma find_dash_bound: "find_dash k i s = Some j \<Longrightarrow> k \<le> j \<and> i \<le> j \<and> j < i + length s"
  by (induction k i s rule: find_dash.induct) (auto split: if_splits)

text \<open>
  The pieces between the hyphens that build ranges. A hyphen builds a range only when a character
  stands before it and the one before that does not end a range; a hyphen at the very end belongs
  to the last piece.
\<close>

function range_chunks :: "nat \<Rightarrow> string \<Rightarrow> string list" where
  "range_chunks k s =
     (case find_dash k 0 s of
        None \<Rightarrow> [s]
      | Some j \<Rightarrow>
          (if drop (Suc j) s = [] then [take j s @ ''-'']
           else take j s # range_chunks 2 (drop (Suc j) s)))"
  by pat_completeness auto
termination
  by (relation "measure (\<lambda>(k, s). length s)") (auto dest: find_dash_bound)

declare range_chunks.simps [simp del]

text \<open>Neighbouring pieces whose range would be empty are merged, from the right.\<close>

fun drop_empty_ranges :: "string list \<Rightarrow> string list" where
  "drop_empty_ranges [] = []"
| "drop_empty_ranges (x # xs) =
     (case drop_empty_ranges xs of
        [] \<Rightarrow> [x]
      | y # ys \<Rightarrow>
          if x \<noteq> [] \<and> y \<noteq> [] \<and> last x > hd y then (butlast x @ tl y) # ys
          else x # y # ys)"

definition single :: "char \<Rightarrow> char \<times> char" where
  "single c = (c, c)"

text \<open>The last character of a piece starts a range that the first of the next one ends.\<close>

fun chunk_ranges :: "string list \<Rightarrow> (char \<times> char) list" where
  "chunk_ranges [] = []"
| "chunk_ranges [x] = map single x"
| "chunk_ranges (x # y # ys) =
     (if x = [] \<or> y = [] then map single x @ chunk_ranges (y # ys)
      else map single (butlast x) @ (last x, hd y) # chunk_ranges (tl y # ys))"

definition bracket_tok :: "string \<Rightarrow> tok" where
  "bracket_tok stuff =
     (let neg = (case stuff of c # _ \<Rightarrow> c = CHR ''!'' | [] \<Rightarrow> False);
          chunks = drop_empty_ranges (range_chunks (if neg then 2 else 1) stuff)
      in case chunks of
           [] \<Rightarrow> Never
         | x # xs \<Rightarrow>
             if x = [] \<and> xs = [] then Never
             else if x = ''!'' \<and> xs = [] then AnyChar
             else if x \<noteq> [] \<and> hd x = CHR ''!'' then Cls True (chunk_ranges (tl x # xs))
             else Cls False (chunk_ranges (x # xs)))"

fun find_close :: "string \<Rightarrow> (string \<times> string) option" where
  "find_close [] = None"
| "find_close (c # cs) =
     (if c = CHR '']'' then Some ([], cs)
      else map_option (\<lambda>(a, r). (c # a, r)) (find_close cs))"

lemma find_close_length: "find_close s = Some (a, r) \<Longrightarrow> length r < length s"
  by (induction s arbitrary: a r) (auto split: if_splits)

text \<open>An opening \<open>!\<close> and a bracket right after the opening do not close the expression.\<close>

definition bracket_split :: "string \<Rightarrow> (string \<times> string) option" where
  "bracket_split s =
     (let (pre, s1) = (case s of c # cs \<Rightarrow> if c = CHR ''!'' then ([c], cs) else ([], s) | [] \<Rightarrow> ([], s));
          (pre2, s2) = (case s1 of c # cs \<Rightarrow> if c = CHR '']'' then ([c], cs) else ([], s1) | [] \<Rightarrow> ([], s1))
      in map_option (\<lambda>(a, r). (pre @ pre2 @ a, r)) (find_close s2))"

lemma bracket_split_length: "bracket_split s = Some (a, r) \<Longrightarrow> length r < length s"
  by (auto simp: bracket_split_def Let_def split: list.splits if_splits dest!: find_close_length)

function glob_toks :: "string \<Rightarrow> tok list" where
  "glob_toks [] = []"
| "glob_toks (c # cs) =
     (if c = CHR ''*'' then Star # glob_toks cs
      else if c = CHR ''?'' then AnyChar # glob_toks cs
      else if c = CHR ''['' then
        (case bracket_split cs of
           None \<Rightarrow> Lit c # glob_toks cs
         | Some (stuff, r) \<Rightarrow> bracket_tok stuff # glob_toks r)
      else Lit c # glob_toks cs)"
  by pat_completeness auto
termination
  by (relation "measure length") (auto dest: bracket_split_length)

definition fnmatchcase :: "string \<Rightarrow> string \<Rightarrow> bool" where
  "fnmatchcase name pat = tok_match (glob_toks pat) name"

section \<open>Facts the clients use\<close>

definition glob_special :: "char \<Rightarrow> bool" where
  "glob_special c = (c \<in> {CHR ''*'', CHR ''?'', CHR ''[''})"

lemma tok_match_star_any: "tok_match [Star] s"
  by (induction s) auto

lemma fnmatch_star [simp]: "fnmatchcase s ''*''"
  by (simp add: fnmatchcase_def tok_match_star_any)

lemma glob_toks_plain: "\<forall>c \<in> set p. \<not> glob_special c \<Longrightarrow> glob_toks (p @ q) = map Lit p @ glob_toks q"
  by (induction p) (auto simp: glob_special_def)

lemma tok_match_lits: "tok_match (map Lit p @ ts) s \<longleftrightarrow> (\<exists>r. s = p @ r \<and> tok_match ts r)"
proof (induction p arbitrary: s)
  case Nil
  then show ?case by simp
next
  case (Cons c p)
  then show ?case by (cases s) auto
qed

text \<open>A pattern with no special character matches exactly itself.\<close>

lemma fnmatch_plain: "\<forall>c \<in> set p. \<not> glob_special c \<Longrightarrow> fnmatchcase s p \<longleftrightarrow> s = p"
  using glob_toks_plain [of p "[]"] tok_match_lits [of p "[]" s]
  by (simp add: fnmatchcase_def)

text \<open>A plain prefix followed by a star matches exactly the names with that prefix.\<close>

lemma fnmatch_prefix_star:
  "\<forall>c \<in> set p. \<not> glob_special c \<Longrightarrow> fnmatchcase s (p @ ''*'') \<longleftrightarrow> starts_with p s"
  using glob_toks_plain [of p "''*''"]
  by (simp add: fnmatchcase_def tok_match_lits tok_match_star_any starts_with_iff)

end
