(* ===== verification/StoreFacts.thy ===== *)
theory StoreFacts
  imports Store
begin

text \<open>
  Every write of the authorization tables keeps the store well-formed: keys stay distinct and below
  their sequence, unique indexes hold and foreign keys resolve. The lemmas are in the collection
  \<open>wf_intros\<close>, which the handlers' proofs use.
\<close>

lemma user_by_id_iff: "user_by_id db i \<noteq> None \<longleftrightarrow> i \<in> u_id ` set (users db)"
  by (metis find_row_None user_by_id_def)

lemma local_group_by_id_iff: "local_group_by_id db i \<noteq> None \<longleftrightarrow> i \<in> lg_id ` set (local_groups db)"
  by (metis find_row_None local_group_by_id_def)

lemma user_by_id_Some: "user_by_id db i = Some u \<Longrightarrow> u \<in> set (users db) \<and> u_id u = i"
  unfolding user_by_id_def by (rule find_row_Some)

lemma user_by_name_None: "user_by_name db n = None \<longleftrightarrow> n \<notin> u_username ` set (users db)"
  by (simp add: user_by_name_def find_row_None)

lemma grant_by_id_Some: "grant_by_id db i = Some g \<Longrightarrow> g \<in> set (grants db) \<and> g_id g = i"
  unfolding grant_by_id_def by (rule find_row_Some)

lemma local_group_by_id_Some:
  "local_group_by_id db i = Some g \<Longrightarrow> g \<in> set (local_groups db) \<and> lg_id g = i"
  unfolding local_group_by_id_def by (rule find_row_Some)

lemma subject_exists:
  "pred_option (\<lambda>u. user_by_id db u \<noteq> None) x \<longleftrightarrow> set_option x \<subseteq> u_id ` set (users db)"
  "pred_option (\<lambda>u. local_group_by_id db u \<noteq> None) x \<longleftrightarrow> set_option x \<subseteq> lg_id ` set (local_groups db)"
  using user_by_id_iff [of db] local_group_by_id_iff [of db] by (cases x; simp)+

lemma pred_option_in: "pred_option (\<lambda>i. i \<in> A) x \<longleftrightarrow> set_option x \<subseteq> A"
  by (cases x) simp_all

lemma image_without [simp]: "x \<in> f ` {r \<in> A. f r \<noteq> k} \<longleftrightarrow> x \<in> f ` A \<and> x \<noteq> k"
  by auto

text \<open>The store's invariant, with the foreign keys as memberships.\<close>

lemma wf_store_iff:
  "wf_store db \<longleftrightarrow> wf_keys db
     \<and> distinct (map grant_key (grants db))
     \<and> (\<forall>g \<in> set (grants db). one_subject g
          \<and> g_subject_kind g = (if g_subject_user_id g = None then ''local_group'' else ''user'')
          \<and> set_option (g_subject_user_id g) \<subseteq> u_id ` set (users db)
          \<and> set_option (g_subject_group_id g) \<subseteq> lg_id ` set (local_groups db))
     \<and> distinct (map (\<lambda>r. (lgm_group_id r, lgm_user_id r)) (local_group_members db))
     \<and> (\<forall>r \<in> set (local_group_members db). lgm_user_id r \<in> u_id ` set (users db)
          \<and> lgm_group_id r \<in> lg_id ` set (local_groups db))"
  unfolding wf_store_def wf_grants_def wf_members_def subject_exists user_by_id_iff local_group_by_id_iff
  by (simp only: list_all_iff ball_conj_distrib pred_option_in conj_assoc)

text \<open>Tables the invariant does not mention.\<close>

lemma wf_store_cong:
  assumes "users db' = users db" and "grants db' = grants db" and "local_groups db' = local_groups db"
    and "local_group_members db' = local_group_members db"
    and "\<forall>t \<in> set [''users'', ''grants'', ''local_groups'']. seq db t \<le> seq db' t"
  shows "wf_store db \<Longrightarrow> wf_store db'"
  using assms by (auto simp: wf_store_iff wf_keys_def list_all_iff intro: order_less_le_trans)

lemma wf_same_but_audit: "same_but_audit db db' \<Longrightarrow> wf_store db \<Longrightarrow> wf_store db'"
  by (rule wf_store_cong [of db' db]) (auto simp: same_but_audit_def)

lemma wf_set_user_role [wf_intros]:
  assumes "wf_store db"
  shows "wf_store (set_user_role uid r db)"
proof -
  have m: "map u_id (users (set_user_role uid r db)) = map u_id (users db)"
      "map u_username (users (set_user_role uid r db)) = map u_username (users db)"
    by (simp_all add: set_user_role_def update_rows_def)
  from m have i: "u_id ` set (users (set_user_role uid r db)) = u_id ` set (users db)"
    by (metis list.set_map)
  have s: "list_all (\<lambda>u. u_id u < n) us \<longleftrightarrow> (\<forall>i \<in> u_id ` set us. i < n)" for n us
    by (simp add: list_all_iff)
  show ?thesis
    using assms unfolding wf_store_iff wf_keys_def s m i by (simp add: set_user_role_def)
qed

lemma add_grant_ok:
  assumes "add_grant g db = Inr db'"
  shows "db' = bump ''grants'' (insert_grant (g\<lparr>g_id := seq db ''grants'', g_created_at := db_now db\<rparr>) db)
    \<and> one_subject g \<and> grant_key g \<notin> grant_key ` set (grants db)
    \<and> set_option (g_subject_user_id g) \<subseteq> u_id ` set (users db)
    \<and> set_option (g_subject_group_id g) \<subseteq> lg_id ` set (local_groups db)"
  using assms unfolding add_grant_def subject_exists by (simp split: if_splits)

lemma add_grant_total:
  assumes "one_subject g" and "grant_key g \<notin> grant_key ` set (grants db)"
    and "set_option (g_subject_user_id g) \<subseteq> u_id ` set (users db)"
    and "set_option (g_subject_group_id g) \<subseteq> lg_id ` set (local_groups db)"
  shows "add_grant g db
    = Inr (bump ''grants'' (insert_grant (g\<lparr>g_id := seq db ''grants'', g_created_at := db_now db\<rparr>) db))"
  using assms unfolding add_grant_def subject_exists by simp

lemma wf_add_grant:
  assumes "wf_store db" and "add_grant g db = Inr db'"
    and "g_subject_kind g = (if g_subject_user_id g = None then ''local_group'' else ''user'')"
  shows "wf_store db'"
proof -
  define g' where "g' = g\<lparr>g_id := seq db ''grants'', g_created_at := db_now db\<rparr>"
  note ok = add_grant_ok [OF assms(2), folded g'_def]
  have db': "db' = bump ''grants'' (insert_grant g' db)" using ok by simp
  have k: "grant_key g' = grant_key g" "one_subject g' = one_subject g"
    by (simp_all add: g'_def grant_key_def one_subject_def)
  have fresh: "seq db ''grants'' \<notin> g_id ` set (grants db)"
    using assms(1) by (auto simp: wf_store_iff wf_keys_def list_all_iff)
  have rows: "users db' = users db" "local_groups db' = local_groups db"
      "local_group_members db' = local_group_members db" "grants db' = grants db @ [g']"
      "seq db' = (seq db)(''grants'' := seq db ''grants'' + 1)"
    by (simp_all add: db' bump_def insert_grant_def)
  have keys: "wf_keys db'"
    using assms(1) fresh
    by (auto simp: wf_store_iff wf_keys_def rows g'_def list_all_iff)
  have u: "g_subject_user_id g' = g_subject_user_id g" "g_subject_group_id g' = g_subject_group_id g"
      "g_subject_kind g' = g_subject_kind g"
    by (simp_all add: g'_def)
  show ?thesis
    using assms(1,3) ok keys unfolding wf_store_iff rows by (simp add: k u)
qed

lemma distinct_map_delete: "distinct (map f rs) \<Longrightarrow> distinct (map f (delete_rows P rs))"
  by (simp add: delete_rows_def distinct_map_filter)

lemma list_all_delete: "list_all Q rs \<Longrightarrow> list_all Q (delete_rows P rs)"
  by (auto simp: list_all_iff)

lemma wf_delete_grant_row [wf_intros]: "wf_store db \<Longrightarrow> wf_store (delete_grant_row gid db)"
  by (simp add: wf_store_iff wf_keys_def delete_grant_row_def distinct_map_delete list_all_delete)

lemma wf_delete_user_row [wf_intros]:
  assumes "wf_store db"
  shows "wf_store (delete_user_row uid db)"
proof -
  let ?f = "\<lambda>g. g\<lparr>g_created_by := forget_creator uid (g_created_by g)\<rparr>"
  have m: "map g_id (map ?f gs) = map g_id gs" "map grant_key (map ?f gs) = map grant_key gs" for gs
    by (simp_all add: grant_key_def comp_def)
  have keys: "wf_keys (delete_user_row uid db)"
    using assms
    by (simp add: wf_store_iff wf_keys_def delete_user_row_def distinct_map_delete list_all_delete
        list_all_iff comp_def del: map_map) (simp add: comp_def distinct_map_delete)
  show ?thesis
    using assms keys unfolding wf_store_iff
    by (auto simp: delete_user_row_def m distinct_map_delete one_subject_def simp del: map_map
        split: if_splits)
qed

lemma wf_insert_local_group:
  assumes "wf_store db" and "lg_name g \<notin> lg_name ` set (local_groups db)"
    and "lg_id g = seq db ''local_groups''"
  shows "wf_store (bump ''local_groups'' (insert_local_group g db))"
proof -
  have "lg_id g \<notin> lg_id ` set (local_groups db)"
    using assms(1,3) by (auto simp: wf_store_iff wf_keys_def list_all_iff)
  then show ?thesis
    using assms by (auto simp: wf_store_iff wf_keys_def insert_local_group_def bump_def list_all_iff)
qed

lemma wf_delete_local_group_row [wf_intros]:
  assumes "wf_store db"
  shows "wf_store (delete_local_group_row gid db)"
  using assms unfolding wf_store_iff
  by (auto simp: wf_keys_def delete_local_group_row_def distinct_map_delete list_all_delete)

lemma wf_insert_user:
  assumes "wf_store db" and "u_username u \<notin> u_username ` set (users db)"
    and "u_id u = seq db ''users''"
  shows "wf_store (bump ''users'' (insert_user u db))"
proof -
  have "u_id u \<notin> u_id ` set (users db)"
    using assms(1,3) by (auto simp: wf_store_iff wf_keys_def list_all_iff)
  then show ?thesis
    using assms by (auto simp: wf_store_iff wf_keys_def insert_user_def bump_def list_all_iff)
qed

end
