(* ===== verification/Authz.thy ===== *)
theory Authz
  imports Catalog Fnmatch StoreFacts
begin

text \<open>
  Scoped permission evaluation, \<open>overstate_ui/authz.py\<close>: the RBAC flags, grain matching, scope
  resolution against the minion snapshot, the union of a user's grants, and the decision functions
  \<open>authorize\<close>, \<open>has_fleet\<close>, \<open>minions_with\<close> with the memoization on \<open>flask.g\<close>.

  The request context \<open>g\<close> is modelled by its two memo tables: \<open>g_entries\<close> maps a user id to the
  grant entries it was first read with, and a decision cache maps (user, permission, minion,
  prefix) to a verdict. A worker process has no request context: its \<open>g_entries\<close> stays empty.
\<close>

type_synonym entry = "string \<times> string \<times> string"
type_synonym gctx = "int \<Rightarrow> entry list option"

record env =
  app_config :: "string \<Rightarrow> string option"
  os_environ :: "string \<Rightarrow> string option"
  in_app_context :: bool

definition or_empty :: "string option \<Rightarrow> string" where
  "or_empty x = (case x of None \<Rightarrow> [] | Some s \<Rightarrow> s)"

section \<open>Flags\<close>

definition ENFORCEMENT_COMPLETE :: bool where
  "ENFORCEMENT_COMPLETE = True"

definition rbac_flag :: "env \<Rightarrow> store \<Rightarrow> string \<Rightarrow> string \<Rightarrow> string \<Rightarrow> string" where
  "rbac_flag e db key env_name dflt =
     (let row = py_strip (or_empty (setting_row db key));
          v0 = (if in_app_context e then or_empty (app_config e env_name) else []);
          v1 = (if v0 = [] then or_empty (os_environ e env_name) else v0)
      in if row \<noteq> [] then row
         else if py_strip v1 \<noteq> [] then py_strip v1
         else dflt)"

definition rbac_mode :: "env \<Rightarrow> store \<Rightarrow> string" where
  "rbac_mode e db =
     (if \<not> ENFORCEMENT_COMPLETE then ''legacy''
      else if rbac_flag e db ''rbac_mode'' ''RBAC_MODE'' ''legacy'' = ''scoped'' then ''scoped''
      else ''legacy'')"

abbreviation scoped :: "env \<Rightarrow> store \<Rightarrow> bool" where
  "scoped e db \<equiv> rbac_mode e db = ''scoped''"

definition rbac_fallback_on :: "env \<Rightarrow> store \<Rightarrow> bool" where
  "rbac_fallback_on e db =
     (rbac_flag e db ''rbac_role_fallback'' ''RBAC_ROLE_FALLBACK'' ''on'' \<noteq> ''off'')"

section \<open>Grain matching\<close>

fun grain_candidates :: "pyval \<Rightarrow> string list"
and grain_candidates_list :: "pyval list \<Rightarrow> string list" where
  "grain_candidates PNone = []"
| "grain_candidates (PDict kvs) = []"
| "grain_candidates (PBool b) = [if b then ''true'' else ''false'']"
| "grain_candidates (PInt i) = [py_str (PInt i)]"
| "grain_candidates (PFloat q r) = [py_str (PFloat q r)]"
| "grain_candidates (PStr s) = [s]"
| "grain_candidates (PList xs) = grain_candidates_list xs"
| "grain_candidates_list [] = []"
| "grain_candidates_list (x # xs) = grain_candidates x @ grain_candidates_list xs"

definition match_grain :: "pyval \<Rightarrow> string \<Rightarrow> bool" where
  "match_grain grains expr =
     (case grains of
        PDict kvs \<Rightarrow>
          if CHR '':'' \<notin> set expr then False
          else
            (case py_partition CHR '':'' expr of
               (key, _, pattern) \<Rightarrow>
                 if key \<notin> set SNAPSHOT_GRAINS then False
                 else
                   (let value = (case dict_get key kvs of None \<Rightarrow> PNone | Some v \<Rightarrow> v);
                        has_glob = list_ex glob_special pattern
                    in list_ex (\<lambda>c. if has_glob then fnmatchcase c pattern else c = pattern)
                         (grain_candidates value)))
      | _ \<Rightarrow> False)"

section \<open>Scope resolution\<close>

definition snapshot_ids :: "store \<Rightarrow> string set" where
  "snapshot_ids db = set (map m_id (minions db))"

definition grains_or_empty :: "pyval \<Rightarrow> pyval" where
  "grains_or_empty g = (if py_truth g then g else PDict [])"

definition snapshot_grains :: "store \<Rightarrow> (string \<times> pyval) list" where
  "snapshot_grains db = map (\<lambda>m. (m_id m, grains_or_empty (m_grains m))) (minions db)"

definition grain_matches :: "store \<Rightarrow> string \<Rightarrow> string set" where
  "grain_matches db expr =
     set (map fst (filter (\<lambda>(mid, grains). match_grain grains expr) (snapshot_grains db)))"

definition member_strs :: "pyval \<Rightarrow> string list" where
  "member_strs v = (case v of PList xs \<Rightarrow> map py_str xs | _ \<Rightarrow> [])"

definition scope_group_members :: "store \<Rightarrow> string \<Rightarrow> string set" where
  "scope_group_members db group_id =
     (case py_int group_id of
        None \<Rightarrow> {}
      | Some gid \<Rightarrow>
          (case minion_group_by_id db gid of
             None \<Rightarrow> {}
           | Some grp \<Rightarrow> set (member_strs (mg_members grp)) \<inter> snapshot_ids db))"

definition job_group_members :: "store \<Rightarrow> string \<Rightarrow> string set" where
  "job_group_members db name =
     (case minion_group_by_name db name of
        None \<Rightarrow> {}
      | Some grp \<Rightarrow> set (member_strs (mg_members grp)) \<inter> snapshot_ids db)"

definition list_scope_ids :: "string \<Rightarrow> string list" where
  "list_scope_ids scope_value =
     (case json_loads scope_value of
        Some (PList ids) \<Rightarrow> filter (\<lambda>i. i \<noteq> []) (map (\<lambda>i. py_strip (py_str i)) ids)
      | _ \<Rightarrow> [])"

definition resolve_scope :: "store \<Rightarrow> string \<Rightarrow> string \<Rightarrow> string set" where
  "resolve_scope db scope_kind scope_value =
     (if scope_kind = ''group'' then scope_group_members db scope_value
      else if scope_kind = ''list'' then set (list_scope_ids scope_value) \<inter> snapshot_ids db
      else if scope_kind = ''glob'' then {m \<in> snapshot_ids db. fnmatchcase m scope_value}
      else if scope_kind = ''grain'' then grain_matches db scope_value
      else {})"

section \<open>Grant entries\<close>

definition user_entries :: "store \<Rightarrow> int \<Rightarrow> entry list" where
  "user_entries db uid =
     map (\<lambda>g. (g_role g, g_scope_kind g, g_scope_value g))
       (filter (\<lambda>g. g_subject_kind g = ''user'' \<and> g_subject_user_id g = Some uid) (grants db))"

definition group_entries :: "store \<Rightarrow> int \<Rightarrow> entry list" where
  "group_entries db uid =
     (let ids = map lgm_group_id (filter (\<lambda>r. lgm_user_id r = uid) (local_group_members db))
      in map (\<lambda>g. (g_role g, g_scope_kind g, g_scope_value g))
           (filter (\<lambda>g. g_subject_kind g = ''local_group'' \<and> g_subject_group_id g \<in> Some ` set ids)
             (grants db)))"

definition idp_names :: "store \<Rightarrow> int \<Rightarrow> string list" where
  "idp_names db uid = map uig_group_name (filter (\<lambda>r. uig_user_id r = uid) (user_idp_groups db))"

definition idp_entries :: "store \<Rightarrow> int \<Rightarrow> entry list" where
  "idp_entries db uid =
     map (\<lambda>r. (irm_role r, irm_scope_kind r, irm_scope_value r))
       (filter (\<lambda>r. irm_idp_group r \<in> set (idp_names db uid)) (idp_role_mappings db))"

text \<open>The three queries of \<open>_grant_entries\<close>, before the memo table is consulted.\<close>

definition queried_entries :: "store \<Rightarrow> int \<Rightarrow> entry list" where
  "queried_entries db uid = user_entries db uid @ group_entries db uid @ idp_entries db uid"

definition grant_entries :: "gctx \<Rightarrow> store \<Rightarrow> user \<Rightarrow> entry list" where
  "grant_entries g db u = (case g (u_id u) of Some es \<Rightarrow> es | None \<Rightarrow> queried_entries db (u_id u))"

text \<open>What a read leaves in the memo table inside a request.\<close>

definition remember :: "gctx \<Rightarrow> store \<Rightarrow> user \<Rightarrow> gctx" where
  "remember g db u = g(u_id u \<mapsto> grant_entries g db u)"

definition effective_entries :: "env \<Rightarrow> gctx \<Rightarrow> store \<Rightarrow> user \<Rightarrow> entry list" where
  "effective_entries e g db u =
     (let entries = grant_entries g db u
      in if entries = [] \<and> rbac_fallback_on e db \<and> u_role u \<in> set LADDER_ROLES
         then [(u_role u, ''fleet'', ''*'')] else entries)"

section \<open>Decisions\<close>

definition prefix_covers :: "string \<Rightarrow> string \<Rightarrow> bool" where
  "prefix_covers scope_value p = (p = scope_value \<or> starts_with (scope_value @ ''/'') p)"

definition entry_covers :: "store \<Rightarrow> entry \<Rightarrow> string \<Rightarrow> string option \<Rightarrow> string option \<Rightarrow> bool" where
  "entry_covers db en perm minion prefix =
     (case en of (role, scope_kind, scope_value) \<Rightarrow>
        (case ROLE_PERMS role of
           None \<Rightarrow> False
         | Some perms \<Rightarrow>
             if perm \<notin> perms then False
             else if role \<in> FLEET_ONLY_ROLES \<and> scope_kind \<noteq> ''fleet'' then False
             else
               (case perm_domain perm of
                  Fleet \<Rightarrow> scope_kind = ''fleet''
                | Delegate \<Rightarrow> True
                | Prefix \<Rightarrow>
                    if scope_kind = ''fleet'' then True
                    else if scope_kind \<noteq> ''prefix'' \<or> scope_value = [] then False
                    else (case prefix of None \<Rightarrow> True | Some p \<Rightarrow> prefix_covers scope_value p)
                | Minion \<Rightarrow>
                    if scope_kind = ''fleet'' then True
                    else if scope_kind = ''prefix'' then False
                    else (case minion of None \<Rightarrow> True
                          | Some m \<Rightarrow> m \<in> resolve_scope db scope_kind scope_value))))"

text \<open>The decision itself, without the decision cache.\<close>

definition authorize ::
  "env \<Rightarrow> gctx \<Rightarrow> store \<Rightarrow> user \<Rightarrow> string \<Rightarrow> string option \<Rightarrow> string option \<Rightarrow> bool" where
  "authorize e g db u perm minion prefix =
     (if perm \<notin> ALL_PERMS then False
      else list_ex (\<lambda>en. entry_covers db en perm minion prefix) (effective_entries e g db u))"

type_synonym decision_key = "int \<times> string \<times> string option \<times> string option"
type_synonym decision_cache = "decision_key \<Rightarrow> bool option"

text \<open>The whole of \<open>authorize\<close>: the verdict and the decision cache it leaves on \<open>g\<close>.\<close>

definition authorize_cached ::
  "env \<Rightarrow> gctx \<Rightarrow> store \<Rightarrow> decision_cache \<Rightarrow> user \<Rightarrow> string \<Rightarrow> string option \<Rightarrow> string option
   \<Rightarrow> bool \<times> decision_cache" where
  "authorize_cached e g db cache u perm minion prefix =
     (if perm \<notin> ALL_PERMS then (False, cache)
      else
        (let key = (u_id u, perm, minion, prefix) in
         case (if in_app_context e then cache key else None) of
           Some v \<Rightarrow> (v, cache)
         | None \<Rightarrow>
             (let result = list_ex (\<lambda>en. entry_covers db en perm minion prefix)
                             (effective_entries e g db u)
              in (result, if in_app_context e then cache(key \<mapsto> result) else cache))))"

definition has_fleet :: "env \<Rightarrow> gctx \<Rightarrow> store \<Rightarrow> user \<Rightarrow> string \<Rightarrow> bool" where
  "has_fleet e g db u perm =
     (if perm \<notin> ALL_PERMS then False
      else list_ex (\<lambda>(role, scope_kind, _).
             (case ROLE_PERMS role of None \<Rightarrow> False | Some perms \<Rightarrow> perm \<in> perms)
             \<and> scope_kind = ''fleet'') (effective_entries e g db u))"

text \<open>The loop body of \<open>minions_with\<close>: the ids one entry contributes.\<close>

definition entry_minions :: "store \<Rightarrow> string \<Rightarrow> entry \<Rightarrow> string set" where
  "entry_minions db perm en =
     (case en of (role, scope_kind, scope_value) \<Rightarrow>
        (case ROLE_PERMS role of
           None \<Rightarrow> {}
         | Some perms \<Rightarrow>
             if perm \<notin> perms then {}
             else if role \<in> FLEET_ONLY_ROLES \<and> scope_kind \<noteq> ''fleet'' then {}
             else if perm_domain perm \<noteq> Minion then {}
             else if scope_kind = ''fleet'' then snapshot_ids db
             else if scope_kind \<noteq> ''prefix'' then resolve_scope db scope_kind scope_value
             else {}))"

definition minions_with :: "env \<Rightarrow> gctx \<Rightarrow> store \<Rightarrow> user \<Rightarrow> string \<Rightarrow> string set" where
  "minions_with e g db u perm =
     fold (\<lambda>en ids. ids \<union> entry_minions db perm en) (effective_entries e g db u) {}"

definition entry_scope :: "store \<Rightarrow> string \<Rightarrow> entry \<Rightarrow> string set" where
  "entry_scope db perm en =
     (case en of (role, scope_kind, scope_value) \<Rightarrow>
        (case ROLE_PERMS role of
           None \<Rightarrow> {}
         | Some perms \<Rightarrow>
             if perm \<notin> perms then {}
             else if role \<in> FLEET_ONLY_ROLES \<and> scope_kind \<noteq> ''fleet'' then {}
             else if scope_kind = ''fleet'' then snapshot_ids db
             else if scope_kind \<noteq> ''prefix'' then resolve_scope db scope_kind scope_value
             else {}))"

definition perm_scope_minions :: "env \<Rightarrow> gctx \<Rightarrow> store \<Rightarrow> user \<Rightarrow> string \<Rightarrow> string set" where
  "perm_scope_minions e g db u perm =
     fold (\<lambda>en ids. ids \<union> entry_scope db perm en) (effective_entries e g db u) {} \<inter> snapshot_ids db"

definition runnable_ids :: "env \<Rightarrow> gctx \<Rightarrow> store \<Rightarrow> user \<Rightarrow> string set" where
  "runnable_ids e g db u =
     fold (\<lambda>perm ids. ids \<union> minions_with e g db u perm)
       [''job.run.read'', ''job.run.change'', ''job.run.state''] {}"

definition has_any_access :: "env \<Rightarrow> gctx \<Rightarrow> store \<Rightarrow> user \<Rightarrow> bool" where
  "has_any_access e g db u = (effective_entries e g db u \<noteq> [])"

definition can_see_return_body :: "env \<Rightarrow> gctx \<Rightarrow> store \<Rightarrow> user \<Rightarrow> string \<Rightarrow> string \<Rightarrow> bool" where
  "can_see_return_body e g db u fun minion_id =
     (if rbac_mode e db \<noteq> ''scoped'' then True
      else if fun \<in> set [''state.apply'', ''state.highstate'', ''state.show_sls'']
        then authorize e g db u ''job.run.state'' (Some minion_id) None
      else if fun \<in> set [''state.show_highstate'', ''pillar.items'', ''grains.items'', ''beacons.list'']
        then authorize e g db u ''pillar.read'' (Some minion_id) None
      else if fun = ''state.orchestrate'' then has_fleet e g db u ''pillar.read''
      else if fun = ''mine.get'' then authorize e g db u ''mine.read'' (Some minion_id) None
      else authorize e g db u ''job.read'' (Some minion_id) None)"

definition own_group_ids :: "gctx \<Rightarrow> store \<Rightarrow> user \<Rightarrow> string set" where
  "own_group_ids g db u =
     set (map (\<lambda>(_, _, v). v) (filter (\<lambda>(_, k, _). k = ''group'') (grant_entries g db u)))"

definition prefix_visible :: "string list \<Rightarrow> string \<Rightarrow> bool" where
  "prefix_visible prefixes rel = list_ex (\<lambda>p. rel = p \<or> starts_with (p @ ''/'') rel) prefixes"

definition visible_prefixes :: "env \<Rightarrow> gctx \<Rightarrow> store \<Rightarrow> user \<Rightarrow> string list option" where
  "visible_prefixes e g db u =
     (if list_ex (has_fleet e g db u) [''file.read'', ''file.write''] then None
      else Some (sorted_list_of_set (set (map (\<lambda>(_, _, v). v)
        (filter (\<lambda>(role, k, v). k = ''prefix'' \<and> v \<noteq> [] \<and>
           (case ROLE_PERMS role of None \<Rightarrow> {} | Some p \<Rightarrow> p) \<inter> set [''file.read'', ''file.write''] \<noteq> {})
          (effective_entries e g db u))))))"

definition single_group_scope :: "env \<Rightarrow> gctx \<Rightarrow> store \<Rightarrow> user \<Rightarrow> string list \<Rightarrow> string option" where
  "single_group_scope e g db u perms =
     (let ids = remdups (map (\<lambda>(_, _, v). v)
        (filter (\<lambda>(role, k, v). k = ''group'' \<and>
           (case ROLE_PERMS role of None \<Rightarrow> {} | Some p \<Rightarrow> p) \<inter> set perms \<noteq> {})
          (effective_entries e g db u)))
      in case ids of
           [v] \<Rightarrow> (case py_int v of None \<Rightarrow> None
                  | Some gid \<Rightarrow> map_option mg_name (minion_group_by_id db gid))
         | _ \<Rightarrow> None)"

end
