(* ===== verification/AuthzFacts.thy ===== *)
theory AuthzFacts
  imports Authz
begin

text \<open>
  The permission evaluator's laws. A union of scopes stays inside the snapshot and grows with the
  entries (locale \<open>scope_union\<close>); a memo table that was filled by the function it caches returns
  what the function returns (locale \<open>memo_table\<close>). Both are interpreted on the evaluator's own
  definitions, and the properties at the end of the theory rest on them.
\<close>

section \<open>Unions of scopes\<close>

locale scope_union =
  fixes roster :: "'s \<Rightarrow> 'm set"
    and scope :: "'s \<Rightarrow> 'e \<Rightarrow> 'm set"
  assumes scope_in_roster: "scope s en \<subseteq> roster s"
begin

lemma fold_union: "fold (\<lambda>en ids. ids \<union> scope s en) es acc = acc \<union> (\<Union>en \<in> set es. scope s en)"
  by (induction es arbitrary: acc) auto

lemma union_in_roster: "fold (\<lambda>en ids. ids \<union> scope s en) es {} \<subseteq> roster s"
  using scope_in_roster by (auto simp: fold_union)

lemma union_mono:
  "set es \<subseteq> set fs
   \<Longrightarrow> fold (\<lambda>en ids. ids \<union> scope s en) es {} \<subseteq> fold (\<lambda>en ids. ids \<union> scope s en) fs {}"
  by (auto simp: fold_union)

lemma union_member: "m \<in> fold (\<lambda>en ids. ids \<union> scope s en) es {} \<longleftrightarrow> (\<exists>en \<in> set es. m \<in> scope s en)"
  by (simp add: fold_union)

lemma union_finite: "finite (roster s) \<Longrightarrow> finite (fold (\<lambda>en ids. ids \<union> scope s en) es {})"
  using union_in_roster finite_subset by blast

end

lemma finite_snapshot [simp, intro]: "finite (snapshot_ids db)"
  by (simp add: snapshot_ids_def)

lemma grain_matches_snapshot: "grain_matches db x \<subseteq> snapshot_ids db"
  by (auto simp: grain_matches_def snapshot_grains_def snapshot_ids_def)

lemma resolve_scope_snapshot: "resolve_scope db k v \<subseteq> snapshot_ids db"
  using grain_matches_snapshot [of db v]
  by (auto simp: resolve_scope_def scope_group_members_def split: option.splits if_splits)

lemma resolve_fleet [simp]: "resolve_scope db ''fleet'' v = {}"
  and resolve_prefix [simp]: "resolve_scope db ''prefix'' v = {}"
  by (simp_all add: resolve_scope_def)

lemma finite_resolve [simp, intro]: "finite (resolve_scope db k v)"
  using resolve_scope_snapshot finite_snapshot finite_subset by metis

lemma entry_minions_snapshot: "entry_minions db perm en \<subseteq> snapshot_ids db"
  using resolve_scope_snapshot
  by (auto simp: entry_minions_def split: prod.splits option.splits if_splits dest: subsetD)

lemma entry_scope_snapshot: "entry_scope db perm en \<subseteq> snapshot_ids db"
  using resolve_scope_snapshot
  by (auto simp: entry_scope_def split: prod.splits option.splits if_splits dest: subsetD)

interpretation run_scope: scope_union snapshot_ids "\<lambda>db. entry_minions db perm" for perm
  by unfold_locales (rule entry_minions_snapshot)

interpretation view_scope: scope_union snapshot_ids "\<lambda>db. entry_scope db perm" for perm
  by unfold_locales (rule entry_scope_snapshot)

lemma minions_with_iff:
  "m \<in> minions_with e g db u perm
   \<longleftrightarrow> (\<exists>en \<in> set (effective_entries e g db u). m \<in> entry_minions db perm en)"
  unfolding minions_with_def by (rule run_scope.union_member)

lemma minions_with_snapshot: "minions_with e g db u perm \<subseteq> snapshot_ids db"
  unfolding minions_with_def by (rule run_scope.union_in_roster)

lemma finite_minions_with [simp, intro]: "finite (minions_with e g db u perm)"
  unfolding minions_with_def by (rule run_scope.union_finite) simp

lemma perm_scope_iff:
  "m \<in> perm_scope_minions e g db u perm
   \<longleftrightarrow> (\<exists>en \<in> set (effective_entries e g db u). m \<in> entry_scope db perm en)"
  unfolding perm_scope_minions_def Int_iff view_scope.union_member
  using entry_scope_snapshot by blast

lemma runnable_ids_snapshot: "runnable_ids e g db u \<subseteq> snapshot_ids db"
  using minions_with_snapshot by (fastforce simp: runnable_ids_def)

text \<open>A scope reads the minion tables only.\<close>

lemma resolve_scope_cong:
  assumes "minions db' = minions db" and "minion_groups db' = minion_groups db"
  shows "resolve_scope db' = resolve_scope db"
  unfolding resolve_scope_def scope_group_members_def minion_group_by_id_def snapshot_ids_def
    grain_matches_def snapshot_grains_def assms ..

lemma entry_covers_cong:
  assumes "minions db' = minions db" and "minion_groups db' = minion_groups db"
  shows "entry_covers db' = entry_covers db"
  unfolding entry_covers_def resolve_scope_cong [OF assms] ..

section \<open>Memo tables\<close>

locale memo_table =
  fixes compute :: "'k \<Rightarrow> 'v"
    and run :: "('k \<Rightarrow> 'v option) \<Rightarrow> 'k \<Rightarrow> 'v \<times> ('k \<Rightarrow> 'v option)"
  assumes run_cases:
    "run c k = (compute k, c) \<or> (\<exists>v. c k = Some v \<and> run c k = (v, c))
     \<or> (c k = None \<and> run c k = (compute k, c(k \<mapsto> compute k)))"
begin

definition coherent :: "('k \<Rightarrow> 'v option) \<Rightarrow> bool" where
  "coherent c = (\<forall>k v. c k = Some v \<longrightarrow> v = compute k)"

fun run_all :: "('k \<Rightarrow> 'v option) \<Rightarrow> 'k list \<Rightarrow> 'v list" where
  "run_all c [] = []"
| "run_all c (k # ks) = fst (run c k) # run_all (snd (run c k)) ks"

lemma coherent_empty: "coherent (\<lambda>_. None)"
  by (simp add: coherent_def)

lemma run_coherent: "coherent c \<Longrightarrow> fst (run c k) = compute k \<and> coherent (snd (run c k))"
  using run_cases [of c k] by (auto simp: coherent_def split: if_splits)

lemma run_all_coherent: "coherent c \<Longrightarrow> run_all c ks = map compute ks"
  by (induction ks arbitrary: c) (auto simp: run_coherent)

end

text \<open>
  One user's checks in one request, over the decision cache. A key is (permission, minion,
  prefix); the cache is the slice of \<open>g.authz_cache\<close> that belongs to the user.
\<close>

fun authorize_all ::
  "env \<Rightarrow> gctx \<Rightarrow> store \<Rightarrow> decision_cache \<Rightarrow> user \<Rightarrow> (string \<times> string option \<times> string option) list
   \<Rightarrow> bool list \<times> decision_cache" where
  "authorize_all e g db cache u [] = ([], cache)"
| "authorize_all e g db cache u ((perm, mi, pre) # ks) =
     (case authorize_cached e g db cache u perm mi pre of
        (v, cache1) \<Rightarrow>
          (case authorize_all e g db cache1 u ks of (vs, cache2) \<Rightarrow> (v # vs, cache2)))"

definition user_slice :: "user \<Rightarrow> decision_cache \<Rightarrow> string \<times> string option \<times> string option \<Rightarrow> bool option" where
  "user_slice u cache k = cache (u_id u, k)"

definition user_merge ::
  "user \<Rightarrow> decision_cache \<Rightarrow> (string \<times> string option \<times> string option \<Rightarrow> bool option) \<Rightarrow> decision_cache" where
  "user_merge u cache sl = (\<lambda>(i, k). if i = u_id u then sl k else cache (i, k))"

definition slice_run ::
  "env \<Rightarrow> gctx \<Rightarrow> store \<Rightarrow> user \<Rightarrow> (string \<times> string option \<times> string option \<Rightarrow> bool option)
   \<Rightarrow> string \<times> string option \<times> string option
   \<Rightarrow> bool \<times> (string \<times> string option \<times> string option \<Rightarrow> bool option)" where
  "slice_run e g db u sl k =
     (case authorize_cached e g db (user_merge u (\<lambda>_. None) sl) u (fst k) (fst (snd k)) (snd (snd k)) of
        (v, c) \<Rightarrow> (v, user_slice u c))"

lemma slice_merge [simp]: "user_slice u (user_merge u c sl) = sl"
  by (auto simp: user_slice_def user_merge_def)

lemma slice_upd: "user_slice u (cache((u_id u, k) \<mapsto> v)) = (user_slice u cache)(k \<mapsto> v)"
  by (auto simp: user_slice_def)

interpretation decisions: memo_table
    "\<lambda>k. authorize e g db u (fst k) (fst (snd k)) (snd (snd k))" "slice_run e g db u" for e g db u
proof unfold_locales
  fix c :: "string \<times> string option \<times> string option \<Rightarrow> bool option" and k
  let ?m = "user_merge u (\<lambda>_. None) c"
  have at: "?m (u_id u, k) = c k" by (simp add: user_merge_def)
  obtain p mi pre where k: "k = (p, mi, pre)" by (cases k) auto
  show "slice_run e g db u c k = (authorize e g db u (fst k) (fst (snd k)) (snd (snd k)), c)
      \<or> (\<exists>v. c k = Some v \<and> slice_run e g db u c k = (v, c))
      \<or> (c k = None \<and> slice_run e g db u c k
          = (authorize e g db u (fst k) (fst (snd k)) (snd (snd k)),
             c(k \<mapsto> authorize e g db u (fst k) (fst (snd k)) (snd (snd k)))))"
    using at
    by (cases "c k") (auto simp: k slice_run_def authorize_cached_def authorize_def slice_upd Let_def)
qed

text \<open>The checks of other users do not touch this user's slice, and the slice is all they read.\<close>

lemma authorize_cached_slice:
  "fst (authorize_cached e g db cache u p mi pre) = fst (slice_run e g db u (user_slice u cache) (p, mi, pre))
   \<and> user_slice u (snd (authorize_cached e g db cache u p mi pre))
     = snd (slice_run e g db u (user_slice u cache) (p, mi, pre))"
proof -
  have "user_merge u (\<lambda>_. None) (user_slice u cache) (u_id u, p, mi, pre) = cache (u_id u, p, mi, pre)"
    by (simp add: user_merge_def user_slice_def)
  then show ?thesis
    by (cases "cache (u_id u, p, mi, pre)")
      (auto simp: slice_run_def authorize_cached_def slice_upd Let_def)
qed

lemma authorize_all_slice:
  "fst (authorize_all e g db cache u ks) = decisions.run_all e g db u (user_slice u cache) ks"
proof (induction ks arbitrary: cache)
  case Nil
  then show ?case by simp
next
  case (Cons k ks)
  obtain p mi pre where k: "k = (p, mi, pre)" by (cases k) auto
  show ?case
    using authorize_cached_slice [of e g db cache u p mi pre] Cons.IH
    by (auto simp: k split: prod.splits) (metis fst_conv)+
qed

text \<open>The entries memo of one request.\<close>

definition entries_run :: "store \<Rightarrow> gctx \<Rightarrow> int \<Rightarrow> entry list \<times> gctx" where
  "entries_run db g uid =
     (case g uid of Some es \<Rightarrow> (es, g)
      | None \<Rightarrow> (queried_entries db uid, g(uid \<mapsto> queried_entries db uid)))"

interpretation entries: memo_table "queried_entries db" "entries_run db" for db
  by unfold_locales (auto simp: entries_run_def split: option.splits)

lemma remember_run: "remember g db u = snd (entries_run db g (u_id u))"
  by (auto simp: remember_def grant_entries_def entries_run_def split: option.splits)

lemma remember_coherent: "entries.coherent db g \<Longrightarrow> entries.coherent db (remember g db u)"
  using entries.run_coherent [of db g "u_id u"] by (simp add: remember_run)

lemma grant_entries_coherent: "entries.coherent db g \<Longrightarrow> grant_entries g db u = queried_entries db (u_id u)"
  by (auto simp: grant_entries_def entries.coherent_def split: option.splits)

lemma grant_entries_fresh [simp]: "grant_entries (\<lambda>_. None) db u = queried_entries db (u_id u)"
  by (simp add: grant_entries_def)

text \<open>The entries of a user, as the rows that apply to it.\<close>

definition grant_applies :: "store \<Rightarrow> int \<Rightarrow> grant \<Rightarrow> bool" where
  "grant_applies db uid g \<longleftrightarrow>
     g_subject_kind g = ''user'' \<and> g_subject_user_id g = Some uid
     \<or> g_subject_kind g = ''local_group''
       \<and> (\<exists>r \<in> set (local_group_members db). lgm_user_id r = uid
              \<and> g_subject_group_id g = Some (lgm_group_id r))"

abbreviation grant_entry :: "grant \<Rightarrow> entry" where
  "grant_entry g \<equiv> (g_role g, g_scope_kind g, g_scope_value g)"

lemma set_user_entries:
  "set (user_entries db uid) = grant_entry ` {g \<in> set (grants db).
     g_subject_kind g = ''user'' \<and> g_subject_user_id g = Some uid}"
  by (simp add: user_entries_def)

lemma set_group_entries:
  "set (group_entries db uid) = grant_entry ` {g \<in> set (grants db). g_subject_kind g = ''local_group''
     \<and> (\<exists>r \<in> set (local_group_members db). lgm_user_id r = uid
            \<and> g_subject_group_id g = Some (lgm_group_id r))}"
proof -
  have "(x \<in> Some ` set (map lgm_group_id (filter (\<lambda>r. lgm_user_id r = uid) ms)))
      = (\<exists>r \<in> set ms. lgm_user_id r = uid \<and> x = Some (lgm_group_id r))" for x and ms :: "local_group_member list"
    by auto
  then show ?thesis by (simp only: group_entries_def Let_def set_map set_filter)
qed

lemma set_queried_entries:
  "set (queried_entries db uid) = grant_entry ` {g \<in> set (grants db). grant_applies db uid g}
     \<union> set (idp_entries db uid)"
  unfolding queried_entries_def set_append set_user_entries set_group_entries grant_applies_def
  by blast

lemma idp_entries_cong:
  "user_idp_groups db' = user_idp_groups db \<Longrightarrow> idp_role_mappings db' = idp_role_mappings db
   \<Longrightarrow> idp_entries db' uid = idp_entries db uid"
  by (simp add: idp_entries_def idp_names_def)

section \<open>Decisions\<close>

lemma authorize_iff:
  "authorize e g db u perm mi pre
   \<longleftrightarrow> (\<exists>en \<in> set (effective_entries e g db u). entry_covers db en perm mi pre)"
proof -
  have "entry_covers db en perm mi pre \<Longrightarrow> perm \<in> ALL_PERMS" for en
    by (auto simp: entry_covers_def split: prod.splits option.splits if_splits dest: ROLE_PERMS_all)
  then show ?thesis by (auto simp: authorize_def list_ex_iff)
qed

lemma has_fleet_iff:
  "has_fleet e g db u perm
   \<longleftrightarrow> (\<exists>role v p. (role, ''fleet'', v) \<in> set (effective_entries e g db u)
          \<and> ROLE_PERMS role = Some p \<and> perm \<in> p)"
proof -
  have "perm \<in> p \<Longrightarrow> ROLE_PERMS role = Some p \<Longrightarrow> perm \<in> ALL_PERMS" for role p
    using ROLE_PERMS_all by blast
  then show ?thesis
    by (auto simp: has_fleet_def list_ex_iff Bex_def split: option.splits) blast+
qed

text \<open>On a snapshot minion an entry covers a minion-domain permission iff it contributes the id.\<close>

lemma entry_covers_minion:
  assumes "perm_domain perm = Minion" and "m \<in> snapshot_ids db"
  shows "entry_covers db en perm (Some m) pre \<longleftrightarrow> m \<in> entry_minions db perm en"
  using assms
  by (auto simp: entry_covers_def entry_minions_def split: prod.splits option.splits)

lemma fleet_covers:
  assumes "ROLE_PERMS role = Some p" and "perm \<in> p"
  shows "entry_covers db (role, ''fleet'', v) perm mi pre"
  using assms by (auto simp: entry_covers_def split: domain.splits)

text \<open>A fleet-domain permission never comes from an entry off the fleet.\<close>

lemma fleet_domain_covers:
  assumes "perm_domain perm = Fleet"
  shows "entry_covers db en perm mi pre
    \<longleftrightarrow> fst (snd en) = ''fleet'' \<and> (\<exists>p. ROLE_PERMS (fst en) = Some p \<and> perm \<in> p)"
  using assms by (auto simp: entry_covers_def split: prod.splits option.splits)

lemma authorize_fleet_domain:
  assumes "perm_domain perm = Fleet"
  shows "authorize e g db u perm mi pre \<longleftrightarrow> has_fleet e g db u perm"
  by (force simp: authorize_iff has_fleet_iff fleet_domain_covers [OF assms])

lemma has_fleet_authorize: "has_fleet e g db u perm \<Longrightarrow> authorize e g db u perm mi pre"
  by (auto simp: has_fleet_iff authorize_iff intro: fleet_covers)

lemma has_fleet_minions:
  assumes "has_fleet e g db u perm" and "perm_domain perm = Minion"
  shows "minions_with e g db u perm = snapshot_ids db"
proof
  show "snapshot_ids db \<subseteq> minions_with e g db u perm"
  proof
    fix m assume m: "m \<in> snapshot_ids db"
    from assms(1) obtain role v p where r: "(role, ''fleet'', v) \<in> set (effective_entries e g db u)"
      "ROLE_PERMS role = Some p" "perm \<in> p" by (auto simp: has_fleet_iff)
    then have "m \<in> entry_minions db perm (role, ''fleet'', v)"
      using assms(2) m by (simp add: entry_minions_def)
    with r show "m \<in> minions_with e g db u perm" by (auto simp: minions_with_iff)
  qed
qed (rule minions_with_snapshot)

section \<open>File prefixes\<close>

abbreviation role_perms :: "string \<Rightarrow> string set" where
  "role_perms role \<equiv> (case ROLE_PERMS role of None \<Rightarrow> {} | Some p \<Rightarrow> p)"

lemma visible_prefixes_set:
  assumes "visible_prefixes e g db u = Some ps"
  shows "\<not> has_fleet e g db u ''file.read''" and "\<not> has_fleet e g db u ''file.write''"
    and "set ps = {v. \<exists>role. (role, ''prefix'', v) \<in> set (effective_entries e g db u) \<and> v \<noteq> []
           \<and> (''file.read'' \<in> role_perms role \<or> ''file.write'' \<in> role_perms role)}"
proof -
  let ?Q = "\<lambda>en :: entry. fst (snd en) = ''prefix'' \<and> snd (snd en) \<noteq> []
     \<and> role_perms (fst en) \<inter> set [''file.read'', ''file.write''] \<noteq> {}"
  have c: "\<not> list_ex (has_fleet e g db u) [''file.read'', ''file.write'']"
    using assms by (auto simp: visible_prefixes_def split: if_splits)
  then show "\<not> has_fleet e g db u ''file.read''" "\<not> has_fleet e g db u ''file.write''" by simp_all
  have "ps = sorted_list_of_set (snd ` snd ` {en \<in> set (effective_entries e g db u). ?Q en})"
    using assms c by (simp add: visible_prefixes_def split_beta image_image)
  then have "set ps = snd ` snd ` {en \<in> set (effective_entries e g db u). ?Q en}" by simp
  moreover have "(role_perms r \<inter> set [''file.read'', ''file.write''] \<noteq> {})
      = (''file.read'' \<in> role_perms r \<or> ''file.write'' \<in> role_perms r)" for r
    unfolding list.set by blast
  ultimately show "set ps = {v. \<exists>role. (role, ''prefix'', v) \<in> set (effective_entries e g db u) \<and> v \<noteq> []
           \<and> (''file.read'' \<in> role_perms role \<or> ''file.write'' \<in> role_perms role)}"
    by (force simp: image_iff)
qed

lemma entry_covers_prefix:
  assumes "perm_domain perm = Prefix" and "k \<noteq> ''fleet''" and "role \<in> FLEET_ONLY_ROLES \<longrightarrow> k = ''fleet''"
  shows "entry_covers db (role, k, v) perm mi (Some rel)
    \<longleftrightarrow> k = ''prefix'' \<and> v \<noteq> [] \<and> perm \<in> role_perms role \<and> prefix_covers v rel"
  using assms by (auto simp: entry_covers_def split: option.split)

lemma authorize_prefix_domain:
  assumes "perm_domain perm = Prefix" and "\<not> has_fleet e g db u perm"
    and "\<forall>(role, k, v) \<in> set (effective_entries e g db u). role \<in> FLEET_ONLY_ROLES \<longrightarrow> k = ''fleet''"
  shows "authorize e g db u perm mi (Some rel)
    \<longleftrightarrow> (\<exists>role v. (role, ''prefix'', v) \<in> set (effective_entries e g db u) \<and> v \<noteq> []
          \<and> perm \<in> role_perms role \<and> prefix_covers v rel)"
proof -
  have "entry_covers db (role, k, v) perm mi (Some rel)
    \<longleftrightarrow> k = ''prefix'' \<and> v \<noteq> [] \<and> perm \<in> role_perms role \<and> prefix_covers v rel"
    if en: "(role, k, v) \<in> set (effective_entries e g db u)" for role k v
  proof (cases "k = ''fleet''")
    case True
    have "perm \<notin> role_perms role"
      using assms(2) en by (auto simp: has_fleet_iff True split: option.splits)
    then show ?thesis by (simp add: entry_covers_def True split: option.splits)
  next
    case False
    then show ?thesis using assms(1,3) en by (intro entry_covers_prefix) auto
  qed
  then show ?thesis unfolding authorize_iff by fastforce
qed

end
