(* ===== verification/AuthzTargets.thy ===== *)
theory AuthzTargets
  imports AuthzFacts
begin

text \<open>
  What a scoped caller may publish, \<open>overstate_ui/authz.py\<close>: narrowing a target to the caller's
  minions (\<open>constrain_target_verbose\<close>), the all-or-nothing kill rule (\<open>constrain_kill\<close>), the
  locally evaluable target types (\<open>published_snapshot_ids\<close>) and the define-time schedule checks.
  A published list is a comma-joined string; the facts at the end say that reading it back gives
  the set it was made from.
\<close>

record denied =
  d_perm :: string
  d_reason :: string
  d_detail :: string

definition REASON_DETAILS :: "(string \<times> string) list" where
  "REASON_DETAILS =
     [(''target type needs a fleet grant'', ''needs-fleet''),
      (''unknown target type'', ''needs-fleet''),
      (''unknown function class'', ''no-grant''),
      (''empty intersection'', ''empty-intersection''),
      (''out of scope'', ''out-of-scope'')]"

text \<open>\<open>AuthzDenied(perm, reason)\<close>, the detail code looked up from the reason.\<close>

definition AuthzDenied :: "string \<Rightarrow> string \<Rightarrow> string option \<Rightarrow> denied" where
  "AuthzDenied perm reason detail =
     \<lparr>d_perm = perm, d_reason = reason,
      d_detail = (if or_empty detail \<noteq> [] then or_empty detail
                  else (case map_of REASON_DETAILS reason of None \<Rightarrow> ''no-grant'' | Some d \<Rightarrow> d))\<rparr>"

section \<open>Targets\<close>

text \<open>\<open>{p.strip() for p in tgt.split(",") if p.strip()}\<close>, in the order of the string.\<close>

definition csv_ids :: "string \<Rightarrow> string list" where
  "csv_ids tgt = filter (\<lambda>p. p \<noteq> []) (map py_strip (py_split CHR '','' tgt))"

text \<open>\<open>",".join(sorted(ids))\<close>.\<close>

definition csv_of :: "string set \<Rightarrow> string" where
  "csv_of ids = py_join '','' (sorted_list_of_set ids)"

definition glob_ids :: "store \<Rightarrow> string \<Rightarrow> string set" where
  "glob_ids db pat = {m \<in> snapshot_ids db. fnmatchcase m pat}"

definition published_snapshot_ids :: "store \<Rightarrow> string option \<Rightarrow> string option \<Rightarrow> string set option" where
  "published_snapshot_ids db tgt tgt_type =
     (if tgt_type = Some ''list'' then Some (set (csv_ids (or_empty tgt)) \<inter> snapshot_ids db)
      else if tgt_type = Some ''glob'' then Some (glob_ids db (or_empty tgt))
      else if tgt_type = Some ''group''
        then Some (job_group_members db (or_empty tgt) \<inter> snapshot_ids db)
      else if tgt_type = Some ''grain'' then Some (grain_matches db (or_empty tgt))
      else None)"

definition constrain_target_verbose ::
  "env \<Rightarrow> gctx \<Rightarrow> store \<Rightarrow> user \<Rightarrow> string \<Rightarrow> string \<Rightarrow> string
   \<Rightarrow> denied + (string \<times> string \<times> string set option \<times> string set option)" where
  "constrain_target_verbose e g db u perm tgt tgt_type =
     (if has_fleet e g db u perm then Inr (tgt, tgt_type, None, None)
      else
        (let allowed = minions_with e g db u perm;
             roster = snapshot_ids db;
             finish = (\<lambda>requested.
               if requested \<inter> allowed = {} then Inl (AuthzDenied perm ''empty intersection'' None)
               else Inr (csv_of (requested \<inter> allowed), ''list'', Some requested,
                         Some (requested \<inter> allowed)))
         in if tgt_type = ''list'' then finish (set (csv_ids tgt) \<inter> roster)
            else if tgt_type = ''glob'' then finish {m \<in> roster. fnmatchcase m tgt}
            else if tgt_type = ''group'' then finish (job_group_members db tgt \<inter> roster)
            else if tgt_type = ''grain'' then finish (grain_matches db tgt)
            else if tgt_type = ''compound'' \<or> tgt_type = ''nodegroup''
              then Inl (AuthzDenied perm ''target type needs a fleet grant'' None)
            else Inl (AuthzDenied perm ''unknown target type'' None)))"

definition constrain_target ::
  "env \<Rightarrow> gctx \<Rightarrow> store \<Rightarrow> user \<Rightarrow> string \<Rightarrow> string \<Rightarrow> string \<Rightarrow> denied + (string \<times> string)" where
  "constrain_target e g db u perm tgt tgt_type =
     (case constrain_target_verbose e g db u perm tgt tgt_type of
        Inl d \<Rightarrow> Inl d
      | Inr (t, tt, _, _) \<Rightarrow> Inr (t, tt))"

definition constrain_kill ::
  "env \<Rightarrow> gctx \<Rightarrow> store \<Rightarrow> user \<Rightarrow> string \<Rightarrow> string \<Rightarrow> denied + (string \<times> string)" where
  "constrain_kill e g db u stored_tgt stored_tgt_type =
     (if has_fleet e g db u ''job.kill'' then Inr (stored_tgt, stored_tgt_type)
      else if stored_tgt_type \<in> set [''compound'', ''nodegroup'', ''grain'']
        then Inl (AuthzDenied ''job.kill'' ''target type needs a fleet grant'' None)
      else if stored_tgt_type = ''glob'' \<and> py_strip stored_tgt = ''*''
        then Inl (AuthzDenied ''job.kill'' ''target type needs a fleet grant'' None)
      else
        (let roster = snapshot_ids db;
             allowed = minions_with e g db u ''job.kill'';
             finish = (\<lambda>resolved.
               if resolved = {} \<or> \<not> resolved \<subseteq> allowed
               then Inl (AuthzDenied ''job.kill'' ''out of scope'' None)
               else Inr (csv_of resolved, ''list''))
         in if stored_tgt_type = ''list'' then finish (set (csv_ids stored_tgt) \<inter> roster)
            else if stored_tgt_type = ''glob'' then finish {m \<in> roster. fnmatchcase m stored_tgt}
            else if stored_tgt_type = ''group'' then finish (job_group_members db stored_tgt \<inter> roster)
            else Inl (AuthzDenied ''job.kill'' ''unknown target type'' None)))"

section \<open>Schedules\<close>

definition may_define_schedule_fleet :: "env \<Rightarrow> gctx \<Rightarrow> store \<Rightarrow> user \<Rightarrow> string option \<Rightarrow> bool" where
  "may_define_schedule_fleet e g db u fun =
     (case fun of
        None \<Rightarrow> False
      | Some f \<Rightarrow>
          if f = [] \<or> f \<notin> ALLOWED_FUNS then False
          else if \<not> has_fleet e g db u ''schedule.write'' then False
          else
            (case function_class f of
               None \<Rightarrow> False
             | Some cls \<Rightarrow>
                 if cls \<in> set [''read'', ''change'', ''state'']
                 then has_fleet e g db u (''job.run.'' @ cls) \<or> has_fleet e g db u (''schedule.allow.'' @ cls)
                 else if cls = ''orchestrate'' then has_fleet e g db u ''job.run.orchestrate''
                 else False))"

definition may_define_schedule :: "env \<Rightarrow> gctx \<Rightarrow> store \<Rightarrow> user \<Rightarrow> string \<Rightarrow> string \<Rightarrow> bool" where
  "may_define_schedule e g db u mid fun =
     (if fun \<notin> ALLOWED_FUNS then False
      else if \<not> authorize e g db u ''schedule.write'' (Some mid) None then False
      else
        (case function_class fun of
           None \<Rightarrow> False
         | Some cls \<Rightarrow>
             if cls \<in> set [''read'', ''change'', ''state'']
             then authorize e g db u (''job.run.'' @ cls) (Some mid) None
               \<or> authorize e g db u (''schedule.allow.'' @ cls) (Some mid) None
             else if cls = ''orchestrate'' then authorize e g db u ''job.run.orchestrate'' None None
             else False))"

section \<open>Reading a published list back\<close>

text \<open>An id Salt's list matcher reads back as itself.\<close>

definition plain_id :: "string \<Rightarrow> bool" where
  "plain_id m = (m \<noteq> [] \<and> CHR '','' \<notin> set m \<and> py_strip m = m)"

lemma csv_ids_join:
  assumes "list_all plain_id ids" and "ids \<noteq> []"
  shows "csv_ids (py_join '','' ids) = ids"
proof -
  have "\<forall>m \<in> set ids. CHR '','' \<notin> set m" using assms(1) by (auto simp: list_all_iff plain_id_def)
  then have "py_split CHR '','' (py_join '','' ids) = ids"
    using py_split_join [of ids "CHR '',''"] assms(2) by simp
  moreover have "filter (\<lambda>p. p \<noteq> []) (map py_strip ids) = ids"
    using assms(1) by (induction ids) (auto simp: plain_id_def)
  ultimately show ?thesis by (simp add: csv_ids_def)
qed

lemma csv_round_trip:
  assumes "finite ids" and "ids \<noteq> {}" and "\<forall>m \<in> ids. plain_id m"
  shows "set (csv_ids (csv_of ids)) = ids"
  using assms by (simp add: csv_of_def csv_ids_join list_all_iff)

section \<open>Targets of scoped callers\<close>

lemma glob_ids_snapshot: "glob_ids db p \<subseteq> snapshot_ids db"
  by (auto simp: glob_ids_def)

lemma published_in_snapshot: "published_snapshot_ids db t tt = Some ids \<Longrightarrow> ids \<subseteq> snapshot_ids db"
  using glob_ids_snapshot [of db "or_empty t"] grain_matches_snapshot [of db "or_empty t"]
  by (auto simp: published_snapshot_ids_def split: if_splits)

text \<open>Narrowing is one rule over the locally evaluable target types.\<close>

definition needs_fleet :: "string \<Rightarrow> string \<Rightarrow> denied" where
  "needs_fleet perm tt = AuthzDenied perm
     (if tt = ''compound'' \<or> tt = ''nodegroup'' then ''target type needs a fleet grant''
      else ''unknown target type'') None"

lemma constrain_target_verbose_local:
  assumes "\<not> has_fleet e g db u perm"
  shows "constrain_target_verbose e g db u perm tgt tt =
    (case published_snapshot_ids db (Some tgt) (Some tt) of
       None \<Rightarrow> Inl (needs_fleet perm tt)
     | Some req \<Rightarrow>
         (let hit = req \<inter> minions_with e g db u perm
          in if hit = {} then Inl (AuthzDenied perm ''empty intersection'' None)
             else Inr (csv_of hit, ''list'', Some req, Some hit)))"
  using assms
  by (simp add: constrain_target_verbose_def published_snapshot_ids_def glob_ids_def or_empty_def Let_def
      needs_fleet_def)

lemma constrain_target_ok:
  assumes "\<not> has_fleet e g db u perm"
    and "constrain_target_verbose e g db u perm tgt tt = Inr (t, tt', rq, ht)"
  obtains req hit where "published_snapshot_ids db (Some tgt) (Some tt) = Some req"
    and "rq = Some req" and "ht = Some hit" and "hit = req \<inter> minions_with e g db u perm"
    and "hit \<noteq> {}" and "t = csv_of hit" and "tt' = ''list''"
  using assms(2) unfolding constrain_target_verbose_local [OF assms(1)]
  by (cases "published_snapshot_ids db (Some tgt) (Some tt)") (auto simp: Let_def split: if_splits)

lemma constrain_kill_local:
  assumes "\<not> has_fleet e g db u ''job.kill''"
  shows "constrain_kill e g db u tgt tt =
    (if tt \<in> set [''compound'', ''nodegroup'', ''grain''] \<or> tt = ''glob'' \<and> py_strip tgt = ''*''
     then Inl (AuthzDenied ''job.kill'' ''target type needs a fleet grant'' None)
     else
       (case published_snapshot_ids db (Some tgt) (Some tt) of
          None \<Rightarrow> Inl (AuthzDenied ''job.kill'' ''unknown target type'' None)
        | Some res \<Rightarrow>
            if res = {} \<or> \<not> res \<subseteq> minions_with e g db u ''job.kill''
            then Inl (AuthzDenied ''job.kill'' ''out of scope'' None)
            else Inr (csv_of res, ''list'')))"
proof -
  let ?local = "tt = ''list'' \<or> tt = ''glob'' \<or> tt = ''group'' \<or> tt = ''grain''"
  consider "tt = ''list''" | "tt = ''glob''" | "tt = ''group''" | "tt = ''grain''" | "\<not> ?local" by blast
  then show ?thesis
    by cases (simp_all add: constrain_kill_def assms published_snapshot_ids_def glob_ids_def
        or_empty_def Let_def)
qed

lemma minions_with_authorize:
  assumes "m \<in> minions_with e g db u perm"
  shows "authorize e g db u perm (Some m) pre"
proof -
  obtain en where en: "en \<in> set (effective_entries e g db u)" "m \<in> entry_minions db perm en"
    using assms by (auto simp: minions_with_iff)
  have m: "m \<in> snapshot_ids db" using assms minions_with_snapshot by blast
  have "perm_domain perm = Minion"
    using en(2) by (cases en) (simp add: entry_minions_def split: option.splits if_splits)
  then have "entry_covers db en perm (Some m) pre" using en(2) m by (simp add: entry_covers_minion)
  with en(1) show ?thesis by (auto simp: authorize_iff)
qed

end
