(* ===== verification/Delegation.thy ===== *)
theory Delegation
  imports AuthzTargets
begin

text \<open>
  Delegated administration, \<open>overstate_ui/authz.py\<close>: which grants a holder of
  \<open>grant.delegate\<close> may write (\<open>delegate_grant_error\<close>), which local groups it may edit
  (\<open>delegate_group_error\<close>) and when a scope is inside a minion set (\<open>scope_inside\<close>). An error is
  the message the view flashes; None means the write is allowed. The lemmas relate the check to
  what the written grant lets its subject do.
\<close>

definition DELEGATE_SCOPE_KINDS :: "string set" where
  "DELEGATE_SCOPE_KINDS = set [''group'', ''list'', ''glob'', ''grain'']"

text \<open>Permissions a grant of the role carries off the fleet, in the order they are checked.\<close>

definition wanted_perms :: "string set \<Rightarrow> string list" where
  "wanted_perms perms = sorted_list_of_set (perms - FLEET_DOMAIN_PERMS - PREFIX_DOMAIN_PERMS)"

definition holds_on :: "env \<Rightarrow> gctx \<Rightarrow> store \<Rightarrow> user \<Rightarrow> string set \<Rightarrow> string \<Rightarrow> bool" where
  "holds_on e g db u resolved perm =
     (if perm \<in> DELEGATE_PERMS then resolved \<subseteq> perm_scope_minions e g db u perm
      else resolved \<subseteq> minions_with e g db u perm)"

definition quoted :: "string \<Rightarrow> string" where
  "quoted s = CHR 0x27 # s @ [CHR 0x27]"

definition delegate_grant_error ::
  "env \<Rightarrow> gctx \<Rightarrow> store \<Rightarrow> user \<Rightarrow> string \<Rightarrow> string \<Rightarrow> string \<Rightarrow> string option" where
  "delegate_grant_error e g db u role scope_kind scope_value =
     (if scope_kind \<notin> DELEGATE_SCOPE_KINDS
      then Some ''Delegated grants need a minion scope, not fleet or a path.''
      else
        (case ROLE_PERMS role of
           None \<Rightarrow> Some (''Role '' @ quoted role @ '' cannot be delegated.'')
         | Some perms \<Rightarrow>
             if role \<in> FLEET_ONLY_ROLES
             then Some (''Role '' @ quoted role @ '' cannot be delegated.'')
             else if ''grant.admin'' \<in> perms then Some ''grant.admin cannot be delegated.''
             else
               (let resolved = resolve_scope db scope_kind scope_value \<inter> snapshot_ids db
                in if \<not> resolved \<subseteq> minions_with e g db u ''grant.delegate''
                   then Some ''That scope reaches outside your delegated scope.''
                   else
                     (case find (\<lambda>perm. \<not> holds_on e g db u resolved perm) (wanted_perms perms) of
                        None \<Rightarrow> None
                      | Some perm \<Rightarrow> Some (''You do not hold '' @ quoted perm @ '' on that scope.'')))))"

definition scope_inside :: "store \<Rightarrow> string \<Rightarrow> string \<Rightarrow> string set \<Rightarrow> bool" where
  "scope_inside db scope_kind scope_value ids =
     (if scope_kind = ''fleet'' \<or> scope_kind = ''prefix'' then False
      else resolve_scope db scope_kind scope_value \<subseteq> ids)"

text \<open>The loop over the group's grants, stopped at the first that vetoes.\<close>

fun group_grants_error :: "store \<Rightarrow> string set \<Rightarrow> grant list \<Rightarrow> string option" where
  "group_grants_error db inside [] = None"
| "group_grants_error db inside (gr # grs) =
     (if g_scope_kind gr \<notin> DELEGATE_SCOPE_KINDS
      then Some ''That group holds a grant outside delegated scopes.''
      else if \<not> resolve_scope db (g_scope_kind gr) (g_scope_value gr) \<subseteq> inside
      then Some ''That group holds a grant outside your delegated scope.''
      else group_grants_error db inside grs)"

definition group_grant_rows :: "store \<Rightarrow> int \<Rightarrow> grant list" where
  "group_grant_rows db gid =
     filter (\<lambda>gr. g_subject_kind gr = ''local_group'' \<and> g_subject_group_id gr = Some gid) (grants db)"

definition delegate_group_error :: "env \<Rightarrow> gctx \<Rightarrow> store \<Rightarrow> user \<Rightarrow> int \<Rightarrow> string option" where
  "delegate_group_error e g db u gid =
     group_grants_error db (minions_with e g db u ''grant.delegate'') (group_grant_rows db gid)"

section \<open>What the checks establish\<close>

lemma finite_role_perms: "ROLE_PERMS role = Some p \<Longrightarrow> finite p"
proof -
  have "list_all (\<lambda>r. pred_option finite (ROLE_PERMS r)) ROLE_NAMES"
    by (simp add: ROLE_NAMES_def ROLE_PERMS_def VIEWER_PERMS_def OPERATOR_DELTA_def ADMIN_DELTA_def
        TEAM_VIEWER_PERMS_def TEAM_OPERATOR_DELTA_def)
  then show "ROLE_PERMS role = Some p \<Longrightarrow> finite p"
    using ROLE_PERMS_names [of role p] by (auto simp: list_all_iff)
qed

lemma wanted_perms_set:
  assumes "ROLE_PERMS role = Some p"
  shows "set (wanted_perms p) = p - FLEET_DOMAIN_PERMS - PREFIX_DOMAIN_PERMS"
  using finite_role_perms [OF assms] by (simp add: wanted_perms_def)

lemma delegable_iff:
  "delegate_grant_error e g db u role k v = None
   \<longleftrightarrow> k \<in> DELEGATE_SCOPE_KINDS \<and> role \<notin> FLEET_ONLY_ROLES
     \<and> (\<exists>p. ROLE_PERMS role = Some p \<and> ''grant.admin'' \<notin> p
          \<and> resolve_scope db k v \<subseteq> minions_with e g db u ''grant.delegate''
          \<and> (\<forall>perm \<in> p - FLEET_DOMAIN_PERMS - PREFIX_DOMAIN_PERMS.
                holds_on e g db u (resolve_scope db k v) perm))"
proof -
  have r: "resolve_scope db k v \<inter> snapshot_ids db = resolve_scope db k v"
    using resolve_scope_snapshot by blast
  have f: "find Q xs = None \<longleftrightarrow> (\<forall>x \<in> set xs. \<not> Q x)" for Q :: "string \<Rightarrow> bool" and xs
    by (simp add: find_None_iff) blast
  show ?thesis
  proof (cases "ROLE_PERMS role")
    case None
    then show ?thesis by (simp add: delegate_grant_error_def)
  next
    case (Some p)
    have "(case find Q xs of None \<Rightarrow> None | Some x \<Rightarrow> Some (h x)) = None \<longleftrightarrow> (\<forall>x \<in> set xs. \<not> Q x)"
      for Q :: "string \<Rightarrow> bool" and xs and h :: "string \<Rightarrow> string"
      using f [of Q xs] by (cases "find Q xs") simp_all
    then show ?thesis
      by (simp add: delegate_grant_error_def Some Let_def r wanted_perms_set [OF Some])
  qed
qed

text \<open>Off the fleet, on a snapshot minion, an entry covers nothing the check did not compare.\<close>

lemma entry_covers_off_fleet:
  assumes "entry_covers db (role, k, v) perm (Some m) pre" and "k \<in> DELEGATE_SCOPE_KINDS"
  obtains p where "ROLE_PERMS role = Some p" and "perm \<in> p"
    and "perm_domain perm = Delegate \<or> perm_domain perm = Minion \<and> m \<in> resolve_scope db k v"
proof -
  have k: "k \<noteq> ''fleet''" "k \<noteq> ''prefix''" using assms(2) by (auto simp: DELEGATE_SCOPE_KINDS_def)
  show thesis
    using assms(1) k that
    by (cases "ROLE_PERMS role"; cases "perm_domain perm")
      (simp_all add: entry_covers_def split: if_splits)
qed

lemma minion_domain_wanted:
  "perm_domain perm = Minion \<Longrightarrow> perm \<notin> FLEET_DOMAIN_PERMS \<and> perm \<notin> PREFIX_DOMAIN_PERMS \<and> perm \<notin> DELEGATE_PERMS"
  by (simp add: perm_domain_def split: if_splits)

lemma delegate_domain_wanted:
  "perm_domain perm = Delegate \<Longrightarrow> perm \<notin> FLEET_DOMAIN_PERMS \<and> perm \<notin> PREFIX_DOMAIN_PERMS \<and> perm \<in> DELEGATE_PERMS"
  by (simp add: perm_domain_def split: if_splits)

lemma delegable_perm:
  assumes "delegate_grant_error e g db u role k v = None"
    and "ROLE_PERMS role = Some p" and "perm \<in> p" and "perm_domain perm = Minion"
  shows "resolve_scope db k v \<subseteq> minions_with e g db u perm"
  using assms minion_domain_wanted [of perm] by (auto simp: delegable_iff holds_on_def)

lemma delegable_scope_perm:
  assumes "delegate_grant_error e g db u role k v = None"
    and "ROLE_PERMS role = Some p" and "perm \<in> p" and "perm_domain perm = Delegate"
  shows "resolve_scope db k v \<subseteq> perm_scope_minions e g db u perm"
  using assms delegate_domain_wanted [of perm] by (auto simp: delegable_iff holds_on_def)

text \<open>A lead's own scope is enough to hold a group editable: every grant on it stays inside.\<close>

lemma group_grants_error_None:
  "group_grants_error db inside grs = None
   \<longleftrightarrow> (\<forall>gr \<in> set grs. g_scope_kind gr \<in> DELEGATE_SCOPE_KINDS
         \<and> resolve_scope db (g_scope_kind gr) (g_scope_value gr) \<subseteq> inside)"
  by (induction grs) auto

lemma scope_inside_iff:
  "scope_inside db k v ids \<longleftrightarrow> k \<noteq> ''fleet'' \<and> k \<noteq> ''prefix'' \<and> resolve_scope db k v \<subseteq> ids"
  by (simp add: scope_inside_def)

end
