(* ===== verification/Gates.thy ===== *)
theory Gates
  imports Delegation
begin

text \<open>
  The request gates and the role cache: \<open>audit_deny\<close>, \<open>require\<close>, \<open>permission_required\<close>,
  \<open>refresh_role_cache\<close>, \<open>backfill_rbac\<close> of \<open>overstate_ui/authz.py\<close> and \<open>role_level\<close>,
  \<open>roles_required\<close> of \<open>overstate_ui/auth.py\<close>. A request carries the database, the entries memo of
  \<open>flask.g\<close> and the flashed messages; a view is a function from that state to a response and a
  new state, and a decorator takes the view it guards as an argument.
\<close>

record ctx =
  c_db :: store
  c_memo :: gctx
  c_flash :: "(string \<times> string) list"

datatype resp =
    Redirect string
  | Abort nat
  | Fail py_error
  | Page

type_synonym view = "ctx \<Rightarrow> resp \<times> ctx"

definition start :: "store \<Rightarrow> ctx" where
  "start db = \<lparr>c_db = db, c_memo = (\<lambda>_. None), c_flash = []\<rparr>"

definition flash :: "string \<Rightarrow> string \<Rightarrow> ctx \<Rightarrow> ctx" where
  "flash msg cat c = c\<lparr>c_flash := c_flash c @ [(msg, cat)]\<rparr>"

definition flash_redirect :: "string \<Rightarrow> string \<Rightarrow> string \<Rightarrow> view" where
  "flash_redirect to msg cat c = (Redirect to, flash msg cat c)"

definition touch :: "user \<Rightarrow> ctx \<Rightarrow> ctx" where
  "touch u c = c\<lparr>c_memo := remember (c_memo c) (c_db c) u\<rparr>"

definition on_db :: "(store \<Rightarrow> store) \<Rightarrow> ctx \<Rightarrow> ctx" where
  "on_db f c = c\<lparr>c_db := f (c_db c)\<rparr>"

section \<open>Gates\<close>

definition audit_deny :: "user \<Rightarrow> string \<Rightarrow> string option \<Rightarrow> string \<Rightarrow> string option \<Rightarrow> store \<Rightarrow> store" where
  "audit_deny current_user perm minion_id detail actor db =
     (let username = (if or_empty actor \<noteq> [] then or_empty actor else u_username current_user)
      in log_event username ''deny'' None (Some ''deny'') (Some perm) minion_id (Some detail) db)"

definition require ::
  "env \<Rightarrow> user \<Rightarrow> string \<Rightarrow> string option \<Rightarrow> string option \<Rightarrow> string \<Rightarrow> view \<Rightarrow> view" where
  "require e u perm minion prefix detail k c =
     (if rbac_mode e (c_db c) \<noteq> ''scoped'' then k c
      else if authorize e (c_memo c) (c_db c) u perm minion prefix then k (touch u c)
      else (Abort 403, on_db (audit_deny u perm minion detail None) (touch u c)))"

definition read_required :: "env \<Rightarrow> user \<Rightarrow> string \<Rightarrow> view \<Rightarrow> view" where
  "read_required e u perm = require e u perm None None ''no-grant''"

definition LEVELS :: "(string \<times> int) list" where
  "LEVELS = [(''viewer'', 0), (''operator'', 1), (''admin'', 2)]"

definition role_level :: "string \<Rightarrow> int" where
  "role_level role = (case map_of LEVELS role of None \<Rightarrow> 0 | Some n \<Rightarrow> n)"

definition permission_required :: "env \<Rightarrow> user \<Rightarrow> string list \<Rightarrow> view \<Rightarrow> view" where
  "permission_required e u perms k c =
     (if rbac_mode e (c_db c) \<noteq> ''scoped''
      then if role_level (u_role u) < role_level ''admin'' then (Abort 403, c) else k c
      else if \<not> list_ex (\<lambda>p. authorize e (c_memo c) (c_db c) u p None None) perms
        then (Abort 403,
              on_db (audit_deny u (case perms of [] \<Rightarrow> ''no-grant'' | p # _ \<Rightarrow> p) None ''no-grant'' None)
                (touch u c))
      else k (touch u c))"

text \<open>
  \<open>min(LEVELS[r] for r in roles)\<close>, computed where a view is decorated: an unknown role and an empty
  list raise there, so that no request passes such a gate.
\<close>

definition role_floor :: "string list \<Rightarrow> int res" where
  "role_floor roles =
     res_bind (res_map (\<lambda>r. case map_of LEVELS r of None \<Rightarrow> Inl (KeyErr r) | Some n \<Rightarrow> Inr n) roles)
       (\<lambda>ns. if ns = [] then Inl (ValueError ''min() iterable argument is empty'') else Inr (Min (set ns)))"

text \<open>
  The floor of a legacy role. Which permission of the floor a refusal names is the first the set
  iterates over, an order Python leaves open: the argument \<open>first\<close>.
\<close>

definition roles_required :: "(string set \<Rightarrow> string) \<Rightarrow> env \<Rightarrow> user \<Rightarrow> string list \<Rightarrow> view \<Rightarrow> view" where
  "roles_required first e u roles k c =
     (case role_floor roles of
        Inl er \<Rightarrow> (Fail er, c)
      | Inr minimum \<Rightarrow>
          if rbac_mode e (c_db c) \<noteq> ''scoped''
          then if role_level (u_role u) < minimum then (Abort 403, c) else k c
          else
            (let needed = LEGACY_FLOOR_PERMS minimum
             in if \<not> (\<exists>p \<in> needed. authorize e (c_memo c) (c_db c) u p None None)
                then (Abort 403, on_db (audit_deny u (first needed) None ''no-grant'' None) (touch u c))
                else k (touch u c)))"

section \<open>The role cache\<close>

definition has_ladder :: "entry list \<Rightarrow> string \<Rightarrow> bool" where
  "has_ladder entries role = list_ex (\<lambda>(r, kind, _). r = role \<and> kind = ''fleet'') entries"

definition cached_role :: "entry list \<Rightarrow> string" where
  "cached_role entries =
     (if has_ladder entries ''admin'' then ''admin''
      else if has_ladder entries ''operator'' then ''operator''
      else if has_ladder entries ''viewer'' then ''viewer''
      else if entries \<noteq> [] then ''scoped''
      else ''none'')"

text \<open>The entries are read through the memo, and the memo is dropped after the write.\<close>

definition refresh_role_cache :: "user \<Rightarrow> ctx \<Rightarrow> ctx" where
  "refresh_role_cache u c =
     (let entries = grant_entries (c_memo c) (c_db c) u;
          cached = cached_role entries
      in c\<lparr>c_db := set_user_role (u_id u) cached (c_db c),
           c_memo := (c_memo c)(u_id u := None)\<rparr>)"

text \<open>\<open>for user_id in ids: member = session.get(User, user_id); refresh_role_cache(member)\<close>.\<close>

definition refresh_member :: "int \<Rightarrow> ctx \<Rightarrow> ctx" where
  "refresh_member uid c =
     (case user_by_id (c_db c) uid of None \<Rightarrow> c | Some m \<Rightarrow> refresh_role_cache m c)"

definition refresh_members :: "int list \<Rightarrow> ctx \<Rightarrow> ctx" where
  "refresh_members uids c = fold refresh_member uids c"

section \<open>Backfill\<close>

definition split_group_setting :: "string \<Rightarrow> string list" where
  "split_group_setting raw = filter (\<lambda>s. s \<noteq> []) (map py_strip (py_split CHR '','' raw))"

definition has_fleet_grant :: "store \<Rightarrow> int \<Rightarrow> string \<Rightarrow> bool" where
  "has_fleet_grant db uid role =
     list_ex (\<lambda>g. g_subject_kind g = ''user'' \<and> g_subject_user_id g = Some uid \<and> g_role g = role
        \<and> g_scope_kind g = ''fleet'' \<and> g_scope_value g = ''*'') (grants db)"

definition user_grant ::
  "int \<Rightarrow> string \<Rightarrow> string \<Rightarrow> string \<Rightarrow> string \<Rightarrow> int option \<Rightarrow> grant" where
  "user_grant uid role scope_kind scope_value source created_by =
     \<lparr>g_id = 0, g_subject_kind = ''user'', g_subject_user_id = Some uid, g_subject_group_id = None,
      g_role = role, g_scope_kind = scope_kind, g_scope_value = scope_value, g_source = source,
      g_created_by = created_by, g_created_at = 0\<rparr>"

definition backfill_user :: "user \<Rightarrow> store \<times> int \<Rightarrow> (store \<times> int) res" where
  "backfill_user u s =
     (case s of (db, n) \<Rightarrow>
        if u_role u \<notin> set LADDER_ROLES then Inr (db, n)
        else if has_fleet_grant db (u_id u) (u_role u) then Inr (db, n)
        else (case add_grant (user_grant (u_id u) (u_role u) ''fleet'' ''*'' ''backfill'' None) db of
                Inl er \<Rightarrow> Inl er
              | Inr db' \<Rightarrow> Inr (db', n + 1)))"

definition has_mapping :: "store \<Rightarrow> string \<Rightarrow> string \<Rightarrow> bool" where
  "has_mapping db grp role =
     list_ex (\<lambda>m. irm_idp_group m = grp \<and> irm_role m = role \<and> irm_scope_kind m = ''fleet''
        \<and> irm_scope_value m = ''*'') (idp_role_mappings db)"

definition add_mapping :: "string \<Rightarrow> string \<Rightarrow> store \<Rightarrow> store" where
  "add_mapping grp role db =
     bump ''idp_role_mappings'' (db\<lparr>idp_role_mappings := idp_role_mappings db @
       [\<lparr>irm_id = seq db ''idp_role_mappings'', irm_idp_group = grp, irm_role = role,
         irm_scope_kind = ''fleet'', irm_scope_value = ''*'', irm_origin = ''backfill''\<rparr>]\<rparr>)"

definition backfill_group :: "string \<times> string \<Rightarrow> store \<times> int \<Rightarrow> store \<times> int" where
  "backfill_group gr s =
     (case (gr, s) of ((grp, role), (db, n)) \<Rightarrow>
        if has_mapping db grp role then (db, n) else (add_mapping grp role db, n + 1))"

fun res_fold :: "('a \<Rightarrow> 's \<Rightarrow> 's res) \<Rightarrow> 'a list \<Rightarrow> 's \<Rightarrow> 's res" where
  "res_fold f [] s = Inr s"
| "res_fold f (x # xs) s = (case f x s of Inl er \<Rightarrow> Inl er | Inr s' \<Rightarrow> res_fold f xs s')"

definition backfill_pairs :: "string \<Rightarrow> string \<Rightarrow> (string \<times> string) list" where
  "backfill_pairs admin_groups operator_groups =
     map (\<lambda>s. (s, ''admin'')) (split_group_setting admin_groups)
     @ map (\<lambda>s. (s, ''operator'')) (split_group_setting operator_groups)"

text \<open>The counts of new grants and mappings, and the flushed tables.\<close>

definition backfill_rbac :: "string \<Rightarrow> string \<Rightarrow> store \<Rightarrow> ((int \<times> int) \<times> store) res" where
  "backfill_rbac admin_groups operator_groups db =
     (case res_fold backfill_user (users db) (db, 0) of
        Inl er \<Rightarrow> Inl er
      | Inr (db1, n) \<Rightarrow>
          (case fold backfill_group (backfill_pairs admin_groups operator_groups) (db1, 0) of
             (db2, m) \<Rightarrow> Inr ((n, m), db2)))"

end
