(* ===== verification/GateFacts.thy ===== *)
theory GateFacts
  imports Gates
begin

text \<open>
  Facts on the gates, the role cache and the backfill. Entering scoped mode runs the backfill first:
  the properties say that it never fails on a well-formed store, that a second run adds nothing,
  and that no user of the ladder loses a gate to it.
\<close>

section \<open>Gates\<close>

lemma touch_simps [simp]:
  "c_db (touch u c) = c_db c" "c_flash (touch u c) = c_flash c"
  "c_memo (touch u c) = remember (c_memo c) (c_db c) u"
  by (simp_all add: touch_def)

text \<open>Reading the entries into the memo changes no decision of the same user.\<close>

lemma entries_remember: "grant_entries (remember g db u) db u = grant_entries g db u"
  by (simp add: remember_def grant_entries_def)

lemma effective_remember: "effective_entries e (remember g db u) db u = effective_entries e g db u"
  by (simp add: effective_entries_def entries_remember)

lemma decisions_remember:
  "has_fleet e (remember g db u) db u p = has_fleet e g db u p"
  "minions_with e (remember g db u) db u p = minions_with e g db u p"
  "perm_scope_minions e (remember g db u) db u p = perm_scope_minions e g db u p"
  "delegate_grant_error e (remember g db u) db u r k v = delegate_grant_error e g db u r k v"
  unfolding delegate_grant_error_def holds_on_def has_fleet_def minions_with_def
    perm_scope_minions_def effective_remember by (rule refl)+

lemma authorize_remember:
  "authorize e (remember g db u) db u p m x = authorize e g db u p m x"
  by (simp add: authorize_def effective_remember)

lemma on_db_simps [simp]:
  "c_db (on_db f c) = f (c_db c)" "c_memo (on_db f c) = c_memo c" "c_flash (on_db f c) = c_flash c"
  by (simp_all add: on_db_def)

lemma flash_simps [simp]:
  "c_db (flash m cat c) = c_db c" "c_memo (flash m cat c) = c_memo c"
  by (simp_all add: flash_def)

lemma flash_redirect_simps [simp]:
  "fst (flash_redirect to m cat c) = Redirect to" "c_db (snd (flash_redirect to m cat c)) = c_db c"
  by (simp_all add: flash_redirect_def)

lemma audit_deny_same [simp, intro]: "same_but_audit db (audit_deny u p m d a db)"
  by (simp add: audit_deny_def Let_def)

text \<open>
  A gate either runs the view on the database it was given or refuses and leaves every table but
  the audit trail alone.
\<close>

definition gate_outcome :: "(resp \<times> ctx) \<Rightarrow> view \<Rightarrow> ctx \<Rightarrow> bool" where
  "gate_outcome r k c \<longleftrightarrow>
     (\<exists>c'. c_db c' = c_db c \<and> c_flash c' = c_flash c \<and> r = k c')
     \<or> (fst r = Abort 403 \<or> (\<exists>er. fst r = Fail er)) \<and> same_but_audit (c_db c) (c_db (snd r))"

lemma gate_outcomeI:
  "c_db c' = c_db c \<Longrightarrow> c_flash c' = c_flash c \<Longrightarrow> gate_outcome (k c') k c"
  "same_but_audit (c_db c) (c_db c') \<Longrightarrow> gate_outcome (Abort 403, c') k c"
  "gate_outcome (Fail er, c) k c"
  by (auto simp: gate_outcome_def)

lemma require_outcome: "gate_outcome (require e u p m pre d k c) k c"
  by (simp add: require_def gate_outcomeI)

lemma permission_required_outcome: "gate_outcome (permission_required e u ps k c) k c"
  by (simp add: permission_required_def gate_outcomeI)

lemma roles_required_outcome: "gate_outcome (roles_required first e u rs k c) k c"
  by (simp add: roles_required_def gate_outcomeI Let_def split: sum.split)

text \<open>A table that every run of the view keeps is kept by the guarded view.\<close>

lemma gate_outcome_db:
  assumes "gate_outcome r k c" and "P (c_db c)" and "\<And>db. same_but_audit (c_db c) db \<Longrightarrow> P db"
    and "\<And>c'. c_db c' = c_db c \<Longrightarrow> P (c_db (snd (k c')))"
  shows "P (c_db (snd r))"
  using assms by (auto simp: gate_outcome_def)

section \<open>The role cache\<close>

lemma refresh_simps [simp]:
  "c_flash (refresh_role_cache u c) = c_flash c"
  "c_db (refresh_role_cache u c)
     = set_user_role (u_id u) (cached_role (grant_entries (c_memo c) (c_db c) u)) (c_db c)"
  by (simp_all add: refresh_role_cache_def Let_def)

lemma wf_refresh [wf_intros]: "wf_store (c_db c) \<Longrightarrow> wf_store (c_db (refresh_role_cache u c))"
  by (simp add: wf_set_user_role)

lemma wf_refresh_members [wf_intros]:
  "wf_store (c_db c) \<Longrightarrow> wf_store (c_db (refresh_members uids c))"
proof (induction uids arbitrary: c)
  case (Cons i uids)
  have "wf_store (c_db (refresh_member i c))"
    using Cons.prems by (simp add: refresh_member_def wf_set_user_role split: option.split)
  with Cons.IH show ?case by (simp add: refresh_members_def)
qed (simp add: refresh_members_def)

lemma set_user_role_tables [simp]:
  "grants (set_user_role uid r db) = grants db"
  "local_groups (set_user_role uid r db) = local_groups db"
  "local_group_members (set_user_role uid r db) = local_group_members db"
  "user_idp_groups (set_user_role uid r db) = user_idp_groups db"
  "idp_role_mappings (set_user_role uid r db) = idp_role_mappings db"
  "audit_events (set_user_role uid r db) = audit_events db"
  "minions (set_user_role uid r db) = minions db"
  "minion_groups (set_user_role uid r db) = minion_groups db"
  "settings (set_user_role uid r db) = settings db"
  "seq (set_user_role uid r db) = seq db"
  "db_now (set_user_role uid r db) = db_now db"
  by (simp_all add: set_user_role_def)

lemma queried_entries_role [simp]: "queried_entries (set_user_role uid r db) i = queried_entries db i"
  by (simp add: queried_entries_def user_entries_def group_entries_def idp_entries_def idp_names_def)

lemma queried_entries_log [simp]:
  "queried_entries (log_event u a j out p m d db) i = queried_entries db i"
  by (simp add: queried_entries_def user_entries_def group_entries_def idp_entries_def idp_names_def)

lemma user_by_id_role:
  "user_by_id (set_user_role uid r db) i
   = (if i = uid then map_option (\<lambda>u. u\<lparr>u_role := r\<rparr>) (user_by_id db i) else user_by_id db i)"
  unfolding user_by_id_def set_user_role_def by (simp add: find_row_update)

section \<open>Backfill\<close>

lemma res_fold_append:
  "res_fold f (xs @ ys) s = (case res_fold f xs s of Inl er \<Rightarrow> Inl er | Inr s' \<Rightarrow> res_fold f ys s')"
  by (induction xs arbitrary: s) (auto split: sum.splits)

lemma add_grant_rows:
  assumes "add_grant g db = Inr db'"
  shows "users db' = users db \<and> local_groups db' = local_groups db
    \<and> local_group_members db' = local_group_members db \<and> settings db' = settings db
    \<and> idp_role_mappings db' = idp_role_mappings db \<and> user_idp_groups db' = user_idp_groups db
    \<and> minions db' = minions db \<and> minion_groups db' = minion_groups db
    \<and> audit_events db' = audit_events db
    \<and> grants db' = grants db @ [g\<lparr>g_id := seq db ''grants'', g_created_at := db_now db\<rparr>]"
  using add_grant_ok [OF assms] by (simp add: bump_def insert_grant_def)

lemma has_fleet_grant_iff:
  "has_fleet_grant db uid role \<longleftrightarrow> (\<exists>g \<in> set (grants db). g_subject_kind g = ''user''
     \<and> g_subject_user_id g = Some uid \<and> g_role g = role \<and> g_scope_kind g = ''fleet''
     \<and> g_scope_value g = ''*'')"
  by (simp add: has_fleet_grant_def list_ex_iff)

lemma user_grant_simps [simp]:
  "g_subject_kind (user_grant i r k v s c) = ''user''"
  "g_subject_user_id (user_grant i r k v s c) = Some i"
  "g_subject_group_id (user_grant i r k v s c) = None"
  "g_role (user_grant i r k v s c) = r" "g_scope_kind (user_grant i r k v s c) = k"
  "g_scope_value (user_grant i r k v s c) = v" "g_source (user_grant i r k v s c) = s"
  by (simp_all add: user_grant_def)

lemma backfill_grant_total:
  assumes "wf_store db" and "uid \<in> u_id ` set (users db)" and "\<not> has_fleet_grant db uid role"
  obtains db' where "add_grant (user_grant uid role ''fleet'' ''*'' src c) db = Inr db'"
proof -
  let ?g = "user_grant uid role ''fleet'' ''*'' src c"
  have "grant_key ?g \<notin> grant_key ` set (grants db)"
  proof
    assume "grant_key ?g \<in> grant_key ` set (grants db)"
    then obtain g where g: "g \<in> set (grants db)" "grant_key g = grant_key ?g" by auto
    then have "g_subject_kind g = ''user''"
      using assms(1) by (simp add: wf_store_iff grant_key_def)
    with g assms(3) show False by (auto simp: has_fleet_grant_iff grant_key_def)
  qed
  then show thesis
    using add_grant_total [of ?g db] assms(2) that by (simp add: one_subject_def)
qed

definition ladder_granted :: "store \<Rightarrow> user \<Rightarrow> bool" where
  "ladder_granted db u = (u_role u \<in> set LADDER_ROLES \<longrightarrow> has_fleet_grant db (u_id u) (u_role u))"

lemma backfill_user_step:
  assumes "wf_store db" and "u \<in> set (users db)"
  obtains db' n' where "backfill_user u (db, n) = Inr (db', n')"
    and "wf_store db'" and "users db' = users db" and "set (grants db) \<subseteq> set (grants db')"
    and "ladder_granted db' u" and "idp_role_mappings db' = idp_role_mappings db"
proof (cases "u_role u \<in> set LADDER_ROLES \<and> \<not> has_fleet_grant db (u_id u) (u_role u)")
  case False
  then show thesis
    using that [of db n] assms by (auto simp: backfill_user_def ladder_granted_def)
next
  case True
  let ?g = "user_grant (u_id u) (u_role u) ''fleet'' ''*'' ''backfill'' None"
  obtain db' where db': "add_grant ?g db = Inr db'"
    using backfill_grant_total assms True by blast
  have "wf_store db'" using wf_add_grant [OF assms(1) db'] by simp
  moreover have "has_fleet_grant db' (u_id u) (u_role u)"
    using add_grant_rows [OF db'] by (simp add: has_fleet_grant_iff user_grant_def)
  ultimately show thesis
    using that [of db' "n + 1"] True db' add_grant_rows [OF db']
    by (simp add: backfill_user_def ladder_granted_def subset_insertI)
qed

lemma ladder_granted_mono:
  "set (grants db) \<subseteq> set (grants db') \<Longrightarrow> ladder_granted db u \<Longrightarrow> ladder_granted db' u"
  by (auto simp: ladder_granted_def has_fleet_grant_iff)

lemma backfill_users:
  assumes "wf_store db" and "set us \<subseteq> set (users db)"
  obtains db' n' where "res_fold backfill_user us (db, n) = Inr (db', n')"
    and "wf_store db'" and "users db' = users db" and "set (grants db) \<subseteq> set (grants db')"
    and "\<forall>u \<in> set us. ladder_granted db' u" and "idp_role_mappings db' = idp_role_mappings db"
  using assms
proof (induction us arbitrary: db n thesis)
  case Nil
  then show ?case by simp
next
  case (Cons u us)
  obtain d k where s: "backfill_user u (db, n) = Inr (d, k)" "wf_store d" "users d = users db"
    "set (grants db) \<subseteq> set (grants d)" "ladder_granted d u"
    "idp_role_mappings d = idp_role_mappings db"
    using backfill_user_step [of db u n] Cons.prems by auto
  obtain d' k' where r: "res_fold backfill_user us (d, k) = Inr (d', k')" "wf_store d'"
    "users d' = users d" "set (grants d) \<subseteq> set (grants d')" "\<forall>u \<in> set us. ladder_granted d' u"
    "idp_role_mappings d' = idp_role_mappings d"
    using Cons.IH [of d k] Cons.prems s by auto
  show ?case
    using Cons.prems(1) [of d' k'] s r ladder_granted_mono [OF r(4) s(5)] by auto
qed

lemma has_mapping_iff:
  "has_mapping db grp role \<longleftrightarrow> (\<exists>m \<in> set (idp_role_mappings db). irm_idp_group m = grp
     \<and> irm_role m = role \<and> irm_scope_kind m = ''fleet'' \<and> irm_scope_value m = ''*'')"
  by (simp add: has_mapping_def list_ex_iff)

lemma add_mapping_simps [simp]:
  "users (add_mapping g r db) = users db" "grants (add_mapping g r db) = grants db"
  "local_groups (add_mapping g r db) = local_groups db"
  "local_group_members (add_mapping g r db) = local_group_members db"
  "has_mapping (add_mapping g r db) g' r' \<longleftrightarrow> has_mapping db g' r' \<or> (g' = g \<and> r' = r)"
  "t \<noteq> ''idp_role_mappings'' \<Longrightarrow> seq (add_mapping g r db) t = seq db t"
  by (auto simp: add_mapping_def bump_def has_mapping_iff)

lemma backfill_groups:
  "fold backfill_group ps (db, n) = (db', n') \<Longrightarrow>
   users db' = users db \<and> grants db' = grants db \<and> local_groups db' = local_groups db
   \<and> local_group_members db' = local_group_members db
   \<and> (\<forall>t. t \<noteq> ''idp_role_mappings'' \<longrightarrow> seq db' t = seq db t)
   \<and> (\<forall>g r. has_mapping db g r \<longrightarrow> has_mapping db' g r)
   \<and> (\<forall>(g, r) \<in> set ps. has_mapping db' g r)"
proof (induction ps arbitrary: db n)
  case (Cons p ps)
  obtain g r where p: "p = (g, r)" by (cases p)
  let ?s = "if has_mapping db g r then (db, n) else (add_mapping g r db, n + 1)"
  have "fold backfill_group ps (fst ?s, snd ?s) = (db', n')"
    using Cons.prems by (simp add: p backfill_group_def [of "(g, r)"] split: if_splits)
  from Cons.IH [OF this] show ?case by (auto simp: p split: if_splits)
qed auto

lemma backfill_users_done:
  "\<forall>u \<in> set us. ladder_granted db u \<Longrightarrow> res_fold backfill_user us (db, n) = Inr (db, n)"
  by (induction us) (auto simp: backfill_user_def ladder_granted_def)

lemma backfill_groups_done:
  "\<forall>(g, r) \<in> set ps. has_mapping db g r \<Longrightarrow> fold backfill_group ps (db, n) = (db, n)"
  by (induction ps) (auto simp: backfill_group_def)

lemma backfill_result:
  assumes "wf_store db"
  obtains n m db' where "backfill_rbac ag og db = Inr ((n, m), db')" and "wf_store db'"
    and "users db' = users db" and "\<forall>u \<in> set (users db'). ladder_granted db' u"
    and "\<forall>(g, r) \<in> set (backfill_pairs ag og). has_mapping db' g r"
    and "set (grants db) \<subseteq> set (grants db')"
proof -
  obtain d n where d: "res_fold backfill_user (users db) (db, 0) = Inr (d, n)" "wf_store d"
    "users d = users db" "set (grants db) \<subseteq> set (grants d)" "\<forall>u \<in> set (users db). ladder_granted d u"
    by (rule backfill_users [OF assms order_refl, of 0])
  obtain db' m where m: "fold backfill_group (backfill_pairs ag og) (d, 0) = (db', m)"
    by (cases "fold backfill_group (backfill_pairs ag og) (d, 0)") auto
  note g = backfill_groups [OF m]
  have "wf_store db'" using wf_store_cong [of db' d] g d(2) by simp
  moreover have "\<forall>u \<in> set (users db'). ladder_granted db' u"
    using d(3,5) g ladder_granted_mono [of d db'] by auto
  ultimately show thesis
    using that [of n m db'] d g m by (simp add: backfill_rbac_def)
qed

section \<open>Ladder users keep their gates\<close>

lemma fleet_grant_entry:
  assumes "has_fleet_grant db uid role"
  shows "(role, ''fleet'', ''*'') \<in> set (queried_entries db uid)"
  using assms by (force simp: has_fleet_grant_iff queried_entries_def user_entries_def)

lemma effective_nonempty:
  "grant_entries g db u \<noteq> [] \<Longrightarrow> effective_entries e g db u = grant_entries g db u"
  by (simp add: effective_entries_def Let_def)

lemma ladder_has_fleet:
  assumes "has_fleet_grant db (u_id u) role" and "ROLE_PERMS role = Some p" and "perm \<in> p"
  shows "has_fleet e (\<lambda>_. None) db u perm"
proof -
  have en: "(role, ''fleet'', ''*'') \<in> set (queried_entries db (u_id u))"
    by (rule fleet_grant_entry [OF assms(1)])
  then have "effective_entries e (\<lambda>_. None) db u = queried_entries db (u_id u)"
    using effective_nonempty [of "\<lambda>_. None" db u] by fastforce
  with en assms(2,3) show ?thesis by (auto simp: has_fleet_iff)
qed

text \<open>A single fleet entry of a ladder role passes exactly the floors of the legacy ladder.\<close>

definition floor_table :: "string \<Rightarrow> int \<Rightarrow> bool" where
  "floor_table role n =
     (\<exists>perm \<in> LEGACY_FLOOR_PERMS n. perm \<in> (case ROLE_PERMS role of None \<Rightarrow> {} | Some p \<Rightarrow> p))"

lemma floor_table_upper:
  "list_all (\<lambda>role. list_all (\<lambda>n. floor_table role n = (n \<le> role_level role)) [1, 2]) LADDER_ROLES"
  by code_simp

lemma ladder_minion_read:
  "list_all (\<lambda>role. ''minion.read'' \<in> (case ROLE_PERMS role of None \<Rightarrow> {} | Some p \<Rightarrow> p)
     \<and> 0 \<le> role_level role) LADDER_ROLES"
  by code_simp

lemma floor_table_ladder:
  assumes "role \<in> set LADDER_ROLES" and "n \<in> set [0, 1, 2]"
  shows "floor_table role n = (n \<le> role_level role)"
proof (cases "n = 0")
  case True
  have d: "''minion.read'' \<in> (case ROLE_PERMS role of None \<Rightarrow> {} | Some p \<Rightarrow> p)" "0 \<le> role_level role"
    using ladder_minion_read assms(1) unfolding list_all_iff by blast+
  then have "''minion.read'' \<in> LEGACY_FLOOR_PERMS 0"
    by (auto simp: LEGACY_FLOOR_PERMS_def dest: ROLE_PERMS_all split: option.splits)
  with d show ?thesis by (auto simp: floor_table_def True)
next
  case False
  then have "n \<in> set [1, 2]" using assms(2) by simp
  then show ?thesis using floor_table_upper assms(1) unfolding list_all_iff by blast
qed

lemma authorize_single_fleet:
  assumes "effective_entries e g db u = [(role, ''fleet'', v)]"
  shows "authorize e g db u perm mi pre \<longleftrightarrow> perm \<in> (case ROLE_PERMS role of None \<Rightarrow> {} | Some p \<Rightarrow> p)"
proof (cases "ROLE_PERMS role")
  case None
  then show ?thesis by (simp add: authorize_iff assms entry_covers_def)
next
  case (Some p)
  have "entry_covers db (role, ''fleet'', v) perm mi pre \<Longrightarrow> perm \<in> p"
    by (simp add: entry_covers_def Some split: if_splits)
  then show ?thesis using fleet_covers [OF Some] by (auto simp: authorize_iff assms Some)
qed

lemma ladder_floor:
  assumes "effective_entries e g db u = [(role, ''fleet'', v)]" and "role \<in> set LADDER_ROLES"
    and "n \<in> set [0, 1, 2]"
  shows "(\<exists>p \<in> LEGACY_FLOOR_PERMS n. authorize e g db u p None None) \<longleftrightarrow> n \<le> role_level role"
proof -
  have "floor_table role n = (n \<le> role_level role)"
    by (rule floor_table_ladder [OF assms(2,3)])
  then show ?thesis by (simp add: authorize_single_fleet [OF assms(1)] floor_table_def)
qed

lemma role_level_range: "role_level r \<in> set [0, 1, 2]"
  by (simp add: role_level_def LEVELS_def)

text \<open>The floor is one of the levels, the least of those named.\<close>

lemma role_floor_known:
  assumes "role_floor roles = Inr n"
  shows "n = Min (set (map role_level roles))" and "n \<in> set [0, 1, 2]"
proof -
  let ?f = "\<lambda>r. case map_of LEVELS r of None \<Rightarrow> Inl (KeyErr r) | Some n \<Rightarrow> Inr n"
  have levels: "res_map ?f rs = Inr ns \<Longrightarrow> ns = map role_level rs" for rs ns
    by (induction rs arbitrary: ns) (auto simp: role_level_def split: sum.splits option.splits)
  obtain ns where ns: "res_map ?f roles = Inr ns" "ns \<noteq> []" "n = Min (set ns)"
    using assms by (auto simp: role_floor_def split: if_splits)
  show n: "n = Min (set (map role_level roles))" using ns levels by simp
  have "n \<in> set ns" using ns(2,3) by (simp add: Min_in)
  then show "n \<in> set [0, 1, 2]" using levels [OF ns(1)] role_level_range by auto
qed

lemma role_floor_single [simp]:
  "role_floor [''viewer''] = Inr 0" "role_floor [''operator''] = Inr 1" "role_floor [''admin''] = Inr 2"
  by (simp_all add: role_floor_def LEVELS_def)

end
