(* ===== verification/Demo.thy ===== *)
theory Demo
  imports Gates
begin

text \<open>
  A small installation the witnesses are evaluated on: three minions, a minion group, a fleet
  administrator, a team lead on the web group, a file editor under \<open>web\<close>, an operator whose role column is all it has, and a
  user whose administrator grant comes through a local group.
\<close>

definition demo_minion :: "string \<Rightarrow> string \<Rightarrow> minion" where
  "demo_minion i os = \<lparr>m_id = i, m_key_status = ''accepted'', m_last_seen = None,
     m_grains = PDict [(''os'', PStr os)], m_conformity = PNone\<rparr>"

definition demo_user :: "int \<Rightarrow> string \<Rightarrow> string \<Rightarrow> user" where
  "demo_user i n r = \<lparr>u_id = i, u_username = n, u_password_hash = Some ''x'', u_role = r,
     u_kind = ''human'', u_oidc_issuer = None, u_oidc_sub = None, u_created_at = 0\<rparr>"

definition demo_grant :: "int \<Rightarrow> int option \<Rightarrow> int option \<Rightarrow> string \<Rightarrow> string \<Rightarrow> string \<Rightarrow> grant" where
  "demo_grant i u l r k v = \<lparr>g_id = i, g_subject_kind = (if u = None then ''local_group'' else ''user''),
     g_subject_user_id = u, g_subject_group_id = l, g_role = r, g_scope_kind = k, g_scope_value = v,
     g_source = ''manual'', g_created_by = None, g_created_at = 0\<rparr>"

definition root :: user where "root = demo_user 1 ''root'' ''admin''"
definition lead :: user where "lead = demo_user 2 ''lead'' ''scoped''"
definition oper :: user where "oper = demo_user 3 ''oper'' ''operator''"
definition carol :: user where "carol = demo_user 4 ''carol'' ''admin''"
definition dave :: user where "dave = demo_user 5 ''dave'' ''none''"
definition erin :: user where "erin = demo_user 6 ''erin'' ''scoped''"

definition demo_store :: store where
  "demo_store = empty_store\<lparr>
     users := [root, lead, oper, carol, dave, erin],
     settings := [(''rbac_mode'', ''scoped'')],
     minions := [demo_minion ''web-01'' ''Debian'', demo_minion ''web-02'' ''Alma'',
                 demo_minion ''db-01'' ''Debian''],
     minion_groups := [\<lparr>mg_id = 1, mg_name = ''web'',
       mg_members = PList [PStr ''web-01'', PStr ''web-02''], mg_created_at = 0\<rparr>],
     local_groups := [\<lparr>lg_id = 1, lg_name = ''sre'', lg_created_at = 0\<rparr>],
     local_group_members := [\<lparr>lgm_group_id = 1, lgm_user_id = 4\<rparr>],
     grants := [demo_grant 1 (Some 1) None ''admin'' ''fleet'' ''*'',
                demo_grant 2 (Some 2) None ''team-lead'' ''group'' ''1'',
                demo_grant 3 None (Some 1) ''admin'' ''fleet'' ''*'',
                demo_grant 4 (Some 6) None ''file-editor'' ''prefix'' ''web''],
     seq := (\<lambda>t. if t = ''users'' then 7 else if t = ''grants'' then 5 else 2)\<rparr>"

definition demo_env :: env where
  "demo_env = \<lparr>app_config = (\<lambda>_. None), os_environ = (\<lambda>_. None), in_app_context = True\<rparr>"

abbreviation fresh :: gctx where "fresh \<equiv> (\<lambda>_. None)"

lemma demo_scoped: "rbac_mode demo_env demo_store = ''scoped''"
  by code_simp

lemma demo_fallback: "rbac_fallback_on demo_env demo_store"
  by code_simp

lemma demo_snapshot: "snapshot_ids demo_store = {''web-01'', ''web-02'', ''db-01''}"
  by code_simp

lemmas demo_defs = demo_store_def demo_minion_def demo_user_def demo_grant_def empty_store_def
  root_def lead_def oper_def carol_def dave_def erin_def

lemma demo_wf: "wf_store demo_store"
  by (simp add: wf_store_iff wf_keys_def demo_defs grant_key_def one_subject_def)

lemma demo_lead_entries: "effective_entries demo_env fresh demo_store lead = [(''team-lead'', ''group'', ''1'')]"
  by code_simp

lemma demo_root_entries: "effective_entries demo_env fresh demo_store root = [(''admin'', ''fleet'', ''*'')]"
  by code_simp

lemma demo_oper_entries: "effective_entries demo_env fresh demo_store oper = [(''operator'', ''fleet'', ''*'')]"
  by code_simp

lemma demo_dave_entries: "effective_entries demo_env fresh demo_store dave = []"
  by code_simp

lemma demo_lead_scope: "resolve_scope demo_store ''group'' ''1'' = {''web-01'', ''web-02''}"
  by code_simp

end
