(* ===== verification/AuthzProps.thy ===== *)
theory AuthzProps
  imports GateFacts Demo "HOL-Library.Sublist"
begin

text \<open>
  The properties of the permission evaluator: the two ways of asking a minion-domain question
  agree, a decision read through the request's caches is the decision itself, nothing is granted
  by default, scopes confine, and what a scoped caller publishes, kills or delegates stays inside
  what it holds.
\<close>

section \<open>Decisions\<close>

text \<open>C1: The per-minion check and the minion set agree: for a minion-domain permission and a minion
  of the snapshot, \<open>authorize(user, perm, minion=m)\<close> holds exactly when \<open>m\<close> is in
  \<open>minions_with(user, perm)\<close>.\<close>

theorem authorize_iff_minions_with:
  assumes "perm_domain perm = Minion" and "m \<in> snapshot_ids db"
  shows "authorize e g db u perm (Some m) pre \<longleftrightarrow> m \<in> minions_with e g db u perm"
  using assms by (simp add: authorize_iff minions_with_iff entry_covers_minion)

theorem authorize_iff_minions_with_witness:
  "authorize demo_env fresh demo_store lead ''job.run.state'' (Some ''web-01'') None
     = (''web-01'' \<in> minions_with demo_env fresh demo_store lead ''job.run.state'')"
  by (rule authorize_iff_minions_with) code_simp+

text \<open>Memoization on \<open>flask.g\<close> is transparent: a sequence of checks that starts from an empty
  decision cache, and reads entries through a memo that any earlier reads of the request filled,
  gives each check the verdict of the uncached evaluation on the queried entries.\<close>

theorem decisions_through_caches:
  "fst (authorize_all e (fold (\<lambda>v g. remember g db v) earlier (\<lambda>_. None)) db (\<lambda>_. None) u ks)
   = map (\<lambda>(perm, mi, pre). authorize e (\<lambda>_. None) db u perm mi pre) ks"
proof -
  let ?g = "fold (\<lambda>v g. remember g db v) earlier (\<lambda>_. None)"
  have coh: "entries.coherent db (fold (\<lambda>v g. remember g db v) vs g)" if "entries.coherent db g" for vs g
    using that by (induction vs arbitrary: g) (auto intro: remember_coherent)
  have "grant_entries ?g db u = queried_entries db (u_id u)"
    by (rule grant_entries_coherent) (rule coh, rule entries.coherent_empty)
  then have eq: "authorize e ?g db u p m pre = authorize e (\<lambda>_. None) db u p m pre" for p m pre
    by (simp add: authorize_def effective_entries_def)
  have "user_slice u (\<lambda>_. None) = (\<lambda>_. None)" by (simp add: user_slice_def fun_eq_iff)
  then show ?thesis
    unfolding authorize_all_slice
    by (simp add: decisions.run_all_coherent decisions.coherent_empty eq split_beta)
qed

text \<open>Default deny: a user with no grant, no group grant and no provider mapping, and whose role
  column gives no fallback, passes no check, holds no fleet permission and reaches no minion.\<close>

theorem default_deny:
  assumes "grant_entries g db u = []"
    and "\<not> rbac_fallback_on e db \<or> u_role u \<notin> set LADDER_ROLES"
  shows "\<not> authorize e g db u perm mi pre \<and> \<not> has_fleet e g db u perm
    \<and> minions_with e g db u perm = {} \<and> perm_scope_minions e g db u perm = {}
    \<and> \<not> has_any_access e g db u"
proof -
  have "effective_entries e g db u = []" using assms by (auto simp: effective_entries_def)
  then show ?thesis
    by (simp add: authorize_iff has_fleet_iff minions_with_def perm_scope_minions_def has_any_access_def)
qed

theorem default_deny_witness:
  "\<not> authorize demo_env fresh demo_store dave ''minion.read'' None None"
proof -
  have "grant_entries fresh demo_store dave = []" by code_simp
  moreover have "u_role dave \<notin> set LADDER_ROLES" by code_simp
  ultimately show ?thesis using default_deny [of fresh demo_store dave demo_env] by blast
qed

text \<open>Scopes confine: when none of the user's effective entries is on the fleet, no fleet-domain
  permission is granted, the minion set of every permission lies in the union of the entries'
  resolved scopes, and on a minion outside that union no minion-domain check passes.\<close>

theorem scopes_confine:
  assumes "\<forall>en \<in> set (effective_entries e g db u). fst (snd en) \<noteq> ''fleet''"
  defines "reach \<equiv> (\<Union>en \<in> set (effective_entries e g db u). resolve_scope db (fst (snd en)) (snd (snd en)))"
  shows "(perm_domain perm = Fleet \<longrightarrow> \<not> authorize e g db u perm mi pre)
    \<and> minions_with e g db u perm \<subseteq> reach
    \<and> (perm_domain perm = Minion \<longrightarrow> m \<notin> reach \<longrightarrow> \<not> authorize e g db u perm (Some m) pre)"
proof (intro conjI impI)
  assume "perm_domain perm = Fleet"
  then show "\<not> authorize e g db u perm mi pre"
    using assms(1) fleet_domain_covers unfolding authorize_iff by blast
next
  have "entry_minions db perm en \<subseteq> resolve_scope db (fst (snd en)) (snd (snd en))"
    if "fst (snd en) \<noteq> ''fleet''" for en
    using that by (cases en) (simp add: entry_minions_def split: option.split)
  then show "minions_with e g db u perm \<subseteq> reach"
    using assms(1) unfolding reach_def subset_iff minions_with_iff by blast
next
  assume d: "perm_domain perm = Minion" and m: "m \<notin> reach"
  have "\<not> entry_covers db en perm (Some m) pre" if en: "en \<in> set (effective_entries e g db u)" for en
  proof -
    obtain role k v where x: "en = (role, k, v)" by (cases en)
    have "k \<noteq> ''fleet''" using assms(1) en x by auto
    moreover have "m \<notin> resolve_scope db k v" using m en x unfolding reach_def by auto
    ultimately show ?thesis using d by (simp add: entry_covers_def x split: option.split)
  qed
  then show "\<not> authorize e g db u perm (Some m) pre" by (simp add: authorize_iff)
qed

theorem scopes_confine_witness:
  "\<not> authorize demo_env fresh demo_store lead ''job.run.state'' (Some ''db-01'') None"
proof -
  have "\<forall>en \<in> set (effective_entries demo_env fresh demo_store lead). fst (snd en) \<noteq> ''fleet''"
    by (simp add: demo_lead_entries)
  from scopes_confine [OF this, of "''job.run.state''" None None "''db-01''"]
  show ?thesis
    by (simp add: demo_lead_entries demo_lead_scope perm_domain_def FLEET_DOMAIN_PERMS_def
        PREFIX_DOMAIN_PERMS_def DELEGATE_PERMS_def)
qed

text \<open>Grants only add: once a user has some entry, inserting another grant row for anybody never
  takes a passed check away from it (a user without entries can lose the role fallback instead).\<close>

theorem grants_only_add:
  assumes "add_grant gr db = Inr db'" and "queried_entries db (u_id u) \<noteq> []"
    and "authorize e (\<lambda>_. None) db u perm mi pre"
  shows "authorize e (\<lambda>_. None) db' u perm mi pre"
proof -
  note rows = add_grant_rows [OF assms(1)]
  have sub: "set (queried_entries db i) \<subseteq> set (queried_entries db' i)" for i
    using rows idp_entries_cong [of db' db i]
    by (auto simp: set_queried_entries grant_applies_def)
  then have ne: "queried_entries db' (u_id u) \<noteq> []" using assms(2) by (metis set_empty subset_empty)
  have eff: "effective_entries e (\<lambda>_. None) d u = queried_entries d (u_id u)"
    if "queried_entries d (u_id u) \<noteq> []" for d
    using effective_nonempty [of "\<lambda>_. None" d u e] that by simp
  have cov: "entry_covers db' = entry_covers db" by (rule entry_covers_cong) (simp_all add: rows)
  from assms(3) sub show ?thesis
    unfolding authorize_iff eff [OF assms(2)] eff [OF ne] cov by blast
qed

theorem grants_only_add_witness:
  "\<exists>db'. add_grant (user_grant 2 ''team-viewer'' ''glob'' ''db-*'' ''manual'' (Some 1)) demo_store = Inr db'
     \<and> authorize demo_env fresh db' lead ''job.run.state'' (Some ''web-02'') None"
proof -
  let ?gr = "user_grant 2 ''team-viewer'' ''glob'' ''db-*'' ''manual'' (Some 1)"
  have "one_subject ?gr" "grant_key ?gr \<notin> grant_key ` set (grants demo_store)"
    "set_option (g_subject_user_id ?gr) \<subseteq> u_id ` set (users demo_store)"
    "set_option (g_subject_group_id ?gr) \<subseteq> lg_id ` set (local_groups demo_store)"
    by (simp_all add: user_grant_def one_subject_def demo_defs grant_key_def)
  from add_grant_total [OF this] obtain db' where db': "add_grant ?gr demo_store = Inr db'" by blast
  have "queried_entries demo_store (u_id lead) \<noteq> []" by code_simp
  moreover have "authorize demo_env fresh demo_store lead ''job.run.state'' (Some ''web-02'') None"
    unfolding authorize_iff demo_lead_entries by code_simp
  ultimately show ?thesis using grants_only_add [OF db'] db' by blast
qed

section \<open>File prefixes\<close>

text \<open>A file grant covers a subtree, component by component: the scope covers a path exactly when
  its slash-separated components are a prefix of the path's, so \<open>web\<close> covers \<open>web/a.sls\<close> and not
  \<open>webapp/a.sls\<close>.\<close>

theorem prefix_covers_components:
  "prefix_covers v p \<longleftrightarrow> prefix (py_split CHR ''/'' v) (py_split CHR ''/'' p)"
proof
  assume "prefix_covers v p"
  then consider "p = v" | r where "p = v @ CHR ''/'' # r"
    by (auto simp: prefix_covers_def starts_with_iff)
  then show "prefix (py_split CHR ''/'' v) (py_split CHR ''/'' p)"
    by cases (simp_all add: py_split_append_any)
next
  assume "prefix (py_split CHR ''/'' v) (py_split CHR ''/'' p)"
  then obtain rest where rest: "py_split CHR ''/'' p = py_split CHR ''/'' v @ rest"
    by (auto simp: prefix_def)
  have p: "p = py_join ''/'' (py_split CHR ''/'' v @ rest)"
    using py_join_split [of "CHR ''/''" p] by (simp add: rest)
  show "prefix_covers v p"
  proof (cases "rest = []")
    case True
    then show ?thesis using p py_join_split [of "CHR ''/''" v] by (simp add: prefix_covers_def)
  next
    case False
    then have "p = v @ ''/'' @ py_join ''/'' rest"
      using p py_join_append [of "py_split CHR ''/'' v" rest "''/''"] py_join_split [of "CHR ''/''" v]
      by simp
    then show ?thesis by (auto simp: prefix_covers_def starts_with_iff)
  qed
qed

text \<open>The file browser shows what the checks allow: for a caller without a fleet file grant, whose
  fleet-only roles all sit on the fleet, \<open>prefix_visible\<close> over \<open>visible_prefixes\<close> holds of a path
  exactly when \<open>authorize\<close> passes \<open>file.read\<close> or \<open>file.write\<close> on that path.\<close>

theorem visible_prefixes_authorize:
  assumes "visible_prefixes e g db u = Some ps"
    and "\<forall>(role, k, v) \<in> set (effective_entries e g db u). role \<in> FLEET_ONLY_ROLES \<longrightarrow> k = ''fleet''"
  shows "prefix_visible ps rel \<longleftrightarrow>
    authorize e g db u ''file.read'' None (Some rel) \<or> authorize e g db u ''file.write'' None (Some rel)"
proof -
  have dom: "perm_domain ''file.read'' = Prefix" "perm_domain ''file.write'' = Prefix" by code_simp+
  note vis = visible_prefixes_set [OF assms(1)]
  show ?thesis
    unfolding authorize_prefix_domain [OF dom(1) vis(1) assms(2)]
      authorize_prefix_domain [OF dom(2) vis(2) assms(2)]
    by (auto simp: prefix_visible_def list_ex_iff vis(3) prefix_covers_def)
qed

theorem visible_prefixes_authorize_witness:
  "prefix_visible [''web''] ''web/a.sls'' =
     (authorize demo_env fresh demo_store erin ''file.read'' None (Some ''web/a.sls'')
      \<or> authorize demo_env fresh demo_store erin ''file.write'' None (Some ''web/a.sls''))"
proof (rule visible_prefixes_authorize)
  have "effective_entries demo_env fresh demo_store erin = [(''file-editor'', ''prefix'', ''web'')]"
    by code_simp
  then show "\<forall>(role, k, v) \<in> set (effective_entries demo_env fresh demo_store erin).
      role \<in> FLEET_ONLY_ROLES \<longrightarrow> k = ''fleet''"
    by (simp add: FLEET_ONLY_ROLES_def)
  show "visible_prefixes demo_env fresh demo_store erin = Some [''web'']"
    by code_simp
qed

end
