(* ===== verification/TargetProps.thy ===== *)
theory TargetProps
  imports GateFacts Demo
begin

text \<open>
  The properties of publishing, killing and delegating by a scoped caller: a published target is a
  list of minions the caller is authorized on, a kill reaches every minion of the stored target or
  none, and a delegated grant lets its subject do nothing on a minion that the delegator may not.
\<close>

section \<open>Publishing\<close>

text \<open>C2: A scoped caller's publish is exactly the authorized part of the request: without a fleet
  grant for the permission, an accepted target is a nonempty \<open>list\<close> target; Salt reads back the
  requested snapshot minions the caller holds the permission on, no more and no fewer, and each of
  them passes the per-minion check.\<close>

theorem publish_inside:
  assumes "\<not> has_fleet e g db u perm" and "constrain_target e g db u perm tgt tt = Inr (t, tt')"
    and "\<forall>m \<in> snapshot_ids db. plain_id m"
  shows "tt' = ''list'' \<and> csv_ids t \<noteq> []
    \<and> (\<exists>req. published_snapshot_ids db (Some tgt) (Some tt) = Some req
          \<and> set (csv_ids t) = req \<inter> minions_with e g db u perm)
    \<and> (\<forall>m \<in> set (csv_ids t). authorize e g db u perm (Some m) None)"
proof -
  obtain rq ht where v: "constrain_target_verbose e g db u perm tgt tt = Inr (t, tt', rq, ht)"
    using assms(2) by (auto simp: constrain_target_def split: sum.splits)
  obtain req hit where r: "published_snapshot_ids db (Some tgt) (Some tt) = Some req"
    "hit = req \<inter> minions_with e g db u perm" "hit \<noteq> {}" "t = csv_of hit" "tt' = ''list''"
    using constrain_target_ok [OF assms(1) v] by metis
  have "hit \<subseteq> snapshot_ids db" using r(2) minions_with_snapshot by blast
  then have rt: "set (csv_ids t) = hit"
    unfolding r(4) using csv_round_trip [of hit] r(3) assms(3) finite_subset [OF _ finite_snapshot] by blast
  moreover have "authorize e g db u perm (Some m) None" if "m \<in> hit" for m
    using that r(2) minions_with_authorize by blast
  ultimately show ?thesis using r rt by auto
qed

theorem publish_inside_witness:
  "set (csv_ids ''web-01,web-02'') = {''web-01'', ''web-02''}
   \<and> authorize demo_env fresh demo_store lead ''job.run.state'' (Some ''web-01'') None
   \<and> authorize demo_env fresh demo_store lead ''job.run.state'' (Some ''web-02'') None"
proof -
  have h: "\<not> has_fleet demo_env fresh demo_store lead ''job.run.state''"
    "constrain_target demo_env fresh demo_store lead ''job.run.state'' ''*'' ''glob''
      = Inr (''web-01,web-02'', ''list'')"
    "\<forall>m \<in> snapshot_ids demo_store. plain_id m" by code_simp+
  note publish_inside [OF h]
  moreover have "set (csv_ids ''web-01,web-02'') = {''web-01'', ''web-02''}" by code_simp
  ultimately show ?thesis by simp
qed

text \<open>What is refused, and why: without a fleet grant, a target type that cannot be evaluated
  locally is refused with detail \<open>needs-fleet\<close>, an evaluable one with \<open>empty-intersection\<close>
  exactly when no requested minion is allowed; every other request is published.\<close>

theorem publish_refused:
  assumes "\<not> has_fleet e g db u perm"
  shows "constrain_target e g db u perm tgt tt = Inl d \<longleftrightarrow>
    d_perm d = perm \<and>
    (case published_snapshot_ids db (Some tgt) (Some tt) of
       None \<Rightarrow> d = needs_fleet perm tt \<and> d_detail d = ''needs-fleet''
     | Some req \<Rightarrow> req \<inter> minions_with e g db u perm = {}
         \<and> d = AuthzDenied perm ''empty intersection'' None \<and> d_detail d = ''empty-intersection'')"
proof -
  have n: "d_perm (needs_fleet perm tt) = perm" "d_detail (needs_fleet perm tt) = ''needs-fleet''"
    by (simp_all add: needs_fleet_def AuthzDenied_def REASON_DETAILS_def or_empty_def)
  have a: "d_perm (AuthzDenied perm ''empty intersection'' None) = perm"
    "d_detail (AuthzDenied perm ''empty intersection'' None) = ''empty-intersection''"
    by (simp_all add: AuthzDenied_def REASON_DETAILS_def or_empty_def)
  show ?thesis
    unfolding constrain_target_def constrain_target_verbose_local [OF assms]
    by (cases "published_snapshot_ids db (Some tgt) (Some tt)") (use n a in \<open>auto simp: Let_def\<close>)
qed

theorem publish_refused_witness:
  "constrain_target demo_env fresh demo_store lead ''job.run.state'' ''db-*'' ''glob''
   = Inl (AuthzDenied ''job.run.state'' ''empty intersection'' None)"
proof -
  have "\<not> has_fleet demo_env fresh demo_store lead ''job.run.state''" by code_simp
  moreover have "published_snapshot_ids demo_store (Some ''db-*'') (Some ''glob'') = Some {''db-01''}"
    "{''db-01''} \<inter> minions_with demo_env fresh demo_store lead ''job.run.state'' = {}"
    "d_perm (AuthzDenied ''job.run.state'' ''empty intersection'' None) = ''job.run.state''"
    "d_detail (AuthzDenied ''job.run.state'' ''empty intersection'' None) = ''empty-intersection''"
    by code_simp+
  ultimately show ?thesis by (subst publish_refused) simp_all
qed

section \<open>Killing\<close>

text \<open>C9: A kill is all or nothing: without fleet \<open>job.kill\<close> it is accepted exactly when the stored
  target is a \<open>list\<close>, a \<open>glob\<close> other than \<open>*\<close> or a \<open>group\<close> that names at least one snapshot
  minion and only minions the caller may kill on; the whole stored set is then published as a list.\<close>

theorem kill_all_or_nothing:
  assumes "\<not> has_fleet e g db u ''job.kill''"
  shows "constrain_kill e g db u tgt tt = Inr (t, tt') \<longleftrightarrow>
    (\<exists>res. published_snapshot_ids db (Some tgt) (Some tt) = Some res \<and> tt \<noteq> ''grain''
       \<and> \<not> (tt = ''glob'' \<and> py_strip tgt = ''*'')
       \<and> res \<noteq> {} \<and> (\<forall>m \<in> res. authorize e g db u ''job.kill'' (Some m) None)
       \<and> t = csv_of res \<and> tt' = ''list'')"
proof -
  have dom: "perm_domain ''job.kill'' = Minion" by code_simp
  have auth: "res \<subseteq> minions_with e g db u ''job.kill''
      \<longleftrightarrow> (\<forall>m \<in> res. authorize e g db u ''job.kill'' (Some m) None)"
    if "published_snapshot_ids db (Some tgt) (Some tt) = Some res" for res
    using published_in_snapshot [OF that] minions_with_authorize entry_covers_minion [OF dom]
    unfolding authorize_iff minions_with_iff subset_iff by blast
  have ty: "tt \<notin> set [''compound'', ''nodegroup'', ''grain''] \<longleftrightarrow> tt \<noteq> ''grain''"
    if "published_snapshot_ids db (Some tgt) (Some tt) = Some res" for res
    using that by (auto simp: published_snapshot_ids_def split: if_splits)
  show ?thesis
  proof (cases "published_snapshot_ids db (Some tgt) (Some tt)")
    case None
    then show ?thesis unfolding constrain_kill_local [OF assms] by simp
  next
    case (Some res)
    show ?thesis
      unfolding constrain_kill_local [OF assms] Some option.case using auth [OF Some] ty [OF Some] by auto
  qed
qed

theorem kill_all_or_nothing_witness:
  "constrain_kill demo_env fresh demo_store lead ''web-*'' ''glob'' = Inr (''web-01,web-02'', ''list'')"
proof -
  have f: "\<not> has_fleet demo_env fresh demo_store lead ''job.kill''" by code_simp
  have "published_snapshot_ids demo_store (Some ''web-*'') (Some ''glob'') = Some {''web-01'', ''web-02''}"
    "''glob'' \<noteq> ''grain''" "py_strip ''web-*'' \<noteq> ''*''" "csv_of {''web-01'', ''web-02''} = ''web-01,web-02''"
    "\<forall>m \<in> {''web-01'', ''web-02''}. authorize demo_env fresh demo_store lead ''job.kill'' (Some m) None"
    by code_simp+
  then show ?thesis
    by (intro iffD2 [OF kill_all_or_nothing [OF f]] exI [of _ "{''web-01'', ''web-02''}"] conjI; simp)
qed

text \<open>C10: The kill rule refines the publish rule: whatever \<open>constrain_kill\<close> lets through,
  \<open>constrain_target\<close> for \<open>job.kill\<close> would publish as the same target.\<close>

theorem kill_refines_publish:
  assumes "constrain_kill e g db u tgt tt = Inr r"
  shows "constrain_target e g db u ''job.kill'' tgt tt = Inr r"
proof (cases "has_fleet e g db u ''job.kill''")
  case True
  then show ?thesis
    using assms by (simp add: constrain_kill_def constrain_target_def constrain_target_verbose_def)
next
  case False
  obtain res where res: "published_snapshot_ids db (Some tgt) (Some tt) = Some res" "res \<noteq> {}"
    "res \<subseteq> minions_with e g db u ''job.kill''" "r = (csv_of res, ''list'')"
    using assms unfolding constrain_kill_local [OF False]
    by (cases "published_snapshot_ids db (Some tgt) (Some tt)"; simp split: if_splits)
  then have "res \<inter> minions_with e g db u ''job.kill'' = res" by blast
  with res show ?thesis
    unfolding constrain_target_def constrain_target_verbose_local [OF False] by (simp add: Let_def)
qed

theorem kill_refines_publish_witness:
  "constrain_target demo_env fresh demo_store lead ''job.kill'' ''web-*'' ''glob''
   = Inr (''web-01,web-02'', ''list'')"
  by (rule kill_refines_publish) code_simp

section \<open>Delegating\<close>

text \<open>C3: Delegation does not amplify: when \<open>delegate_grant_error\<close> lets a grant through, then on every
  minion of the snapshot, every minion-domain permission the grant confers is one the delegator
  passes the check for on that minion, and the grant confers no fleet-domain and no path
  permission.\<close>

theorem delegation_no_amplification:
  assumes "delegate_grant_error e g db u role k v = None"
    and "entry_covers db (role, k, v) perm (Some m) pre"
  shows "(perm_domain perm = Minion \<and> authorize e g db u perm (Some m) pre
          \<and> m \<in> minions_with e g db u ''grant.delegate'')
    \<or> (perm_domain perm = Delegate \<and> resolve_scope db k v \<subseteq> perm_scope_minions e g db u perm)"
proof -
  have k: "k \<in> DELEGATE_SCOPE_KINDS" using assms(1) by (simp add: delegable_iff)
  obtain p where p: "ROLE_PERMS role = Some p" "perm \<in> p"
    "perm_domain perm = Delegate \<or> perm_domain perm = Minion \<and> m \<in> resolve_scope db k v"
    using entry_covers_off_fleet [OF assms(2) k] by metis
  from p(3) show ?thesis
  proof (elim disjE conjE)
    assume "perm_domain perm = Delegate"
    then show ?thesis using delegable_scope_perm [OF assms(1) p(1,2)] by simp
  next
    assume d: "perm_domain perm = Minion" and m: "m \<in> resolve_scope db k v"
    have "m \<in> minions_with e g db u perm" using delegable_perm [OF assms(1) p(1,2) d] m by blast
    moreover have "m \<in> minions_with e g db u ''grant.delegate''"
      using assms(1) m by (auto simp: delegable_iff)
    ultimately show ?thesis using minions_with_authorize d by simp
  qed
qed

theorem delegation_no_amplification_witness:
  "authorize demo_env fresh demo_store lead ''job.run.change'' (Some ''web-02'') None"
proof -
  have "delegate_grant_error demo_env fresh demo_store lead ''team-operator'' ''glob'' ''web-0?'' = None"
    "entry_covers demo_store (''team-operator'', ''glob'', ''web-0?'') ''job.run.change'' (Some ''web-02'') None"
    "perm_domain ''job.run.change'' = Minion"
    by code_simp+
  note h = this
  show ?thesis using delegation_no_amplification [OF h(1,2)] h(3) by simp
qed

text \<open>The subset rule is vacuous on an empty scope: a matcher that names no minion of the snapshot
  may be granted by anyone who reaches the check, with every role that is neither fleet-only nor
  carries \<open>grant.admin\<close>, whatever the delegator holds.\<close>

theorem delegation_vacuous:
  assumes "k \<in> DELEGATE_SCOPE_KINDS" and "resolve_scope db k v = {}"
    and "ROLE_PERMS role = Some p" and "role \<notin> FLEET_ONLY_ROLES" and "''grant.admin'' \<notin> p"
  shows "delegate_grant_error e g db u role k v = None"
  using assms by (simp add: delegable_iff holds_on_def)

theorem delegation_vacuous_witness:
  "delegate_grant_error demo_env fresh demo_store lead ''secrets-reader'' ''glob'' ''new-*'' = None
   \<and> \<not> authorize demo_env fresh demo_store lead ''pillar.read'' None None
   \<and> entry_covers demo_store (''secrets-reader'', ''glob'', ''new-*'') ''pillar.read'' None None"
proof -
  have "delegate_grant_error demo_env fresh demo_store lead ''secrets-reader'' ''glob'' ''new-*'' = None"
    by (rule delegation_vacuous [of _ _ _ _ "set [''minion.read'', ''pillar.read'', ''mine.read'']"]) code_simp+
  moreover have "\<not> authorize demo_env fresh demo_store lead ''pillar.read'' None None"
    "entry_covers demo_store (''secrets-reader'', ''glob'', ''new-*'') ''pillar.read'' None None" by code_simp+
  ultimately show ?thesis by blast
qed

end
