(* ===== verification/GateProps.thy ===== *)
theory GateProps
  imports GateFacts Demo
begin

text \<open>
  The properties of the request gates, the role cache and the backfill that entering scoped mode
  runs.
\<close>

section \<open>Gates\<close>

text \<open>A gate either runs the view or changes nothing but the audit trail: every decorator and the
  in-view \<open>require\<close> hand the view the database they were given, or answer 403 (or fail, on a role that
  has no level) with only audit rows added.\<close>

theorem gates_refuse_cleanly:
  "gate_outcome (require e u perm m pre d k c) k c
   \<and> gate_outcome (permission_required e u perms k c) k c
   \<and> gate_outcome (roles_required first e u roles k c) k c
   \<and> gate_outcome (read_required e u perm k c) k c"
  by (simp add: require_outcome permission_required_outcome roles_required_outcome read_required_def)

text \<open>A refusal in scoped mode leaves exactly one deny row, naming the caller and the permission;
  and the view runs exactly when the check passes.\<close>

theorem require_denies_with_row:
  assumes "rbac_mode e (c_db c) = ''scoped''"
  shows "require e u perm m pre d k c =
    (if authorize e (c_memo c) (c_db c) u perm m pre then k (touch u c)
     else (Abort 403, (touch u c)\<lparr>c_db := log_event (u_username u) ''deny'' None (Some ''deny'')
             (Some perm) m (Some d) (c_db c)\<rparr>))"
  using assms by (simp add: require_def audit_deny_def on_db_def or_empty_def)

theorem require_denies_with_row_witness:
  "fst (require demo_env dave ''minion.read'' None None ''no-grant'' (\<lambda>c. (Page, c)) (start demo_store)) = Abort 403"
proof -
  have "rbac_mode demo_env (c_db (start demo_store)) = ''scoped''" by code_simp
  moreover have "\<not> authorize demo_env (c_memo (start demo_store)) (c_db (start demo_store)) dave ''minion.read'' None None"
    by code_simp
  ultimately show ?thesis by (subst require_denies_with_row) simp_all
qed

text \<open>C13: The scoped floor of \<open>roles_required\<close> is the legacy ladder for ladder users: a user whose only
  effective entry is its ladder role on the fleet passes the gate in scoped mode exactly when it
  passes it in legacy mode.\<close>

theorem floor_matches_ladder:
  assumes "effective_entries e (c_memo c) (c_db c) u = [(u_role u, ''fleet'', ''*'')]"
    and "u_role u \<in> set LADDER_ROLES" and "roles \<noteq> []"
    and "rbac_mode e (c_db c) = ''scoped''" and "rbac_mode e (c_db c2) \<noteq> ''scoped''"
  shows "(fst (roles_required first e u roles (\<lambda>c. (Page, c)) c) = Page)
    \<longleftrightarrow> (fst (roles_required first e u roles (\<lambda>c. (Page, c)) c2) = Page)"
proof -
  show ?thesis
  proof (cases "role_floor roles")
    case (Inl er)
    then show ?thesis by (simp add: roles_required_def)
  next
    case (Inr n)
    have "(\<exists>p \<in> LEGACY_FLOOR_PERMS n. authorize e (c_memo c) (c_db c) u p None None) \<longleftrightarrow> n \<le> role_level (u_role u)"
      by (rule ladder_floor [OF assms(1,2) role_floor_known(2) [OF Inr]])
    with assms(4,5) show ?thesis by (auto simp: roles_required_def Let_def Inr)
  qed
qed

theorem floor_matches_ladder_witness:
  "(fst (roles_required (\<lambda>_. ''settings.write'') demo_env oper [''admin''] (\<lambda>c. (Page, c)) (start demo_store)) = Page)
   \<longleftrightarrow> (fst (roles_required (\<lambda>_. ''settings.write'') demo_env oper [''admin''] (\<lambda>c. (Page, c)) (start empty_store)) = Page)"
proof (rule floor_matches_ladder)
  show "effective_entries demo_env (c_memo (start demo_store)) (c_db (start demo_store)) oper
      = [(u_role oper, ''fleet'', ''*'')]" by code_simp
qed code_simp+

section \<open>Backfill\<close>

text \<open>C11: The backfill never fails on a well-formed store and is idempotent: it returns, keeps the
  store well-formed, gives every ladder user its fleet grant and every listed provider group its
  mapping, and a second run on its result adds nothing and changes nothing.\<close>

theorem backfill_idempotent:
  assumes "wf_store db"
  shows "\<exists>n m db'. backfill_rbac ag og db = Inr ((n, m), db') \<and> wf_store db'
    \<and> (\<forall>u \<in> set (users db). u_role u \<in> set LADDER_ROLES \<longrightarrow> has_fleet_grant db' (u_id u) (u_role u))
    \<and> (\<forall>(g, r) \<in> set (backfill_pairs ag og). has_mapping db' g r)
    \<and> backfill_rbac ag og db' = Inr ((0, 0), db')"
proof -
  obtain n m db' where r: "backfill_rbac ag og db = Inr ((n, m), db')" "wf_store db'"
    "users db' = users db" "\<forall>u \<in> set (users db'). ladder_granted db' u"
    "\<forall>(g, r) \<in> set (backfill_pairs ag og). has_mapping db' g r"
    using backfill_result [OF assms] by metis
  have "backfill_rbac ag og db' = Inr ((0, 0), db')"
    using backfill_users_done [OF r(4)] backfill_groups_done [OF r(5)] by (simp add: backfill_rbac_def)
  then show ?thesis using r by (auto simp: ladder_granted_def)
qed

theorem backfill_idempotent_witness:
  "\<exists>n m db'. backfill_rbac ''ops, dba'' ''noc'' demo_store = Inr ((n, m), db')
     \<and> has_fleet_grant db' 3 ''operator''"
proof -
  have "oper \<in> set (users demo_store)" "u_role oper \<in> set LADDER_ROLES" "u_id oper = 3" "u_role oper = ''operator''"
    by (simp_all add: demo_defs LADDER_ROLES_def)
  then show ?thesis using backfill_idempotent [OF demo_wf, of "''ops, dba''" "''noc''"] by metis
qed

text \<open>C12: The flip to scoped mode takes nothing from the ladder: after a backfill, whatever the
  fallback setting, every user with a ladder role holds on the whole fleet every permission of
  that role.\<close>

theorem backfill_keeps_ladder:
  assumes "wf_store db" and "backfill_rbac ag og db = Inr (counts, db')"
    and "u \<in> set (users db)" and "u_role u \<in> set LADDER_ROLES"
    and "ROLE_PERMS (u_role u) = Some p" and "perm \<in> p"
  shows "has_fleet e (\<lambda>_. None) db' u perm \<and> authorize e (\<lambda>_. None) db' u perm mi pre"
proof -
  obtain n m d where r: "backfill_rbac ag og db = Inr ((n, m), d)" "users d = users db"
    "\<forall>u \<in> set (users d). ladder_granted d u"
    using backfill_result [OF assms(1)] by metis
  then have "has_fleet_grant db' (u_id u) (u_role u)"
    using assms(2-4) by (auto simp: ladder_granted_def)
  from ladder_has_fleet [OF this assms(5,6)] show ?thesis using has_fleet_authorize by blast
qed

theorem backfill_keeps_ladder_witness:
  "\<exists>counts db'. backfill_rbac [] [] demo_store = Inr (counts, db')
     \<and> has_fleet (demo_env\<lparr>os_environ := (\<lambda>_. Some ''off'')\<rparr>) fresh db' oper ''job.run.state''"
proof -
  obtain n m db' where r: "backfill_rbac [] [] demo_store = Inr ((n, m), db')"
    using backfill_result [OF demo_wf] by metis
  have "oper \<in> set (users demo_store)" "u_role oper \<in> set LADDER_ROLES"
    "ROLE_PERMS (u_role oper) = Some (VIEWER_PERMS \<union> OPERATOR_DELTA)"
    "''job.run.state'' \<in> VIEWER_PERMS \<union> OPERATOR_DELTA"
    by (simp_all add: demo_defs LADDER_ROLES_def ROLE_PERMS_def VIEWER_PERMS_def OPERATOR_DELTA_def)
  from backfill_keeps_ladder [OF demo_wf r this] r show ?thesis by blast
qed

section \<open>The role cache\<close>

text \<open>The role cache ranks the entries: the column that \<open>refresh_role_cache\<close> writes is the
  strongest ladder role the user's entries hold on the fleet, else \<open>scoped\<close> when any entry
  applies, else \<open>none\<close>; it is computed from the current rows whenever the request has not read
  that user's entries before, and no other table changes.\<close>

theorem role_cache_ranks:
  assumes "c_memo c (u_id u) = None" and "user_by_id (c_db c) (u_id u) = Some u"
  shows "(\<exists>u'. user_by_id (c_db (refresh_role_cache u c)) (u_id u) = Some u'
      \<and> (u_role u' \<in> set LADDER_ROLES \<longrightarrow> (\<exists>v. (u_role u', ''fleet'', v) \<in> set (queried_entries (c_db c) (u_id u))))
      \<and> (\<forall>r v. (r, ''fleet'', v) \<in> set (queried_entries (c_db c) (u_id u)) \<longrightarrow> r \<in> set LADDER_ROLES
            \<longrightarrow> role_level r \<le> role_level (u_role u') \<and> u_role u' \<in> set LADDER_ROLES)
      \<and> (u_role u' = ''none'' \<longleftrightarrow> queried_entries (c_db c) (u_id u) = []))
    \<and> (\<exists>r. c_db (refresh_role_cache u c) = set_user_role (u_id u) r (c_db c))"
proof -
  let ?es = "queried_entries (c_db c) (u_id u)"
  have g: "grant_entries (c_memo c) (c_db c) u = ?es" by (simp add: grant_entries_def assms(1))
  have h: "has_ladder es r \<longleftrightarrow> (\<exists>v. (r, ''fleet'', v) \<in> set es)" for es r
    by (auto simp: has_ladder_def list_ex_iff)
  have lv: "role_level ''viewer'' = 0" "role_level ''operator'' = 1" "role_level ''admin'' = 2" by code_simp+
  have "user_by_id (c_db (refresh_role_cache u c)) (u_id u) = Some (u\<lparr>u_role := cached_role ?es\<rparr>)"
    by (simp add: user_by_id_role assms(2) g)
  moreover have "cached_role ?es \<in> set LADDER_ROLES \<longrightarrow> (\<exists>v. (cached_role ?es, ''fleet'', v) \<in> set ?es)"
    by (simp add: cached_role_def LADDER_ROLES_def h)
  moreover have "r \<in> set LADDER_ROLES \<longrightarrow> role_level r \<le> role_level (cached_role ?es) \<and> cached_role ?es \<in> set LADDER_ROLES"
    if "(r, ''fleet'', v) \<in> set ?es" for r v
  proof -
    have "has_ladder ?es r" using that h by blast
    then show ?thesis by (simp add: cached_role_def LADDER_ROLES_def lv) (metis lv order_refl)
  qed
  moreover have "cached_role ?es = ''none'' \<longleftrightarrow> ?es = []"
    by (simp add: cached_role_def has_ladder_def)
  moreover have "u_role (u\<lparr>u_role := cached_role ?es\<rparr>) = cached_role ?es" by simp
  ultimately show ?thesis by (metis refresh_simps(2))
qed

theorem role_cache_ranks_witness:
  "\<exists>u'. user_by_id (c_db (refresh_role_cache carol (start demo_store))) 4 = Some u' \<and> u_role u' \<noteq> ''none''"
proof -
  have c: "c_memo (start demo_store) (u_id carol) = None"
    "user_by_id (c_db (start demo_store)) (u_id carol) = Some carol" "u_id carol = 4"
    "queried_entries (c_db (start demo_store)) (u_id carol) \<noteq> []" by code_simp+
  from role_cache_ranks [OF c(1,2)] show ?thesis using c(3,4) by metis
qed

end
