(* ===== verification/Users.thy ===== *)
theory Users
  imports GateFacts
begin

text \<open>
  User, grant, local-group, service-account and token administration, \<open>overstate_ui/users.py\<close>. Each
  view is the whole handler: its decorator, its guards in the order of the code, the rows it
  writes, the audit row and the role-cache refresh. A posted form gives the list of values of each
  field; \<open>url_for\<close> targets are named by their endpoint.
\<close>

type_synonym form = "string \<Rightarrow> string list"

definition form_get :: "form \<Rightarrow> string \<Rightarrow> string" where
  "form_get f k = (case f k of [] \<Rightarrow> [] | v # _ \<Rightarrow> v)"

section \<open>Guards\<close>

definition fleet_grant_admin :: "env \<Rightarrow> user \<Rightarrow> ctx \<Rightarrow> bool" where
  "fleet_grant_admin e cu c =
     (rbac_mode e (c_db c) \<noteq> ''scoped'' \<or> has_fleet e (c_memo c) (c_db c) cu ''grant.admin'')"

definition fleet_user_admin :: "env \<Rightarrow> user \<Rightarrow> ctx \<Rightarrow> bool" where
  "fleet_user_admin e cu c =
     (rbac_mode e (c_db c) \<noteq> ''scoped'' \<or> has_fleet e (c_memo c) (c_db c) cu ''user.admin'')"

definition deny :: "user \<Rightarrow> string \<Rightarrow> string \<Rightarrow> view" where
  "deny cu perm detail c = (Abort 403, on_db (audit_deny cu perm None detail None) c)"

definition delegate_grant_write_error ::
  "env \<Rightarrow> user \<Rightarrow> ctx \<Rightarrow> string \<Rightarrow> string \<Rightarrow> string \<Rightarrow> grant option \<Rightarrow> int option \<Rightarrow> string option" where
  "delegate_grant_write_error e cu c role scope_kind scope_value gr subject_user_id =
     (if pred_option (\<lambda>g. g_source g = ''backfill'' \<and> g_role g \<in> set LADDER_ROLES
           \<and> g_scope_kind g = ''fleet'') gr \<and> gr \<noteq> None
      then Some ''Backfill ladder grants need a fleet admin.''
      else if subject_user_id = Some (u_id cu) then Some ''You cannot edit your own grants.''
      else delegate_grant_error e (c_memo c) (c_db c) cu role scope_kind scope_value)"

definition auth_label :: "user \<Rightarrow> string" where
  "auth_label u =
     (if u_kind u = ''service'' then ''service''
      else if or_empty (u_password_hash u) \<noteq> [] then ''local'' else ''sso'')"

section \<open>Grant scopes\<close>

definition parse_member_ids :: "form \<Rightarrow> string list" where
  "parse_member_ids f =
     fold (\<lambda>t seen. if t \<noteq> [] \<and> t \<notin> set seen then seen @ [t] else seen)
       (map py_strip (py_split_ws (map (\<lambda>ch. if ch = CHR '','' then CHR '' '' else ch)
          (form_get f ''scope_value'')))) []"

text \<open>\<open>posixpath.normpath\<close>\<close>

fun norm_comps :: "bool \<Rightarrow> string list \<Rightarrow> string list \<Rightarrow> string list" where
  "norm_comps rooted acc [] = rev acc"
| "norm_comps rooted acc (part # parts) =
     (if part = [] \<or> part = ''.'' then norm_comps rooted acc parts
      else if part \<noteq> ''..'' \<or> (\<not> rooted \<and> acc = []) \<or> (acc \<noteq> [] \<and> hd acc = ''..'')
        then norm_comps rooted (part # acc) parts
      else norm_comps rooted (case acc of [] \<Rightarrow> [] | _ # a \<Rightarrow> a) parts)"

definition normpath :: "string \<Rightarrow> string" where
  "normpath path =
     (if path = [] then ''.''
      else
        (let slashes = (if starts_with ''///'' path then ''/'' else if starts_with ''//'' path then ''//''
                        else if starts_with ''/'' path then ''/'' else []);
             out = slashes @ py_join ''/'' (norm_comps (slashes \<noteq> []) [] (py_split CHR ''/'' path))
         in if out = [] then ''.'' else out))"

text \<open>The error to flash, or the normalized scope value; \<open>int\<close> may raise on a non-decimal digit.\<close>

definition validate_grant_scope :: "store \<Rightarrow> string \<Rightarrow> string \<Rightarrow> form \<Rightarrow> (string + string) res" where
  "validate_grant_scope db role scope_kind f =
     (if ROLE_PERMS role = None then Inr (Inl ''Unknown role.'')
      else if scope_kind = ''fleet'' then Inr (Inr ''*'')
      else if role \<in> FLEET_ONLY_ROLES
        then Inr (Inl (''Role '' @ quoted role @ '' can only be granted on the whole fleet.''))
      else if scope_kind = ''prefix'' then
        (if role \<notin> set [''file-reader'', ''file-editor'']
         then Inr (Inl (''Role '' @ quoted role @ '' has no file permissions to scope to a path.''))
         else
           (let p = strip_char CHR ''/'' (py_strip (form_get f ''scope_value''))
            in if p = [] \<or> starts_with ''/'' p \<or> ''..'' \<in> set (py_split CHR ''/'' p)
               then Inr (Inl (''Prefix must be a relative path without '' @ quoted ''..'' @ ''.''))
               else Inr (Inr (normpath p))))
      else if role \<in> set [''file-reader'', ''file-editor'']
        then Inr (Inl (''Role '' @ quoted role @ '' can only be granted on a file prefix or the fleet.''))
      else if scope_kind = ''group'' then
        (let g = py_strip (form_get f ''scope_value_group'');
             raw = (if g \<noteq> [] then g else py_strip (form_get f ''scope_value''))
         in if \<not> py_isdigit raw then Inr (Inl ''Pick a minion group.'')
            else
              (case py_int raw of
                 None \<Rightarrow> Inl (ValueError raw)
               | Some i \<Rightarrow>
                   if minion_group_by_id db i = None then Inr (Inl ''Unknown minion group.'')
                   else Inr (Inr raw)))
      else if scope_kind = ''list'' then
        (let members = parse_member_ids f
         in if members = [] then Inr (Inl ''A list scope needs at least one minion id.'')
            else Inr (Inr (json_dumps_strs members)))
      else if scope_kind = ''glob'' then
        (let pattern = py_strip (form_get f ''scope_value'')
         in if pattern = [] then Inr (Inl ''A glob scope needs a pattern.'') else Inr (Inr pattern))
      else if scope_kind = ''grain'' then
        (let key = py_strip (form_get f ''grain_key''); value = py_strip (form_get f ''grain_value'')
         in if key \<notin> set SNAPSHOT_GRAINS then Inr (Inl ''Pick a snapshot grain key.'')
            else if value = [] then Inr (Inl ''A grain scope needs a value.'')
            else Inr (Inr (key @ '':'' @ value)))
      else Inr (Inl ''Unknown scope kind.''))"

definition subject_label :: "store \<Rightarrow> grant \<Rightarrow> string" where
  "subject_label db gr =
     (if g_subject_kind gr = ''local_group''
      then ''local_group:'' @
        (case g_subject_group_id gr of
           None \<Rightarrow> ''None''
         | Some i \<Rightarrow> (case local_group_by_id db i of None \<Rightarrow> py_str_int i | Some g \<Rightarrow> lg_name g))
      else ''user:'' @
        (case g_subject_user_id gr of
           None \<Rightarrow> ''None''
         | Some i \<Rightarrow> (case user_by_id db i of None \<Rightarrow> py_str_int i | Some u \<Rightarrow> u_username u)))"

definition grant_words :: "string \<Rightarrow> string \<Rightarrow> string \<Rightarrow> string" where
  "grant_words role kind v = role @ '' '' @ kind @ '' '' @ v @ '' ''"

section \<open>User grants\<close>

definition users_index :: string where "users_index = ''users.index''"
definition users_groups :: string where "users_groups = ''users.groups''"

definition grant_perm :: "bool \<Rightarrow> string" where
  "grant_perm delegated = (if delegated then ''grant.delegate'' else ''grant.admin'')"

definition log_grant :: "user \<Rightarrow> string \<Rightarrow> bool \<Rightarrow> string \<Rightarrow> store \<Rightarrow> store" where
  "log_grant cu action delegated detail =
     log_event (u_username cu) action None None (Some (grant_perm delegated)) None (Some detail)"

definition create_grant_body ::
  "env \<Rightarrow> user \<Rightarrow> user \<Rightarrow> string \<Rightarrow> string \<Rightarrow> string \<Rightarrow> view" where
  "create_grant_body e cu u role scope_kind scope_value c =
     (let delegated = \<not> fleet_grant_admin e cu c
      in if delegated \<and> delegate_grant_write_error e cu c role scope_kind scope_value None (Some (u_id u)) \<noteq> None
         then deny cu ''grant.delegate'' ''out-of-scope'' c
         else
           (case add_grant (user_grant (u_id u) role scope_kind scope_value ''manual'' (Some (u_id cu))) (c_db c) of
              Inl _ \<Rightarrow> flash_redirect users_index ''That grant already exists.'' ''error'' c
            | Inr db1 \<Rightarrow>
                flash_redirect users_index (''Granted '' @ role @ '' to '' @ quoted (u_username u) @ ''.'') ''success''
                  (refresh_role_cache u
                    (c\<lparr>c_db := log_grant cu ''grant-create'' delegated
                       (grant_words role scope_kind scope_value @ ''user:'' @ u_username u) db1\<rparr>))))"

definition create_grant_view :: "env \<Rightarrow> user \<Rightarrow> int \<Rightarrow> form \<Rightarrow> view" where
  "create_grant_view e cu uid f c =
     (let role = py_strip (form_get f ''role''); scope_kind = py_strip (form_get f ''scope_kind'')
      in case user_by_id (c_db c) uid of
           None \<Rightarrow> flash_redirect users_index ''Unknown user.'' ''error'' c
         | Some u \<Rightarrow>
             (case validate_grant_scope (c_db c) role scope_kind f of
                Inl er \<Rightarrow> (Fail er, c)
              | Inr (Inl msg) \<Rightarrow> flash_redirect users_index msg ''error'' c
              | Inr (Inr scope_value) \<Rightarrow> create_grant_body e cu u role scope_kind scope_value c))"

definition create_grant :: "env \<Rightarrow> user \<Rightarrow> int \<Rightarrow> form \<Rightarrow> view" where
  "create_grant e cu uid f =
     permission_required e cu [''grant.admin'', ''grant.delegate''] (create_grant_view e cu uid f)"

text \<open>Another fleet admin grant of the user, or an admin mapping of a provider group it is in.\<close>

definition has_other_fleet_admin :: "store \<Rightarrow> int \<Rightarrow> int \<Rightarrow> bool" where
  "has_other_fleet_admin db uid exclude =
     (list_ex (\<lambda>g. g_subject_kind g = ''user'' \<and> g_subject_user_id g = Some uid \<and> g_role g = ''admin''
         \<and> g_scope_kind g = ''fleet'' \<and> g_id g \<noteq> exclude) (grants db)
      \<or> list_ex (\<lambda>m. irm_idp_group m \<in> set (idp_names db uid) \<and> irm_role m = ''admin''
         \<and> irm_scope_kind m = ''fleet'') (idp_role_mappings db))"

definition delete_grant_view :: "env \<Rightarrow> user \<Rightarrow> int \<Rightarrow> int \<Rightarrow> view" where
  "delete_grant_view e cu uid gid c =
     (case grant_by_id (c_db c) gid of
        None \<Rightarrow> flash_redirect users_index ''Unknown grant.'' ''error'' c
      | Some gr \<Rightarrow>
          if g_subject_kind gr \<noteq> ''user'' \<or> g_subject_user_id gr \<noteq> Some uid
          then flash_redirect users_index ''Unknown grant.'' ''error'' c
          else
            (let delegated = \<not> fleet_grant_admin e cu c
             in if delegated \<and> delegate_grant_write_error e cu c (g_role gr) (g_scope_kind gr)
                     (g_scope_value gr) (Some gr) (g_subject_user_id gr) \<noteq> None
                then deny cu ''grant.delegate'' ''out-of-scope'' c
                else if g_subject_user_id gr = Some (u_id cu) \<and> g_role gr = ''admin''
                    \<and> g_scope_kind gr = ''fleet''
                    \<and> \<not> has_other_fleet_admin (c_db c) (u_id cu) (g_id gr)
                then flash_redirect users_index ''You cannot delete your own last fleet admin grant.'' ''error'' c
                else
                  (let detail = grant_words (g_role gr) (g_scope_kind gr) (g_scope_value gr)
                         @ subject_label (c_db c) gr;
                       c1 = c\<lparr>c_db := log_grant cu ''grant-delete'' delegated detail
                              (delete_grant_row gid (c_db c))\<rparr>
                   in flash_redirect users_index ''Grant deleted.'' ''success''
                        (case user_by_id (c_db c) uid of None \<Rightarrow> c1 | Some u \<Rightarrow> refresh_role_cache u c1))))"

definition delete_grant :: "env \<Rightarrow> user \<Rightarrow> int \<Rightarrow> int \<Rightarrow> view" where
  "delete_grant e cu uid gid =
     permission_required e cu [''grant.admin'', ''grant.delegate''] (delete_grant_view e cu uid gid)"

section \<open>Ladder roles\<close>

definition drop_ladder_grants :: "int \<Rightarrow> store \<Rightarrow> store" where
  "drop_ladder_grants uid db = db\<lparr>grants := delete_rows (\<lambda>g. g_subject_kind g = ''user''
     \<and> g_subject_user_id g = Some uid \<and> g_scope_kind g = ''fleet''
     \<and> g_role g \<in> set [''viewer'', ''operator'', ''admin'']) (grants db)\<rparr>"

text \<open>In scoped mode, the view body behind \<open>roles_required("admin")\<close> calls \<open>require\<close> first.\<close>

definition require_scoped :: "env \<Rightarrow> user \<Rightarrow> string \<Rightarrow> view \<Rightarrow> view" where
  "require_scoped e cu perm k c =
     (if rbac_mode e (c_db c) = ''scoped'' then require e cu perm None None ''no-grant'' k c else k c)"

definition set_role_body :: "env \<Rightarrow> user \<Rightarrow> int \<Rightarrow> form \<Rightarrow> view" where
  "set_role_body e cu uid f c =
     (let role = form_get f ''role''
      in case user_by_id (c_db c) uid of
           None \<Rightarrow> flash_redirect users_index ''Unknown user.'' ''error'' c
         | Some u \<Rightarrow>
             if role \<notin> set (map fst LEVELS) then flash_redirect users_index ''Unknown role.'' ''error'' c
             else if u_id u = u_id cu \<and> role \<noteq> ''admin''
               then flash_redirect users_index ''You cannot demote yourself.'' ''error'' c
             else
               (let ok = quoted (u_username u) @ '' is now '' @ role @ ''.''
                in if rbac_mode e (c_db c) \<noteq> ''scoped''
                   then flash_redirect users_index ok ''success'' (on_db (set_user_role uid role) c)
                   else
                     (case add_grant (user_grant (u_id u) role ''fleet'' ''*'' ''manual'' (Some (u_id cu)))
                             (drop_ladder_grants (u_id u) (c_db c)) of
                        Inl er \<Rightarrow> (Fail er, c)
                      | Inr db1 \<Rightarrow>
                          flash_redirect users_index ok ''success''
                            (refresh_role_cache u
                              (c\<lparr>c_db := log_grant cu ''grant-create'' False
                                 (role @ '' fleet * user:'' @ u_username u) db1\<rparr>)))))"

definition set_role :: "(string set \<Rightarrow> string) \<Rightarrow> env \<Rightarrow> user \<Rightarrow> int \<Rightarrow> form \<Rightarrow> view" where
  "set_role first e cu uid f = roles_required first e cu [''admin'']
     (require_scoped e cu ''user.admin'' (set_role_body e cu uid f))"

definition delete_user_body :: "user \<Rightarrow> int \<Rightarrow> view" where
  "delete_user_body cu uid c =
     (case user_by_id (c_db c) uid of
        None \<Rightarrow> flash_redirect users_index ''Unknown user.'' ''error'' c
      | Some u \<Rightarrow>
          if u_id u = u_id cu then flash_redirect users_index ''You cannot delete yourself.'' ''error'' c
          else flash_redirect users_index (''Deleted '' @ quoted (u_username u) @ ''.'') ''success''
                 (on_db (delete_user_row uid) c))"

definition delete_user :: "(string set \<Rightarrow> string) \<Rightarrow> env \<Rightarrow> user \<Rightarrow> int \<Rightarrow> view" where
  "delete_user first e cu uid = roles_required first e cu [''admin'']
     (require_scoped e cu ''user.admin'' (delete_user_body cu uid))"

end
