(* ===== verification/UserGroups.thy ===== *)
theory UserGroups
  imports Users
begin

text \<open>
  Local groups, service accounts and API tokens, the second half of \<open>overstate_ui/users.py\<close>. The
  role cache of a group's members is refreshed one by one after each write; Python iterates over a
  set of ids there, and the model takes them in increasing order.
\<close>

section \<open>Local groups\<close>

definition local_group_by_name :: "store \<Rightarrow> string \<Rightarrow> local_group option" where
  "local_group_by_name db n = find_row lg_name n (local_groups db)"

definition create_local_group_body :: "form \<Rightarrow> view" where
  "create_local_group_body f c =
     (let name = py_strip (form_get f ''name'')
      in if name = [] then flash_redirect users_groups ''Group needs a name.'' ''error'' c
         else if local_group_by_name (c_db c) name \<noteq> None
           then flash_redirect users_groups (''Group '' @ quoted name @ '' already exists.'') ''error'' c
         else flash_redirect users_groups (''Local group '' @ quoted name @ '' created.'') ''success''
           (on_db (\<lambda>db. bump ''local_groups'' (insert_local_group
              \<lparr>lg_id = seq db ''local_groups'', lg_name = name, lg_created_at = db_now db\<rparr> db)) c))"

definition create_local_group :: "env \<Rightarrow> user \<Rightarrow> form \<Rightarrow> view" where
  "create_local_group e cu f =
     permission_required e cu [''user.admin'', ''grant.delegate''] (create_local_group_body f)"

definition set_group_name :: "int \<Rightarrow> string \<Rightarrow> store \<Rightarrow> store" where
  "set_group_name gid name db = db\<lparr>local_groups :=
     update_rows (\<lambda>g. lg_id g = gid) (\<lambda>g. g\<lparr>lg_name := name\<rparr>) (local_groups db)\<rparr>"

definition rename_local_group_body :: "int \<Rightarrow> form \<Rightarrow> view" where
  "rename_local_group_body gid f c =
     (let name = py_strip (form_get f ''name'')
      in if local_group_by_id (c_db c) gid = None
           then flash_redirect users_groups ''Unknown group.'' ''error'' c
         else if name = [] then flash_redirect users_groups ''Group needs a name.'' ''error'' c
         else if list_ex (\<lambda>g. lg_name g = name \<and> lg_id g \<noteq> gid) (local_groups (c_db c))
           then flash_redirect users_groups (''Group '' @ quoted name @ '' already exists.'') ''error'' c
         else flash_redirect users_groups (''Local group renamed to '' @ quoted name @ ''.'') ''success''
           (on_db (set_group_name gid name) c))"

definition rename_local_group :: "env \<Rightarrow> user \<Rightarrow> int \<Rightarrow> form \<Rightarrow> view" where
  "rename_local_group e cu gid f =
     permission_required e cu [''user.admin'', ''grant.delegate''] (rename_local_group_body gid f)"

definition member_user_ids :: "store \<Rightarrow> int \<Rightarrow> int list" where
  "member_user_ids db gid = map lgm_user_id (filter (\<lambda>r. lgm_group_id r = gid) (local_group_members db))"

text \<open>The ids posted, restricted to existing users; a digit \<open>int\<close> rejects raises.\<close>

definition posted_ids :: "form \<Rightarrow> int list res" where
  "posted_ids f =
     res_map (\<lambda>raw. case py_int raw of None \<Rightarrow> Inl (ValueError raw) | Some i \<Rightarrow> Inr i)
       (filter py_isdigit (map py_strip (f ''user_ids'')))"

definition wanted_members :: "store \<Rightarrow> int list \<Rightarrow> int list" where
  "wanted_members db ids = map u_id (filter (\<lambda>u. u_id u \<in> set ids) (users db))"

definition replace_members :: "int \<Rightarrow> int set \<Rightarrow> store \<Rightarrow> store" where
  "replace_members gid wanted db =
     (let current = set (member_user_ids db gid)
      in db\<lparr>local_group_members :=
           delete_rows (\<lambda>r. lgm_group_id r = gid \<and> lgm_user_id r \<in> current - wanted)
             (local_group_members db
              @ map (\<lambda>i. \<lparr>lgm_group_id = gid, lgm_user_id = i\<rparr>) (sorted_list_of_set (wanted - current)))\<rparr>)"

definition edit_members_body :: "env \<Rightarrow> user \<Rightarrow> int \<Rightarrow> form \<Rightarrow> view" where
  "edit_members_body e cu gid f c =
     (case local_group_by_id (c_db c) gid of
        None \<Rightarrow> flash_redirect users_groups ''Unknown group.'' ''error'' c
      | Some grp \<Rightarrow>
          (let delegated = \<not> fleet_user_admin e cu c
           in if delegated \<and> delegate_group_error e (c_memo c) (c_db c) cu gid \<noteq> None
              then deny cu ''grant.delegate'' ''out-of-scope'' c
              else
                (case posted_ids f of
                   Inl er \<Rightarrow> (Fail er, c)
                 | Inr ids \<Rightarrow>
                     (let wanted = set (wanted_members (c_db c) ids);
                          current = set (member_user_ids (c_db c) gid);
                          c1 = refresh_members (sorted_list_of_set (wanted \<union> current))
                                 (on_db (replace_members gid wanted) c)
                      in flash_redirect users_groups
                           (''Local group '' @ quoted (lg_name grp) @ '' now has ''
                            @ py_str_int (int (card wanted)) @ '' members.'') ''success''
                           (on_db (log_event (u_username cu) (''local-group-members:'' @ lg_name grp)
                              None None
                              (Some (if delegated then ''grant.delegate'' else ''user.admin''))
                              None None) c1)))))"

definition edit_local_group_members :: "env \<Rightarrow> user \<Rightarrow> int \<Rightarrow> form \<Rightarrow> view" where
  "edit_local_group_members e cu gid f =
     permission_required e cu [''user.admin'', ''grant.delegate''] (edit_members_body e cu gid f)"

definition delete_local_group_body :: "env \<Rightarrow> user \<Rightarrow> int \<Rightarrow> view" where
  "delete_local_group_body e cu gid c =
     (case local_group_by_id (c_db c) gid of
        None \<Rightarrow> flash_redirect users_groups ''Unknown group.'' ''error'' c
      | Some grp \<Rightarrow>
          if \<not> fleet_user_admin e cu c \<and> delegate_group_error e (c_memo c) (c_db c) cu gid \<noteq> None
          then deny cu ''grant.delegate'' ''out-of-scope'' c
          else
            flash_redirect users_groups (''Local group '' @ quoted (lg_name grp) @ '' deleted.'') ''success''
              (refresh_members (member_user_ids (c_db c) gid) (on_db (delete_local_group_row gid) c)))"

definition delete_local_group :: "env \<Rightarrow> user \<Rightarrow> int \<Rightarrow> view" where
  "delete_local_group e cu gid =
     permission_required e cu [''user.admin'', ''grant.delegate''] (delete_local_group_body e cu gid)"

definition group_grant ::
  "int \<Rightarrow> string \<Rightarrow> string \<Rightarrow> string \<Rightarrow> int \<Rightarrow> grant" where
  "group_grant gid role scope_kind scope_value by =
     \<lparr>g_id = 0, g_subject_kind = ''local_group'', g_subject_user_id = None,
      g_subject_group_id = Some gid, g_role = role, g_scope_kind = scope_kind,
      g_scope_value = scope_value, g_source = ''manual'', g_created_by = Some by, g_created_at = 0\<rparr>"

definition create_group_grant_body :: "env \<Rightarrow> user \<Rightarrow> local_group \<Rightarrow> string \<Rightarrow> string \<Rightarrow> string \<Rightarrow> view" where
  "create_group_grant_body e cu grp role scope_kind scope_value c =
     (let delegated = \<not> fleet_grant_admin e cu c
      in if delegated \<and> delegate_grant_write_error e cu c role scope_kind scope_value None None \<noteq> None
         then deny cu ''grant.delegate'' ''out-of-scope'' c
         else
           (case add_grant (group_grant (lg_id grp) role scope_kind scope_value (u_id cu)) (c_db c) of
              Inl _ \<Rightarrow> flash_redirect users_groups ''That grant already exists.'' ''error'' c
            | Inr db1 \<Rightarrow>
                flash_redirect users_groups (''Granted '' @ role @ '' to group '' @ quoted (lg_name grp) @ ''.'')
                  ''success''
                  (refresh_members (member_user_ids db1 (lg_id grp))
                    (c\<lparr>c_db := log_grant cu ''grant-create'' delegated
                       (grant_words role scope_kind scope_value @ ''local_group:'' @ lg_name grp) db1\<rparr>))))"

definition create_group_grant_view :: "env \<Rightarrow> user \<Rightarrow> int \<Rightarrow> form \<Rightarrow> view" where
  "create_group_grant_view e cu gid f c =
     (let role = py_strip (form_get f ''role''); scope_kind = py_strip (form_get f ''scope_kind'')
      in case local_group_by_id (c_db c) gid of
           None \<Rightarrow> flash_redirect users_groups ''Unknown group.'' ''error'' c
         | Some grp \<Rightarrow>
             (case validate_grant_scope (c_db c) role scope_kind f of
                Inl er \<Rightarrow> (Fail er, c)
              | Inr (Inl msg) \<Rightarrow> flash_redirect users_groups msg ''error'' c
              | Inr (Inr v) \<Rightarrow> create_group_grant_body e cu grp role scope_kind v c))"

definition create_local_group_grant :: "env \<Rightarrow> user \<Rightarrow> int \<Rightarrow> form \<Rightarrow> view" where
  "create_local_group_grant e cu gid f =
     permission_required e cu [''grant.admin'', ''grant.delegate''] (create_group_grant_view e cu gid f)"

definition delete_group_grant_body :: "env \<Rightarrow> user \<Rightarrow> int \<Rightarrow> int \<Rightarrow> view" where
  "delete_group_grant_body e cu gid grant_id c =
     (case grant_by_id (c_db c) grant_id of
        None \<Rightarrow> flash_redirect users_groups ''Unknown grant.'' ''error'' c
      | Some gr \<Rightarrow>
          if g_subject_kind gr \<noteq> ''local_group'' \<or> g_subject_group_id gr \<noteq> Some gid
          then flash_redirect users_groups ''Unknown grant.'' ''error'' c
          else
            (let delegated = \<not> fleet_grant_admin e cu c
             in if delegated \<and> delegate_grant_write_error e cu c (g_role gr) (g_scope_kind gr)
                     (g_scope_value gr) (Some gr) None \<noteq> None
                then deny cu ''grant.delegate'' ''out-of-scope'' c
                else
                  (let name = (case local_group_by_id (c_db c) gid of None \<Rightarrow> py_str_int gid | Some g \<Rightarrow> lg_name g);
                       detail = grant_words (g_role gr) (g_scope_kind gr) (g_scope_value gr)
                         @ ''local_group:'' @ name
                   in flash_redirect users_groups ''Grant deleted.'' ''success''
                        (refresh_members (member_user_ids (c_db c) gid)
                          (c\<lparr>c_db := log_grant cu ''grant-delete'' delegated detail
                             (delete_grant_row grant_id (c_db c))\<rparr>)))))"

definition delete_local_group_grant :: "env \<Rightarrow> user \<Rightarrow> int \<Rightarrow> int \<Rightarrow> view" where
  "delete_local_group_grant e cu gid grant_id =
     permission_required e cu [''grant.admin'', ''grant.delegate''] (delete_group_grant_body e cu gid grant_id)"

section \<open>Service accounts\<close>

definition create_service_account_body :: "form \<Rightarrow> view" where
  "create_service_account_body f c =
     (let name = py_strip (form_get f ''name'')
      in if name = [] \<or> 64 < length name
         then flash_redirect users_index ''Service account name is required (max 64 chars).'' ''error'' c
         else if user_by_name (c_db c) name \<noteq> None
         then flash_redirect users_index (quoted name @ '' is already taken.'') ''error'' c
         else
           (let u = \<lparr>u_id = seq (c_db c) ''users'', u_username = name, u_password_hash = None,
                     u_role = ''none'', u_kind = ''service'', u_oidc_issuer = None, u_oidc_sub = None,
                     u_created_at = db_now (c_db c)\<rparr>
            in flash_redirect users_index
                 (''Service account '' @ quoted name @ '' created with no grants.'') ''success''
                 (refresh_role_cache u (on_db (\<lambda>db. bump ''users'' (insert_user u db)) c))))"

definition create_service_account :: "(string set \<Rightarrow> string) \<Rightarrow> env \<Rightarrow> user \<Rightarrow> form \<Rightarrow> view" where
  "create_service_account first e cu f = roles_required first e cu [''admin'']
     (require_scoped e cu ''user.admin'' (create_service_account_body f))"

section \<open>Tokens\<close>

definition log_token_event :: "string \<Rightarrow> string \<Rightarrow> string \<Rightarrow> string \<Rightarrow> store \<Rightarrow> store" where
  "log_token_event actor action prefix name =
     log_event actor action None (Some ''allow'') None None (Some (prefix @ '':'' @ name))"

definition insert_token :: "api_token \<Rightarrow> store \<Rightarrow> store" where
  "insert_token t db = bump ''api_tokens''
     (db\<lparr>api_tokens := api_tokens db @ [t\<lparr>t_id := seq db ''api_tokens''\<rparr>]\<rparr>)"

definition day_micros :: int where
  "day_micros = 24 * 60 * 60 * 1000000"

text \<open>The pin of the form: no field, an unknown saved job, or its id.\<close>

definition posted_pin :: "store \<Rightarrow> form \<Rightarrow> string + int option" where
  "posted_pin db f =
     (let raw = py_strip (form_get f ''saved_job_id'')
      in if raw = [] then Inr None
         else
           (let pin = (case py_int raw of None \<Rightarrow> - 1 | Some i \<Rightarrow> i)
            in if saved_job_by_id db pin = None then Inl ''Unknown saved job pin.'' else Inr (Some pin)))"

definition posted_expiry :: "int \<Rightarrow> form \<Rightarrow> string + int option" where
  "posted_expiry now f =
     (let raw = py_strip (form_get f ''expires_days'')
      in if raw = [] then Inr None
         else
           (let days = (case py_int raw of None \<Rightarrow> 0 | Some i \<Rightarrow> i)
            in if days < 1 \<or> 3650 < days then Inl ''Expiry must be 1-3650 days.''
               else Inr (Some (now + days * day_micros))))"

text \<open>
  \<open>secrets.token_hex\<close>, \<open>secrets.token_urlsafe\<close> and argon2 are outside the program: the random
  prefix and secret and the hash function are arguments.
\<close>

definition create_token_body ::
  "(string \<Rightarrow> string) \<Rightarrow> string \<Rightarrow> string \<Rightarrow> int \<Rightarrow> user \<Rightarrow> int \<Rightarrow> form \<Rightarrow> view" where
  "create_token_body hash prefix secret now cu uid f c =
     (case user_by_id (c_db c) uid of
        None \<Rightarrow> flash_redirect users_index ''Unknown service account.'' ''error'' c
      | Some u \<Rightarrow>
          if u_kind u \<noteq> ''service'' then flash_redirect users_index ''Unknown service account.'' ''error'' c
          else
            (let name = py_strip (form_get f ''name'')
             in case posted_pin (c_db c) f of
                  Inl msg \<Rightarrow> flash_redirect users_index msg ''error'' c
                | Inr pin \<Rightarrow>
                    (case posted_expiry now f of
                       Inl msg \<Rightarrow> flash_redirect users_index msg ''error'' c
                     | Inr expires \<Rightarrow>
                         if name = [] \<or> 64 < length name
                         then flash_redirect users_index ''Token name is required (max 64 chars).'' ''error'' c
                         else
                           (let raw = prefix @ ''_'' @ secret;
                                t = \<lparr>t_id = 0, t_user_id = u_id u, t_name = name, t_token_hash = hash raw,
                                     t_token_prefix = prefix, t_saved_job_id = pin, t_expires_at = expires,
                                     t_last_used_at = None, t_revoked_at = None,
                                     t_created_by = Some (u_id cu), t_created_at = db_now (c_db c)\<rparr>
                            in flash_redirect users_index
                                 (''Token '' @ quoted name
                                  @ '' created. Copy it now; it will not be shown again: '' @ raw) ''success''
                                 (on_db (\<lambda>db. log_token_event (u_username cu) ''token-create'' prefix name
                                    (insert_token t db)) c)))))"

definition create_token ::
  "(string set \<Rightarrow> string) \<Rightarrow> (string \<Rightarrow> string) \<Rightarrow> string \<Rightarrow> string \<Rightarrow> int \<Rightarrow> env \<Rightarrow> user \<Rightarrow> int \<Rightarrow> form \<Rightarrow> view" where
  "create_token first hash prefix secret now e cu uid f = roles_required first e cu [''admin'']
     (require_scoped e cu ''user.admin'' (create_token_body hash prefix secret now cu uid f))"

definition set_revoked :: "int \<Rightarrow> int \<Rightarrow> store \<Rightarrow> store" where
  "set_revoked tid now db = db\<lparr>api_tokens :=
     update_rows (\<lambda>t. t_id t = tid) (\<lambda>t. t\<lparr>t_revoked_at := Some now\<rparr>) (api_tokens db)\<rparr>"

definition revoke_token_body :: "int \<Rightarrow> user \<Rightarrow> int \<Rightarrow> int \<Rightarrow> view" where
  "revoke_token_body now cu uid tid c =
     (case token_by_id (c_db c) tid of
        None \<Rightarrow> flash_redirect users_index ''Unknown token.'' ''error'' c
      | Some t \<Rightarrow>
          if t_user_id t \<noteq> uid then flash_redirect users_index ''Unknown token.'' ''error'' c
          else if t_revoked_at t \<noteq> None
            then flash_redirect users_index ''Token is already revoked.'' ''error'' c
          else flash_redirect users_index (''Token '' @ quoted (t_name t) @ '' revoked.'') ''success''
            (on_db (\<lambda>db. log_token_event (u_username cu) ''token-revoke'' (t_token_prefix t) (t_name t)
               (set_revoked tid now db)) c))"

definition revoke_token :: "(string set \<Rightarrow> string) \<Rightarrow> int \<Rightarrow> env \<Rightarrow> user \<Rightarrow> int \<Rightarrow> int \<Rightarrow> view" where
  "revoke_token first now e cu uid tid = roles_required first e cu [''admin'']
     (require_scoped e cu ''user.admin'' (revoke_token_body now cu uid tid))"

end
