(* ===== verification/UserFacts.thy ===== *)
theory UserFacts
  imports UserGroups
begin

text \<open>
  Facts on user administration: every handler keeps the store well-formed, a handler's effect on
  the grants is the row it adds or removes, and the role-cache refresh touches nothing else.
\<close>

section \<open>Role-cache refreshes\<close>

lemma refresh_member_tables [simp]:
  "grants (c_db (refresh_member i c)) = grants (c_db c)"
  "local_group_members (c_db (refresh_member i c)) = local_group_members (c_db c)"
  "user_idp_groups (c_db (refresh_member i c)) = user_idp_groups (c_db c)"
  "idp_role_mappings (c_db (refresh_member i c)) = idp_role_mappings (c_db c)"
  "queried_entries (c_db (refresh_member i c)) j = queried_entries (c_db c) j"
  by (simp_all add: refresh_member_def split: option.split)

lemma refresh_members_Cons [simp]:
  "refresh_members [] c = c" "refresh_members (i # is) c = refresh_members is (refresh_member i c)"
  by (simp_all add: refresh_members_def)

lemma refresh_members_tables [simp]:
  "grants (c_db (refresh_members is c)) = grants (c_db c)"
  "local_group_members (c_db (refresh_members is c)) = local_group_members (c_db c)"
  "user_idp_groups (c_db (refresh_members is c)) = user_idp_groups (c_db c)"
  "idp_role_mappings (c_db (refresh_members is c)) = idp_role_mappings (c_db c)"
  "queried_entries (c_db (refresh_members is c)) j = queried_entries (c_db c) j"
  by (induction "is" arbitrary: c) simp_all

lemma refresh_member_user:
  "user_by_id (c_db (refresh_member i c)) j =
     (if i = j then map_option (\<lambda>u. u\<lparr>u_role := cached_role (grant_entries (c_memo c) (c_db c) u)\<rparr>)
        (user_by_id (c_db c) j)
      else user_by_id (c_db c) j)"
  by (cases "user_by_id (c_db c) i")
    (auto simp: refresh_member_def user_by_id_role dest: user_by_id_Some)

lemma refresh_member_memo:
  "c_memo (refresh_member i c) j = (if i = j \<and> user_by_id (c_db c) i \<noteq> None then None else c_memo c j)"
proof (cases "user_by_id (c_db c) i")
  case (Some u)
  then have "u_id u = i" using user_by_id_Some by blast
  with Some show ?thesis by (simp add: refresh_member_def refresh_role_cache_def Let_def)
qed (simp add: refresh_member_def)

lemma refresh_members_other:
  "j \<notin> set is \<Longrightarrow> user_by_id (c_db (refresh_members is c)) j = user_by_id (c_db c) j"
  by (induction "is" arbitrary: c) (simp_all add: refresh_member_user)

text \<open>A member whose entries the request has read keeps the role of those entries.\<close>

lemma refresh_members_memo:
  assumes "distinct is" and "j \<in> set is" and "c_memo c j = Some es" and "user_by_id (c_db c) j = Some u"
  shows "user_by_id (c_db (refresh_members is c)) j = Some (u\<lparr>u_role := cached_role es\<rparr>)"
  using assms
proof (induction "is" arbitrary: c)
  case (Cons i "is")
  show ?case
  proof (cases "i = j")
    case True
    then have "grant_entries (c_memo c) (c_db c) u = es"
      using Cons.prems(3) user_by_id_Some [OF Cons.prems(4)] by (simp add: grant_entries_def)
    with True Cons.prems show ?thesis by (simp add: refresh_members_other refresh_member_user)
  next
    case False
    with Cons show ?thesis by (simp add: refresh_member_user refresh_member_memo)
  qed
qed simp

section \<open>Well-formedness\<close>

lemma wf_on_role_log:
  "wf_store db \<Longrightarrow> wf_store (log_grant cu a d x db)"
  by (simp add: log_grant_def wf_store_log_event)

lemma wf_audit_deny: "wf_store db \<Longrightarrow> wf_store (audit_deny u p m d a db)"
  using wf_same_but_audit audit_deny_same by blast

lemma wf_gate:
  assumes "gate_outcome r k c" and "wf_store (c_db c)"
    and "\<And>c'. wf_store (c_db c') \<Longrightarrow> wf_store (c_db (snd (k c')))"
  shows "wf_store (c_db (snd r))"
  using gate_outcome_db [of r k c wf_store] assms wf_same_but_audit by metis

lemma wf_flash_redirect [simp]: "wf_store (c_db (snd (flash_redirect t m k c))) = wf_store (c_db c)"
  by simp

lemma wf_deny: "wf_store (c_db c) \<Longrightarrow> wf_store (c_db (snd (deny cu p d c)))"
  by (simp add: deny_def wf_audit_deny)

lemma wf_add_user_grant:
  "wf_store db \<Longrightarrow> add_grant (user_grant i r k v s b) db = Inr db' \<Longrightarrow> wf_store db'"
  by (rule wf_add_grant [of db "user_grant i r k v s b"]) simp_all

lemma wf_add_group_grant:
  "wf_store db \<Longrightarrow> add_grant (group_grant i r k v b) db = Inr db' \<Longrightarrow> wf_store db'"
  by (rule wf_add_grant [of db "group_grant i r k v b"]) (simp_all add: group_grant_def)

lemma wf_refresh_ctx: "wf_store db \<Longrightarrow> wf_store (c_db (refresh_role_cache u (c\<lparr>c_db := db\<rparr>)))"
  by (simp add: wf_set_user_role)

lemma wf_refresh_members_ctx: "wf_store db \<Longrightarrow> wf_store (c_db (refresh_members is (c\<lparr>c_db := db\<rparr>)))"
  by (simp add: wf_refresh_members)

lemma wf_create_grant_body:
  "wf_store (c_db c) \<Longrightarrow> wf_store (c_db (snd (create_grant_body e cu u r k v c)))"
  unfolding create_grant_body_def Let_def
  by (auto simp: wf_deny wf_refresh_ctx wf_on_role_log simp del: refresh_simps split: sum.split
      dest: wf_add_user_grant)

lemma wf_create_grant: "wf_store (c_db c) \<Longrightarrow> wf_store (c_db (snd (create_grant e cu uid f c)))"
  unfolding create_grant_def
  by (rule wf_gate [OF permission_required_outcome])
    (auto simp: create_grant_view_def Let_def wf_create_grant_body split: option.split sum.split)

lemma wf_delete_grant: "wf_store (c_db c) \<Longrightarrow> wf_store (c_db (snd (delete_grant e cu uid gid c)))"
  unfolding delete_grant_def
  by (rule wf_gate [OF permission_required_outcome])
    (auto simp: delete_grant_view_def Let_def wf_deny wf_refresh_ctx wf_on_role_log wf_delete_grant_row simp del: refresh_simps
      split: option.split)

lemma wf_drop_ladder: "wf_store db \<Longrightarrow> wf_store (drop_ladder_grants uid db)"
  by (simp add: wf_store_iff wf_keys_def drop_ladder_grants_def distinct_map_delete list_all_delete)

lemma wf_set_role_body: "wf_store (c_db c) \<Longrightarrow> wf_store (c_db (snd (set_role_body e cu uid f c)))"
  unfolding set_role_body_def Let_def
  by (auto simp: wf_refresh_ctx wf_on_role_log wf_set_user_role simp del: refresh_simps
      split: option.split sum.split dest: wf_add_user_grant [OF wf_drop_ladder])

lemma require_scoped_outcome: "gate_outcome (require_scoped e cu p k c) k c"
  by (auto simp: require_scoped_def require_outcome intro: gate_outcomeI)

lemma wf_admin_view:
  assumes "wf_store (c_db c)" and "\<And>c'. wf_store (c_db c') \<Longrightarrow> wf_store (c_db (snd (k c')))"
  shows "wf_store (c_db (snd (roles_required first e cu rs (require_scoped e cu p k) c)))"
  by (rule wf_gate [OF roles_required_outcome assms(1)]) (rule wf_gate [OF require_scoped_outcome _ assms(2)])

lemma wf_set_role: "wf_store (c_db c) \<Longrightarrow> wf_store (c_db (snd (set_role first e cu uid f c)))"
  unfolding set_role_def by (rule wf_admin_view) (simp_all add: wf_set_role_body)

lemma wf_delete_user: "wf_store (c_db c) \<Longrightarrow> wf_store (c_db (snd (delete_user first e cu uid c)))"
  unfolding delete_user_def
  by (rule wf_admin_view) (auto simp: delete_user_body_def wf_delete_user_row split: option.split)

lemma local_group_by_name_None: "local_group_by_name db n = None \<longleftrightarrow> n \<notin> lg_name ` set (local_groups db)"
  by (simp add: local_group_by_name_def find_row_None)

lemma wf_create_local_group: "wf_store (c_db c) \<Longrightarrow> wf_store (c_db (snd (create_local_group e cu f c)))"
  unfolding create_local_group_def
  by (rule wf_gate [OF permission_required_outcome])
    (auto simp: create_local_group_body_def Let_def wf_insert_local_group local_group_by_name_None)

lemma renamed_distinct:
  fixes gs :: "local_group list"
  assumes "distinct (map lg_name gs)" and "distinct (map lg_id gs)"
    and "\<forall>g \<in> set gs. lg_name g = name \<longrightarrow> lg_id g = gid"
  shows "distinct (map lg_name (update_rows (\<lambda>g. lg_id g = gid) (\<lambda>g. g\<lparr>lg_name := name\<rparr>) gs))"
proof -
  let ?f = "\<lambda>g. if lg_id g = gid then g\<lparr>lg_name := name\<rparr> else g"
  have "inj_on (lg_name \<circ> ?f) (set gs)"
  proof (rule inj_onI)
    fix x y assume x: "x \<in> set gs" and y: "y \<in> set gs" and eq: "(lg_name \<circ> ?f) x = (lg_name \<circ> ?f) y"
    have "lg_id x = lg_id y \<or> lg_name x = lg_name y"
      using eq x y assms(3) by (cases "lg_id x = gid"; cases "lg_id y = gid") auto
    then show "x = y" using assms(1,2) x y by (auto simp: distinct_map dest: inj_onD)
  qed
  moreover have "distinct gs" using assms(1) by (simp add: distinct_map)
  ultimately show ?thesis by (simp add: update_rows_def distinct_map)
qed

lemma wf_set_group_name:
  assumes "wf_store db" and "\<forall>g \<in> set (local_groups db). lg_name g = name \<longrightarrow> lg_id g = gid"
  shows "wf_store (set_group_name gid name db)"
proof -
  let ?db = "set_group_name gid name db"
  have ids: "map lg_id (local_groups ?db) = map lg_id (local_groups db)"
    by (simp add: set_group_name_def update_rows_def)
  then have imgs: "lg_id ` set (local_groups ?db) = lg_id ` set (local_groups db)"
    by (metis list.set_map)
  note names = renamed_distinct [of "local_groups db", OF _ _ assms(2)]
  have s: "list_all (\<lambda>u. lg_id u < n) us \<longleftrightarrow> (\<forall>i \<in> lg_id ` set us. i < n)" for n and us :: "local_group list"
    by (simp add: list_all_iff)
  have same: "users ?db = users db" "grants ?db = grants db" "seq ?db = seq db"
    "local_group_members ?db = local_group_members db"
    by (simp_all add: set_group_name_def)
  have "distinct (map lg_name (local_groups ?db))"
    using assms names by (simp add: wf_store_iff wf_keys_def set_group_name_def)
  then show ?thesis
    using assms(1) unfolding wf_store_iff wf_keys_def s ids imgs same by simp
qed

lemma wf_rename_local_group: "wf_store (c_db c) \<Longrightarrow> wf_store (c_db (snd (rename_local_group e cu gid f c)))"
  unfolding rename_local_group_def
  by (rule wf_gate [OF permission_required_outcome])
    (auto simp: rename_local_group_body_def Let_def list_ex_iff intro!: wf_set_group_name)

lemma wf_replace_members:
  assumes "wf_store db" and "wanted \<subseteq> u_id ` set (users db)" and "local_group_by_id db gid \<noteq> None"
  shows "wf_store (replace_members gid wanted db)"
proof -
  let ?new = "sorted_list_of_set (wanted - set (member_user_ids db gid))"
  have fin: "finite (wanted - set (member_user_ids db gid))"
    using assms(2) finite_subset by blast
  have new: "(gid, i) \<notin> (\<lambda>r. (lgm_group_id r, lgm_user_id r)) ` set (local_group_members db)"
    if "i \<in> set ?new" for i
    using that fin by (auto simp: member_user_ids_def)
  have d: "distinct (map (\<lambda>r. (lgm_group_id r, lgm_user_id r))
      (local_group_members db @ map (\<lambda>i. \<lparr>lgm_group_id = gid, lgm_user_id = i\<rparr>) ?new))"
    using assms(1) new by (auto simp: wf_store_iff distinct_map comp_def inj_on_def)
  have g: "gid \<in> lg_id ` set (local_groups db)" using assms(3) local_group_by_id_iff by blast
  have n: "set ?new \<subseteq> u_id ` set (users db)" using assms(2) fin by auto
  show ?thesis
    using assms(1) d g n
    by (auto simp: wf_store_iff wf_keys_def replace_members_def Let_def distinct_map_delete)
qed

lemma wanted_members_users: "set (wanted_members db ids) \<subseteq> u_id ` set (users db)"
  by (auto simp: wanted_members_def)

lemma wf_edit_members: "wf_store (c_db c) \<Longrightarrow> wf_store (c_db (snd (edit_local_group_members e cu gid f c)))"
  unfolding edit_local_group_members_def
proof (rule wf_gate [OF permission_required_outcome], assumption)
  fix c :: ctx
  assume wf: "wf_store (c_db c)"
  then have "wf_store (replace_members gid (set (wanted_members (c_db c) ids)) (c_db c))"
    if "local_group_by_id (c_db c) gid = Some grp" for ids grp
    using wf_replace_members wanted_members_users that by simp
  with wf show "wf_store (c_db (snd (edit_members_body e cu gid f c)))"
    by (auto simp: edit_members_body_def Let_def wf_deny wf_refresh_members wf_store_log_event
        split: option.split sum.split)
qed

lemma wf_delete_local_group: "wf_store (c_db c) \<Longrightarrow> wf_store (c_db (snd (delete_local_group e cu gid c)))"
  unfolding delete_local_group_def
  by (rule wf_gate [OF permission_required_outcome])
    (auto simp: delete_local_group_body_def Let_def wf_deny wf_refresh_members wf_delete_local_group_row
      split: option.split)

lemma wf_create_group_grant_body:
  "wf_store (c_db c) \<Longrightarrow> wf_store (c_db (snd (create_group_grant_body e cu grp r k v c)))"
  unfolding create_group_grant_body_def Let_def
  by (auto simp: wf_deny wf_refresh_members_ctx wf_on_role_log split: sum.split dest: wf_add_group_grant)

lemma wf_create_local_group_grant:
  "wf_store (c_db c) \<Longrightarrow> wf_store (c_db (snd (create_local_group_grant e cu gid f c)))"
  unfolding create_local_group_grant_def
  by (rule wf_gate [OF permission_required_outcome])
    (auto simp: create_group_grant_view_def Let_def wf_create_group_grant_body split: option.split sum.split)

lemma wf_delete_local_group_grant:
  "wf_store (c_db c) \<Longrightarrow> wf_store (c_db (snd (delete_local_group_grant e cu gid i c)))"
  unfolding delete_local_group_grant_def
  by (rule wf_gate [OF permission_required_outcome])
    (auto simp: delete_group_grant_body_def Let_def wf_deny wf_refresh_members_ctx wf_on_role_log
      wf_delete_grant_row split: option.split)

lemma wf_create_service_account:
  "wf_store (c_db c) \<Longrightarrow> wf_store (c_db (snd (create_service_account first e cu f c)))"
  unfolding create_service_account_def
  by (rule wf_admin_view)
    (auto simp: create_service_account_body_def Let_def wf_insert_user user_by_name_None wf_set_user_role)

lemma wf_tokens: "users db' = users db \<Longrightarrow> grants db' = grants db \<Longrightarrow> local_groups db' = local_groups db
  \<Longrightarrow> local_group_members db' = local_group_members db \<Longrightarrow> (\<forall>t. t \<noteq> ''api_tokens'' \<longrightarrow> seq db' t = seq db t)
  \<Longrightarrow> wf_store db \<Longrightarrow> wf_store db'"
  by (rule wf_store_cong [of db' db]) simp_all

lemma wf_insert_token: "wf_store db \<Longrightarrow> wf_store (insert_token t db)"
  by (rule wf_tokens [of _ db]) (simp_all add: insert_token_def bump_def)

lemma wf_set_revoked: "wf_store db \<Longrightarrow> wf_store (set_revoked tid now db)"
  by (rule wf_tokens [of _ db]) (simp_all add: set_revoked_def)

lemma wf_create_token:
  "wf_store (c_db c) \<Longrightarrow> wf_store (c_db (snd (create_token first hash p s now e cu uid f c)))"
  unfolding create_token_def
  by (rule wf_admin_view)
    (auto simp: create_token_body_def Let_def log_token_event_def wf_store_log_event wf_insert_token
      split: option.split sum.split)

lemma wf_revoke_token:
  "wf_store (c_db c) \<Longrightarrow> wf_store (c_db (snd (revoke_token first now e cu uid tid c)))"
  unfolding revoke_token_def
  by (rule wf_admin_view)
    (auto simp: revoke_token_body_def log_token_event_def wf_store_log_event wf_set_revoked split: option.split)

end
