(* ===== verification/UserProps.thy ===== *)
theory UserProps
  imports UserFacts Demo
begin

text \<open>
  The properties of user administration: the store's invariant, what a delegate's request can and
  cannot write, the protection of the caller's own administrator grant and where it stops, the
  scopes the grant dialog accepts, and what a minted token leaves behind.
\<close>

section \<open>Invariant\<close>

text \<open>C4: Every handler of the users module keeps the store well-formed, whatever the form holds and
  whoever calls it: keys and unique indexes stay distinct, each grant has exactly one subject of
  its kind, and every foreign key resolves.\<close>

theorem users_keep_wf:
  assumes "wf_store (c_db c)"
  shows "wf_store (c_db (snd (create_grant e cu uid f c)))
    \<and> wf_store (c_db (snd (delete_grant e cu uid gid c)))
    \<and> wf_store (c_db (snd (set_role first e cu uid f c)))
    \<and> wf_store (c_db (snd (delete_user first e cu uid c)))
    \<and> wf_store (c_db (snd (create_local_group e cu f c)))
    \<and> wf_store (c_db (snd (rename_local_group e cu gid f c)))
    \<and> wf_store (c_db (snd (edit_local_group_members e cu gid f c)))
    \<and> wf_store (c_db (snd (delete_local_group e cu gid c)))
    \<and> wf_store (c_db (snd (create_local_group_grant e cu gid f c)))
    \<and> wf_store (c_db (snd (delete_local_group_grant e cu gid tid c)))
    \<and> wf_store (c_db (snd (create_service_account first e cu f c)))
    \<and> wf_store (c_db (snd (create_token first hash p s now e cu uid f c)))
    \<and> wf_store (c_db (snd (revoke_token first now e cu uid tid c)))"
  by (intro conjI wf_create_grant wf_delete_grant wf_set_role wf_delete_user wf_create_local_group
      wf_rename_local_group wf_edit_members wf_delete_local_group wf_create_local_group_grant
      wf_delete_local_group_grant wf_create_service_account wf_create_token wf_revoke_token assms)

theorem users_keep_wf_witness:
  "wf_store (c_db (snd (delete_user (\<lambda>_. ''user.admin'') demo_env root 4 (start demo_store))))"
proof -
  have "wf_store (c_db (start demo_store))" by (simp add: start_def demo_wf)
  from users_keep_wf [OF this] show ?thesis by blast
qed

section \<open>Delegates\<close>

declare entries_remember [simp] effective_remember [simp] decisions_remember [simp]

text \<open>A delegate is a scoped caller without fleet \<open>grant.admin\<close>.\<close>

definition delegate_caller :: "env \<Rightarrow> user \<Rightarrow> ctx \<Rightarrow> bool" where
  "delegate_caller e cu c \<longleftrightarrow>
     rbac_mode e (c_db c) = ''scoped'' \<and> \<not> has_fleet e (c_memo c) (c_db c) cu ''grant.admin''"

lemma delegate_not_admin: "delegate_caller e cu c \<Longrightarrow> \<not> fleet_grant_admin e cu (touch cu c)"
  by (simp add: delegate_caller_def fleet_grant_admin_def)

lemma delegate_gate:
  assumes "delegate_caller e cu c"
  shows "permission_required e cu ps k c = k (touch cu c)
    \<or> same_but_audit (c_db c) (c_db (snd (permission_required e cu ps k c)))"
  using assms by (simp add: delegate_caller_def permission_required_def)

lemma deny_grants [simp]: "grants (c_db (snd (deny cu p d c))) = grants (c_db c)"
  using same_but_audit_tables(6) [OF audit_deny_same] by (simp add: deny_def)

lemma create_grant_body_rows:
  assumes "g \<in> set (grants (c_db (snd (create_grant_body e cu u role k v c))))"
    and "g \<notin> set (grants (c_db c))" and "\<not> fleet_grant_admin e cu c"
  shows "g_subject_user_id g = Some (u_id u)
    \<and> delegate_grant_write_error e cu c (g_role g) (g_scope_kind g) (g_scope_value g) None (Some (u_id u)) = None"
  using assms unfolding create_grant_body_def Let_def
  by (auto simp: log_grant_def split: if_splits sum.splits dest!: add_grant_rows)

lemma create_group_grant_body_rows:
  assumes "g \<in> set (grants (c_db (snd (create_group_grant_body e cu grp role k v c))))"
    and "g \<notin> set (grants (c_db c))" and "\<not> fleet_grant_admin e cu c"
  shows "g_subject_user_id g = None
    \<and> delegate_grant_write_error e cu c (g_role g) (g_scope_kind g) (g_scope_value g) None None = None"
  using assms unfolding create_group_grant_body_def Let_def
  by (auto simp: log_grant_def group_grant_def split: if_splits sum.splits dest!: add_grant_rows)

lemma write_error_None:
  assumes "delegate_grant_write_error e cu (touch cu c) role k v None s = None"
  shows "s \<noteq> Some (u_id cu)" and "delegate_grant_error e (c_memo c) (c_db c) cu role k v = None"
  using assms by (simp_all add: delegate_grant_write_error_def split: if_splits)

lemma create_grant_view_body:
  assumes "g \<in> set (grants (c_db (snd (create_grant_view e cu uid f c))))" and "g \<notin> set (grants (c_db c))"
  obtains u role k v where "g \<in> set (grants (c_db (snd (create_grant_body e cu u role k v c))))"
proof (cases "user_by_id (c_db c) uid")
  case None
  with assms show thesis by (simp add: create_grant_view_def Let_def)
next
  case (Some u)
  let ?v = "validate_grant_scope (c_db c) (py_strip (form_get f ''role'')) (py_strip (form_get f ''scope_kind'')) f"
  consider er where "?v = Inl er" | m where "?v = Inr (Inl m)" | w where "?v = Inr (Inr w)"
    by (cases ?v; cases "projr ?v"; simp)
  then show thesis using assms that by cases (simp_all add: create_grant_view_def Some)
qed

lemma create_group_grant_view_body:
  assumes "g \<in> set (grants (c_db (snd (create_group_grant_view e cu gid f c))))" and "g \<notin> set (grants (c_db c))"
  obtains grp role k v where "g \<in> set (grants (c_db (snd (create_group_grant_body e cu grp role k v c))))"
proof (cases "local_group_by_id (c_db c) gid")
  case None
  with assms show thesis by (simp add: create_group_grant_view_def Let_def)
next
  case (Some grp)
  let ?v = "validate_grant_scope (c_db c) (py_strip (form_get f ''role'')) (py_strip (form_get f ''scope_kind'')) f"
  consider er where "?v = Inl er" | m where "?v = Inr (Inl m)" | w where "?v = Inr (Inr w)"
    by (cases ?v; cases "projr ?v"; simp)
  then show thesis using assms that by cases (simp_all add: create_group_grant_view_def Some)
qed

text \<open>C5: What a delegate can write: every grant row that a request of a caller without fleet
  \<open>grant.admin\<close> adds, for a user or a local group, is one the subset rule lets that caller
  delegate, and it is never a grant to the caller's own account.\<close>

theorem delegated_writes_checked:
  assumes "delegate_caller e cu c"
    and "g \<in> set (grants (c_db (snd (create_grant e cu uid f c))))
       \<or> g \<in> set (grants (c_db (snd (create_local_group_grant e cu gid f c))))"
    and "g \<notin> set (grants (c_db c))"
  shows "delegate_grant_error e (c_memo c) (c_db c) cu (g_role g) (g_scope_kind g) (g_scope_value g) = None
    \<and> g_subject_user_id g \<noteq> Some (u_id cu)"
proof -
  note na = delegate_not_admin [OF assms(1)]
  have keep: "same_but_audit (c_db c) db \<Longrightarrow> g \<notin> set (grants db)" for db
    using same_but_audit_tables(6) assms(3) by metis
  from assms(2) show ?thesis
  proof
    assume g: "g \<in> set (grants (c_db (snd (create_grant e cu uid f c))))"
    have "g \<in> set (grants (c_db (snd (create_grant_view e cu uid f (touch cu c)))))"
      using delegate_gate [OF assms(1)] keep g unfolding create_grant_def by metis
    then obtain u role k v where "g \<in> set (grants (c_db (snd (create_grant_body e cu u role k v (touch cu c)))))"
      by (rule create_grant_view_body) (simp_all add: assms(3))
    then have r: "g_subject_user_id g = Some (u_id u)"
      "delegate_grant_write_error e cu (touch cu c) (g_role g) (g_scope_kind g) (g_scope_value g) None (Some (u_id u)) = None"
      using create_grant_body_rows [OF _ _ na] assms(3) by simp_all
    show ?thesis using r(1) write_error_None [OF r(2)] by simp
  next
    assume g: "g \<in> set (grants (c_db (snd (create_local_group_grant e cu gid f c))))"
    have "g \<in> set (grants (c_db (snd (create_group_grant_view e cu gid f (touch cu c)))))"
      using delegate_gate [OF assms(1)] keep g unfolding create_local_group_grant_def by metis
    then obtain grp role k v where
      "g \<in> set (grants (c_db (snd (create_group_grant_body e cu grp role k v (touch cu c)))))"
      by (rule create_group_grant_view_body) (simp_all add: assms(3))
    then have r: "g_subject_user_id g = None"
      "delegate_grant_write_error e cu (touch cu c) (g_role g) (g_scope_kind g) (g_scope_value g) None None = None"
      using create_group_grant_body_rows [OF _ _ na] assms(3) by simp_all
    show ?thesis using r(1) write_error_None [OF r(2)] by simp
  qed
qed

definition demo_form :: form where
  "demo_form k = (if k = ''role'' then [''team-operator''] else if k = ''scope_kind'' then [''glob'']
     else if k = ''scope_value'' then ['' web-01 ''] else [])"

theorem delegated_writes_checked_witness:
  "\<exists>g. g \<in> set (grants (c_db (snd (create_grant demo_env lead 5 demo_form (start demo_store)))))
     \<and> g \<notin> set (grants demo_store)
     \<and> delegate_grant_error demo_env fresh demo_store lead (g_role g) (g_scope_kind g) (g_scope_value g) = None"
proof -
  let ?g = "(demo_grant 5 (Some 5) None ''team-operator'' ''glob'' ''web-01'')\<lparr>g_created_by := Some 2\<rparr>"
  have d: "delegate_caller demo_env lead (start demo_store)"
    unfolding delegate_caller_def by code_simp
  have g: "?g \<in> set (grants (c_db (snd (create_grant demo_env lead 5 demo_form (start demo_store)))))"
    "?g \<notin> set (grants (c_db (start demo_store)))" by code_simp+
  then show ?thesis
    using delegated_writes_checked [OF d disjI1 [OF g(1)] g(2)] by (auto simp: start_def)
qed

section \<open>The caller's own access\<close>

lemma start_simps [simp]: "c_db (start db) = db" "c_memo (start db) = (\<lambda>_. None)"
  by (simp_all add: start_def)

text \<open>A fleet administrator entry the user holds directly or through a provider group.\<close>

definition own_admin :: "store \<Rightarrow> int \<Rightarrow> bool" where
  "own_admin db uid \<longleftrightarrow>
     (\<exists>v. (''admin'', ''fleet'', v) \<in> set (user_entries db uid) \<union> set (idp_entries db uid))"

lemma own_admin_iff:
  "own_admin db uid \<longleftrightarrow>
     (\<exists>g \<in> set (grants db). g_subject_kind g = ''user'' \<and> g_subject_user_id g = Some uid
        \<and> g_role g = ''admin'' \<and> g_scope_kind g = ''fleet'')
     \<or> (\<exists>m \<in> set (idp_role_mappings db). irm_idp_group m \<in> set (idp_names db uid)
        \<and> irm_role m = ''admin'' \<and> irm_scope_kind m = ''fleet'')"
proof -
  have img: "(\<exists>v. (r, k, v) \<in> (\<lambda>x. (f x, h x, w x)) ` A) \<longleftrightarrow> (\<exists>x \<in> A. f x = r \<and> h x = k)"
    for r k :: string and f h w and A :: "'z set"
    by force
  show ?thesis
    unfolding own_admin_def set_user_entries idp_entries_def set_map set_filter Un_iff ex_disj_distrib img
    by blast
qed

lemma other_admin_iff:
  "has_other_fleet_admin db uid x \<longleftrightarrow>
     (\<exists>g \<in> set (grants db). g_subject_kind g = ''user'' \<and> g_subject_user_id g = Some uid
        \<and> g_role g = ''admin'' \<and> g_scope_kind g = ''fleet'' \<and> g_id g \<noteq> x)
     \<or> (\<exists>m \<in> set (idp_role_mappings db). irm_idp_group m \<in> set (idp_names db uid)
        \<and> irm_role m = ''admin'' \<and> irm_scope_kind m = ''fleet'')"
  unfolding has_other_fleet_admin_def list_ex_iff ..

lemma own_admin_cong:
  "grants db' = grants db \<Longrightarrow> user_idp_groups db' = user_idp_groups db
   \<Longrightarrow> idp_role_mappings db' = idp_role_mappings db \<Longrightarrow> own_admin db' uid = own_admin db uid"
  by (simp add: own_admin_iff idp_names_def)

lemma own_admin_delete:
  assumes "own_admin db uid" and "grant_by_id db gid = Some gr" and "distinct (map g_id (grants db))"
    and "g_subject_kind gr = ''user''"
    and "\<not> (g_subject_user_id gr = Some uid \<and> g_role gr = ''admin'' \<and> g_scope_kind gr = ''fleet''
          \<and> \<not> has_other_fleet_admin db uid (g_id gr))"
  shows "own_admin (delete_grant_row gid db) uid"
proof -
  have gr: "gr \<in> set (grants db)" "g_id gr = gid" using grant_by_id_Some [OF assms(2)] by simp_all
  then have uniq: "g \<in> set (grants db) \<Longrightarrow> g_id g = gid \<Longrightarrow> g = gr" for g
    using assms(3) by (auto simp: distinct_map inj_on_def)
  have rows: "set (grants (delete_grant_row gid db)) = {g \<in> set (grants db). g_id g \<noteq> gid}"
    "idp_role_mappings (delete_grant_row gid db) = idp_role_mappings db"
    "idp_names (delete_grant_row gid db) uid = idp_names db uid"
    by (simp_all add: delete_grant_row_def idp_names_def)
  show ?thesis
    using assms(1,5) uniq gr unfolding own_admin_iff other_admin_iff rows by blast
qed

text \<open>C6: Nobody deletes its own last administrator grant: a caller that holds the admin role on the
  fleet directly or through a provider group still does after any grant deletion it requests.\<close>

theorem keeps_own_admin:
  assumes "wf_store (c_db c)" and "own_admin (c_db c) (u_id cu)"
  shows "own_admin (c_db (snd (delete_grant e cu uid gid c))) (u_id cu)"
proof -
  have gate: "gate_outcome (delete_grant e cu uid gid c) (delete_grant_view e cu uid gid) c"
    unfolding delete_grant_def by (rule permission_required_outcome)
  have same: "own_admin db (u_id cu)" if "same_but_audit (c_db c) db" for db
    using own_admin_cong same_but_audit_tables [OF that] assms(2) by metis
  have "own_admin (c_db (snd (delete_grant_view e cu uid gid c'))) (u_id cu)" if "c_db c' = c_db c" for c'
  proof (cases "grant_by_id (c_db c') gid")
    case None
    then show ?thesis using assms(2) that by (simp add: delete_grant_view_def)
  next
    case (Some gr)
    let ?last = "g_subject_user_id gr = Some (u_id cu) \<and> g_role gr = ''admin'' \<and> g_scope_kind gr = ''fleet''
      \<and> \<not> has_other_fleet_admin (c_db c') (u_id cu) (g_id gr)"
    have d: "own_admin (delete_grant_row gid (c_db c')) (u_id cu)"
      if "g_subject_kind gr = ''user''" "\<not> ?last"
      using own_admin_delete [of "c_db c'" "u_id cu" gid gr] assms Some that \<open>c_db c' = c_db c\<close>
      by (simp add: wf_store_iff wf_keys_def)
    have keep: "own_admin (set_user_role i r (log_grant cu a b x db)) j = own_admin db j"
      "own_admin (log_grant cu a b x db) j = own_admin db j" for i r a b x db j
      by (rule own_admin_cong; simp add: log_grant_def)+
    have den: "own_admin (c_db (snd (deny cu p dd c'))) (u_id cu)" for p dd
      using same [of "c_db (snd (deny cu p dd c'))"] that by (simp add: deny_def)
    show ?thesis
      using d den assms(2) that
      by (simp add: delete_grant_view_def Some [unfolded that] Let_def keep split: option.split)
  qed
  from gate_outcome_db [OF gate, of "\<lambda>db. own_admin db (u_id cu)"] same assms(2) this
  show ?thesis by blast
qed

theorem keeps_own_admin_witness:
  "own_admin (c_db (snd (delete_grant demo_env root 1 1 (start demo_store)))) (u_id root)"
proof (rule keeps_own_admin)
  show "wf_store (c_db (start demo_store))" by (simp add: start_def demo_wf)
  show "own_admin (c_db (start demo_store)) (u_id root)" unfolding own_admin_iff by code_simp
qed

text \<open>The role cache of the caller lags behind: when a scoped caller's request deletes a local group
  the caller is a member of, the role column written for the caller is the one its entries
  before the deletion gave, because the refresh reads the entries memoized by the gate.\<close>

theorem own_group_delete_keeps_role:
  assumes "rbac_mode e db = ''scoped''" and "wf_store db"
    and "user_by_id db (u_id cu) = Some cu" and "u_id cu \<in> set (member_user_ids db gid)"
    and "fst (delete_local_group e cu gid (start db)) = Redirect users_groups"
  shows "user_by_id (c_db (snd (delete_local_group e cu gid (start db)))) (u_id cu)
      = Some (cu\<lparr>u_role := cached_role (queried_entries db (u_id cu))\<rparr>)"
proof -
  have run: "delete_local_group e cu gid (start db) = delete_local_group_body e cu gid (touch cu (start db))"
    using assms(1,5) by (auto simp: delete_local_group_def permission_required_def split: if_splits)
  have "local_group_by_id db gid \<noteq> None"
    using assms(2,4) local_group_by_id_iff [of db gid] by (auto simp: wf_store_iff member_user_ids_def)
  then obtain grp where grp: "local_group_by_id db gid = Some grp" by blast
  have dist: "distinct (member_user_ids db gid)"
    using assms(2) by (auto simp: wf_store_iff member_user_ids_def distinct_map inj_on_def)
  have memo: "c_memo (on_db (delete_local_group_row gid) (touch cu (start db))) (u_id cu)
      = Some (queried_entries db (u_id cu))"
    by (simp add: remember_def)
  have user: "user_by_id (c_db (on_db (delete_local_group_row gid) (touch cu (start db)))) (u_id cu) = Some cu"
    using assms(3) by (simp add: delete_local_group_row_def user_by_id_def)
  show ?thesis
    using assms(5) refresh_members_memo [OF dist assms(4) memo user] unfolding run
    by (auto simp: delete_local_group_body_def grp deny_def split: if_splits)
qed

theorem own_group_delete_keeps_role_witness:
  "user_by_id (c_db (snd (delete_local_group demo_env carol 1 (start demo_store)))) 4 = Some carol
   \<and> u_role carol = ''admin''
   \<and> queried_entries (c_db (snd (delete_local_group demo_env carol 1 (start demo_store)))) 4 = []"
proof -
  have h: "user_by_id demo_store (u_id carol) = Some carol"
    "u_id carol \<in> set (member_user_ids demo_store 1)"
    "fst (delete_local_group demo_env carol 1 (start demo_store)) = Redirect users_groups" by code_simp+
  have "carol\<lparr>u_role := cached_role (queried_entries demo_store (u_id carol))\<rparr> = carol"
    "u_role carol = ''admin''" "u_id carol = 4"
    "queried_entries (c_db (snd (delete_local_group demo_env carol 1 (start demo_store)))) 4 = []"
    by code_simp+
  with own_group_delete_keeps_role [OF demo_scoped demo_wf h] show ?thesis by simp
qed

end
