(* ===== verification/ScopeProps.thy ===== *)
theory ScopeProps
  imports UserFacts Demo
begin

text \<open>
  The properties of the grant dialog's scope validation, of the ladder dropdown and of token
  creation: what is stored resolves to what was typed, a path prefix is stored in normal form, a
  ladder change replaces exactly the ladder grants, and a token's secret is stored only hashed.
\<close>

section \<open>Scopes\<close>

lemma add_new_tokens:
  "set (fold (\<lambda>t seen. if t \<noteq> [] \<and> t \<notin> set seen then seen @ [t] else seen) ts acc)
     = set acc \<union> {t \<in> set ts. t \<noteq> []}
   \<and> (distinct acc \<longrightarrow> distinct (fold (\<lambda>t seen. if t \<noteq> [] \<and> t \<notin> set seen then seen @ [t] else seen) ts acc))"
  by (induction ts arbitrary: acc) auto

lemma parse_member_ids_pieces:
  "t \<in> set (parse_member_ids f) \<Longrightarrow> t \<noteq> [] \<and> py_strip t = t"
proof -
  assume t: "t \<in> set (parse_member_ids f)"
  let ?s = "map (\<lambda>ch. if ch = CHR '','' then CHR '' '' else ch) (form_get f ''scope_value'')"
  have p: "list_all (\<lambda>p. p \<noteq> [] \<and> list_all (\<lambda>c. \<not> is_space c) p) (py_split_ws ?s)"
    unfolding py_split_ws_def by (rule split_ws_aux_pieces) simp
  have "t \<in> py_strip ` set (py_split_ws ?s)" "t \<noteq> []"
    using t unfolding parse_member_ids_def by (auto simp: add_new_tokens)
  then obtain w where w: "w \<in> set (py_split_ws ?s)" "t = py_strip w" by blast
  then have "py_strip w = w" using p py_strip_id by (auto simp: list_all_iff)
  then show ?thesis using w \<open>t \<noteq> []\<close> by simp
qed

lemma list_scope_round_trip: "list_scope_ids (json_dumps_strs (parse_member_ids f)) = parse_member_ids f"
proof -
  have s: "py_str (PStr i) = i" for i by simp
  have "map py_strip ids = ids" "filter (\<lambda>i. i \<noteq> []) ids = ids" if "\<forall>t \<in> set ids. t \<noteq> [] \<and> py_strip t = t" for ids
    using that by (induction ids) auto
  then show ?thesis
    using parse_member_ids_pieces [of _ f]
    by (simp add: list_scope_ids_def json_loads_dumps comp_def s)
qed

lemma norm_comps_plain:
  "''..'' \<notin> set cs \<Longrightarrow> ''..'' \<notin> set acc
   \<Longrightarrow> norm_comps False acc cs = rev acc @ filter (\<lambda>c. c \<noteq> [] \<and> c \<noteq> ''.'') cs"
proof (induction cs arbitrary: acc)
  case (Cons c cs)
  have "c \<noteq> ''..''" and rest: "''..'' \<notin> set cs" using Cons.prems(1) by auto
  then show ?case
  proof (cases "c = [] \<or> c = ''.''")
    case True
    then show ?thesis using Cons.IH [OF rest Cons.prems(2)] by auto
  next
    case False
    then have "''..'' \<notin> set (c # acc)" using \<open>c \<noteq> ''..''\<close> Cons.prems(2) by auto
    from Cons.IH [OF rest this] show ?thesis using False \<open>c \<noteq> ''..''\<close> by simp
  qed
qed simp

lemma normpath_relative:
  assumes "p \<noteq> []" and "\<not> starts_with ''/'' p" and "''..'' \<notin> set (py_split CHR ''/'' p)"
  shows "normpath p = ''.'' \<or> (\<forall>c \<in> set (py_split CHR ''/'' (normpath p)). c \<noteq> [] \<and> c \<noteq> ''.'' \<and> c \<noteq> ''..'')"
proof -
  let ?cs = "filter (\<lambda>c. c \<noteq> [] \<and> c \<noteq> ''.'') (py_split CHR ''/'' p)"
  have sl: "\<not> starts_with ''///'' p" "\<not> starts_with ''//'' p"
    using assms(2) by (auto simp: starts_with_iff)
  have n: "normpath p = (if py_join ''/'' ?cs = [] then ''.'' else py_join ''/'' ?cs)"
    using assms(1,2) sl norm_comps_plain [OF assms(3), of "[]"] by (simp add: normpath_def)
  show ?thesis
  proof (cases "?cs = []")
    case True
    then show ?thesis unfolding n True by simp
  next
    case False
    have "CHR ''/'' \<notin> set c" if "c \<in> set ?cs" for c using that py_split_pieces by force
    then have j: "py_split CHR ''/'' (py_join ''/'' ?cs) = ?cs" using py_split_join [OF False] by blast
    have "py_join ''/'' ?cs \<noteq> []"
    proof
      assume "py_join ''/'' ?cs = []"
      then have "?cs = [[]]" using j by simp
      then have "[] \<in> set ?cs" by simp
      then show False by simp
    qed
    then have "normpath p = py_join ''/'' ?cs" using n by simp
    then show ?thesis using j assms(3) by simp blast
  qed
qed

lemmas validate_defs = validate_grant_scope_def Let_def

lemma accepted_role:
  assumes "validate_grant_scope db role kind f = Inr (Inr v)"
  shows "ROLE_PERMS role \<noteq> None"
  using assms unfolding validate_defs by (cases "ROLE_PERMS role") simp_all

lemma accepted_off_fleet:
  assumes "validate_grant_scope db role kind f = Inr (Inr v)" and "kind \<noteq> ''fleet''"
  shows "role \<notin> FLEET_ONLY_ROLES"
  using assms accepted_role [OF assms(1)] unfolding validate_defs
  by (cases "role \<in> FLEET_ONLY_ROLES") simp_all

lemma accepted_file_role:
  assumes "validate_grant_scope db role kind f = Inr (Inr v)" and "kind \<noteq> ''fleet''"
    and "role \<in> set [''file-reader'', ''file-editor'']"
  shows "kind = ''prefix''"
proof (rule ccontr)
  assume k: "kind \<noteq> ''prefix''"
  show False
    using assms(1) accepted_role [OF assms(1)] accepted_off_fleet [OF assms(1,2)] unfolding validate_defs
    by (simp only: assms(2,3) k if_False if_True not_True_eq_False sum.distinct sum.inject simp_thms)
qed

lemma accepted_plain_role:
  assumes "validate_grant_scope db role kind f = Inr (Inr v)" and "kind \<noteq> ''fleet''" and "kind \<noteq> ''prefix''"
  shows "role \<notin> set [''file-reader'', ''file-editor'']"
  using accepted_file_role [OF assms(1,2)] assms(3) by blast

lemma accepted_prefix:
  assumes "validate_grant_scope db role ''prefix'' f = Inr (Inr v)"
  shows "v = ''.'' \<or> (\<forall>c \<in> set (py_split CHR ''/'' v). c \<noteq> [] \<and> c \<noteq> ''.'' \<and> c \<noteq> ''..'')"
proof -
  let ?p = "strip_char CHR ''/'' (py_strip (form_get f ''scope_value''))"
  have "role \<notin> FLEET_ONLY_ROLES" by (rule accepted_off_fleet [OF assms]) simp
  then have "?p \<noteq> []" "\<not> starts_with ''/'' ?p" "''..'' \<notin> set (py_split CHR ''/'' ?p)" "v = normpath ?p"
    using assms accepted_role [OF assms] by (simp_all add: validate_defs split: if_splits)
  then show ?thesis using normpath_relative by simp
qed

lemma accepted_minion_scope:
  assumes "validate_grant_scope db role kind f = Inr (Inr v)" and "kind \<noteq> ''fleet''" and "kind \<noteq> ''prefix''"
  shows "(kind = ''group'' \<longrightarrow> (\<exists>gid grp. py_int v = Some gid \<and> minion_group_by_id db gid = Some grp))
    \<and> (kind = ''list'' \<longrightarrow> list_scope_ids v = parse_member_ids f \<and> parse_member_ids f \<noteq> [])
    \<and> (kind = ''grain'' \<longrightarrow> (\<exists>key val. key \<in> set SNAPSHOT_GRAINS \<and> val \<noteq> [] \<and> v = key @ '':'' @ val))
    \<and> kind \<in> {''group'', ''list'', ''glob'', ''grain''}"
proof -
  note v = assms(1) [unfolded validate_grant_scope_def if_not_P [OF accepted_role [OF assms(1)]]
      if_not_P [OF assms(2)] if_not_P [OF accepted_off_fleet [OF assms(1,2)]] if_not_P [OF assms(3)]
      if_not_P [OF accepted_plain_role [OF assms]]]
  consider "kind = ''group''" | "kind = ''list''" | "kind = ''glob''" | "kind = ''grain''"
    using v by (metis Inl_Inr_False Inr_inject)
  then show ?thesis
  proof cases
    case 1
    then show ?thesis using v by (simp add: Let_def split: if_splits option.splits)
  next
    case 2
    then show ?thesis using v list_scope_round_trip [of f] by (simp add: Let_def split: if_splits)
  next
    case 4
    then show ?thesis using v by (simp add: Let_def split: if_splits) blast
  qed simp
qed

text \<open>Every scope the grant dialog accepts is well formed: a fleet-only role stays on the fleet, a
  file role on the fleet or a path, a path is relative and in normal form with no \<open>..\<close>, a group
  exists, a list resolves back to the ids that were typed, and a grain names a snapshot grain.\<close>

theorem accepted_scope_wellformed:
  assumes "validate_grant_scope db role kind f = Inr (Inr v)"
  shows "ROLE_PERMS role \<noteq> None
    \<and> (role \<in> FLEET_ONLY_ROLES \<longrightarrow> kind = ''fleet'' \<and> v = ''*'')
    \<and> (role \<in> set [''file-reader'', ''file-editor''] \<longrightarrow> kind = ''fleet'' \<or> kind = ''prefix'')
    \<and> (kind = ''prefix'' \<longrightarrow> v = ''.'' \<or> (\<forall>c \<in> set (py_split CHR ''/'' v). c \<noteq> [] \<and> c \<noteq> ''.'' \<and> c \<noteq> ''..''))
    \<and> (kind = ''group'' \<longrightarrow> (\<exists>gid grp. py_int v = Some gid \<and> minion_group_by_id db gid = Some grp))
    \<and> (kind = ''list'' \<longrightarrow> list_scope_ids v = parse_member_ids f \<and> parse_member_ids f \<noteq> [])
    \<and> (kind = ''grain'' \<longrightarrow> (\<exists>key val. key \<in> set SNAPSHOT_GRAINS \<and> val \<noteq> [] \<and> v = key @ '':'' @ val))
    \<and> kind \<in> {''fleet'', ''prefix'', ''group'', ''list'', ''glob'', ''grain''}"
proof (cases "kind = ''fleet''")
  case True
  then have "v = ''*''" using assms accepted_role [OF assms] by (simp add: validate_defs)
  with True show ?thesis using accepted_role [OF assms] by simp
next
  case False
  note off = False accepted_role [OF assms] accepted_off_fleet [OF assms False]
  show ?thesis
  proof (cases "kind = ''prefix''")
    case True
    then show ?thesis using off accepted_prefix [of db role f v] assms by simp
  next
    case np: False
    show ?thesis
      using off accepted_minion_scope [OF assms False np] accepted_plain_role [OF assms False np] np
      by (simp del: list.set)
  qed
qed

theorem accepted_scope_wellformed_witness:
  "list_scope_ids ''[\"web-01\", \"web-02\"]'' = [''web-01'', ''web-02'']"
proof -
  define f :: form where "f = (\<lambda>_. [''web-01, web-02''])"
  have "validate_grant_scope demo_store ''team-viewer'' ''list'' f = Inr (Inr ''[\"web-01\", \"web-02\"]'')"
    unfolding f_def by code_simp
  moreover have "parse_member_ids f = [''web-01'', ''web-02'']" unfolding f_def by code_simp
  ultimately show ?thesis using accepted_scope_wellformed by metis
qed

section \<open>The ladder dropdown\<close>

definition ladder_grant_of :: "int \<Rightarrow> grant \<Rightarrow> bool" where
  "ladder_grant_of uid g \<longleftrightarrow> g_subject_kind g = ''user'' \<and> g_subject_user_id g = Some uid
     \<and> g_scope_kind g = ''fleet'' \<and> g_role g \<in> set [''viewer'', ''operator'', ''admin'']"

lemma drop_ladder_rows: "grants (drop_ladder_grants uid db) = filter (\<lambda>g. \<not> ladder_grant_of uid g) (grants db)"
  by (simp add: drop_ladder_grants_def delete_rows_def ladder_grant_of_def)

lemma drop_ladder_users [simp]: "users (drop_ladder_grants uid db) = users db"
  by (simp add: drop_ladder_grants_def)

lemma drop_ladder_fresh:
  assumes "role \<in> set [''viewer'', ''operator'', ''admin'']"
  shows "\<not> has_fleet_grant (drop_ladder_grants uid db) uid role"
  using assms by (auto simp: has_fleet_grant_iff drop_ladder_rows ladder_grant_of_def)

text \<open>The ladder dropdown never fails in scoped mode and replaces exactly the ladder: afterwards the
  user has one fleet ladder grant, of the chosen role, every other grant row is untouched, and a
  request for an unknown user, an unknown role or a self-demotion changes nothing.\<close>

theorem set_role_replaces_ladder:
  assumes "wf_store (c_db c)" and "rbac_mode e (c_db c) = ''scoped''"
  shows "(case user_by_id (c_db c) uid of
       None \<Rightarrow> c_db (snd (set_role_body e cu uid f c)) = c_db c
     | Some u \<Rightarrow>
         if form_get f ''role'' \<notin> set [''viewer'', ''operator'', ''admin'']
           \<or> (u_id u = u_id cu \<and> form_get f ''role'' \<noteq> ''admin'')
         then c_db (snd (set_role_body e cu uid f c)) = c_db c
         else (let gs = grants (c_db (snd (set_role_body e cu uid f c)))
               in map g_role (filter (ladder_grant_of uid) gs) = [form_get f ''role'']
                  \<and> filter (\<lambda>g. \<not> ladder_grant_of uid g) gs
                    = filter (\<lambda>g. \<not> ladder_grant_of uid g) (grants (c_db c))))
     \<and> fst (set_role_body e cu uid f c) = Redirect users_index"
proof (cases "user_by_id (c_db c) uid")
  case None
  then show ?thesis by (simp add: set_role_body_def Let_def)
next
  case (Some u)
  have u: "u_id u = uid" "u \<in> set (users (c_db c))" using user_by_id_Some [OF Some] by simp_all
  have lv: "set (map fst LEVELS) = set [''viewer'', ''operator'', ''admin'']" by code_simp
  let ?r = "form_get f ''role''"
  show ?thesis
  proof (cases "?r \<notin> set [''viewer'', ''operator'', ''admin''] \<or> (u_id u = u_id cu \<and> ?r \<noteq> ''admin'')")
    case True
    then show ?thesis
      by (cases "?r \<in> set [''viewer'', ''operator'', ''admin'']")
        (simp_all only: set_role_body_def Let_def Some option.case lv if_True if_False simp_thms
          flash_redirect_simps)
  next
    case False
    then have r: "?r \<in> set [''viewer'', ''operator'', ''admin'']" "\<not> (u_id u = u_id cu \<and> ?r \<noteq> ''admin'')" by blast+
    let ?db = "drop_ladder_grants uid (c_db c)"
    obtain db1 where db1: "add_grant (user_grant uid ?r ''fleet'' ''*'' ''manual'' (Some (u_id cu))) ?db = Inr db1"
    proof (rule backfill_grant_total [OF wf_drop_ladder [OF assms(1)] _ drop_ladder_fresh [OF r(1)]])
      show "uid \<in> u_id ` set (users ?db)" using u by auto
    qed
    obtain g' where g': "grants db1 = grants ?db @ [g']" "ladder_grant_of uid g'" "g_role g' = ?r"
      using add_grant_rows [OF db1] r(1) by (auto simp: ladder_grant_of_def)
    have gs: "grants (c_db (snd (set_role_body e cu uid f c))) = grants db1
        \<and> fst (set_role_body e cu uid f c) = Redirect users_index"
      unfolding set_role_body_def Let_def Some option.case lv if_not_P [OF r(2)] u(1)
        if_not_P [of "?r \<notin> set [''viewer'', ''operator'', ''admin'']", OF notI [OF notE [OF _ r(1)]]]
      using db1 assms(2) r by (auto simp: log_grant_def u(1))
    have "filter (ladder_grant_of uid) (grants ?db) = []"
      by (simp add: drop_ladder_rows filter_empty_conv)
    moreover have "filter (\<lambda>g. \<not> ladder_grant_of uid g) (grants ?db) = filter (\<lambda>g. \<not> ladder_grant_of uid g) (grants (c_db c))"
      by (simp add: drop_ladder_rows)
    ultimately show ?thesis
      using gs g' False unfolding Some option.case by (simp only: if_False Let_def filter_append) simp
  qed
qed

definition role_form :: "string \<Rightarrow> form" where
  "role_form r k = (if k = ''role'' then [r] else [])"

theorem set_role_replaces_ladder_witness:
  "map g_role (filter (ladder_grant_of 1) (grants (c_db (snd
     (set_role_body demo_env carol 1 (role_form ''operator'') (start demo_store)))))) = [''operator'']"
proof -
  have wf: "wf_store (c_db (start demo_store))" and sc: "rbac_mode demo_env (c_db (start demo_store)) = ''scoped''"
    using demo_wf demo_scoped by (simp_all add: start_def)
  have h: "user_by_id (c_db (start demo_store)) 1 = Some root"
    "form_get (role_form ''operator'') ''role'' = ''operator''" "u_id root \<noteq> u_id carol" by code_simp+
  from set_role_replaces_ladder [OF wf sc, where uid = 1 and cu = carol and f = "role_form ''operator''"] show ?thesis
    unfolding h(1,2) option.case Let_def using h(3) by simp
qed

section \<open>Tokens\<close>

text \<open>A token's secret is stored only hashed: two mints that differ in the secret alone, and whose raw
  tokens hash alike, leave the same database, audit trail included.\<close>

theorem token_secret_only_hashed:
  assumes "hash (prefix @ ''_'' @ secret) = hash (prefix @ ''_'' @ secret')"
  shows "c_db (snd (create_token first hash prefix secret now e cu uid f c))
    = c_db (snd (create_token first hash prefix secret' now e cu uid f c))"
proof -
  have "c_db (snd (create_token_body hash prefix secret now cu uid f c'))
      = c_db (snd (create_token_body hash prefix secret' now cu uid f c'))" for c'
    unfolding create_token_body_def Let_def assms
    by (cases "user_by_id (c_db c') uid"; cases "posted_pin (c_db c') f"; cases "posted_expiry now f") simp_all
  then show ?thesis
    by (simp add: create_token_def roles_required_def require_scoped_def require_def Let_def)
qed

theorem token_secret_only_hashed_witness:
  "c_db (snd (create_token (\<lambda>_. ''user.admin'') (\<lambda>_. ''h'') ''abc'' ''s1'' 0 demo_env root 5 (\<lambda>_. []) (start demo_store)))
   = c_db (snd (create_token (\<lambda>_. ''user.admin'') (\<lambda>_. ''h'') ''abc'' ''s2'' 0 demo_env root 5 (\<lambda>_. []) (start demo_store)))"
  by (rule token_secret_only_hashed) simp

end
