(* ===== verification/Settings.thy ===== *)
theory Settings
  imports UserFacts
begin

text \<open>
  The settings that steer authorization, \<open>overstate_ui/settings.py\<close>: reading a setting with its
  environment fallback, the RBAC mode control with its rebuild of the provider mappings and of
  every role cache, and the provider-mapping editor.
\<close>

definition OIDC_ENV_FALLBACK :: "(string \<times> string) list" where
  "OIDC_ENV_FALLBACK =
     [(''oidc_issuer'', ''OIDC_ISSUER''), (''oidc_client_id'', ''OIDC_CLIENT_ID''),
      (''oidc_client_secret'', ''OIDC_CLIENT_SECRET''), (''oidc_groups_claim'', ''OIDC_GROUPS_CLAIM''),
      (''oidc_admin_groups'', ''OIDC_ADMIN_GROUPS''),
      (''oidc_operator_groups'', ''OIDC_OPERATOR_GROUPS'')]"

text \<open>The defaults of \<open>DEFS\<close>.\<close>

definition DEF_DEFAULTS :: "(string \<times> string) list" where
  "DEF_DEFAULTS =
     [(''master_ips'', []), (''file_sync_cron'', ''0 * * * *''), (''oidc_issuer'', []),
      (''oidc_client_id'', []), (''oidc_client_secret'', []), (''oidc_groups_claim'', []),
      (''oidc_admin_groups'', []), (''oidc_operator_groups'', []), (''default_target'', ''*''),
      (''page_size'', ''50''), (''file_ignore_patterns'', [])]"

definition get_setting :: "env \<Rightarrow> store \<Rightarrow> string \<Rightarrow> string" where
  "get_setting e db key =
     (case setting_row db key of
        Some v \<Rightarrow> v
      | None \<Rightarrow>
          (case map_of OIDC_ENV_FALLBACK key of
             Some name \<Rightarrow> or_empty (app_config e name)
           | None \<Rightarrow> or_empty (map_of DEF_DEFAULTS key)))"

definition set_setting :: "string \<Rightarrow> string \<Rightarrow> store \<Rightarrow> store" where
  "set_setting = put_setting"

section \<open>The RBAC mode control\<close>

definition store_flag :: "string \<Rightarrow> string \<Rightarrow> store \<Rightarrow> store" where
  "store_flag = put_setting"

definition insert_mapping :: "string \<Rightarrow> string \<Rightarrow> string \<Rightarrow> string \<Rightarrow> string \<Rightarrow> store \<Rightarrow> store" where
  "insert_mapping grp role kind v origin db =
     bump ''idp_role_mappings'' (db\<lparr>idp_role_mappings := idp_role_mappings db @
       [\<lparr>irm_id = seq db ''idp_role_mappings'', irm_idp_group = grp, irm_role = role,
         irm_scope_kind = kind, irm_scope_value = v, irm_origin = origin\<rparr>]\<rparr>)"

definition mapping_present :: "store \<Rightarrow> string \<Rightarrow> string \<Rightarrow> string \<Rightarrow> string \<Rightarrow> bool" where
  "mapping_present db grp role kind v =
     list_ex (\<lambda>m. (irm_idp_group m, irm_role m, irm_scope_kind m, irm_scope_value m) = (grp, role, kind, v))
       (idp_role_mappings db)"

definition rebuild_role :: "string \<Rightarrow> string list \<Rightarrow> store \<Rightarrow> store" where
  "rebuild_role role names db =
     fold (\<lambda>name d. if mapping_present d name role ''fleet'' ''*'' then d
             else insert_mapping name role ''fleet'' ''*'' ''backfill'' d) names db"

definition sorted_groups :: "string \<Rightarrow> string list" where
  "sorted_groups raw = sorted_list_of_set (set (split_group_setting raw))"

text \<open>The mappings of origin \<open>backfill\<close> are dropped and rebuilt from the group lists.\<close>

definition rebuild_mappings :: "env \<Rightarrow> store \<Rightarrow> store" where
  "rebuild_mappings e db =
     rebuild_role ''operator'' (sorted_groups (get_setting e db ''oidc_operator_groups''))
       (rebuild_role ''admin'' (sorted_groups (get_setting e db ''oidc_admin_groups''))
         (db\<lparr>idp_role_mappings := delete_rows (\<lambda>m. irm_origin m = ''backfill'') (idp_role_mappings db)\<rparr>))"

definition save_rbac_control :: "env \<Rightarrow> form \<Rightarrow> ctx \<Rightarrow> ctx" where
  "save_rbac_control e f c =
     (let mode = py_strip (form_get f ''rbac_mode''); fallback = py_strip (form_get f ''rbac_role_fallback'');
          before = rbac_mode e (c_db c);
          valid = (mode = ''legacy'' \<or> mode = ''scoped'');
          c1 = (if valid then on_db (store_flag ''rbac_mode'' mode) c else c);
          entering = (valid \<and> mode = ''scoped'' \<and> before \<noteq> ''scoped'');
          c2 = (if fallback = ''on'' \<or> fallback = ''off''
                then on_db (store_flag ''rbac_role_fallback'' fallback) c1 else c1)
      in if entering
         then refresh_members (map u_id (users (c_db c2))) (on_db (rebuild_mappings e) c2)
         else c2)"

section \<open>Provider mappings\<close>

definition settings_access :: string where "settings_access = ''settings.access''"

definition require_grant_admin :: "env \<Rightarrow> user \<Rightarrow> view \<Rightarrow> view" where
  "require_grant_admin e cu k c =
     (if rbac_mode e (c_db c) = ''scoped'' \<and> \<not> has_fleet e (c_memo c) (c_db c) cu ''grant.admin''
      then (Abort 403, on_db (audit_deny cu ''grant.admin'' None ''no-grant'' None) c)
      else k c)"

definition users_in_idp_group :: "store \<Rightarrow> string \<Rightarrow> int list" where
  "users_in_idp_group db grp =
     (let ids = map uig_user_id (filter (\<lambda>r. uig_group_name r = grp) (user_idp_groups db))
      in map u_id (filter (\<lambda>u. u_id u \<in> set ids) (users db)))"

definition create_idp_mapping_body :: "user \<Rightarrow> form \<Rightarrow> view" where
  "create_idp_mapping_body cu f c =
     (let grp = py_strip (form_get f ''idp_group''); role = py_strip (form_get f ''role'');
          scope_kind = py_strip (form_get f ''scope_kind'')
      in if grp = [] then flash_redirect settings_access ''Group name is required.'' ''error'' c
         else
           (case validate_grant_scope (c_db c) role scope_kind f of
              Inl er \<Rightarrow> (Fail er, c)
            | Inr (Inl msg) \<Rightarrow> flash_redirect settings_access msg ''error'' c
            | Inr (Inr v) \<Rightarrow>
                if mapping_present (c_db c) grp role scope_kind v
                then flash_redirect settings_access ''That mapping already exists.'' ''error'' c
                else
                  (let c1 = on_db (insert_mapping grp role scope_kind v ''manual'') c;
                       c2 = refresh_members (users_in_idp_group (c_db c1) grp) c1
                   in flash_redirect settings_access (''Mapped IdP group '' @ quoted grp @ ''.'') ''success''
                        (on_db (log_event (u_username cu) ''mapping-create'' None None (Some ''grant.admin'') None
                           (Some (grp @ '' '' @ role @ '' '' @ scope_kind @ '' '' @ v))) c2))))"

definition create_idp_mapping :: "(string set \<Rightarrow> string) \<Rightarrow> env \<Rightarrow> user \<Rightarrow> form \<Rightarrow> view" where
  "create_idp_mapping first e cu f = roles_required first e cu [''admin'']
     (require_grant_admin e cu (create_idp_mapping_body cu f))"

definition delete_idp_mapping_body :: "user \<Rightarrow> int \<Rightarrow> view" where
  "delete_idp_mapping_body cu mid c =
     (case find_row irm_id mid (idp_role_mappings (c_db c)) of
        None \<Rightarrow> flash_redirect settings_access ''Unknown mapping.'' ''error'' c
      | Some m \<Rightarrow>
          (let detail = irm_idp_group m @ '' '' @ irm_role m @ '' '' @ irm_scope_kind m @ '' '' @ irm_scope_value m;
               affected = users_in_idp_group (c_db c) (irm_idp_group m);
               c1 = refresh_members affected (on_db (\<lambda>db. db\<lparr>idp_role_mappings :=
                      delete_rows (\<lambda>r. irm_id r = mid) (idp_role_mappings db)\<rparr>) c)
           in flash_redirect settings_access ''Mapping deleted.'' ''success''
                (on_db (log_event (u_username cu) ''mapping-delete'' None None (Some ''grant.admin'') None
                   (Some detail)) c1)))"

definition delete_idp_mapping :: "(string set \<Rightarrow> string) \<Rightarrow> env \<Rightarrow> user \<Rightarrow> int \<Rightarrow> view" where
  "delete_idp_mapping first e cu mid = roles_required first e cu [''admin'']
     (require_grant_admin e cu (delete_idp_mapping_body cu mid))"

section \<open>Facts\<close>

lemma put_setting_row: "setting_row (put_setting k v db) k' = (if k' = k then Some v else setting_row db k')"
  by (simp add: setting_row_def put_setting_def map_of_assoc_set)

lemma put_setting_tables [simp]:
  "users (put_setting k v db) = users db" "grants (put_setting k v db) = grants db"
  "local_groups (put_setting k v db) = local_groups db"
  "local_group_members (put_setting k v db) = local_group_members db"
  "user_idp_groups (put_setting k v db) = user_idp_groups db"
  "idp_role_mappings (put_setting k v db) = idp_role_mappings db"
  "minions (put_setting k v db) = minions db" "minion_groups (put_setting k v db) = minion_groups db"
  "seq (put_setting k v db) = seq db"
  by (simp_all add: put_setting_def)

lemma insert_mapping_tables [simp]:
  "users (insert_mapping g r k v og db) = users db" "grants (insert_mapping g r k v og db) = grants db"
  "local_group_members (insert_mapping g r k v og db) = local_group_members db"
  "user_idp_groups (insert_mapping g r k v og db) = user_idp_groups db"
  "settings (insert_mapping g r k v og db) = settings db"
  by (simp_all add: insert_mapping_def bump_def)

lemma rebuild_role_tables [simp]:
  "users (rebuild_role r ns db) = users db" "grants (rebuild_role r ns db) = grants db"
  "local_group_members (rebuild_role r ns db) = local_group_members db"
  "user_idp_groups (rebuild_role r ns db) = user_idp_groups db"
  "settings (rebuild_role r ns db) = settings db"
  by (induction ns arbitrary: db) (simp_all add: rebuild_role_def)

lemma rebuild_mappings_tables [simp]:
  "users (rebuild_mappings e db) = users db" "grants (rebuild_mappings e db) = grants db"
  "local_group_members (rebuild_mappings e db) = local_group_members db"
  "user_idp_groups (rebuild_mappings e db) = user_idp_groups db"
  "settings (rebuild_mappings e db) = settings db"
  by (simp_all add: rebuild_mappings_def)

lemma refresh_members_settings [simp]: "settings (c_db (refresh_members is c)) = settings (c_db c)"
proof (induction "is" arbitrary: c)
  case (Cons i "is")
  then show ?case by (simp add: refresh_member_def split: option.split)
qed simp

text \<open>A role is rebuilt: the mappings kept, plus the listed groups.\<close>

lemma mapping_present_insert:
  "mapping_present (insert_mapping g r k v og db) g' r' k' v'
     \<longleftrightarrow> mapping_present db g' r' k' v' \<or> (g', r', k', v') = (g, r, k, v)"
  by (auto simp: mapping_present_def insert_mapping_def bump_def)

lemma rebuild_role_present:
  "mapping_present (rebuild_role role ns db) g r k v
     \<longleftrightarrow> mapping_present db g r k v \<or> (g \<in> set ns \<and> r = role \<and> k = ''fleet'' \<and> v = ''*'')"
proof (induction ns arbitrary: db)
  case (Cons n ns)
  have step: "rebuild_role role (n # ns) db
      = rebuild_role role ns (if mapping_present db n role ''fleet'' ''*'' then db
          else insert_mapping n role ''fleet'' ''*'' ''backfill'' db)"
    by (simp add: rebuild_role_def)
  show ?case unfolding step Cons.IH by (auto simp: mapping_present_insert)
qed (simp add: rebuild_role_def)

lemma set_sorted_groups [simp]: "set (sorted_groups raw) = set (split_group_setting raw)"
  by (simp add: sorted_groups_def)

text \<open>After a refresh of every user in a fresh request, each column is the rank of its entries.\<close>

lemma refresh_members_fresh:
  assumes "distinct is" and "j \<in> set is" and "c_memo c = (\<lambda>_. None)" and "user_by_id (c_db c) j = Some u"
  shows "user_by_id (c_db (refresh_members is c)) j
    = Some (u\<lparr>u_role := cached_role (queried_entries (c_db c) j)\<rparr>)"
  using assms
proof (induction "is" arbitrary: c)
  case (Cons i "is")
  have memo: "c_memo (refresh_member i c) = (\<lambda>_. None)"
    using Cons.prems(3) by (auto simp: refresh_member_memo)
  show ?case
  proof (cases "i = j")
    case True
    have "grant_entries (c_memo c) (c_db c) u = queried_entries (c_db c) j"
      using Cons.prems(3) user_by_id_Some [OF Cons.prems(4)] by simp
    with True Cons.prems show ?thesis by (simp add: refresh_members_other refresh_member_user)
  next
    case False
    with Cons.prems Cons.IH [OF _ _ memo] show ?thesis by (simp add: refresh_member_user)
  qed
qed simp

end
