(* ===== verification/SettingsProps.thy ===== *)
theory SettingsProps
  imports Settings Demo
begin

text \<open>
  The properties of the RBAC mode control: what entering scoped mode writes, and which accounts it
  strips of their role.
\<close>

lemma set_filter_delete: "list_ex P (delete_rows Q rs) \<longleftrightarrow> (\<exists>r \<in> set rs. \<not> Q r \<and> P r)"
  by (auto simp: list_ex_iff)

lemma rebuild_mappings_present:
  "mapping_present (rebuild_mappings e db) g r k v \<longleftrightarrow>
     (\<exists>m \<in> set (idp_role_mappings db). irm_origin m \<noteq> ''backfill''
        \<and> (irm_idp_group m, irm_role m, irm_scope_kind m, irm_scope_value m) = (g, r, k, v))
     \<or> (k = ''fleet'' \<and> v = ''*''
        \<and> ((r = ''admin'' \<and> g \<in> set (split_group_setting (get_setting e db ''oidc_admin_groups'')))
           \<or> (r = ''operator'' \<and> g \<in> set (split_group_setting (get_setting e db ''oidc_operator_groups'')))))"
  unfolding rebuild_mappings_def rebuild_role_present set_sorted_groups mapping_present_def [of "_\<lparr>idp_role_mappings := _\<rparr>"]
  by (auto simp: set_filter_delete)

text \<open>What the control leaves when it enters scoped mode: the flags, the rebuilt mappings, and the
  refreshed columns.\<close>

lemma entering_result:
  assumes "rbac_mode e (c_db c) \<noteq> ''scoped''" and "py_strip (form_get f ''rbac_mode'') = ''scoped''"
  obtains db2 where "save_rbac_control e f c
      = refresh_members (map u_id (users db2)) (on_db (rebuild_mappings e) (c\<lparr>c_db := db2\<rparr>))"
    and "users db2 = users (c_db c)" and "grants db2 = grants (c_db c)"
    and "local_group_members db2 = local_group_members (c_db c)"
    and "user_idp_groups db2 = user_idp_groups (c_db c)"
    and "idp_role_mappings db2 = idp_role_mappings (c_db c)"
    and "setting_row db2 ''rbac_mode'' = Some ''scoped''"
    and "\<forall>k. k \<noteq> ''rbac_mode'' \<longrightarrow> k \<noteq> ''rbac_role_fallback'' \<longrightarrow> setting_row db2 k = setting_row (c_db c) k"
proof -
  let ?fb = "py_strip (form_get f ''rbac_role_fallback'')"
  define d where "d = put_setting ''rbac_mode'' ''scoped'' (c_db c)"
  define db2 where "db2 = (if ?fb = ''on'' \<or> ?fb = ''off'' then put_setting ''rbac_role_fallback'' ?fb d else d)"
  have "save_rbac_control e f c
      = refresh_members (map u_id (users db2)) (on_db (rebuild_mappings e) (c\<lparr>c_db := db2\<rparr>))"
    using assms by (simp add: save_rbac_control_def Let_def store_flag_def db2_def d_def on_db_def)
  then show thesis
    by (rule that) (simp_all add: db2_def d_def put_setting_row)
qed

lemma map_ids_distinct: "wf_store db \<Longrightarrow> distinct (map u_id (users db))"
  by (simp add: wf_store_iff wf_keys_def)

lemma mode_of_row: "setting_row db ''rbac_mode'' = Some ''scoped'' \<Longrightarrow> rbac_mode e db = ''scoped''"
proof -
  have "py_strip ''scoped'' = ''scoped''" by code_simp
  then show "setting_row db ''rbac_mode'' = Some ''scoped'' \<Longrightarrow> rbac_mode e db = ''scoped''"
    by (simp add: rbac_mode_def rbac_flag_def ENFORCEMENT_COMPLETE_def or_empty_def Let_def)
qed

text \<open>Entering scoped mode rebuilds the provider mappings and every role column: the mode is scoped
  afterwards; a mapping is present exactly when it was a manual row or its group is listed in the
  admin or operator setting; no grant changes; and each user's role column is the rank of its
  entries on the rebuilt tables.\<close>

theorem entering_scoped_rebuilds:
  assumes "wf_store (c_db c)" and "c_memo c = (\<lambda>_. None)"
    and "rbac_mode e (c_db c) \<noteq> ''scoped''" and "py_strip (form_get f ''rbac_mode'') = ''scoped''"
    and "user_by_id (c_db c) uid = Some u"
  defines "db' \<equiv> c_db (save_rbac_control e f c)"
  shows "rbac_mode e db' = ''scoped''
    \<and> grants db' = grants (c_db c)
    \<and> user_by_id db' uid = Some (u\<lparr>u_role := cached_role (queried_entries db' uid)\<rparr>)
    \<and> (mapping_present db' g r k v \<longleftrightarrow>
        (\<exists>m \<in> set (idp_role_mappings (c_db c)). irm_origin m \<noteq> ''backfill''
           \<and> (irm_idp_group m, irm_role m, irm_scope_kind m, irm_scope_value m) = (g, r, k, v))
        \<or> (k = ''fleet'' \<and> v = ''*''
           \<and> ((r = ''admin'' \<and> g \<in> set (split_group_setting (get_setting e (c_db c) ''oidc_admin_groups'')))
              \<or> (r = ''operator'' \<and> g \<in> set (split_group_setting (get_setting e (c_db c) ''oidc_operator_groups''))))))"
proof -
  obtain db2 where s: "save_rbac_control e f c
      = refresh_members (map u_id (users db2)) (on_db (rebuild_mappings e) (c\<lparr>c_db := db2\<rparr>))"
    and rows: "users db2 = users (c_db c)" "grants db2 = grants (c_db c)"
    "idp_role_mappings db2 = idp_role_mappings (c_db c)" "setting_row db2 ''rbac_mode'' = Some ''scoped''"
    and other: "\<forall>k. k \<noteq> ''rbac_mode'' \<longrightarrow> k \<noteq> ''rbac_role_fallback'' \<longrightarrow> setting_row db2 k = setting_row (c_db c) k"
    using entering_result [OF assms(3,4)] by metis
  have db': "settings db' = settings db2" "grants db' = grants (c_db c)"
    "idp_role_mappings db' = idp_role_mappings (rebuild_mappings e db2)"
    "queried_entries db' j = queried_entries (rebuild_mappings e db2) j" for j
    by (simp_all add: db'_def s rows)
  have mode: "rbac_mode e db' = ''scoped''"
    using rows(4) by (intro mode_of_row) (simp add: setting_row_def db')
  have "user_by_id (rebuild_mappings e db2) uid = Some u"
    using assms(5) rows(1) by (simp add: user_by_id_def)
  moreover have "uid \<in> set (map u_id (users db2))"
    using user_by_id_Some [OF assms(5)] rows(1) by auto
  moreover have "distinct (map u_id (users db2))" using map_ids_distinct [OF assms(1)] rows(1) by simp
  ultimately have "user_by_id db' uid = Some (u\<lparr>u_role := cached_role (queried_entries db' uid)\<rparr>)"
    unfolding db'(4) unfolding db'_def s
    using refresh_members_fresh [of "map u_id (users db2)" uid "on_db (rebuild_mappings e) (c\<lparr>c_db := db2\<rparr>)" u]
      assms(2) by simp
  moreover have "get_setting e db2 ''oidc_admin_groups'' = get_setting e (c_db c) ''oidc_admin_groups''"
    "get_setting e db2 ''oidc_operator_groups'' = get_setting e (c_db c) ''oidc_operator_groups''"
    using other by (simp_all add: get_setting_def)
  moreover have "mapping_present db' g r k v = mapping_present (rebuild_mappings e db2) g r k v"
    by (simp add: mapping_present_def db')
  ultimately show ?thesis using mode db'(2) rebuild_mappings_present [of e db2] rows(3) by simp
qed

definition scoped_form :: form where
  "scoped_form k = (if k = ''rbac_mode'' then [''scoped''] else [])"

definition legacy_demo :: store where
  "legacy_demo = put_setting ''rbac_mode'' ''legacy'' demo_store"

lemma legacy_demo_facts:
  "wf_store (c_db (start legacy_demo))" "c_memo (start legacy_demo) = (\<lambda>_. None)"
  "rbac_mode demo_env (c_db (start legacy_demo)) \<noteq> ''scoped''"
  "py_strip (form_get scoped_form ''rbac_mode'') = ''scoped''"
proof -
  show "wf_store (c_db (start legacy_demo))"
    using demo_wf by (auto simp: start_def legacy_demo_def intro: wf_store_cong [of _ demo_store])
  show "c_memo (start legacy_demo) = (\<lambda>_. None)" by (simp add: start_def)
  show "rbac_mode demo_env (c_db (start legacy_demo)) \<noteq> ''scoped''" by code_simp
  show "py_strip (form_get scoped_form ''rbac_mode'') = ''scoped''" by code_simp
qed

theorem entering_scoped_rebuilds_witness:
  "user_by_id (c_db (save_rbac_control demo_env scoped_form (start legacy_demo))) 1
     = Some (root\<lparr>u_role := cached_role (queried_entries
          (c_db (save_rbac_control demo_env scoped_form (start legacy_demo))) 1)\<rparr>)"
proof -
  have "user_by_id (c_db (start legacy_demo)) 1 = Some root" by code_simp
  from entering_scoped_rebuilds [OF legacy_demo_facts this] show ?thesis by blast
qed

text \<open>Entering scoped mode strips grant-less ladder accounts at once: a user no grant row and no
  provider group applies to has its role column overwritten with \<open>none\<close>, so it has no effective
  entry in scoped mode although the fallback is on, and role level 0 after a return to legacy.\<close>

theorem entering_scoped_strips_grantless:
  assumes "wf_store (c_db c)" and "c_memo c = (\<lambda>_. None)"
    and "rbac_mode e (c_db c) \<noteq> ''scoped''" and "py_strip (form_get f ''rbac_mode'') = ''scoped''"
    and "user_by_id (c_db c) uid = Some u"
    and "\<forall>g \<in> set (grants (c_db c)). \<not> grant_applies (c_db c) uid g" and "idp_names (c_db c) uid = []"
  defines "db' \<equiv> c_db (save_rbac_control e f c)"
  shows "user_by_id db' uid = Some (u\<lparr>u_role := ''none''\<rparr>)
    \<and> effective_entries e (\<lambda>_. None) db' (u\<lparr>u_role := ''none''\<rparr>) = []
    \<and> role_level ''none'' = 0"
proof -
  obtain db2 where s: "save_rbac_control e f c
      = refresh_members (map u_id (users db2)) (on_db (rebuild_mappings e) (c\<lparr>c_db := db2\<rparr>))"
    and rows: "grants db2 = grants (c_db c)" "local_group_members db2 = local_group_members (c_db c)"
    "user_idp_groups db2 = user_idp_groups (c_db c)"
    using entering_result [OF assms(3,4)] by metis
  have same: "grants db' = grants (c_db c)" "local_group_members db' = local_group_members (c_db c)"
    "user_idp_groups db' = user_idp_groups (c_db c)"
    by (simp_all add: db'_def s rows)
  have none: "set (queried_entries db' uid) = {}"
    using assms(6,7) by (simp add: set_queried_entries grant_applies_def same idp_entries_def idp_names_def)
  then have q: "queried_entries db' uid = []" by simp
  have "user_by_id db' uid = Some (u\<lparr>u_role := ''none''\<rparr>)"
    using entering_scoped_rebuilds [OF assms(1-5)] q by (simp add: db'_def cached_role_def has_ladder_def)
  moreover have "u_id u = uid" using user_by_id_Some [OF assms(5)] by simp
  ultimately show ?thesis
    using q by (simp add: effective_entries_def LADDER_ROLES_def role_level_def LEVELS_def)
qed

theorem entering_scoped_strips_grantless_witness:
  "user_by_id (c_db (save_rbac_control demo_env scoped_form (start legacy_demo))) 3
     = Some (oper\<lparr>u_role := ''none''\<rparr>) \<and> u_role oper = ''operator'' \<and> rbac_fallback_on demo_env legacy_demo"
proof -
  have u: "user_by_id (c_db (start legacy_demo)) 3 = Some oper" "idp_names (c_db (start legacy_demo)) 3 = []"
    "u_role oper = ''operator''" "rbac_fallback_on demo_env legacy_demo" by code_simp+
  have g: "\<forall>g \<in> set (grants (c_db (start legacy_demo))). \<not> grant_applies (c_db (start legacy_demo)) 3 g"
    unfolding grant_applies_def by code_simp
  from entering_scoped_strips_grantless [OF legacy_demo_facts u(1) g u(2)] u(3,4) show ?thesis by blast
qed

end
