(* ===== verification/Auth.thy ===== *)
theory Auth
  imports Settings
begin

text \<open>
  Login, \<open>overstate_ui/auth.py\<close>: the attempt budget, redirect targets, the role of a groups claim,
  provisioning of a single-sign-on user and the seeding of the first administrator. argon2, the
  identity provider and Redis are outside the program: the hash check, the claims and the shared
  counter are arguments. Times are in seconds, as \<open>time.monotonic\<close> gives them.
\<close>

section \<open>Attempt budgets\<close>

type_synonym attempts = "string \<Rightarrow> rat list"

definition RATE_LIMIT :: nat where "RATE_LIMIT = 10"
definition RATE_WINDOW :: rat where "RATE_WINDOW = 60"

definition memory_limited :: "rat \<Rightarrow> string \<Rightarrow> nat \<Rightarrow> rat \<Rightarrow> attempts \<Rightarrow> bool \<times> attempts" where
  "memory_limited now key limit window att =
     (let hits = filter (\<lambda>t. now - t < window) (att key)
      in if limit \<le> length hits then (True, att(key := hits))
         else (False, att(key := hits @ [now])))"

text \<open>
  The shared counter: \<open>incr\<close> and \<open>expire\<close> return None when Redis cannot be reached. A failed
  \<open>expire\<close> after a successful \<open>incr\<close> falls back to memory as well.
\<close>

record 'r counter =
  ctr_incr :: "string \<Rightarrow> 'r \<Rightarrow> (int \<times> 'r) option"
  ctr_expire :: "string \<Rightarrow> rat \<Rightarrow> 'r \<Rightarrow> 'r option"
  ctr_delete :: "string \<Rightarrow> 'r \<Rightarrow> 'r option"

definition attempt_key :: "string \<Rightarrow> string \<Rightarrow> string" where
  "attempt_key ip username = ip @ '':'' @ py_lower (py_strip username)"

definition rate_limited ::
  "'r counter option \<Rightarrow> rat \<Rightarrow> string \<Rightarrow> string \<Rightarrow> nat \<Rightarrow> rat \<Rightarrow> 'r \<times> attempts \<Rightarrow> bool \<times> 'r \<times> attempts" where
  "rate_limited client now ip username limit window s =
     (case s of (r, att) \<Rightarrow>
        (let key = attempt_key ip username;
             memory = (\<lambda>r'. case memory_limited now key limit window att of (v, att') \<Rightarrow> (v, r', att'))
         in case client of
              None \<Rightarrow> memory r
            | Some k \<Rightarrow>
                (case ctr_incr k (''login-attempts:'' @ key) r of
                   None \<Rightarrow> memory r
                 | Some (count, r1) \<Rightarrow>
                     if count = 1
                     then (case ctr_expire k (''login-attempts:'' @ key) window r1 of
                             None \<Rightarrow> memory r1
                           | Some r2 \<Rightarrow> (int limit < count, r2, att))
                     else (int limit < count, r1, att))))"

definition rate_reset :: "'r counter option \<Rightarrow> string \<Rightarrow> string \<Rightarrow> 'r \<times> attempts \<Rightarrow> 'r \<times> attempts" where
  "rate_reset client ip username s =
     (case s of (r, att) \<Rightarrow>
        (let key = attempt_key ip username; att' = att(key := [])
         in case client of
              None \<Rightarrow> (r, att')
            | Some k \<Rightarrow> (case ctr_delete k (''login-attempts:'' @ key) r of
                          None \<Rightarrow> (r, att') | Some r1 \<Rightarrow> (r1, att'))))"

section \<open>Redirect targets\<close>

definition safe_next :: "string option \<Rightarrow> string option" where
  "safe_next value =
     (case value of
        None \<Rightarrow> None
      | Some v \<Rightarrow>
          if v = [] \<or> \<not> starts_with ''/'' v \<or> starts_with ''//'' v then None
          else if starts_with [CHR ''/'', CHR 0x5C] v \<or> CHR 0x5C \<in> set v then None
          else Some v)"

section \<open>Groups claims\<close>

definition configured_groups :: "env \<Rightarrow> store \<Rightarrow> string \<Rightarrow> string set" where
  "configured_groups e db kind = set (split_group_setting (get_setting e db (''oidc_'' @ kind @ ''_groups'')))"

text \<open>
  The strings in \<open>set(groups or [])\<close>. A string is iterated over by character and a dict by key; a
  number is not iterable and a list or dict inside a list is not hashable, which raises.
\<close>

fun hashable :: "pyval \<Rightarrow> bool" where
  "hashable (PList _) = False"
| "hashable (PDict _) = False"
| "hashable _ = True"

definition str_items :: "pyval list \<Rightarrow> string set" where
  "str_items xs = set (concat (map (\<lambda>x. case x of PStr s \<Rightarrow> [s] | _ \<Rightarrow> []) xs))"

definition claim_set :: "pyval \<Rightarrow> string set res" where
  "claim_set v =
     (if \<not> py_truth v then Inr {}
      else
        (case v of
           PStr s \<Rightarrow> Inr (set (map (\<lambda>ch. [ch]) s))
         | PList xs \<Rightarrow> if list_all hashable xs then Inr (str_items xs) else Inl TypeErr
         | PDict kvs \<Rightarrow> Inr (set (map fst kvs))
         | _ \<Rightarrow> Inl TypeErr))"

definition role_for_groups :: "env \<Rightarrow> store \<Rightarrow> pyval \<Rightarrow> string res" where
  "role_for_groups e db groups =
     (case claim_set groups of
        Inl er \<Rightarrow> Inl er
      | Inr membership \<Rightarrow>
          if membership \<inter> configured_groups e db ''admin'' \<noteq> {} then Inr ''admin''
          else if membership \<inter> configured_groups e db ''operator'' \<noteq> {} then Inr ''operator''
          else Inr ''viewer'')"

text \<open>The membership rows a claim leaves.\<close>

definition claim_groups :: "pyval \<Rightarrow> string list" where
  "claim_groups raw =
     (case raw of
        PStr s \<Rightarrow> if s = [] then [] else [s]
      | PList xs \<Rightarrow> map py_str (filter py_truth xs)
      | _ \<Rightarrow> [])"

definition mirror_claim :: "int \<Rightarrow> pyval \<Rightarrow> store \<Rightarrow> store" where
  "mirror_claim uid raw db =
     db\<lparr>user_idp_groups := delete_rows (\<lambda>r. uig_user_id r = uid) (user_idp_groups db)
        @ map (\<lambda>n. \<lparr>uig_user_id = uid, uig_group_name = take 255 n\<rparr>) (claim_groups raw)\<rparr>"

text \<open>The primary key of the rows is the user and the stored name: a claim that repeats one fails.\<close>

definition record_claim_groups :: "int \<Rightarrow> pyval \<Rightarrow> store \<Rightarrow> store res" where
  "record_claim_groups uid raw db =
     (if distinct (map (take 255) (claim_groups raw)) then Inr (mirror_claim uid raw db) else Inl IntegrityError)"

section \<open>Provisioning\<close>

definition claim :: "string \<Rightarrow> (string \<times> pyval) list \<Rightarrow> pyval" where
  "claim k info = (case dict_get k info of None \<Rightarrow> PNone | Some v \<Rightarrow> v)"

definition first_claim :: "string list \<Rightarrow> (string \<times> pyval) list \<Rightarrow> string option" where
  "first_claim ks info = find (\<lambda>s. s \<noteq> [])
     (map (\<lambda>k. case claim k info of PStr s \<Rightarrow> s | _ \<Rightarrow> []) ks)"

definition find_oidc_user :: "store \<Rightarrow> string \<Rightarrow> string \<Rightarrow> user option" where
  "find_oidc_user db issuer sub =
     find (\<lambda>u. u_oidc_issuer u = Some issuer \<and> u_oidc_sub u = Some sub) (users db)"

definition oidc_username :: "store \<Rightarrow> string \<Rightarrow> string \<Rightarrow> string" where
  "oidc_username db base sub =
     (if user_by_name db (take 64 base) \<noteq> None then take 55 base @ ''#'' @ take 8 sub else take 64 base)"

text \<open>The user row of the claims: found by (issuer, subject), or inserted as a viewer.\<close>

definition oidc_user_row :: "string \<Rightarrow> string \<Rightarrow> string \<Rightarrow> store \<Rightarrow> (user \<times> store) res" where
  "oidc_user_row base issuer sub db =
     (case find_oidc_user db issuer sub of
        Some u \<Rightarrow> Inr (u, db)
      | None \<Rightarrow>
          (let name = oidc_username db base sub;
               u = \<lparr>u_id = seq db ''users'', u_username = name, u_password_hash = None, u_role = ''viewer'',
                     u_kind = ''human'', u_oidc_issuer = Some issuer, u_oidc_sub = Some sub,
                     u_created_at = db_now db\<rparr>
           in if user_by_name db name \<noteq> None then Inl IntegrityError
              else Inr (u, bump ''users'' (insert_user u db))))"

definition groups_claim :: "env \<Rightarrow> store \<Rightarrow> string" where
  "groups_claim e db = (let c = get_setting e db ''oidc_groups_claim'' in if c = [] then ''groups'' else c)"

text \<open>
  \<open>provision_oidc_user\<close> for claims whose subject and names are strings, as the provider's identity
  token has them: the user's id and the state after the login, or the exception.
\<close>

definition provision_oidc_user ::
  "env \<Rightarrow> (string \<times> pyval) list \<Rightarrow> string \<Rightarrow> ctx \<Rightarrow> py_error + (int \<times> ctx)" where
  "provision_oidc_user e info issuer c =
     (case first_claim [''sub''] info of
        None \<Rightarrow> Inl (ValueError ''OIDC claims carry no subject'')
      | Some sub \<Rightarrow>
          (case oidc_user_row (case first_claim [''preferred_username'', ''email''] info of
                  None \<Rightarrow> sub | Some b \<Rightarrow> b) issuer sub (c_db c) of
             Inl er \<Rightarrow> Inl er
           | Inr (u, db1) \<Rightarrow>
               (let raw = claim (groups_claim e db1) info
                in if rbac_mode e db1 = ''scoped''
                   then res_bind (record_claim_groups (u_id u) raw db1) (\<lambda>db2.
                          Inr (u_id u, refresh_role_cache u (c\<lparr>c_db := db2\<rparr>)))
                   else res_bind (role_for_groups e db1 raw) (\<lambda>r.
                          res_bind (record_claim_groups (u_id u) raw (set_user_role (u_id u) r db1)) (\<lambda>db2.
                            Inr (u_id u, c\<lparr>c_db := db2\<rparr>))))))"

section \<open>The first administrator\<close>

text \<open>
  \<open>seed_admin\<close>: True and the seeded store, False when a user exists. \<open>generated\<close> stands for
  \<open>secrets.token_urlsafe\<close>, \<open>hash\<close> for argon2.
\<close>

definition seed_admin ::
  "(string \<Rightarrow> string option) \<Rightarrow> (string \<Rightarrow> string) \<Rightarrow> string \<Rightarrow> string \<Rightarrow> string option \<Rightarrow> store
   \<Rightarrow> (bool \<times> store) res" where
  "seed_admin environ hash generated username password db =
     (if users db \<noteq> [] then Inr (False, db)
      else if password = None \<and> (environ ''OVERSTATE_ENV'' = Some ''prod'' \<or> or_empty (environ ''TLS_CERT'') \<noteq> [])
      then Inl (RuntimeErr ''refusing to invent an admin password in production: set ADMIN_PASSWORD and restart'')
      else
        (let pw = (if or_empty password \<noteq> [] then or_empty password else generated);
             u = \<lparr>u_id = seq db ''users'', u_username = username, u_password_hash = Some (hash pw),
                  u_role = ''admin'', u_kind = ''human'', u_oidc_issuer = None, u_oidc_sub = None,
                  u_created_at = db_now db\<rparr>;
             db1 = bump ''users'' (insert_user u db)
         in case add_grant (user_grant (u_id u) ''admin'' ''fleet'' ''*'' ''backfill'' None) db1 of
              Inl _ \<Rightarrow> Inr (False, db)
            | Inr db2 \<Rightarrow> Inr (True, db2)))"

section \<open>The login view\<close>

text \<open>
  A submitted login form: limited, refused, or logged in and redirected. \<open>verify\<close> is argon2's
  check of a hash against a password.
\<close>

datatype login_result =
    Limited
  | Refused
  | LoggedIn int "string option"

definition login ::
  "(string \<Rightarrow> string \<Rightarrow> bool) \<Rightarrow> 'r counter option \<Rightarrow> rat \<Rightarrow> string \<Rightarrow> string \<Rightarrow> string \<Rightarrow> string \<Rightarrow> store
   \<Rightarrow> 'r \<times> attempts \<Rightarrow> login_result \<times> 'r \<times> attempts" where
  "login verify client now ip username password next db s =
     (case rate_limited client now ip username RATE_LIMIT RATE_WINDOW s of
        (True, s1) \<Rightarrow> (Limited, s1)
      | (False, s1) \<Rightarrow>
          (case user_by_name db username of
             None \<Rightarrow> (Refused, s1)
           | Some u \<Rightarrow>
               (case u_password_hash u of
                  None \<Rightarrow> (Refused, s1)
                | Some h \<Rightarrow>
                    if verify h password
                    then (LoggedIn (u_id u) (safe_next (Some next)), rate_reset client ip username s1)
                    else (Refused, s1))))"

section \<open>The window bound\<close>

text \<open>
  A sliding-window budget: a step that accepts only while fewer than \<open>limit\<close> remembered hits lie
  in the window, and remembers exactly the accepted hits of the window. Its client's guarantee is
  the bound on accepted attempts in any window.
\<close>

locale window_budget =
  fixes limit :: nat and window :: rat
    and step :: "rat \<Rightarrow> rat list \<Rightarrow> bool \<times> rat list"
  assumes step_refuses: "fst (step now hits) \<longleftrightarrow> limit \<le> length (filter (\<lambda>t. now - t < window) hits)"
    and step_state: "snd (step now hits) = filter (\<lambda>t. now - t < window) hits
      @ (if fst (step now hits) then [] else [now])"
    and window_pos: "0 < window"
begin

fun accepted :: "rat list \<Rightarrow> rat list \<Rightarrow> rat list" where
  "accepted hits [] = []"
| "accepted hits (t # ts) =
     (if fst (step t hits) then [] else [t]) @ accepted (snd (step t hits)) ts"

definition in_window :: "rat \<Rightarrow> rat list \<Rightarrow> nat" where
  "in_window t xs = length (filter (\<lambda>x. t - window < x \<and> x \<le> t) xs)"

lemma length_filter_sub: "length (filter P (filter Q xs)) \<le> length (filter P xs)"
  by (induction xs) auto

lemma accepted_from: "\<forall>x \<in> set ts. a \<le> x \<Longrightarrow> \<forall>x \<in> set (accepted hits ts). a \<le> x"
  by (induction ts arbitrary: hits) auto

text \<open>Counting the remembered hits with what is accepted later, no window holds more than the limit.\<close>

lemma accepted_bound:
  assumes "sorted ts" and "\<forall>h \<in> set hits. \<forall>t \<in> set ts. h \<le> t"
    and "\<forall>t. in_window t hits \<le> limit"
  shows "in_window t (hits @ accepted hits ts) \<le> limit"
  using assms
proof (induction ts arbitrary: hits)
  case Nil
  then show ?case by simp
next
  case (Cons n ts)
  let ?kept = "filter (\<lambda>h. n - h < window) hits"
  let ?old = "filter (\<lambda>h. \<not> n - h < window) hits"
  let ?new = "if fst (step n hits) then [] else [n]"
  have st: "snd (step n hits) = ?kept @ ?new" by (rule step_state)
  have hn: "\<forall>h \<in> set hits. h \<le> n" and sorted: "sorted ts" and later: "\<forall>t \<in> set ts. n \<le> t"
    using Cons.prems by auto
  have bound: "in_window u (?kept @ ?new) \<le> limit" for u
  proof (cases "fst (step n hits)")
    case True
    have "in_window u ?kept \<le> in_window u hits"
      unfolding in_window_def by (rule length_filter_sub)
    then show ?thesis using True order_trans [OF _ Cons.prems(3) [rule_format, of u]] by simp
  next
    case False
    have "length ?kept < limit" using False step_refuses by auto
    moreover have "in_window u (?kept @ [n]) \<le> length (?kept @ [n])"
      unfolding in_window_def by (rule length_filter_le)
    ultimately show ?thesis using False by simp
  qed
  have rec: "in_window t ((?kept @ ?new) @ accepted (?kept @ ?new) ts) \<le> limit"
  proof (rule Cons.IH [OF sorted _ allI [OF bound]])
    show "\<forall>h \<in> set (?kept @ ?new). \<forall>t \<in> set ts. h \<le> t"
      using hn later by (auto intro: order_trans)
  qed
  have all: "hits @ accepted hits (n # ts) = hits @ ?new @ accepted (?kept @ ?new) ts"
    by (simp add: st)
  show ?case
  proof (cases "t < n")
    case True
    have "\<forall>x \<in> set (?new @ accepted (?kept @ ?new) ts). n \<le> x"
      using accepted_from [OF later] by auto
    then have "filter (\<lambda>x. t - window < x \<and> x \<le> t) (?new @ accepted (?kept @ ?new) ts) = []"
      using True unfolding filter_empty_conv by fastforce
    then have "in_window t (hits @ accepted hits (n # ts)) = in_window t hits"
      unfolding all in_window_def by (simp only: filter_append append_Nil2)
    then show ?thesis using Cons.prems(3) by simp
  next
    case False
    have "(t - window < x \<and> x \<le> t) = ((t - window < x \<and> x \<le> t) \<and> n - x < window)" for x
      using False by linarith
    then have "filter (\<lambda>x. t - window < x \<and> x \<le> t) hits = filter (\<lambda>x. t - window < x \<and> x \<le> t) ?kept"
      unfolding filter_filter by metis
    then have "in_window t (hits @ ?new @ accepted (?kept @ ?new) ts) = in_window t ((?kept @ ?new) @ accepted (?kept @ ?new) ts)"
      unfolding in_window_def filter_append by simp
    then show ?thesis using rec unfolding all by simp
  qed
qed

lemma accepted_in_window: "sorted ts \<Longrightarrow> in_window t (accepted [] ts) \<le> limit"
  using accepted_bound [of ts "[]" t] by (simp add: in_window_def)

end

text \<open>One key's share of \<open>memory_limited\<close>.\<close>

definition key_step :: "nat \<Rightarrow> rat \<Rightarrow> rat \<Rightarrow> rat list \<Rightarrow> bool \<times> rat list" where
  "key_step limit window now hits =
     (case memory_limited now [] limit window (\<lambda>_. hits) of (v, att) \<Rightarrow> (v, att []))"

lemma key_step_simps:
  "fst (key_step limit window now hits) \<longleftrightarrow> limit \<le> length (filter (\<lambda>t. now - t < window) hits)"
  "snd (key_step limit window now hits) = filter (\<lambda>t. now - t < window) hits
     @ (if fst (key_step limit window now hits) then [] else [now])"
  by (simp_all add: key_step_def memory_limited_def Let_def)

interpretation login_budget: window_budget RATE_LIMIT RATE_WINDOW "key_step RATE_LIMIT RATE_WINDOW"
  by unfold_locales (simp_all add: key_step_simps RATE_WINDOW_def)

end
