(* ===== verification/AuthProps.thy ===== *)
theory AuthProps
  imports Auth Demo
begin

text \<open>
  The properties of login and provisioning: the attempt budget holds in every window, a provider's
  groups give the same ladder role in both modes, provisioning never touches another account, and
  seeding installs exactly one administrator.
\<close>

section \<open>The attempt budget\<close>

text \<open>A run of attempts over all keys, in time order: the accepted (time, key) pairs.\<close>

fun accepted_attempts :: "nat \<Rightarrow> rat \<Rightarrow> attempts \<Rightarrow> (rat \<times> string) list \<Rightarrow> (rat \<times> string) list" where
  "accepted_attempts limit window att [] = []"
| "accepted_attempts limit window att ((now, key) # evs) =
     (case memory_limited now key limit window att of
        (v, att') \<Rightarrow> (if v then [] else [(now, key)]) @ accepted_attempts limit window att' evs)"

lemma memory_limited_key:
  "fst (memory_limited now key limit window att) = fst (key_step limit window now (att key))"
  "snd (memory_limited now key limit window att) = att(key := snd (key_step limit window now (att key)))"
  by (auto simp: memory_limited_def key_step_simps Let_def)

lemma accepted_attempts_key:
  "map fst (filter (\<lambda>p. snd p = k) (accepted_attempts RATE_LIMIT RATE_WINDOW att evs))
   = login_budget.accepted (att k) (map fst (filter (\<lambda>p. snd p = k) evs))"
proof (induction evs arbitrary: att)
  case (Cons ev evs)
  obtain now key where ev: "ev = (now, key)" by (cases ev)
  show ?case
    by (cases "memory_limited now key RATE_LIMIT RATE_WINDOW att")
      (use memory_limited_key [of now key RATE_LIMIT RATE_WINDOW att] Cons.IH in \<open>auto simp: ev\<close>)
qed simp

text \<open>C7: The in-memory login budget holds in every window: of any run of attempts in time order, over
  any mix of keys and starting from no remembered hits, at most 10 attempts of one key are
  accepted in any 60-second window.\<close>

theorem login_budget_bound:
  assumes "sorted (map fst evs)"
  shows "length (filter (\<lambda>p. snd p = k \<and> t - 60 < fst p \<and> fst p \<le> t)
           (accepted_attempts RATE_LIMIT RATE_WINDOW (\<lambda>_. []) evs)) \<le> 10"
proof -
  have "sorted (map fst (filter (\<lambda>p. snd p = k) evs))" using assms by (rule sorted_filter)
  from login_budget.accepted_in_window [OF this, of t]
  have "login_budget.in_window t (map fst (filter (\<lambda>p. snd p = k)
      (accepted_attempts RATE_LIMIT RATE_WINDOW (\<lambda>_. []) evs))) \<le> RATE_LIMIT"
    by (simp add: accepted_attempts_key)
  then show ?thesis
    unfolding login_budget.in_window_def filter_map length_map filter_filter
    by (simp add: comp_def RATE_LIMIT_def RATE_WINDOW_def conj_ac)
qed

theorem login_budget_bound_witness:
  "length (filter (\<lambda>p. snd p = ''k'' \<and> 30 - 60 < fst p \<and> fst p \<le> 30)
     (accepted_attempts RATE_LIMIT RATE_WINDOW (\<lambda>_. []) [(1, ''k''), (2, ''j''), (3, ''k'')])) \<le> 10"
  by (rule login_budget_bound) simp

section \<open>Groups claims\<close>

text \<open>The store in which the mappings are those of the settings, and nothing else applies.\<close>

definition mirrors_settings :: "env \<Rightarrow> store \<Rightarrow> bool" where
  "mirrors_settings e db \<longleftrightarrow>
     (\<forall>g r k v. (\<exists>m \<in> set (idp_role_mappings db). (irm_idp_group m, irm_role m, irm_scope_kind m, irm_scope_value m) = (g, r, k, v))
        \<longleftrightarrow> k = ''fleet'' \<and> v = ''*'' \<and> (r = ''admin'' \<and> g \<in> configured_groups e db ''admin''
              \<or> r = ''operator'' \<and> g \<in> configured_groups e db ''operator''))"

lemma recorded_names:
  "set (idp_names (mirror_claim uid raw db) uid) = take 255 ` set (claim_groups raw)"
  by (auto simp: idp_names_def mirror_claim_def image_iff)

lemma set_idp_entries:
  "set (idp_entries db uid) = {(r, k, v). \<exists>g \<in> set (idp_names db uid). \<exists>m \<in> set (idp_role_mappings db).
      (irm_idp_group m, irm_role m, irm_scope_kind m, irm_scope_value m) = (g, r, k, v)}"
  unfolding idp_entries_def set_map set_filter by force

lemma mirrored_entries:
  assumes "mirrors_settings e db"
  shows "{(r, k, v). \<exists>g \<in> G. \<exists>m \<in> set (idp_role_mappings db).
      (irm_idp_group m, irm_role m, irm_scope_kind m, irm_scope_value m) = (g, r, k, v)}
    = {(r, k, v). k = ''fleet'' \<and> v = ''*'' \<and> (r = ''admin'' \<and> G \<inter> configured_groups e db ''admin'' \<noteq> {}
         \<or> r = ''operator'' \<and> G \<inter> configured_groups e db ''operator'' \<noteq> {})}"
  unfolding assms [unfolded mirrors_settings_def, rule_format] by blast

lemma str_claim_groups: "\<forall>g \<in> set gs. g \<noteq> [] \<Longrightarrow> claim_groups (PList (map PStr gs)) = gs"
  by (induction gs) (auto simp: claim_groups_def)

lemma str_claim_set: "claim_set (PList (map PStr gs)) = Inr (set gs)"
  by (cases gs) (simp_all add: claim_set_def str_items_def list_all_iff comp_def)

text \<open>Both modes read a list of groups alike: where the provider mappings are exactly those of the
  group settings and no grant applies to the user, the role the scoped login caches is the role
  the legacy login assigns, with \<open>none\<close> in place of the legacy default \<open>viewer\<close>.\<close>

theorem sso_roles_agree:
  assumes "mirrors_settings e db" and "\<forall>g \<in> set gs. g \<noteq> [] \<and> length g \<le> 255"
    and "\<forall>g \<in> set (grants db). \<not> grant_applies db uid g"
    and "record_claim_groups uid (PList (map PStr gs)) db = Inr db'"
  shows "role_for_groups e db (PList (map PStr gs)) =
    Inr (let cached = cached_role (queried_entries db' uid) in if cached = ''none'' then ''viewer'' else cached)"
proof -
  have db': "db' = mirror_claim uid (PList (map PStr gs)) db"
    using assms(4) by (simp add: record_claim_groups_def split: if_splits)
  let ?db = "mirror_claim uid (PList (map PStr gs)) db"
  let ?ad = "set gs \<inter> configured_groups e db ''admin''" and ?op = "set gs \<inter> configured_groups e db ''operator''"
  have "take 255 ` set gs = set gs" using assms(2) by (force simp: image_iff)
  then have names: "set (idp_names ?db uid) = set gs"
    using assms(2) by (simp add: recorded_names str_claim_groups)
  have maps: "idp_role_mappings ?db = idp_role_mappings db" "grants ?db = grants db"
    "local_group_members ?db = local_group_members db"
    by (simp_all add: mirror_claim_def)
  have "\<forall>g \<in> set (grants ?db). \<not> grant_applies ?db uid g"
    using assms(3) by (simp add: grant_applies_def maps)
  then have "set (queried_entries ?db uid) = set (idp_entries ?db uid)"
    by (auto simp: set_queried_entries)
  also have "\<dots> = {(r, k, v). \<exists>g \<in> set gs. \<exists>m \<in> set (idp_role_mappings db).
      (irm_idp_group m, irm_role m, irm_scope_kind m, irm_scope_value m) = (g, r, k, v)}"
    unfolding set_idp_entries maps names ..
  also have "\<dots> = {(r, k, v). k = ''fleet'' \<and> v = ''*'' \<and> (r = ''admin'' \<and> ?ad \<noteq> {} \<or> r = ''operator'' \<and> ?op \<noteq> {})}"
    by (rule mirrored_entries [OF assms(1)])
  finally have q: "set (queried_entries ?db uid)
      = {(r, k, v). k = ''fleet'' \<and> v = ''*'' \<and> (r = ''admin'' \<and> ?ad \<noteq> {} \<or> r = ''operator'' \<and> ?op \<noteq> {})}" .
  have empty: "queried_entries ?db uid = [] \<longleftrightarrow> ?ad = {} \<and> ?op = {}"
    unfolding set_empty [symmetric] q by blast
  have lad: "has_ladder (queried_entries ?db uid) r \<longleftrightarrow> r = ''admin'' \<and> ?ad \<noteq> {} \<or> r = ''operator'' \<and> ?op \<noteq> {}" for r
    unfolding has_ladder_def list_ex_iff q by auto
  show ?thesis
    unfolding db' by (simp add: role_for_groups_def str_claim_set cached_role_def lad empty Let_def)
qed

definition sso_store :: store where
  "sso_store = put_setting ''oidc_admin_groups'' ''admins'' (empty_store\<lparr>
     idp_role_mappings := [\<lparr>irm_id = 1, irm_idp_group = ''admins'', irm_role = ''admin'',
       irm_scope_kind = ''fleet'', irm_scope_value = ''*'', irm_origin = ''backfill''\<rparr>]\<rparr>)"

lemma sso_groups:
  "configured_groups demo_env sso_store ''admin'' = {''admins''}"
  "configured_groups demo_env sso_store ''operator'' = {}"
  by code_simp+

theorem sso_roles_agree_witness:
  "role_for_groups demo_env sso_store (PList (map PStr [''admins''])) = Inr ''admin''"
proof -
  have m: "mirrors_settings demo_env sso_store"
    unfolding mirrors_settings_def sso_groups by (simp add: sso_store_def put_setting_def) metis
  have "cached_role (queried_entries (mirror_claim 1 (PList (map PStr [''admins''])) sso_store) 1) = ''admin''"
    by code_simp
  moreover have "record_claim_groups 1 (PList (map PStr [''admins''])) sso_store
      = Inr (mirror_claim 1 (PList (map PStr [''admins''])) sso_store)"
    by (simp add: record_claim_groups_def claim_groups_def)
  ultimately show ?thesis using sso_roles_agree [OF m, of "[''admins'']" 1]
    by (simp add: sso_store_def put_setting_def empty_store_def)
qed

text \<open>A single group sent as a string splits the modes: when no configured group is one character
  long, the legacy login maps every string claim to \<open>viewer\<close>, also that of a configured admin
  group, because the string is read character by character, while the membership rows that scoped
  mode evaluates record the whole name.\<close>

theorem string_claim_splits:
  assumes "\<forall>g \<in> configured_groups e db ''admin'' \<union> configured_groups e db ''operator''. length g \<noteq> 1"
    and "s \<noteq> []"
  shows "role_for_groups e db (PStr s) = Inr ''viewer'' \<and> claim_groups (PStr s) = [s]"
proof -
  have "length g = 1" if "g \<in> set (map (\<lambda>ch. [ch]) s)" for g using that by auto
  then have "set (map (\<lambda>ch. [ch]) s) \<inter> configured_groups e db ''admin'' = {}"
    "set (map (\<lambda>ch. [ch]) s) \<inter> configured_groups e db ''operator'' = {}"
    using assms(1) by blast+
  then show ?thesis using assms(2) by (simp add: role_for_groups_def claim_set_def claim_groups_def)
qed

theorem string_claim_splits_witness:
  "role_for_groups demo_env sso_store (PStr ''admins'') = Inr ''viewer''
   \<and> ''admins'' \<in> configured_groups demo_env sso_store ''admin''"
  using string_claim_splits [of demo_env sso_store "''admins''"] by (simp add: sso_groups)

section \<open>Provisioning\<close>

lemma oidc_user_row_ok:
  assumes "oidc_user_row base issuer sub db = Inr (u, db1)" and "wf_store db"
  shows "wf_store db1 \<and> u_oidc_issuer u = Some issuer \<and> u_oidc_sub u = Some sub
    \<and> user_by_id db1 (u_id u) = Some u
    \<and> (\<forall>i. i \<noteq> u_id u \<longrightarrow> user_by_id db1 i = user_by_id db i)
    \<and> (user_by_id db (u_id u) = None \<or> user_by_id db (u_id u) = Some u)"
proof (cases "find_oidc_user db issuer sub")
  case None
  let ?n = "oidc_username db base sub"
  have fresh: "user_by_name db ?n = None" and db1: "db1 = bump ''users'' (insert_user u db)"
    and u: "u_id u = seq db ''users''" "u_username u = ?n" "u_oidc_issuer u = Some issuer" "u_oidc_sub u = Some sub"
    using assms(1) None by (auto simp: oidc_user_row_def Let_def split: if_splits)
  have no: "user_by_id db (u_id u) = None"
    using assms(2) u(1) user_by_id_iff [of db "u_id u"] by (force simp: wf_store_iff wf_keys_def list_all_iff)
  have "wf_store db1" using wf_insert_user [OF assms(2)] fresh u db1 by (simp add: user_by_name_None)
  moreover have "user_by_id db1 i = user_by_id (insert_user u db) i" for i by (simp add: db1 bump_def user_by_id_def)
  ultimately show ?thesis using u no users.lookup_insert [OF no] by simp
next
  case (Some v)
  then have v: "u = v" "db1 = db" using assms(1) by (auto simp: oidc_user_row_def)
  have mem: "v \<in> set (users db)" "u_oidc_issuer v = Some issuer" "u_oidc_sub v = Some sub"
    using Some by (auto simp: find_oidc_user_def find_Some_iff)
  have "find_row u_id (u_id v) rs = Some v" if "distinct (map u_id rs)" "v \<in> set rs" for rs
    using that by (induction rs) (auto simp: image_iff)
  then have "user_by_id db (u_id v) = Some v"
    using mem(1) assms(2) by (simp add: wf_store_iff wf_keys_def user_by_id_def)
  with v mem assms(2) show ?thesis by simp
qed

lemma record_claim_tables [simp]:
  "users (mirror_claim uid raw db) = users db" "grants (mirror_claim uid raw db) = grants db"
  "local_groups (mirror_claim uid raw db) = local_groups db"
  "local_group_members (mirror_claim uid raw db) = local_group_members db"
  "seq (mirror_claim uid raw db) = seq db"
  by (simp_all add: mirror_claim_def)

lemma role_record_commute:
  "set_user_role i r (mirror_claim uid raw db) = mirror_claim uid raw (set_user_role i r db)"
  by (simp add: set_user_role_def mirror_claim_def)

lemma wf_record_claim: "wf_store db \<Longrightarrow> wf_store (mirror_claim uid raw db)"
  by (rule wf_store_cong [of _ db]) simp_all

text \<open>C8: Single sign-on never touches another account: a login that returns a user returns the one
  keyed by the issuer and the subject, keeps the store well-formed, changes no field of it but the
  role, and leaves every other account, a local one of the same name included, as it was.\<close>

theorem provision_keys_on_subject:
  assumes "provision_oidc_user e info issuer c = Inr (uid, c')" and "wf_store (c_db c)"
  shows "wf_store (c_db c')
    \<and> (\<exists>u r. user_by_id (c_db c') uid = Some (u\<lparr>u_role := r\<rparr>) \<and> u_oidc_issuer u = Some issuer
         \<and> (\<exists>sub. sub \<noteq> [] \<and> claim ''sub'' info = PStr sub \<and> u_oidc_sub u = Some sub)
         \<and> (user_by_id (c_db c) uid = None \<or> user_by_id (c_db c) uid = Some u))
    \<and> (\<forall>i. i \<noteq> uid \<longrightarrow> user_by_id (c_db c') i = user_by_id (c_db c) i)"
proof -
  obtain sub where sub: "first_claim [''sub''] info = Some sub"
    using assms(1) by (cases "first_claim [''sub''] info") (simp_all add: provision_oidc_user_def)
  then have cl: "sub \<noteq> []" "claim ''sub'' info = PStr sub"
    by (cases "claim ''sub'' info"; simp add: first_claim_def split: if_splits)+
  define base where "base = (case first_claim [''preferred_username'', ''email''] info of None \<Rightarrow> sub | Some b \<Rightarrow> b)"
  obtain u db1 where row: "oidc_user_row base issuer sub (c_db c) = Inr (u, db1)"
    using assms(1) unfolding provision_oidc_user_def sub option.case base_def [symmetric]
    by (cases "oidc_user_row base issuer sub (c_db c)") auto
  note ok = oidc_user_row_ok [OF row assms(2)]
  let ?raw = "claim (groups_claim e db1) info"
  have run: "uid = u_id u \<and> (\<exists>r. c_db c' = mirror_claim uid ?raw (set_user_role uid r db1))"
  proof (cases "rbac_mode e db1 = ''scoped''")
    case True
    then have "c_db c' = set_user_role (u_id u) (cached_role (grant_entries (c_memo c)
        (mirror_claim (u_id u) ?raw db1) u)) (mirror_claim (u_id u) ?raw db1)" "uid = u_id u"
      using assms(1) unfolding provision_oidc_user_def sub option.case base_def [symmetric]
      by (auto simp: row Let_def record_claim_groups_def split: if_splits)
    then show ?thesis unfolding role_record_commute by blast
  next
    case False
    then show ?thesis
      using assms(1) unfolding provision_oidc_user_def sub option.case base_def [symmetric]
      by (cases "role_for_groups e db1 ?raw") (auto simp: row Let_def record_claim_groups_def split: if_splits)
  qed
  then obtain r where db': "c_db c' = mirror_claim uid ?raw (set_user_role uid r db1)" and uid: "uid = u_id u"
    by blast
  have look: "user_by_id (c_db c') i = user_by_id (set_user_role uid r db1) i" for i
    unfolding db' by (simp add: user_by_id_def)
  have "wf_store (c_db c')" unfolding db' using ok by (auto intro: wf_record_claim wf_set_user_role)
  then show ?thesis using ok cl uid unfolding look user_by_id_role by auto
qed

theorem provision_keys_on_subject_witness:
  "\<exists>c'. provision_oidc_user demo_env [(''sub'', PStr ''s-1''), (''email'', PStr ''oper'')] ''https://idp'' (start demo_store)
        = Inr (7, c') \<and> user_by_id (c_db c') 3 = Some oper"
proof -
  let ?p = "provision_oidc_user demo_env [(''sub'', PStr ''s-1''), (''email'', PStr ''oper'')] ''https://idp'' (start demo_store)"
  have h: "\<not> isl ?p" "fst (projr ?p) = 7" by code_simp+
  then obtain c' where p: "?p = Inr (7, c')" by (cases ?p) auto
  have "wf_store (c_db (start demo_store))" by (simp add: start_def demo_wf)
  from provision_keys_on_subject [OF p this] have "user_by_id (c_db c') 3 = user_by_id (c_db (start demo_store)) 3"
    by simp
  moreover have "user_by_id (c_db (start demo_store)) 3 = Some oper" by code_simp
  ultimately show ?thesis using p by simp
qed

section \<open>Seeding\<close>

text \<open>Seeding installs exactly one administrator, ready for scoped mode: on a well-formed store
  without users and grants, and unless production lacks a password, it succeeds, keeps the store
  well-formed, leaves one user that holds every permission of the admin role on the fleet, and a
  second run changes nothing.\<close>

theorem seed_admin_installs:
  assumes "wf_store db" and "users db = []"
    and "password \<noteq> None \<or> environ ''OVERSTATE_ENV'' \<noteq> Some ''prod'' \<and> or_empty (environ ''TLS_CERT'') = []"
    and "ROLE_PERMS ''admin'' = Some p" and "perm \<in> p"
  shows "\<exists>db' u. seed_admin environ hash generated name password db = Inr (True, db') \<and> wf_store db'
    \<and> users db' = [u] \<and> u_username u = name \<and> u_role u = ''admin''
    \<and> has_fleet e (\<lambda>_. None) db' u perm
    \<and> seed_admin environ hash generated name password db' = Inr (False, db')"
proof -
  define u where "u = \<lparr>u_id = seq db ''users'', u_username = name,
    u_password_hash = Some (hash (if or_empty password \<noteq> [] then or_empty password else generated)),
    u_role = ''admin'', u_kind = ''human'', u_oidc_issuer = None, u_oidc_sub = None, u_created_at = db_now db\<rparr>"
  define db1 where "db1 = bump ''users'' (insert_user u db)"
  have wf1: "wf_store db1" unfolding db1_def
    by (rule wf_insert_user [OF assms(1)]) (simp_all add: assms(2) u_def)
  have rows: "users db1 = [u]" "grants db1 = grants db" by (simp_all add: db1_def insert_user_def bump_def assms(2))
  have "\<not> has_fleet_grant db1 (u_id u) ''admin''"
    using assms(1,2) by (auto simp: has_fleet_grant_iff rows wf_store_iff)
  then obtain db2 where db2: "add_grant (user_grant (u_id u) ''admin'' ''fleet'' ''*'' ''backfill'' None) db1 = Inr db2"
    using backfill_grant_total [OF wf1, of "u_id u" "''admin''"] by (auto simp: rows)
  have g: "has_fleet_grant db2 (u_id u) ''admin''" and us: "users db2 = [u]"
    using add_grant_rows [OF db2] by (simp_all add: has_fleet_grant_iff user_grant_def rows)
  have "seed_admin environ hash generated name password db = Inr (True, db2)"
    using assms(2,3) db2 unfolding seed_admin_def u_def db1_def by (auto simp: Let_def)
  moreover have "seed_admin environ hash generated name password db2 = Inr (False, db2)"
    by (simp add: seed_admin_def us)
  moreover have "wf_store db2" using wf_add_user_grant [OF wf1 db2] .
  moreover have "has_fleet e (\<lambda>_. None) db2 u perm" by (rule ladder_has_fleet [OF g assms(4,5)])
  ultimately show ?thesis using us by (auto simp: u_def)
qed

theorem seed_admin_installs_witness:
  "\<exists>db' u. seed_admin (\<lambda>_. None) rev ''pw'' ''admin'' None empty_store = Inr (True, db') \<and> users db' = [u]
     \<and> has_fleet demo_env fresh db' u ''grant.admin''"
proof -
  have p: "ROLE_PERMS ''admin'' = Some (VIEWER_PERMS \<union> OPERATOR_DELTA \<union> ADMIN_DELTA)"
    "''grant.admin'' \<in> VIEWER_PERMS \<union> OPERATOR_DELTA \<union> ADMIN_DELTA"
    by (simp_all add: ROLE_PERMS_def ADMIN_DELTA_def)
  have "users empty_store = []" by (simp add: empty_store_def)
  from seed_admin_installs [OF wf_empty this _ p, of None "\<lambda>_. None" rev "''pw''" "''admin''" demo_env]
  show ?thesis by (auto simp: or_empty_def)
qed

end
