(* ===== verification/Cron.thy ===== *)
theory Cron
  imports Settings
begin

text \<open>
  The file-sync schedule, \<open>overstate_ui/file_sync_schedule.py\<close>: parsing of the five numeric cron
  fields, matching of a UTC minute, the one-minute grace of \<open>due_slot\<close>, and the scheduled run with
  its status rows. A \<open>datetime\<close> is a \<open>pydt\<close>; its calendar fields are computed as CPython's
  \<open>_ord2ymd\<close> computes them. The git pull and the fileserver refresh are arguments.
\<close>

section \<open>Calendar\<close>

definition EPOCH_ORDINAL :: int where "EPOCH_ORDINAL = 719163"

definition days_before_month :: "int list" where
  "days_before_month = [0, 0, 31, 59, 90, 120, 151, 181, 212, 243, 273, 304, 334]"

definition days_in_month :: "int list" where
  "days_in_month = [0, 31, 28, 31, 30, 31, 30, 31, 31, 30, 31, 30, 31]"

definition bool_int :: "bool \<Rightarrow> int" where
  "bool_int b = (if b then 1 else 0)"

definition ord2ymd :: "int \<Rightarrow> int \<times> int \<times> int" where
  "ord2ymd ordinal =
     (let n = ordinal - 1; n400 = n div 146097; n = n mod 146097;
          n100 = n div 36524; n = n mod 36524;
          n4 = n div 1461; n = n mod 1461;
          n1 = n div 365; n = n mod 365;
          year = n400 * 400 + 1 + n100 * 100 + n4 * 4 + n1
      in if n1 = 4 \<or> n100 = 4 then (year - 1, 12, 31)
         else
           (let leap = (n1 = 3 \<and> (n4 \<noteq> 24 \<or> n100 = 3));
                month = (n + 50) div 32;
                preceding = days_before_month ! nat month + bool_int (2 < month \<and> leap)
            in if n < preceding
               then (year, month - 1,
                     n - (preceding - (days_in_month ! nat (month - 1) + bool_int (month - 1 = 2 \<and> leap))) + 1)
               else (year, month, n - preceding + 1)))"

definition minute_micros :: int where "minute_micros = 60000000"
definition of_day :: "int \<Rightarrow> int" where "of_day t = t div (1440 * minute_micros)"
definition dt_minute :: "int \<Rightarrow> int" where "dt_minute t = (t div minute_micros) mod 60"
definition dt_hour :: "int \<Rightarrow> int" where "dt_hour t = (t div (60 * minute_micros)) mod 24"
definition dt_second :: "int \<Rightarrow> int" where "dt_second t = (t div 1000000) mod 60"
definition dt_micro :: "int \<Rightarrow> int" where "dt_micro t = t mod 1000000"
definition dt_date :: "int \<Rightarrow> int \<times> int \<times> int" where "dt_date t = ord2ymd (of_day t + EPOCH_ORDINAL)"
definition dt_month :: "int \<Rightarrow> int" where "dt_month t = fst (snd (dt_date t))"
definition dt_day :: "int \<Rightarrow> int" where "dt_day t = snd (snd (dt_date t))"
definition dt_weekday :: "int \<Rightarrow> int" where "dt_weekday t = (of_day t + EPOCH_ORDINAL + 6) mod 7"

definition pad :: "nat \<Rightarrow> int \<Rightarrow> string" where
  "pad w n = (let s = py_str_int n in replicate (w - length s) (CHR ''0'') @ s)"

text \<open>\<open>isoformat\<close> of an aware UTC time.\<close>

definition isoformat :: "int \<Rightarrow> string" where
  "isoformat t =
     (case dt_date t of (y, m, d) \<Rightarrow>
        pad 4 y @ ''-'' @ pad 2 m @ ''-'' @ pad 2 d @ ''T'' @ pad 2 (dt_hour t) @ '':'' @ pad 2 (dt_minute t)
        @ '':'' @ pad 2 (dt_second t)
        @ (if dt_micro t = 0 then [] else ''.'' @ pad 6 (dt_micro t)) @ ''+00:00'')"

section \<open>Cron fields\<close>

definition FILE_SYNC_CRON_DEFAULT :: string where "FILE_SYNC_CRON_DEFAULT = ''0 * * * *''"

definition CRON_FIELDS :: "(int \<times> int \<times> string) list" where
  "CRON_FIELDS = [(0, 59, ''minute''), (0, 23, ''hour''), (1, 31, ''day of month''), (1, 12, ''month''),
     (0, 7, ''day of week'')]"

text \<open>\<open>int(s)\<close> of a string \<open>isdigit\<close> let through.\<close>

definition int_of :: "string \<Rightarrow> int res" where
  "int_of s = (case py_int s of None \<Rightarrow> Inl (ValueError s) | Some i \<Rightarrow> Inr i)"

definition item_step :: "string \<Rightarrow> bool \<Rightarrow> string \<Rightarrow> int res" where
  "item_step label slash step_text =
     (if \<not> slash then Inr 1
      else if \<not> py_isdigit step_text then Inl (ValueError (''invalid step in '' @ label))
      else (case int_of step_text of
              Inl er \<Rightarrow> Inl er
            | Inr s \<Rightarrow> if s < 1 then Inl (ValueError (''invalid step in '' @ label)) else Inr s))"

definition item_bounds :: "int \<Rightarrow> int \<Rightarrow> string \<Rightarrow> bool \<Rightarrow> string \<Rightarrow> (int \<times> int) res" where
  "item_bounds lo hi label slash base =
     (if base = ''*'' then Inr (lo, hi)
      else if CHR ''-'' \<in> set base then
        (case py_partition CHR ''-'' base of (a, _, b) \<Rightarrow>
           if \<not> py_isdigit a \<or> \<not> py_isdigit b then Inl (ValueError (''invalid range in '' @ label))
           else res_bind (int_of a) (\<lambda>first. res_bind (int_of b) (\<lambda>final.
             if final < first then Inl (ValueError (''descending range in '' @ label)) else Inr (first, final))))
      else if py_isdigit base then
        res_bind (int_of base) (\<lambda>first. Inr (first, if slash then hi else first))
      else Inl (ValueError (''invalid value in '' @ label)))"

definition py_range :: "int \<Rightarrow> int \<Rightarrow> int \<Rightarrow> int list" where
  "py_range first final step = filter (\<lambda>v. (v - first) mod step = 0) [first..final]"

definition item_values :: "int \<Rightarrow> int \<Rightarrow> string \<Rightarrow> string \<Rightarrow> int list res" where
  "item_values lo hi label item =
     (if item = [] then Inl (ValueError (''empty item in '' @ label))
      else
        (case py_partition CHR ''/'' item of (base, slash, step_text) \<Rightarrow>
           res_bind (item_step label slash step_text) (\<lambda>step.
           res_bind (item_bounds lo hi label slash base) (\<lambda>(first, final).
             if first < lo \<or> hi < final
             then Inl (ValueError (label @ '' must be between '' @ py_str_int lo @ '' and '' @ py_str_int hi))
             else Inr (py_range first final step)))))"

definition sunday_alias :: "string \<Rightarrow> int set \<Rightarrow> int set" where
  "sunday_alias label values =
     (if label = ''day of week'' \<and> 7 \<in> values then insert 0 (values - {7}) else values)"

definition field_values :: "string \<Rightarrow> int \<Rightarrow> int \<Rightarrow> string \<Rightarrow> (int set \<times> bool) res" where
  "field_values token lo hi label =
     res_bind (res_map (item_values lo hi label) (py_split CHR '','' token)) (\<lambda>vss.
       let values = set (concat vss)
       in if values = {} then Inl (ValueError (label @ '' has no values''))
          else Inr (sunday_alias label values, starts_with ''*'' token))"

definition parse_cron :: "string \<Rightarrow> (int set \<times> bool) list res" where
  "parse_cron expression =
     (let fields = py_split_ws expression
      in if length fields \<noteq> 5
         then Inl (ValueError ''use five cron fields: minute hour day month weekday'')
         else res_map (\<lambda>(token, (lo, hi, label)). field_values token lo hi label) (zip fields CRON_FIELDS))"

definition validate_file_sync_schedule :: "string \<Rightarrow> string res" where
  "validate_file_sync_schedule expression =
     (let value = py_strip expression
      in if py_lower value = ''off'' then Inr ''off''
         else res_bind (parse_cron value) (\<lambda>_. Inr value))"

section \<open>Matching\<close>

definition cron_day_matches :: "int set \<times> bool \<Rightarrow> int set \<times> bool \<Rightarrow> int \<Rightarrow> bool" where
  "cron_day_matches mday wday t =
     (let dom_matches = dt_day t \<in> fst mday; dow_matches = (dt_weekday t + 1) mod 7 \<in> fst wday
      in if snd mday \<and> snd wday then True
         else if snd mday then dow_matches
         else if snd wday then dom_matches
         else dom_matches \<or> dow_matches)"

definition fields_match :: "(int set \<times> bool) list \<Rightarrow> int \<Rightarrow> bool" where
  "fields_match fs t =
     (case fs of
        [minute, hour, mday, month, wday] \<Rightarrow>
          if dt_minute t \<notin> fst minute \<or> dt_hour t \<notin> fst hour \<or> dt_month t \<notin> fst month then False
          else cron_day_matches mday wday t
      | _ \<Rightarrow> False)"

definition cron_matches :: "string \<Rightarrow> pydt \<Rightarrow> bool res" where
  "cron_matches expression when =
     res_bind (parse_cron expression) (\<lambda>fs. Inr (fields_match fs (utc_micros when)))"

definition floor_minute :: "int \<Rightarrow> int" where
  "floor_minute t = t - t mod minute_micros"

definition due_slot :: "string \<Rightarrow> pydt \<Rightarrow> int option res" where
  "due_slot expression now =
     (if py_lower (py_strip expression) = ''off'' then Inr None
      else
        (let t = floor_minute (utc_micros now)
         in res_bind (cron_matches expression (Aware t)) (\<lambda>m.
              if m then Inr (Some t)
              else res_bind (cron_matches expression (Aware (t - minute_micros))) (\<lambda>m'.
                if m' then Inr (Some (t - minute_micros)) else Inr None))))"

section \<open>Runs\<close>

record git_result =
  gr_ok :: bool
  gr_reason :: string
  gr_changed :: bool
  gr_old :: string
  gr_new :: string

record sync_outcome =
  so_ran :: bool
  so_ok :: bool
  so_message :: string

definition LAST_RUN :: string where "LAST_RUN = ''file_sync_last_run''"
definition LAST_STATUS :: string where "LAST_STATUS = ''file_sync_last_status''"
definition LAST_MESSAGE :: string where "LAST_MESSAGE = ''file_sync_last_message''"
definition LAST_SLOT :: string where "LAST_SLOT = ''file_sync_last_slot''"

definition save_status :: "int \<Rightarrow> string \<Rightarrow> string \<Rightarrow> int option \<Rightarrow> store \<Rightarrow> store" where
  "save_status now status message slot db =
     (let db1 = put_setting LAST_MESSAGE (take 500 message)
                  (put_setting LAST_STATUS status (put_setting LAST_RUN (isoformat now) db))
      in case slot of None \<Rightarrow> db1 | Some s \<Rightarrow> put_setting LAST_SLOT (isoformat s) db1)"

definition or_unknown :: "string \<Rightarrow> string" where
  "or_unknown s = (if s = [] then ''unknown'' else s)"

text \<open>\<open>git\<close> is the result of the pull, \<open>refresh\<close> the error of the fileserver refresh, empty for none.\<close>

definition sync_now :: "env \<Rightarrow> git_result \<Rightarrow> string \<Rightarrow> int \<Rightarrow> int option \<Rightarrow> store \<Rightarrow> sync_outcome \<times> store" where
  "sync_now e git refresh now slot db =
     (let previous_status = get_setting e db LAST_STATUS; previous_message = get_setting e db LAST_MESSAGE
      in if \<not> gr_ok git
         then
           (let reason = (if gr_reason git = [] then ''git sync failed'' else gr_reason git);
                message = ''file sync failed: '' @ reason
            in (\<lparr>so_ran = True, so_ok = False, so_message = message\<rparr>,
                log_event ''cron'' ''file-sync:failed'' None (Some ''deny'') None None (Some reason)
                  (save_status now ''failed'' message None db)))
         else
           (let retry = (previous_status = ''warning'' \<and> py_contains ''fileserver refresh failed'' previous_message);
                refresh_error = (if gr_changed git \<or> retry then refresh else []);
                old = or_unknown (gr_old git); new = or_unknown (gr_new git)
            in if refresh_error \<noteq> []
               then
                 (let message = ''file sync pulled '' @ old @ '' -> '' @ new
                        @ ''; fileserver refresh failed: '' @ refresh_error
                  in (\<lparr>so_ran = True, so_ok = True, so_message = message\<rparr>,
                      save_status now ''warning'' message slot
                        (log_event ''cron'' ''file-sync:refresh-failed'' None (Some ''deny'') None None
                          (Some (take 500 refresh_error)) db)))
               else if gr_changed git
               then
                 (let message = ''file sync succeeded: '' @ old @ '' -> '' @ new @ ''; fileserver refreshed''
                  in (\<lparr>so_ran = True, so_ok = True, so_message = message\<rparr>,
                      save_status now ''success'' message slot
                        (log_event ''cron'' (''file-sync:'' @ new) None (Some ''allow'') None None None db)))
               else
                 (let message = ''file sync succeeded: already up to date at '' @ new
                  in (\<lparr>so_ran = True, so_ok = True, so_message = message\<rparr>,
                      save_status now ''success'' message slot
                        (log_event ''cron'' (''file-sync:up-to-date:'' @ new) None (Some ''allow'') None None None db)))))"

definition quiet :: sync_outcome where
  "quiet = \<lparr>so_ran = False, so_ok = True, so_message = []\<rparr>"

definition run_scheduled_sync ::
  "env \<Rightarrow> git_result \<Rightarrow> string \<Rightarrow> pydt \<Rightarrow> store \<Rightarrow> (sync_outcome \<times> store) res" where
  "run_scheduled_sync e git refresh now db =
     (let row = get_setting e db ''file_sync_cron'';
          expression = (if row = [] then FILE_SYNC_CRON_DEFAULT else row)
      in res_bind (due_slot expression now) (\<lambda>slot.
           case slot of
             None \<Rightarrow> Inr (quiet, db)
           | Some s \<Rightarrow>
               if get_setting e db LAST_SLOT = isoformat s then Inr (quiet, db)
               else Inr (sync_now e git refresh (utc_micros now) (Some s) db)))"

definition run_manual_sync :: "env \<Rightarrow> git_result \<Rightarrow> string \<Rightarrow> int \<Rightarrow> store \<Rightarrow> sync_outcome \<times> store" where
  "run_manual_sync e git refresh now db = sync_now e git refresh now None db"

section \<open>Facts\<close>

lemma py_range_values:
  "1 \<le> step \<Longrightarrow> set (py_range first final step) = {v. first \<le> v \<and> v \<le> final \<and> step dvd (v - first)}"
  by (auto simp: py_range_def mod_eq_0_iff_dvd)

lemma item_step_pos: "item_step label slash s = Inr k \<Longrightarrow> 1 \<le> k"
  by (auto simp: item_step_def split: if_splits sum.splits)

lemma item_values_range:
  assumes "item_values lo hi label item = Inr vs"
  shows "set vs \<subseteq> {lo..hi}"
proof -
  obtain base slash st where p: "py_partition CHR ''/'' item = (base, slash, st)"
    by (cases "py_partition CHR ''/'' item") auto
  show ?thesis
    using assms by (auto simp: item_values_def p py_range_def split: if_splits prod.splits)
qed

lemma res_map_member:
  assumes "res_map f xs = Inr ys" "y \<in> set ys"
  shows "\<exists>x\<in>set xs. f x = Inr y"
  using assms unfolding res_map_Inr list_all2_conv_all_nth in_set_conv_nth [of y] by (metis nth_mem)

lemma field_values_range:
  assumes "field_values token lo hi label = Inr (vs, w)"
  shows "vs \<noteq> {} \<and> (label \<noteq> ''day of week'' \<longrightarrow> vs \<subseteq> {lo..hi})
    \<and> (label = ''day of week'' \<longrightarrow> lo = 0 \<longrightarrow> hi = 7 \<longrightarrow> vs \<subseteq> {0..6})"
proof -
  obtain vss where vss: "res_map (item_values lo hi label) (py_split CHR '','' token) = Inr vss"
    and vs: "vs = sunday_alias label (set (concat vss))" and ne: "set (concat vss) \<noteq> {}"
    using assms by (cases "res_map (item_values lo hi label) (py_split CHR '','' token)")
      (auto simp: field_values_def Let_def simp del: set_concat split: if_splits)
  have "set us \<subseteq> {lo..hi}" if "us \<in> set vss" for us
    using res_map_member [OF vss that] by (auto dest: item_values_range)
  then have sub: "set (concat vss) \<subseteq> {lo..hi}" by auto
  define S where "S = set (concat vss)"
  have S: "S \<noteq> {}" "S \<subseteq> {lo..hi}" using sub ne unfolding S_def by (simp_all del: set_concat)
  have ne': "sunday_alias label S \<noteq> {}" using S(1) by (simp add: sunday_alias_def)
  have keep: "label \<noteq> ''day of week'' \<Longrightarrow> sunday_alias label S = S" by (simp add: sunday_alias_def)
  have week: "sunday_alias label S \<subseteq> {0..6}" if l: "label = ''day of week''" "lo = 0" "hi = 7"
  proof
    fix v assume "v \<in> sunday_alias label S"
    then have "v = 0 \<or> (v \<in> S \<and> v \<noteq> 7)" by (simp add: sunday_alias_def l(1) split: if_splits) auto
    moreover have "v \<in> S \<Longrightarrow> 0 \<le> v \<and> v \<le> 7" using S(2) l by auto
    ultimately show "v \<in> {0..6}" by auto
  qed
  show ?thesis unfolding vs S_def [symmetric] using ne' keep S(2) week by metis
qed

lemma floor_minute_facts:
  "floor_minute t \<le> t" "t < floor_minute t + minute_micros" "floor_minute t mod minute_micros = 0"
  by (simp_all add: floor_minute_def minute_micros_def mod_diff_eq)

lemma put_get: "get_setting e (put_setting k v db) k' = (if k' = k then v else get_setting e db k')"
  by (simp add: get_setting_def put_setting_row)

lemma log_get [simp]: "get_setting e (log_event u a j out p m d db) k = get_setting e db k"
  by (simp add: get_setting_def setting_row_def)

lemma last_keys [simp]:
  "LAST_SLOT \<noteq> LAST_RUN" "LAST_SLOT \<noteq> LAST_STATUS" "LAST_SLOT \<noteq> LAST_MESSAGE"
  "LAST_STATUS \<noteq> LAST_RUN" "LAST_STATUS \<noteq> LAST_MESSAGE" "LAST_MESSAGE \<noteq> LAST_RUN"
  "''file_sync_cron'' \<noteq> LAST_RUN" "''file_sync_cron'' \<noteq> LAST_STATUS" "''file_sync_cron'' \<noteq> LAST_MESSAGE"
  "''file_sync_cron'' \<noteq> LAST_SLOT"
  by (simp_all add: LAST_SLOT_def LAST_RUN_def LAST_STATUS_def LAST_MESSAGE_def)

lemma save_status_slot:
  "get_setting e (save_status now st msg slot db) LAST_SLOT
     = (case slot of None \<Rightarrow> get_setting e db LAST_SLOT | Some s \<Rightarrow> isoformat s)"
  "get_setting e (save_status now st msg slot db) ''file_sync_cron'' = get_setting e db ''file_sync_cron''"
  "get_setting e (save_status now st msg slot db) LAST_STATUS = st"
  by (simp_all add: save_status_def put_get last_keys [symmetric] Let_def split: option.split)

end
