(* ===== verification/CronProps.thy ===== *)
theory CronProps
  imports Cron Demo
begin

text \<open>
  Properties of the file-sync schedule (\<open>overstate_ui/file_sync_schedule.py\<close>): which slot is due,
  that a slot is run once and a failed one again, and two places where the code forgets what it was
  told.
\<close>

section \<open>Due slots\<close>

lemma minute_pos [simp]: "0 < minute_micros"
  by (simp add: minute_micros_def)

lemma aligned_between:
  assumes "s mod minute_micros = 0" "s \<le> t" "t < s + 2 * minute_micros"
  shows "s = floor_minute t \<or> s = floor_minute t - minute_micros"
proof -
  obtain k where k: "s = minute_micros * k" using assms(1) by (auto simp: mod_eq_0_iff_dvd elim: dvdE)
  obtain q where q: "floor_minute t = minute_micros * q"
    using floor_minute_facts(3) [of t] by (auto simp: mod_eq_0_iff_dvd elim: dvdE)
  have "minute_micros * k < minute_micros * (q + 1)"
    using assms(2) floor_minute_facts(2) [of t] by (simp add: k q algebra_simps)
  moreover have "minute_micros * q < minute_micros * (k + 2)"
    using assms(3) floor_minute_facts(1) [of t] by (simp add: k q algebra_simps)
  ultimately have "k < q + 1" "q < k + 2" by (simp_all only: mult_less_cancel_left_pos [OF minute_pos])
  then have "k = q \<or> k = q - 1" by linarith
  then show ?thesis by (auto simp: k q algebra_simps)
qed

lemma aligned_floor:
  assumes "s mod minute_micros = 0" "s \<le> t"
  shows "s \<le> floor_minute t"
proof -
  obtain k where k: "s = minute_micros * k" using assms(1) by (auto simp: mod_eq_0_iff_dvd elim: dvdE)
  obtain q where q: "floor_minute t = minute_micros * q"
    using floor_minute_facts(3) [of t] by (auto simp: mod_eq_0_iff_dvd elim: dvdE)
  have "minute_micros * k < minute_micros * (q + 1)"
    using assms(2) floor_minute_facts(2) [of t] by (simp add: k q algebra_simps)
  then have "k \<le> q" by (simp only: mult_less_cancel_left_pos [OF minute_pos])
  then show ?thesis by (simp add: k q)
qed

lemma due_slot_parsed:
  assumes "parse_cron expression = Inr fs" "py_lower (py_strip expression) \<noteq> ''off''"
  shows "due_slot expression now =
    (let t = floor_minute (utc_micros now)
     in Inr (if fields_match fs t then Some t
             else if fields_match fs (t - minute_micros) then Some (t - minute_micros) else None))"
  using assms by (simp add: due_slot_def cron_matches_def Let_def)

text \<open>A valid schedule other than off has a slot due at a time exactly when one of the last two
  whole minutes (the current one, and the one before as grace) matches it, and the due slot is the
  latest of them.\<close>

theorem due_slot_latest:
  assumes "parse_cron expression = Inr fs" "py_lower (py_strip expression) \<noteq> ''off''"
  shows "due_slot expression now = Inr (Some s) \<longleftrightarrow>
      s mod minute_micros = 0 \<and> s \<le> utc_micros now \<and> utc_micros now < s + 2 * minute_micros
      \<and> fields_match fs s
      \<and> \<not> (\<exists>s'. s < s' \<and> s' \<le> utc_micros now \<and> s' mod minute_micros = 0 \<and> fields_match fs s')"
proof -
  let ?t = "utc_micros now"
  note f = floor_minute_facts [of ?t]
  have prev: "(floor_minute ?t - minute_micros) mod minute_micros = 0" using f(3) by (simp add: mod_diff_eq)
  have later: "s' = floor_minute ?t"
    if "floor_minute ?t - minute_micros < s'" "s' \<le> ?t" "s' mod minute_micros = 0" for s'
    using aligned_between [OF that(3,2)] that(1) f(2) by auto
  have pos: "0 < minute_micros" by (simp add: minute_micros_def)
  show ?thesis
  proof
    assume "due_slot expression now = Inr (Some s)"
    then consider "s = floor_minute ?t" "fields_match fs s"
      | "s = floor_minute ?t - minute_micros" "fields_match fs s" "\<not> fields_match fs (floor_minute ?t)"
      unfolding due_slot_parsed [OF assms] by (auto simp: Let_def split: if_splits)
    then show "s mod minute_micros = 0 \<and> s \<le> ?t \<and> ?t < s + 2 * minute_micros \<and> fields_match fs s
      \<and> \<not> (\<exists>s'. s < s' \<and> s' \<le> ?t \<and> s' mod minute_micros = 0 \<and> fields_match fs s')"
    proof cases
      case 1
      then show ?thesis using f pos aligned_floor [of _ ?t] by force
    next
      case 2
      then show ?thesis using f pos prev later by (metis diff_add_cancel diff_le_eq le_add_same_cancel1 less_imp_le order_trans add_less_cancel_right mult_2 add.assoc)
    qed
  next
    assume r: "s mod minute_micros = 0 \<and> s \<le> ?t \<and> ?t < s + 2 * minute_micros \<and> fields_match fs s
      \<and> \<not> (\<exists>s'. s < s' \<and> s' \<le> ?t \<and> s' mod minute_micros = 0 \<and> fields_match fs s')"
    then have "s = floor_minute ?t \<or> s = floor_minute ?t - minute_micros"
      by (intro aligned_between) auto
    then show "due_slot expression now = Inr (Some s)"
      unfolding due_slot_parsed [OF assms] using r f pos by (auto simp: Let_def)
  qed
qed

definition demo_cron :: "(int set \<times> bool) list" where
  "demo_cron = [({0, 30}, False), ({8, 10, 12, 14, 16}, False), (set [1..31], True), (set [1..12], True),
     ({1, 2, 3, 4, 5}, False)]"

lemma demo_schedule: "parse_cron ''0,30 8-17/2 * * 1-5'' = Inr demo_cron"
  by code_simp

text \<open>Tuesday 2024-01-02, 08:31:30 UTC: the slot of 08:30 is due.\<close>

definition demo_tuesday :: int where "demo_tuesday = 1704184290000000"

lemma demo_minutes:
  "fields_match demo_cron 1704184200000000" "\<not> fields_match demo_cron 1704184260000000"
  "py_lower (py_strip ''0,30 8-17/2 * * 1-5'') \<noteq> ''off''"
  by code_simp+

lemma demo_no_later:
  "\<not> (\<exists>s'. 1704184200000000 < s' \<and> s' \<le> utc_micros (Aware demo_tuesday) \<and> s' mod minute_micros = 0
      \<and> fields_match demo_cron s')"
proof
  assume "\<exists>s'. 1704184200000000 < s' \<and> s' \<le> utc_micros (Aware demo_tuesday) \<and> s' mod minute_micros = 0
      \<and> fields_match demo_cron s'"
  then obtain s' where s: "1704184200000000 < s'" "s' \<le> demo_tuesday" "s' mod minute_micros = 0"
    "fields_match demo_cron s'" by (elim exE conjE) simp
  have "s' = floor_minute demo_tuesday \<or> s' = floor_minute demo_tuesday - minute_micros"
    by (rule aligned_between [OF s(3,2)]) (use s(1) in \<open>simp add: demo_tuesday_def minute_micros_def\<close>)
  then have "s' = 1704184260000000" using s(1) by (simp add: floor_minute_def demo_tuesday_def minute_micros_def)
  then show False using s(4) demo_minutes(2) by simp
qed

lemma due_slot_latest_witness:
  "due_slot ''0,30 8-17/2 * * 1-5'' (Aware demo_tuesday) = Inr (Some 1704184200000000)
   \<and> isoformat 1704184200000000 = ''2024-01-02T08:30:00+00:00''"
proof
  show "due_slot ''0,30 8-17/2 * * 1-5'' (Aware demo_tuesday) = Inr (Some 1704184200000000)"
    unfolding due_slot_latest [OF demo_schedule demo_minutes(3)]
    using demo_minutes(1) demo_no_later by (simp add: demo_tuesday_def minute_micros_def)
  show "isoformat 1704184200000000 = ''2024-01-02T08:30:00+00:00''" by code_simp
qed

text \<open>A step on the day of the month is lost when the weekday field is a star: the schedule
  \<open>0 0 */2 * *\<close>, whose day field the parser reads as the odd days, runs at midnight of every day.\<close>

theorem day_step_lost:
  "(\<exists>minute hour month wday. parse_cron ''0 0 */2 * *'' =
      Inr [minute, hour, (set (filter odd [1..31]), True), month, wday])
   \<and> cron_matches ''0 0 */2 * *'' when = cron_matches ''0 0 * * *'' when"
proof -
  have a: "parse_cron ''0 0 */2 * *'' = Inr [({0}, False), ({0}, False), (set (filter odd [1..31]), True), (set [1..12], True), (set [0..6], True)]"
    by code_simp
  have b: "parse_cron ''0 0 * * *'' = Inr [({0}, False), ({0}, False), (set [1..31], True), (set [1..12], True), (set [0..6], True)]"
    by code_simp
  have "cron_matches ''0 0 */2 * *'' when = cron_matches ''0 0 * * *'' when"
    unfolding cron_matches_def a b by (simp add: fields_match_def cron_day_matches_def)
  then show ?thesis using a by blast
qed

section \<open>Runs\<close>

lemma sync_now_slot:
  assumes "sync_now e git refresh now slot db = (out, db')"
  shows "so_ran out" "so_ok out = gr_ok git"
    "get_setting e db' LAST_SLOT =
       (if so_ok out then (case slot of None \<Rightarrow> get_setting e db LAST_SLOT | Some s \<Rightarrow> isoformat s)
        else get_setting e db LAST_SLOT)"
    "get_setting e db' ''file_sync_cron'' = get_setting e db ''file_sync_cron''"
  using assms by (auto simp: sync_now_def Let_def save_status_slot split: if_splits option.split)

lemma scheduled_outcome:
  assumes "run_scheduled_sync e git refresh now db = Inr (out, db')" "so_ran out"
  obtains s where
    "due_slot (if get_setting e db ''file_sync_cron'' = [] then FILE_SYNC_CRON_DEFAULT
               else get_setting e db ''file_sync_cron'') now = Inr (Some s)"
    "get_setting e db LAST_SLOT \<noteq> isoformat s"
    "sync_now e git refresh (utc_micros now) (Some s) db = (out, db')"
  using assms
  by (auto simp: run_scheduled_sync_def Let_def quiet_def split: sum.splits option.splits if_splits)

text \<open>C14: A slot is run once: after a scheduled run that reached the git pull, any later tick for the
  same slot is quiet and changes nothing when the pull succeeded, and pulls again when it failed.\<close>

theorem slot_run_once:
  assumes ran: "run_scheduled_sync e git refresh now db = Inr (out, db')" "so_ran out"
    and same: "due_slot (if get_setting e db ''file_sync_cron'' = [] then FILE_SYNC_CRON_DEFAULT
                         else get_setting e db ''file_sync_cron'') now'
             = due_slot (if get_setting e db ''file_sync_cron'' = [] then FILE_SYNC_CRON_DEFAULT
                         else get_setting e db ''file_sync_cron'') now"
  shows "if so_ok out then run_scheduled_sync e git' refresh' now' db' = Inr (quiet, db')
         else (case run_scheduled_sync e git' refresh' now' db' of
                 Inl er \<Rightarrow> False | Inr (out', db'') \<Rightarrow> so_ran out' \<and> so_ok out' = gr_ok git')"
proof -
  from ran obtain s where s:
    "due_slot (if get_setting e db ''file_sync_cron'' = [] then FILE_SYNC_CRON_DEFAULT
               else get_setting e db ''file_sync_cron'') now = Inr (Some s)"
    "get_setting e db LAST_SLOT \<noteq> isoformat s"
    "sync_now e git refresh (utc_micros now) (Some s) db = (out, db')"
    by (rule scheduled_outcome)
  note k = sync_now_slot [OF s(3)]
  obtain out' db'' where r: "sync_now e git' refresh' (utc_micros now') (Some s) db' = (out', db'')"
    by (cases "sync_now e git' refresh' (utc_micros now') (Some s) db'") auto
  show ?thesis
    unfolding run_scheduled_sync_def Let_def k(4) same s(1)
    using k(3) s(2) r sync_now_slot(1,2) [OF r] by simp
qed

definition pulled :: git_result where
  "pulled = \<lparr>gr_ok = True, gr_reason = [], gr_changed = True, gr_old = ''aa'', gr_new = ''bb''\<rparr>"

definition pull_failed :: git_result where
  "pull_failed = \<lparr>gr_ok = False, gr_reason = ''boom'', gr_changed = False, gr_old = [], gr_new = []\<rparr>"

lemma demo_hour:
  "due_slot (if get_setting demo_env demo_store ''file_sync_cron'' = [] then FILE_SYNC_CRON_DEFAULT
             else get_setting demo_env demo_store ''file_sync_cron'') (Aware 1704182430000000) = Inr (Some 1704182400000000)"
  "due_slot (if get_setting demo_env demo_store ''file_sync_cron'' = [] then FILE_SYNC_CRON_DEFAULT
             else get_setting demo_env demo_store ''file_sync_cron'') (Aware 1704182490000000) = Inr (Some 1704182400000000)"
  by code_simp+

lemma demo_no_slot: "get_setting demo_env demo_store LAST_SLOT \<noteq> isoformat 1704182400000000"
  by code_simp

lemma slot_run_once_witness:
  "(case run_scheduled_sync demo_env pulled [] (Aware 1704182430000000) demo_store of
      Inl er \<Rightarrow> False
    | Inr (out, db') \<Rightarrow> run_scheduled_sync demo_env pulled [] (Aware 1704182490000000) db' = Inr (quiet, db'))"
proof -
  obtain out db' where r: "sync_now demo_env pulled [] 1704182430000000 (Some 1704182400000000) demo_store = (out, db')"
    by (cases "sync_now demo_env pulled [] 1704182430000000 (Some 1704182400000000) demo_store") auto
  have run: "run_scheduled_sync demo_env pulled [] (Aware 1704182430000000) demo_store = Inr (out, db')"
    unfolding run_scheduled_sync_def Let_def demo_hour(1) using demo_no_slot r by simp
  have ok: "so_ran out" "so_ok out" using sync_now_slot(1,2) [OF r] by (simp_all add: pulled_def)
  show ?thesis
    using slot_run_once [OF run ok(1) demo_hour(2) [folded demo_hour(1)], of pulled "[]"] ok(2) run by simp
qed

text \<open>A refresh that failed is retried by the next successful run, unless a pull fails in between:
  the failed pull overwrites the warning the retry looks for, so the next run that finds nothing to
  pull reports success without refreshing the fileserver, whatever that refresh would answer.\<close>

theorem failed_pull_forgets_refresh:
  assumes "get_setting e db LAST_STATUS = ''warning''"
    "py_contains ''fileserver refresh failed'' (get_setting e db LAST_MESSAGE)"
    "refresh \<noteq> []" "gr_ok idle" "\<not> gr_changed idle" "\<not> gr_ok failing"
  shows "get_setting e (snd (sync_now e idle refresh now slot db)) LAST_STATUS = ''warning''
    \<and> get_setting e (snd (sync_now e idle refresh now slot
           (snd (sync_now e failing r0 now0 slot0 db)))) LAST_STATUS = ''success''"
  using assms by (simp add: sync_now_def Let_def save_status_slot)

definition refresh_failed_store :: store where
  "refresh_failed_store = snd (sync_now demo_env pulled ''timeout'' 0 None demo_store)"

lemma refresh_failed_rows:
  "get_setting demo_env refresh_failed_store LAST_STATUS = ''warning''"
  "py_contains ''fileserver refresh failed'' (get_setting demo_env refresh_failed_store LAST_MESSAGE)"
  by code_simp+

lemma failed_pull_forgets_refresh_witness:
  "get_setting demo_env (snd (sync_now demo_env (pulled\<lparr>gr_changed := False\<rparr>) ''timeout'' 2 None
      (snd (sync_now demo_env pull_failed [] 1 None refresh_failed_store)))) LAST_STATUS = ''success''"
  using failed_pull_forgets_refresh [OF refresh_failed_rows, of "''timeout''" "pulled\<lparr>gr_changed := False\<rparr>" pull_failed 2 None "[]" 1 None]
  by (simp add: pulled_def pull_failed_def)

end
