(* ===== verification/Salt.thy ===== *)
theory Salt
  imports Cron
begin

text \<open>
  How the program publishes to Salt: the pure helpers of \<open>overstate_ui/jobs_helpers.py\<close> and the
  fan-out of \<open>overstate_ui/jobs_service.py\<close>. A publication is one \<open>local_async\<close> call to one master
  pod; what the pods answer is an argument, the record \<open>salt\<close>. A \<open>SaltApiError\<close> is a \<open>RuntimeErr\<close>.
\<close>

section \<open>Constants\<close>

definition COMPLETE_AFTER_SECONDS :: int where "COMPLETE_AFTER_SECONDS = 60"

definition SYNTHETIC_JID_PREFIXES :: "string list" where
  "SYNTHETIC_JID_PREFIXES = [''batch-'', ''orch-'', ''ssh-'', ''sync-'']"

definition DESTRUCTIVE_FUNS :: "string list" where
  "DESTRUCTIVE_FUNS = [''pkg.install'', ''pkg.remove'', ''service.restart'', ''ps.kill_pid'']"

definition CONFIRM_FUNS :: "string list" where
  "CONFIRM_FUNS = DESTRUCTIVE_FUNS @ [''state.apply'', ''state.highstate'', ''state.orchestrate'',
     ''saltutil.sync_all'', ''saltutil.refresh_pillar'']"

definition is_test_mode :: "string \<Rightarrow> string list \<Rightarrow> bool" where
  "is_test_mode fun_name args =
     (fun_name \<in> set [''state.apply'', ''state.highstate''] \<and> list_ex (\<lambda>a. py_lower a = ''test=true'') args)"

definition killable :: "job \<Rightarrow> bool" where
  "killable j =
     (\<not> j_complete j
      \<and> j_tgt_type j \<in> set [''glob'', ''list'', ''grain'', ''compound'', ''nodegroup'', ''group'']
      \<and> \<not> list_ex (\<lambda>p. starts_with p (j_jid j)) [''batch-'', ''ssh-'', ''sync-''])"

record batch =
  b_mode :: string
  b_size :: int
  b_stop_after :: int

definition form_or :: "form \<Rightarrow> string \<Rightarrow> string \<Rightarrow> string" where
  "form_or f k d = (case f k of [] \<Rightarrow> d | v # _ \<Rightarrow> v)"

definition parse_batch_fields :: "form \<Rightarrow> batch option" where
  "parse_batch_fields f =
     (let mode = form_or f ''batch_mode'' ''off''
      in if mode \<notin> set [''count'', ''percent''] then None
         else
           (case (py_int (form_or f ''batch_size'' ''0''), py_int (form_or f ''stop_after'' ''1'')) of
              (Some n, Some stop_after) \<Rightarrow>
                if n < 1 \<or> stop_after < 1 then None
                else Some \<lparr>b_mode = mode, b_size = n, b_stop_after = stop_after\<rparr>
            | _ \<Rightarrow> None))"

section \<open>Targets\<close>

definition roster_ids :: "store \<Rightarrow> string list" where
  "roster_ids db = sort (map m_id (minions db))"

definition str_members :: "pyval \<Rightarrow> pyval list" where
  "str_members v = (case v of PList xs \<Rightarrow> xs | _ \<Rightarrow> [])"

definition resolve_group_target :: "store \<Rightarrow> string \<Rightarrow> (string list \<times> int) res" where
  "resolve_group_target db name =
     (case minion_group_by_name db name of
        None \<Rightarrow> Inl (RuntimeErr (''unknown group '' @ quoted name))
      | Some grp \<Rightarrow>
          (let members = str_members (mg_members grp);
               targets = sort (concat (map (\<lambda>m. case m of PStr s \<Rightarrow> if s \<in> snapshot_ids db then [s] else [] | _ \<Rightarrow> [])
                                 members))
           in if targets = [] then Inl (RuntimeErr (''group '' @ quoted name @ '' matches no known minions''))
              else Inr (targets, int (length members) - int (length targets))))"

definition resolve_batch_roster :: "store \<Rightarrow> string \<Rightarrow> string \<Rightarrow> string list option" where
  "resolve_batch_roster db tgt tgt_type =
     (if tgt_type = ''list'' then Some (filter (\<lambda>m. m \<in> set (csv_ids tgt)) (roster_ids db))
      else if tgt_type = ''glob'' then Some (filter (\<lambda>m. fnmatchcase m tgt) (roster_ids db))
      else if tgt_type = ''group''
        then (case resolve_group_target db tgt of Inl _ \<Rightarrow> Some [] | Inr (targets, _) \<Rightarrow> Some targets)
      else None)"

section \<open>Arguments\<close>

type_synonym kwargs = "(string \<times> pyval) list"

definition PILLAR_OPTS :: "string list" where
  "PILLAR_OPTS = [''include_pillar'', ''include_opts'']"

definition beacon_item :: "pyval \<Rightarrow> pyval list" where
  "beacon_item item =
     (case item of
        PDict kvs \<Rightarrow> [PDict (filter (\<lambda>(k, _). k \<notin> set PILLAR_OPTS) kvs)]
      | PStr s \<Rightarrow> if hd (py_split CHR ''='' s) \<in> set PILLAR_OPTS then [] else [PStr s]
      | v \<Rightarrow> [v])"

definition force_beacon_kwargs :: "string \<Rightarrow> pyval list \<Rightarrow> kwargs option \<Rightarrow> pyval list \<times> kwargs option" where
  "force_beacon_kwargs fun_name args kwarg =
     (if fun_name \<noteq> ''beacons.list'' then (args, kwarg)
      else (concat (map beacon_item args),
            Some (assoc_set ''include_opts'' (PBool False) (assoc_set ''include_pillar'' (PBool False)
              (case kwarg of None \<Rightarrow> [] | Some kvs \<Rightarrow> kvs)))))"

fun inner_fun_of_args :: "pyval list \<Rightarrow> string option" where
  "inner_fun_of_args [] = None"
| "inner_fun_of_args (item # items) =
     (case item of
        PDict kvs \<Rightarrow> (case dict_get ''function'' kvs of Some (PStr f) \<Rightarrow> Some f | _ \<Rightarrow> inner_fun_of_args items)
      | PStr s \<Rightarrow>
          (case py_partition CHR ''='' s of (name, sep, v) \<Rightarrow>
             if sep \<and> name = ''function'' then Some v else inner_fun_of_args items)
      | _ \<Rightarrow> inner_fun_of_args items)"

definition schedule_inner_fun :: "pyval list \<Rightarrow> kwargs option \<Rightarrow> string option" where
  "schedule_inner_fun args kwarg =
     (case kwarg of
        None \<Rightarrow> inner_fun_of_args args
      | Some kvs \<Rightarrow> (case dict_get ''function'' kvs of Some (PStr f) \<Rightarrow> Some f | _ \<Rightarrow> inner_fun_of_args args))"

section \<open>Publishing\<close>

record publication =
  pb_pod :: string
  pb_jid :: string
  pb_tgt :: pyval
  pb_tgt_type :: string
  pb_fun :: string
  pb_args :: "pyval list"
  pb_kwarg :: "kwargs option"

text \<open>
  \<open>refused\<close> is a pod's answer to a publication: \<open>None\<close> when it accepts it, else the message of the
  error. Pods publish in parallel when there are two or more, and \<open>completion\<close> is the order in which
  the failing ones finish. \<open>ssh_reply\<close> is the answer to a \<open>salt-ssh\<close> call.
\<close>

record salt =
  pods :: "string list"
  refused :: "publication \<Rightarrow> string option"
  completion :: "publication list \<Rightarrow> publication list"
  ssh_reply :: "publication \<Rightarrow> string + pyval"

definition pod_publications ::
  "salt \<Rightarrow> pyval \<Rightarrow> string \<Rightarrow> pyval list \<Rightarrow> string \<Rightarrow> string \<Rightarrow> kwargs option \<Rightarrow> publication list" where
  "pod_publications s tgt fun_name args tgt_type jid kwarg =
     map (\<lambda>p. \<lparr>pb_pod = p, pb_jid = jid, pb_tgt = tgt, pb_tgt_type = tgt_type, pb_fun = fun_name,
               pb_args = args, pb_kwarg = kwarg\<rparr>) (pods s)"

definition publish_failures :: "salt \<Rightarrow> publication list \<Rightarrow> publication list" where
  "publish_failures s pubs =
     (let failed = filter (\<lambda>p. refused s p \<noteq> None) pubs
      in if length pubs < 2 then failed else completion s failed)"

definition publish_all_async ::
  "salt \<Rightarrow> pyval \<Rightarrow> string \<Rightarrow> pyval list \<Rightarrow> string \<Rightarrow> string \<Rightarrow> kwargs option
   \<Rightarrow> string list res \<times> publication list" where
  "publish_all_async s tgt fun_name args tgt_type jid kwarg =
     (let pubs = pod_publications s tgt fun_name args tgt_type jid kwarg;
          failures = publish_failures s pubs
      in (if failures \<noteq> [] \<and> length failures = length pubs
          then Inl (RuntimeErr (or_empty (refused s (last failures))))
          else Inr (map pb_pod failures), pubs))"

text \<open>\<open>strftime("%Y%m%d%H%M%S%f")\<close> of the current UTC time.\<close>

definition new_jid :: "int \<Rightarrow> string" where
  "new_jid now =
     (case dt_date now of (y, m, d) \<Rightarrow>
        pad 4 y @ pad 2 m @ pad 2 d @ pad 2 (dt_hour now) @ pad 2 (dt_minute now) @ pad 2 (dt_second now)
        @ pad 6 (dt_micro now))"

definition payload_success :: "pyval \<Rightarrow> bool" where
  "payload_success payload =
     (case payload of
        PDict kvs \<Rightarrow> (case dict_get ''success'' kvs of Some v \<Rightarrow> py_truth v | None \<Rightarrow> True)
      | v \<Rightarrow> py_truth v)"

definition split_pair :: "string \<times> pyval \<Rightarrow> string option \<times> kwargs \<Rightarrow> string option \<times> kwargs" where
  "split_pair kv acc =
     (case (kv, acc) of
        ((k, v), (jid, mapping)) \<Rightarrow>
          if k = ''jid'' then (if py_truth v \<and> jid = None then Some (py_str v) else jid, mapping)
          else
            (case (k = ''return'', v) of
               (True, PDict kvs) \<Rightarrow> (jid, fold (\<lambda>(k', v'). assoc_set k' v') kvs mapping)
             | _ \<Rightarrow> (jid, assoc_set k v mapping)))"

definition split_sync_result :: "pyval \<Rightarrow> string option \<times> kwargs" where
  "split_sync_result result =
     fold (\<lambda>item acc. case item of PDict kvs \<Rightarrow> fold split_pair kvs acc | _ \<Rightarrow> acc)
       (case result of PList xs \<Rightarrow> xs | v \<Rightarrow> [v]) (None, [])"

end
