(* ===== verification/Conformity.thy ===== *)
theory Conformity
  imports Salt
begin

text \<open>
  Conformity verdicts, \<open>overstate_ui/states.py\<close>: narrowing a state return to the watched SLS files,
  the verdict a landed job stamps on each minion it touched, and the verdict trail with its bound.
  The trail and the watch list are the component's own tables, the record \<open>verdicts\<close>.
\<close>

definition HISTORY_LIMIT :: nat where "HISTORY_LIMIT = 20"

record verdict_row =
  v_id :: int
  v_minion :: string
  v_jid :: string
  v_status :: string
  v_checked_at :: int

record verdicts =
  watched_states :: "string list"
  history :: "verdict_row list"
  history_seq :: int

section \<open>Narrowing\<close>

definition in_watched :: "string list \<Rightarrow> pyval \<Rightarrow> bool" where
  "in_watched watched st =
     (case st of
        PDict kvs \<Rightarrow> (case dict_get ''__sls__'' kvs of Some (PStr s) \<Rightarrow> s \<in> set watched | _ \<Rightarrow> False)
      | _ \<Rightarrow> False)"

definition dict_or_none :: "string \<Rightarrow> pyval \<Rightarrow> pyval" where
  "dict_or_none k v = (case v of PDict kvs \<Rightarrow> (case dict_get k kvs of None \<Rightarrow> PNone | Some x \<Rightarrow> x) | _ \<Rightarrow> PNone)"

definition state_drifted :: "pyval \<Rightarrow> bool" where
  "state_drifted st =
     (let result = dict_or_none ''result'' st
      in result = PBool False \<or> (result = PNone \<and> py_truth (dict_or_none ''changes'' st)))"

definition narrow_to_watched :: "pyval \<Rightarrow> string list \<Rightarrow> string option \<times> bool" where
  "narrow_to_watched payload watched =
     (case payload of
        PDict kvs \<Rightarrow>
          (let matched = filter (in_watched watched) (map snd kvs)
           in if matched = [] then (None, True)
              else if list_ex state_drifted matched then (Some ''drifted'', False)
              else (Some ''ok'', False))
      | _ \<Rightarrow> (None, True))"

definition watched_list :: "verdicts \<Rightarrow> string list" where
  "watched_list v = sort (watched_states v)"

section \<open>The verdict trail\<close>

text \<open>Newest first by id; everything behind the first \<open>HISTORY_LIMIT\<close> rows of the minion goes.\<close>

definition trail :: "string \<Rightarrow> verdicts \<Rightarrow> verdict_row list" where
  "trail mid v = rev (sort_key v_id (filter (\<lambda>r. v_minion r = mid) (history v)))"

definition record_history :: "string \<Rightarrow> string \<Rightarrow> string \<Rightarrow> int \<Rightarrow> verdicts \<Rightarrow> verdicts" where
  "record_history mid jid status now v =
     (let v1 = v\<lparr>history := history v @ [\<lparr>v_id = history_seq v, v_minion = mid, v_jid = jid,
                  v_status = status, v_checked_at = now\<rparr>], history_seq := history_seq v + 1\<rparr>;
          stale = drop HISTORY_LIMIT (trail mid v1)
      in v1\<lparr>history := filter (\<lambda>r. v_id r \<notin> set (map v_id stale)) (history v1)\<rparr>)"

section \<open>Stamping\<close>

definition py_is_true :: "string \<Rightarrow> bool" where
  "py_is_true s = (py_lower s = ''true'')"

definition dict_payload :: "pyval \<Rightarrow> pyval" where
  "dict_payload p = (case p of PDict kvs \<Rightarrow> p | _ \<Rightarrow> PDict [])"

definition return_status :: "string list \<Rightarrow> salt_return \<Rightarrow> string \<times> bool" where
  "return_status watched r =
     (let whole = (if py_is_true (sr_success r) then ''ok'' else ''drifted'')
      in if watched = [] then (whole, False)
         else
           (case narrow_to_watched (dict_payload (sr_payload r)) watched of
              (Some status, partial) \<Rightarrow> (status, partial)
            | (None, partial) \<Rightarrow> (whole, partial)))"

text \<open>A verdict of a newer job keeps the floor.\<close>

definition floor_newer :: "store \<Rightarrow> job \<Rightarrow> minion \<Rightarrow> bool" where
  "floor_newer db j m =
     (case dict_or_none ''jid'' (m_conformity m) of
        PStr ejid \<Rightarrow>
          if ejid = [] \<or> ejid = j_jid j then False
          else
            (case job_by_jid db ejid of
               None \<Rightarrow> False
             | Some ejob \<Rightarrow>
                 (case (j_started_at ejob, j_started_at j) of
                    (Some t, Some t') \<Rightarrow> utc_micros t' < utc_micros t
                  | _ \<Rightarrow> False))
      | _ \<Rightarrow> False)"

definition verdict_dict :: "string \<Rightarrow> string \<Rightarrow> int \<Rightarrow> bool \<Rightarrow> pyval" where
  "verdict_dict status jid now partial =
     PDict ([(''status'', PStr status), (''jid'', PStr jid), (''checked_at'', PStr (isoformat now)),
             (''targeted'', PBool True)] @ (if partial then [(''partial'', PBool True)] else []))"

definition new_minion :: "string \<Rightarrow> minion" where
  "new_minion mid = \<lparr>m_id = mid, m_key_status = ''accepted'', m_last_seen = None, m_grains = PDict [],
     m_conformity = PDict []\<rparr>"

definition put_minion :: "minion \<Rightarrow> store \<Rightarrow> store" where
  "put_minion m db =
     (if minion_by_id db (m_id m) = None then db\<lparr>minions := minions db @ [m]\<rparr>
      else db\<lparr>minions := update_rows (\<lambda>r. m_id r = m_id m) (\<lambda>_. m) (minions db)\<rparr>)"

definition last_return :: "string \<Rightarrow> salt_return list \<Rightarrow> string \<Rightarrow> salt_return option" where
  "last_return jid rows mid = find_row sr_minion_id mid (rev (filter (\<lambda>r. sr_jid r = jid) rows))"

definition minion_status ::
  "job \<Rightarrow> salt_return list \<Rightarrow> string list option \<Rightarrow> string list \<Rightarrow> string \<Rightarrow> (string \<times> bool) option" where
  "minion_status j rows roster watched mid =
     (case last_return (j_jid j) rows mid of
        Some r \<Rightarrow> Some (return_status watched r)
      | None \<Rightarrow>
          (case roster of
             None \<Rightarrow> None
           | Some ids \<Rightarrow> if j_complete j \<and> mid \<in> set ids then Some (''unreachable'', False) else None))"

definition stamp ::
  "job \<Rightarrow> salt_return list \<Rightarrow> string list option \<Rightarrow> int \<Rightarrow> string \<Rightarrow> store \<times> verdicts \<Rightarrow> store \<times> verdicts" where
  "stamp j rows roster now mid s =
     (case s of (db, v) \<Rightarrow>
        (case minion_status j rows roster (watched_list v) mid of
           None \<Rightarrow> s
         | Some (status, partial) \<Rightarrow>
             (let row = (case minion_by_id db mid of None \<Rightarrow> new_minion mid | Some m \<Rightarrow> m)
              in if floor_newer db j row then s
                 else (put_minion (row\<lparr>m_conformity := verdict_dict status (j_jid j) now partial\<rparr>) db,
                       record_history mid (j_jid j) status now v))))"

definition touched_ids :: "job \<Rightarrow> salt_return list \<Rightarrow> string list option \<Rightarrow> string list" where
  "touched_ids j rows roster =
     sort (remdups (map sr_minion_id (filter (\<lambda>r. sr_jid r = j_jid j) rows)
       @ (if j_complete j then (case roster of None \<Rightarrow> [] | Some ids \<Rightarrow> ids) else [])))"

definition apply_sync_verdicts ::
  "job \<Rightarrow> salt_return list \<Rightarrow> int \<Rightarrow> store \<times> verdicts \<Rightarrow> store \<times> verdicts" where
  "apply_sync_verdicts j rows now s =
     (if \<not> starts_with ''state.'' (j_fun j) then s
      else
        (let roster = resolve_batch_roster (fst s) (j_tgt j)
               (if j_tgt_type j = [] then ''glob'' else j_tgt_type j)
         in fold (stamp j rows roster now) (touched_ids j rows roster) s))"

section \<open>Summary\<close>

definition conformity_bucket :: "pyval \<Rightarrow> string" where
  "conformity_bucket status =
     (if status = PStr ''drifted'' \<or> status = PStr ''failed'' then ''drifted''
      else (case status of PStr s \<Rightarrow> if s \<in> set [''ok'', ''drifted'', ''unreachable'', ''unknown''] then s else ''unknown''
            | _ \<Rightarrow> ''unknown''))"

end
