(* ===== verification/JobSync.thy ===== *)
theory JobSync
  imports Conformity
begin

text \<open>
  \<open>sync_job\<close> and its helpers, \<open>overstate_ui/jobs_service.py\<close>: copying the returner's rows of a job
  into \<open>job_returns\<close>, the rule by which a job completes, and the bounded wait for a first return.
  The answer of the master's \<open>jobs.lookup_jid\<close> runner is an argument, \<open>None\<close> when the call fails.
\<close>

type_synonym world = "store \<times> verdicts"

definition verdicts_eligible :: "job \<Rightarrow> bool" where
  "verdicts_eligible j =
     (if starts_with ''batch-'' (j_jid j) then False
      else if (case j_batch_group j of None \<Rightarrow> False | Some g \<Rightarrow> g \<noteq> [] \<and> j_jid j = ''batch-'' @ g) then False
      else j_tgt_type j \<noteq> ''runner'')"

definition master_minions :: "pyval option \<Rightarrow> string \<Rightarrow> string set option" where
  "master_minions reply jid =
     (case reply of
        Some (PDict kvs) \<Rightarrow>
          (case dict_get jid kvs of
             Some (PDict data) \<Rightarrow> if data = [] then None else Some (set (map fst data))
           | _ \<Rightarrow> None)
      | _ \<Rightarrow> None)"

definition put_job :: "job \<Rightarrow> store \<Rightarrow> store" where
  "put_job j db =
     (if job_by_jid db (j_jid j) = None then db\<lparr>jobs := jobs db @ [j]\<rparr>
      else db\<lparr>jobs := update_rows (\<lambda>r. j_jid r = j_jid j) (\<lambda>_. j) (jobs db)\<rparr>)"

definition return_of :: "store \<Rightarrow> string \<Rightarrow> string \<Rightarrow> job_return option" where
  "return_of db jid mid = find_row (\<lambda>r. (jr_jid r, jr_minion_id r)) (jid, mid) (job_returns db)"

text \<open>One returner row: a new return, or the stored one with its verdict and payload refreshed.\<close>

definition copy_return :: "string \<Rightarrow> salt_return \<Rightarrow> store \<Rightarrow> store" where
  "copy_return jid r db =
     (let success = py_is_true (sr_success r); payload = dict_payload (sr_payload r)
      in if return_of db jid (sr_minion_id r) = None
         then db\<lparr>job_returns := job_returns db @
           [\<lparr>jr_jid = jid, jr_minion_id = sr_minion_id r, jr_success = success, jr_retcode = 0,
             jr_payload = payload\<rparr>]\<rparr>
         else db\<lparr>job_returns := update_rows (\<lambda>x. (jr_jid x, jr_minion_id x) = (jid, sr_minion_id r))
           (\<lambda>x. x\<lparr>jr_success := success, jr_payload := payload\<rparr>) (job_returns db)\<rparr>)"

definition rows_of :: "store \<Rightarrow> string \<Rightarrow> salt_return list" where
  "rows_of db jid = filter (\<lambda>r. sr_jid r = jid) (salt_returns db)"

definition stored_mids :: "store \<Rightarrow> string \<Rightarrow> string list" where
  "stored_mids db jid = map jr_minion_id (filter (\<lambda>r. jr_jid r = jid) (job_returns db))"

definition micros_since :: "int \<Rightarrow> int \<Rightarrow> bool" where
  "micros_since now t = (COMPLETE_AFTER_SECONDS * 1000000 < now - t)"

definition younger :: "salt_return \<Rightarrow> int option \<Rightarrow> int option" where
  "younger r acc =
     (case sr_alter_time r of
        None \<Rightarrow> acc
      | Some t \<Rightarrow> Some (case acc of None \<Rightarrow> utc_micros t | Some y \<Rightarrow> max y (utc_micros t)))"

definition youngest :: "salt_return list \<Rightarrow> int option" where
  "youngest rows = fold younger rows None"

definition new_job_of :: "string \<Rightarrow> string \<Rightarrow> salt_return \<Rightarrow> store \<Rightarrow> job" where
  "new_job_of jid user_name r db =
     \<lparr>j_jid = jid, j_fun = sr_fun r, j_tgt = [], j_tgt_type = ''glob'', j_user = user_name,
      j_started_at = Some (Aware (db_now db)), j_complete = False, j_batch_group = None, j_batch_state = None,
      j_tgt_requested = None\<rparr>"

text \<open>The completion rule over the rows of a job that the master no longer holds open.\<close>

definition quiet_long_enough :: "int \<Rightarrow> salt_return list \<Rightarrow> job \<Rightarrow> bool" where
  "quiet_long_enough now rows j =
     (case youngest rows of
        Some y \<Rightarrow> micros_since now y
      | None \<Rightarrow> (case j_started_at j of None \<Rightarrow> False | Some t \<Rightarrow> micros_since now (utc_micros t)))"

definition commit_verdicts :: "job \<Rightarrow> salt_return list \<Rightarrow> int \<Rightarrow> world \<Rightarrow> world" where
  "commit_verdicts j rows now w = (if verdicts_eligible j then apply_sync_verdicts j rows now w else w)"

definition sync_empty :: "pyval option \<Rightarrow> int \<Rightarrow> job \<Rightarrow> world \<Rightarrow> world" where
  "sync_empty reply now j w =
     (case j_started_at j of
        None \<Rightarrow> w
      | Some t \<Rightarrow>
          if j_complete j then w
          else
            (let master_mids = master_minions reply (j_jid j);
                 master_done = (case master_mids of None \<Rightarrow> True | Some ms \<Rightarrow> ms = {})
             in if master_done \<and> micros_since now (utc_micros t)
                then (let j' = j\<lparr>j_complete := True\<rparr>
                      in commit_verdicts j' [] now (put_job j' (fst w), snd w))
                else w))"

definition sync_rows :: "pyval option \<Rightarrow> int \<Rightarrow> job \<Rightarrow> salt_return list \<Rightarrow> world \<Rightarrow> world" where
  "sync_rows reply now j rows w =
     (let db = fst w; jid = j_jid j;
          stored = stored_mids db jid;
          db1 = fold (copy_return jid) rows db;
          new_mids = filter (\<lambda>m. m \<notin> set stored) (map sr_minion_id rows)
      in if j_complete j \<and> new_mids = [] then (put_job j db1, snd w)
         else
           (let known = set stored \<union> set new_mids;
                complete = (case master_minions reply jid of
                              Some ms \<Rightarrow> if \<not> ms \<subseteq> known then False else quiet_long_enough now rows j
                            | None \<Rightarrow> quiet_long_enough now rows j);
                j' = j\<lparr>j_complete := complete\<rparr>
            in commit_verdicts j' rows now (put_job j' db1, snd w)))"

definition sync_job :: "pyval option \<Rightarrow> string \<Rightarrow> int \<Rightarrow> string \<Rightarrow> world \<Rightarrow> world" where
  "sync_job reply actor now jid w =
     (let db = fst w; rows = rows_of db jid
      in case job_by_jid db jid of
           Some j \<Rightarrow>
             if list_ex (\<lambda>p. starts_with p (j_jid j)) SYNTHETIC_JID_PREFIXES then w
             else if rows = [] then sync_empty reply now j w
             else sync_rows reply now j rows w
         | None \<Rightarrow>
             (case rows of
                [] \<Rightarrow> w
              | r # _ \<Rightarrow> sync_rows reply now (new_job_of jid actor r db) rows w))"

section \<open>Waiting for a return\<close>

text \<open>
  The passes of \<open>_await_returner\<close> until the deadline: at each the returner may have written rows
  (\<open>arrive\<close>), the clock has moved and the master answers.
\<close>

record pass =
  p_arrive :: "salt_return list"
  p_now :: int
  p_reply :: "pyval option"

definition arrived :: "salt_return list \<Rightarrow> world \<Rightarrow> world" where
  "arrived rs w = ((fst w)\<lparr>salt_returns := salt_returns (fst w) @ rs\<rparr>, snd w)"

fun await_returner :: "string \<Rightarrow> string \<Rightarrow> pass list \<Rightarrow> world \<Rightarrow> bool \<times> world" where
  "await_returner actor jid [] w = (False, w)"
| "await_returner actor jid (p # ps) w =
     (let w' = sync_job (p_reply p) actor (p_now p) jid (arrived (p_arrive p) w)
      in if stored_mids (fst w') jid \<noteq> [] then (True, w') else await_returner actor jid ps w')"

end
