(* ===== verification/Launch.thy ===== *)
theory Launch
  imports JobSync
begin

text \<open>
  \<open>launch\<close>, \<open>overstate_ui/jobs_service.py\<close>: the one door from the program to a Salt publish. In scoped
  mode the request passes the function class, the ssh rule, the target intersection and the schedule
  rule before anything reaches a pod; then the job row and the audit rows are written. The result
  carries every publication that was sent, so the properties can speak about the wire.
\<close>

record request =
  rq_tgt :: string
  rq_tgt_type :: string
  rq_fun :: string
  rq_args :: "pyval list"
  rq_async :: bool
  rq_via :: string
  rq_kwarg :: "kwargs option"
  rq_requested :: "string option"

datatype launch_fail = LaunchDenied denied | LaunchFailed py_error

text \<open>\<open>session.add(Job(...)); session.commit()\<close>: the primary key and its width of 32 characters.\<close>

definition add_job :: "job \<Rightarrow> store \<Rightarrow> store res" where
  "add_job j db =
     (if job_by_jid db (j_jid j) \<noteq> None then Inl IntegrityError
      else if 32 < length (j_jid j) then Inl (RuntimeErr ''value too long for type character varying(32)'')
      else Inr (db\<lparr>jobs := jobs db @ [j]\<rparr>))"

definition actor_label :: "user \<Rightarrow> string" where
  "actor_label u = (if u_username u = [] then ''unknown'' else u_username u)"

section \<open>The scoped gate\<close>

text \<open>What the gate hands on: the request as it will be published, the ids the intersection dropped,
  and the permission that was checked.\<close>

record admitted =
  ad_request :: request
  ad_narrowed :: "string set"
  ad_perm :: string

definition schedule_admitted :: "env \<Rightarrow> gctx \<Rightarrow> store \<Rightarrow> user \<Rightarrow> string option \<Rightarrow> string set option \<Rightarrow> bool" where
  "schedule_admitted e g db who inner hit =
     (case hit of
        None \<Rightarrow> may_define_schedule_fleet e g db who inner
      | Some ids \<Rightarrow>
          (case inner of
             None \<Rightarrow> False
           | Some f \<Rightarrow> ids \<noteq> {} \<and> list_all (\<lambda>mid. may_define_schedule e g db who mid f) (sorted_list_of_set ids)))"

definition scoped_gate :: "env \<Rightarrow> gctx \<Rightarrow> store \<Rightarrow> user \<Rightarrow> request \<Rightarrow> (string \<times> denied) + admitted" where
  "scoped_gate e g db who rq =
     (case publish_perm (rq_fun rq) of
        None \<Rightarrow> Inl (rq_fun rq, AuthzDenied (rq_fun rq) ''unknown function class'' None)
      | Some perm \<Rightarrow>
          if rq_via rq = ''ssh'' \<and> \<not> has_fleet e g db who perm
          then Inl (perm, AuthzDenied perm ''ssh needs a fleet grant'' (Some ''needs-fleet''))
          else
            (case force_beacon_kwargs (rq_fun rq) (rq_args rq) (rq_kwarg rq) of
               (args, kwarg) \<Rightarrow>
                 (case constrain_target_verbose e g db who perm (rq_tgt rq) (rq_tgt_type rq) of
                    Inl d \<Rightarrow> Inl (d_perm d, d)
                  | Inr (tgt, tgt_type, requested, hit) \<Rightarrow>
                      (let narrowed = (case (requested, hit) of (Some r, Some h) \<Rightarrow> r - h | _ \<Rightarrow> {})
                       in if rq_fun rq = ''schedule.add''
                             \<and> \<not> schedule_admitted e g db who (schedule_inner_fun args kwarg) hit
                          then Inl (perm, AuthzDenied perm ''schedule not allowed here'' None)
                          else Inr \<lparr>ad_request = rq\<lparr>rq_tgt := tgt, rq_tgt_type := tgt_type, rq_args := args,
                                      rq_kwarg := kwarg\<rparr>,
                                    ad_narrowed = narrowed, ad_perm = perm\<rparr>))))"

text \<open>The gate with its effects: the entries memo and, on a refusal, the deny row.\<close>

definition admit :: "env \<Rightarrow> user \<Rightarrow> request \<Rightarrow> ctx \<Rightarrow> (denied + admitted) \<times> ctx" where
  "admit e who rq c =
     (if rbac_mode e (c_db c) \<noteq> ''scoped''
      then (Inr \<lparr>ad_request = rq, ad_narrowed = {}, ad_perm = []\<rparr>, c)
      else
        (let c' = (if publish_perm (rq_fun rq) = None then c else touch who c)
         in case scoped_gate e (c_memo c) (c_db c) who rq of
              Inl (perm, d) \<Rightarrow>
                (Inl d, on_db (audit_deny who perm None (d_detail d) (Some (actor_label who))) c')
            | Inr a \<Rightarrow> (Inr a, c')))"

section \<open>Audit and notices\<close>

definition run_audit_ids :: "store \<Rightarrow> string \<Rightarrow> string \<Rightarrow> string option \<times> string option" where
  "run_audit_ids db tgt tgt_type =
     (case published_snapshot_ids db (Some tgt) (Some tgt_type) of
        None \<Rightarrow> (None, None)
      | Some mids \<Rightarrow>
          (case sorted_list_of_set mids of
             [] \<Rightarrow> (None, None)
           | [mid] \<Rightarrow> (Some mid, None)
           | _ \<Rightarrow> (None, Some (csv_of mids))))"

definition noticed_name :: "user \<Rightarrow> string option \<Rightarrow> string" where
  "noticed_name cu actor = (if or_empty actor = [] then u_username cu else or_empty actor)"

definition audit_narrowed :: "user \<Rightarrow> string set \<Rightarrow> string \<Rightarrow> string \<Rightarrow> string option \<Rightarrow> ctx \<Rightarrow> ctx" where
  "audit_narrowed cu narrowed perm jid actor c =
     (if narrowed = {} \<or> perm = [] then c
      else
        (let c1 = on_db (log_event (noticed_name cu actor) ''job-constrained'' (Some jid) (Some ''allow'')
                    (Some perm) None (Some (csv_of narrowed))) c
         in if actor \<noteq> None then c1
            else flash (nat_str (card narrowed) @ '' minions are outside your scope and will not be touched.'')
                   ''warning'' c1))"

definition warn_one :: "user \<Rightarrow> string \<Rightarrow> string \<Rightarrow> string option \<Rightarrow> string \<Rightarrow> ctx \<Rightarrow> ctx" where
  "warn_one cu fun_name jid actor pod c =
     on_db (log_event (noticed_name cu actor) (''run-partial:'' @ fun_name @ '':'' @ pod) (Some jid) None None
             None None)
       (if actor = None then flash (pod @ '' is unreachable, so results may be partial.'') ''warning'' c else c)"

definition warn_missed :: "user \<Rightarrow> string list \<Rightarrow> string \<Rightarrow> string \<Rightarrow> string option \<Rightarrow> ctx \<Rightarrow> ctx" where
  "warn_missed cu missed fun_name jid actor c = fold (warn_one cu fun_name jid actor) missed c"

section \<open>Firing\<close>

definition job_row :: "string \<Rightarrow> request \<Rightarrow> string \<Rightarrow> string \<Rightarrow> bool \<Rightarrow> store \<Rightarrow> job" where
  "job_row jid rq typed name finished db =
     \<lparr>j_jid = jid, j_fun = rq_fun rq, j_tgt = rq_tgt rq, j_tgt_type = rq_tgt_type rq, j_user = name,
      j_started_at = Some (Aware (db_now db)), j_complete = finished, j_batch_group = None, j_batch_state = None,
      j_tgt_requested = Some typed\<rparr>"

type_synonym launched = "(launch_fail + string) \<times> (ctx \<times> verdicts) \<times> publication list"

definition ssh_returns :: "string \<Rightarrow> kwargs \<Rightarrow> job_return list" where
  "ssh_returns jid mapping =
     map (\<lambda>(mid, p). \<lparr>jr_jid = jid, jr_minion_id = mid, jr_success = payload_success p, jr_retcode = 0,
        jr_payload = p\<rparr>) mapping"

definition fire_ssh :: "salt \<Rightarrow> int \<Rightarrow> user \<Rightarrow> user \<Rightarrow> string option \<Rightarrow> string \<Rightarrow> admitted \<Rightarrow> ctx \<times> verdicts \<Rightarrow> launched" where
  "fire_ssh s now cu who notice typed a cv =
     (let rq = ad_request a; c = fst cv;
          pub = \<lparr>pb_pod = ''default'', pb_jid = [], pb_tgt = PStr (rq_tgt rq), pb_tgt_type = rq_tgt_type rq,
                 pb_fun = rq_fun rq, pb_args = rq_args rq, pb_kwarg = rq_kwarg rq\<rparr>
      in case ssh_reply s pub of
           Inl msg \<Rightarrow> (Inl (LaunchFailed (RuntimeErr msg)), cv, [pub])
         | Inr result \<Rightarrow>
             (case split_sync_result result of
                (real_jid, mapping) \<Rightarrow>
                  (let jid = (if or_empty real_jid \<noteq> [] then or_empty real_jid
                              else ''ssh-'' @ py_str_int (now div 1000000));
                       ids = sort (map fst mapping)
                   in case add_job (job_row jid rq typed (actor_label who) True (c_db c)) (c_db c) of
                        Inl er \<Rightarrow> (Inl (LaunchFailed er), cv, [pub])
                      | Inr db \<Rightarrow>
                          (let db1 = db\<lparr>job_returns := job_returns db @ ssh_returns jid mapping\<rparr>;
                               db2 = log_event (actor_label who) (''run-ssh:'' @ rq_fun rq) (Some jid) None None
                                 (if length ids = 1 then Some (hd ids) else None)
                                 (if 1 < length ids then Some (py_join '','' ids) else None) db1
                           in (Inr jid, (audit_narrowed cu (ad_narrowed a) (ad_perm a) jid notice (c\<lparr>c_db := db2\<rparr>),
                                         snd cv), [pub])))))"

definition record_run :: "user \<Rightarrow> user \<Rightarrow> string option \<Rightarrow> admitted \<Rightarrow> string \<Rightarrow> string list \<Rightarrow> ctx \<Rightarrow> ctx" where
  "record_run cu who notice a jid missed c =
     (let rq = ad_request a
      in case run_audit_ids (c_db c) (rq_tgt rq) (rq_tgt_type rq) of
           (run_mid, run_detail) \<Rightarrow>
             warn_missed cu missed (rq_fun rq) jid notice
               (audit_narrowed cu (ad_narrowed a) (ad_perm a) jid notice
                 (on_db (log_event (actor_label who) (''run:'' @ rq_fun rq) (Some jid) None None run_mid run_detail) c)))"

definition fire_local ::
  "salt \<Rightarrow> int \<Rightarrow> pass list \<Rightarrow> user \<Rightarrow> user \<Rightarrow> string option \<Rightarrow> string \<Rightarrow> admitted \<Rightarrow> ctx \<times> verdicts \<Rightarrow> launched" where
  "fire_local s now passes cu who notice typed a cv =
     (let rq = ad_request a; c = fst cv; jid = new_jid now
      in case publish_all_async s (PStr (rq_tgt rq)) (rq_fun rq) (rq_args rq) (rq_tgt_type rq) jid (rq_kwarg rq) of
           (Inl er, wire) \<Rightarrow> (Inl (LaunchFailed er), cv, wire)
         | (Inr missed, wire) \<Rightarrow>
             (case add_job (job_row jid rq typed (actor_label who) False (c_db c)) (c_db c) of
                Inl er \<Rightarrow> (Inl (LaunchFailed er), cv, wire)
              | Inr db \<Rightarrow>
                  (let c1 = record_run cu who notice a jid missed (c\<lparr>c_db := db\<rparr>)
                   in if rq_async rq then (Inr jid, (c1, snd cv), wire)
                      else
                        (case await_returner (actor_label who) jid passes (c_db c1, snd cv) of
                           (_, db2, v2) \<Rightarrow> (Inr jid, (c1\<lparr>c_db := db2\<rparr>, v2), wire)))))"

text \<open>A group is resolved to its snapshot members just before the call.\<close>

definition resolve_request :: "admitted \<Rightarrow> ctx \<Rightarrow> (admitted \<times> ctx) res" where
  "resolve_request a c =
     (let rq = ad_request a
      in if rq_tgt_type rq \<noteq> ''group'' then Inr (a, c)
         else
           (case resolve_group_target (c_db c) (rq_tgt rq) of
              Inl er \<Rightarrow> Inl er
            | Inr (targets, stale) \<Rightarrow>
                Inr (a\<lparr>ad_request := rq\<lparr>rq_tgt := py_join '','' targets, rq_tgt_type := ''list''\<rparr>\<rparr>,
                     if stale = 0 then c
                     else flash (''Group '' @ quoted (rq_tgt rq) @ '': '' @ py_str_int stale @ '' stale members skipped.'')
                            ''warning'' c)))"

definition launch ::
  "env \<Rightarrow> salt \<Rightarrow> int \<Rightarrow> pass list \<Rightarrow> user \<Rightarrow> user option \<Rightarrow> request \<Rightarrow> ctx \<times> verdicts \<Rightarrow> launched" where
  "launch e s now passes cu actor_user rq cv =
     (let who = (case actor_user of Some u \<Rightarrow> u | None \<Rightarrow> cu);
          typed = (case rq_requested rq of Some t \<Rightarrow> t | None \<Rightarrow> rq_tgt rq);
          notice = (case actor_user of Some u \<Rightarrow> Some (actor_label u) | None \<Rightarrow> None)
      in case admit e who rq (fst cv) of
           (Inl d, c1) \<Rightarrow> (Inl (LaunchDenied d), (c1, snd cv), [])
         | (Inr a, c1) \<Rightarrow>
             (case resolve_request a c1 of
                Inl er \<Rightarrow> (Inl (LaunchFailed er), (c1, snd cv), [])
              | Inr (a', c2) \<Rightarrow>
                  if rq_via rq = ''ssh'' then fire_ssh s now cu who notice typed a' (c2, snd cv)
                  else fire_local s now passes cu who notice typed a' (c2, snd cv)))"

end
