(* ===== verification/LaunchFacts.thy ===== *)
theory LaunchFacts
  imports Launch
begin

text \<open>
  Facts about \<open>launch\<close>: what is on the wire after each path, what a refusal writes, and the forced
  arguments of a \<open>beacons.list\<close> publish.
\<close>

section \<open>The wire\<close>

lemma publish_wire:
  "snd (publish_all_async s tgt f args tt jid kw) = pod_publications s tgt f args tt jid kw"
  by (simp add: publish_all_async_def Let_def)

lemma pod_publication_fields:
  assumes "p \<in> set (pod_publications s tgt f args tt jid kw)"
  shows "pb_tgt p = tgt" "pb_fun p = f" "pb_args p = args" "pb_tgt_type p = tt" "pb_kwarg p = kw" "pb_jid p = jid"
  using assms by (auto simp: pod_publications_def)

text \<open>A publication carries the request that was admitted.\<close>

definition carries :: "request \<Rightarrow> publication \<Rightarrow> bool" where
  "carries rq p = (pb_tgt p = PStr (rq_tgt rq) \<and> pb_tgt_type p = rq_tgt_type rq \<and> pb_fun p = rq_fun rq
     \<and> pb_args p = rq_args rq \<and> pb_kwarg p = rq_kwarg rq)"

lemma fire_ssh_wire:
  "snd (snd (fire_ssh s now cu who notice typed a cv)) = ps \<Longrightarrow> p \<in> set ps \<Longrightarrow> carries (ad_request a) p"
  by (auto simp: fire_ssh_def Let_def carries_def split: sum.splits prod.splits)

lemma fire_local_wire:
  assumes "snd (snd (fire_local s now passes cu who notice typed a cv)) = ps" "p \<in> set ps"
  shows "carries (ad_request a) p"
proof -
  let ?rq = "ad_request a"
  let ?pub = "publish_all_async s (PStr (rq_tgt ?rq)) (rq_fun ?rq) (rq_args ?rq) (rq_tgt_type ?rq) (new_jid now) (rq_kwarg ?rq)"
  obtain r wire where w: "?pub = (r, wire)" by (cases ?pub)
  have "ps = wire"
    using assms(1) by (auto simp: fire_local_def Let_def w split: sum.splits prod.splits if_splits)
  moreover have "wire = pod_publications s (PStr (rq_tgt ?rq)) (rq_fun ?rq) (rq_args ?rq) (rq_tgt_type ?rq) (new_jid now) (rq_kwarg ?rq)"
    using publish_wire [of s "PStr (rq_tgt ?rq)" "rq_fun ?rq" "rq_args ?rq" "rq_tgt_type ?rq" "new_jid now" "rq_kwarg ?rq"]
    by (simp add: w)
  ultimately show ?thesis
    using assms(2) pod_publication_fields unfolding carries_def by metis
qed

lemma launch_wire:
  assumes "launch e s now passes cu actor rq (c, v) = (res, cv', wire)" "p \<in> set wire"
  obtains a c1 a' c2 where
    "admit e (case actor of Some u \<Rightarrow> u | None \<Rightarrow> cu) rq c = (Inr a, c1)"
    "resolve_request a c1 = Inr (a', c2)" "carries (ad_request a') p"
proof -
  let ?who = "case actor of Some u \<Rightarrow> u | None \<Rightarrow> cu"
  let ?typed = "case rq_requested rq of Some t \<Rightarrow> t | None \<Rightarrow> rq_tgt rq"
  let ?notice = "case actor of Some u \<Rightarrow> Some (actor_label u) | None \<Rightarrow> None"
  obtain r c1 where ad: "admit e ?who rq c = (r, c1)" by (cases "admit e ?who rq c")
  note L = assms(1) [unfolded launch_def Let_def fst_conv snd_conv ad prod.case]
  from L assms(2) obtain a where r: "r = Inr a" by (cases r) auto
  from L assms(2) obtain a' c2 where rr: "resolve_request a c1 = Inr (a', c2)"
    by (cases "resolve_request a c1") (auto simp: r)
  have "wire = (if rq_via rq = ''ssh'' then snd (snd (fire_ssh s now cu ?who ?notice ?typed a' (c2, v)))
                else snd (snd (fire_local s now passes cu ?who ?notice ?typed a' (c2, v))))"
    using L by (simp add: r rr split: if_splits)
  then have "carries (ad_request a') p"
    using assms(2) fire_ssh_wire [OF refl] fire_local_wire [OF refl] by (simp split: if_splits)
  then show thesis using that ad r rr by simp
qed

lemma fire_ssh_not_denied: "fst (fire_ssh s now cu who notice typed a cv) \<noteq> Inl (LaunchDenied d)"
  unfolding fire_ssh_def Let_def by (auto split: sum.splits prod.splits)

lemma fire_local_not_denied: "fst (fire_local s now passes cu who notice typed a cv) \<noteq> Inl (LaunchDenied d)"
proof -
  let ?rq = "ad_request a" and ?jid = "new_jid now"
  let ?pub = "publish_all_async s (PStr (rq_tgt ?rq)) (rq_fun ?rq) (rq_args ?rq) (rq_tgt_type ?rq) ?jid (rq_kwarg ?rq)"
  obtain r wire where w: "?pub = (r, wire)" by (cases ?pub)
  show ?thesis
  proof (cases r)
    case (Inl er)
    then show ?thesis by (simp add: fire_local_def Let_def w)
  next
    case (Inr missed)
    show ?thesis
    proof (cases "add_job (job_row ?jid ?rq typed (actor_label who) False (c_db (fst cv))) (c_db (fst cv))")
      case er: (Inl er)
      then show ?thesis by (simp add: fire_local_def Let_def w Inr)
    next
      case db: (Inr db)
      show ?thesis unfolding fire_local_def Let_def w Inr db by (simp add: Inr db split: prod.split)
    qed
  qed
qed

lemma launch_denied:
  assumes "launch e s now passes cu actor rq (c, v) = (Inl (LaunchDenied d), cv', wire)"
  shows "wire = [] \<and> (\<exists>c1. admit e (case actor of Some u \<Rightarrow> u | None \<Rightarrow> cu) rq c = (Inl d, c1) \<and> cv' = (c1, v))"
proof -
  let ?who = "case actor of Some u \<Rightarrow> u | None \<Rightarrow> cu"
  obtain r c1 where ad: "admit e ?who rq c = (r, c1)" by (cases "admit e ?who rq c")
  note L = assms [unfolded launch_def Let_def fst_conv snd_conv ad prod.case]
  show ?thesis
  proof (cases r)
    case (Inl d')
    then show ?thesis using L ad by simp
  next
    case (Inr a)
    show ?thesis
    proof (cases "resolve_request a c1")
      case Inl
      then show ?thesis using L by (simp add: Inr)
    next
      case rr: (Inr ac)
      then show ?thesis
        using L fire_ssh_not_denied fire_local_not_denied
        by (cases ac) (simp add: Inr split: if_splits, (metis fst_conv)+)
    qed
  qed
qed

section \<open>Admission\<close>

lemma admit_scoped:
  assumes "rbac_mode e (c_db c) = ''scoped''" "admit e who rq c = (Inr a, c1)"
  shows "scoped_gate e (c_memo c) (c_db c) who rq = Inr a" "c_db c1 = c_db c"
  using assms by (auto simp: admit_def Let_def touch_def split: sum.splits if_splits)

lemma admit_refused:
  assumes "admit e who rq c = (Inl d, c1)"
  shows "\<exists>perm. c_db c1 = audit_deny who perm None (d_detail d) (Some (actor_label who)) (c_db c) \<and> c_flash c1 = c_flash c"
  using assms by (auto simp: admit_def Let_def touch_def on_db_def split: sum.splits if_splits)

text \<open>A caller without a fleet grant is admitted only with a narrowed list.\<close>

lemma gate_narrowed:
  assumes "scoped_gate e g db who rq = Inr a" "publish_perm (rq_fun rq) = Some perm"
    "\<not> has_fleet e g db who perm"
  obtains req hit where "published_snapshot_ids db (Some (rq_tgt rq)) (Some (rq_tgt_type rq)) = Some req"
    "hit = req \<inter> minions_with e g db who perm" "hit \<noteq> {}" "rq_tgt (ad_request a) = csv_of hit"
    "rq_tgt_type (ad_request a) = ''list''" "ad_narrowed a = req - hit" "ad_perm a = perm" "rq_via rq \<noteq> ''ssh''"
proof -
  obtain args kw where k: "force_beacon_kwargs (rq_fun rq) (rq_args rq) (rq_kwarg rq) = (args, kw)"
    by (cases "force_beacon_kwargs (rq_fun rq) (rq_args rq) (rq_kwarg rq)")
  from assms(1) obtain t tt r h where ct: "constrain_target_verbose e g db who perm (rq_tgt rq) (rq_tgt_type rq) = Inr (t, tt, r, h)"
    by (cases "constrain_target_verbose e g db who perm (rq_tgt rq) (rq_tgt_type rq)")
      (auto simp: scoped_gate_def assms k split: if_splits)
  from assms(3) ct obtain req hit where n:
    "published_snapshot_ids db (Some (rq_tgt rq)) (Some (rq_tgt_type rq)) = Some req"
    "r = Some req" "h = Some hit" "hit = req \<inter> minions_with e g db who perm" "hit \<noteq> {}" "t = csv_of hit" "tt = ''list''"
    by (rule constrain_target_ok)
  show thesis
    by (rule that [OF n(1,4,5)])
      (use assms(1) n(2,3,6,7) in \<open>auto simp: scoped_gate_def assms k ct split: if_splits\<close>)
qed

text \<open>Admission keeps the function, and the arguments are the forced ones.\<close>

lemma gate_args:
  assumes "scoped_gate e g db who rq = Inr a"
  shows "rq_fun (ad_request a) = rq_fun rq"
    "(rq_args (ad_request a), rq_kwarg (ad_request a)) = force_beacon_kwargs (rq_fun rq) (rq_args rq) (rq_kwarg rq)"
  using assms
  by (auto simp: scoped_gate_def Let_def split: option.splits if_splits prod.splits sum.splits)

lemma resolve_request_same:
  assumes "resolve_request a c = Inr (a', c2)"
  shows "rq_fun (ad_request a') = rq_fun (ad_request a)" "rq_args (ad_request a') = rq_args (ad_request a)"
    "rq_kwarg (ad_request a') = rq_kwarg (ad_request a)"
    "rq_tgt_type (ad_request a) \<noteq> ''group'' \<Longrightarrow> a' = a"
  using assms by (auto simp: resolve_request_def Let_def split: if_splits sum.splits)

section \<open>Forced arguments\<close>

lemma dict_get_assoc_set: "dict_get k (assoc_set k' v kvs) = (if k = k' then Some v else dict_get k kvs)"
  by (induction kvs) auto

definition names_pillar_opt :: "pyval \<Rightarrow> bool" where
  "names_pillar_opt item =
     (case item of
        PDict kvs \<Rightarrow> list_ex (\<lambda>(k, _). k \<in> set PILLAR_OPTS) kvs
      | PStr s \<Rightarrow> hd (py_split CHR ''='' s) \<in> set PILLAR_OPTS
      | _ \<Rightarrow> False)"

lemma beacon_item_clean: "x \<in> set (beacon_item item) \<Longrightarrow> \<not> names_pillar_opt x"
  by (cases item) (auto simp: beacon_item_def names_pillar_opt_def list_ex_iff split: if_splits)

lemma forced_beacons:
  assumes "force_beacon_kwargs ''beacons.list'' args kwarg = (args', kwarg')"
  shows "list_all (\<lambda>x. \<not> names_pillar_opt x) args'"
    "\<exists>kvs. kwarg' = Some kvs \<and> dict_get ''include_pillar'' kvs = Some (PBool False)
       \<and> dict_get ''include_opts'' kvs = Some (PBool False)"
  using assms beacon_item_clean
  by (auto simp: force_beacon_kwargs_def list_all_iff dict_get_assoc_set)

section \<open>Scope of the wire\<close>

text \<open>The core of what a scoped caller can publish, in the terms of the evaluator.\<close>

lemma launch_wire_scope:
  assumes "rbac_mode e (c_db c) = ''scoped''" and "publish_perm (rq_fun rq) = Some perm"
    and "who = (case actor of Some u \<Rightarrow> u | None \<Rightarrow> cu)" and "\<not> has_fleet e (c_memo c) (c_db c) who perm"
    and "\<forall>m \<in> snapshot_ids (c_db c). plain_id m"
    and "launch e s now passes cu actor rq (c, v) = (res, cv', wire)" and "p \<in> set wire"
  obtains t req where "pb_tgt_type p = ''list''" "pb_tgt p = PStr t" "csv_ids t \<noteq> []"
    "published_snapshot_ids (c_db c) (Some (rq_tgt rq)) (Some (rq_tgt_type rq)) = Some req"
    "set (csv_ids t) = req \<inter> minions_with e (c_memo c) (c_db c) who perm"
proof -
  from launch_wire [OF assms(6,7)] obtain a c1 a' c2 where l:
    "admit e who rq c = (Inr a, c1)" "resolve_request a c1 = Inr (a', c2)" "carries (ad_request a') p"
    unfolding assms(3) by metis
  note gate = admit_scoped(1) [OF assms(1) l(1)]
  from gate_narrowed [OF gate assms(2,4)] obtain req hit where n:
    "published_snapshot_ids (c_db c) (Some (rq_tgt rq)) (Some (rq_tgt_type rq)) = Some req"
    "hit = req \<inter> minions_with e (c_memo c) (c_db c) who perm" "hit \<noteq> {}"
    "rq_tgt (ad_request a) = csv_of hit" "rq_tgt_type (ad_request a) = ''list''" by metis
  have same: "a' = a" using resolve_request_same(4) [OF l(2)] n(5) by simp
  have "hit \<subseteq> snapshot_ids (c_db c)" using n(2) minions_with_snapshot by blast
  then have rt: "set (csv_ids (csv_of hit)) = hit"
    using csv_round_trip [of hit] n(3) assms(5) finite_subset [OF _ finite_snapshot] by blast
  then have "csv_ids (csv_of hit) \<noteq> []" using n(3) by auto
  then show thesis using that l(3) n rt by (simp add: carries_def same)
qed

lemma launch_wire_fun:
  assumes "launch e s now passes cu actor rq (c, v) = (res, cv', wire)" and "p \<in> set wire"
  shows "pb_fun p = rq_fun rq"
proof -
  from launch_wire [OF assms] obtain a c1 a' c2 where l:
    "admit e (case actor of Some u \<Rightarrow> u | None \<Rightarrow> cu) rq c = (Inr a, c1)"
    "resolve_request a c1 = Inr (a', c2)" "carries (ad_request a') p" by metis
  have "rq_fun (ad_request a) = rq_fun rq"
    using l(1) gate_args(1) by (auto simp: admit_def Let_def split: if_splits sum.splits)
  then show ?thesis using l(3) resolve_request_same(1) [OF l(2)] by (simp add: carries_def)
qed

section \<open>Decisions read the authorization tables only\<close>

definition same_authz :: "store \<Rightarrow> store \<Rightarrow> bool" where
  "same_authz db db' = (grants db' = grants db \<and> local_group_members db' = local_group_members db
     \<and> user_idp_groups db' = user_idp_groups db \<and> idp_role_mappings db' = idp_role_mappings db
     \<and> minions db' = minions db \<and> minion_groups db' = minion_groups db \<and> settings db' = settings db)"

lemma same_authz_mode: "same_authz db db' \<Longrightarrow> rbac_mode e db' = rbac_mode e db"
  by (simp add: same_authz_def rbac_mode_def rbac_flag_def setting_row_def)

lemma same_authz_entries:
  assumes "same_authz db db'"
  shows "effective_entries e g db' u = effective_entries e g db u"
proof -
  have s: "grants db' = grants db" "local_group_members db' = local_group_members db"
    "user_idp_groups db' = user_idp_groups db" "idp_role_mappings db' = idp_role_mappings db" "settings db' = settings db"
    using assms by (simp_all add: same_authz_def)
  have "queried_entries db' i = queried_entries db i" for i
    unfolding queried_entries_def user_entries_def group_entries_def idp_entries_def idp_names_def s ..
  then have q: "queried_entries db' = queried_entries db" by blast
  have f: "rbac_fallback_on e db' = rbac_fallback_on e db"
    unfolding rbac_fallback_on_def rbac_flag_def setting_row_def s ..
  show ?thesis unfolding effective_entries_def grant_entries_def q f ..
qed

lemma same_authz_decisions:
  assumes "same_authz db db'"
  shows "has_fleet e g db' u p = has_fleet e g db u p" "minions_with e g db' u p = minions_with e g db u p"
    "snapshot_ids db' = snapshot_ids db"
proof -
  have s: "minions db' = minions db" "minion_groups db' = minion_groups db" using assms by (simp_all add: same_authz_def)
  show snap: "snapshot_ids db' = snapshot_ids db" unfolding snapshot_ids_def s ..
  show "has_fleet e g db' u p = has_fleet e g db u p" unfolding has_fleet_def same_authz_entries [OF assms] ..
  have "entry_minions db' p en = entry_minions db p en" for en
    unfolding entry_minions_def resolve_scope_cong [OF s] snap ..
  then show "minions_with e g db' u p = minions_with e g db u p"
    unfolding minions_with_def same_authz_entries [OF assms] by simp
qed

lemma same_authz_refl [simp]: "same_authz db db"
  by (simp add: same_authz_def)

lemma same_authz_log [simp]: "same_authz db0 (log_event u a j o' q m d db) \<longleftrightarrow> same_authz db0 db"
  by (simp add: same_authz_def)

section \<open>A publication of a request\<close>

text \<open>
  What a scoped launch of the request \<open>rq\<close> by \<open>u\<close> may send, field by field: the function of the request,
  its arguments with the local options forced, and the target. A fleet holder reaches the target as
  posted (a group as its members known to the snapshot), anyone else the ids the target names among
  those the function is granted on.
\<close>

definition publishes_as :: "env \<Rightarrow> gctx \<Rightarrow> store \<Rightarrow> user \<Rightarrow> request \<Rightarrow> publication \<Rightarrow> bool" where
  "publishes_as e g db u rq p = (pb_fun p = rq_fun rq
     \<and> (pb_args p, pb_kwarg p) = force_beacon_kwargs (rq_fun rq) (rq_args rq) (rq_kwarg rq)
     \<and> (\<exists>perm. publish_perm (rq_fun rq) = Some perm
          \<and> (if \<not> has_fleet e g db u perm
             then \<exists>ids req. pb_tgt p = PStr ids \<and> pb_tgt_type p = ''list'' \<and> csv_ids ids \<noteq> []
                  \<and> published_snapshot_ids db (Some (rq_tgt rq)) (Some (rq_tgt_type rq)) = Some req
                  \<and> set (csv_ids ids) = req \<inter> minions_with e g db u perm
             else if rq_tgt_type rq = ''group''
             then \<exists>targets gone. resolve_group_target db (rq_tgt rq) = Inr (targets, gone)
                  \<and> pb_tgt p = PStr (py_join '','' targets) \<and> pb_tgt_type p = ''list''
             else pb_tgt p = PStr (rq_tgt rq) \<and> pb_tgt_type p = rq_tgt_type rq)))"

lemma gate_class: "scoped_gate e g db who rq = Inr a \<Longrightarrow> \<exists>perm. publish_perm (rq_fun rq) = Some perm"
  by (cases "publish_perm (rq_fun rq)") (simp_all add: scoped_gate_def)

text \<open>A fleet grant leaves the target as it was typed.\<close>

lemma gate_fleet:
  assumes "scoped_gate e g db who rq = Inr a" "publish_perm (rq_fun rq) = Some perm" "has_fleet e g db who perm"
  shows "rq_tgt (ad_request a) = rq_tgt rq" "rq_tgt_type (ad_request a) = rq_tgt_type rq"
  using assms
  by (auto simp: scoped_gate_def constrain_target_verbose_def Let_def split: if_splits prod.splits)

lemma resolve_request_group:
  assumes "resolve_request a c = Inr (a', c2)" "rq_tgt_type (ad_request a) = ''group''"
  obtains targets gone where "resolve_group_target (c_db c) (rq_tgt (ad_request a)) = Inr (targets, gone)"
    "rq_tgt (ad_request a') = py_join '','' targets" "rq_tgt_type (ad_request a') = ''list''"
  using assms by (auto simp: resolve_request_def Let_def split: sum.splits prod.splits)

lemma launch_publishes:
  assumes "rbac_mode e (c_db c) = ''scoped''" and "\<forall>m \<in> snapshot_ids (c_db c). plain_id m"
    and "launch e s now passes cu (Some u) rq (c, v) = (res, cv', wire)" and "p \<in> set wire"
  shows "publishes_as e (c_memo c) (c_db c) u rq p"
proof -
  from launch_wire [OF assms(3,4)] obtain a c1 a' c2 where l:
    "admit e u rq c = (Inr a, c1)" "resolve_request a c1 = Inr (a', c2)" "carries (ad_request a') p"
    by (metis option.case(2))
  note gate = admit_scoped(1) [OF assms(1) l(1)] and c1 = admit_scoped(2) [OF assms(1) l(1)]
  from gate_class [OF gate] obtain perm where perm: "publish_perm (rq_fun rq) = Some perm" by blast
  have args: "pb_fun p = rq_fun rq"
    "(pb_args p, pb_kwarg p) = force_beacon_kwargs (rq_fun rq) (rq_args rq) (rq_kwarg rq)"
    using l(3) resolve_request_same(1-3) [OF l(2)] gate_args [OF gate] by (simp_all add: carries_def)
  show ?thesis
  proof (cases "has_fleet e (c_memo c) (c_db c) u perm")
    case False
    have who: "u = (case Some u of Some x \<Rightarrow> x | None \<Rightarrow> cu)" by simp
    from launch_wire_scope [OF assms(1) perm who False assms(2-4)] obtain t req where
      "pb_tgt_type p = ''list''" "pb_tgt p = PStr t" "csv_ids t \<noteq> []"
      "published_snapshot_ids (c_db c) (Some (rq_tgt rq)) (Some (rq_tgt_type rq)) = Some req"
      "set (csv_ids t) = req \<inter> minions_with e (c_memo c) (c_db c) u perm" .
    then show ?thesis using args perm False by (simp add: publishes_as_def)
  next
    case True
    note fl = gate_fleet [OF gate perm True]
    show ?thesis
    proof (cases "rq_tgt_type rq = ''group''")
      case False
      then have "a' = a" using resolve_request_same(4) [OF l(2)] fl by simp
      then show ?thesis using args perm True False l(3) fl by (simp add: publishes_as_def carries_def)
    next
      case g: True
      from resolve_request_group [OF l(2)] g fl c1 obtain targets gone where
        "resolve_group_target (c_db c) (rq_tgt rq) = Inr (targets, gone)"
        "rq_tgt (ad_request a') = py_join '','' targets" "rq_tgt_type (ad_request a') = ''list''" by metis
      then show ?thesis using args perm True g l(3) by (simp add: publishes_as_def carries_def)
    qed
  qed
qed

lemma same_authz_targets:
  assumes "same_authz db db'"
  shows "published_snapshot_ids db' t tt = published_snapshot_ids db t tt"
    "resolve_group_target db' name = resolve_group_target db name"
proof -
  have s: "minions db' = minions db" "minion_groups db' = minion_groups db" using assms by (simp_all add: same_authz_def)
  note snap = same_authz_decisions(3) [OF assms]
  show "published_snapshot_ids db' t tt = published_snapshot_ids db t tt"
    unfolding published_snapshot_ids_def glob_ids_def job_group_members_def grain_matches_def snapshot_grains_def
      minion_group_by_name_def snap s ..
  show "resolve_group_target db' name = resolve_group_target db name"
    unfolding resolve_group_target_def minion_group_by_name_def snap s ..
qed

lemma same_authz_publishes: "same_authz db db' \<Longrightarrow> publishes_as e g db' u rq p = publishes_as e g db u rq p"
  unfolding publishes_as_def by (simp only: same_authz_decisions same_authz_targets)

end
