(* ===== verification/LaunchProps.thy ===== *)
theory LaunchProps
  imports LaunchFacts Demo
begin

text \<open>
  Properties of \<open>launch\<close> (\<open>overstate_ui/jobs_service.py\<close>): what a scoped caller can put on the wire,
  what a refusal leaves behind, and what a \<open>beacons.list\<close> publish never carries.
\<close>

lemma run_job_demo: "publish_perm ''state.apply'' = Some ''job.run.state''"
  by code_simp

text \<open>C15: Nothing leaves the program beyond the caller's scope: in scoped mode a publication of a caller
  without a fleet grant for the function is a list of ids on each of which the caller is
  authorized, taken from the requested target, whatever target was typed and whoever the actor is.\<close>

theorem launch_confined:
  assumes "rbac_mode e (c_db c) = ''scoped''" and "publish_perm (rq_fun rq) = Some perm"
    and "who = (case actor of Some u \<Rightarrow> u | None \<Rightarrow> cu)" and "\<not> has_fleet e (c_memo c) (c_db c) who perm"
    and "\<forall>m \<in> snapshot_ids (c_db c). plain_id m"
    and "launch e s now passes cu actor rq (c, v) = (res, cv', wire)" and "p \<in> set wire"
  shows "pb_tgt_type p = ''list'' \<and> pb_fun p = rq_fun rq
    \<and> (\<exists>t req. pb_tgt p = PStr t \<and> csv_ids t \<noteq> []
         \<and> published_snapshot_ids (c_db c) (Some (rq_tgt rq)) (Some (rq_tgt_type rq)) = Some req
         \<and> (\<forall>m \<in> set (csv_ids t). m \<in> req \<and> authorize e (c_memo c) (c_db c) who perm (Some m) None))"
proof -
  from launch_wire_scope [OF assms] obtain t req where w: "pb_tgt_type p = ''list''" "pb_tgt p = PStr t" "csv_ids t \<noteq> []"
    "published_snapshot_ids (c_db c) (Some (rq_tgt rq)) (Some (rq_tgt_type rq)) = Some req"
    "set (csv_ids t) = req \<inter> minions_with e (c_memo c) (c_db c) who perm" by metis
  have "\<forall>m \<in> set (csv_ids t). m \<in> req \<and> authorize e (c_memo c) (c_db c) who perm (Some m) None"
    using w(5) minions_with_authorize by blast
  then show ?thesis using w(1-4) launch_wire_fun [OF assms(6,7)] by blast
qed

definition demo_salt :: salt where
  "demo_salt = \<lparr>pods = [''pod-0'', ''pod-1''], refused = (\<lambda>_. None), completion = (\<lambda>ps. ps),
     ssh_reply = (\<lambda>_. Inr (PDict []))\<rparr>"

definition demo_verdicts :: verdicts where
  "demo_verdicts = \<lparr>watched_states = [], history = [], history_seq = 1\<rparr>"

definition demo_request :: "string \<Rightarrow> string \<Rightarrow> request" where
  "demo_request fun_name tgt = \<lparr>rq_tgt = tgt, rq_tgt_type = ''glob'', rq_fun = fun_name, rq_args = [], rq_async = True,
     rq_via = ''local'', rq_kwarg = None, rq_requested = None\<rparr>"

definition demo_publication :: "string \<Rightarrow> publication" where
  "demo_publication pod = \<lparr>pb_pod = pod, pb_jid = new_jid 0, pb_tgt = PStr ''web-01,web-02'', pb_tgt_type = ''list'',
     pb_fun = ''state.apply'', pb_args = [], pb_kwarg = None\<rparr>"

lemma launch_confined_witness:
  "csv_ids ''web-01,web-02'' = [''web-01'', ''web-02'']
   \<and> authorize demo_env fresh demo_store lead ''job.run.state'' (Some ''web-01'') None
   \<and> snd (snd (launch demo_env demo_salt 0 [] lead None (demo_request ''state.apply'' ''*'') (start demo_store, demo_verdicts)))
     = [demo_publication ''pod-0'', demo_publication ''pod-1'']"
proof -
  have wire: "snd (snd (launch demo_env demo_salt 0 [] lead None (demo_request ''state.apply'' ''*'') (start demo_store, demo_verdicts)))
     = [demo_publication ''pod-0'', demo_publication ''pod-1'']" by code_simp
  obtain res cv' where l: "launch demo_env demo_salt 0 [] lead None (demo_request ''state.apply'' ''*'')
      (start demo_store, demo_verdicts) = (res, cv', [demo_publication ''pod-0'', demo_publication ''pod-1''])"
    using wire by (metis surjective_pairing)
  have ids: "csv_ids ''web-01,web-02'' = [''web-01'', ''web-02'']" by code_simp
  have "pb_tgt (demo_publication ''pod-0'') = PStr ''web-01,web-02''" by (simp add: demo_publication_def)
  moreover have "rbac_mode demo_env (c_db (start demo_store)) = ''scoped''"
    "\<not> has_fleet demo_env (c_memo (start demo_store)) (c_db (start demo_store)) lead ''job.run.state''"
    "\<forall>m \<in> snapshot_ids (c_db (start demo_store)). plain_id m"
    "publish_perm (rq_fun (demo_request ''state.apply'' ''*'')) = Some ''job.run.state''" by code_simp+
  ultimately have "authorize demo_env fresh demo_store lead ''job.run.state'' (Some ''web-01'') None"
    using launch_confined [OF _ _ _ _ _ l, of "''job.run.state''" lead "demo_publication ''pod-0''"]
    by (auto simp: ids start_def)
  then show ?thesis using ids wire by simp
qed

text \<open>C19: A refused launch is invisible but for its audit row: nothing is published, no job, return or
  verdict changes, no message is flashed, and exactly one row is added, a deny that names the
  actor and the detail code of the refusal.\<close>

theorem launch_refusal_row:
  assumes "launch e s now passes cu actor rq (c, v) = (Inl (LaunchDenied d), (c', v'), wire)"
  shows "wire = [] \<and> v' = v \<and> c_flash c' = c_flash c \<and> same_but_audit (c_db c) (c_db c')
    \<and> (\<exists>row. audit_events (c_db c') = audit_events (c_db c) @ [row] \<and> a_action row = ''deny''
         \<and> a_outcome row = Some ''deny'' \<and> a_detail row = Some (d_detail d)
         \<and> a_user row = actor_label (case actor of Some u \<Rightarrow> u | None \<Rightarrow> cu))"
proof -
  let ?who = "case actor of Some u \<Rightarrow> u | None \<Rightarrow> cu"
  have w: "wire = []" "v' = v" and ad: "admit e ?who rq c = (Inl d, c')"
    using launch_denied [OF assms] by auto
  from admit_refused [OF ad] obtain perm where db:
    "c_db c' = audit_deny ?who perm None (d_detail d) (Some (actor_label ?who)) (c_db c)" "c_flash c' = c_flash c"
    by blast
  have log: "c_db c' = log_event (actor_label ?who) ''deny'' None (Some ''deny'') (Some perm) None (Some (d_detail d)) (c_db c)"
    unfolding db(1) by (simp add: audit_deny_def or_empty_def actor_label_def)
  have row: "\<exists>row. audit_events (c_db c') = audit_events (c_db c) @ [row] \<and> a_action row = ''deny''
         \<and> a_outcome row = Some ''deny'' \<and> a_detail row = Some (d_detail d) \<and> a_user row = actor_label ?who"
    unfolding log by (simp add: log_event_def bump_def)
  show ?thesis using w db(2) row same_but_audit_log unfolding log by blast
qed

lemma launch_refusal_row_witness:
  "(case launch demo_env demo_salt 0 [] lead None (demo_request ''state.apply'' ''db-*'') (start demo_store, demo_verdicts) of
      (Inl (LaunchDenied d), (c', _), wire) \<Rightarrow>
        d_detail d = ''empty-intersection'' \<and> wire = [] \<and> same_but_audit demo_store (c_db c')
    | _ \<Rightarrow> False)"
proof -
  let ?L = "launch demo_env demo_salt 0 [] lead None (demo_request ''state.apply'' ''db-*'') (start demo_store, demo_verdicts)"
  have fst: "fst ?L = Inl (LaunchDenied (AuthzDenied ''job.run.state'' ''empty intersection'' None))" by code_simp
  have detail: "d_detail (AuthzDenied ''job.run.state'' ''empty intersection'' None) = ''empty-intersection''" by code_simp
  obtain c' v' wire where l: "?L = (Inl (LaunchDenied (AuthzDenied ''job.run.state'' ''empty intersection'' None)), (c', v'), wire)"
    using fst by (metis surjective_pairing)
  show ?thesis unfolding l using launch_refusal_row [OF l] by (simp add: detail start_def)
qed

text \<open>A \<open>beacons.list\<close> publish never carries pillar-sourced configuration: in scoped mode its keyword
  arguments have both options forced off and no positional argument names either, fleet
  administrators and token owners included.\<close>

theorem beacons_stripped:
  assumes "rbac_mode e (c_db c) = ''scoped''" and "rq_fun rq = ''beacons.list''"
    and "launch e s now passes cu actor rq (c, v) = (res, cv', wire)" and "p \<in> set wire"
  shows "list_all (\<lambda>x. \<not> names_pillar_opt x) (pb_args p)
    \<and> (\<exists>kvs. pb_kwarg p = Some kvs \<and> dict_get ''include_pillar'' kvs = Some (PBool False)
         \<and> dict_get ''include_opts'' kvs = Some (PBool False))"
proof -
  from launch_wire [OF assms(3,4)] obtain a c1 a' c2 where l:
    "admit e (case actor of Some u \<Rightarrow> u | None \<Rightarrow> cu) rq c = (Inr a, c1)"
    "resolve_request a c1 = Inr (a', c2)" "carries (ad_request a') p" by metis
  have "(rq_args (ad_request a), rq_kwarg (ad_request a)) = force_beacon_kwargs ''beacons.list'' (rq_args rq) (rq_kwarg rq)"
    using gate_args(2) [OF admit_scoped(1) [OF assms(1) l(1)]] assms(2) by simp
  then show ?thesis
    using forced_beacons resolve_request_same(2,3) [OF l(2)] l(3) unfolding carries_def by metis
qed

lemma beacons_stripped_witness:
  "(case launch demo_env demo_salt 0 [] root None
      ((demo_request ''beacons.list'' ''*'')\<lparr>rq_args := [PStr ''include_pillar=True'', PStr ''x'']\<rparr>)
      (start demo_store, demo_verdicts) of
      (_, _, [p, _]) \<Rightarrow> pb_args p = [PStr ''x''] \<and> pb_tgt p = PStr ''*'' \<and> list_all (\<lambda>x. \<not> names_pillar_opt x) (pb_args p)
    | _ \<Rightarrow> False)"
proof -
  let ?rq = "(demo_request ''beacons.list'' ''*'')\<lparr>rq_args := [PStr ''include_pillar=True'', PStr ''x'']\<rparr>"
  let ?L = "launch demo_env demo_salt 0 [] root None ?rq (start demo_store, demo_verdicts)"
  have w: "map (\<lambda>p. (pb_args p, pb_tgt p)) (snd (snd ?L)) = [([PStr ''x''], PStr ''*''), ([PStr ''x''], PStr ''*'')]" by code_simp
  then obtain p q res cv' where l: "?L = (res, cv', [p, q])" "pb_args p = [PStr ''x'']" "pb_tgt p = PStr ''*''"
    by (cases ?L) auto
  have "rbac_mode demo_env (c_db (start demo_store)) = ''scoped''" "rq_fun ?rq = ''beacons.list''" by code_simp+
  from beacons_stripped [OF this l(1), of p] show ?thesis by (simp add: l)
qed

end
