(* ===== verification/SyncFacts.thy ===== *)
theory SyncFacts
  imports JobSync
begin

text \<open>
  Facts about verdicts and returner sync: the trail of a minion and its bound, what a stamp leaves
  alone, and which returns a sync has stored.
\<close>

section \<open>The trail\<close>

text \<open>Row ids are distinct and below the sequence, and no trail is longer than the limit.\<close>

definition wf_verdicts :: "verdicts \<Rightarrow> bool" where
  "wf_verdicts v = (distinct (map v_id (history v)) \<and> list_all (\<lambda>r. v_id r < history_seq v) (history v)
     \<and> (\<forall>mid. length (trail mid v) \<le> HISTORY_LIMIT))"

lemma length_trail: "length (trail mid v) = length (filter (\<lambda>r. v_minion r = mid) (history v))"
  by (simp add: trail_def)

lemma set_trail: "set (trail mid v) = {r \<in> set (history v). v_minion r = mid}"
  by (simp add: trail_def)

definition appended :: "string \<Rightarrow> string \<Rightarrow> string \<Rightarrow> int \<Rightarrow> verdicts \<Rightarrow> verdicts" where
  "appended mid jid status now v = v\<lparr>history := history v @ [\<lparr>v_id = history_seq v, v_minion = mid, v_jid = jid,
     v_status = status, v_checked_at = now\<rparr>], history_seq := history_seq v + 1\<rparr>"

definition stale_ids :: "string \<Rightarrow> verdicts \<Rightarrow> int set" where
  "stale_ids mid v = set (map v_id (drop HISTORY_LIMIT (trail mid v)))"

lemma record_history_alt:
  "record_history mid jid status now v =
     (let v1 = appended mid jid status now v
      in v1\<lparr>history := filter (\<lambda>r. v_id r \<notin> stale_ids mid v1) (history v1)\<rparr>)"
  by (simp add: record_history_def appended_def stale_ids_def Let_def)

lemma distinct_appended:
  assumes "wf_verdicts v"
  shows "distinct (map v_id (history (appended mid jid status now v)))"
    "list_all (\<lambda>r. v_id r < history_seq (appended mid jid status now v)) (history (appended mid jid status now v))"
  using assms by (auto simp: wf_verdicts_def appended_def list_all_iff)

text \<open>Dropping the stale rows of a minion leaves its newest ones and every other minion's.\<close>

lemma kept_same_minion:
  assumes "distinct (map v_id (history v))"
  shows "filter (\<lambda>r. v_minion r = mid) (filter (\<lambda>r. v_id r \<notin> stale_ids mid v) (history v))
    = filter (\<lambda>r. r \<in> set (take HISTORY_LIMIT (trail mid v))) (history v)"
proof -
  have inj: "inj_on v_id (set (history v))" using assms by (simp add: distinct_map)
  have dist: "distinct (trail mid v)" using assms by (simp add: trail_def distinct_map distinct_filter)
  have "v_minion r = mid \<and> v_id r \<notin> stale_ids mid v \<longleftrightarrow> r \<in> set (take HISTORY_LIMIT (trail mid v))"
    if r: "r \<in> set (history v)" for r
  proof -
    have split: "set (trail mid v) = set (take HISTORY_LIMIT (trail mid v)) \<union> set (drop HISTORY_LIMIT (trail mid v))"
      by (metis append_take_drop_id set_append)
    have dis: "set (take HISTORY_LIMIT (trail mid v)) \<inter> set (drop HISTORY_LIMIT (trail mid v)) = {}"
      by (rule set_take_disj_set_drop_if_distinct [OF dist]) simp
    have sub: "set (trail mid v) \<subseteq> set (history v)" by (auto simp: set_trail)
    have "v_id r \<in> stale_ids mid v \<longleftrightarrow> r \<in> set (drop HISTORY_LIMIT (trail mid v))"
    proof
      assume "v_id r \<in> stale_ids mid v"
      then obtain x where x: "x \<in> set (drop HISTORY_LIMIT (trail mid v))" "v_id x = v_id r"
        by (auto simp: stale_ids_def)
      then have "x \<in> set (history v)" using split sub by blast
      then show "r \<in> set (drop HISTORY_LIMIT (trail mid v))" using inj r x by (auto dest: inj_onD)
    qed (simp add: stale_ids_def)
    moreover have "r \<in> set (trail mid v) \<longleftrightarrow> v_minion r = mid" using r by (simp add: set_trail)
    ultimately show ?thesis using split dis by blast
  qed
  then show ?thesis by (simp add: conj_commute cong: filter_cong)
qed

lemma kept_other_minion:
  assumes "distinct (map v_id (history v))" "other \<noteq> mid"
  shows "filter (\<lambda>r. v_minion r = other) (filter (\<lambda>r. v_id r \<notin> stale_ids mid v) (history v))
    = filter (\<lambda>r. v_minion r = other) (history v)"
proof -
  have inj: "inj_on v_id (set (history v))" using assms by (simp add: distinct_map)
  have "v_id r \<notin> stale_ids mid v" if r: "r \<in> set (history v)" "v_minion r = other" for r
  proof
    assume "v_id r \<in> stale_ids mid v"
    then obtain x where x: "x \<in> set (drop HISTORY_LIMIT (trail mid v))" "v_id x = v_id r"
      by (auto simp: stale_ids_def)
    then have "x \<in> set (trail mid v)" by (metis in_set_dropD)
    then have "x \<in> set (history v)" "v_minion x = mid" by (simp_all add: set_trail)
    then show False using inj r x assms(2) by (auto dest: inj_onD)
  qed
  then show ?thesis by (auto intro: filter_cong)
qed

lemma length_filter_member:
  assumes "distinct ys"
  shows "length (filter (\<lambda>r. r \<in> set xs) ys) \<le> length xs"
proof -
  have "length (filter (\<lambda>r. r \<in> set xs) ys) = card (set (filter (\<lambda>r. r \<in> set xs) ys))"
    by (rule distinct_card [symmetric]) (simp add: assms)
  also have "\<dots> \<le> card (set xs)" by (rule card_mono) auto
  also have "\<dots> \<le> length xs" by (rule card_length)
  finally show ?thesis .
qed

lemma wf_record_history:
  assumes "wf_verdicts v"
  shows "wf_verdicts (record_history mid jid status now v)"
proof -
  define v1 where "v1 = appended mid jid status now v"
  define v2 where "v2 = v1\<lparr>history := filter (\<lambda>r. v_id r \<notin> stale_ids mid v1) (history v1)\<rparr>"
  note d = distinct_appended [OF assms, of mid jid status now, folded v1_def]
  have v2: "record_history mid jid status now v = v2" by (simp add: record_history_alt Let_def v1_def v2_def)
  have hist: "distinct (history v1)" using d(1) by (simp add: distinct_map)
  have "length (trail m v2) \<le> HISTORY_LIMIT" for m
  proof (cases "m = mid")
    case True
    have "length (trail m v2) = length (filter (\<lambda>r. r \<in> set (take HISTORY_LIMIT (trail mid v1))) (history v1))"
      unfolding length_trail True v2_def using kept_same_minion [OF d(1)] by simp
    also have "\<dots> \<le> length (take HISTORY_LIMIT (trail mid v1))" by (rule length_filter_member [OF hist])
    finally show ?thesis by simp
  next
    case False
    have "length (trail m v2) = length (filter (\<lambda>r. v_minion r = m) (history v1))"
      unfolding length_trail v2_def using kept_other_minion [OF d(1) False] by simp
    also have "\<dots> = length (trail m v)" using False by (simp add: length_trail v1_def appended_def)
    finally show ?thesis using assms by (simp add: wf_verdicts_def)
  qed
  moreover have "distinct (map v_id (history v2))" using d(1) by (simp add: v2_def distinct_map_filter)
  moreover have "list_all (\<lambda>r. v_id r < history_seq v2) (history v2)"
    using d(2) by (auto simp: v2_def list_all_iff)
  ultimately show ?thesis by (simp add: wf_verdicts_def v2)
qed

text \<open>The new verdict is the newest of its minion's trail.\<close>

lemma record_history_newest:
  assumes "wf_verdicts v"
  shows "\<exists>r \<in> set (history (record_history mid jid status now v)).
    v_minion r = mid \<and> v_jid r = jid \<and> v_status r = status \<and> v_checked_at r = now \<and> v_id r = history_seq v"
proof -
  define v1 where "v1 = appended mid jid status now v"
  define n where "n = \<lparr>v_id = history_seq v, v_minion = mid, v_jid = jid, v_status = status, v_checked_at = now\<rparr>"
  note d = distinct_appended [OF assms, of mid jid status now, folded v1_def]
  have n1: "n \<in> set (history v1)" by (simp add: v1_def appended_def n_def)
  have "\<forall>r \<in> set (history v1). v_id r \<le> v_id n" using d(2) by (auto simp: list_all_iff v1_def appended_def n_def)
  then have max: "\<forall>r \<in> set (trail mid v1). v_id r \<le> v_id n" by (simp add: set_trail)
  have nt: "n \<in> set (trail mid v1)" using n1 by (simp add: set_trail n_def)
  have "sorted (rev (map v_id (trail mid v1)))" by (simp add: trail_def rev_map)
  then have "sorted_wrt (\<ge>) (map v_id (trail mid v1))" by (simp add: sorted_wrt_rev)
  moreover have distt: "distinct (map v_id (trail mid v1))"
    using d(1) by (simp add: trail_def distinct_map distinct_filter inj_on_def)
  ultimately have "n = hd (trail mid v1)"
  proof (cases "trail mid v1")
    case Nil
    then show ?thesis using nt by simp
  next
    case (Cons t ts)
    then have "v_id n \<le> v_id t" using nt \<open>sorted_wrt (\<ge>) (map v_id (trail mid v1))\<close> by auto
    moreover have "v_id t \<le> v_id n" using max Cons by simp
    ultimately have "v_id t = v_id n" by simp
    then show ?thesis using nt distt Cons by (auto simp: distinct_map image_iff)
  qed
  then have "n \<in> set (take HISTORY_LIMIT (trail mid v1))"
    using nt by (cases "trail mid v1") (simp_all add: HISTORY_LIMIT_def)
  then have "n \<in> set (filter (\<lambda>r. v_id r \<notin> stale_ids mid v1) (history v1))"
    using arg_cong [OF kept_same_minion [OF d(1), of mid], of set] n1 unfolding set_filter by blast
  then show ?thesis by (auto simp: record_history_alt Let_def v1_def [symmetric] n_def)
qed

section \<open>Stamps\<close>

lemma put_minion_tables [simp]:
  "jobs (put_minion m db) = jobs db" "job_returns (put_minion m db) = job_returns db"
  "users (put_minion m db) = users db" "grants (put_minion m db) = grants db"
  "minion_groups (put_minion m db) = minion_groups db" "salt_returns (put_minion m db) = salt_returns db"
  by (simp_all add: put_minion_def)

lemma put_minion_get: "minion_by_id (put_minion m db) i = (if i = m_id m then Some m else minion_by_id db i)"
proof (cases "minion_by_id db (m_id m)")
  case None
  then show ?thesis
    by (auto simp: put_minion_def minion_by_id_def find_row_append split: option.splits dest: find_row_Some)
next
  case (Some r)
  have "find_row m_id i (update_rows (\<lambda>r. m_id r = m_id m) (\<lambda>_. m) ms)
      = (if i = m_id m then map_option (\<lambda>_. m) (find_row m_id i ms) else find_row m_id i ms)" for ms
    by (induction ms) (auto simp: update_rows_def)
  then show ?thesis using Some by (auto simp: put_minion_def minion_by_id_def)
qed

lemma stamp_tables:
  "jobs (fst (stamp j rows roster now mid s)) = jobs (fst s)"
  "job_returns (fst (stamp j rows roster now mid s)) = job_returns (fst s)"
  "salt_returns (fst (stamp j rows roster now mid s)) = salt_returns (fst s)"
  by (auto simp: stamp_def Let_def split: prod.splits option.splits)

lemma stamps_tables:
  "jobs (fst (fold (stamp j rows roster now) mids s)) = jobs (fst s)"
  "job_returns (fst (fold (stamp j rows roster now) mids s)) = job_returns (fst s)"
  "salt_returns (fst (fold (stamp j rows roster now) mids s)) = salt_returns (fst s)"
  by (induction mids arbitrary: s) (simp_all add: stamp_tables)

lemma verdicts_tables:
  "jobs (fst (apply_sync_verdicts j rows now s)) = jobs (fst s)"
  "job_returns (fst (apply_sync_verdicts j rows now s)) = job_returns (fst s)"
  "salt_returns (fst (apply_sync_verdicts j rows now s)) = salt_returns (fst s)"
  by (simp_all add: apply_sync_verdicts_def Let_def stamps_tables)

lemma stamp_wf: "wf_verdicts (snd s) \<Longrightarrow> wf_verdicts (snd (stamp j rows roster now mid s))"
  by (auto simp: stamp_def Let_def wf_record_history split: prod.splits option.splits)

lemma stamps_wf: "wf_verdicts (snd s) \<Longrightarrow> wf_verdicts (snd (fold (stamp j rows roster now) mids s))"
  by (induction mids arbitrary: s) (simp_all add: stamp_wf)

lemma verdicts_wf: "wf_verdicts (snd s) \<Longrightarrow> wf_verdicts (snd (apply_sync_verdicts j rows now s))"
  by (simp add: apply_sync_verdicts_def Let_def stamps_wf)

lemma floor_newer_cong:
  assumes "jobs db' = jobs db"
  shows "floor_newer db' j m = floor_newer db j m"
  unfolding floor_newer_def job_by_jid_def assms ..

lemma stamp_cases:
  obtains "stamp j rows roster now mid s = s"
  | row status partial where "row = (case minion_by_id (fst s) mid of None \<Rightarrow> new_minion mid | Some m \<Rightarrow> m)"
      "\<not> floor_newer (fst s) j row" "minion_status j rows roster (watched_list (snd s)) mid = Some (status, partial)"
      "stamp j rows roster now mid s
        = (put_minion (row\<lparr>m_conformity := verdict_dict status (j_jid j) now partial\<rparr>) (fst s),
           record_history mid (j_jid j) status now (snd s))"
proof (cases "minion_status j rows roster (watched_list (snd s)) mid")
  case None
  then have "stamp j rows roster now mid s = s" by (simp add: stamp_def split_beta)
  then show thesis by (rule that(1))
next
  case (Some sp)
  obtain status partial where sp: "sp = (status, partial)" by (cases sp)
  let ?row = "case minion_by_id (fst s) mid of None \<Rightarrow> new_minion mid | Some m \<Rightarrow> m"
  show thesis
  proof (cases "floor_newer (fst s) j ?row")
    case True
    then have "stamp j rows roster now mid s = s"
      unfolding stamp_def split_beta Some sp Let_def by (simp only: option.case prod.case if_True)
    then show thesis by (rule that(1))
  next
    case False
    then have "stamp j rows roster now mid s
        = (put_minion (?row\<lparr>m_conformity := verdict_dict status (j_jid j) now partial\<rparr>) (fst s),
           record_history mid (j_jid j) status now (snd s))"
      unfolding stamp_def split_beta Some sp Let_def by (simp only: option.case prod.case if_False fst_conv snd_conv)
    then show thesis using that(2) [OF refl False] Some sp by blast
  qed
qed

lemma stamp_keeps_floor:
  assumes "minion_by_id (fst s) (m_id m) = Some m" "floor_newer (fst s) j m"
  shows "minion_by_id (fst (stamp j rows roster now mid s)) (m_id m) = Some m"
proof (cases rule: stamp_cases [of j rows roster now mid s])
  case 1
  then show ?thesis using assms by simp
next
  case (2 row status partial)
  have id: "m_id row = mid"
    unfolding 2(1) by (auto simp: new_minion_def minion_by_id_def split: option.split dest: find_row_Some)
  have "mid \<noteq> m_id m" using assms 2(1,2) by auto
  then show ?thesis using assms(1) id by (simp add: 2(4) put_minion_get)
qed

lemma stamps_keep_floor:
  assumes "minion_by_id (fst s) (m_id m) = Some m" "floor_newer (fst s) j m"
  shows "minion_by_id (fst (fold (stamp j rows roster now) mids s)) (m_id m) = Some m"
  using assms
proof (induction mids arbitrary: s)
  case Nil
  then show ?case by simp
next
  case (Cons mid mids)
  have "floor_newer (fst (stamp j rows roster now mid s)) j m"
    using Cons.prems(2) floor_newer_cong [OF stamp_tables(1)] by simp
  then show ?case using Cons.IH stamp_keeps_floor [OF Cons.prems] by simp
qed

section \<open>Stored returns\<close>

lemma return_of_mids: "return_of db jid mid = None \<longleftrightarrow> mid \<notin> set (stored_mids db jid)"
  by (auto simp: return_of_def find_row_None stored_mids_def)

lemma copy_return_mids:
  "set (stored_mids (copy_return jid r db) jid) = insert (sr_minion_id r) (set (stored_mids db jid))"
proof (cases "return_of db jid (sr_minion_id r) = None")
  case True
  then show ?thesis by (auto simp: copy_return_def stored_mids_def Let_def)
next
  case False
  have "map jr_minion_id (filter (\<lambda>r. jr_jid r = jid) (update_rows P (\<lambda>x. x\<lparr>jr_success := a, jr_payload := b\<rparr>) xs))
      = map jr_minion_id (filter (\<lambda>r. jr_jid r = jid) xs)" for P a b xs
    by (induction xs) (auto simp: update_rows_def)
  then have "stored_mids (copy_return jid r db) jid = stored_mids db jid"
    using False unfolding copy_return_def stored_mids_def Let_def by simp
  then show ?thesis using False return_of_mids [of db jid "sr_minion_id r"] by auto
qed

lemma copy_returns_mids:
  "set (stored_mids (fold (copy_return jid) rows db) jid) = set (map sr_minion_id rows) \<union> set (stored_mids db jid)"
  by (induction rows arbitrary: db) (auto simp: copy_return_mids)

lemma copy_return_tables [simp]:
  "jobs (copy_return jid r db) = jobs db" "minions (copy_return jid r db) = minions db"
  by (simp_all add: copy_return_def Let_def)

lemma copy_returns_tables:
  "jobs (fold (copy_return jid) rows db) = jobs db" "minions (fold (copy_return jid) rows db) = minions db"
  by (induction rows arbitrary: db) simp_all

lemma put_job_get: "job_by_jid (put_job j db) i = (if i = j_jid j then Some j else job_by_jid db i)"
proof (cases "job_by_jid db (j_jid j)")
  case None
  then show ?thesis
    by (auto simp: put_job_def job_by_jid_def find_row_append split: option.splits dest: find_row_Some)
next
  case (Some r)
  have "find_row j_jid i (update_rows (\<lambda>r. j_jid r = j_jid j) (\<lambda>_. j) js)
      = (if i = j_jid j then map_option (\<lambda>_. j) (find_row j_jid i js) else find_row j_jid i js)" for js
    by (induction js) (auto simp: update_rows_def)
  then show ?thesis using Some by (auto simp: put_job_def job_by_jid_def)
qed

lemma put_job_tables [simp]:
  "job_returns (put_job j db) = job_returns db" "minions (put_job j db) = minions db"
  "salt_returns (put_job j db) = salt_returns db"
  by (simp_all add: put_job_def)

lemma commit_verdicts_tables:
  "jobs (fst (commit_verdicts j rows now w)) = jobs (fst w)"
  "job_returns (fst (commit_verdicts j rows now w)) = job_returns (fst w)"
  by (simp_all add: commit_verdicts_def verdicts_tables)

lemma stored_mids_cong: "job_returns db' = job_returns db \<Longrightarrow> stored_mids db' jid = stored_mids db jid"
  by (simp add: stored_mids_def)

lemma job_by_jid_cong: "jobs db' = jobs db \<Longrightarrow> job_by_jid db' jid = job_by_jid db jid"
  by (simp add: job_by_jid_def)

text \<open>The youngest return of a job is the latest of its timed rows.\<close>

definition return_times :: "salt_return list \<Rightarrow> int set" where
  "return_times rows = {utc_micros t | r t. r \<in> set rows \<and> sr_alter_time r = Some t}"

lemma return_times_simps [simp]:
  "return_times [] = {}"
  "return_times (r # rows) = (case sr_alter_time r of None \<Rightarrow> {} | Some t \<Rightarrow> {utc_micros t}) \<union> return_times rows"
  by (auto simp: return_times_def split: option.splits)

lemma finite_return_times [simp]: "finite (return_times rows)"
  by (induction rows) (simp_all split: option.split)

lemma Max_insert_max: "finite S \<Longrightarrow> Max (insert (max y a) S) = max y (Max (insert (a::int) S))"
  by (cases "S = {}") (simp_all add: max.assoc)

lemma younger_Some: "younger r (Some y) = Some (case sr_alter_time r of None \<Rightarrow> y | Some t \<Rightarrow> max y (utc_micros t))"
  "younger r None = map_option utc_micros (sr_alter_time r)"
  by (simp_all add: younger_def split: option.split)

lemma youngest_fold:
  "fold younger rows (Some y) = Some (Max (insert y (return_times rows)))"
  by (induction rows arbitrary: y) (simp_all add: younger_Some insert_commute Max_insert_max split: option.split)

lemma youngest_none: "fold younger rows None = (if return_times rows = {} then None else Some (Max (return_times rows)))"
  by (induction rows) (simp_all add: younger_Some youngest_fold split: option.split)

lemma quiet_iff: "quiet_long_enough now rows j = (if return_times rows = {}
    then \<exists>t. j_started_at j = Some t \<and> 60 * 1000000 < now - utc_micros t
    else 60 * 1000000 < now - Max (return_times rows))"
  by (simp add: quiet_long_enough_def youngest_def youngest_none micros_since_def COMPLETE_AFTER_SECONDS_def
      split: option.split)

end
