(* ===== verification/SyncProps.thy ===== *)
theory SyncProps
  imports SyncFacts Demo
begin

text \<open>
  Properties of the returner sync (\<open>overstate_ui/jobs_service.py\<close>) and the conformity verdicts
  (\<open>overstate_ui/states.py\<close>).
\<close>

section \<open>Completion\<close>

lemma master_minions_listed: "master_minions reply jid \<noteq> Some {}"
  by (auto simp: master_minions_def split: option.splits pyval.splits)

lemma sync_empty_job:
  assumes "sync_empty reply now j w = w'" "job_by_jid (fst w) (j_jid j) = Some j" "\<not> j_complete j"
  shows "job_by_jid (fst w') (j_jid j) = Some (j\<lparr>j_complete := (master_minions reply (j_jid j) = None \<and> quiet_long_enough now [] j)\<rparr>)"
proof -
  have same: "j\<lparr>j_complete := False\<rparr> = j" using assms(3) by simp
  have quiet: "quiet_long_enough now [] j \<longleftrightarrow> (\<exists>t. j_started_at j = Some t \<and> micros_since now (utc_micros t))"
    by (simp add: quiet_long_enough_def youngest_def split: option.split)
  have w': "w' = (if master_minions reply (j_jid j) = None \<and> quiet_long_enough now [] j
      then commit_verdicts (j\<lparr>j_complete := True\<rparr>) [] now (put_job (j\<lparr>j_complete := True\<rparr>) (fst w), snd w) else w)"
    using assms(1,3) master_minions_listed [of reply "j_jid j"] unfolding quiet
    by (auto simp: sync_empty_def Let_def split: option.splits)
  show ?thesis
  proof (cases "master_minions reply (j_jid j) = None \<and> quiet_long_enough now [] j")
    case True
    then show ?thesis unfolding w' by (simp add: job_by_jid_cong [OF commit_verdicts_tables(1)] put_job_get)
  next
    case False
    then show ?thesis unfolding w' using assms(2) same by auto
  qed
qed

lemma sync_rows_job:
  assumes "sync_rows reply now j rows w = w'" "\<not> (j_complete j \<and> set (map sr_minion_id rows) \<subseteq> set (stored_mids (fst w) (j_jid j)))"
  shows "job_by_jid (fst w') (j_jid j) = Some (j\<lparr>j_complete :=
      (case master_minions reply (j_jid j) of
         Some ms \<Rightarrow> ms \<subseteq> set (stored_mids (fst w') (j_jid j)) \<and> quiet_long_enough now rows j
       | None \<Rightarrow> quiet_long_enough now rows j)\<rparr>)"
    "set (stored_mids (fst w') (j_jid j)) = set (map sr_minion_id rows) \<union> set (stored_mids (fst w) (j_jid j))"
proof -
  let ?jid = "j_jid j" and ?stored = "stored_mids (fst w) (j_jid j)"
  let ?new = "filter (\<lambda>m. m \<notin> set ?stored) (map sr_minion_id rows)"
  let ?db1 = "fold (copy_return ?jid) rows (fst w)"
  define known where "known = set ?stored \<union> set ?new"
  have known: "known = set (map sr_minion_id rows) \<union> set ?stored" by (auto simp: known_def)
  define fin where fin_def: "fin = (case master_minions reply ?jid of
      Some ms \<Rightarrow> if \<not> ms \<subseteq> known then False else quiet_long_enough now rows j
    | None \<Rightarrow> quiet_long_enough now rows j)"
  have notd: "\<not> (j_complete j \<and> ?new = [])" using assms(2) by (auto simp: filter_empty_conv)
  have w': "w' = commit_verdicts (j\<lparr>j_complete := fin\<rparr>) rows now (put_job (j\<lparr>j_complete := fin\<rparr>) ?db1, snd w)"
    using assms(1) notd unfolding sync_rows_def Let_def known_def fin_def by (simp only: if_False)
  have mids: "stored_mids (fst w') ?jid = stored_mids ?db1 ?jid"
    unfolding w' by (rule stored_mids_cong) (simp add: commit_verdicts_tables)
  show sm: "set (stored_mids (fst w') ?jid) = set (map sr_minion_id rows) \<union> set ?stored"
    unfolding mids by (rule copy_returns_mids)
  have "fin = (case master_minions reply ?jid of
       Some ms \<Rightarrow> ms \<subseteq> set (stored_mids (fst w') ?jid) \<and> quiet_long_enough now rows j
     | None \<Rightarrow> quiet_long_enough now rows j)"
    unfolding fin_def sm known by (auto split: option.split)
  moreover have "job_by_jid (fst w') ?jid = Some (j\<lparr>j_complete := fin\<rparr>)"
    unfolding w' job_by_jid_cong [OF commit_verdicts_tables(1)] by (simp add: put_job_get)
  ultimately show "job_by_jid (fst w') ?jid = Some (j\<lparr>j_complete :=
      (case master_minions reply ?jid of
         Some ms \<Rightarrow> ms \<subseteq> set (stored_mids (fst w') ?jid) \<and> quiet_long_enough now rows j
       | None \<Rightarrow> quiet_long_enough now rows j)\<rparr>)" by simp
qed

text \<open>C17: A sync completes a running job exactly when the job is done. It changes nothing of the job but
  its completion flag, and sets that one if and only if the job is not a synthetic one; every minion the
  master still lists for it has a return, that is, a row of the returner delivered now or stored
  before, none counting when the returner has no row at all; and the job is quiet: the latest of the
  rows that carry a time is more than 60 seconds old or, when no row carries one, the job has a start
  that is. With rows at hand the returns stored afterwards are the delivered ones and those stored
  before.\<close>

theorem sync_never_early:
  fixes reply actor now
  assumes "job_by_jid (fst w) jid = Some j" and "\<not> j_complete j"
  defines "w' \<equiv> sync_job reply actor now jid w" and "rows \<equiv> rows_of (fst w) jid"
  defines "synthetic \<equiv> list_ex (\<lambda>p. starts_with p jid) SYNTHETIC_JID_PREFIXES"
    and "timed \<equiv> {utc_micros t | r t. r \<in> set rows \<and> sr_alter_time r = Some t}"
    and "returned \<equiv> (if rows = [] then {} else sr_minion_id ` set rows \<union> set (stored_mids (fst w) jid))"
  shows "job_by_jid (fst w') jid = Some (j\<lparr>j_complete := (\<not> synthetic
        \<and> (case master_minions reply jid of None \<Rightarrow> True | Some ms \<Rightarrow> ms \<subseteq> returned)
        \<and> (if timed = {} then \<exists>t. j_started_at j = Some t \<and> 60 * 1000000 < now - utc_micros t
           else 60 * 1000000 < now - Max timed))\<rparr>)
    \<and> (synthetic \<or> rows = [] \<or> set (stored_mids (fst w') jid) = returned)"
proof -
  have jid: "j_jid j = jid" using find_row_Some [OF assms(1) [unfolded job_by_jid_def]] by simp
  have timed: "timed = return_times rows" by (simp add: timed_def return_times_def)
  show ?thesis
  proof (cases synthetic)
    case True
    then have "w' = w" by (simp add: w'_def sync_job_def Let_def assms(1) jid synthetic_def)
    then show ?thesis using True assms(1,2) by simp
  next
    case syn: False
    show ?thesis
    proof (cases "rows = []")
      case True
      then have "sync_empty reply now j w = w'"
        using syn by (simp add: w'_def sync_job_def Let_def assms(1) jid synthetic_def rows_def)
      note se = sync_empty_job [OF this, unfolded jid, OF assms(1,2)]
      show ?thesis using syn True se master_minions_listed [of reply jid]
        by (cases "master_minions reply jid") (simp_all add: timed quiet_iff returned_def)
    next
      case False
      then have eq: "sync_rows reply now j rows w = w'"
        using syn by (simp add: w'_def sync_job_def Let_def assms(1) jid synthetic_def rows_def split: list.split)
      have nc: "\<not> (j_complete j \<and> set (map sr_minion_id rows) \<subseteq> set (stored_mids (fst w) (j_jid j)))"
        using assms(2) by simp
      note sj = sync_rows_job [OF eq nc, unfolded jid]
      have ret: "set (stored_mids (fst w') jid) = returned" using sj(2) False by (simp add: returned_def)
      show ?thesis using sj(1) syn False
        by (simp add: timed quiet_iff ret split: option.split)
    qed
  qed
qed

definition demo_job :: "string \<Rightarrow> int \<Rightarrow> bool \<Rightarrow> job" where
  "demo_job jid t finished = \<lparr>j_jid = jid, j_fun = ''state.apply'', j_tgt = ''web-01,web-02'', j_tgt_type = ''list'',
     j_user = ''lead'', j_started_at = Some (Aware t), j_complete = finished, j_batch_group = None,
     j_batch_state = None, j_tgt_requested = None\<rparr>"

definition demo_return :: "string \<Rightarrow> string \<Rightarrow> int \<Rightarrow> salt_return" where
  "demo_return jid mid t = \<lparr>sr_fun = ''state.apply'', sr_jid = jid, sr_minion_id = mid, sr_success = ''True'',
     sr_payload = PDict [], sr_alter_time = Some (Aware t)\<rparr>"

definition sync_store :: store where
  "sync_store = demo_store\<lparr>jobs := [demo_job ''100'' 0 False],
     salt_returns := [demo_return ''100'' ''web-01'' 1000000]\<rparr>"

definition no_verdicts :: verdicts where
  "no_verdicts = \<lparr>watched_states = [], history = [], history_seq = 1\<rparr>"

lemma sync_never_early_witness:
  "job_by_jid (fst (sync_job None ''lead'' 62000000 ''100'' (sync_store, no_verdicts))) ''100''
     = Some (demo_job ''100'' 0 True)
   \<and> job_by_jid (fst (sync_job None ''lead'' 61000000 ''100'' (sync_store, no_verdicts))) ''100''
     = Some (demo_job ''100'' 0 False)"
proof -
  have a: "job_by_jid (fst (sync_store, no_verdicts)) ''100'' = Some (demo_job ''100'' 0 False)" by code_simp
  have b: "\<not> j_complete (demo_job ''100'' 0 False)" by (simp add: demo_job_def)
  have r: "rows_of (fst (sync_store, no_verdicts)) ''100'' = [demo_return ''100'' ''web-01'' 1000000]" by code_simp
  have times: "{utc_micros t | r t. r \<in> set [demo_return ''100'' ''web-01'' 1000000] \<and> sr_alter_time r = Some t} = {1000000}"
    by (simp add: demo_return_def)
  have syn: "\<not> list_ex (\<lambda>p. starts_with p ''100'') SYNTHETIC_JID_PREFIXES" by code_simp
  have upd: "demo_job ''100'' 0 False\<lparr>j_complete := c\<rparr> = demo_job ''100'' 0 c" for c by (simp add: demo_job_def)
  have m: "master_minions None ''100'' = None" by (simp add: master_minions_def)
  show ?thesis
    using sync_never_early [OF a b, of None "''lead''" 62000000] sync_never_early [OF a b, of None "''lead''" 61000000]
    unfolding r times upd m using syn by simp
qed

section \<open>Verdicts\<close>

text \<open>The verdict trail stays bounded: every sync keeps at most 20 verdict rows per minion, with row ids
  distinct and below the sequence, whatever the returner delivered.\<close>

theorem sync_keeps_trail:
  assumes "wf_verdicts (snd w)"
  shows "wf_verdicts (snd (sync_job reply actor now jid w))
    \<and> length (filter (\<lambda>r. v_minion r = mid) (history (snd (sync_job reply actor now jid w)))) \<le> 20"
proof -
  have cv: "wf_verdicts (snd (commit_verdicts j rows now w'))" if "wf_verdicts (snd w')" for j rows w'
    using that by (simp add: commit_verdicts_def verdicts_wf)
  have "wf_verdicts (snd (sync_empty reply now j w))" for j
    using assms cv by (simp add: sync_empty_def Let_def split: option.split)
  moreover have "wf_verdicts (snd (sync_rows reply now j rows w))" for j rows
    using assms cv by (simp add: sync_rows_def Let_def)
  ultimately have wf: "wf_verdicts (snd (sync_job reply actor now jid w))"
    using assms by (simp add: sync_job_def Let_def split: option.split list.split)
  then show ?thesis by (simp add: wf_verdicts_def length_trail [symmetric] HISTORY_LIMIT_def)
qed

lemma no_verdicts_wf: "wf_verdicts no_verdicts"
  by (simp add: wf_verdicts_def no_verdicts_def trail_def)

lemma sync_keeps_trail_witness:
  "map v_status (history (snd (sync_job None ''lead'' 62000000 ''100'' (sync_store, no_verdicts)))) = [''ok'', ''unreachable'']
   \<and> length (filter (\<lambda>r. v_minion r = ''web-01'') (history (snd (sync_job None ''lead'' 62000000 ''100'' (sync_store, no_verdicts))))) \<le> 20"
proof -
  have "wf_verdicts (snd (sync_store, no_verdicts))" by (simp add: no_verdicts_wf)
  note sync_keeps_trail [OF this, of None "''lead''" 62000000 "''100''" "''web-01''"]
  moreover have "map v_status (history (snd (sync_job None ''lead'' 62000000 ''100'' (sync_store, no_verdicts)))) = [''ok'', ''unreachable'']"
    by code_simp
  ultimately show ?thesis by blast
qed

text \<open>A verdict of a newer job keeps the floor: an older job that lands later, whatever rows it brings,
  leaves the minion row of a minion whose verdict a newer job stamped exactly as it was.\<close>

theorem newer_verdict_kept:
  assumes "minion_by_id (fst s) mid = Some m"
    and "dict_or_none ''jid'' (m_conformity m) = PStr newer" and "newer \<noteq> []" and "newer \<noteq> j_jid j"
    and "job_by_jid (fst s) newer = Some j'"
    and "j_started_at j' = Some t'" and "j_started_at j = Some t" and "utc_micros t < utc_micros t'"
  shows "minion_by_id (fst (apply_sync_verdicts j rows now s)) mid = Some m"
proof -
  have id: "m_id m = mid" using find_row_Some [OF assms(1) [unfolded minion_by_id_def]] by simp
  have "floor_newer (fst s) j m" using assms(2-8) by (simp add: floor_newer_def)
  then show ?thesis
    using stamps_keep_floor [of s m j] assms(1) by (simp add: apply_sync_verdicts_def Let_def id)
qed

definition stamped_minion :: minion where
  "stamped_minion = (demo_minion ''web-01'' ''Debian'')\<lparr>m_conformity := verdict_dict ''ok'' ''200'' 0 False\<rparr>"

definition floor_store :: store where
  "floor_store = sync_store\<lparr>jobs := [demo_job ''100'' 0 False, demo_job ''200'' 5000000 True],
     minions := [stamped_minion, demo_minion ''web-02'' ''Alma'']\<rparr>"

lemma newer_verdict_kept_witness:
  "minion_by_id (fst (apply_sync_verdicts (demo_job ''100'' 0 True) [demo_return ''100'' ''web-01'' 1000000] 62000000
      (floor_store, no_verdicts))) ''web-01'' = Some stamped_minion"
proof -
  have a: "minion_by_id (fst (floor_store, no_verdicts)) ''web-01'' = Some stamped_minion"
    "job_by_jid (fst (floor_store, no_verdicts)) ''200'' = Some (demo_job ''200'' 5000000 True)"
    "dict_or_none ''jid'' (m_conformity stamped_minion) = PStr ''200''" by code_simp+
  show ?thesis
    by (rule newer_verdict_kept [OF a(1,3) _ _ a(2), where t = "Aware 0" and t' = "Aware 5000000"])
      (simp_all add: demo_job_def)
qed

end
