(* ===== verification/Batch.thy ===== *)
theory Batch
  imports Launch
begin

text \<open>
  Gated wave batches and orchestration, \<open>overstate_ui/tasks_batch.py\<close>, with the request that starts
  one (\<open>run_batched\<close> of \<open>overstate_ui/jobs_service.py\<close>). The wave loop runs in a worker or, when the
  queue cannot be reached, inside the request; only there is \<open>flask.g\<close> a memo of the grant entries.
  What others do between two waves is an argument of each wave: a change of the database, a cancel
  flag, and the passes of the wait.
\<close>

section \<open>Rosters and waves\<close>

function chunks :: "nat \<Rightarrow> 'a list \<Rightarrow> 'a list list" where
  "chunks n xs = (if n = 0 \<or> xs = [] then [] else take n xs # chunks n (drop n xs))"
  by pat_completeness auto
termination by (relation "measure (\<lambda>(n, xs). length xs)") auto

declare chunks.simps [simp del]

definition wave_size :: "nat \<Rightarrow> string \<Rightarrow> int \<Rightarrow> int" where
  "wave_size len mode n = max 1 (if mode = ''percent'' then max 1 (- ((- (int len * n)) div 100)) else n)"

definition split_roster :: "string list \<Rightarrow> string \<Rightarrow> int \<Rightarrow> string list list" where
  "split_roster roster mode n = chunks (nat (wave_size (length roster) mode n)) roster"

section \<open>The wave loop\<close>

record wave_env =
  we_others :: "store \<Rightarrow> store"
  we_cancelled :: bool
  we_passes :: "pass list"

record batch_run =
  br_world :: world
  br_wire :: "publication list"
  br_failures :: int
  br_missing :: int

record batch_spec =
  bp_group :: string
  bp_fun :: string
  bp_args :: "pyval list"
  bp_kwarg :: "kwargs option"
  bp_stop_after :: int
  bp_user :: string

text \<open>What a wave ends with: the next wave, a stop with the status it sets, or an exception.\<close>

datatype wave_end = Next | Stop string | Crashed py_error

definition batch_db :: "(store \<Rightarrow> store) \<Rightarrow> batch_run \<Rightarrow> batch_run" where
  "batch_db f b = b\<lparr>br_world := (f (fst (br_world b)), snd (br_world b))\<rparr>"

definition batch_log :: "string \<Rightarrow> string \<Rightarrow> string option \<Rightarrow> string option \<Rightarrow> batch_run \<Rightarrow> batch_run" where
  "batch_log user_name action jid detail = batch_db (log_event user_name action jid None None None detail)"

definition parent_jid :: "string \<Rightarrow> string" where "parent_jid grp = ''batch-'' @ grp"
definition wave_jid :: "string \<Rightarrow> nat \<Rightarrow> string" where "wave_jid grp num = ''batch-'' @ grp @ ''-w'' @ nat_str num"

definition update_parent :: "string \<Rightarrow> (string \<times> pyval) list \<Rightarrow> bool \<Rightarrow> store \<Rightarrow> store res" where
  "update_parent grp new finished db =
     (case job_by_jid db (parent_jid grp) of
        None \<Rightarrow> Inl (RuntimeErr ''NoneType has no attribute batch_state'')
      | Some p \<Rightarrow>
          Inr (put_job (p\<lparr>j_batch_state := Some (fold (\<lambda>(k, v). assoc_set k v) new
                 (case j_batch_state p of None \<Rightarrow> [] | Some st \<Rightarrow> st)),
               j_complete := j_complete p \<or> finished\<rparr>) db))"

text \<open>The targets of a wave the defining user may still run, or why the batch stops.\<close>

datatype wave_targets = Go "string list" | Skip | Denied string

definition wave_actor_ids :: "env \<Rightarrow> gctx \<Rightarrow> store \<Rightarrow> user option \<Rightarrow> string \<Rightarrow> string set" where
  "wave_actor_ids e g db actor fun_name =
     (case (actor, publish_perm fun_name) of
        (Some u, Some perm) \<Rightarrow> minions_with e g db u perm
      | _ \<Rightarrow> {})"

definition wave_gate :: "env \<Rightarrow> gctx \<Rightarrow> store \<Rightarrow> batch_spec \<Rightarrow> string list \<Rightarrow> wave_targets" where
  "wave_gate e g db sp targets =
     (if rbac_mode e db \<noteq> ''scoped'' then Go targets
      else
        (let actor = user_by_name db (bp_user sp);
             allowed = wave_actor_ids e g db actor (bp_fun sp);
             kept = filter (\<lambda>m. m \<in> allowed) targets
         in if allowed = {} then Denied (''batch:'' @ bp_group sp)
            else if kept = [] then Skip
            else
              (case actor of
                 None \<Rightarrow> Go kept
               | Some u \<Rightarrow>
                   if \<not> has_fleet e g db u ''job.batch''
                      \<and> (minions_with e g db u ''job.batch'' = {}
                         \<or> \<not> set targets \<subseteq> minions_with e g db u ''job.batch'')
                   then Denied (''batch:'' @ bp_group sp @ '':no-batch-grant'')
                   else Go kept)))"

fun wave_wait :: "string \<Rightarrow> string \<Rightarrow> nat \<Rightarrow> pass list \<Rightarrow> world \<Rightarrow> world" where
  "wave_wait actor jid n [] w = w"
| "wave_wait actor jid n (p # ps) w =
     (let w' = sync_job (p_reply p) actor (p_now p) jid (arrived (p_arrive p) w)
      in if n \<le> length (stored_mids (fst w') jid) then w' else wave_wait actor jid n ps w')"

definition child_row :: "string \<Rightarrow> batch_spec \<Rightarrow> string list \<Rightarrow> bool \<Rightarrow> store \<Rightarrow> job" where
  "child_row jid sp targets finished db =
     \<lparr>j_jid = jid, j_fun = bp_fun sp, j_tgt = py_join '','' targets, j_tgt_type = ''list'', j_user = bp_user sp,
      j_started_at = Some (Aware (db_now db)), j_complete = finished, j_batch_group = Some (bp_group sp),
      j_batch_state = None, j_tgt_requested = None\<rparr>"

definition failed_returns :: "store \<Rightarrow> string \<Rightarrow> nat" where
  "failed_returns db jid = length (filter (\<lambda>r. jr_jid r = jid \<and> \<not> jr_success r) (job_returns db))"

text \<open>The publish of a wave failed on every pod: a completed child row that counts as failures.\<close>

definition wave_failed :: "batch_spec \<Rightarrow> nat \<Rightarrow> string list \<Rightarrow> batch_run \<Rightarrow> wave_end \<times> batch_run" where
  "wave_failed sp num targets b =
     (let jid = wave_jid (bp_group sp) num @ ''-failed''; db = fst (br_world b)
      in case add_job (child_row jid sp targets True db) db of
           Inl er \<Rightarrow> (Crashed er, b)
         | Inr db' \<Rightarrow>
             (let b1 = batch_log (bp_user sp) (''batch-wave-failed:'' @ bp_group sp @ '':'' @ nat_str num) (Some jid) None
                    (batch_db (\<lambda>_. db') b\<lparr>br_failures := br_failures b + int (length targets)\<rparr>)
              in (if bp_stop_after sp \<le> br_failures b1 then Stop ''stopped'' else Next, b1)))"

text \<open>The wave was published: wait, count, and gate.\<close>

definition wave_published ::
  "batch_spec \<Rightarrow> nat \<Rightarrow> string list \<Rightarrow> string list \<Rightarrow> pass list \<Rightarrow> batch_run \<Rightarrow> wave_end \<times> batch_run" where
  "wave_published sp num targets missed passes b =
     (let jid = wave_jid (bp_group sp) num;
          b1 = (if missed = [] then b
                else batch_log (bp_user sp) (''batch-wave-partial:'' @ bp_group sp @ '':'' @ nat_str num @ '':''
                       @ py_join '','' missed) (Some jid) None b);
          db = fst (br_world b1)
      in case add_job (child_row jid sp targets False db) db of
           Inl er \<Rightarrow> (Crashed er, b1)
         | Inr db' \<Rightarrow>
             (let w = wave_wait (bp_user sp) jid (length targets) passes (db', snd (br_world b1));
                  missing = max 0 (int (length targets) - int (length (stored_mids (fst w) jid)));
                  failures = br_failures b1 + int (failed_returns (fst w) jid) + missing;
                  b2 = batch_log (bp_user sp) (''batch-wave:'' @ bp_group sp @ '':'' @ nat_str num) (Some jid) None
                         (b1\<lparr>br_world := w, br_failures := failures, br_missing := br_missing b1 + missing\<rparr>)
              in case update_parent (bp_group sp)
                        [(''failures'', PInt failures), (''waves_done'', PInt (int num)),
                         (''status'', PStr ''running''), (''missing'', PInt (br_missing b2))] False
                        (fst (br_world b2)) of
                   Inl er \<Rightarrow> (Crashed er, b2)
                 | Inr db2 \<Rightarrow>
                     (let b3 = batch_db (\<lambda>_. db2) b2
                      in if bp_stop_after sp \<le> failures
                         then (Stop ''stopped'', batch_log (bp_user sp) (''batch-stopped:'' @ bp_group sp) None None b3)
                         else (Next, b3))))"

definition run_wave ::
  "env \<Rightarrow> gctx \<Rightarrow> salt \<Rightarrow> batch_spec \<Rightarrow> nat \<Rightarrow> string list \<Rightarrow> wave_env \<Rightarrow> batch_run \<Rightarrow> wave_end \<times> batch_run" where
  "run_wave e g s sp num wave we b0 =
     (let b = batch_db (we_others we) b0
      in if we_cancelled we
         then (Stop ''cancelled'', batch_log (bp_user sp) (''batch-cancelled:'' @ bp_group sp) None None b)
         else
           (case wave_gate e g (fst (br_world b)) sp (sort wave) of
              Denied detail \<Rightarrow> (Stop ''stopped'', batch_log (bp_user sp) ''batch-stopped-authz'' None (Some detail) b)
            | Skip \<Rightarrow> (Next, b)
            | Go targets \<Rightarrow>
                (case publish_all_async s (PList (map PStr targets)) (bp_fun sp) (bp_args sp) ''list''
                        (wave_jid (bp_group sp) num) (bp_kwarg sp) of
                   (Inl _, wire) \<Rightarrow> wave_failed sp num targets (b\<lparr>br_wire := br_wire b @ wire\<rparr>)
                 | (Inr missed, wire) \<Rightarrow>
                     wave_published sp num targets missed (we_passes we) (b\<lparr>br_wire := br_wire b @ wire\<rparr>))))"

fun run_waves ::
  "env \<Rightarrow> gctx \<Rightarrow> salt \<Rightarrow> batch_spec \<Rightarrow> (nat \<Rightarrow> wave_env) \<Rightarrow> nat \<Rightarrow> string list list \<Rightarrow> batch_run
   \<Rightarrow> wave_end \<times> batch_run" where
  "run_waves e g s sp envs num [] b = (Stop ''complete'', b)"
| "run_waves e g s sp envs num (wave # waves) b =
     (case run_wave e g s sp num wave (envs num) b of
        (Next, b') \<Rightarrow> run_waves e g s sp envs (Suc num) waves b'
      | (x, b') \<Rightarrow> (x, b'))"

definition run_wave_batch ::
  "env \<Rightarrow> gctx \<Rightarrow> salt \<Rightarrow> batch_spec \<Rightarrow> (nat \<Rightarrow> wave_env) \<Rightarrow> string list list \<Rightarrow> world
   \<Rightarrow> (string \<times> int) res \<times> world \<times> publication list" where
  "run_wave_batch e g s sp envs waves w =
     (case run_waves e g s sp envs 1 waves
             \<lparr>br_world = w, br_wire = [], br_failures = 0, br_missing = 0\<rparr> of
        (Stop status, b) \<Rightarrow>
          (let finish = (\<lambda>db. case update_parent (bp_group sp)
                  [(''failures'', PInt (br_failures b)), (''status'', PStr status), (''missing'', PInt (br_missing b))]
                  True db of Inl _ \<Rightarrow> db | Inr db' \<Rightarrow> db');
               b1 = batch_log (bp_user sp) (''batch-'' @ status @ '':'' @ bp_group sp) None None (batch_db finish b)
           in (Inr (status, br_failures b), br_world b1, br_wire b1))
      | (Crashed er, b) \<Rightarrow> (Inl er, br_world b, br_wire b)
      | (Next, b) \<Rightarrow> (Inr (''complete'', br_failures b), br_world b, br_wire b))"

end
