(* ===== verification/BatchRequest.thy ===== *)
theory BatchRequest
  imports Batch
begin

text \<open>
  Starting a batch (\<open>run_batched\<close>, \<open>overstate_ui/jobs_service.py\<close>) and running an orchestration in a
  worker (\<open>run_orchestrate_task\<close>, \<open>overstate_ui/tasks_batch.py\<close>). The batch id, whether the queue took
  the task, and the runner's reply are arguments.
\<close>

definition jobs_new :: string where "jobs_new = ''jobs.new''"
definition jobs_detail :: "string \<Rightarrow> string" where "jobs_detail jid = ''jobs.detail:'' @ jid"

section \<open>The roster of a request\<close>

definition usable_roster :: "string list option \<Rightarrow> ctx \<Rightarrow> (resp + string list \<times> string set) \<times> ctx" where
  "usable_roster roster c =
     (case roster of
        None \<Rightarrow> (Inl (Redirect jobs_new), flash ''Batch mode supports list, glob, and group targets.'' ''error'' c)
      | Some [] \<Rightarrow> (Inl (Redirect jobs_new), flash ''No known minions match.'' ''error'' c)
      | Some ids \<Rightarrow> (Inr (ids, {}), c))"

definition covers_roster :: "env \<Rightarrow> user \<Rightarrow> string \<Rightarrow> string list \<Rightarrow> ctx \<Rightarrow> bool" where
  "covers_roster e who perm roster c =
     (has_fleet e (c_memo c) (c_db c) who perm
      \<or> set roster \<subseteq> minions_with e (c_memo c) (c_db c) who perm)"

definition deny_batch :: "user \<Rightarrow> string \<Rightarrow> string \<Rightarrow> ctx \<Rightarrow> (resp + string list \<times> string set) \<times> ctx" where
  "deny_batch who perm detail c =
     (Inl (Abort 403), on_db (audit_deny who perm None detail (Some (actor_label who))) c)"

text \<open>The two interactive gates; a token owner only has its entries read, the answers are not used.\<close>

definition batch_gates :: "env \<Rightarrow> user \<Rightarrow> bool \<Rightarrow> string \<Rightarrow> ctx \<Rightarrow> resp \<times> ctx" where
  "batch_gates e who token perm c =
     (if token then (Page, touch who c)
      else require e who perm None None ''no-grant''
             (require e who ''job.batch'' None None ''no-grant'' (\<lambda>c'. (Page, c'))) c)"

definition scoped_roster ::
  "env \<Rightarrow> user \<Rightarrow> bool \<Rightarrow> string \<Rightarrow> string \<Rightarrow> string \<Rightarrow> string \<Rightarrow> ctx \<Rightarrow> (resp + string list \<times> string set) \<times> ctx" where
  "scoped_roster e who token tgt tgt_type fun_name save_as c =
     (case publish_perm fun_name of
        None \<Rightarrow> deny_batch who fun_name ''no-grant'' c
      | Some perm \<Rightarrow>
          (case batch_gates e who token perm c of
             (Page, c1) \<Rightarrow>
               (case constrain_target_verbose e (c_memo c1) (c_db c1) who perm tgt tgt_type of
                  Inl d \<Rightarrow> deny_batch who (d_perm d) (d_detail d) c1
                | Inr (_, _, requested, hit) \<Rightarrow>
                    (case (case hit of
                             None \<Rightarrow> usable_roster (resolve_batch_roster (c_db c1) tgt tgt_type) c1
                           | Some h \<Rightarrow> (Inr (sorted_list_of_set h,
                                            (case requested of None \<Rightarrow> {} | Some r \<Rightarrow> r - h)), c1)) of
                       (Inl r, c2) \<Rightarrow> (Inl r, c2)
                     | (Inr (roster, narrowed), c2) \<Rightarrow>
                         if \<not> covers_roster e who ''job.batch'' roster c2
                         then deny_batch who ''job.batch'' ''out-of-scope'' c2
                         else if save_as \<noteq> [] \<and> \<not> covers_roster e who ''job.save'' roster c2
                         then deny_batch who ''job.save'' ''out-of-scope'' c2
                         else (Inr (roster, narrowed), c2)))
           | (r, c1) \<Rightarrow> (Inl r, c1)))"

definition batch_roster ::
  "env \<Rightarrow> user \<Rightarrow> bool \<Rightarrow> string \<Rightarrow> string \<Rightarrow> string \<Rightarrow> string \<Rightarrow> ctx \<Rightarrow> (resp + string list \<times> string set) \<times> ctx" where
  "batch_roster e who token tgt tgt_type fun_name save_as c =
     (if rbac_mode e (c_db c) = ''scoped'' then scoped_roster e who token tgt tgt_type fun_name save_as c
      else usable_roster (resolve_batch_roster (c_db c) tgt tgt_type) c)"

section \<open>Starting\<close>

definition batch_dict :: "batch \<Rightarrow> (string \<times> pyval) list" where
  "batch_dict b = [(''mode'', PStr (b_mode b)), (''size'', PInt (b_size b)), (''stop_after'', PInt (b_stop_after b))]"

definition parent_row :: "string \<Rightarrow> string \<Rightarrow> string \<Rightarrow> string \<Rightarrow> string \<Rightarrow> batch \<Rightarrow> nat \<Rightarrow> store \<Rightarrow> job" where
  "parent_row grp fun_name tgt tgt_type name b waves db =
     \<lparr>j_jid = parent_jid grp, j_fun = fun_name, j_tgt = tgt, j_tgt_type = tgt_type, j_user = name,
      j_started_at = Some (Aware (db_now db)), j_complete = False, j_batch_group = Some grp,
      j_batch_state = Some (batch_dict b @
        [(''status'', PStr ''running''), (''failures'', PInt 0), (''waves'', PInt (int waves)), (''waves_done'', PInt 0)]),
      j_tgt_requested = None\<rparr>"

definition add_saved_job :: "saved_job \<Rightarrow> store \<Rightarrow> store res" where
  "add_saved_job sj db =
     (if sj_name sj \<in> sj_name ` set (saved_jobs db) then Inl IntegrityError
      else Inr (bump ''saved_jobs'' (db\<lparr>saved_jobs := saved_jobs db @ [sj\<lparr>sj_id := seq db ''saved_jobs''\<rparr>]\<rparr>)))"

definition save_batch :: "string \<Rightarrow> string \<Rightarrow> string \<Rightarrow> string \<Rightarrow> pyval list \<Rightarrow> batch \<Rightarrow> store \<Rightarrow> store res" where
  "save_batch save_as fun_name tgt tgt_type args b db =
     (if save_as = [] then Inr db
      else add_saved_job \<lparr>sj_id = 0, sj_name = save_as, sj_fun = fun_name, sj_tgt = tgt, sj_tgt_type = tgt_type,
             sj_args = args, sj_batch = Some (batch_dict b)\<rparr> db)"

text \<open>\<open>queued\<close> says that a worker took the task; otherwise the waves run inside this request.\<close>

definition run_batched ::
  "env \<Rightarrow> salt \<Rightarrow> string \<Rightarrow> bool \<Rightarrow> (nat \<Rightarrow> wave_env) \<Rightarrow> user \<Rightarrow> user option \<Rightarrow> string \<Rightarrow> string \<Rightarrow> string
   \<Rightarrow> pyval list \<Rightarrow> batch \<Rightarrow> string \<Rightarrow> ctx \<times> verdicts \<Rightarrow> resp \<times> (ctx \<times> verdicts) \<times> publication list" where
  "run_batched e s grp queued envs cu actor_user tgt tgt_type fun_name args b save_as cv =
     (let who = (case actor_user of Some u \<Rightarrow> u | None \<Rightarrow> cu);
          name = actor_label who;
          notice = (case actor_user of Some _ \<Rightarrow> Some name | None \<Rightarrow> None)
      in case batch_roster e who (actor_user \<noteq> None) tgt tgt_type fun_name save_as (fst cv) of
           (Inl r, c1) \<Rightarrow> (r, (c1, snd cv), [])
         | (Inr (roster, narrowed), c1) \<Rightarrow>
             (let waves = split_roster roster (b_mode b) (b_size b); db1 = c_db c1
              in case add_job (parent_row grp fun_name tgt tgt_type name b (length waves) db1) db1 of
                   Inl er \<Rightarrow> (Fail er, (c1, snd cv), [])
                 | Inr db2 \<Rightarrow>
                     (let c2 = on_db (log_event name (''batch-start:'' @ grp) None None None None None)
                                 (c1\<lparr>c_db := db2\<rparr>);
                          c3 = (if rbac_mode e (c_db c2) = ''scoped''
                                then audit_narrowed cu narrowed
                                       (or_empty (publish_perm fun_name)) (parent_jid grp) notice c2
                                else c2)
                      in case save_batch save_as fun_name tgt tgt_type args b (c_db c3) of
                           Inl er \<Rightarrow> (Fail er, (c3, snd cv), [])
                         | Inr db4 \<Rightarrow>
                             (case force_beacon_kwargs fun_name args None of
                                (wave_args, wave_kwarg) \<Rightarrow>
                                  (let c4 = c3\<lparr>c_db := db4\<rparr>;
                                       sp = \<lparr>bp_group = grp, bp_fun = fun_name, bp_args = wave_args,
                                             bp_kwarg = wave_kwarg, bp_stop_after = b_stop_after b, bp_user = name\<rparr>;
                                       back = Redirect (jobs_detail (parent_jid grp))
                                   in if queued
                                      then (back, (flash (''Batch queued: '' @ nat_str (length waves) @ '' waves.'')
                                              ''success'' c4, snd cv), [])
                                      else
                                        (case run_wave_batch e (c_memo c4) s sp envs waves (c_db c4, snd cv) of
                                           (Inl er, (db5, v), wire) \<Rightarrow> (Fail er, (c4\<lparr>c_db := db5\<rparr>, v), wire)
                                         | (Inr (status, failures), (db5, v), wire) \<Rightarrow>
                                             (back, (flash (''Batch '' @ status @ '': '' @ py_str_int failures
                                                 @ '' failures over '' @ nat_str (length waves) @ '' waves.'')
                                                 ''warning'' (c4\<lparr>c_db := db5\<rparr>), v), wire)))))))"

section \<open>Orchestration\<close>

fun orch_success :: "pyval \<Rightarrow> bool" and orch_items :: "pyval list \<Rightarrow> bool"
and orch_pairs :: "(string \<times> pyval) list \<Rightarrow> bool" where
  "orch_success (PDict kvs) = (dict_get ''result'' kvs \<noteq> Some (PBool False) \<and> orch_pairs kvs)"
| "orch_success (PList xs) = orch_items xs"
| "orch_success v = True"
| "orch_items [] = True"
| "orch_items (x # xs) = (orch_success x \<and> orch_items xs)"
| "orch_pairs [] = True"
| "orch_pairs ((k, v) # kvs) = (orch_success v \<and> orch_pairs kvs)"

definition store_job_return :: "string \<Rightarrow> string \<Rightarrow> bool \<Rightarrow> pyval \<Rightarrow> store \<Rightarrow> store" where
  "store_job_return jid mid success payload db =
     (if return_of db jid mid = None
      then db\<lparr>job_returns := job_returns db @
        [\<lparr>jr_jid = jid, jr_minion_id = mid, jr_success = success, jr_retcode = (if success then 0 else 1),
          jr_payload = payload\<rparr>]\<rparr>
      else db\<lparr>job_returns := update_rows (\<lambda>x. (jr_jid x, jr_minion_id x) = (jid, mid))
        (\<lambda>x. x\<lparr>jr_success := success, jr_payload := payload\<rparr>) (job_returns db)\<rparr>)"

definition complete_job :: "string \<Rightarrow> store \<Rightarrow> store" where
  "complete_job jid db = db\<lparr>jobs := update_rows (\<lambda>j. j_jid j = jid) (\<lambda>j. j\<lparr>j_complete := True\<rparr>) (jobs db)\<rparr>"

definition output_dict :: "pyval \<Rightarrow> pyval" where
  "output_dict v = PDict [(''output'', v)]"

text \<open>\<open>result[0]\<close> of an empty list raises.\<close>

definition orch_returns :: "pyval \<Rightarrow> (string \<times> pyval) list res" where
  "orch_returns result =
     (case result of
        PList [] \<Rightarrow> Inl (RuntimeErr ''list index out of range'')
      | PList (PDict kvs # _) \<Rightarrow> Inr kvs
      | PList (v # _) \<Rightarrow> Inr [(''output'', v)]
      | PDict kvs \<Rightarrow> Inr kvs
      | v \<Rightarrow> Inr [(''output'', v)])"

definition store_orch :: "string \<Rightarrow> string \<times> pyval \<Rightarrow> store \<Rightarrow> store" where
  "store_orch jid kv =
     (let payload = (case snd kv of PDict kvs \<Rightarrow> PDict kvs | v \<Rightarrow> output_dict v)
      in store_job_return jid (fst kv) (orch_success payload) payload)"

text \<open>\<open>reply\<close> is the runner's answer, or the error of the call; the flag says whether the
  runner was called.\<close>

definition run_orchestrate_task ::
  "env \<Rightarrow> string + pyval \<Rightarrow> string \<Rightarrow> string \<Rightarrow> string \<Rightarrow> store \<Rightarrow> (bool \<times> store) res" where
  "run_orchestrate_task e reply jid mods user_name db =
     (let actor = user_by_name db user_name
      in if rbac_mode e db = ''scoped''
            \<and> (case actor of None \<Rightarrow> True | Some u \<Rightarrow> \<not> has_fleet e (\<lambda>_. None) db u ''job.run.orchestrate'')
         then Inr (False, log_event user_name ''orchestrate-denied-authz'' (Some jid) None None None None
                 (store_job_return jid ''master'' False (output_dict (PStr ''authorization revoked''))
                   (complete_job jid db)))
         else
           (case reply of
              Inl msg \<Rightarrow>
                Inr (True, log_event user_name (''orchestrate-failed:'' @ mods) (Some jid) None None None None
                   (store_job_return jid ''master'' False (output_dict (PStr msg)) (complete_job jid db)))
            | Inr result \<Rightarrow>
                res_bind (orch_returns result) (\<lambda>returns.
                  Inr (True, fold (store_orch jid) returns (complete_job jid db)))))"

end
