(* ===== verification/BatchFacts.thy ===== *)
theory BatchFacts
  imports BatchRequest SyncFacts LaunchFacts
begin

text \<open>
  Facts about waves: how a roster is cut, what a wave may publish, and what the wait of a wave can
  see.
\<close>

section \<open>Cutting\<close>

lemma chunks_Nil [simp]: "chunks n [] = []"
  by (simp add: chunks.simps)

lemma chunks_step: "0 < n \<Longrightarrow> xs \<noteq> [] \<Longrightarrow> chunks n xs = take n xs # chunks n (drop n xs)"
  by (simp add: chunks.simps [of n xs])

lemma concat_chunks: "0 < n \<Longrightarrow> concat (chunks n xs) = xs"
proof (induction n xs rule: chunks.induct)
  case (1 n xs)
  then show ?case by (cases "xs = []") (simp_all add: chunks_step)
qed

lemma chunks_sizes: "0 < n \<Longrightarrow> ys \<in> set (chunks n xs) \<Longrightarrow> ys \<noteq> [] \<and> length ys \<le> n"
proof (induction n xs rule: chunks.induct)
  case (1 n xs)
  then show ?case by (cases "xs = []") (auto simp: chunks_step)
qed

lemma chunks_full: "0 < n \<Longrightarrow> ys \<in> set (butlast (chunks n xs)) \<Longrightarrow> length ys = n"
proof (induction n xs rule: chunks.induct)
  case (1 n xs)
  show ?case
  proof (cases "xs = [] \<or> drop n xs = []")
    case True
    then show ?thesis using 1(2,3) by (cases "xs = []") (auto simp: chunks_step)
  next
    case False
    then have "chunks n (drop n xs) \<noteq> []" using 1(2) by (simp add: chunks_step)
    then show ?thesis using 1 False by (auto simp: chunks_step split: if_splits)
  qed
qed

lemma length_chunks: "0 < n \<Longrightarrow> length (chunks n xs) = (length xs + n - 1) div n"
proof (induction n xs rule: chunks.induct)
  case (1 n xs)
  show ?case
  proof (cases "xs = []")
    case True
    then show ?thesis using 1(2) by simp
  next
    case False
    have "length (chunks n xs) = Suc ((length xs - n + n - 1) div n)"
      using 1 False by (simp add: chunks_step)
    also have "\<dots> = (length xs + n - 1) div n"
    proof (cases "n \<le> length xs")
      case True
      then have "length xs + n - 1 = (length xs - n + n - 1) + n" using 1(2) by simp
      then show ?thesis using 1(2) by (metis Suc_eq_plus1 div_add_self2 less_numeral_extra(3))
    next
      case small: False
      then have "(length xs - n + n - 1) div n = 0" using 1(2) by simp
      moreover have "(length xs + n - 1) div n = 1"
        using small False 1(2) by (cases "length xs") (simp_all add: div_nat_eqI)
      ultimately show ?thesis by simp
    qed
    finally show ?thesis .
  qed
qed

lemma wave_size_pos: "0 < nat (wave_size len mode n)"
  by (simp add: wave_size_def)

section \<open>What a wave publishes\<close>

lemma batch_db_fields [simp]:
  "br_wire (batch_db f b) = br_wire b" "br_failures (batch_db f b) = br_failures b"
  "br_missing (batch_db f b) = br_missing b" "br_world (batch_db f b) = (f (fst (br_world b)), snd (br_world b))"
  by (simp_all add: batch_db_def)

lemma batch_log_fields [simp]:
  "br_wire (batch_log u a j d b) = br_wire b" "br_failures (batch_log u a j d b) = br_failures b"
  "br_missing (batch_log u a j d b) = br_missing b"
  by (simp_all add: batch_log_def)

lemma wave_failed_wire: "wave_failed sp num targets b = (x, b') \<Longrightarrow> br_wire b' = br_wire b"
  by (auto simp: wave_failed_def Let_def split: sum.splits)

lemma wave_published_wire: "wave_published sp num targets missed passes b = (x, b') \<Longrightarrow> br_wire b' = br_wire b"
  unfolding wave_published_def Let_def by (auto split: sum.splits if_splits)

lemma run_wave_wire:
  assumes "run_wave e g s sp num wave we b = (x, b')" "p \<in> set (br_wire b')" "p \<notin> set (br_wire b)"
  obtains targets where "\<not> we_cancelled we"
    "wave_gate e g (we_others we (fst (br_world b))) sp (sort wave) = Go targets"
    "p \<in> set (pod_publications s (PList (map PStr targets)) (bp_fun sp) (bp_args sp) ''list''
          (wave_jid (bp_group sp) num) (bp_kwarg sp))"
proof -
  let ?b = "batch_db (we_others we) b"
  note R = assms(1) [unfolded run_wave_def Let_def]
  have nc: "\<not> we_cancelled we" using R assms(2,3) by (auto split: if_splits)
  show thesis
  proof (cases "wave_gate e g (we_others we (fst (br_world b))) sp (sort wave)")
    case (Go targets)
    let ?pub = "publish_all_async s (PList (map PStr targets)) (bp_fun sp) (bp_args sp) ''list''
          (wave_jid (bp_group sp) num) (bp_kwarg sp)"
    obtain r wire where w: "?pub = (r, wire)" by (cases ?pub)
    have wire: "wire = pod_publications s (PList (map PStr targets)) (bp_fun sp) (bp_args sp) ''list''
          (wave_jid (bp_group sp) num) (bp_kwarg sp)"
      using publish_wire [of s "PList (map PStr targets)" "bp_fun sp" "bp_args sp" "''list''"
          "wave_jid (bp_group sp) num" "bp_kwarg sp"] by (simp add: w)
    have "br_wire b' = br_wire b @ wire"
    proof (cases r)
      case (Inl er)
      then have "wave_failed sp num targets (?b\<lparr>br_wire := br_wire ?b @ wire\<rparr>) = (x, b')"
        using R nc Go w by simp
      from wave_failed_wire [OF this] show ?thesis by simp
    next
      case (Inr missed)
      then have "wave_published sp num targets missed (we_passes we) (?b\<lparr>br_wire := br_wire ?b @ wire\<rparr>) = (x, b')"
        using R nc Go w by simp
      from wave_published_wire [OF this] show ?thesis by simp
    qed
    then have "p \<in> set wire" using assms(2,3) by simp
    then show thesis using that [OF nc Go] wire by simp
  next
    case Skip
    then show thesis using R nc assms(2,3) by auto
  next
    case (Denied d)
    then show thesis using R nc assms(2,3) by auto
  qed
qed

text \<open>The gate in scoped mode: the targets are the caller's, under its batch permission.\<close>

lemma wave_gate_go:
  assumes "rbac_mode e db = ''scoped''" "wave_gate e g db sp targets = Go kept"
  obtains u perm where "user_by_name db (bp_user sp) = Some u" "publish_perm (bp_fun sp) = Some perm"
    "kept = filter (\<lambda>m. m \<in> minions_with e g db u perm) targets" "kept \<noteq> []"
    "has_fleet e g db u ''job.batch'' \<or> set targets \<subseteq> minions_with e g db u ''job.batch''"
proof -
  let ?actor = "user_by_name db (bp_user sp)"
  let ?allowed = "wave_actor_ids e g db ?actor (bp_fun sp)"
  note G = assms(2) [unfolded wave_gate_def Let_def]
  have ne: "?allowed \<noteq> {}" using G assms(1) by auto
  then obtain u perm where up: "?actor = Some u" "publish_perm (bp_fun sp) = Some perm"
    by (auto simp: wave_actor_ids_def split: option.splits)
  have al: "?allowed = minions_with e g db u perm" by (simp add: wave_actor_ids_def up)
  show thesis
    by (rule that [OF up]) (use G assms(1) ne al up(1) in \<open>auto split: if_splits\<close>)
qed

section \<open>The wait of a wave\<close>

text \<open>The job id of a wave has a synthetic prefix, so a sync of it returns at once.\<close>

lemma wave_jid_synthetic: "list_ex (\<lambda>p. starts_with p (wave_jid grp num)) SYNTHETIC_JID_PREFIXES"
  by (simp add: wave_jid_def SYNTHETIC_JID_PREFIXES_def starts_with_iff)

lemma sync_wave_job:
  assumes "job_by_jid (fst w) (wave_jid grp num) = Some j"
  shows "sync_job reply actor now (wave_jid grp num) w = w"
proof -
  have "j_jid j = wave_jid grp num" using find_row_Some [OF assms [unfolded job_by_jid_def]] by simp
  then show ?thesis using wave_jid_synthetic by (simp add: sync_job_def Let_def assms)
qed

lemma wave_wait_blind:
  assumes "job_by_jid (fst w) (wave_jid grp num) = Some j"
  shows "\<exists>rs. wave_wait actor (wave_jid grp num) n passes w = arrived rs w"
  using assms
proof (induction passes arbitrary: w)
  case Nil
  show ?case by (rule exI [of _ "[]"]) (simp add: arrived_def)
next
  case (Cons p ps)
  let ?w = "arrived (p_arrive p) w"
  have j: "job_by_jid (fst ?w) (wave_jid grp num) = Some j" using Cons.prems by (simp add: arrived_def job_by_jid_def)
  obtain rs where rs: "wave_wait actor (wave_jid grp num) n ps ?w = arrived rs ?w" using Cons.IH [OF j] by blast
  have "arrived rs ?w = arrived (p_arrive p @ rs) w" by (simp add: arrived_def)
  then show ?case using sync_wave_job [OF j] rs by (auto simp: Let_def)
qed

lemma wave_wait_returns:
  assumes "job_by_jid (fst w) (wave_jid grp num) = Some j"
  shows "job_returns (fst (wave_wait actor (wave_jid grp num) n passes w)) = job_returns (fst w)"
    "jobs (fst (wave_wait actor (wave_jid grp num) n passes w)) = jobs (fst w)"
  using wave_wait_blind [OF assms, of actor n passes] by (auto simp: arrived_def)

text \<open>So a published wave counts all of its targets as missing, whatever arrives.\<close>

lemma wave_published_blind:
  fixes sp :: batch_spec and num :: nat and b :: batch_run
  defines "jid \<equiv> wave_jid (bp_group sp) num" and "db \<equiv> fst (br_world b)"
  assumes "length jid \<le> 32" "job_by_jid db jid = None" "job_by_jid db (parent_jid (bp_group sp)) = Some parent"
    "stored_mids db jid = []" "failed_returns db jid = 0"
  shows "\<exists>b'. wave_published sp num targets [] passes b
      = (if bp_stop_after sp \<le> br_failures b + int (length targets) then Stop ''stopped'' else Next, b')
    \<and> br_failures b' = br_failures b + int (length targets)"
proof -
  let ?row = "child_row jid sp targets False db"
  let ?db1 = "db\<lparr>jobs := jobs db @ [?row]\<rparr>"
  have rowid: "j_jid ?row = jid" by (simp add: child_row_def)
  have add: "add_job ?row db = Inr ?db1" using assms(3,4) by (simp add: add_job_def rowid)
  have job1: "job_by_jid (fst (?db1, snd (br_world b))) (wave_jid (bp_group sp) num) = Some ?row"
    using assms(4) by (simp add: job_by_jid_def find_row_append rowid jid_def [symmetric] split: option.split)
  note wr = wave_wait_returns [OF job1, folded jid_def]
  have mids: "stored_mids (fst (wave_wait a jid n passes (?db1, snd (br_world b)))) jid = []"
    "failed_returns (fst (wave_wait a jid n passes (?db1, snd (br_world b)))) jid = 0" for a n
    using assms(6,7) wr(1) by (simp_all add: stored_mids_def failed_returns_def)
  have par: "job_by_jid (fst (wave_wait a jid n passes (?db1, snd (br_world b)))) (parent_jid (bp_group sp)) = Some parent" for a n
    using assms(5) wr(2) by (simp add: job_by_jid_def find_row_append)
  have log_job: "job_by_jid (log_event u a j o' q m d db) k = job_by_jid db k" for u a j o' q m d db k
    by (simp add: job_by_jid_def)
  show ?thesis
    unfolding wave_published_def Let_def jid_def [symmetric] db_def [symmetric]
    by (simp add: add db_def [symmetric] mids update_parent_def batch_log_def batch_db_def par log_job)
qed

end
