(* ===== verification/BatchProps.thy ===== *)
theory BatchProps
  imports BatchFacts Demo
begin

text \<open>
  Properties of wave batches (\<open>overstate_ui/tasks_batch.py\<close>): the cut of the roster, the scope of
  every wave, and two ways in which the loop does not see what it is meant to watch.
\<close>

text \<open>The waves are the roster: joined in order they give it back, none is empty, every one but the
  last has exactly the wave size, none is larger, and there are as many as the size divides out.\<close>

theorem waves_are_roster:
  "concat (split_roster roster mode n) = roster
   \<and> list_all (\<lambda>w. w \<noteq> [] \<and> int (length w) \<le> wave_size (length roster) mode n) (split_roster roster mode n)
   \<and> list_all (\<lambda>w. int (length w) = wave_size (length roster) mode n) (butlast (split_roster roster mode n))
   \<and> int (length (split_roster roster mode n))
     = (int (length roster) + wave_size (length roster) mode n - 1) div wave_size (length roster) mode n"
proof -
  define n' where "n' = nat (wave_size (length roster) mode n)"
  have pos: "0 < n'" unfolding n'_def by (rule wave_size_pos)
  have size: "wave_size (length roster) mode n = int n'" by (simp add: n'_def wave_size_def)
  have cut: "split_roster roster mode n = chunks n' roster" by (simp add: split_roster_def n'_def)
  have count: "int (length (chunks n' roster)) = (int (length roster) + int n' - 1) div int n'"
    using pos by (simp add: length_chunks zdiv_int of_nat_diff)
  show ?thesis
    unfolding size cut concat_chunks [OF pos] count list_all_iff
    using chunks_sizes [OF pos] chunks_full [OF pos] by auto
qed

lemma waves_are_roster_witness:
  "split_roster [''a'', ''b'', ''c'', ''d'', ''e''] ''percent'' 40 = [[''a'', ''b''], [''c'', ''d''], [''e'']]
   \<and> concat (split_roster [''a'', ''b'', ''c'', ''d'', ''e''] ''percent'' 40) = [''a'', ''b'', ''c'', ''d'', ''e'']"
  using waves_are_roster [of "[''a'', ''b'', ''c'', ''d'', ''e'']" "''percent''" 40]
  by (simp add: split_roster_def wave_size_def chunks.simps)

text \<open>C18: Every wave is re-checked: in scoped mode what a wave publishes is a non-empty list of ids of
  that wave on which the defining user, as the database stands at that wave, holds the run
  permission; and the user then holds \<open>job.batch\<close> on the fleet or on the whole wave.\<close>

theorem wave_inside_scope:
  assumes "run_wave e g s sp num wave we b = (x, b')" and "p \<in> set (br_wire b')" and "p \<notin> set (br_wire b)"
    and "db = we_others we (fst (br_world b))" and "rbac_mode e db = ''scoped''"
  shows "\<exists>u perm ts. user_by_name db (bp_user sp) = Some u \<and> publish_perm (bp_fun sp) = Some perm
    \<and> pb_tgt p = PList (map PStr ts) \<and> pb_tgt_type p = ''list'' \<and> pb_fun p = bp_fun sp \<and> ts \<noteq> []
    \<and> set ts = set wave \<inter> minions_with e g db u perm
    \<and> (has_fleet e g db u ''job.batch'' \<or> set wave \<subseteq> minions_with e g db u ''job.batch'')"
proof -
  from run_wave_wire [OF assms(1-3)] obtain kept where k:
    "wave_gate e g db sp (sort wave) = Go kept"
    "p \<in> set (pod_publications s (PList (map PStr kept)) (bp_fun sp) (bp_args sp) ''list''
          (wave_jid (bp_group sp) num) (bp_kwarg sp))" unfolding assms(4) by metis
  from wave_gate_go [OF assms(5) k(1)] obtain u perm where up:
    "user_by_name db (bp_user sp) = Some u" "publish_perm (bp_fun sp) = Some perm"
    "kept = filter (\<lambda>m. m \<in> minions_with e g db u perm) (sort wave)" "kept \<noteq> []"
    "has_fleet e g db u ''job.batch'' \<or> set (sort wave) \<subseteq> minions_with e g db u ''job.batch''" by metis
  have "set kept = set wave \<inter> minions_with e g db u perm" by (auto simp: up(3))
  then show ?thesis using pod_publication_fields [OF k(2)] up by (metis set_sort)
qed

definition demo_pods :: salt where
  "demo_pods = \<lparr>pods = [''pod-0''], refused = (\<lambda>_. None), completion = (\<lambda>ps. ps), ssh_reply = (\<lambda>_. Inr (PDict []))\<rparr>"

definition batch_job :: job where
  "batch_job = \<lparr>j_jid = ''batch-0123456789abcdef'', j_fun = ''test.ping'', j_tgt = ''*'', j_tgt_type = ''glob'',
     j_user = ''root'', j_started_at = Some (Aware 0), j_complete = False, j_batch_group = Some ''0123456789abcdef'',
     j_batch_state = Some [], j_tgt_requested = None\<rparr>"

definition batch_store :: store where
  "batch_store = demo_store\<lparr>jobs := [batch_job]\<rparr>"

definition ping_spec :: "string \<Rightarrow> int \<Rightarrow> batch_spec" where
  "ping_spec name stop_after = \<lparr>bp_group = ''0123456789abcdef'', bp_fun = ''test.ping'', bp_args = [], bp_kwarg = None,
     bp_stop_after = stop_after, bp_user = name\<rparr>"

definition calm :: wave_env where
  "calm = \<lparr>we_others = (\<lambda>db. db), we_cancelled = False, we_passes = []\<rparr>"

definition empty_verdicts :: verdicts where
  "empty_verdicts = \<lparr>watched_states = [], history = [], history_seq = 1\<rparr>"

definition batch_start :: batch_run where
  "batch_start = \<lparr>br_world = (batch_store, empty_verdicts), br_wire = [], br_failures = 0, br_missing = 0\<rparr>"

definition lead_publication :: publication where
  "lead_publication = \<lparr>pb_pod = ''pod-0'', pb_jid = wave_jid ''0123456789abcdef'' 1,
     pb_tgt = PList [PStr ''web-01'', PStr ''web-02''], pb_tgt_type = ''list'', pb_fun = ''test.ping'', pb_args = [], pb_kwarg = None\<rparr>"

lemma wave_inside_scope_witness:
  "br_wire (snd (run_wave demo_env fresh demo_pods (ping_spec ''lead'' 5) 1 [''web-02'', ''web-01''] calm batch_start))
     = [lead_publication]
   \<and> (\<exists>u perm. user_by_name batch_store ''lead'' = Some u \<and> publish_perm ''test.ping'' = Some perm
        \<and> {''web-01'', ''web-02''} \<inter> minions_with demo_env fresh batch_store u perm = {''web-01'', ''web-02''})"
proof -
  let ?R = "run_wave demo_env fresh demo_pods (ping_spec ''lead'' 5) 1 [''web-02'', ''web-01''] calm batch_start"
  have w: "br_wire (snd ?R) = [lead_publication]" by code_simp
  have s: "rbac_mode demo_env batch_store = ''scoped''" by code_simp
  have p: "?R = (fst ?R, snd ?R)" "lead_publication \<in> set (br_wire (snd ?R))" "lead_publication \<notin> set (br_wire batch_start)"
    using w by (simp_all add: batch_start_def)
  have db: "batch_store = we_others calm (fst (br_world batch_start))" by (simp add: calm_def batch_start_def)
  have ts: "map PStr ts = [PStr ''web-01'', PStr ''web-02''] \<Longrightarrow> set ts = {''web-01'', ''web-02''}" for ts
    by (auto simp: map_eq_Cons_conv)
  obtain u perm ts where o: "user_by_name batch_store ''lead'' = Some u" "publish_perm ''test.ping'' = Some perm"
    "pb_tgt lead_publication = PList (map PStr ts)" "set ts = set [''web-02'', ''web-01''] \<inter> minions_with demo_env fresh batch_store u perm"
    using wave_inside_scope [OF p db s] by (auto simp: ping_spec_def)
  have "map PStr ts = [PStr ''web-01'', PStr ''web-02'']" using o(3) unfolding lead_publication_def by simp
  then have "{''web-01'', ''web-02''} \<inter> minions_with demo_env fresh batch_store u perm = {''web-01'', ''web-02''}"
    using o(4) ts by auto
  then show ?thesis using w o(1,2) by blast
qed

text \<open>A wave never counts a return: the id of a wave starts with \<open>batch-\<close>, which the sync it waits
  on skips, so whatever the returner delivers during the wait, a wave that every pod accepted ends
  with all of its minions counted as failures, and it stops the batch as soon as the failure limit
  is at most the size of the wave.\<close>

theorem wave_counts_all_missing:
  assumes "rbac_mode e (fst w) \<noteq> ''scoped''" and "\<not> we_cancelled (envs 1)" and "we_others (envs 1) = (\<lambda>db. db)"
    and "fst (publish_all_async s (PList (map PStr (sort wave))) (bp_fun sp) (bp_args sp) ''list''
               (wave_jid (bp_group sp) 1) (bp_kwarg sp)) = Inr []"
    and "length (bp_group sp) = 16" and "job_by_jid (fst w) (wave_jid (bp_group sp) 1) = None"
    and "job_by_jid (fst w) (parent_jid (bp_group sp)) = Some parent"
    and "stored_mids (fst w) (wave_jid (bp_group sp) 1) = []" and "failed_returns (fst w) (wave_jid (bp_group sp) 1) = 0"
    and "bp_stop_after sp \<le> int (length wave)"
  shows "fst (run_wave_batch e g s sp envs (wave # waves) w) = Inr (''stopped'', int (length wave))"
proof -
  let ?targets = "sort wave" and ?b0 = "\<lparr>br_world = w, br_wire = [], br_failures = 0, br_missing = 0\<rparr>"
  obtain wire where pub: "publish_all_async s (PList (map PStr ?targets)) (bp_fun sp) (bp_args sp) ''list''
      (wave_jid (bp_group sp) 1) (bp_kwarg sp) = (Inr [], wire)" using assms(4) by (metis prod.collapse)
  have "length (nat_str 1) = 1" by code_simp
  then have len: "length (wave_jid (bp_group sp) 1) \<le> 32" using assms(5) by (simp add: wave_jid_def)
  have "\<exists>b'. wave_published sp 1 ?targets [] (we_passes (envs 1)) (?b0\<lparr>br_wire := wire\<rparr>)
      = (Stop ''stopped'', b') \<and> br_failures b' = int (length wave)"
    using wave_published_blind [of sp 1 "?b0\<lparr>br_wire := wire\<rparr>" parent ?targets "we_passes (envs 1)"]
      len assms(6-10) by simp
  then obtain b' where b': "wave_published sp 1 ?targets [] (we_passes (envs 1)) (?b0\<lparr>br_wire := wire\<rparr>)
      = (Stop ''stopped'', b')" "br_failures b' = int (length wave)" by blast
  have go: "wave_gate e g (fst w) sp ?targets = Go ?targets"
    using assms(1) by (simp add: wave_gate_def)
  have same: "batch_db (we_others (envs 1)) ?b0 = ?b0" using assms(3) by (simp add: batch_db_def)
  have "run_wave e g s sp 1 wave (envs 1) ?b0 = (Stop ''stopped'', b')"
    using assms(2) b'(1) unfolding run_wave_def Let_def same by (simp add: go pub del: One_nat_def)
  then show ?thesis by (simp add: run_wave_batch_def Let_def b'(2))
qed

definition legacy_store :: store where
  "legacy_store = batch_store\<lparr>settings := []\<rparr>"

text \<open>Both minions answer successfully within the first pass.\<close>

definition answered :: wave_env where
  "answered = calm\<lparr>we_passes := [\<lparr>p_arrive = map (\<lambda>m. \<lparr>sr_fun = ''test.ping'', sr_jid = wave_jid ''0123456789abcdef'' 1,
      sr_minion_id = m, sr_success = ''True'', sr_payload = PDict [], sr_alter_time = Some (Aware 1)\<rparr>) [''web-01'', ''web-02''],
     p_now = 2, p_reply = None\<rparr>]\<rparr>"

lemma wave_counts_all_missing_witness:
  "fst (run_wave_batch demo_env fresh demo_pods (ping_spec ''root'' 2) (\<lambda>_. answered) [[''web-01'', ''web-02''], [''db-01'']]
     (legacy_store, empty_verdicts)) = Inr (''stopped'', 2)"
proof -
  have a: "rbac_mode demo_env (fst (legacy_store, empty_verdicts)) \<noteq> ''scoped''"
    "fst (publish_all_async demo_pods (PList (map PStr (sort [''web-01'', ''web-02'']))) (bp_fun (ping_spec ''root'' 2))
       (bp_args (ping_spec ''root'' 2)) ''list'' (wave_jid (bp_group (ping_spec ''root'' 2)) 1) (bp_kwarg (ping_spec ''root'' 2))) = Inr []"
    "job_by_jid (fst (legacy_store, empty_verdicts)) (wave_jid (bp_group (ping_spec ''root'' 2)) 1) = None"
    "job_by_jid (fst (legacy_store, empty_verdicts)) (parent_jid (bp_group (ping_spec ''root'' 2))) = Some batch_job"
    "stored_mids (fst (legacy_store, empty_verdicts)) (wave_jid (bp_group (ping_spec ''root'' 2)) 1) = []"
    "failed_returns (fst (legacy_store, empty_verdicts)) (wave_jid (bp_group (ping_spec ''root'' 2)) 1) = 0" by code_simp+
  have b: "\<not> we_cancelled answered" "we_others answered = (\<lambda>db. db)" by (simp_all add: answered_def calm_def)
  show ?thesis
    using wave_counts_all_missing [where envs = "\<lambda>_. answered" and sp = "ping_spec ''root'' 2"
        and wave = "[''web-01'', ''web-02'']", OF a(1) b a(2) _ a(3-6)]
    by (simp add: ping_spec_def)
qed

text \<open>Waves that run inside the request do not see a revocation: once the request has read the
  entries of the defining user into \<open>flask.g\<close>, no change of the grants table changes what the gate
  of a wave answers, while the gate of a worker, which has no memo, stops the batch when no entry
  is left.\<close>

theorem inline_waves_miss_revocation:
  assumes "user_by_name db (bp_user sp) = Some u" and "rbac_mode e db = ''scoped''"
    and "g (u_id u) = Some es" and "db' = db\<lparr>grants := gs\<rparr>"
  shows "wave_gate e g db' sp ts = wave_gate e g db sp ts
    \<and> (effective_entries e (\<lambda>_. None) db' u = [] \<longrightarrow>
         wave_gate e (\<lambda>_. None) db' sp ts = Denied (''batch:'' @ bp_group sp))"
proof -
  have flag: "rbac_flag e db' k n d = rbac_flag e db k n d" for k n d
    unfolding rbac_flag_def setting_row_def assms(4) by simp
  then have mode: "rbac_mode e db' = rbac_mode e db" "rbac_fallback_on e db' = rbac_fallback_on e db"
    by (simp_all add: rbac_mode_def rbac_fallback_on_def)
  have ent: "effective_entries e g db' u = effective_entries e g db u"
    using assms(3) by (simp add: effective_entries_def grant_entries_def mode)
  have snap: "snapshot_ids db' = snapshot_ids db" by (simp add: snapshot_ids_def assms(4))
  have scope: "resolve_scope db' = resolve_scope db" by (rule resolve_scope_cong) (simp_all add: assms(4))
  have em: "entry_minions db' p en = entry_minions db p en" for p en
    unfolding entry_minions_def scope snap ..
  have mw: "minions_with e g db' u p = minions_with e g db u p" for p
    unfolding minions_with_def ent em ..
  have hf: "has_fleet e g db' u p = has_fleet e g db u p" for p unfolding has_fleet_def ent ..
  have un: "user_by_name db' n = user_by_name db n" for n by (simp add: user_by_name_def assms(4))
  have wa: "wave_actor_ids e g db' (Some u) f = wave_actor_ids e g db (Some u) f" for f
    by (simp add: wave_actor_ids_def mw split: option.split)
  have "wave_gate e g db' sp ts = wave_gate e g db sp ts"
    unfolding wave_gate_def Let_def un assms(1) wa mode hf mw option.case ..
  moreover have "wave_gate e (\<lambda>_. None) db' sp ts = Denied (''batch:'' @ bp_group sp)"
    if "effective_entries e (\<lambda>_. None) db' u = []"
  proof -
    have "minions_with e (\<lambda>_. None) db' u p = {}" for p unfolding minions_with_def that by simp
    then have "wave_actor_ids e (\<lambda>_. None) db' (Some u) f = {}" for f
      by (simp add: wave_actor_ids_def split: option.split)
    then show ?thesis by (simp add: wave_gate_def Let_def mode assms(1,2) un)
  qed
  ultimately show ?thesis by blast
qed

definition lead_memo :: gctx where
  "lead_memo = remember fresh batch_store lead"

lemma inline_waves_miss_revocation_witness:
  "wave_gate demo_env lead_memo (batch_store\<lparr>grants := []\<rparr>) (ping_spec ''lead'' 5) [''web-01''] = Go [''web-01'']
   \<and> wave_gate demo_env fresh (batch_store\<lparr>grants := []\<rparr>) (ping_spec ''lead'' 5) [''web-01''] = Denied ''batch:0123456789abcdef''"
proof -
  have a: "user_by_name batch_store (bp_user (ping_spec ''lead'' 5)) = Some lead"
    "rbac_mode demo_env batch_store = ''scoped''" "lead_memo (u_id lead) = Some [(''team-lead'', ''group'', ''1'')]"
    "effective_entries demo_env fresh (batch_store\<lparr>grants := []\<rparr>) lead = []"
    "wave_gate demo_env lead_memo batch_store (ping_spec ''lead'' 5) [''web-01''] = Go [''web-01'']" by code_simp+
  have "bp_group (ping_spec ''lead'' 5) = ''0123456789abcdef''" by (simp add: ping_spec_def)
  then show ?thesis using inline_waves_miss_revocation [where g = lead_memo and u = lead and db = batch_store and gs = "[]" and ts = "[''web-01'']", OF a(1-3) refl] a(4,5)
    by simp
qed

end
