(* ===== verification/Api.thy ===== *)
theory Api
  imports Launch Auth
begin

text \<open>
  The token API, \<open>overstate_ui/api.py\<close>: the Bearer header, authentication over every row of a
  prefix, the fire budget, and the pinned and unpinned fires. The argon2 check and the shared counter
  are arguments; an exception that no handler of the module catches is \<open>Crash\<close>.
\<close>

datatype api_resp = Json nat "(string \<times> pyval) list" | Crash py_error

definition api_error :: "nat \<Rightarrow> string \<Rightarrow> api_resp" where
  "api_error status code = Json status [(''ok'', PBool False), (''error'', PStr code)]"

definition TOKEN_RATE_LIMIT :: nat where "TOKEN_RATE_LIMIT = 60"
definition TOKEN_RATE_WINDOW :: rat where "TOKEN_RATE_WINDOW = 60"

record 'r api_state =
  as_ctx :: ctx
  as_verdicts :: verdicts
  as_shared :: 'r
  as_attempts :: attempts

section \<open>Authentication\<close>

definition token_limited ::
  "'r counter option \<Rightarrow> rat \<Rightarrow> int \<Rightarrow> 'r \<times> attempts \<Rightarrow> bool \<times> 'r \<times> attempts" where
  "token_limited client mon token_id s =
     (case s of (r, att) \<Rightarrow>
        (let key = ''api-token:'' @ py_str_int token_id;
             memory = (\<lambda>r'. case memory_limited mon key TOKEN_RATE_LIMIT TOKEN_RATE_WINDOW att of
                               (v, att') \<Rightarrow> (v, r', att'))
         in case client of
              None \<Rightarrow> memory r
            | Some k \<Rightarrow>
                (case ctr_incr k key r of
                   None \<Rightarrow> memory r
                 | Some (count, r1) \<Rightarrow>
                     if count = 1
                     then (case ctr_expire k key TOKEN_RATE_WINDOW r1 of
                             None \<Rightarrow> memory r1
                           | Some r2 \<Rightarrow> (int TOKEN_RATE_LIMIT < count, r2, att))
                     else (int TOKEN_RATE_LIMIT < count, r1, att))))"

definition parse_bearer :: "string option \<Rightarrow> (string \<times> string) option" where
  "parse_bearer v =
     (case v of
        None \<Rightarrow> None
      | Some header \<Rightarrow>
          if \<not> starts_with ''Bearer '' header then None
          else
            (case py_partition CHR ''_'' (py_strip (drop (length ''Bearer '') header)) of
               (prefix, sep, secret) \<Rightarrow>
                 if \<not> sep \<or> prefix = [] \<or> secret = [] then None else Some (prefix, secret)))"

definition token_live :: "(string \<Rightarrow> string \<Rightarrow> bool) \<Rightarrow> int \<Rightarrow> string \<Rightarrow> api_token \<Rightarrow> bool" where
  "token_live verify now raw t =
     (verify (t_token_hash t) raw \<and> t_revoked_at t = None
      \<and> (case t_expires_at t of None \<Rightarrow> True | Some x \<Rightarrow> \<not> x \<le> now))"

definition touch_token :: "int \<Rightarrow> int \<Rightarrow> store \<Rightarrow> store" where
  "touch_token tid now db = db\<lparr>api_tokens :=
     update_rows (\<lambda>t. t_id t = tid) (\<lambda>t. t\<lparr>t_last_used_at := Some now\<rparr>) (api_tokens db)\<rparr>"

definition authenticate ::
  "(string \<Rightarrow> string \<Rightarrow> bool) \<Rightarrow> 'r counter option \<Rightarrow> rat \<Rightarrow> int \<Rightarrow> string option \<Rightarrow> 'r api_state
   \<Rightarrow> (api_resp + user \<times> api_token) \<times> 'r api_state" where
  "authenticate verify client mon now header s =
     (case parse_bearer header of
        None \<Rightarrow> (Inl (api_error 401 ''bearer-required''), s)
      | Some (prefix, secret) \<Rightarrow>
          (let raw = prefix @ ''_'' @ secret; db = c_db (as_ctx s);
               rows = filter (\<lambda>t. t_token_prefix t = prefix) (api_tokens db)
           in case filter (token_live verify now raw) rows of
                [] \<Rightarrow> (Inl (api_error 401 ''invalid-token''), s)
              | live # _ \<Rightarrow>
                  (case user_by_id db (t_user_id live) of
                     None \<Rightarrow> (Inl (api_error 401 ''invalid-token''), s)
                   | Some u \<Rightarrow>
                       (case token_limited client mon (t_id live) (as_shared s, as_attempts s) of
                          (limited, r, att) \<Rightarrow>
                            (let s1 = s\<lparr>as_shared := r, as_attempts := att\<rparr>
                             in if limited then (Inl (api_error 429 ''rate-limited''), s1)
                                else (Inr (u, live\<lparr>t_last_used_at := Some now\<rparr>),
                                      s1\<lparr>as_ctx := on_db (touch_token (t_id live) now) (as_ctx s1)\<rparr>))))))"

section \<open>Fires\<close>

text \<open>\<open>int(saved_id)\<close> of a JSON value: None where \<open>TypeError\<close> or \<open>ValueError\<close> is caught, and the
  \<open>OverflowError\<close> of an infinite float, which is not.\<close>

definition int_of_json :: "pyval \<Rightarrow> int option res" where
  "int_of_json v =
     (case v of
        PInt i \<Rightarrow> Inr (Some i)
      | PBool b \<Rightarrow> Inr (Some (if b then 1 else 0))
      | PFloat q shown \<Rightarrow>
          if shown = ''inf'' \<or> shown = ''-inf''
          then Inl (RuntimeErr ''cannot convert float infinity to integer'')
          else if shown = ''nan'' then Inr None
          else Inr (Some (if 0 \<le> q then \<lfloor>q\<rfloor> else \<lceil>q\<rceil>))
      | PStr t \<Rightarrow> Inr (py_int t)
      | _ \<Rightarrow> Inr None)"

definition deny_fire :: "user \<Rightarrow> string \<Rightarrow> string \<Rightarrow> nat \<Rightarrow> string \<Rightarrow> 'r api_state
    \<Rightarrow> api_resp \<times> 'r api_state \<times> publication list" where
  "deny_fire u perm detail status code s =
     (api_error status code,
      s\<lparr>as_ctx := on_db (audit_deny u perm None detail (Some (u_username u))) (as_ctx s)\<rparr>, [])"

text \<open>\<open>launch\<close> as the token owner; a denied target is 403, any other error escapes.\<close>

definition fire_as ::
  "env \<Rightarrow> salt \<Rightarrow> int \<Rightarrow> user \<Rightarrow> request \<Rightarrow> 'r api_state \<Rightarrow> api_resp \<times> 'r api_state \<times> publication list" where
  "fire_as e sl now u rq s =
     (case launch e sl now [] u (Some u) rq (as_ctx s, as_verdicts s) of
        (outcome, (c, v), wire) \<Rightarrow>
          (case outcome of
             Inr jid \<Rightarrow> Json 200 [(''ok'', PBool True), (''jid'', PStr jid)]
           | Inl (LaunchDenied _) \<Rightarrow> api_error 403 ''forbidden''
           | Inl (LaunchFailed er) \<Rightarrow> Crash er,
           s\<lparr>as_ctx := c, as_verdicts := v\<rparr>, wire))"

definition pinned_request :: "saved_job \<Rightarrow> request" where
  "pinned_request sj =
     \<lparr>rq_tgt = sj_tgt sj, rq_tgt_type = sj_tgt_type sj, rq_fun = sj_fun sj, rq_args = sj_args sj,
      rq_async = True, rq_via = ''local'', rq_kwarg = None, rq_requested = Some (sj_tgt sj)\<rparr>"

definition pinned_fire ::
  "env \<Rightarrow> salt \<Rightarrow> int \<Rightarrow> user \<Rightarrow> api_token \<Rightarrow> pyval \<Rightarrow> 'r api_state
   \<Rightarrow> api_resp \<times> 'r api_state \<times> publication list" where
  "pinned_fire e sl now u t saved_id s =
     (case int_of_json saved_id of
        Inl er \<Rightarrow> (Crash er, s, [])
      | Inr None \<Rightarrow> (api_error 404 ''unknown-saved-job'', s, [])
      | Inr (Some pin) \<Rightarrow>
          (case saved_job_by_id (c_db (as_ctx s)) pin of
             None \<Rightarrow> deny_fire u ''job.run'' ''pin-mismatch'' 404 ''unknown-saved-job'' s
           | Some sj \<Rightarrow>
               if t_saved_job_id t \<noteq> Some (sj_id sj)
               then deny_fire u ''job.run'' ''pin-mismatch'' 404 ''unknown-saved-job'' s
               else if (case sj_batch sj of None \<Rightarrow> False | Some b \<Rightarrow> b \<noteq> [])
               then (api_error 400 ''batch-saved-jobs-are-interactive-only'', s, [])
               else
                 (let s1 = (if sj_fun sj \<in> set CONFIRM_FUNS
                            then s\<lparr>as_ctx := on_db (log_event (u_username u) (''api-fire:destructive:'' @ sj_fun sj)
                                   None None None None (Some (''saved:'' @ py_str_int (sj_id sj)))) (as_ctx s)\<rparr>
                            else s)
                  in fire_as e sl now u (pinned_request sj) s1)))"

definition body_or :: "string \<Rightarrow> pyval \<Rightarrow> (string \<times> pyval) list \<Rightarrow> pyval" where
  "body_or k d body = (case dict_get k body of None \<Rightarrow> d | Some v \<Rightarrow> v)"

definition unpinned_fire ::
  "env \<Rightarrow> salt \<Rightarrow> int \<Rightarrow> user \<Rightarrow> (string \<times> pyval) list \<Rightarrow> 'r api_state
   \<Rightarrow> api_resp \<times> 'r api_state \<times> publication list" where
  "unpinned_fire e sl now u body s =
     (case body_or ''fun'' PNone body of
        PStr f \<Rightarrow>
          if f \<notin> API_READ_FUNS then deny_fire u f ''not-api-readable'' 403 ''function-not-allowed'' s
          else
            (case (body_or ''tgt'' (PStr []) body, body_or ''tgt_type'' (PStr ''glob'') body) of
               (PStr tgt, PStr tt) \<Rightarrow>
                 if tt \<notin> set [''glob'', ''list'', ''group''] then (api_error 400 ''bad-target'', s, [])
                 else
                   (case (body_or ''args'' (PList []) body, body_or ''kwarg'' PNone body) of
                      (PList args, PNone) \<Rightarrow>
                        fire_as e sl now u \<lparr>rq_tgt = tgt, rq_tgt_type = tt, rq_fun = f, rq_args = args,
                          rq_async = True, rq_via = ''local'', rq_kwarg = None, rq_requested = None\<rparr> s
                    | (PList args, PDict kw) \<Rightarrow>
                        fire_as e sl now u \<lparr>rq_tgt = tgt, rq_tgt_type = tt, rq_fun = f, rq_args = args,
                          rq_async = True, rq_via = ''local'', rq_kwarg = Some kw, rq_requested = None\<rparr> s
                    | _ \<Rightarrow> (api_error 400 ''bad-args'', s, []))
             | _ \<Rightarrow> (api_error 400 ''bad-target'', s, []))
      | v \<Rightarrow> deny_fire u (py_str v) ''not-api-readable'' 403 ''function-not-allowed'' s)"

text \<open>\<open>POST /api/jobs/run\<close>: \<open>json\<close> is the parsed body, None when it does not parse.\<close>

definition run_job ::
  "(string \<Rightarrow> string \<Rightarrow> bool) \<Rightarrow> 'r counter option \<Rightarrow> env \<Rightarrow> salt \<Rightarrow> rat \<Rightarrow> int \<Rightarrow> string option \<Rightarrow> pyval option
   \<Rightarrow> 'r api_state \<Rightarrow> api_resp \<times> 'r api_state \<times> publication list" where
  "run_job verify client e sl mon now header json s =
     (if rbac_mode e (c_db (as_ctx s)) \<noteq> ''scoped'' then (api_error 403 ''api-requires-scoped-mode'', s, [])
      else
        (case authenticate verify client mon now header s of
           (Inl resp, s1) \<Rightarrow> (resp, s1, [])
         | (Inr (u, t), s1) \<Rightarrow>
             (case json of
                Some (PDict body) \<Rightarrow>
                  (case dict_get ''saved_id'' body of
                     Some saved_id \<Rightarrow> pinned_fire e sl now u t saved_id s1
                   | None \<Rightarrow>
                       if t_saved_job_id t \<noteq> None
                       then deny_fire u ''job.run'' ''pin-mismatch'' 404 ''unknown-saved-job'' s1
                       else unpinned_fire e sl now u body s1)
              | _ \<Rightarrow> (api_error 400 ''json-body-required'', s1, []))))"

interpretation token_budget: window_budget TOKEN_RATE_LIMIT TOKEN_RATE_WINDOW
    "key_step TOKEN_RATE_LIMIT TOKEN_RATE_WINDOW"
  by unfold_locales (simp_all add: key_step_simps TOKEN_RATE_WINDOW_def)

end
