(* ===== verification/ApiProps.thy ===== *)
theory ApiProps
  imports Api LaunchFacts Demo
begin

text \<open>
  Properties of the token API (\<open>overstate_ui/api.py\<close>) together with the launch it drives.
\<close>

section \<open>Authentication\<close>

lemma authenticate_ok:
  assumes "authenticate verify client mon now header s = (Inr (u, t), s')"
  obtains prefix secret t0 where "parse_bearer header = Some (prefix, secret)"
    "t0 \<in> set (api_tokens (c_db (as_ctx s)))" "t_token_prefix t0 = prefix"
    "token_live verify now (prefix @ ''_'' @ secret) t0"
    "user_by_id (c_db (as_ctx s)) (t_user_id t0) = Some u" "t = t0\<lparr>t_last_used_at := Some now\<rparr>"
    "as_ctx s' = on_db (touch_token (t_id t0) now) (as_ctx s)" "as_verdicts s' = as_verdicts s"
proof -
  from assms obtain prefix secret where b: "parse_bearer header = Some (prefix, secret)"
    by (auto simp: authenticate_def split: option.splits)
  let ?rows = "filter (token_live verify now (prefix @ ''_'' @ secret))
    (filter (\<lambda>t. t_token_prefix t = prefix) (api_tokens (c_db (as_ctx s))))"
  note A = assms [unfolded authenticate_def b option.case prod.case Let_def]
  from A obtain t0 ts where rows: "?rows = t0 # ts" by (cases ?rows) auto
  have t0: "t0 \<in> set (api_tokens (c_db (as_ctx s)))" "t_token_prefix t0 = prefix"
    "token_live verify now (prefix @ ''_'' @ secret) t0"
    using arg_cong [OF rows, of set] by (auto simp: set_eq_iff)
  from A obtain u' where u: "user_by_id (c_db (as_ctx s)) (t_user_id t0) = Some u'"
    unfolding rows by (cases "user_by_id (c_db (as_ctx s)) (t_user_id t0)") auto
  obtain lim r att where lim: "token_limited client mon (t_id t0) (as_shared s, as_attempts s) = (lim, r, att)"
    by (cases "token_limited client mon (t_id t0) (as_shared s, as_attempts s)") auto
  note A = A [unfolded rows list.case u option.case lim prod.case]
  have "\<not> lim" using A by (cases lim) auto
  then have "u' = u" "t = t0\<lparr>t_last_used_at := Some now\<rparr>"
    "as_ctx s' = on_db (touch_token (t_id t0) now) (as_ctx s)" "as_verdicts s' = as_verdicts s"
    using A by auto
  then show thesis using that b t0 u by blast
qed

lemma touch_token_same [simp]:
  "same_authz db (touch_token i now db)" "saved_job_by_id (touch_token i now db) k = saved_job_by_id db k"
  by (simp_all add: same_authz_def touch_token_def saved_job_by_id_def)

section \<open>Fires\<close>

lemma fire_as_wire:
  assumes "fire_as e sl now u rq s = (resp, s', wire)"
  shows "\<exists>res cv'. launch e sl now [] u (Some u) rq (as_ctx s, as_verdicts s) = (res, cv', wire)"
  using assms by (auto simp: fire_as_def split: prod.splits)

text \<open>Every publication of a fire comes from a launch as the owner, on the same authorization tables.\<close>

definition launched_as :: "env \<Rightarrow> salt \<Rightarrow> int \<Rightarrow> user \<Rightarrow> request \<Rightarrow> ctx \<Rightarrow> publication list \<Rightarrow> bool" where
  "launched_as e sl now u rq c0 wire = (\<exists>c v res cv'. launch e sl now [] u (Some u) rq (c, v) = (res, cv', wire)
     \<and> same_authz (c_db c0) (c_db c) \<and> c_memo c = c_memo c0)"

lemma pinned_fire_wire:
  assumes "pinned_fire e sl now u t saved_id s = (resp, s', wire)" "p \<in> set wire"
  obtains i sj where "int_of_json saved_id = Inr (Some i)" "saved_job_by_id (c_db (as_ctx s)) i = Some sj"
    "t_saved_job_id t = Some i" "sj_batch sj = None \<or> sj_batch sj = Some []"
    "launched_as e sl now u (pinned_request sj) (as_ctx s) wire"
proof -
  note P = assms(1) [unfolded pinned_fire_def]
  from P assms(2) obtain i where i: "int_of_json saved_id = Inr (Some i)"
    by (cases "int_of_json saved_id") (auto split: option.splits)
  note P = P [unfolded i sum.case option.case]
  from P assms(2) obtain sj where sj: "saved_job_by_id (c_db (as_ctx s)) i = Some sj"
    by (cases "saved_job_by_id (c_db (as_ctx s)) i") (auto simp: deny_fire_def)
  note P = P [unfolded sj option.case]
  have id: "sj_id sj = i" using find_row_Some [OF sj [unfolded saved_job_by_id_def]] by simp
  have t: "t_saved_job_id t = Some i" using id P assms(2) by (auto simp: deny_fire_def split: if_splits)
  have nb: "sj_batch sj = None \<or> sj_batch sj = Some []"
    using P assms(2) by (cases "sj_batch sj") (auto simp: deny_fire_def split: if_splits)
  obtain s1 where s1: "fire_as e sl now u (pinned_request sj) s1 = (resp, s', wire)"
    "same_authz (c_db (as_ctx s)) (c_db (as_ctx s1))" "c_memo (as_ctx s1) = c_memo (as_ctx s)"
  proof (cases "sj_fun sj \<in> set CONFIRM_FUNS")
    case True
    show thesis
      by (rule that [of "s\<lparr>as_ctx := on_db (log_event (u_username u) (''api-fire:destructive:'' @ sj_fun sj)
                                   None None None None (Some (''saved:'' @ py_str_int (sj_id sj)))) (as_ctx s)\<rparr>"])
        (use P assms(2) t id True in \<open>auto simp: on_db_def Let_def split: if_splits\<close>)
  next
    case False
    show thesis by (rule that [of s]) (use P assms(2) t id False in \<open>auto simp: Let_def split: if_splits\<close>)
  qed
  from fire_as_wire [OF s1(1)] obtain res cv' where
    "launch e sl now [] u (Some u) (pinned_request sj) (as_ctx s1, as_verdicts s1) = (res, cv', wire)" by blast
  then have "launched_as e sl now u (pinned_request sj) (as_ctx s) wire"
    unfolding launched_as_def using s1(2,3) by blast
  then show thesis using that i sj t nb by blast
qed

text \<open>
  What a fire may ask for. A pinned token asks for its saved job as stored, whatever else the body says,
  and only when the body names that job and it is not a batch; an unpinned one asks for what the body
  says, with a function of the read class.
\<close>

definition asks_saved :: "store \<Rightarrow> pyval option \<Rightarrow> int \<Rightarrow> request \<Rightarrow> bool" where
  "asks_saved db json i rq = (\<exists>body v sj. json = Some (PDict body) \<and> dict_get ''saved_id'' body = Some v
     \<and> int_of_json v = Inr (Some i) \<and> saved_job_by_id db i = Some sj \<and> (sj_batch sj = None \<or> sj_batch sj = Some [])
     \<and> rq = \<lparr>rq_tgt = sj_tgt sj, rq_tgt_type = sj_tgt_type sj, rq_fun = sj_fun sj, rq_args = sj_args sj,
         rq_async = True, rq_via = ''local'', rq_kwarg = None, rq_requested = Some (sj_tgt sj)\<rparr>)"

definition asks_read :: "pyval option \<Rightarrow> request \<Rightarrow> bool" where
  "asks_read json rq = (\<exists>body. json = Some (PDict body) \<and> dict_get ''saved_id'' body = None
     \<and> dict_get ''fun'' body = Some (PStr (rq_fun rq)) \<and> rq_fun rq \<in> API_READ_FUNS
     \<and> body_or ''tgt'' (PStr []) body = PStr (rq_tgt rq)
     \<and> body_or ''tgt_type'' (PStr ''glob'') body = PStr (rq_tgt_type rq)
     \<and> rq_tgt_type rq \<in> {''glob'', ''list'', ''group''}
     \<and> body_or ''args'' (PList []) body = PList (rq_args rq)
     \<and> body_or ''kwarg'' PNone body = (case rq_kwarg rq of None \<Rightarrow> PNone | Some kw \<Rightarrow> PDict kw)
     \<and> rq_async rq \<and> rq_via rq = ''local'')"

lemma body_or_str: "body_or k PNone body = PStr f \<Longrightarrow> dict_get k body = Some (PStr f)"
  by (simp add: body_or_def split: option.splits)

lemma unpinned_fire_wire:
  assumes "unpinned_fire e sl now u body s = (resp, s', wire)" "p \<in> set wire" "dict_get ''saved_id'' body = None"
  obtains rq where "asks_read (Some (PDict body)) rq" "launched_as e sl now u rq (as_ctx s) wire"
proof -
  note U = assms(1) [unfolded unpinned_fire_def]
  from U assms(2) obtain f where f: "body_or ''fun'' PNone body = PStr f"
    by (cases "body_or ''fun'' PNone body") (auto simp: deny_fire_def)
  note U = U [unfolded f pyval.case]
  have fr: "f \<in> API_READ_FUNS" using U assms(2) by (auto simp: deny_fire_def split: if_splits)
  from U fr assms(2) obtain tgt where t: "body_or ''tgt'' (PStr []) body = PStr tgt"
    by (cases "body_or ''tgt'' (PStr []) body") auto
  from U fr assms(2) t obtain tt where tt: "body_or ''tgt_type'' (PStr ''glob'') body = PStr tt"
    by (cases "body_or ''tgt_type'' (PStr ''glob'') body") auto
  note U = U [unfolded t tt prod.case pyval.case]
  have ty: "tt \<in> {''glob'', ''list'', ''group''}" using U fr assms(2) by (auto split: if_splits)
  from U fr ty assms(2) obtain args where a: "body_or ''args'' (PList []) body = PList args"
    by (cases "body_or ''args'' (PList []) body") auto
  have "\<exists>kw. body_or ''kwarg'' PNone body = (case kw of None \<Rightarrow> PNone | Some kw \<Rightarrow> PDict kw)
      \<and> fire_as e sl now u \<lparr>rq_tgt = tgt, rq_tgt_type = tt, rq_fun = f, rq_args = args, rq_async = True,
          rq_via = ''local'', rq_kwarg = kw, rq_requested = None\<rparr> s = (resp, s', wire)"
  proof (cases "body_or ''kwarg'' PNone body")
    case PNone
    then show ?thesis using U fr ty a by (intro exI [of _ None]) auto
  next
    case (PDict kw)
    then show ?thesis using U fr ty a by (intro exI [of _ "Some kw"]) auto
  qed (use U fr ty a assms(2) in auto)
  then obtain kw where kw: "body_or ''kwarg'' PNone body = (case kw of None \<Rightarrow> PNone | Some kw \<Rightarrow> PDict kw)"
    "fire_as e sl now u \<lparr>rq_tgt = tgt, rq_tgt_type = tt, rq_fun = f, rq_args = args, rq_async = True,
       rq_via = ''local'', rq_kwarg = kw, rq_requested = None\<rparr> s = (resp, s', wire)" by blast
  let ?rq = "\<lparr>rq_tgt = tgt, rq_tgt_type = tt, rq_fun = f, rq_args = args, rq_async = True,
       rq_via = ''local'', rq_kwarg = kw, rq_requested = None\<rparr>"
  have "asks_read (Some (PDict body)) ?rq"
    using assms(3) body_or_str [OF f] fr t tt ty a kw(1) by (simp add: asks_read_def)
  moreover have "launched_as e sl now u ?rq (as_ctx s) wire"
    using fire_as_wire [OF kw(2)] unfolding launched_as_def by (metis same_authz_refl)
  ultimately show thesis by (rule that)
qed

text \<open>C16: A fire needs a live token and sends exactly its job inside its owner's scope. Whatever the API
  publishes, the mode is scoped and the header names a stored token whose hash verifies, that is
  neither revoked nor expired, and whose owner exists. A pinned token sends the stored function,
  arguments and target of the one saved job it is pinned to, which the body must name; any other
  token sends the function, target and arguments of the body, the function being of the read class.
  What goes out carries these fields (beacon arguments with the local options forced): the target as
  given when the owner holds the function's permission fleet-wide, and otherwise exactly the ids the
  target names among the minions that permission is granted on, at least one.\<close>

theorem api_fires_confined:
  assumes "run_job verify client e sl mon now header json s = (resp, s', wire)" and "p \<in> set wire"
    and "\<forall>m \<in> snapshot_ids (c_db (as_ctx s)). plain_id m"
  defines "db \<equiv> c_db (as_ctx s)" and "g \<equiv> c_memo (as_ctx s)"
  shows "rbac_mode e db = ''scoped''
    \<and> (\<exists>prefix secret t u. parse_bearer header = Some (prefix, secret) \<and> t \<in> set (api_tokens db)
         \<and> t_token_prefix t = prefix \<and> token_live verify now (prefix @ ''_'' @ secret) t
         \<and> user_by_id db (t_user_id t) = Some u
         \<and> (\<exists>rq. publishes_as e g db u rq p
              \<and> (case t_saved_job_id t of None \<Rightarrow> asks_read json rq | Some i \<Rightarrow> asks_saved db json i rq)))"
proof -
  note R = assms(1) [unfolded run_job_def]
  have mode: "rbac_mode e db = ''scoped''" using R assms(2) by (auto simp: db_def split: if_splits)
  note R = R [folded db_def, unfolded mode]
  obtain out s1 where au: "authenticate verify client mon now header s = (out, s1)"
    by (cases "authenticate verify client mon now header s")
  from R assms(2) au obtain u t where out: "out = Inr (u, t)" by (cases out) auto
  from authenticate_ok [OF au [unfolded out]] obtain prefix secret t0 where a:
    "parse_bearer header = Some (prefix, secret)" "t0 \<in> set (api_tokens db)" "t_token_prefix t0 = prefix"
    "token_live verify now (prefix @ ''_'' @ secret) t0" "user_by_id db (t_user_id t0) = Some u"
    "t = t0\<lparr>t_last_used_at := Some now\<rparr>" "as_ctx s1 = on_db (touch_token (t_id t0) now) (as_ctx s)"
    unfolding db_def by metis
  have s1: "c_memo (as_ctx s1) = g" "c_db (as_ctx s1) = touch_token (t_id t0) now db"
    by (simp_all add: a(7) on_db_def g_def db_def)
  have pin: "t_saved_job_id t = t_saved_job_id t0" by (simp add: a(6))
  from R au out assms(2) obtain body where json: "json = Some (PDict body)"
    by (cases json) (auto split: pyval.splits)
  note R = R [unfolded au out json]
  have "\<exists>rq. launched_as e sl now u rq (as_ctx s1) wire
      \<and> (case t_saved_job_id t0 of None \<Rightarrow> asks_read json rq | Some i \<Rightarrow> asks_saved db json i rq)"
  proof (cases "dict_get ''saved_id'' body")
    case (Some saved_id)
    then have "pinned_fire e sl now u t saved_id s1 = (resp, s', wire)" using R by simp
    from pinned_fire_wire [OF this assms(2)] obtain i sj where sj:
      "int_of_json saved_id = Inr (Some i)" "saved_job_by_id (c_db (as_ctx s1)) i = Some sj"
      "t_saved_job_id t = Some i" "sj_batch sj = None \<or> sj_batch sj = Some []"
      "launched_as e sl now u (pinned_request sj) (as_ctx s1) wire" by metis
    have "asks_saved db json i (pinned_request sj)"
      using sj(1,2,4) Some by (simp add: asks_saved_def json s1(2) pinned_request_def)
    then show ?thesis using sj(3,5) by (auto simp: pin)
  next
    case None
    then have np: "t_saved_job_id t = None" using R assms(2) by (auto simp: deny_fire_def split: if_splits)
    then have "unpinned_fire e sl now u body s1 = (resp, s', wire)" using R None by simp
    from unpinned_fire_wire [OF this assms(2) None] show ?thesis using np pin json by auto
  qed
  then obtain rq c v res cv' where l: "launch e sl now [] u (Some u) rq (c, v) = (res, cv', wire)"
    "same_authz (c_db (as_ctx s1)) (c_db c)" "c_memo c = c_memo (as_ctx s1)"
    "case t_saved_job_id t0 of None \<Rightarrow> asks_read json rq | Some i \<Rightarrow> asks_saved db json i rq"
    unfolding launched_as_def by blast
  have same: "same_authz db (c_db c)" using l(2) by (simp add: s1(2) same_authz_def touch_token_def)
  have "publishes_as e g db u rq p"
    using launch_publishes [OF _ _ l(1) assms(2)] mode assms(3)
    by (simp add: same_authz_mode [OF same] same_authz_publishes [OF same] same_authz_decisions [OF same]
        l(3) s1(1) db_def [symmetric])
  then show ?thesis using mode a(1-5) l(4) by blast
qed

definition robot :: user where "robot = (demo_user 7 ''robot'' ''none'')\<lparr>u_kind := ''service''\<rparr>"

definition robot_token :: api_token where
  "robot_token = \<lparr>t_id = 1, t_user_id = 7, t_name = ''ci'', t_token_hash = ''H(abc_s3)'', t_token_prefix = ''abc'',
     t_saved_job_id = Some 1, t_expires_at = None, t_last_used_at = None, t_revoked_at = None, t_created_by = None,
     t_created_at = 0\<rparr>"

definition robot_store :: store where
  "robot_store = demo_store\<lparr>users := users demo_store @ [robot],
     grants := grants demo_store @ [demo_grant 5 (Some 7) None ''team-lead'' ''group'' ''1''],
     api_tokens := [robot_token],
     saved_jobs := [\<lparr>sj_id = 1, sj_name = ''apply'', sj_fun = ''state.apply'', sj_tgt = ''*'', sj_tgt_type = ''glob'',
       sj_args = [], sj_batch = None\<rparr>]\<rparr>"

definition demo_verify :: "string \<Rightarrow> string \<Rightarrow> bool" where
  "demo_verify h raw = (h = ''H('' @ raw @ '')'')"

definition robot_state :: "unit api_state" where
  "robot_state = \<lparr>as_ctx = start robot_store, as_verdicts = \<lparr>watched_states = [], history = [], history_seq = 1\<rparr>,
     as_shared = (), as_attempts = (\<lambda>_. [])\<rparr>"

definition one_pod :: salt where
  "one_pod = \<lparr>pods = [''pod-0''], refused = (\<lambda>_. None), completion = (\<lambda>ps. ps), ssh_reply = (\<lambda>_. Inr (PDict []))\<rparr>"

lemma api_fires_confined_witness:
  "map pb_tgt (snd (snd (run_job demo_verify None demo_env one_pod 0 0 (Some ''Bearer abc_s3'')
      (Some (PDict [(''saved_id'', PInt 1)])) robot_state))) = [PStr ''web-01,web-02'']
   \<and> rbac_mode demo_env robot_store = ''scoped''"
proof -
  let ?R = "run_job demo_verify None demo_env one_pod 0 0 (Some ''Bearer abc_s3'')
      (Some (PDict [(''saved_id'', PInt 1)])) robot_state"
  have w: "map pb_tgt (snd (snd ?R)) = [PStr ''web-01,web-02'']" by code_simp
  then obtain p resp s' where l: "?R = (resp, s', [p])" by (cases ?R) auto
  have i: "\<forall>m \<in> snapshot_ids (c_db (as_ctx robot_state)). plain_id m" by code_simp
  have "c_db (as_ctx robot_state) = robot_store" by (simp add: robot_state_def start_def)
  then show ?thesis using api_fires_confined [OF l _ i, of p] w by simp
qed

end
