(* ===== verification/SaltApi.thy ===== *)
theory SaltApi
  imports PyValue
begin

text \<open>
  The Salt API client, \<open>overstate_ui/salt_client.py\<close>: the token it keeps, the one retry after a 401,
  the payloads of wheel, runner and local calls, and the parser of the event stream. The HTTP
  transport is an argument over an arbitrary world \<open>'w\<close>; every request it is asked to carry is kept
  in a trace, so that what leaves the program can be stated. The clock is read from the world.
\<close>

section \<open>Navigating a decoded reply\<close>

definition py_item :: "string \<Rightarrow> pyval \<Rightarrow> pyval res" where
  "py_item k v =
     (case v of
        PDict kvs \<Rightarrow> (case dict_get k kvs of None \<Rightarrow> Inl (KeyErr k) | Some x \<Rightarrow> Inr x)
      | _ \<Rightarrow> Inl TypeErr)"

definition py_first :: "pyval \<Rightarrow> pyval res" where
  "py_first v =
     (case v of
        PList [] \<Rightarrow> Inl IndexErr | PList (x # _) \<Rightarrow> Inr x
      | PStr [] \<Rightarrow> Inl IndexErr | PStr (c # _) \<Rightarrow> Inr (PStr [c])
      | PDict _ \<Rightarrow> Inl (KeyErr ''0'')
      | _ \<Rightarrow> Inl TypeErr)"

definition py_get :: "string \<Rightarrow> pyval \<Rightarrow> pyval \<Rightarrow> pyval res" where
  "py_get k d v =
     (case v of
        PDict kvs \<Rightarrow> Inr (case dict_get k kvs of None \<Rightarrow> d | Some x \<Rightarrow> x)
      | _ \<Rightarrow> Inl AttributeErr)"

definition py_or :: "pyval \<Rightarrow> pyval \<Rightarrow> pyval" where
  "py_or v d = (if py_truth v then v else d)"

text \<open>\<open>for x in v\<close> and \<open>s in v\<close>.\<close>

definition py_iter :: "pyval \<Rightarrow> pyval list res" where
  "py_iter v =
     (case v of
        PList xs \<Rightarrow> Inr xs
      | PDict kvs \<Rightarrow> Inr (map (\<lambda>(k, _). PStr k) kvs)
      | PStr s \<Rightarrow> Inr (map (\<lambda>c. PStr [c]) s)
      | _ \<Rightarrow> Inl TypeErr)"

definition py_in :: "string \<Rightarrow> pyval \<Rightarrow> bool res" where
  "py_in s v =
     (case v of
        PList xs \<Rightarrow> Inr (PStr s \<in> set xs)
      | PDict kvs \<Rightarrow> Inr (s \<in> set (map fst kvs))
      | PStr t \<Rightarrow> Inr (py_contains s t)
      | _ \<Rightarrow> Inl TypeErr)"

text \<open>\<open>float(v)\<close>; the value of the text forms of infinity and nan is not used.\<close>

definition py_float_str :: "string \<Rightarrow> rat option" where
  "py_float_str s =
     (let t = py_strip s;
          neg = (case t of c # _ \<Rightarrow> c = CHR ''-'' | [] \<Rightarrow> False);
          body = (case t of c # cs \<Rightarrow> if c = CHR ''-'' \<or> c = CHR ''+'' then cs else t | [] \<Rightarrow> t)
      in if py_lower body \<in> set [''inf'', ''infinity'', ''nan''] then Some 0
         else
           (case drop_underscores False body of
              None \<Rightarrow> None
            | Some u \<Rightarrow>
                (case take_digits u of
                   (ds, r1) \<Rightarrow>
                     (case (case r1 of c # cs \<Rightarrow> if c = CHR ''.'' then take_digits cs else ([], r1) | [] \<Rightarrow> ([], [])) of
                        (fs, r2) \<Rightarrow>
                          (case json_exp r2 of
                             (ex, r3) \<Rightarrow>
                               if r3 \<noteq> [] \<or> ds @ fs = [] then None
                               else Some ((if neg then - 1 else 1) * (rat_of_nat (digits_nat (ds @ fs)) / 10 ^ length fs)
                                 * (case ex of None \<Rightarrow> 1
                                    | Some (eneg, es) \<Rightarrow>
                                        if eneg then 1 / 10 ^ digits_nat es else 10 ^ digits_nat es)))))))"

definition py_float :: "pyval \<Rightarrow> rat res" where
  "py_float v =
     (case v of
        PBool b \<Rightarrow> Inr (if b then 1 else 0)
      | PInt i \<Rightarrow> Inr (of_int i)
      | PFloat q _ \<Rightarrow> Inr q
      | PStr s \<Rightarrow> (case py_float_str s of None \<Rightarrow> Inl (ValueError s) | Some q \<Rightarrow> Inr q)
      | _ \<Rightarrow> Inl TypeErr)"

section \<open>Requests\<close>

record http_request =
  hr_path :: string
  hr_json :: pyval
  hr_token :: "pyval option"
  hr_timeout :: rat

text \<open>No answer, or status, text and the decoded body (\<open>Inl\<close> the message of the decoding error).\<close>

datatype http_reply = Unreachable string | Reply nat string "string + pyval"

type_synonym 'w http = "http_request \<Rightarrow> 'w \<Rightarrow> http_reply \<times> 'w"

record salt_session =
  ss_username :: string
  ss_password :: string
  ss_eauth :: string
  ss_token :: pyval
  ss_issued :: rat
  ss_ttl :: rat

text \<open>A client in its world: its own fields, the world, and the requests sent so far.\<close>

record 'w api =
  ap_client :: salt_session
  ap_world :: 'w
  ap_sent :: "http_request list"

definition SaltClient :: "string \<Rightarrow> string \<Rightarrow> string \<Rightarrow> salt_session" where
  "SaltClient username password eauth =
     \<lparr>ss_username = username, ss_password = password, ss_eauth = eauth, ss_token = PNone,
      ss_issued = 0, ss_ttl = 0\<rparr>"

definition default_timeout :: rat where "default_timeout = 30"

definition token_age :: "('w \<Rightarrow> rat) \<Rightarrow> 'w api \<Rightarrow> rat" where
  "token_age clock a =
     (if py_truth (ss_token (ap_client a)) then clock (ap_world a) - ss_issued (ap_client a) else - 1)"

definition send :: "'w http \<Rightarrow> http_request \<Rightarrow> 'w api \<Rightarrow> http_reply \<times> 'w api" where
  "send http rq a =
     (case http rq (ap_world a) of
        (r, w) \<Rightarrow> (r, a\<lparr>ap_world := w, ap_sent := ap_sent a @ [rq]\<rparr>))"

definition timeout_of :: "rat option \<Rightarrow> rat" where
  "timeout_of t = (case t of None \<Rightarrow> default_timeout | Some q \<Rightarrow> q)"

fun exc_text :: "py_error \<Rightarrow> string" where
  "exc_text (KeyErr k) = repr_str k"
| "exc_text IndexErr = ''list index out of range''"
| "exc_text (ValueError m) = m"
| "exc_text _ = []"

definition login_token :: "pyval \<Rightarrow> (pyval \<times> pyval) res" where
  "login_token v =
     res_bind (res_bind (py_item ''return'' v) py_first) (\<lambda>r.
     res_bind (py_item ''token'' r) (\<lambda>t.
     res_bind (py_get ''expire'' (PInt 0) r) (\<lambda>ex. Inr (t, ex))))"

definition login_request :: "salt_session \<Rightarrow> rat option \<Rightarrow> http_request" where
  "login_request c t =
     \<lparr>hr_path = ''/login'',
      hr_json = PDict [(''username'', PStr (ss_username c)), (''password'', PStr (ss_password c)),
                       (''eauth'', PStr (ss_eauth c))],
      hr_token = None, hr_timeout = timeout_of t\<rparr>"

definition login_read :: "('w \<Rightarrow> rat) \<Rightarrow> pyval \<Rightarrow> 'w api \<Rightarrow> unit res \<times> 'w api" where
  "login_read clock v a =
     (case login_token v of
        Inl er \<Rightarrow>
          (Inl (case er of
                  KeyErr _ \<Rightarrow> SaltApiError (''unexpected login response: '' @ exc_text er)
                | IndexErr \<Rightarrow> SaltApiError (''unexpected login response: '' @ exc_text er)
                | _ \<Rightarrow> er), a)
      | Inr (t, ex) \<Rightarrow>
          (let a' = a\<lparr>ap_client := (ap_client a)\<lparr>ss_token := t, ss_issued := clock (ap_world a)\<rparr>\<rparr>
           in case py_float ex of
                Inl er \<Rightarrow> (Inl er, a')
              | Inr q \<Rightarrow> (Inr (), a'\<lparr>ap_client := (ap_client a')\<lparr>ss_ttl := q\<rparr>\<rparr>)))"

definition client_login :: "'w http \<Rightarrow> ('w \<Rightarrow> rat) \<Rightarrow> rat option \<Rightarrow> 'w api \<Rightarrow> unit res \<times> 'w api" where
  "client_login http clock t a =
     (case send http (login_request (ap_client a) t) a of
        (Unreachable m, a') \<Rightarrow> (Inl (SaltApiError (''salt-api unreachable: '' @ m)), a')
      | (Reply st txt js, a') \<Rightarrow>
          if st \<noteq> 200 then (Inl (SaltApiError (''salt-api login failed: HTTP '' @ nat_str st)), a')
          else
            (case js of
               Inl m \<Rightarrow> (Inl (SaltApiError (''unexpected login response: '' @ m)), a')
             | Inr v \<Rightarrow> login_read clock v a'))"

text \<open>\<open>str.splitlines\<close> over the code points below 256.\<close>

definition is_break :: "char \<Rightarrow> bool" where
  "is_break c = (let n = of_char c :: nat in (10 \<le> n \<and> n \<le> 13) \<or> (28 \<le> n \<and> n \<le> 30) \<or> n = 133)"

fun split_lines :: "string \<Rightarrow> string \<Rightarrow> string list" where
  "split_lines acc [] = (if acc = [] then [] else [rev acc])"
| "split_lines acc (c # cs) =
     (if is_break c
      then rev acc # split_lines [] (if c = CHR 0x0D \<and> cs \<noteq> [] \<and> hd cs = CHR 0x0A then tl cs else cs)
      else split_lines (c # acc) cs)"

definition short_reason :: "string \<Rightarrow> string" where
  "short_reason text =
     (case filter (\<lambda>l. l \<noteq> []) (map py_strip (split_lines [] text)) of
        [] \<Rightarrow> []
      | ls \<Rightarrow> '': '' @ take 200 (last ls))"

definition call_request :: "salt_session \<Rightarrow> pyval \<Rightarrow> rat option \<Rightarrow> http_request" where
  "call_request c payload t =
     \<lparr>hr_path = ''/'', hr_json = payload, hr_token = Some (ss_token c), hr_timeout = timeout_of t\<rparr>"

definition ensure_token :: "'w http \<Rightarrow> ('w \<Rightarrow> rat) \<Rightarrow> rat option \<Rightarrow> 'w api \<Rightarrow> unit res \<times> 'w api" where
  "ensure_token http clock t a =
     (if ss_token (ap_client a) = PNone then client_login http clock t a else (Inr (), a))"

text \<open>\<open>_post\<close>: the recursive call after a 401 has its retry switched off.\<close>

function post_call ::
  "'w http \<Rightarrow> ('w \<Rightarrow> rat) \<Rightarrow> pyval \<Rightarrow> bool \<Rightarrow> rat option \<Rightarrow> 'w api \<Rightarrow> pyval res \<times> 'w api" where
  "post_call http clock payload retry t a =
     (case ensure_token http clock t a of
        (Inl er, a1) \<Rightarrow> (Inl er, a1)
      | (Inr _, a1) \<Rightarrow>
          (case send http (call_request (ap_client a1) payload t) a1 of
             (Unreachable m, a2) \<Rightarrow> (Inl (SaltApiError (''salt-api unreachable: '' @ m)), a2)
           | (Reply st txt js, a2) \<Rightarrow>
               if st = 401 \<and> retry then
                 (case client_login http clock t a2 of
                    (Inl er, a3) \<Rightarrow> (Inl er, a3)
                  | (Inr _, a3) \<Rightarrow> post_call http clock payload False t a3)
               else if st \<noteq> 200
                 then (Inl (SaltApiError (''salt-api call failed: HTTP '' @ nat_str st @ short_reason txt)), a2)
               else
                 (case js of
                    Inl m \<Rightarrow> (Inl (ValueError m), a2)
                  | Inr v \<Rightarrow> (py_item ''return'' v, a2))))"
  by pat_completeness auto
termination by (relation "measure (\<lambda>(_, _, _, retry, _, _). if retry then 1 else 0)") auto

declare post_call.simps [simp del]

section \<open>The calls\<close>

definition with_kwargs :: "(string \<times> pyval) list \<Rightarrow> (string \<times> pyval) list \<Rightarrow> pyval" where
  "with_kwargs base kwargs = PDict (fold (\<lambda>(k, v). assoc_set k v) kwargs base)"

definition wheel ::
  "'w http \<Rightarrow> ('w \<Rightarrow> rat) \<Rightarrow> string \<Rightarrow> rat option \<Rightarrow> (string \<times> pyval) list \<Rightarrow> 'w api \<Rightarrow> pyval res \<times> 'w api" where
  "wheel http clock fun_name t kwargs =
     post_call http clock (with_kwargs [(''client'', PStr ''wheel''), (''fun'', PStr fun_name)] kwargs) True t"

definition runner ::
  "'w http \<Rightarrow> ('w \<Rightarrow> rat) \<Rightarrow> string \<Rightarrow> rat option \<Rightarrow> (string \<times> pyval) list \<Rightarrow> 'w api \<Rightarrow> pyval res \<times> 'w api" where
  "runner http clock fun_name t kwargs =
     post_call http clock (with_kwargs [(''client'', PStr ''runner''), (''fun'', PStr fun_name)] kwargs) True t"

record local_call =
  lc_tgt :: pyval
  lc_fun :: string
  lc_arg :: "pyval list option"
  lc_tgt_type :: string
  lc_timeout :: int
  lc_async :: bool
  lc_via :: string
  lc_kwarg :: "(string \<times> pyval) list option"
  lc_jid :: "string option"

definition local_payload :: "local_call \<Rightarrow> pyval" where
  "local_payload l =
     (let arg = PList (case lc_arg l of None \<Rightarrow> [] | Some xs \<Rightarrow> xs);
          target = (\<lambda>client. [(''client'', PStr client), (''tgt'', lc_tgt l), (''fun'', PStr (lc_fun l)), (''arg'', arg),
                      (''tgt_type'', PStr (lc_tgt_type l))]);
          base = (if lc_via l = ''ssh''
                  then target ''ssh'' @ [(''timeout'', PInt (lc_timeout l)), (''ignore_invalid'', PBool True)]
                  else if lc_async l then target ''local_async''
                  else target ''local'' @ [(''timeout'', PInt (lc_timeout l))]);
          jid = (case lc_jid l of
                   Some j \<Rightarrow> if lc_via l \<noteq> ''ssh'' then [(''jid'', PStr j)] else []
                 | None \<Rightarrow> []);
          kwarg = (case lc_kwarg l of None \<Rightarrow> [] | Some [] \<Rightarrow> [] | Some kvs \<Rightarrow> [(''kwarg'', PDict kvs)])
      in PDict (base @ jid @ kwarg))"

definition local_run ::
  "'w http \<Rightarrow> ('w \<Rightarrow> rat) \<Rightarrow> local_call \<Rightarrow> rat option \<Rightarrow> 'w api \<Rightarrow> pyval res \<times> 'w api" where
  "local_run http clock l t = post_call http clock (local_payload l) True t"

text \<open>\<open>health\<close>: what is reached, the token age, and the error that ended the probe.\<close>

record health_report =
  he_token_age :: rat
  he_reachable :: bool
  he_wheel_ok :: bool
  he_runner_ok :: bool
  he_error :: "string option"

definition health :: "'w http \<Rightarrow> ('w \<Rightarrow> rat) \<Rightarrow> 'w api \<Rightarrow> health_report res \<times> 'w api" where
  "health http clock a =
     (let h0 = \<lparr>he_token_age = token_age clock a, he_reachable = False, he_wheel_ok = False,
                he_runner_ok = False, he_error = None\<rparr>;
          stop = (\<lambda>er h a'. case er of
                     SaltApiError m \<Rightarrow> (Inr (h\<lparr>he_error := Some m\<rparr>), a')
                   | _ \<Rightarrow> (Inl er, a'))
      in case wheel http clock ''key.list_all'' None [] a of
           (Inl er, a1) \<Rightarrow> stop er h0 a1
         | (Inr _, a1) \<Rightarrow>
             (let h1 = h0\<lparr>he_wheel_ok := True\<rparr>
              in case runner http clock ''manage.status'' None
                        [(''timeout'', PInt 1), (''gather_job_timeout'', PInt 1)] a1 of
                   (Inl er, a2) \<Rightarrow> stop er h1 a2
                 | (Inr _, a2) \<Rightarrow>
                     (Inr (h1\<lparr>he_runner_ok := True, he_reachable := True,
                              he_token_age := token_age clock a2\<rparr>), a2)))"

text \<open>The lines of an event stream; a line that does not decode is dropped.\<close>

fun stream_events :: "string \<Rightarrow> string list \<Rightarrow> pyval list" where
  "stream_events pending [] = []"
| "stream_events pending (line # lines) =
     (if starts_with ''data:'' line then stream_events (py_strip (drop 5 line)) lines
      else if line = [] \<and> pending \<noteq> []
        then (case json_loads pending of Some v \<Rightarrow> [v] | None \<Rightarrow> []) @ stream_events [] lines
      else stream_events pending lines)"

end
