(* ===== verification/Fleet.thy ===== *)
theory Fleet
  imports SaltApi
begin

text \<open>
  The master pods, \<open>overstate_ui/fleet.py\<close>: the cached list of their addresses, the client kept per
  address, the map from a minion to the pod that holds its connection, and the routing of a call
  to one minion. The Kubernetes client is an argument; the calls of the pods, and the scripts run
  inside them, are kept in a trace.
\<close>

section \<open>Calls\<close>

datatype salt_call =
    WheelCall string "(string \<times> pyval) list"
  | RunnerCall string "(string \<times> pyval) list"
  | LocalCall local_call

type_synonym 'w client = "salt_call \<Rightarrow> 'w \<Rightarrow> pyval res \<times> 'w"

record 'w bus =
  bus_world :: 'w
  bus_calls :: "(string \<times> salt_call) list"
  bus_execs :: "(string \<times> string list) list"

definition call_pod :: "string \<Rightarrow> 'w client \<Rightarrow> salt_call \<Rightarrow> 'w bus \<Rightarrow> pyval res \<times> 'w bus" where
  "call_pod pod cli call b =
     (case cli call (bus_world b) of
        (r, w) \<Rightarrow> (r, b\<lparr>bus_world := w, bus_calls := bus_calls b @ [(pod, call)]\<rparr>))"

text \<open>A client of the program is one of \<open>salt_client.py\<close>.\<close>

definition client_of :: "'w http \<Rightarrow> ('w \<Rightarrow> rat) \<Rightarrow> rat option \<Rightarrow> 'w api client" where
  "client_of http clock t call =
     (case call of
        WheelCall f kwargs \<Rightarrow> wheel http clock f t kwargs
      | RunnerCall f kwargs \<Rightarrow> runner http clock f t kwargs
      | LocalCall l \<Rightarrow> local_run http clock l t)"

section \<open>Addresses\<close>

definition POD_URLS_TTL :: rat where "POD_URLS_TTL = 60"

record pod_cache =
  pc_urls :: "string list"
  pc_at :: rat

text \<open>What the API server and the configuration answer: availability, replicas of a set.\<close>

record cluster_view =
  cv_config :: "string \<Rightarrow> string option"
  cv_available :: "bool res"
  cv_namespace :: string
  cv_replicas :: "string \<Rightarrow> pyval res"

definition config_key :: "cluster_view \<Rightarrow> string \<Rightarrow> string res" where
  "config_key cv k = (case cv_config cv k of None \<Rightarrow> Inl (KeyErr k) | Some v \<Rightarrow> Inr v)"

definition replica_count :: "pyval \<Rightarrow> nat res" where
  "replica_count v =
     (case py_or v (PInt 1) of
        PInt i \<Rightarrow> Inr (nat i) | PBool b \<Rightarrow> Inr (if b then 1 else 0) | _ \<Rightarrow> Inl TypeErr)"

definition pod_url :: "string \<Rightarrow> string \<Rightarrow> string \<Rightarrow> nat \<Rightarrow> string" where
  "pod_url sts headless namespace i =
     ''https://'' @ sts @ ''-'' @ nat_str i @ ''.'' @ headless @ ''.'' @ namespace @ ''.svc.cluster.local:8000''"

definition ask_cluster :: "cluster_view \<Rightarrow> string list res" where
  "ask_cluster cv =
     res_bind (config_key cv ''MASTER_STATEFULSET'') (\<lambda>sts.
     res_bind (res_bind (cv_replicas cv sts) replica_count) (\<lambda>n.
     res_bind (config_key cv ''MASTER_HEADLESS_SERVICE'') (\<lambda>headless.
       Inr (map (pod_url sts headless (cv_namespace cv)) [0..<n]))))"

fun is_k8s_error :: "py_error \<Rightarrow> bool" where
  "is_k8s_error (K8sError _) = True"
| "is_k8s_error (K8sConflict _) = True"
| "is_k8s_error (K8sUnavailable _) = True"
| "is_k8s_error _ = False"

definition pod_api_urls :: "cluster_view \<Rightarrow> rat \<Rightarrow> pod_cache \<Rightarrow> string list res \<times> pod_cache" where
  "pod_api_urls cv now pc =
     (if now - pc_at pc < POD_URLS_TTL \<and> pc_urls pc \<noteq> [] then (Inr (pc_urls pc), pc)
      else
        (case cv_available cv of
           Inl er \<Rightarrow> (if is_k8s_error er then Inr (pc_urls pc) else Inl er, pc)
         | Inr av \<Rightarrow>
             if \<not> av then (Inr [], pc)
             else
               (case ask_cluster cv of
                  Inl er \<Rightarrow> (if is_k8s_error er then Inr (pc_urls pc) else Inl er, pc)
                | Inr urls \<Rightarrow> (Inr urls, \<lparr>pc_urls = urls, pc_at = now\<rparr>))))"

text \<open>The client of each pod, by name: the default one when no address is known.\<close>

type_synonym creds = "string \<times> string \<times> string \<times> string"

datatype pod_client = DefaultClient | PodClient string creds

definition pod_creds :: "cluster_view \<Rightarrow> creds res" where
  "pod_creds cv =
     res_bind (config_key cv ''SALT_EAUTH_USER'') (\<lambda>u.
     res_bind (config_key cv ''SALT_EAUTH_PASSWORD'') (\<lambda>p.
     res_bind (config_key cv ''SALT_EAUTH_TYPE'') (\<lambda>t.
     res_bind (config_key cv ''SALT_API_VERIFY'') (\<lambda>v. Inr (u, p, t, v)))))"

type_synonym session_cache = "((string \<times> creds) \<times> salt_session) list"

fun keep_sessions :: "creds \<Rightarrow> string list \<Rightarrow> session_cache \<Rightarrow> session_cache" where
  "keep_sessions cr [] ss = ss"
| "keep_sessions cr (url # urls) ss =
     keep_sessions cr urls
       (case map_of ss (url, cr) of
          Some _ \<Rightarrow> ss
        | None \<Rightarrow> (case cr of (u, p, t, _) \<Rightarrow> assoc_set (url, cr) (SaltClient u p t) ss))"

definition pod_clients ::
  "cluster_view \<Rightarrow> rat \<Rightarrow> pod_cache \<times> session_cache
   \<Rightarrow> (string \<times> pod_client) list res \<times> pod_cache \<times> session_cache" where
  "pod_clients cv now s =
     (case s of (pc, ss) \<Rightarrow>
        (case pod_api_urls cv now pc of
           (Inl er, pc') \<Rightarrow> (Inl er, pc', ss)
         | (Inr [], pc') \<Rightarrow> (Inr [(''master'', DefaultClient)], pc', ss)
         | (Inr urls, pc') \<Rightarrow>
             (case pod_creds cv of
                Inl er \<Rightarrow> (Inl er, pc', ss)
              | Inr cr \<Rightarrow>
                  (Inr (map (\<lambda>(i, url). (''pod-'' @ nat_str i, PodClient url cr)) (List.enumerate 0 urls)),
                   pc', keep_sessions cr urls ss))))"

section \<open>Routing to one minion\<close>

definition swallowed :: "py_error \<Rightarrow> bool" where
  "swallowed er =
     (case er of SaltApiError _ \<Rightarrow> True | KeyErr _ \<Rightarrow> True | IndexErr \<Rightarrow> True | TypeErr \<Rightarrow> True | _ \<Rightarrow> False)"

definition pod_up :: "pyval \<Rightarrow> string list res" where
  "pod_up status =
     res_bind (py_get ''up'' PNone status) (\<lambda>up.
     res_bind (py_iter (py_or up (PList []))) (\<lambda>xs. Inr (map py_str xs)))"

fun ask_pods ::
  "(string \<times> 'w client) list \<Rightarrow> bool \<times> (string \<times> string) list \<Rightarrow> 'w bus
   \<Rightarrow> (bool \<times> (string \<times> string) list) res \<times> 'w bus" where
  "ask_pods [] s b = (Inr s, b)"
| "ask_pods ((pod, cli) # clis) s b =
     (case call_pod pod cli (RunnerCall ''manage.status'' [(''timeout'', PInt 1), (''gather_job_timeout'', PInt 1)]) b of
        (r, b') \<Rightarrow>
          (case res_bind r py_first of
             Inl er \<Rightarrow> if swallowed er then ask_pods clis s b' else (Inl er, b')
           | Inr status \<Rightarrow>
               (case status of
                  PDict _ \<Rightarrow>
                    (case pod_up status of
                       Inl er \<Rightarrow> (Inl er, b')
                     | Inr mids \<Rightarrow>
                         ask_pods clis
                           (True, fold (\<lambda>m acc. if map_of acc m = None then acc @ [(m, pod)] else acc) mids (snd s)) b')
                | _ \<Rightarrow> ask_pods clis s b')))"

text \<open>The map is read from and written to a short-lived cache.\<close>

definition fleet_pod_map ::
  "(string \<times> 'w client) list \<Rightarrow> (string \<times> string) list option \<Rightarrow> 'w bus
   \<Rightarrow> (string \<times> string) list res \<times> (string \<times> string) list option \<times> 'w bus" where
  "fleet_pod_map clis cached b =
     (case cached of
        Some (p # ps) \<Rightarrow> (Inr (p # ps), cached, b)
      | _ \<Rightarrow>
          (case ask_pods clis (False, []) b of
             (Inl er, b') \<Rightarrow> (Inl er, cached, b')
           | (Inr (answered, acc), b') \<Rightarrow>
               (Inr acc, if answered \<and> acc \<noteq> [] then Some acc else cached, b')))"

definition owner_client ::
  "'w client \<Rightarrow> (string \<times> 'w client) list \<Rightarrow> (string \<times> string) list \<Rightarrow> string \<Rightarrow> string \<times> 'w client" where
  "owner_client fallback clis mapping mid =
     (case map_of mapping mid of
        None \<Rightarrow> (''default'', fallback)
      | Some pod \<Rightarrow> (case map_of (rev clis) pod of None \<Rightarrow> (''default'', fallback) | Some cli \<Rightarrow> (pod, cli)))"

definition one_call ::
  "string \<Rightarrow> string \<Rightarrow> pyval list option \<Rightarrow> (string \<times> pyval) list option \<Rightarrow> string \<Rightarrow> int \<Rightarrow> salt_call" where
  "one_call mid fun_name arg kwarg via timeout =
     LocalCall \<lparr>lc_tgt = PStr mid, lc_fun = fun_name, lc_arg = Some (case arg of None \<Rightarrow> [] | Some xs \<Rightarrow> xs),
       lc_tgt_type = ''list'', lc_timeout = timeout, lc_async = False, lc_via = via, lc_kwarg = kwarg, lc_jid = None\<rparr>"

definition local_one_raw ::
  "'w client \<Rightarrow> (string \<times> 'w client) list \<Rightarrow> (string \<times> string) list option \<Rightarrow> string \<Rightarrow> salt_call \<Rightarrow> 'w bus
   \<Rightarrow> pyval res \<times> (string \<times> string) list option \<times> 'w bus" where
  "local_one_raw fallback clis cached mid call b =
     (case fleet_pod_map clis cached b of
        (Inl er, cached', b') \<Rightarrow> (Inl er, cached', b')
      | (Inr mapping, cached', b') \<Rightarrow>
          (case owner_client fallback clis mapping mid of
             (pod, cli) \<Rightarrow> (case call_pod pod cli call b' of (r, b'') \<Rightarrow> (r, cached', b''))))"

definition local_one ::
  "'w client \<Rightarrow> (string \<times> 'w client) list \<Rightarrow> (string \<times> string) list option \<Rightarrow> string \<Rightarrow> salt_call \<Rightarrow> 'w bus
   \<Rightarrow> pyval res \<times> (string \<times> string) list option \<times> 'w bus" where
  "local_one fallback clis cached mid call b =
     (case local_one_raw fallback clis cached mid call b of
        (r, cached', b') \<Rightarrow> (res_bind (res_bind r py_first) (py_get mid PNone), cached', b'))"

end
