(* ===== verification/SaltApiProps.thy ===== *)
theory SaltApiProps
  imports Fleet
begin

text \<open>Properties of the Salt API client and of the list of master pods.\<close>

section \<open>What a call sends\<close>

definition is_login :: "rat option \<Rightarrow> http_request \<Rightarrow> bool" where
  "is_login t q \<longleftrightarrow> hr_path q = ''/login'' \<and> hr_token q = None \<and> hr_timeout q = timeout_of t"

definition is_call :: "pyval \<Rightarrow> rat option \<Rightarrow> http_request \<Rightarrow> bool" where
  "is_call payload t q \<longleftrightarrow> hr_path q = ''/'' \<and> hr_json q = payload \<and> hr_token q \<noteq> None \<and> hr_timeout q = timeout_of t"

definition sent_since :: "'w api \<Rightarrow> 'w api \<Rightarrow> http_request list" where
  "sent_since a a' = drop (length (ap_sent a)) (ap_sent a')"

text \<open>\<open>a'\<close> is later than \<open>a\<close>, having sent at most m logins and n calls, and nothing else.\<close>

definition sends :: "pyval \<Rightarrow> rat option \<Rightarrow> nat \<Rightarrow> nat \<Rightarrow> 'w api \<Rightarrow> 'w api \<Rightarrow> bool" where
  "sends payload t m n a a' \<longleftrightarrow>
     (\<exists>new. ap_sent a' = ap_sent a @ new
        \<and> (\<forall>q \<in> set new. is_login t q \<or> is_call payload t q)
        \<and> length (filter (is_login t) new) \<le> m \<and> length (filter (is_call payload t) new) \<le> n)"

lemma sends_refl: "sends payload t m n a a"
  by (simp add: sends_def)

lemma sends_trans:
  assumes "sends p t m n a b" and "sends p t m' n' b c" and "m + m' \<le> k" and "n + n' \<le> l"
  shows "sends p t k l a c"
proof -
  obtain x where x: "ap_sent b = ap_sent a @ x" "\<forall>q \<in> set x. is_login t q \<or> is_call p t q"
    "length (filter (is_login t) x) \<le> m" "length (filter (is_call p t) x) \<le> n"
    using assms(1) by (auto simp: sends_def)
  obtain y where y: "ap_sent c = ap_sent b @ y" "\<forall>q \<in> set y. is_login t q \<or> is_call p t q"
    "length (filter (is_login t) y) \<le> m'" "length (filter (is_call p t) y) \<le> n'"
    using assms(2) by (auto simp: sends_def)
  show ?thesis unfolding sends_def using x y assms(3,4) by (intro exI [of _ "x @ y"]) auto
qed

lemma sends_mono: "sends p t m n a b \<Longrightarrow> m \<le> k \<Longrightarrow> n \<le> l \<Longrightarrow> sends p t k l a b"
  by (erule sends_trans [OF _ sends_refl [of p t 0 0]]) auto

lemma send_sent: "send http rq a = (r, a') \<Longrightarrow> ap_sent a' = ap_sent a @ [rq] \<and> ap_client a' = ap_client a"
  by (auto simp: send_def split: prod.splits)

lemma login_read_sent: "login_read clock v a = (r, a') \<Longrightarrow> ap_sent a' = ap_sent a"
  by (auto simp: login_read_def Let_def split: sum.splits prod.splits)

lemma login_sends: "client_login http clock t a = (r, a') \<Longrightarrow> sends p t 1 0 a a'"
proof -
  assume l: "client_login http clock t a = (r, a')"
  obtain x b where s: "send http (login_request (ap_client a) t) a = (x, b)" by fastforce
  have "ap_sent a' = ap_sent b"
    using l by (auto simp: client_login_def s split: http_reply.splits if_splits sum.splits dest: login_read_sent)
  moreover have "is_login t (login_request (ap_client a) t)" "\<not> is_call p t (login_request (ap_client a) t)"
    by (simp_all add: is_login_def is_call_def login_request_def)
  ultimately show ?thesis
    using send_sent [OF s] by (auto simp: sends_def intro!: exI [of _ "[login_request (ap_client a) t]"])
qed

lemma ensure_sends: "ensure_token http clock t a = (r, a') \<Longrightarrow> sends p t 1 0 a a'"
  using login_sends [of http clock t a r a' p] by (auto simp: ensure_token_def sends_refl split: if_splits simp del: One_nat_def)

lemma call_sends: "send http (call_request (ap_client a) p t) a = (r, a') \<Longrightarrow> sends p t 0 1 a a'"
  by (auto simp: sends_def is_login_def is_call_def call_request_def dest!: send_sent
      intro!: exI [of _ "[call_request (ap_client a) p t]"])

lemma post_sends:
  "post_call http clock p retry t a = (r, a')
   \<Longrightarrow> sends p t (if retry then 3 else 1) (if retry then 2 else 1) a a'"
proof (induction http clock p retry t a arbitrary: r a' rule: post_call.induct)
  case (1 http clock p retry t a)
  obtain x1 a1 where e: "ensure_token http clock t a = (x1, a1)" by fastforce
  note d = 1(2) [unfolded post_call.simps [of http clock p retry t a] e]
  note s1 = ensure_sends [OF e, of p]
  show ?case
  proof (cases x1)
    case (Inl er)
    then show ?thesis using d s1 by (auto simp: intro: sends_mono)
  next
    case (Inr u)
    obtain x2 a2 where c: "send http (call_request (ap_client a1) p t) a1 = (x2, a2)" by fastforce
    have s2: "sends p t 1 1 a a2" by (rule sends_trans [OF s1 call_sends [OF c]]) simp_all
    show ?thesis
    proof (cases x2)
      case (Unreachable m)
      then show ?thesis using d s2 by (auto simp: Inr c intro: sends_mono)
    next
      case (Reply st body js)
      show ?thesis
      proof (cases "st = 401 \<and> retry")
        case False
        then have "a' = a2" using d
          by (auto simp: Inr c Reply split: if_splits sum.splits)
        then show ?thesis using s2 by (auto intro: sends_mono)
      next
        case True
        obtain x3 a3 where l: "client_login http clock t a2 = (x3, a3)" by fastforce
        have s3: "sends p t 2 1 a a3" by (rule sends_trans [OF s2 login_sends [OF l]]) simp_all
        show ?thesis
        proof (cases x3)
          case (Inl er)
          then show ?thesis using d s3 True
            by (auto simp: Inr c Reply l intro: sends_mono)
        next
          case (Inr v)
          have "post_call http clock p False t a3 = (r, a')"
            using d True by (simp add: \<open>x1 = Inr u\<close> c Reply l Inr)
          from 1(1) [OF e [symmetric] \<open>x1 = Inr u\<close> c [symmetric] Reply True l [symmetric] Inr this]
          have "sends p t 1 1 a3 a'" by simp
          from sends_trans [OF s3 this] show ?thesis using True by simp
        qed
      qed
    qed
  qed
qed

text \<open>A call of the Salt API is bounded and keeps its secrets apart: whatever the server answers, a call
  sends its payload at most twice and logs in at most three times, in that many requests and no
  other; the credentials go to the login endpoint only, the payload with a token to the other, and
  each round trip has the timeout of the call.\<close>

theorem salt_call_bounded:
  assumes "client_of http clock t call a = (r, a')"
  shows "\<exists>new payload. ap_sent a' = ap_sent a @ new \<and> length new \<le> 5
    \<and> (\<forall>q \<in> set new. is_login t q \<or> is_call payload t q)
    \<and> length (filter (is_login t) new) \<le> 3 \<and> length (filter (is_call payload t) new) \<le> 2"
proof -
  obtain payload where "post_call http clock payload True t a = (r, a')"
    using assms by (auto simp: client_of_def wheel_def runner_def local_run_def split: salt_call.splits)
  from post_sends [OF this] obtain new where n: "ap_sent a' = ap_sent a @ new"
    "\<forall>q \<in> set new. is_login t q \<or> is_call payload t q"
    "length (filter (is_login t) new) \<le> 3" "length (filter (is_call payload t) new) \<le> 2" by (auto simp: sends_def)
  have "length new \<le> length (filter (is_login t) new) + length (filter (is_call payload t) new)"
    using n(2) by (induction new) auto
  with n show ?thesis by (intro exI [of _ new] exI [of _ payload]) auto
qed

text \<open>A server that has forgotten the token: it answers 401 until a login, then 200.\<close>

definition forgetful :: "bool http" where
  "forgetful rq known =
     (if hr_path rq = ''/login''
      then (Reply 200 [] (Inr (PDict [(''return'', PList [PDict [(''token'', PStr ''t1'')]])])), True)
      else if known then (Reply 200 [] (Inr (PDict [(''return'', PList [PBool True])])), True)
      else (Reply 401 [] (Inr PNone), False))"

definition stale_api :: "bool api" where
  "stale_api = \<lparr>ap_client = (SaltClient ''svc'' ''secret'' ''pam'')\<lparr>ss_token := PStr ''t0''\<rparr>, ap_world = False, ap_sent = []\<rparr>"

lemma salt_call_bounded_witness:
  "map hr_path (ap_sent (snd (client_of forgetful (\<lambda>_. 0) None (WheelCall ''key.list_all'' []) stale_api)))
     = [''/'', ''/login'', ''/'']
   \<and> length (ap_sent (snd (client_of forgetful (\<lambda>_. 0) None (WheelCall ''key.list_all'' []) stale_api))) \<le> 5"
proof -
  obtain r a' where c: "client_of forgetful (\<lambda>_. 0) None (WheelCall ''key.list_all'' []) stale_api = (r, a')" by fastforce
  have "map hr_path (ap_sent (snd (client_of forgetful (\<lambda>_. 0) None (WheelCall ''key.list_all'' []) stale_api)))
     = [''/'', ''/login'', ''/'']" by (simp add: client_of_def wheel_def post_call.simps forgetful_def stale_api_def
         ensure_token_def send_def call_request_def client_login_def login_request_def login_read_def login_token_def
         py_item_def py_first_def py_get_def py_float_def SaltClient_def Let_def)
  moreover have "ap_sent stale_api = []" by (simp add: stale_api_def)
  ultimately show ?thesis using salt_call_bounded [OF c] by (auto simp: c)
qed

text \<open>An expired token costs one round trip: when the server answers 401 to the token the client holds and
  accepts the login it then makes, the call returns what the second attempt returns, and the client
  holds the new token.\<close>

lemma expired_token_renewed:
  assumes "ss_token (ap_client a) \<noteq> PNone"
    and "send http (call_request (ap_client a) payload t) a = (Reply 401 why js, a1)"
    and "client_login http clock t a1 = (Inr (), a2)" and "ss_token (ap_client a2) \<noteq> PNone"
  shows "post_call http clock payload True t a = post_call http clock payload False t a2"
  using assms by (simp add: post_call.simps [of http clock payload True] ensure_token_def)

end
