(* ===== verification/Keys.thy ===== *)
theory Keys
  imports Fleet
begin

text \<open>
  Minion keys, \<open>overstate_ui/keys.py\<close>: the merged roster, the attribution of fingerprints, the
  reconciliation that completes trust on the pods where a key is pending, and the copy of an
  accepted key to the pods that never saw it. Key ids are strings, as Salt returns them; an id of
  another type ends the read of its pod. The placeholder of an unknown fingerprint, a character
  outside the modelled strings, is \<open>None\<close>. The master pods, the exec stream of Kubernetes and
  SHA-256 are arguments.
\<close>

definition TABS :: "(string \<times> string) list" where
  "TABS = [(''pending'', ''minions_pre''), (''accepted'', ''minions''), (''rejected'', ''minions_rejected''),
     (''denied'', ''minions_denied'')]"

definition ACTIONS :: "(string \<times> string) list" where
  "ACTIONS = [(''accept'', ''key.accept''), (''reject'', ''key.reject''), (''delete'', ''key.delete'')]"

definition PAST :: "(string \<times> string) list" where
  "PAST = [(''accept'', ''accepted''), (''reject'', ''rejected''), (''delete'', ''deleted'')]"

definition KEY_BUCKETS :: "string list" where
  "KEY_BUCKETS = [''minions'', ''minions_pre'', ''minions_rejected'', ''minions_denied'']"

definition FINGER_SECTIONS :: "(string \<times> string) list" where
  "FINGER_SECTIONS = [(''accepted'', ''minions''), (''pending'', ''minions_pre''), (''rejected'', ''minions_rejected''),
     (''denied'', ''minions_denied'')]"

section \<open>What a reply says\<close>

text \<open>The reply of a key action; an exception inside reads as applied.\<close>

fun buckets_with :: "string \<Rightarrow> (string \<times> pyval) list \<Rightarrow> string list \<Rightarrow> string list res" where
  "buckets_with mid node [] = Inr []"
| "buckets_with mid node (k # ks) =
     res_bind (py_in mid (py_or (case dict_get k node of None \<Rightarrow> PNone | Some v \<Rightarrow> v) (PList []))) (\<lambda>here.
     res_bind (buckets_with mid node ks) (\<lambda>r. Inr (if here then k # r else r)))"

definition bucket_verdict :: "string \<Rightarrow> string list \<Rightarrow> bool" where
  "bucket_verdict action present =
     (if present = [] then True
      else if action = ''accept'' then ''minions'' \<in> set present
      else if action = ''reject'' then ''minions_rejected'' \<in> set present
      else if action = ''delete'' then False
      else True)"

definition node_verdict :: "string \<Rightarrow> string \<Rightarrow> pyval \<Rightarrow> bool" where
  "node_verdict action mid node =
     (case node of
        PDict kvs \<Rightarrow>
          if list_ex (\<lambda>k. k \<in> set (map fst kvs)) KEY_BUCKETS
          then (case buckets_with mid kvs KEY_BUCKETS of Inl _ \<Rightarrow> True | Inr present \<Rightarrow> bucket_verdict action present)
          else True
      | _ \<Rightarrow> True)"

definition key_action_applied :: "string \<Rightarrow> pyval \<Rightarrow> string \<Rightarrow> bool" where
  "key_action_applied action result mid =
     (let node = (case result of PList (x # _) \<Rightarrow> x | _ \<Rightarrow> result)
      in case node of
           PDict kvs \<Rightarrow>
             (case dict_get ''data'' kvs of
                Some (PDict d) \<Rightarrow>
                  (case dict_get ''return'' d of
                     Some ret \<Rightarrow>
                       if dict_get ''success'' d = Some (PBool False) then False else node_verdict action mid ret
                   | None \<Rightarrow> node_verdict action mid node)
              | _ \<Rightarrow> node_verdict action mid node)
         | _ \<Rightarrow> node_verdict action mid node)"

text \<open>The pattern of a fingerprint; its final anchor also accepts one trailing newline.\<close>

definition hex_digit :: "char \<Rightarrow> bool" where
  "hex_digit c = (hex_val c \<noteq> None)"

fun hex_pairs :: "string \<Rightarrow> bool" where
  "hex_pairs [a, b] = (hex_digit a \<and> hex_digit b)"
| "hex_pairs (a # b # c # r) = (hex_digit a \<and> hex_digit b \<and> c = CHR '':'' \<and> hex_pairs r)"
| "hex_pairs _ = False"

definition is_fingerprint :: "string \<Rightarrow> bool" where
  "is_fingerprint s =
     (let t = (if s \<noteq> [] \<and> last s = CHR 0x0A then butlast s else s)
      in 2 < length t \<and> hex_pairs t)"

text \<open>\<open>walk\<close>: every string value of the reply that is a fingerprint, by its key.\<close>

fun walk_prints :: "pyval \<Rightarrow> (string \<times> string) list \<Rightarrow> (string \<times> string) list"
and walk_pairs :: "(string \<times> pyval) list \<Rightarrow> (string \<times> string) list \<Rightarrow> (string \<times> string) list"
and walk_items :: "pyval list \<Rightarrow> (string \<times> string) list \<Rightarrow> (string \<times> string) list" where
  "walk_prints (PDict kvs) acc = walk_pairs kvs acc"
| "walk_prints (PList xs) acc = walk_items xs acc"
| "walk_prints PNone acc = acc"
| "walk_prints (PBool b) acc = acc"
| "walk_prints (PInt i) acc = acc"
| "walk_prints (PFloat q r) acc = acc"
| "walk_prints (PStr s) acc = acc"
| "walk_pairs [] acc = acc"
| "walk_pairs ((k, v) # kvs) acc =
     walk_pairs kvs
       (case v of
          PStr s \<Rightarrow> if is_fingerprint s then assoc_set k s acc else acc
        | _ \<Rightarrow> walk_prints v acc)"
| "walk_items [] acc = acc"
| "walk_items (x # xs) acc = walk_items xs (walk_prints x acc)"

definition list_all_call :: salt_call where "list_all_call = WheelCall ''key.list_all'' []"
definition finger_call :: salt_call where "finger_call = WheelCall ''key.finger'' [(''match'', PStr ''*'')]"

definition reply_return :: "pyval \<Rightarrow> pyval res" where
  "reply_return v = res_bind (py_first v) (\<lambda>x. res_bind (py_item ''data'' x) (py_item ''return''))"

definition reply_node :: "pyval \<Rightarrow> pyval res" where
  "reply_node v =
     res_bind (py_get ''data'' (PDict []) v) (py_get ''return'' v)"

definition str_ids :: "pyval \<Rightarrow> string list res" where
  "str_ids v =
     res_bind (py_iter (py_or v (PList []))) (\<lambda>xs.
       res_map (\<lambda>x. case x of PStr s \<Rightarrow> Inr s | _ \<Rightarrow> Inl TypeErr) xs)"

type_synonym listing = "(string \<times> string list) list"
type_synonym prints = "(string \<times> (string \<times> string) list) list"

definition read_listing :: "pyval \<Rightarrow> listing res" where
  "read_listing raw =
     res_map (\<lambda>(tab, bucket). res_bind (py_get bucket (PList []) raw) (\<lambda>v.
       res_bind (str_ids v) (\<lambda>ids. Inr (tab, remdups ids)))) TABS"

section \<open>The merged roster\<close>

text \<open>\<open>_fingerprints\<close>.\<close>

definition fingerprints :: "string \<Rightarrow> 'w client \<Rightarrow> 'w bus \<Rightarrow> (string \<times> string) list res \<times> 'w bus" where
  "fingerprints pod cli b =
     (case call_pod pod cli finger_call b of
        (r, b') \<Rightarrow>
          (case res_bind r py_first of
             Inl er \<Rightarrow> (if swallowed er then Inr [] else Inl er, b')
           | Inr result \<Rightarrow> (res_bind (reply_node result) (\<lambda>node. Inr (walk_prints node [])), b')))"

record key_row =
  kr_id :: string
  kr_print :: "string option"
  kr_states :: "(string \<times> string) list"

definition file_id :: "string \<Rightarrow> string \<Rightarrow> (string \<times> string) list \<Rightarrow> string \<Rightarrow> key_row list \<Rightarrow> key_row list" where
  "file_id pod tab fingers mid rows =
     (let rows' = (if mid \<in> set (map kr_id rows) then rows
                   else rows @ [\<lparr>kr_id = mid, kr_print = None, kr_states = []\<rparr>])
      in map (\<lambda>r. if kr_id r \<noteq> mid then r
                  else r\<lparr>kr_states := assoc_set pod tab (kr_states r),
                         kr_print := (case kr_print r of None \<Rightarrow> map_of fingers mid | Some p \<Rightarrow> Some p)\<rparr>) rows')"

fun file_tabs :: "string \<Rightarrow> pyval \<Rightarrow> (string \<times> string) list \<Rightarrow> (string \<times> string) list \<Rightarrow> key_row list \<Rightarrow> key_row list res" where
  "file_tabs pod listed fingers [] rows = Inr rows"
| "file_tabs pod listed fingers ((tab, bucket) # tabs) rows =
     res_bind (py_get bucket (PList []) listed) (\<lambda>v.
     res_bind (str_ids v) (\<lambda>ids.
       file_tabs pod listed fingers tabs (fold (file_id pod tab fingers) ids rows)))"

fun merge_pods ::
  "(string \<times> 'w client) list \<Rightarrow> key_row list \<times> string list \<Rightarrow> 'w bus \<Rightarrow> (key_row list \<times> string list) res \<times> 'w bus" where
  "merge_pods [] s b = (Inr s, b)"
| "merge_pods ((pod, cli) # clis) s b =
     (case call_pod pod cli list_all_call b of
        (r, b1) \<Rightarrow>
          (case (case res_bind r reply_return of
                   Inl er \<Rightarrow> (Inl er, b1)
                 | Inr listed \<Rightarrow>
                     (case fingerprints pod cli b1 of
                        (Inl er, b2) \<Rightarrow> (Inl er, b2) | (Inr fp, b2) \<Rightarrow> (Inr (listed, fp), b2))) of
             (Inl er, b2) \<Rightarrow>
               if swallowed er then merge_pods clis (fst s, snd s @ [pod]) b2 else (Inl er, b2)
           | (Inr (listed, fp), b2) \<Rightarrow>
               (case file_tabs pod listed fp TABS (fst s) of
                  Inl er \<Rightarrow> (Inl er, b2)
                | Inr rows \<Rightarrow> merge_pods clis (rows, snd s) b2)))"

type_synonym roster = "(string \<times> key_row list) list"

definition tab_rows :: "key_row list \<Rightarrow> string \<Rightarrow> key_row list" where
  "tab_rows rows tab = filter (\<lambda>r. tab \<in> set (map snd (kr_states r))) (sort_key kr_id rows)"

definition merged_key_data ::
  "(string \<times> 'w client) list \<Rightarrow> 'w bus \<Rightarrow> (roster \<times> string list) res \<times> 'w bus" where
  "merged_key_data clis b =
     (case merge_pods clis ([], []) b of
        (Inl er, b') \<Rightarrow> (Inl er, b')
      | (Inr (rows, failed), b') \<Rightarrow> (Inr (map (\<lambda>(tab, _). (tab, tab_rows rows tab)) TABS, failed), b'))"

section \<open>The fleet picture\<close>

definition section_prints :: "pyval \<Rightarrow> (string \<times> string) list" where
  "section_prints v =
     (case v of
        PDict kvs \<Rightarrow>
          concat (map (\<lambda>(k, x). case x of PStr s \<Rightarrow> if is_fingerprint s then [(k, s)] else [] | _ \<Rightarrow> []) kvs)
      | _ \<Rightarrow> [])"

definition id_count :: "listing \<Rightarrow> string \<Rightarrow> nat" where
  "id_count listed mid = length (filter (\<lambda>(_, ids). mid \<in> set ids) listed)"

definition attribute_fingerprints :: "pyval \<Rightarrow> listing \<Rightarrow> prints" where
  "attribute_fingerprints node listed =
     (case node of
        PDict kvs \<Rightarrow>
          (let sect = (\<lambda>bucket. case dict_get bucket kvs of None \<Rightarrow> PNone | Some v \<Rightarrow> v)
           in if list_ex (\<lambda>(_, bucket). case sect bucket of PDict ids \<Rightarrow> ids \<noteq> [] | _ \<Rightarrow> False) FINGER_SECTIONS
              then map (\<lambda>(tab, bucket). (tab, section_prints (sect bucket))) TABS
              else
                (let flat = walk_prints node []
                 in map (\<lambda>(tab, ids). (tab, concat (map (\<lambda>mid. case map_of flat mid of
                                                    Some fp \<Rightarrow> if id_count listed mid = 1 then [(mid, fp)] else []
                                                  | None \<Rightarrow> []) ids))) listed))
      | _ \<Rightarrow> map (\<lambda>(tab, _). (tab, [])) TABS)"

type_synonym picture = "(string \<times> (listing \<times> prints)) list"

fun fleet_key_states ::
  "(string \<times> 'w client) list \<Rightarrow> picture \<times> string list \<Rightarrow> 'w bus \<Rightarrow> (picture \<times> string list) res \<times> 'w bus" where
  "fleet_key_states [] s b = (Inr s, b)"
| "fleet_key_states ((pod, cli) # clis) s b =
     (case call_pod pod cli list_all_call b of
        (r, b1) \<Rightarrow>
          (case res_bind (res_bind r reply_return) read_listing of
             Inl er \<Rightarrow> if swallowed er then fleet_key_states clis (fst s, snd s @ [pod]) b1 else (Inl er, b1)
           | Inr listed \<Rightarrow>
               (case call_pod pod cli finger_call b1 of
                  (r2, b2) \<Rightarrow>
                    (case res_bind (res_bind r2 py_first) reply_node of
                       Inl er \<Rightarrow>
                         if swallowed er
                         then fleet_key_states clis
                                (assoc_set pod (listed, attribute_fingerprints PNone listed) (fst s), snd s) b2
                         else (Inl er, b2)
                     | Inr node \<Rightarrow>
                         fleet_key_states clis
                           (assoc_set pod (listed, attribute_fingerprints node listed) (fst s), snd s) b2))))"

definition tab_of :: "listing \<Rightarrow> string \<Rightarrow> string option" where
  "tab_of listed mid = map_option fst (find (\<lambda>(_, ids). mid \<in> set ids) listed)"

definition picture_ids :: "picture \<Rightarrow> string list" where
  "picture_ids pods =
     sort (remdups (concat (map (\<lambda>(_, (listed, _)). concat (map snd listed)) pods)))"

definition state_on :: "picture \<Rightarrow> string \<Rightarrow> (string \<times> string option) list" where
  "state_on pods mid = map (\<lambda>(name, (listed, _)). (name, tab_of listed mid)) pods"

definition print_on :: "prints \<Rightarrow> string \<Rightarrow> string \<Rightarrow> string option" where
  "print_on fingers tab mid = (case map_of fingers tab of None \<Rightarrow> None | Some ps \<Rightarrow> map_of ps mid)"

section \<open>Reconciliation\<close>

record key_report =
  kp_accepted :: "(string \<times> string) list"
  kp_skipped :: "(string \<times> string) list"
  kp_unreachable :: "string list"
  kp_errors :: "(string \<times> string) list"

definition trusted_prints :: "picture \<Rightarrow> string \<Rightarrow> string list" where
  "trusted_prints pods mid =
     concat (map (\<lambda>(_, (listed, fingers)).
       if tab_of listed mid = Some ''accepted''
       then (case print_on fingers ''accepted'' mid of None \<Rightarrow> [] | Some fp \<Rightarrow> [fp]) else []) pods)"

definition quarantined :: "string option \<Rightarrow> bool" where
  "quarantined t = (t = Some ''rejected'' \<or> t = Some ''denied'')"

definition pending_pods :: "picture \<Rightarrow> string \<Rightarrow> string list" where
  "pending_pods pods mid = map fst (filter (\<lambda>(_, t). t = Some ''pending'') (state_on pods mid))"

definition print_agrees :: "picture \<Rightarrow> string \<Rightarrow> string \<Rightarrow> bool" where
  "print_agrees pods mid pod =
     (case map_of pods pod of
        None \<Rightarrow> False
      | Some (_, fingers) \<Rightarrow>
          (case print_on fingers ''pending'' mid of
             None \<Rightarrow> False | Some here \<Rightarrow> here \<noteq> [] \<and> here \<in> set (trusted_prints pods mid)))"

fun accept_pods ::
  "(string \<times> 'w client) list \<Rightarrow> bool \<Rightarrow> picture \<Rightarrow> string \<Rightarrow> string list \<Rightarrow> key_report \<Rightarrow> 'w bus
   \<Rightarrow> key_report res \<times> 'w bus" where
  "accept_pods clis execute pods mid [] rep b = (Inr rep, b)"
| "accept_pods clis execute pods mid (pod # rest) rep b =
     (if \<not> print_agrees pods mid pod
      then accept_pods clis execute pods mid rest
             (rep\<lparr>kp_skipped := kp_skipped rep @ [(mid, pod @ '': fingerprint mismatch or unavailable'')]\<rparr>) b
      else if \<not> execute
      then accept_pods clis execute pods mid rest (rep\<lparr>kp_accepted := kp_accepted rep @ [(pod, mid)]\<rparr>) b
      else
        (case map_of (rev clis) pod of
           None \<Rightarrow> (Inl (KeyErr pod), b)
         | Some cli \<Rightarrow>
             (case call_pod pod cli (WheelCall ''key.accept'' [(''match'', PStr mid)]) b of
                (Inl (SaltApiError _), b') \<Rightarrow>
                  accept_pods clis execute pods mid rest (rep\<lparr>kp_errors := kp_errors rep @ [(pod, mid)]\<rparr>) b'
              | (Inl er, b') \<Rightarrow> (Inl er, b')
              | (Inr _, b') \<Rightarrow>
                  accept_pods clis execute pods mid rest (rep\<lparr>kp_accepted := kp_accepted rep @ [(pod, mid)]\<rparr>) b')))"

definition reconcile_id ::
  "(string \<times> 'w client) list \<Rightarrow> bool \<Rightarrow> picture \<Rightarrow> string \<Rightarrow> key_report \<Rightarrow> 'w bus \<Rightarrow> key_report res \<times> 'w bus" where
  "reconcile_id clis execute pods mid rep b =
     (case find (\<lambda>(_, t). quarantined t) (state_on pods mid) of
        Some (name, t) \<Rightarrow>
          (Inr (rep\<lparr>kp_skipped := kp_skipped rep
             @ [(mid, ''explicit '' @ (case t of None \<Rightarrow> [] | Some s \<Rightarrow> s) @ '' on '' @ name @ ''; decide by hand'')]\<rparr>), b)
      | None \<Rightarrow>
          if pending_pods pods mid = [] then (Inr rep, b)
          else if trusted_prints pods mid = []
          then (Inr (rep\<lparr>kp_skipped := kp_skipped rep @ [(mid, ''trusted nowhere; accept by hand'')]\<rparr>), b)
          else accept_pods clis execute pods mid (pending_pods pods mid) rep b)"

fun reconcile_ids ::
  "(string \<times> 'w client) list \<Rightarrow> bool \<Rightarrow> picture \<Rightarrow> string list \<Rightarrow> key_report \<Rightarrow> 'w bus \<Rightarrow> key_report res \<times> 'w bus" where
  "reconcile_ids clis execute pods [] rep b = (Inr rep, b)"
| "reconcile_ids clis execute pods (mid # mids) rep b =
     (case reconcile_id clis execute pods mid rep b of
        (Inl er, b') \<Rightarrow> (Inl er, b')
      | (Inr rep', b') \<Rightarrow> reconcile_ids clis execute pods mids rep' b')"

definition empty_report :: "string list \<Rightarrow> key_report" where
  "empty_report unreachable =
     \<lparr>kp_accepted = [], kp_skipped = [], kp_unreachable = unreachable, kp_errors = []\<rparr>"

definition reconcile_keys ::
  "(string \<times> 'w client) list \<Rightarrow> bool \<Rightarrow> 'w bus \<Rightarrow> key_report res \<times> 'w bus" where
  "reconcile_keys clis execute b =
     (case fleet_key_states clis ([], []) b of
        (Inl er, b') \<Rightarrow> (Inl er, b')
      | (Inr (pods, unreachable), b') \<Rightarrow>
          reconcile_ids clis execute pods (picture_ids pods) (empty_report unreachable) b')"

end
