(* ===== verification/KeyBackfill.thy ===== *)
theory KeyBackfill
  imports Keys
begin

text \<open>
  The copy lane of \<open>overstate_ui/keys.py\<close>: which accepted keys are missing where, the copy of one key
  to the pods that never saw it, verified by digest and by a second read. What a pod executes is
  kept in the trace of the bus.
\<close>

definition CLUSTER_PKI_DIR :: string where
  "CLUSTER_PKI_DIR = ''/home/salt/data/keys/_cluster''"

section \<open>Candidates\<close>

definition pods_in :: "picture \<Rightarrow> string \<Rightarrow> string option \<Rightarrow> string list" where
  "pods_in pods mid t = sort (map fst (filter (\<lambda>(_, t'). t' = t) (state_on pods mid)))"

definition accepted_prints :: "picture \<Rightarrow> string \<Rightarrow> string list \<Rightarrow> string option set" where
  "accepted_prints pods mid names =
     set (map (\<lambda>n. case map_of pods n of None \<Rightarrow> None | Some (_, fingers) \<Rightarrow> print_on fingers ''accepted'' mid) names)"

record copy_plan =
  cy_mid :: string
  cy_print :: string
  cy_accepted_on :: "string list"
  cy_absent_on :: "string list"

datatype candidate = Converged | Undecided | Copy copy_plan

definition candidate_of :: "picture \<Rightarrow> string \<Rightarrow> candidate" where
  "candidate_of pods mid =
     (if list_ex (\<lambda>(_, t). quarantined t) (state_on pods mid) then Converged
      else
        (let accepted_on = pods_in pods mid (Some ''accepted''); absent_on = pods_in pods mid None
         in if accepted_on = [] \<or> absent_on = [] then Converged
            else
              (case map_of pods (hd accepted_on) of
                 None \<Rightarrow> Undecided
               | Some (_, fingers) \<Rightarrow>
                   (case print_on fingers ''accepted'' mid of
                      None \<Rightarrow> Undecided
                    | Some fp \<Rightarrow>
                        if accepted_prints pods mid accepted_on = {Some fp}
                        then Copy \<lparr>cy_mid = mid, cy_print = fp, cy_accepted_on = accepted_on, cy_absent_on = absent_on\<rparr>
                        else Undecided))))"

definition backfill_candidates :: "picture \<Rightarrow> copy_plan list \<times> (string \<times> string) list" where
  "backfill_candidates pods =
     (concat (map (\<lambda>mid. case candidate_of pods mid of Copy p \<Rightarrow> [p] | _ \<Rightarrow> []) (picture_ids pods)),
      concat (map (\<lambda>mid. case candidate_of pods mid of
                Undecided \<Rightarrow> [(mid, ''accepted copies disagree or lack fingerprints; decide by hand'')]
              | _ \<Rightarrow> []) (picture_ids pods)))"

section \<open>One copy\<close>

text \<open>The key the source pod trusts, from the accepted section of its reply only.\<close>

definition pubkey_of_reply :: "pyval \<Rightarrow> string \<Rightarrow> string option" where
  "pubkey_of_reply result mid =
     (let node = (case result of PList (x # _) \<Rightarrow> x | _ \<Rightarrow> result);
          node' = (case node of
                     PDict kvs \<Rightarrow>
                       (case dict_get ''data'' kvs of
                          Some (PDict d) \<Rightarrow> (case dict_get ''return'' d of Some ret \<Rightarrow> ret | None \<Rightarrow> node)
                        | _ \<Rightarrow> node)
                   | _ \<Rightarrow> node)
      in case node' of
           PDict sections \<Rightarrow>
             (case dict_get ''minions'' sections of
                Some (PDict accepted) \<Rightarrow>
                  (case dict_get mid accepted of
                     Some (PStr pem) \<Rightarrow> if py_contains ''PUBLIC KEY'' pem then Some pem else None
                   | _ \<Rightarrow> None)
              | _ \<Rightarrow> None)
         | _ \<Rightarrow> None)"

definition read_accepted_pubkey ::
  "(string \<times> 'w client) list \<Rightarrow> string \<Rightarrow> string \<Rightarrow> 'w bus \<Rightarrow> string option res \<times> 'w bus" where
  "read_accepted_pubkey clis source mid b =
     (case map_of (rev clis) source of
        None \<Rightarrow> (Inl (KeyErr source), b)
      | Some cli \<Rightarrow>
          (case call_pod source cli (WheelCall ''key.print'' [(''match'', PStr mid)]) b of
             (Inl (SaltApiError _), b') \<Rightarrow> (Inr None, b')
           | (Inl er, b') \<Rightarrow> (Inl er, b')
           | (Inr result, b') \<Rightarrow> (Inr (pubkey_of_reply result mid), b')))"

text \<open>\<open>shlex.quote\<close>\<close>

definition shell_safe :: "char \<Rightarrow> bool" where
  "shell_safe c =
     (let n = of_char c :: nat
      in (48 \<le> n \<and> n \<le> 57) \<or> (65 \<le> n \<and> n \<le> 90) \<or> (97 \<le> n \<and> n \<le> 122) \<or> c \<in> set ''_@%+=:,./-'')"

definition shlex_quote :: "string \<Rightarrow> string" where
  "shlex_quote s =
     (if s = [] then [CHR 0x27, CHR 0x27]
      else if list_all shell_safe s then s
      else CHR 0x27 # concat (map (\<lambda>c. if c = CHR 0x27
                                         then [CHR 0x27, CHR 0x22, CHR 0x27, CHR 0x22, CHR 0x27] else [c]) s)
           @ [CHR 0x27])"

definition backfill_script :: "string \<Rightarrow> string \<Rightarrow> string list" where
  "backfill_script pem dest =
     [''/bin/bash'', ''-c'',
      ''set -eu; dest='' @ shlex_quote dest @ ''; '' @
      ''dir=$(dirname \"$dest\"); '' @
      ''test -d \"$dir\" || install -d -m 0755 -o salt -g salt \"$dir\"; '' @
      ''tmp=$(mktemp \"$dir/.backfill.XXXXXX\"); '' @
      ''printf '' @ [CHR 0x27] @ ''%s'' @ [CHR 0x27] @ '' '' @ shlex_quote pem @ '' > \"$tmp\"; '' @
      ''chown salt:salt \"$tmp\"; chmod 0644 \"$tmp\"; mv -f \"$tmp\" \"$dest\"; '' @
      ''sha256sum \"$dest\" | awk '' @ [CHR 0x27] @ ''{print $1}'' @ [CHR 0x27]]"

record exec_reply =
  ex_ok :: bool
  ex_stdout :: string

text \<open>
  The cluster: whether a client can be built (its own failure), whether it is inside a cluster, and
  the exec stream of a pod.
\<close>

record 'w cluster =
  cl_client :: "bool res"
  cl_exec :: "string \<Rightarrow> string list \<Rightarrow> 'w \<Rightarrow> exec_reply res \<times> 'w"

record 'w copying =
  co_bus :: "'w bus"
  co_done :: "string list"
  co_skipped :: "(string \<times> string) list"
  co_errors :: "(string \<times> string) list"

definition unsafe_id :: "string \<Rightarrow> bool" where
  "unsafe_id mid =
     (CHR ''/'' \<in> set mid \<or> CHR 0x00 \<in> set mid \<or> mid = ''.'' \<or> mid = ''..'' \<or> starts_with ''.'' mid)"

definition error_text :: "py_error \<Rightarrow> string" where
  "error_text er = (case er of K8sError m \<Rightarrow> m | K8sConflict m \<Rightarrow> m | K8sUnavailable m \<Rightarrow> m | SaltApiError m \<Rightarrow> m | _ \<Rightarrow> exc_text er)"

text \<open>After the copy: is the key listed as accepted there now?\<close>

definition reread :: "(string \<times> 'w client) list \<Rightarrow> string \<Rightarrow> string \<Rightarrow> 'w bus \<Rightarrow> (string + bool) res \<times> 'w bus" where
  "reread clis pod mid b =
     (case map_of (rev clis) pod of
        None \<Rightarrow> (Inr (Inl (mid @ '': re-read failed'')), b)
      | Some cli \<Rightarrow>
          (case call_pod pod cli list_all_call b of
             (r, b') \<Rightarrow>
               (case res_bind (res_bind r reply_return) (py_get ''minions'' (PList [])) of
                  Inl er \<Rightarrow> (if swallowed er then Inr (Inl (mid @ '': re-read failed'')) else Inl er, b')
                | Inr v \<Rightarrow> (res_bind (py_in mid (py_or v (PList []))) (\<lambda>here. Inr (Inr here)), b'))))"

definition copy_fail :: "string \<Rightarrow> string \<Rightarrow> 'w copying \<Rightarrow> unit res \<times> 'w copying" where
  "copy_fail pod reason s = (Inr (), s\<lparr>co_errors := co_errors s @ [(pod, reason)]\<rparr>)"

definition run_script :: "'w cluster \<Rightarrow> string \<Rightarrow> string list \<Rightarrow> 'w copying \<Rightarrow> exec_reply res \<times> 'w copying" where
  "run_script cl target script s =
     (case cl_exec cl target script (bus_world (co_bus s)) of
        (r, w) \<Rightarrow>
          (r, s\<lparr>co_bus := (co_bus s)\<lparr>bus_world := w, bus_execs := bus_execs (co_bus s) @ [(target, script)]\<rparr>\<rparr>))"

definition confirm_copy ::
  "(string \<times> 'w client) list \<Rightarrow> string \<Rightarrow> string \<Rightarrow> 'w copying \<Rightarrow> unit res \<times> 'w copying" where
  "confirm_copy clis mid pod s =
     (case reread clis pod mid (co_bus s) of
        (Inl er, b) \<Rightarrow> (Inl er, s\<lparr>co_bus := b\<rparr>)
      | (Inr (Inl reason), b) \<Rightarrow> copy_fail pod reason (s\<lparr>co_bus := b\<rparr>)
      | (Inr (Inr here), b) \<Rightarrow>
          if here then (Inr (), s\<lparr>co_bus := b, co_done := co_done s @ [pod]\<rparr>)
          else copy_fail pod (mid @ '': not accepted after copy'') (s\<lparr>co_bus := b\<rparr>))"

definition copy_pod ::
  "(string \<Rightarrow> string) \<Rightarrow> 'w cluster \<Rightarrow> (string \<times> 'w client) list \<Rightarrow> (string \<times> string) list \<Rightarrow> string \<Rightarrow> string
   \<Rightarrow> string \<Rightarrow> 'w copying \<Rightarrow> unit res \<times> 'w copying" where
  "copy_pod digest cl clis names mid pem pod s =
     (case map_of names pod of
        None \<Rightarrow> (Inr (), s\<lparr>co_skipped := co_skipped s @ [(mid, pod @ '': no pod mapping'')]\<rparr>)
      | Some target \<Rightarrow>
          (case run_script cl target (backfill_script pem (CLUSTER_PKI_DIR @ ''/minions/'' @ mid)) s of
             (Inl er, s1) \<Rightarrow>
               if is_k8s_error er
               then copy_fail pod (mid @ '': exec failed ('' @ take 120 (error_text er) @ '')'') s1
               else (Inl er, s1)
           | (Inr res, s1) \<Rightarrow>
               if \<not> ex_ok res \<or> py_strip (ex_stdout res) \<noteq> digest pem
               then copy_fail pod (mid @ '': copy unverified'') s1
               else confirm_copy clis mid pod s1))"

fun copy_pods ::
  "(string \<Rightarrow> string) \<Rightarrow> 'w cluster \<Rightarrow> (string \<times> 'w client) list \<Rightarrow> (string \<times> string) list \<Rightarrow> string \<Rightarrow> string
   \<Rightarrow> string list \<Rightarrow> 'w copying \<Rightarrow> unit res \<times> 'w copying" where
  "copy_pods digest cl clis names mid pem [] s = (Inr (), s)"
| "copy_pods digest cl clis names mid pem (pod # rest) s =
     (case copy_pod digest cl clis names mid pem pod s of
        (Inl er, s') \<Rightarrow> (Inl er, s')
      | (Inr _, s') \<Rightarrow> copy_pods digest cl clis names mid pem rest s')"

definition backfill_one ::
  "(string \<Rightarrow> string) \<Rightarrow> 'w cluster \<Rightarrow> (string \<times> 'w client) list \<Rightarrow> (string \<times> string) list \<Rightarrow> copy_plan
   \<Rightarrow> 'w bus \<Rightarrow> unit res \<times> 'w copying" where
  "backfill_one digest cl clis names p b =
     (let s0 = \<lparr>co_bus = b, co_done = [], co_skipped = [], co_errors = []\<rparr>; mid = cy_mid p;
          source = hd (cy_accepted_on p)
      in if unsafe_id mid
         then (Inr (), s0\<lparr>co_skipped := [(mid, ''unsafe key id; copy the accepted key by hand'')]\<rparr>)
         else
           (case read_accepted_pubkey clis source mid b of
              (Inl er, b') \<Rightarrow> (Inl er, s0\<lparr>co_bus := b'\<rparr>)
            | (Inr None, b') \<Rightarrow>
                (Inr (), s0\<lparr>co_bus := b', co_skipped := [(mid, source @ '': accepted key unreadable'')]\<rparr>)
            | (Inr (Some pem), b') \<Rightarrow>
                copy_pods digest cl clis names mid pem (cy_absent_on p) (s0\<lparr>co_bus := b'\<rparr>)))"

section \<open>All copies\<close>

record backfill_report =
  bf_plan :: "(string \<times> string) list"
  bf_done :: "(string \<times> string) list"
  bf_skipped :: "(string \<times> string) list"
  bf_errors :: "(string \<times> string) list"
  bf_unreachable :: "string list"
  bf_unavailable :: bool

fun copy_all ::
  "(string \<Rightarrow> string) \<Rightarrow> 'w cluster \<Rightarrow> (string \<times> 'w client) list \<Rightarrow> (string \<times> string) list \<Rightarrow> copy_plan list
   \<Rightarrow> backfill_report \<Rightarrow> 'w bus \<Rightarrow> backfill_report res \<times> 'w bus" where
  "copy_all digest cl clis names [] rep b = (Inr rep, b)"
| "copy_all digest cl clis names (p # ps) rep b =
     (case backfill_one digest cl clis names p b of
        (Inl er, s) \<Rightarrow> (Inl er, co_bus s)
      | (Inr _, s) \<Rightarrow>
          copy_all digest cl clis names ps
            (rep\<lparr>bf_done := bf_done rep @ map (\<lambda>pod. (pod, cy_mid p)) (co_done s),
                 bf_skipped := bf_skipped rep @ co_skipped s,
                 bf_errors := bf_errors rep @ co_errors s\<rparr>) (co_bus s))"

text \<open>
  \<open>_k8s_pod_names\<close>: an explicit mapping wins; otherwise \<open>pod-i\<close> is the i-th pod of the set, if every
  client is named so.
\<close>

definition pod_number :: "string \<Rightarrow> string option" where
  "pod_number name =
     (if starts_with ''pod-'' name
      then (let r = drop 4 name; t = (if r \<noteq> [] \<and> last r = CHR 0x0A then butlast r else r)
            in if t \<noteq> [] \<and> list_all ascii_digit t then Some t else None)
      else None)"

definition k8s_pod_names ::
  "string option \<Rightarrow> 'w cluster \<Rightarrow> string list \<Rightarrow> (string \<times> string) list option \<Rightarrow> (string \<times> string) list option res" where
  "k8s_pod_names sts cl names given =
     (case given of
        Some m \<Rightarrow> Inr (Some m)
      | None \<Rightarrow>
          (case sts of
             None \<Rightarrow> Inr None
           | Some set_name \<Rightarrow>
               (case cl_client cl of
                  Inl er \<Rightarrow>
                    (case er of
                       K8sError _ \<Rightarrow> Inr None | K8sConflict _ \<Rightarrow> Inr None | RuntimeErr _ \<Rightarrow> Inr None
                     | KeyErr _ \<Rightarrow> Inr None | AttributeErr \<Rightarrow> Inr None | SaltApiError _ \<Rightarrow> Inr None | _ \<Rightarrow> Inl er)
                | Inr available \<Rightarrow>
                    if \<not> available then Inr None
                    else if list_ex (\<lambda>n. pod_number n = None) names then Inr None
                    else Inr (Some (map (\<lambda>n. (n, set_name @ ''-'' @ (case pod_number n of None \<Rightarrow> [] | Some i \<Rightarrow> i))) names)))))"

definition backfill_absent_keys ::
  "(string \<Rightarrow> string) \<Rightarrow> string option \<Rightarrow> 'w cluster \<Rightarrow> (string \<times> 'w client) list
   \<Rightarrow> (string \<times> string) list option \<Rightarrow> bool \<Rightarrow> 'w bus \<Rightarrow> backfill_report res \<times> 'w bus" where
  "backfill_absent_keys digest sts cl clis given dry_run b =
     (case fleet_key_states clis ([], []) b of
        (Inl er, b') \<Rightarrow> (Inl er, b')
      | (Inr (pods, unreachable), b') \<Rightarrow>
          (case backfill_candidates pods of
             (planned, skipped) \<Rightarrow>
               (let rep = \<lparr>bf_plan = concat (map (\<lambda>p. map (\<lambda>pod. (pod, cy_mid p)) (cy_absent_on p)) planned),
                           bf_done = [], bf_skipped = skipped, bf_errors = [], bf_unreachable = unreachable,
                           bf_unavailable = False\<rparr>
                in if dry_run \<or> planned = [] then (Inr rep, b')
                   else
                     (case k8s_pod_names sts cl (map fst clis) given of
                        Inl er \<Rightarrow> (Inl er, b')
                      | Inr None \<Rightarrow> (Inr (rep\<lparr>bf_unavailable := True\<rparr>), b')
                      | Inr (Some names) \<Rightarrow>
                          (case cl_client cl of
                             Inl er \<Rightarrow>
                               if is_k8s_error er then (Inr (rep\<lparr>bf_unavailable := True\<rparr>), b') else (Inl er, b')
                           | Inr _ \<Rightarrow> copy_all digest cl clis names planned rep b')))))"

record key_backfill =
  kb_done :: "string list"
  kb_skipped :: "(string \<times> string) list"
  kb_errors :: "(string \<times> string) list"
  kb_unavailable :: bool
  kb_plan :: "string list"

definition backfill_key ::
  "(string \<Rightarrow> string) \<Rightarrow> string option \<Rightarrow> 'w cluster \<Rightarrow> string \<Rightarrow> (string \<times> 'w client) list
   \<Rightarrow> (string \<times> string) list option \<Rightarrow> 'w bus \<Rightarrow> key_backfill res \<times> 'w bus" where
  "backfill_key digest sts cl mid clis given b =
     (case backfill_absent_keys digest sts cl clis given False b of
        (Inl er, b') \<Rightarrow> (Inl er, b')
      | (Inr rep, b') \<Rightarrow>
          (Inr \<lparr>kb_done = map fst (filter (\<lambda>(_, m). m = mid) (bf_done rep)),
                kb_skipped = filter (\<lambda>(m, _). m = mid) (bf_skipped rep),
                kb_errors = filter (\<lambda>(_, reason). starts_with (mid @ '':'') reason) (bf_errors rep),
                kb_unavailable = bf_unavailable rep,
                kb_plan = map fst (filter (\<lambda>(_, m). m = mid) (bf_plan rep))\<rparr>, b'))"

end
