(* ===== verification/KeyViews.thy ===== *)
theory KeyViews
  imports KeyBackfill BatchRequest
begin

text \<open>
  The handlers of \<open>overstate_ui/keys.py\<close>: the key page, the key action that fans out to every pod,
  and the reconcile action. A request carries its context, the bus to the master pods and the
  cached roster; a redirect names its endpoint, without the query arguments it repeats.
\<close>

record 'w site =
  st_ctx :: ctx
  st_bus :: "'w bus"
  st_keys :: "(roster \<times> string list) option"

text \<open>What a view needs from outside: the hash, the stateful set of the configuration, the cluster and
  the clients of the master pods.\<close>

record 'w outside =
  ou_digest :: "string \<Rightarrow> string"
  ou_sts :: "string option"
  ou_cluster :: "'w cluster"
  ou_pods :: "(string \<times> 'w client) list"

definition keys_home :: string where "keys_home = ''keys.index''"

text \<open>A gate in front of the rest of a handler: the refusal, or the context it goes on with.\<close>

definition pass_gate :: "(view \<Rightarrow> view) \<Rightarrow> ctx \<Rightarrow> (resp \<times> ctx) + ctx" where
  "pass_gate gate c =
     (case gate (\<lambda>c'. (Page, c')) c of (r, c') \<Rightarrow> if r = Page then Inr c' else Inl (r, c'))"

definition st_flash :: "string \<Rightarrow> string \<Rightarrow> 'w site \<Rightarrow> 'w site" where
  "st_flash msg cat s = s\<lparr>st_ctx := flash msg cat (st_ctx s)\<rparr>"

definition st_log :: "user \<Rightarrow> string \<Rightarrow> string option \<Rightarrow> string option \<Rightarrow> 'w site \<Rightarrow> 'w site" where
  "st_log cu action perm minion_id s =
     s\<lparr>st_ctx := on_db (log_event (u_username cu) action None None perm minion_id None) (st_ctx s)\<rparr>"

definition key_error :: "string \<Rightarrow> 'w site \<Rightarrow> resp \<times> 'w site" where
  "key_error msg s = (Redirect keys_home, st_flash msg ''error'' s)"

section \<open>The key page\<close>

record key_page =
  kg_tab :: string
  kg_rows :: "key_row list"
  kg_total :: nat
  kg_page :: int
  kg_pages :: int
  kg_counts :: "(string \<times> nat) list"
  kg_completable :: nat
  kg_missing :: nat

definition PAGE_SIZES :: "int list" where "PAGE_SIZES = [10, 25, 50, 100]"
definition DEFAULT_PAGE_SIZE :: int where "DEFAULT_PAGE_SIZE = 50"

definition resolve_page_size :: "string option \<Rightarrow> int" where
  "resolve_page_size raw =
     (case raw of
        None \<Rightarrow> DEFAULT_PAGE_SIZE
      | Some s \<Rightarrow>
          (case py_int s of
             None \<Rightarrow> DEFAULT_PAGE_SIZE
           | Some n \<Rightarrow> if n \<in> set PAGE_SIZES then n else DEFAULT_PAGE_SIZE))"

definition first_value :: "form \<Rightarrow> string \<Rightarrow> string option" where
  "first_value f k = (case f k of [] \<Rightarrow> None | v # _ \<Rightarrow> Some v)"

text \<open>The clamp of a requested page, and its slice of the rows.\<close>

definition page_count :: "nat \<Rightarrow> int \<Rightarrow> int" where
  "page_count n per_page = max 1 (- ((- int n) div per_page))"

definition page_slice :: "'a list \<Rightarrow> int \<Rightarrow> int \<Rightarrow> 'a list" where
  "page_slice rows page per_page = take (nat per_page) (drop (nat ((page - 1) * per_page)) rows)"

definition scoped_rows :: "env \<Rightarrow> user \<Rightarrow> ctx \<Rightarrow> roster \<Rightarrow> roster" where
  "scoped_rows e cu c data =
     (if rbac_mode e (c_db c) = ''scoped'' \<and> \<not> has_fleet e (c_memo c) (c_db c) cu ''key.read''
      then map (\<lambda>(t, rows). (t, if t = ''accepted''
             then filter (\<lambda>r. kr_id r \<in> minions_with e (c_memo c) (c_db c) cu ''key.read'') rows else [])) data
      else data)"

text \<open>\<open>by_id\<close>: the states of an id over all the tabs that are shown.\<close>

definition states_by_id :: "roster \<Rightarrow> (string \<times> (string \<times> string) list) list" where
  "states_by_id data =
     fold (\<lambda>r acc. assoc_set (kr_id r)
             (fold (\<lambda>(p, t). assoc_set p t) (kr_states r) (case map_of acc (kr_id r) of None \<Rightarrow> [] | Some st \<Rightarrow> st)) acc)
       (concat (map snd data)) []"

definition completable_states :: "(string \<times> string) list \<Rightarrow> bool" where
  "completable_states st =
     (\<not> fst ` set (filter (\<lambda>(_, t). t = ''pending'') st) \<subseteq> fst ` set (filter (\<lambda>(_, t). t = ''accepted'') st)
      \<and> ''accepted'' \<in> set (map snd st))"

definition missing_states :: "int \<Rightarrow> (string \<times> string) list \<Rightarrow> bool" where
  "missing_states reachable st =
     (''accepted'' \<in> set (map snd st) \<and> ''rejected'' \<notin> set (map snd st) \<and> ''denied'' \<notin> set (map snd st)
      \<and> int (length st) < reachable)"

text \<open>A row without a fingerprint shows a dash outside the modelled characters, so no search term meets it.\<close>

definition row_matches :: "string \<Rightarrow> key_row \<Rightarrow> bool" where
  "row_matches q r =
     (q = [] \<or> py_contains q (py_lower (kr_id r))
      \<or> (case kr_print r of None \<Rightarrow> False | Some p \<Rightarrow> py_contains q (py_lower p)))"

definition key_page_of :: "form \<Rightarrow> string \<Rightarrow> int \<Rightarrow> roster \<Rightarrow> key_page" where
  "key_page_of args tab reachable data =
     (let q = py_lower (py_strip (form_get args ''q''));
          shown = filter (row_matches q) (case map_of data tab of None \<Rightarrow> [] | Some rows \<Rightarrow> rows);
          rows = (if form_get args ''dir'' = ''desc'' then rev (sort_key kr_id (rev shown)) else sort_key kr_id shown);
          per_page = resolve_page_size (first_value args ''per_page'');
          requested = (case first_value args ''page'' of
                         None \<Rightarrow> 1 | Some s \<Rightarrow> (case py_int s of None \<Rightarrow> 1 | Some n \<Rightarrow> max 1 n));
          pages = page_count (length rows) per_page; page = min requested pages; st = map snd (states_by_id data)
      in \<lparr>kg_tab = tab, kg_rows = page_slice rows page per_page, kg_total = length rows, kg_page = page,
          kg_pages = pages, kg_counts = map (\<lambda>(t, rs). (t, length rs)) data,
          kg_completable = length (filter completable_states st),
          kg_missing = length (filter (missing_states reachable) st)\<rparr>)"

text \<open>The roster of the page: the cache, or the pods, and then the cache is written unless no pod answered.\<close>

definition keys_roster :: "'w outside \<Rightarrow> 'w site \<Rightarrow> (roster \<times> string list) res \<times> 'w site" where
  "keys_roster ou s =
     (case st_keys s of
        Some rf \<Rightarrow> (Inr rf, s)
      | None \<Rightarrow>
          (case merged_key_data (ou_pods ou) (st_bus s) of
             (Inl er, b) \<Rightarrow> (Inl er, s\<lparr>st_bus := b\<rparr>)
           | (Inr (data, failed), b) \<Rightarrow>
               (Inr (data, failed),
                s\<lparr>st_bus := b,
                  st_keys := (if length failed < length (ou_pods ou) then Some (data, failed) else None)\<rparr>)))"

definition keys_show :: "env \<Rightarrow> 'w outside \<Rightarrow> user \<Rightarrow> form \<Rightarrow> roster \<Rightarrow> string list \<Rightarrow> 'w site \<Rightarrow> key_page \<times> 'w site" where
  "keys_show e ou cu args data failed s =
     (let tab = (case first_value args ''tab'' of
                   None \<Rightarrow> ''pending'' | Some t \<Rightarrow> if t \<in> set (map fst TABS) then t else ''pending'');
          down = (length failed = length (ou_pods ou));
          s1 = (if down then st_flash ''Salt API error: no master is reachable.'' ''error'' s else s);
          data1 = (if down then map (\<lambda>(t, _). (t, [])) TABS else data);
          data2 = scoped_rows e cu (st_ctx s1) data1
      in (key_page_of args tab (int (length (ou_pods ou)) - int (length failed)) data2,
          fold (\<lambda>n. st_flash (n @ '' is unreachable. Key states are partial.'') ''warning'') failed s1))"

definition keys_index ::
  "env \<Rightarrow> 'w outside \<Rightarrow> user \<Rightarrow> form \<Rightarrow> 'w site \<Rightarrow> (resp \<times> key_page option) \<times> 'w site" where
  "keys_index e ou cu args s =
     (case pass_gate (read_required e cu ''key.read'') (st_ctx s) of
        Inl (r, c) \<Rightarrow> ((r, None), s\<lparr>st_ctx := c\<rparr>)
      | Inr c \<Rightarrow>
          (case keys_roster ou (s\<lparr>st_ctx := c\<rparr>) of
             (Inl er, s1) \<Rightarrow> ((Fail er, None), s1)
           | (Inr (data, failed), s1) \<Rightarrow>
               (case keys_show e ou cu args data failed s1 of (pg, s2) \<Rightarrow> ((Page, Some pg), s2))))"

section \<open>A key action\<close>

definition action_call :: "string \<Rightarrow> string \<Rightarrow> salt_call" where
  "action_call action mid =
     WheelCall (case map_of ACTIONS action of None \<Rightarrow> [] | Some f \<Rightarrow> f)
       ((''match'', PStr mid)
        # (if action = ''accept'' then [(''include_rejected'', PBool True), (''include_denied'', PBool True)] else []))"

fun act_pods ::
  "(string \<times> 'w client) list \<Rightarrow> string \<Rightarrow> string \<Rightarrow> string list \<times> string list \<Rightarrow> 'w bus
   \<Rightarrow> (string list \<times> string list) res \<times> 'w bus" where
  "act_pods [] action mid s b = (Inr s, b)"
| "act_pods ((pod, cli) # clis) action mid s b =
     (case call_pod pod cli (action_call action mid) b of
        (Inl (SaltApiError _), b') \<Rightarrow> act_pods clis action mid (fst s @ [pod], snd s) b'
      | (Inl er, b') \<Rightarrow> (Inl er, b')
      | (Inr result, b') \<Rightarrow>
          act_pods clis action mid
            (if key_action_applied action result mid then s else (fst s, snd s @ [pod])) b')"

definition action_perm :: "string \<Rightarrow> string" where
  "action_perm action = (if action = ''delete'' then ''key.delete'' else ''key.accept'')"

definition action_gate :: "env \<Rightarrow> user \<Rightarrow> string \<Rightarrow> string \<Rightarrow> view \<Rightarrow> view" where
  "action_gate e cu action mid k c =
     (if rbac_mode e (c_db c) \<noteq> ''scoped'' then k c
      else if action = ''delete'' then require e cu ''key.delete'' (Some mid) None ''no-grant'' k c
      else require e cu ''key.accept'' None None ''no-grant'' k c)"

definition no_backfill :: key_backfill where
  "no_backfill = \<lparr>kb_done = [], kb_skipped = [], kb_errors = [], kb_unavailable = False, kb_plan = []\<rparr>"

text \<open>A deletion also drops the inventory row.\<close>

definition drop_minion :: "user \<Rightarrow> string \<Rightarrow> 'w site \<Rightarrow> bool \<times> 'w site" where
  "drop_minion cu mid s =
     (case minion_by_id (c_db (st_ctx s)) mid of
        None \<Rightarrow> (False, s)
      | Some _ \<Rightarrow>
          (True, st_log cu (''minion-remove:'' @ mid) (Some ''minion.remove'') (Some mid)
             (s\<lparr>st_ctx := on_db (\<lambda>db. db\<lparr>minions := filter (\<lambda>m. m_id m \<noteq> mid) (minions db)\<rparr>) (st_ctx s)\<rparr>)))"

definition act_outcome ::
  "user \<Rightarrow> string \<Rightarrow> string \<Rightarrow> string list \<Rightarrow> string list \<Rightarrow> key_backfill \<Rightarrow> string \<Rightarrow> 'w site \<Rightarrow> 'w site" where
  "act_outcome cu action mid failed unapplied bf suffix s =
     (let past = (case map_of PAST action of None \<Rightarrow> [] | Some p \<Rightarrow> p);
          partial = (\<lambda>bits what s'.
            st_log cu (action @ ''-key-partial:'' @ mid @ '':'' @ what) (Some (action_perm action)) (Some mid)
              (st_flash (mid @ '': '' @ past @ '' on the converged masters. '' @ py_join ''; '' bits
                 @ ''. Retry to converge.'' @ suffix) ''warning'' s'))
      in if kb_unavailable bf \<and> kb_plan bf \<noteq> [] \<and> failed = [] \<and> unapplied = []
         then partial [''accepted here but not copied to '' @ py_join '', '' (kb_plan bf) @ '' (backfill unavailable)'']
                ''backfill-unavailable'' s
         else if failed \<noteq> [] \<or> unapplied \<noteq> [] \<or> kb_errors bf \<noteq> []
         then partial
                ((if failed = [] then [] else [py_join '', '' failed @ '' did not answer''])
                 @ (if unapplied = [] then [] else [py_join '', '' unapplied
                      @ '' left it in another state (delete the key there if that state is wrong)''])
                 @ (if kb_errors bf = [] then []
                    else [''backfill failed ('' @ py_join ''; '' (map snd (kb_errors bf)) @ '')'']))
                (py_join '','' (sort (remdups (failed @ unapplied)))) s
         else
           st_flash (mid @ '': '' @ past @ ''.'' @ suffix) ''success''
             (st_log cu (action @ ''-key'') (Some (action_perm action)) (Some mid) s))"

text \<open>After the fan-out: the copy lane of an accept, the caches, the inventory row, the report.\<close>

definition act_finish ::
  "'w outside \<Rightarrow> user \<Rightarrow> string \<Rightarrow> string \<Rightarrow> string list \<Rightarrow> string list \<Rightarrow> 'w site \<Rightarrow> resp \<times> 'w site" where
  "act_finish ou cu action mid failed unapplied s =
     (case (if action = ''accept''
            then backfill_key (ou_digest ou) (ou_sts ou) (ou_cluster ou) mid (ou_pods ou) None (st_bus s)
            else (Inr no_backfill, st_bus s)) of
        (Inl er, b) \<Rightarrow> (Fail er, s\<lparr>st_bus := b\<rparr>)
      | (Inr bf, b) \<Rightarrow>
          (case (if action = ''delete'' then drop_minion cu mid (s\<lparr>st_bus := b, st_keys := None\<rparr>)
                 else (False, s\<lparr>st_bus := b, st_keys := None\<rparr>)) of
             (removed, s1) \<Rightarrow>
               (let suffix = (if removed then '' Inventory row removed.'' else [])
                      @ (if kb_done bf = [] then [] else '' Backfilled to '' @ py_join '', '' (kb_done bf) @ ''.'');
                    s2 = (if kb_done bf = [] then s1
                          else st_log cu (''backfill-key:'' @ mid @ '':'' @ py_join '','' (kb_done bf))
                                 (Some ''key.accept'') (Some mid) s1)
                in (Redirect keys_home, act_outcome cu action mid failed unapplied bf suffix s2))))"

definition act_fan_out :: "'w outside \<Rightarrow> user \<Rightarrow> string \<Rightarrow> string \<Rightarrow> 'w site \<Rightarrow> resp \<times> 'w site" where
  "act_fan_out ou cu action mid s =
     (case act_pods (ou_pods ou) action mid ([], []) (st_bus s) of
        (Inl er, b) \<Rightarrow> (Fail er, s\<lparr>st_bus := b\<rparr>)
      | (Inr (fails, unapplied), b) \<Rightarrow>
          if length fails = length (ou_pods ou)
          then key_error ''Salt API error: no master is reachable. Nothing changed.'' (s\<lparr>st_bus := b\<rparr>)
          else act_finish ou cu action mid fails unapplied (s\<lparr>st_bus := b\<rparr>))"

text \<open>Past the gate: an id missing from the roster is refused, unless a pod that did not answer may hold it.\<close>

definition act_known :: "'w outside \<Rightarrow> user \<Rightarrow> string \<Rightarrow> string \<Rightarrow> 'w site \<Rightarrow> resp \<times> 'w site" where
  "act_known ou cu action mid s =
     (case merged_key_data (ou_pods ou) (st_bus s) of
        (Inl er, b) \<Rightarrow> (Fail er, s\<lparr>st_bus := b\<rparr>)
      | (Inr (data, failed), b) \<Rightarrow>
          if mid \<notin> set (map kr_id (concat (map snd data))) \<and> (action \<noteq> ''delete'' \<or> failed = [])
          then key_error ''That key is missing from the current list.'' (s\<lparr>st_bus := b\<rparr>)
          else act_fan_out ou cu action mid (s\<lparr>st_bus := b\<rparr>))"

definition act_body :: "env \<Rightarrow> 'w outside \<Rightarrow> user \<Rightarrow> string \<Rightarrow> form \<Rightarrow> 'w site \<Rightarrow> resp \<times> 'w site" where
  "act_body e ou cu action f s =
     (let mid = py_strip (form_get f ''id'')
      in if map_of ACTIONS action = None then key_error ''Unknown key action.'' s
         else if mid = [] then key_error ''Select a minion first. An empty key selection does nothing.'' s
         else if list_ex (\<lambda>ch. ch \<in> set ''*?[]'') mid then key_error ''You cannot use wildcards in key ids.'' s
         else
           (case pass_gate (action_gate e cu action mid) (st_ctx s) of
              Inl (r, c) \<Rightarrow> (r, s\<lparr>st_ctx := c\<rparr>)
            | Inr c \<Rightarrow> act_known ou cu action mid (s\<lparr>st_ctx := c\<rparr>)))"

definition act ::
  "(string set \<Rightarrow> string) \<Rightarrow> env \<Rightarrow> 'w outside \<Rightarrow> user \<Rightarrow> string \<Rightarrow> form \<Rightarrow> 'w site \<Rightarrow> resp \<times> 'w site" where
  "act first e ou cu action f s =
     (case pass_gate (roles_required first e cu [''operator'']) (st_ctx s) of
        Inl (r, c) \<Rightarrow> (r, s\<lparr>st_ctx := c\<rparr>)
      | Inr c \<Rightarrow> act_body e ou cu action f (s\<lparr>st_ctx := c\<rparr>))"

section \<open>Reconcile\<close>

definition reconcile_detail :: "key_report \<Rightarrow> backfill_report \<Rightarrow> string" where
  "reconcile_detail rep bf =
     py_join ''; ''
       (map (\<lambda>(mid, reason). mid @ '': '' @ reason) (kp_skipped rep)
        @ map (\<lambda>(pod, mid). pod @ ''/'' @ mid @ '': accept failed'') (kp_errors rep)
        @ map snd (bf_errors bf)
        @ map (\<lambda>(mid, reason). mid @ '': '' @ reason) (bf_skipped bf)
        @ (if bf_unavailable bf \<and> bf_plan bf \<noteq> [] then [''backfill unavailable (no pod mapping or K8s access)''] else [])
        @ (if kp_unreachable rep = [] then [] else [''unreachable: '' @ py_join '', '' (kp_unreachable rep)]))"

definition reconcile_report :: "user \<Rightarrow> key_report \<Rightarrow> backfill_report \<Rightarrow> 'w site \<Rightarrow> 'w site" where
  "reconcile_report cu rep bf s =
     (let n = length (kp_accepted rep); m = length (bf_done bf); detail = reconcile_detail rep bf;
          s1 = st_log cu (''reconcile-keys:'' @ nat_str n) None None s;
          s2 = (if bf_done bf = [] then s1
                else st_log cu (''backfill-keys:'' @ nat_str m @ '':'' @ py_join '','' (map fst (bf_done bf)))
                       (Some ''key.accept'') None s1);
          summary = ''Reconciled '' @ nat_str n @ '' key(s).''
            @ (if m = 0 then []
               else '' Backfilled '' @ nat_str m @ '' key(s) (''
                 @ py_join '', '' (map (\<lambda>(pod, mid). mid @ '' on '' @ pod) (bf_done bf)) @ '').'')
      in st_flash (summary @ (if detail = [] then [] else '' '' @ detail))
           (if (n \<noteq> 0 \<or> m \<noteq> 0) \<and> detail = [] then ''success'' else if n \<noteq> 0 \<or> m \<noteq> 0 then ''warning'' else ''info'') s2)"

text \<open>Confirmed: reconcile, then copy. Not confirmed: both plans, for the page that asks.\<close>

definition reconcile_body ::
  "'w outside \<Rightarrow> user \<Rightarrow> form \<Rightarrow> 'w site \<Rightarrow> (resp \<times> (key_report \<times> (string \<times> string) list) option) \<times> 'w site" where
  "reconcile_body ou cu f s =
     (let confirmed = (form_get f ''confirm'' = ''1'');
          copies = backfill_absent_keys (ou_digest ou) (ou_sts ou) (ou_cluster ou) (ou_pods ou) None (\<not> confirmed)
      in case reconcile_keys (ou_pods ou) confirmed (st_bus s) of
           (Inl er, b) \<Rightarrow> ((Fail er, None), s\<lparr>st_bus := b\<rparr>)
         | (Inr rep, b) \<Rightarrow>
             if length (kp_unreachable rep) = length (ou_pods ou)
             then ((Redirect keys_home, None),
                   st_flash ''Salt API error: no master is reachable. Nothing changed.'' ''error'' (s\<lparr>st_bus := b\<rparr>))
             else
               (case copies b of
                  (Inl er, b2) \<Rightarrow> ((Fail er, None), s\<lparr>st_bus := b2\<rparr>)
                | (Inr bf, b2) \<Rightarrow>
                    if confirmed
                    then ((Redirect keys_home, None), reconcile_report cu rep bf (s\<lparr>st_bus := b2, st_keys := None\<rparr>))
                    else ((Page, Some (rep, bf_plan bf)), s\<lparr>st_bus := b2\<rparr>)))"

definition reconcile ::
  "(string set \<Rightarrow> string) \<Rightarrow> env \<Rightarrow> 'w outside \<Rightarrow> user \<Rightarrow> form \<Rightarrow> 'w site
   \<Rightarrow> (resp \<times> (key_report \<times> (string \<times> string) list) option) \<times> 'w site" where
  "reconcile first e ou cu f s =
     (case pass_gate (\<lambda>k. roles_required first e cu [''operator''] (require e cu ''key.accept'' None None ''no-grant'' k))
             (st_ctx s) of
        Inl (r, c) \<Rightarrow> ((r, None), s\<lparr>st_ctx := c\<rparr>)
      | Inr c \<Rightarrow> reconcile_body ou cu f (s\<lparr>st_ctx := c\<rparr>))"

end
