(* ===== verification/KeyFacts.thy ===== *)
theory KeyFacts
  imports KeyViews "HOL-Library.Multiset"
begin

text \<open>
  Lemmas on the key lanes: what each function adds to the trace of the bus, what the fleet picture
  says of an accepted or copied key, and the relation of a preview to the run it previews.
\<close>

section \<open>The trace of the bus\<close>

text \<open>One bus before another: the calls of the second extend those of the first.\<close>

definition before :: "'w bus \<Rightarrow> 'w bus \<Rightarrow> bool" where
  "before b b' \<longleftrightarrow> (\<exists>new. bus_calls b' = bus_calls b @ new)"

lemma before_refl [simp]: "before b b"
  by (simp add: before_def)

lemma before_trans: "before a b \<Longrightarrow> before b c \<Longrightarrow> before a c"
  by (auto simp: before_def)

definition adds :: "(string \<times> salt_call \<Rightarrow> bool) \<Rightarrow> 'w bus \<Rightarrow> 'w bus \<Rightarrow> bool" where
  "adds Q b b' \<longleftrightarrow>
     (\<exists>new. bus_calls b' = bus_calls b @ new \<and> (\<forall>x \<in> set new. Q x) \<and> bus_execs b' = bus_execs b)"

lemma adds_refl [simp]: "adds Q b b"
  by (simp add: adds_def)

lemma adds_trans [trans]: "adds Q a b \<Longrightarrow> adds Q b c \<Longrightarrow> adds Q a c"
  by (fastforce simp: adds_def)

lemma adds_mono: "adds Q a b \<Longrightarrow> (\<And>x. Q x \<Longrightarrow> Q' x) \<Longrightarrow> adds Q' a b"
  by (auto simp: adds_def)

lemma adds_call: "call_pod pod cli call b = (r, b') \<Longrightarrow> Q (pod, call) \<Longrightarrow> adds Q b b'"
  by (auto simp: call_pod_def adds_def split: prod.splits)

lemma adds_new: "adds Q b b' \<Longrightarrow> x \<in> set (drop (length (bus_calls b)) (bus_calls b')) \<Longrightarrow> Q x"
  by (auto simp: adds_def)

definition key_read :: "string \<times> salt_call \<Rightarrow> bool" where
  "key_read x \<longleftrightarrow> snd x = list_all_call \<or> snd x = finger_call"

lemma key_read_calls [simp]: "key_read (pod, list_all_call)" "key_read (pod, finger_call)"
  by (simp_all add: key_read_def)

section \<open>The fleet picture\<close>

lemma fleet_reads: "fleet_key_states clis s b = (r, b') \<Longrightarrow> adds key_read b b'"
proof (induction clis s b arbitrary: r b' rule: fleet_key_states.induct)
  case (2 pod cli clis s b)
  obtain x b1 where c1: "call_pod pod cli list_all_call b = (x, b1)" by fastforce
  have a1: "adds key_read b b1" by (rule adds_call [OF c1]) simp
  show ?case
  proof (cases "res_bind (res_bind x reply_return) read_listing")
    case (Inl er)
    then show ?thesis using 2(4) a1 2(1) [OF c1 [symmetric] Inl]
      by (auto simp: c1 split: if_splits intro: adds_trans)
  next
    case (Inr listed)
    obtain y b2 where c2: "call_pod pod cli finger_call b1 = (y, b2)" by fastforce
    have a2: "adds key_read b b2" by (rule adds_trans [OF a1 adds_call [OF c2]]) simp
    show ?thesis using 2(4) a2 2(2) [OF c1 [symmetric] Inr c2 [symmetric]] 2(3) [OF c1 [symmetric] Inr c2 [symmetric]]
      by (auto simp: c1 Inr c2 split: if_splits sum.splits intro: adds_trans)
  qed
qed auto

lemma fleet_distinct:
  "fleet_key_states clis s b = (Inr (pic, un), b') \<Longrightarrow> distinct (map fst (fst s)) \<Longrightarrow> distinct (map fst pic)"
proof (induction clis s b arbitrary: pic un b' rule: fleet_key_states.induct)
  case (2 pod cli clis s b)
  obtain x b1 where c1: "call_pod pod cli list_all_call b = (x, b1)" by fastforce
  show ?case
  proof (cases "res_bind (res_bind x reply_return) read_listing")
    case (Inl er)
    then show ?thesis using 2(4,5) 2(1) [OF c1 [symmetric] Inl] by (auto simp: c1 split: if_splits)
  next
    case (Inr listed)
    obtain y b2 where c2: "call_pod pod cli finger_call b1 = (y, b2)" by fastforce
    show ?thesis
      using 2(4,5) 2(2) [OF c1 [symmetric] Inr c2 [symmetric]] 2(3) [OF c1 [symmetric] Inr c2 [symmetric]]
      by (auto simp: c1 Inr c2 distinct_assoc_set split: if_splits sum.splits)
  qed
qed auto

text \<open>The tab and the fingerprint of an id on a pod, as the picture has them.\<close>

definition filed :: "picture \<Rightarrow> string \<Rightarrow> string \<Rightarrow> string option" where
  "filed pic pod mid = (case map_of pic pod of None \<Rightarrow> None | Some (listed, _) \<Rightarrow> tab_of listed mid)"

definition shown_print :: "picture \<Rightarrow> string \<Rightarrow> string \<Rightarrow> string \<Rightarrow> string option" where
  "shown_print pic pod tab mid =
     (case map_of pic pod of None \<Rightarrow> None | Some (_, fingers) \<Rightarrow> print_on fingers tab mid)"

definition undisputed :: "picture \<Rightarrow> string \<Rightarrow> bool" where
  "undisputed pic mid \<longleftrightarrow> (\<forall>pod. filed pic pod mid \<noteq> Some ''rejected'' \<and> filed pic pod mid \<noteq> Some ''denied'')"

text \<open>Another pod vouches: the key is accepted there, with the fingerprint that is pending here.\<close>

definition vouched :: "picture \<Rightarrow> string \<Rightarrow> string \<Rightarrow> bool" where
  "vouched pic mid pod \<longleftrightarrow>
     filed pic pod mid = Some ''pending'' \<and> undisputed pic mid
     \<and> (\<exists>q fp. q \<noteq> pod \<and> filed pic q mid = Some ''accepted'' \<and> fp \<noteq> []
          \<and> shown_print pic q ''accepted'' mid = Some fp \<and> shown_print pic pod ''pending'' mid = Some fp)"

lemma state_on_iff:
  "distinct (map fst pic) \<Longrightarrow> (pod, t) \<in> set (state_on pic mid) \<longleftrightarrow> pod \<in> fst ` set pic \<and> filed pic pod mid = t"
  by (force simp: state_on_def filed_def image_iff)

lemma filed_pod: "filed pic pod mid = Some t \<Longrightarrow> pod \<in> fst ` set pic"
  by (cases "map_of pic pod") (auto simp: filed_def map_of_eq_None_iff dest!: map_of_SomeD intro: rev_image_eqI)

lemma undisputed_iff:
  assumes "distinct (map fst pic)"
  shows "undisputed pic mid \<longleftrightarrow> find (\<lambda>(_, t). quarantined t) (state_on pic mid) = None"
proof -
  have "find (\<lambda>(_, t). quarantined t) (state_on pic mid) = None
      \<longleftrightarrow> (\<forall>pod t. (pod, t) \<in> set (state_on pic mid) \<longrightarrow> \<not> quarantined t)"
    by (auto simp: find_None_iff)
  also have "\<dots> \<longleftrightarrow> undisputed pic mid"
    by (auto simp: state_on_iff [OF assms] undisputed_def quarantined_def) (metis filed_pod)+
  finally show ?thesis by simp
qed

lemma set_opt_list: "set (case x of None \<Rightarrow> [] | Some y \<Rightarrow> [y]) = set_option x"
  by (cases x) auto

lemma trusted_prints_iff:
  assumes "distinct (map fst pic)"
  shows "fp \<in> set (trusted_prints pic mid) \<longleftrightarrow>
    (\<exists>q. filed pic q mid = Some ''accepted'' \<and> shown_print pic q ''accepted'' mid = Some fp)" (is "?l \<longleftrightarrow> ?r")
proof -
  have "?l \<longleftrightarrow> (\<exists>q listed fingers. (q, listed, fingers) \<in> set pic \<and> tab_of listed mid = Some ''accepted''
      \<and> print_on fingers ''accepted'' mid = Some fp)"
    by (simp add: trusted_prints_def Bex_def split_beta if_distrib [of set] set_opt_list cong: if_cong)
  also have "\<dots> \<longleftrightarrow> (\<exists>q listed fingers. map_of pic q = Some (listed, fingers) \<and> tab_of listed mid = Some ''accepted''
      \<and> print_on fingers ''accepted'' mid = Some fp)"
    by (simp only: map_of_eq_Some_iff [OF assms])
  also have "\<dots> \<longleftrightarrow> ?r"
    unfolding filed_def shown_print_def by (rule iff_exI) (simp split: option.split)
  finally show ?thesis .
qed

lemma pending_vouched:
  assumes "distinct (map fst pic)" and "find (\<lambda>(_, t). quarantined t) (state_on pic mid) = None"
    and "pod \<in> set (pending_pods pic mid)" and "print_agrees pic mid pod"
  shows "vouched pic mid pod"
proof -
  have pend: "filed pic pod mid = Some ''pending''"
    using assms(3) by (auto simp: pending_pods_def state_on_iff [OF assms(1)])
  obtain fp where fp: "shown_print pic pod ''pending'' mid = Some fp" "fp \<noteq> []" "fp \<in> set (trusted_prints pic mid)"
    using assms(4) by (auto simp: print_agrees_def shown_print_def split: option.splits)
  then obtain q where q: "filed pic q mid = Some ''accepted''" "shown_print pic q ''accepted'' mid = Some fp"
    using trusted_prints_iff [OF assms(1)] by blast
  have "q \<noteq> pod" using q(1) pend by auto
  then show ?thesis unfolding vouched_def
    using pend q fp assms(2) undisputed_iff [OF assms(1)] by blast
qed

section \<open>Reconciliation\<close>

definition accept_call :: "string \<Rightarrow> salt_call" where
  "accept_call mid = WheelCall ''key.accept'' [(''match'', PStr mid)]"

lemma accept_pods_adds:
  "accept_pods clis execute pic mid ps rep b = (r, b') \<Longrightarrow> (\<And>p. p \<in> set ps \<Longrightarrow> print_agrees pic mid p \<Longrightarrow> Q (p, accept_call mid))
   \<Longrightarrow> adds (\<lambda>x. execute \<and> Q x) b b'"
proof (induction clis execute pic mid ps rep b arbitrary: r b' rule: accept_pods.induct)
  case (2 clis execute pic mid pod rest rep b)
  show ?case
  proof (cases "print_agrees pic mid pod \<and> execute")
    case False
    then show ?thesis using 2(1,2) 2(5,6) by (auto split: if_splits)
  next
    case True
    show ?thesis
    proof (cases "map_of (rev clis) pod")
      case None
      then show ?thesis using 2(5) True by auto
    next
      case (Some cli)
      obtain x b1 where c: "call_pod pod cli (WheelCall ''key.accept'' [(''match'', PStr mid)]) b = (x, b1)" by fastforce
      have a: "adds (\<lambda>x. execute \<and> Q x) b b1"
        using adds_call [OF c, of "\<lambda>x. execute \<and> Q x"] 2(6) [of pod] True by (auto simp: accept_call_def)
      have rest: "accept_pods clis execute pic mid rest rep' b1 = (r, b') \<Longrightarrow> adds (\<lambda>x. execute \<and> Q x) b1 b'"
        if "(\<exists>m. x = Inl (SaltApiError m) \<and> rep' = rep\<lparr>kp_errors := kp_errors rep @ [(pod, mid)]\<rparr>)
          \<or> (\<exists>v. x = Inr v \<and> rep' = rep\<lparr>kp_accepted := kp_accepted rep @ [(pod, mid)]\<rparr>)" for rep'
        using that 2(3) [OF _ _ Some c [symmetric], of _ _ r b'] 2(4) [OF _ _ Some c [symmetric], of _ r b'] True 2(6) by auto
      show ?thesis
      proof (cases x)
        case (Inl er)
        then show ?thesis using 2(5) True Some c a rest by (cases er) (auto intro: adds_trans)
      next
        case (Inr v)
        then show ?thesis using 2(5) True Some c a rest by (auto intro: adds_trans)
      qed
    qed
  qed
qed auto

lemma reconcile_id_adds:
  assumes "distinct (map fst pic)" and "reconcile_id clis execute pic mid rep b = (r, b')"
  shows "adds (\<lambda>x. execute \<and> (\<exists>pod. x = (pod, accept_call mid) \<and> vouched pic mid pod)) b b'"
proof (cases "find (\<lambda>(_, t). quarantined t) (state_on pic mid)")
  case None
  show ?thesis
  proof (cases "pending_pods pic mid = [] \<or> trusted_prints pic mid = []")
    case True
    then show ?thesis using assms(2) None by (auto simp: reconcile_id_def split: if_splits)
  next
    case False
    then have "accept_pods clis execute pic mid (pending_pods pic mid) rep b = (r, b')"
      using assms(2) None by (simp add: reconcile_id_def)
    then show ?thesis by (rule accept_pods_adds) (use pending_vouched [OF assms(1) None] in auto)
  qed
next
  case (Some a)
  then show ?thesis using assms(2) by (cases a) (auto simp: reconcile_id_def)
qed

lemma reconcile_ids_adds:
  "reconcile_ids clis execute pic mids rep b = (r, b') \<Longrightarrow> distinct (map fst pic)
   \<Longrightarrow> adds (\<lambda>x. execute \<and> (\<exists>pod mid. x = (pod, accept_call mid) \<and> vouched pic mid pod)) b b'"
proof (induction clis execute pic mids rep b arbitrary: r b' rule: reconcile_ids.induct)
  case (2 clis execute pic mid mids rep b)
  obtain x b1 where i: "reconcile_id clis execute pic mid rep b = (x, b1)" by fastforce
  have a: "adds (\<lambda>x. execute \<and> (\<exists>pod mid. x = (pod, accept_call mid) \<and> vouched pic mid pod)) b b1"
    by (rule adds_mono [OF reconcile_id_adds [OF 2(3) i]]) blast
  show ?case using 2(2) a 2(1) [OF i [symmetric] _ _ 2(3)] by (auto simp: i split: sum.splits intro: adds_trans)
qed auto

text \<open>A run against the preview of the same picture: what was tried is what was announced.\<close>

definition previewed :: "key_report \<Rightarrow> key_report \<Rightarrow> bool" where
  "previewed prev rep \<longleftrightarrow>
     kp_skipped rep = kp_skipped prev \<and> kp_unreachable rep = kp_unreachable prev \<and> kp_errors prev = []
     \<and> mset (kp_accepted prev) = mset (kp_accepted rep) + mset (kp_errors rep)
     \<and> (kp_errors rep = [] \<longrightarrow> rep = prev)"

lemma previewed_accepted:
  "previewed prev rep \<Longrightarrow> previewed (prev\<lparr>kp_accepted := kp_accepted prev @ [x]\<rparr>) (rep\<lparr>kp_accepted := kp_accepted rep @ [x]\<rparr>)"
  by (auto simp: previewed_def)

lemma previewed_error:
  "previewed prev rep \<Longrightarrow> previewed (prev\<lparr>kp_accepted := kp_accepted prev @ [x]\<rparr>) (rep\<lparr>kp_errors := kp_errors rep @ [x]\<rparr>)"
  by (auto simp: previewed_def)

lemma previewed_skipped:
  assumes "previewed prev rep"
  shows "previewed (prev\<lparr>kp_skipped := kp_skipped prev @ [x]\<rparr>) (rep\<lparr>kp_skipped := kp_skipped rep @ [x]\<rparr>)"
proof (cases "kp_errors rep = []")
  case True
  then have "rep = prev" using assms unfolding previewed_def by blast
  with True assms show ?thesis by (simp add: previewed_def)
next
  case False
  with assms show ?thesis by (simp add: previewed_def)
qed

lemma accept_pods_previewed:
  "previewed prev rep \<Longrightarrow> accept_pods clis True pic mid ps rep b = (Inr rep', b')
   \<Longrightarrow> \<exists>prev'. accept_pods clis False pic mid ps prev c = (Inr prev', c) \<and> previewed prev' rep'"
proof (induction ps arbitrary: prev rep b)
  case (Cons pod ps)
  show ?case
  proof (cases "print_agrees pic mid pod")
    case False
    let ?why = "(mid, pod @ '': fingerprint mismatch or unavailable'')"
    have t: "accept_pods clis True pic mid ps (rep\<lparr>kp_skipped := kp_skipped rep @ [?why]\<rparr>) b = (Inr rep', b')"
      using Cons.prems(2) False by (simp only: accept_pods.simps simp_thms if_True)
    have f: "accept_pods clis False pic mid (pod # ps) prev c
        = accept_pods clis False pic mid ps (prev\<lparr>kp_skipped := kp_skipped prev @ [?why]\<rparr>) c"
      using False by (simp only: accept_pods.simps simp_thms if_True)
    from Cons.IH [OF previewed_skipped [OF Cons.prems(1)] t] show ?thesis unfolding f .
  next
    case True
    then obtain cli where cli: "map_of (rev clis) pod = Some cli"
      using Cons.prems(2) by (cases "map_of (rev clis) pod") auto
    obtain x b1 where c: "call_pod pod cli (WheelCall ''key.accept'' [(''match'', PStr mid)]) b = (x, b1)" by fastforce
    have f: "accept_pods clis False pic mid (pod # ps) prev c
        = accept_pods clis False pic mid ps (prev\<lparr>kp_accepted := kp_accepted prev @ [(pod, mid)]\<rparr>) c"
      using True by simp
    show ?thesis
    proof (cases x)
      case (Inr v)
      then have "accept_pods clis True pic mid ps (rep\<lparr>kp_accepted := kp_accepted rep @ [(pod, mid)]\<rparr>) b1 = (Inr rep', b')"
        using True cli c Cons.prems(2) by simp
      from Cons.IH [OF previewed_accepted [OF Cons.prems(1)] this] show ?thesis unfolding f .
    next
      case (Inl er)
      then obtain m where "er = SaltApiError m" using True cli c Cons.prems(2) by (cases er) auto
      then have "accept_pods clis True pic mid ps (rep\<lparr>kp_errors := kp_errors rep @ [(pod, mid)]\<rparr>) b1 = (Inr rep', b')"
        using True cli c Cons.prems(2) Inl by simp
      from Cons.IH [OF previewed_error [OF Cons.prems(1)] this] show ?thesis unfolding f .
    qed
  qed
qed auto

lemma reconcile_id_previewed:
  "previewed prev rep \<Longrightarrow> reconcile_id clis True pic mid rep b = (Inr rep', b')
   \<Longrightarrow> \<exists>prev'. reconcile_id clis False pic mid prev c = (Inr prev', c) \<and> previewed prev' rep'"
  using accept_pods_previewed [of prev rep clis pic mid "pending_pods pic mid" b rep' b' c]
  by (auto simp: reconcile_id_def previewed_skipped split: option.splits if_splits)

lemma reconcile_ids_previewed:
  "previewed prev rep \<Longrightarrow> reconcile_ids clis True pic mids rep b = (Inr rep', b')
   \<Longrightarrow> \<exists>prev'. reconcile_ids clis False pic mids prev c = (Inr prev', c) \<and> previewed prev' rep'"
proof (induction mids arbitrary: prev rep b)
  case (Cons mid mids)
  obtain rep1 b1 where i: "reconcile_id clis True pic mid rep b = (Inr rep1, b1)"
    using Cons.prems(2) by (auto split: prod.splits sum.splits)
  obtain prev1 where p: "reconcile_id clis False pic mid prev c = (Inr prev1, c)" "previewed prev1 rep1"
    using reconcile_id_previewed [OF Cons.prems(1) i] by blast
  show ?case using Cons.IH [OF p(2), of b1] Cons.prems(2) by (simp add: i p(1))
qed auto

lemma empty_previewed: "previewed (empty_report un) (empty_report un)"
  by (simp add: previewed_def empty_report_def)

text \<open>
  Lemmas on the copy lane and the key action: which scripts a run executes and which calls it
  makes, and what the fleet picture says of each key it copies.
\<close>

definition grows ::
  "(string \<times> salt_call \<Rightarrow> bool) \<Rightarrow> (string \<times> string list \<Rightarrow> bool) \<Rightarrow> 'w bus \<Rightarrow> 'w bus \<Rightarrow> bool" where
  "grows P Q b b' \<longleftrightarrow>
     (\<exists>new ex. bus_calls b' = bus_calls b @ new \<and> (\<forall>x \<in> set new. P x)
        \<and> bus_execs b' = bus_execs b @ ex \<and> (\<forall>y \<in> set ex. Q y))"

lemma grows_refl [simp]: "grows P Q b b"
  by (simp add: grows_def)

lemma grows_trans [trans]: "grows P Q a b \<Longrightarrow> grows P Q b c \<Longrightarrow> grows P Q a c"
  by (fastforce simp: grows_def)

lemma grows_mono:
  "grows P Q a b \<Longrightarrow> (\<And>x. P x \<Longrightarrow> P' x) \<Longrightarrow> (\<And>y. Q y \<Longrightarrow> Q' y) \<Longrightarrow> grows P' Q' a b"
  unfolding grows_def by blast

lemma adds_grows: "adds P a b \<Longrightarrow> grows P Q a b"
  unfolding adds_def grows_def by fastforce

lemma grows_call: "call_pod pod cli call b = (r, b') \<Longrightarrow> P (pod, call) \<Longrightarrow> grows P Q b b'"
  by (rule adds_grows [OF adds_call])

lemma grows_new:
  assumes "grows P Q b b'"
  shows "x \<in> set (drop (length (bus_calls b)) (bus_calls b')) \<Longrightarrow> P x"
    and "y \<in> set (drop (length (bus_execs b)) (bus_execs b')) \<Longrightarrow> Q y"
  using assms by (auto simp: grows_def)

section \<open>Candidates\<close>

text \<open>
  An agreed copy: the key is undisputed, missing on the pod, accepted somewhere, and every pod that
  accepts it shows one and the same fingerprint.
\<close>

definition agreed :: "picture \<Rightarrow> string \<Rightarrow> string \<Rightarrow> bool" where
  "agreed pic mid pod \<longleftrightarrow>
     undisputed pic mid \<and> pod \<in> fst ` set pic \<and> filed pic pod mid = None
     \<and> (\<exists>q. filed pic q mid = Some ''accepted'')
     \<and> (\<exists>fp. \<forall>q. filed pic q mid = Some ''accepted'' \<longrightarrow> shown_print pic q ''accepted'' mid = Some fp)"

lemma pods_in_iff:
  "distinct (map fst pic) \<Longrightarrow> pod \<in> set (pods_in pic mid t) \<longleftrightarrow> pod \<in> fst ` set pic \<and> filed pic pod mid = t"
  using state_on_iff [of pic pod t mid] by (force simp: pods_in_def image_iff)

lemma candidate_agreed:
  assumes "distinct (map fst pic)" and "candidate_of pic mid = Copy p" and "pod \<in> set (cy_absent_on p)"
  shows "cy_mid p = mid \<and> agreed pic mid pod"
proof -
  have nq: "\<not> list_ex (\<lambda>(_, t). quarantined t) (state_on pic mid)"
    using assms(2) by (auto simp: candidate_of_def split: if_splits)
  let ?acc = "pods_in pic mid (Some ''accepted'')"
  have ne: "?acc \<noteq> []" using assms(2) nq by (auto simp: candidate_of_def Let_def split: if_splits)
  obtain fp where p: "accepted_prints pic mid ?acc = {Some fp}" "cy_mid p = mid" "cy_absent_on p = pods_in pic mid None"
    using assms(2) nq by (auto simp: candidate_of_def Let_def split: if_splits option.splits)
  have und: "undisputed pic mid"
    using nq undisputed_iff [OF assms(1)] by (auto simp: find_None_iff list_ex_iff)
  have some: "filed pic q mid = Some ''accepted''" "q \<in> fst ` set pic" if "q \<in> set ?acc" for q
    using that pods_in_iff [OF assms(1)] by auto
  have fps: "shown_print pic q ''accepted'' mid = Some fp" if "filed pic q mid = Some ''accepted''" for q
  proof -
    have "q \<in> set ?acc" using that filed_pod pods_in_iff [OF assms(1)] by blast
    then have "shown_print pic q ''accepted'' mid \<in> accepted_prints pic mid ?acc"
      by (auto simp: accepted_prints_def shown_print_def)
    then show ?thesis using p(1) by simp
  qed
  have "pod \<in> fst ` set pic \<and> filed pic pod mid = None" using assms(3) p(3) pods_in_iff [OF assms(1)] by simp
  moreover have "\<exists>q. filed pic q mid = Some ''accepted''" using ne some(1) by (metis list.set_sel(1))
  ultimately show ?thesis unfolding agreed_def using p(2) und fps by blast
qed

lemma planned_agreed:
  assumes "distinct (map fst pic)" and "p \<in> set (fst (backfill_candidates pic))" and "pod \<in> set (cy_absent_on p)"
  shows "agreed pic (cy_mid p) pod"
proof -
  obtain mid where "candidate_of pic mid = Copy p"
    using assms(2) by (auto simp: backfill_candidates_def split: candidate.splits)
  then show ?thesis using candidate_agreed [OF assms(1) _ assms(3)] by metis
qed

section \<open>The copies\<close>

definition print_call :: "string \<Rightarrow> salt_call" where
  "print_call mid = WheelCall ''key.print'' [(''match'', PStr mid)]"

definition copy_call :: "string \<times> salt_call \<Rightarrow> bool" where
  "copy_call x \<longleftrightarrow> key_read x \<or> (\<exists>mid. snd x = print_call mid)"

definition key_script :: "string \<Rightarrow> string \<Rightarrow> string list" where
  "key_script pem mid = backfill_script pem (CLUSTER_PKI_DIR @ ''/minions/'' @ mid)"

lemma reread_adds: "reread clis pod mid b = (r, b') \<Longrightarrow> adds key_read b b'"
proof (cases "map_of (rev clis) pod")
  case (Some cli)
  assume r: "reread clis pod mid b = (r, b')"
  obtain x b1 where c: "call_pod pod cli list_all_call b = (x, b1)" by fastforce
  have "b' = b1" using r by (auto simp: reread_def Some c split: sum.splits)
  then show ?thesis using adds_call [OF c, of key_read] by simp
qed (simp add: reread_def)

lemma run_script_grows: "run_script cl target script s = (r, s') \<Longrightarrow> grows P (\<lambda>y. y = (target, script)) (co_bus s) (co_bus s')"
  by (auto simp: run_script_def grows_def split: prod.splits)

lemma confirm_copy_adds: "confirm_copy clis mid pod s = (r, s') \<Longrightarrow> adds key_read (co_bus s) (co_bus s')"
  by (auto simp: confirm_copy_def copy_fail_def dest: reread_adds split: prod.splits sum.splits if_splits)

lemma copy_pod_grows:
  assumes "copy_pod digest cl clis names mid pem pod s = (r, s')"
  shows "grows key_read (\<lambda>y. map_of names pod = Some (fst y) \<and> snd y = key_script pem mid) (co_bus s) (co_bus s')"
proof (cases "map_of names pod")
  case None
  then show ?thesis using assms by (auto simp: copy_pod_def)
next
  case (Some target)
  obtain x s1 where x: "run_script cl target (key_script pem mid) s = (x, s1)" by fastforce
  have "grows key_read (\<lambda>y. y = (target, key_script pem mid)) (co_bus s) (co_bus s1)" by (rule run_script_grows [OF x])
  moreover have "grows key_read (\<lambda>y. y = (target, key_script pem mid)) (co_bus s1) (co_bus s')"
    using assms Some x [unfolded key_script_def]
    by (auto simp: copy_pod_def copy_fail_def dest!: confirm_copy_adds intro: adds_grows split: sum.splits if_splits)
  ultimately have "grows key_read (\<lambda>y. y = (target, key_script pem mid)) (co_bus s) (co_bus s')" by (rule grows_trans)
  then show ?thesis by (rule grows_mono) (auto simp: Some)
qed

definition script_for :: "(string \<times> string) list \<Rightarrow> string list \<Rightarrow> string \<Rightarrow> string \<Rightarrow> string \<times> string list \<Rightarrow> bool" where
  "script_for names ps mid pem y \<longleftrightarrow> (\<exists>pod \<in> set ps. map_of names pod = Some (fst y)) \<and> snd y = key_script pem mid"

lemma copy_pods_grows:
  "copy_pods digest cl clis names mid pem ps s = (r, s')
   \<Longrightarrow> grows key_read (script_for names ps mid pem) (co_bus s) (co_bus s')"
proof (induction ps arbitrary: s)
  case (Cons pod ps)
  obtain x s1 where x: "copy_pod digest cl clis names mid pem pod s = (x, s1)" by fastforce
  have g: "grows key_read (script_for names (pod # ps) mid pem) (co_bus s) (co_bus s1)"
    by (rule grows_mono [OF copy_pod_grows [OF x]]) (auto simp: script_for_def)
  show ?case
  proof (cases x)
    case (Inl er)
    then show ?thesis using Cons.prems g by (simp add: x)
  next
    case (Inr u)
    then have "copy_pods digest cl clis names mid pem ps s1 = (r, s')" using Cons.prems by (simp add: x)
    from Cons.IH [OF this] have "grows key_read (script_for names (pod # ps) mid pem) (co_bus s1) (co_bus s')"
      by (rule grows_mono) (auto simp: script_for_def)
    with g show ?thesis by (rule grows_trans)
  qed
qed simp

text \<open>The sections of a reply to \<open>key.print\<close>, and the text it files under an id as accepted.\<close>

definition answered :: "pyval \<Rightarrow> (string \<times> pyval) list \<Rightarrow> bool" where
  "answered v sections \<longleftrightarrow> (\<exists>node. (v = node \<or> (\<exists>rest. v = PList (node # rest)))
     \<and> (node = PDict sections
        \<or> (\<exists>kvs d. node = PDict kvs \<and> dict_get ''data'' kvs = Some (PDict d) \<and> dict_get ''return'' d = Some (PDict sections))))"

definition accepted_text :: "pyval \<Rightarrow> string \<Rightarrow> string \<Rightarrow> bool" where
  "accepted_text v mid pem \<longleftrightarrow> (\<exists>sections accepted. answered v sections
     \<and> dict_get ''minions'' sections = Some (PDict accepted) \<and> dict_get mid accepted = Some (PStr pem))"

lemma pubkey_accepted:
  assumes "pubkey_of_reply v mid = Some pem"
  shows "accepted_text v mid pem \<and> py_contains ''PUBLIC KEY'' pem"
proof -
  define node where "node = (case v of PList (x # _) \<Rightarrow> x | _ \<Rightarrow> v)"
  define inner where "inner = (case node of
      PDict kvs \<Rightarrow>
        (case dict_get ''data'' kvs of
           Some (PDict d) \<Rightarrow> (case dict_get ''return'' d of Some ret \<Rightarrow> ret | None \<Rightarrow> node)
         | _ \<Rightarrow> node)
    | _ \<Rightarrow> node)"
  note P = assms [unfolded pubkey_of_reply_def Let_def, folded node_def, folded inner_def]
  obtain sections where s: "inner = PDict sections" using P by (cases inner) auto
  obtain accepted where a: "dict_get ''minions'' sections = Some (PDict accepted)"
    using P s by (auto split: option.splits pyval.splits)
  have k: "dict_get mid accepted = Some (PStr pem)" "py_contains ''PUBLIC KEY'' pem"
    using P s a by (auto split: option.splits pyval.splits if_splits)
  have "v = node \<or> (\<exists>rest. v = PList (node # rest))"
    by (auto simp: node_def split: pyval.split list.split)
  moreover have "node = PDict sections
      \<or> (\<exists>kvs d. node = PDict kvs \<and> dict_get ''data'' kvs = Some (PDict d) \<and> dict_get ''return'' d = Some (PDict sections))"
    using s by (auto simp: inner_def split: pyval.splits option.splits)
  ultimately have "answered v sections" unfolding answered_def by blast
  then show ?thesis using a k unfolding accepted_text_def by blast
qed

text \<open>One read of a key: the call to the source pod that the trace records, and the text in its answer.\<close>

definition key_source :: "(string \<times> 'w client) list \<Rightarrow> string \<Rightarrow> string \<Rightarrow> string \<Rightarrow> 'w bus \<Rightarrow> 'w bus \<Rightarrow> bool" where
  "key_source clis source mid pem b b' \<longleftrightarrow> (\<exists>cli result. map_of (rev clis) source = Some cli
     \<and> call_pod source cli (print_call mid) b = (Inr result, b') \<and> accepted_text result mid pem
     \<and> py_contains ''PUBLIC KEY'' pem)"

lemma read_pubkey:
  assumes "read_accepted_pubkey clis source mid b = (r, b')"
  shows "adds copy_call b b'" and "r = Inr (Some pem) \<Longrightarrow> key_source clis source mid pem b b'"
proof -
  have "adds copy_call b b' \<and> (r = Inr (Some pem) \<longrightarrow> key_source clis source mid pem b b')"
  proof (cases "map_of (rev clis) source")
    case None
    then show ?thesis using assms by (auto simp: read_accepted_pubkey_def)
  next
    case (Some cli)
    obtain x b1 where c: "call_pod source cli (print_call mid) b = (x, b1)" by fastforce
    have a: "adds copy_call b b1" by (rule adds_call [OF c]) (auto simp: copy_call_def)
    note R = assms [unfolded read_accepted_pubkey_def Some option.case print_call_def [symmetric] c prod.case]
    show ?thesis
    proof (cases x)
      case (Inl er)
      then show ?thesis using R a by (cases er) auto
    next
      case (Inr v)
      then show ?thesis using R a c Some pubkey_accepted by (auto simp: key_source_def)
    qed
  qed
  then show "adds copy_call b b'" and "r = Inr (Some pem) \<Longrightarrow> key_source clis source mid pem b b'" by auto
qed

lemma key_read_copy: "key_read x \<Longrightarrow> copy_call x"
  by (simp add: copy_call_def)

text \<open>
  A stretch of the trace in which every script that runs in a pod comes after the read that \<open>Q\<close> names:
  the two buses are those before and after the read, and the read is part of the stretch.
\<close>

definition copies ::
  "('w bus \<Rightarrow> 'w bus \<Rightarrow> string \<times> string list \<Rightarrow> bool) \<Rightarrow> 'w bus \<Rightarrow> 'w bus \<Rightarrow> bool" where
  "copies Q b b' \<longleftrightarrow>
     (\<exists>new ex. bus_calls b' = bus_calls b @ new \<and> (\<forall>x \<in> set new. copy_call x) \<and> bus_execs b' = bus_execs b @ ex
        \<and> (\<forall>y \<in> set ex. \<exists>b1 b2. Q b1 b2 y \<and> before b b1 \<and> before b2 b'))"

lemma copies_refl [simp]: "copies Q b b"
  by (simp add: copies_def)

lemma copies_adds: "adds copy_call b b' \<Longrightarrow> copies Q b b'"
  by (auto simp: adds_def copies_def)

lemma copies_mono: "copies Q b b' \<Longrightarrow> (\<And>b1 b2 y. Q b1 b2 y \<Longrightarrow> Q' b1 b2 y) \<Longrightarrow> copies Q' b b'"
  unfolding copies_def by blast

lemma copies_trans [trans]:
  assumes "copies Q a b" "copies Q b c"
  shows "copies Q a c"
proof -
  from assms(1) [unfolded copies_def] obtain n1 e1 where n1: "bus_calls b = bus_calls a @ n1"
    "\<forall>x \<in> set n1. copy_call x" "bus_execs b = bus_execs a @ e1"
    and q1: "\<forall>y \<in> set e1. \<exists>b1 b2. Q b1 b2 y \<and> before a b1 \<and> before b2 b"
    by (elim exE conjE) (rule that)
  from assms(2) [unfolded copies_def] obtain n2 e2 where n2: "bus_calls c = bus_calls b @ n2"
    "\<forall>x \<in> set n2. copy_call x" "bus_execs c = bus_execs b @ e2"
    and q2: "\<forall>y \<in> set e2. \<exists>b1 b2. Q b1 b2 y \<and> before b b1 \<and> before b2 c"
    by (elim exE conjE) (rule that)
  have ab: "before a b" and bc: "before b c" using n1(1) n2(1) by (simp_all add: before_def)
  have "\<forall>y \<in> set (e1 @ e2). \<exists>b1 b2. Q b1 b2 y \<and> before a b1 \<and> before b2 c"
  proof
    fix y
    assume "y \<in> set (e1 @ e2)"
    then consider "y \<in> set e1" | "y \<in> set e2" by auto
    then show "\<exists>b1 b2. Q b1 b2 y \<and> before a b1 \<and> before b2 c"
    proof cases
      case 1
      then obtain b1 b2 where "Q b1 b2 y" "before a b1" "before b2 b"
        using q1 by blast
      then show ?thesis using before_trans [OF _ bc] by blast
    next
      case 2
      then obtain b1 b2 where "Q b1 b2 y" "before b b1" "before b2 c"
        using q2 by blast
      then show ?thesis using before_trans [OF ab] by blast
    qed
  qed
  moreover have "bus_calls c = bus_calls a @ n1 @ n2" "bus_execs c = bus_execs a @ e1 @ e2" using n1 n2 by simp_all
  moreover have "\<forall>x \<in> set (n1 @ n2). copy_call x" using n1(2) n2(2) by auto
  ultimately show ?thesis unfolding copies_def by (intro exI [of _ "n1 @ n2"] exI [of _ "e1 @ e2"]) simp
qed

lemma copies_new:
  assumes "copies Q b b'"
  shows "x \<in> set (drop (length (bus_calls b)) (bus_calls b')) \<Longrightarrow> copy_call x"
    and "y \<in> set (drop (length (bus_execs b)) (bus_execs b')) \<Longrightarrow>
      \<exists>b1 b2. Q b1 b2 y \<and> before b b1 \<and> before b2 b'"
  using assms by (auto simp: copies_def)

text \<open>A read followed by the scripts it allows.\<close>

lemma read_then_copies:
  assumes "adds copy_call b b1" "grows key_read (Q b b1) b1 b'"
  shows "copies Q b b'"
proof -
  obtain n1 n2 ex where n: "bus_calls b1 = bus_calls b @ n1" "\<forall>x \<in> set n1. copy_call x" "bus_execs b1 = bus_execs b"
    "bus_calls b' = bus_calls b1 @ n2" "\<forall>x \<in> set n2. key_read x" "bus_execs b' = bus_execs b1 @ ex" "\<forall>y \<in> set ex. Q b b1 y"
    using assms unfolding adds_def grows_def by metis
  have "\<forall>y \<in> set ex. \<exists>c1 c2. Q c1 c2 y \<and> before b c1 \<and> before c2 b'"
  proof
    fix y
    assume "y \<in> set ex"
    then show "\<exists>c1 c2. Q c1 c2 y \<and> before b c1 \<and> before c2 b'"
      using n(4,7) by (intro exI [of _ b] exI [of _ b1]) (simp add: before_def)
  qed
  then show ?thesis
    unfolding copies_def
    by (intro exI [of _ "n1 @ n2"] exI [of _ ex]) (use n(1-6) key_read_copy in auto)
qed

text \<open>What one planned copy may run: the key read from the first pod that accepts it, on a pod of its plan.\<close>

definition plan_script ::
  "(string \<times> 'w client) list \<Rightarrow> (string \<times> string) list \<Rightarrow> copy_plan \<Rightarrow> 'w bus \<Rightarrow> 'w bus \<Rightarrow> string \<times> string list \<Rightarrow> bool" where
  "plan_script clis names p b1 b2 y \<longleftrightarrow>
     \<not> unsafe_id (cy_mid p)
     \<and> (\<exists>pem. key_source clis (hd (cy_accepted_on p)) (cy_mid p) pem b1 b2
          \<and> script_for names (cy_absent_on p) (cy_mid p) pem y)"

lemma backfill_one_copies:
  assumes "backfill_one digest cl clis names p b = (r, s')"
  shows "copies (plan_script clis names p) b (co_bus s')"
proof (cases "unsafe_id (cy_mid p)")
  case True
  then show ?thesis using assms by (auto simp: backfill_one_def Let_def)
next
  case False
  obtain x b1 where x: "read_accepted_pubkey clis (hd (cy_accepted_on p)) (cy_mid p) b = (x, b1)" by fastforce
  note a = read_pubkey(1) [OF x]
  show ?thesis
  proof (cases "\<exists>pem. x = Inr (Some pem)")
    case nokey: False
    then have "co_bus s' = b1" using assms False
      by (auto simp: backfill_one_def Let_def x split: sum.splits option.splits)
    then show ?thesis using copies_adds [OF a] by simp
  next
    case True
    then obtain pem where pem: "x = Inr (Some pem)" by blast
    let ?s = "\<lparr>co_bus = b1, co_done = [], co_skipped = [], co_errors = []\<rparr>"
    have "copy_pods digest cl clis names (cy_mid p) pem (cy_absent_on p) ?s = (r, s')"
      using assms False by (simp add: backfill_one_def Let_def x pem)
    note c = copy_pods_grows [OF this]
    show ?thesis
      by (rule read_then_copies [OF a grows_mono [OF c [simplified]]])
        (use False read_pubkey(2) [OF x pem] in \<open>auto simp: plan_script_def\<close>)
  qed
qed

lemma copy_all_copies:
  "copy_all digest cl clis names ps rep b = (r, b')
   \<Longrightarrow> copies (\<lambda>b1 b2 y. \<exists>p \<in> set ps. plan_script clis names p b1 b2 y) b b'"
proof (induction ps arbitrary: rep b)
  case (Cons p ps)
  let ?Q = "\<lambda>b1 b2 y. \<exists>p \<in> set (p # ps). plan_script clis names p b1 b2 y"
  obtain x s where x: "backfill_one digest cl clis names p b = (x, s)" by fastforce
  have g: "copies ?Q b (co_bus s)" by (rule copies_mono [OF backfill_one_copies [OF x]]) auto
  show ?case
  proof (cases x)
    case (Inl er)
    then show ?thesis using Cons.prems g by (simp add: x)
  next
    case (Inr u)
    let ?rep = "rep\<lparr>bf_done := bf_done rep @ map (\<lambda>pod. (pod, cy_mid p)) (co_done s),
      bf_skipped := bf_skipped rep @ co_skipped s, bf_errors := bf_errors rep @ co_errors s\<rparr>"
    have "copy_all digest cl clis names ps ?rep (co_bus s) = (r, b')" using Cons.prems Inr by (simp add: x)
    from Cons.IH [OF this] have "copies ?Q (co_bus s) b'" by (rule copies_mono) auto
    with g show ?thesis by (rule copies_trans)
  qed
qed simp

text \<open>
  A script that a copy run executes. The pod is the one the mapping names, or the one of the stateful
  set with the number of the pod; the text is what a pod that accepts the key has answered for it.
\<close>

definition runs_on :: "string option \<Rightarrow> (string \<times> string) list option \<Rightarrow> string \<Rightarrow> string \<Rightarrow> bool" where
  "runs_on sts given pod target \<longleftrightarrow>
     (case given of
        Some m \<Rightarrow> map_of m pod = Some target
      | None \<Rightarrow> (\<exists>set_name i. sts = Some set_name \<and> pod_number pod = Some i \<and> target = set_name @ ''-'' @ i))"

definition agreed_copy ::
  "(string \<times> 'w client) list \<Rightarrow> string option \<Rightarrow> (string \<times> string) list option \<Rightarrow> picture
   \<Rightarrow> 'w bus \<Rightarrow> 'w bus \<Rightarrow> string \<times> string list \<Rightarrow> bool" where
  "agreed_copy clis sts given pic b1 b2 y \<longleftrightarrow>
     (\<exists>mid pod source pem. agreed pic mid pod \<and> \<not> unsafe_id mid \<and> runs_on sts given pod (fst y)
        \<and> filed pic source mid = Some ''accepted'' \<and> key_source clis source mid pem b1 b2
        \<and> snd y = key_script pem mid)"

lemma pod_names_run:
  assumes "k8s_pod_names sts cl ns given = Inr (Some names)" "map_of names pod = Some target"
  shows "runs_on sts given pod target"
proof (cases given)
  case (Some m)
  then show ?thesis using assms by (simp add: k8s_pod_names_def runs_on_def)
next
  case None
  obtain set_name where st: "sts = Some set_name" using assms(1) None by (auto simp: k8s_pod_names_def split: option.splits)
  have names: "\<not> list_ex (\<lambda>n. pod_number n = None) ns"
    "names = map (\<lambda>n. (n, set_name @ ''-'' @ (case pod_number n of None \<Rightarrow> [] | Some i \<Rightarrow> i))) ns"
    using assms(1) None st by (auto simp: k8s_pod_names_def split: sum.splits py_error.splits if_splits)
  then show ?thesis using assms(2) None st
    by (auto simp: runs_on_def list_ex_iff dest!: map_of_SomeD split: option.splits)
qed

lemma planned_source:
  assumes "distinct (map fst pic)" and "p \<in> set (fst (backfill_candidates pic))"
  shows "filed pic (hd (cy_accepted_on p)) (cy_mid p) = Some ''accepted''"
proof -
  obtain mid where "candidate_of pic mid = Copy p"
    using assms(2) by (auto simp: backfill_candidates_def split: candidate.splits)
  then have "cy_accepted_on p = pods_in pic mid (Some ''accepted'')" "cy_accepted_on p \<noteq> []" "cy_mid p = mid"
    by (auto simp: candidate_of_def Let_def split: if_splits option.splits)
  then show ?thesis using pods_in_iff [OF assms(1)] by (metis list.set_sel(1))
qed

lemma backfill_copies:
  assumes "backfill_absent_keys digest sts cl clis given dry_run b = (r, b')"
  shows "copies (\<lambda>b1 b2 y. \<not> dry_run \<and>
    (\<exists>pic un c. fleet_key_states clis ([], []) b = (Inr (pic, un), c) \<and> agreed_copy clis sts given pic b1 b2 y)) b b'"
    (is "copies ?Q b b'")
proof -
  obtain x c where f: "fleet_key_states clis ([], []) b = (x, c)" by fastforce
  have g: "copies ?Q b c" by (rule copies_adds [OF adds_mono [OF fleet_reads [OF f] key_read_copy]])
  show ?thesis
  proof (cases "b' = c")
    case False
    have "\<exists>pic un. x = Inr (pic, un)"
      using assms False by (cases x) (auto simp: backfill_absent_keys_def f)
    then obtain pic un where x: "x = Inr (pic, un)" by blast
    have d: "distinct (map fst pic)" using fleet_distinct [OF f [unfolded x]] by simp
    obtain planned skipped where p: "backfill_candidates pic = (planned, skipped)" by fastforce
    have dry: "\<not> dry_run"
      using assms False by (auto simp: backfill_absent_keys_def f x p Let_def)
    have "\<exists>names rep. k8s_pod_names sts cl (map fst clis) given = Inr (Some names)
        \<and> copy_all digest cl clis names planned rep c = (r, b')"
      using assms False
      by (simp add: backfill_absent_keys_def f x p Let_def split: sum.splits option.splits if_splits) blast+
    then obtain names rep where nm: "k8s_pod_names sts cl (map fst clis) given = Inr (Some names)"
      and ca: "copy_all digest cl clis names planned rep c = (r, b')" by blast
    have "copies ?Q c b'"
    proof (rule copies_mono [OF copy_all_copies [OF ca]])
      fix b1 b2 y
      assume "\<exists>p \<in> set planned. plan_script clis names p b1 b2 y"
      then obtain p pod pem where s: "p \<in> set planned" "\<not> unsafe_id (cy_mid p)" "pod \<in> set (cy_absent_on p)"
        "map_of names pod = Some (fst y)" "key_source clis (hd (cy_accepted_on p)) (cy_mid p) pem b1 b2"
        "snd y = key_script pem (cy_mid p)" by (auto simp: plan_script_def script_for_def)
      have pl: "p \<in> set (fst (backfill_candidates pic))" by (simp add: p s(1))
      show "?Q b1 b2 y"
        unfolding agreed_copy_def
        using dry f x planned_agreed [OF d pl s(3)] s(2) pod_names_run [OF nm s(4)] planned_source [OF d pl] s(5,6) by blast
    qed
    with g show ?thesis by (rule copies_trans)
  qed (use g in simp)
qed

end
