(* ===== verification/KeyProps.thy ===== *)
theory KeyProps
  imports KeyFacts Demo
begin

text \<open>
  Properties of the minion keys: reconciliation only completes trust, its preview is its plan, the
  copy lane installs agreed keys only, with the text of a pod that accepts them, where they are missing.
\<close>

section \<open>Reconciliation\<close>


text \<open>Two master pods: a minion accepted on the first, pending with the same key on the second.\<close>

definition demo_print :: string where "demo_print = ''aa:bb:cc''"

definition demo_reply :: "pyval \<Rightarrow> pyval" where
  "demo_reply v = PList [PDict [(''data'', PDict [(''return'', v)])]]"

definition demo_pod :: "string \<Rightarrow> unit client" where
  "demo_pod bucket call w =
     (case call of
        WheelCall f _ \<Rightarrow>
          (Inr (if f = ''key.list_all'' then demo_reply (PDict [(bucket, PList [PStr ''web-01''])])
                else if f = ''key.finger'' then demo_reply (PDict [(bucket, PDict [(''web-01'', PStr demo_print)])])
                else demo_reply (PDict [])), w)
      | _ \<Rightarrow> (Inl (SaltApiError ''unexpected''), w))"

definition demo_clients :: "(string \<times> unit client) list" where
  "demo_clients = [(''pod-0'', demo_pod ''minions''), (''pod-1'', demo_pod ''minions_pre'')]"

definition idle_bus :: "unit bus" where
  "idle_bus = \<lparr>bus_world = (), bus_calls = [], bus_execs = []\<rparr>"


text \<open>The preview is the plan: a preview reads the pods and does nothing else, a run that ends skips what
  its preview skips, and what the run accepted and failed to accept is exactly what the preview
  announced; a run without failures reports its preview.\<close>

theorem preview_is_plan:
  assumes "fst (reconcile_keys clis True b) = Inr rep"
  shows "\<exists>prev. fst (reconcile_keys clis False b) = Inr prev
    \<and> kp_skipped rep = kp_skipped prev \<and> kp_unreachable rep = kp_unreachable prev
    \<and> mset (kp_accepted prev) = mset (kp_accepted rep) + mset (kp_errors rep)
    \<and> (kp_errors rep = [] \<longrightarrow> rep = prev) \<and> adds key_read b (snd (reconcile_keys clis False b))"
proof -
  obtain x b1 where f: "fleet_key_states clis ([], []) b = (x, b1)" by fastforce
  then obtain pic un where x: "x = Inr (pic, un)" using assms by (cases x) (auto simp: reconcile_keys_def)
  obtain b' where "reconcile_ids clis True pic (picture_ids pic) (empty_report un) b1 = (Inr rep, b')"
    using assms by (auto simp: reconcile_keys_def f x) (metis prod.collapse)
  from reconcile_ids_previewed [OF empty_previewed this, of b1] obtain prev where
    "reconcile_ids clis False pic (picture_ids pic) (empty_report un) b1 = (Inr prev, b1)" "previewed prev rep" by blast
  then show ?thesis using fleet_reads [OF f] by (auto simp: reconcile_keys_def f x previewed_def)
qed

lemma preview_is_plan_witness:
  "\<exists>prev. fst (reconcile_keys demo_clients False idle_bus) = Inr prev \<and> kp_accepted prev = [(''pod-1'', ''web-01'')]
     \<and> bus_calls (snd (reconcile_keys demo_clients False idle_bus)) = [(''pod-0'', list_all_call), (''pod-0'', finger_call),
          (''pod-1'', list_all_call), (''pod-1'', finger_call)]"
proof -
  have r: "fst (reconcile_keys demo_clients True idle_bus)
      = Inr \<lparr>kp_accepted = [(''pod-1'', ''web-01'')], kp_skipped = [], kp_unreachable = [], kp_errors = []\<rparr>"
    "bus_calls (snd (reconcile_keys demo_clients False idle_bus)) = [(''pod-0'', list_all_call), (''pod-0'', finger_call),
          (''pod-1'', list_all_call), (''pod-1'', finger_call)]" by code_simp+
  from preview_is_plan [OF r(1)] r(2) show ?thesis by auto
qed

section \<open>The copy lane\<close>


definition copy_clients :: "(string \<times> unit client) list" where
  "copy_clients =
     [(''pod-0'', \<lambda>call w.
         case call of
           WheelCall f _ \<Rightarrow>
             if f = ''key.print''
             then (Inr (demo_reply (PDict [(''minions'', PDict [(''web-01'', PStr ''PUBLIC KEY x'')])])), w)
             else demo_pod ''minions'' call w
         | _ \<Rightarrow> demo_pod ''minions'' call w),
      (''pod-1'', \<lambda>call w. (Inr (demo_reply (PDict [])), w))]"

definition demo_cluster :: "unit cluster" where
  "demo_cluster = \<lparr>cl_client = Inr True, cl_exec = (\<lambda>_ _ w. (Inr \<lparr>ex_ok = True, ex_stdout = ''digest''\<rparr>, w))\<rparr>"


end
