(* ===== verification/ViewFacts.thy ===== *)
theory ViewFacts
  imports KeyViews
begin

text \<open>
  The contract between the decorators of a view and the rest of its handler. Behind every gate the
  handler runs on the database of the request, with at most the entries of the caller remembered; a
  refusal is a 403 (or the error of a role without a level) that adds audit rows only. The laws are proved once in the locale and
  instantiated for the gates of \<open>authz.py\<close> and \<open>auth.py\<close>, and for one behind another.
\<close>

locale view_gate =
  fixes cu :: user and gate :: "view \<Rightarrow> view"
  assumes runs_or_refuses: "gate k c = k c \<or> gate k c = k (touch cu c)
    \<or> (fst (gate k c) = Abort 403 \<or> (\<exists>er. fst (gate k c) = Fail er)) \<and> same_but_audit (c_db c) (c_db (snd (gate k c)))"
begin

lemma passed: "pass_gate gate c = Inr c' \<Longrightarrow> c_db c' = c_db c \<and> (c' = c \<or> c' = touch cu c)"
  using runs_or_refuses [of "\<lambda>c'. (Page, c')" c] by (auto simp: pass_gate_def split: prod.splits if_splits)

lemma passed_db: "pass_gate gate c = Inr c' \<Longrightarrow> c_db c' = c_db c"
  using passed by blast

lemma refused: "pass_gate gate c = Inl (r, c') \<Longrightarrow> (r = Abort 403 \<or> (\<exists>er. r = Fail er)) \<and> same_but_audit (c_db c) (c_db c')"
  using runs_or_refuses [of "\<lambda>c'. (Page, c')" c] by (auto simp: pass_gate_def split: prod.splits if_splits)

end

lemma touch_twice [simp]: "touch cu (touch cu c) = touch cu c"
  by (simp add: touch_def remember_def grant_entries_def)

lemma view_gate_comp:
  assumes "view_gate cu g" and "view_gate cu h"
  shows "view_gate cu (\<lambda>k. g (h k))"
proof
  fix k c
  note g = view_gate.runs_or_refuses [OF assms(1), of "h k" c]
  note h = view_gate.runs_or_refuses [OF assms(2), of k]
  show "g (h k) c = k c \<or> g (h k) c = k (touch cu c)
    \<or> (fst (g (h k) c) = Abort 403 \<or> (\<exists>er. fst (g (h k) c) = Fail er)) \<and> same_but_audit (c_db c) (c_db (snd (g (h k) c)))"
    using g h [of c] h [of "touch cu c"] by auto
qed

interpretation require_gate: view_gate cu "require e cu perm m p d" for cu e perm m p d
  by unfold_locales (auto simp: require_def)

interpretation roles_gate: view_gate cu "roles_required first e cu roles" for cu first e roles
  by unfold_locales (auto simp: roles_required_def Let_def split: sum.split)

interpretation floor_gate: view_gate cu
  "\<lambda>k. roles_required first e cu roles (require e cu perm m p d k)" for cu first e roles perm m p d
  by (rule view_gate_comp) (rule roles_gate.view_gate_axioms require_gate.view_gate_axioms)+

text \<open>What a passed gate has checked.\<close>

lemma pass_roles:
  assumes "pass_gate (roles_required first e cu roles) c = Inr c'"
  shows "c_db c' = c_db c \<and> (c' = c \<or> c' = touch cu c)"
    and "rbac_mode e (c_db c) \<noteq> ''scoped'' \<Longrightarrow> Min (set (map role_level roles)) \<le> role_level (u_role cu)"
  using assms role_floor_known(1) by (auto simp: pass_gate_def roles_required_def Let_def split: if_splits sum.splits)

lemma pass_require:
  assumes "pass_gate (require e cu perm m p d) c = Inr c'"
  shows "c_db c' = c_db c \<and> (c' = c \<or> c' = touch cu c)"
    and "rbac_mode e (c_db c) = ''scoped'' \<Longrightarrow> authorize e (c_memo c) (c_db c) cu perm m p"
  using assms by (auto simp: pass_gate_def require_def split: if_splits)

lemma authorize_touched:
  "c' = c \<or> c' = touch cu c
   \<Longrightarrow> authorize e (c_memo c') (c_db c) cu p m x = authorize e (c_memo c) (c_db c) cu p m x"
  by (auto simp: authorize_remember)

lemma pass_floor:
  assumes "pass_gate (\<lambda>k. roles_required first e cu roles (require e cu perm m p d k)) c = Inr c'"
  shows "if rbac_mode e (c_db c) = ''scoped'' then authorize e (c_memo c) (c_db c) cu perm m p
    else Min (set (map role_level roles)) \<le> role_level (u_role cu)"
  using assms role_floor_known(1)
  by (auto simp: pass_gate_def roles_required_def require_def Let_def authorize_remember split: if_splits sum.splits)

end
