(* ===== verification/KeyActProps.thy ===== *)
theory KeyActProps
  imports KeyProps ViewFacts
begin

text \<open>
  Properties of the key handlers: what a posted action can reach, and what a scoped viewer is shown.
\<close>

section \<open>Gates in front of a handler\<close>

lemma action_gate_require:
  "action_gate e cu action mid =
     require e cu (action_perm action) (if action = ''delete'' then Some mid else None) None ''no-grant''"
  by (intro ext) (auto simp: action_gate_def action_perm_def require_def)

section \<open>The trace of an action\<close>

lemma fingerprints_adds: "fingerprints pod cli b = (r, b') \<Longrightarrow> adds key_read b b'"
  by (auto simp: fingerprints_def dest: adds_call [where Q = key_read] split: prod.splits sum.splits)

lemma merge_pods_adds: "merge_pods clis s b = (r, b') \<Longrightarrow> adds key_read b b'"
proof (induction clis arbitrary: s b)
  case (Cons pc clis)
  obtain pod cli where pc: "pc = (pod, cli)" by fastforce
  obtain x b1 where c: "call_pod pod cli list_all_call b = (x, b1)" by fastforce
  have a1: "adds key_read b b1" by (rule adds_call [OF c]) simp
  have go: "adds key_read b b'" if "merge_pods clis t b2 = (r, b')" "adds key_read b b2" for t b2
    using Cons.IH [OF that(1)] that(2) adds_trans by blast
  show ?case
  proof (cases "res_bind x reply_return")
    case (Inl er)
    then show ?thesis using Cons.prems a1 go by (auto simp: pc c split: if_splits)
  next
    case (Inr listed)
    obtain y b2 where fp: "fingerprints pod cli b1 = (y, b2)" by fastforce
    have a2: "adds key_read b b2" using fingerprints_adds [OF fp] a1 adds_trans by blast
    show ?thesis
    proof (cases y)
      case (Inl er)
      then show ?thesis using Cons.prems a2 go by (auto simp: pc c Inr fp split: if_splits)
    next
      case yr: (Inr fingers)
      then show ?thesis using Cons.prems a2 go by (auto simp: pc c Inr fp split: sum.splits)
    qed
  qed
qed auto

lemma merged_adds: "merged_key_data clis b = (r, b') \<Longrightarrow> adds key_read b b'"
  by (auto simp: merged_key_data_def dest: merge_pods_adds split: prod.splits sum.splits)

lemma act_pods_adds:
  "act_pods clis action mid s b = (r, b') \<Longrightarrow> adds (\<lambda>x. snd x = action_call action mid) b b'"
proof (induction clis arbitrary: s b)
  case (Cons pc clis)
  obtain pod cli where pc: "pc = (pod, cli)" by fastforce
  obtain x b1 where c: "call_pod pod cli (action_call action mid) b = (x, b1)" by fastforce
  have a1: "adds (\<lambda>x. snd x = action_call action mid) b b1" by (rule adds_call [OF c]) simp
  have go: "adds (\<lambda>x. snd x = action_call action mid) b b'" if "act_pods clis action mid t b1 = (r, b')" for t
    using Cons.IH [OF that] a1 adds_trans by blast
  show ?case
  proof (cases x)
    case (Inl er)
    then show ?thesis using Cons.prems a1 go by (cases er) (auto simp: pc c)
  next
    case (Inr v)
    then show ?thesis using Cons.prems go by (auto simp: pc c)
  qed
qed auto

lemma grows_before: "grows P Q b b' \<Longrightarrow> before b b'"
  by (auto simp: grows_def before_def)

text \<open>
  The copy lane that an accept runs over the whole fleet: the picture is read after the accept went
  out, and the script is that of a key which this picture shows as agreed, whatever its id.
\<close>

definition accept_copy :: "'w outside \<Rightarrow> 'w bus \<Rightarrow> 'w bus \<Rightarrow> string \<times> string list \<Rightarrow> bool" where
  "accept_copy ou b b' y \<longleftrightarrow> (\<exists>b0 pic un c b1 b2. before b b0
     \<and> fleet_key_states (ou_pods ou) ([], []) b0 = (Inr (pic, un), c)
     \<and> before b0 b1 \<and> before b2 b'
     \<and> agreed_copy (ou_pods ou) (ou_sts ou) None pic b1 b2 y)"

lemma accept_copy_earlier: "before a b \<Longrightarrow> accept_copy ou b c y \<Longrightarrow> accept_copy ou a c y"
  unfolding accept_copy_def by (elim exE conjE) (meson before_trans)

definition act_call :: "string \<Rightarrow> string \<Rightarrow> string \<times> salt_call \<Rightarrow> bool" where
  "act_call action mid x \<longleftrightarrow> key_read x \<or> snd x = action_call action mid
     \<or> action = ''accept'' \<and> (\<exists>k. snd x = print_call k)"

definition act_exec :: "'w outside \<Rightarrow> string \<Rightarrow> 'w bus \<Rightarrow> 'w bus \<Rightarrow> string \<times> string list \<Rightarrow> bool" where
  "act_exec ou action b b' y \<longleftrightarrow> action = ''accept'' \<and> accept_copy ou b b' y"

lemma backfill_key_grows:
  assumes "backfill_key (ou_digest ou) (ou_sts ou) (ou_cluster ou) mid (ou_pods ou) None b = (r, b')"
  shows "grows (act_call ''accept'' mid) (act_exec ou ''accept'' b b') b b'"
proof -
  obtain r0 where "backfill_absent_keys (ou_digest ou) (ou_sts ou) (ou_cluster ou) (ou_pods ou) None False b = (r0, b')"
    using assms by (auto simp: backfill_key_def split: prod.splits sum.splits)
  note c = backfill_copies [OF this]
  then obtain new ex where n: "bus_calls b' = bus_calls b @ new" "bus_execs b' = bus_execs b @ ex"
    unfolding copies_def by (elim exE conjE) (rule that)
  have "\<forall>x \<in> set new. act_call ''accept'' mid x" using copies_new(1) [OF c] n(1) by (auto simp: act_call_def copy_call_def)
  moreover have "\<forall>y \<in> set ex. act_exec ou ''accept'' b b' y"
  proof
    fix y
    assume "y \<in> set ex"
    then have "y \<in> set (drop (length (bus_execs b)) (bus_execs b'))" by (simp add: n(2))
    from copies_new(2) [OF c this] obtain b1 b2 pic un c' where "before b b1" "before b2 b'"
      "fleet_key_states (ou_pods ou) ([], []) b = (Inr (pic, un), c')"
      "agreed_copy (ou_pods ou) (ou_sts ou) None pic b1 b2 y" by (elim exE conjE) (rule that)
    then show "act_exec ou ''accept'' b b' y"
      unfolding act_exec_def accept_copy_def using before_refl [of b] by blast
  qed
  ultimately show ?thesis unfolding grows_def using n by blast
qed

lemma st_simps [simp]:
  "st_bus (st_flash m cat s) = st_bus s" "st_bus (st_log cu a p mid s) = st_bus s"
  "st_bus (snd (key_error m s)) = st_bus s"
  by (simp_all add: st_flash_def st_log_def key_error_def)

lemma drop_minion_bus [simp]: "st_bus (snd (drop_minion cu mid s)) = st_bus s"
  by (simp add: drop_minion_def split: option.split)

lemma act_outcome_bus [simp]: "st_bus (act_outcome cu action mid failed unapplied bf suffix s) = st_bus s"
  by (simp add: act_outcome_def Let_def)

lemma act_finish_grows:
  assumes "act_finish ou cu action mid failed unapplied s = (r, s')"
  shows "grows (act_call action mid) (act_exec ou action (st_bus s) (st_bus s')) (st_bus s) (st_bus s')"
proof -
  obtain x b where b: "(if action = ''accept''
      then backfill_key (ou_digest ou) (ou_sts ou) (ou_cluster ou) mid (ou_pods ou) None (st_bus s)
      else (Inr no_backfill, st_bus s)) = (x, b)" by fastforce
  have g: "grows (act_call action mid) (act_exec ou action (st_bus s) b) (st_bus s) b"
    using b backfill_key_grows [of ou mid "st_bus s" x b] by (auto split: if_splits)
  have "st_bus s' = b"
  proof (cases x)
    case (Inl er)
    then show ?thesis using assms unfolding act_finish_def b by auto
  next
    case (Inr bf)
    obtain removed s1 where d: "(if action = ''delete'' then drop_minion cu mid (s\<lparr>st_bus := b, st_keys := None\<rparr>)
        else (False, s\<lparr>st_bus := b, st_keys := None\<rparr>)) = (removed, s1)" by fastforce
    have "st_bus s1 = b" using d drop_minion_bus [of cu mid "s\<lparr>st_bus := b, st_keys := None\<rparr>"]
      by (cases "action = ''delete''") auto
    then show ?thesis using assms unfolding act_finish_def b Inr by (auto simp: d Let_def)
  qed
  then show ?thesis using g by simp
qed

lemma act_known_grows:
  assumes "act_known ou cu action mid s = (r, s')"
  shows "grows (act_call action mid) (act_exec ou action (st_bus s) (st_bus s')) (st_bus s) (st_bus s')"
    (is "grows ?P ?Q _ _")
proof -
  obtain x b where m: "merged_key_data (ou_pods ou) (st_bus s) = (x, b)" by fastforce
  have g1: "grows ?P ?Q (st_bus s) b"
    by (rule grows_mono [OF adds_grows [OF merged_adds [OF m]]]) (auto simp: act_call_def)
  obtain y b2 where p: "act_pods (ou_pods ou) action mid ([], []) b = (y, b2)" by fastforce
  have g2: "grows ?P ?Q (st_bus s) b2"
    by (rule grows_trans [OF g1 adds_grows [OF adds_mono [OF act_pods_adds [OF p]]]]) (simp add: act_call_def)
  have fin: "grows ?P ?Q (st_bus s) (st_bus s')"
    if "act_finish ou cu action mid fails unapplied t = (r, s')" "st_bus t = b2" for fails unapplied t
  proof -
    have "grows ?P (act_exec ou action b2 (st_bus s')) b2 (st_bus s')"
      using act_finish_grows [OF that(1)] by (simp add: that(2))
    then have "grows ?P ?Q b2 (st_bus s')"
      by (rule grows_mono) (auto simp: act_exec_def intro: accept_copy_earlier [OF grows_before [OF g2]])
    with g2 show ?thesis by (rule grows_trans)
  qed
  have fan: "grows ?P ?Q (st_bus s) (st_bus s')"
    if "act_fan_out ou cu action mid t = (r, s')" "st_bus t = b" for t
  proof (cases y)
    case (Inl er)
    then show ?thesis using that g2 by (auto simp: act_fan_out_def p)
  next
    case (Inr fu)
    then show ?thesis using that g2 fin [of "fst fu" "snd fu" "t\<lparr>st_bus := b2\<rparr>"] st_simps(3)
      by (auto simp: act_fan_out_def p key_error_def split: if_splits prod.splits)
  qed
  show ?thesis
  proof (cases x)
    case (Inl er)
    then show ?thesis using assms g1 by (auto simp: act_known_def m)
  next
    case (Inr df)
    obtain data failed where df: "df = (data, failed)" by fastforce
    show ?thesis using assms g1 fan [of "s\<lparr>st_bus := b\<rparr>"]
      by (auto simp: act_known_def m Inr df key_error_def split: if_splits)
  qed
qed

lemma act_body_trace:
  assumes "act_body e ou cu action f s = (r, s')" and "st_bus s' \<noteq> st_bus s"
  defines "mid \<equiv> py_strip (form_get f ''id'')"
  shows "map_of ACTIONS action \<noteq> None \<and> mid \<noteq> [] \<and> list_all (\<lambda>ch. ch \<notin> set ''*?[]'') mid
    \<and> (\<exists>c. pass_gate (action_gate e cu action mid) (st_ctx s) = Inr c)
    \<and> grows (act_call action mid) (act_exec ou action (st_bus s) (st_bus s')) (st_bus s) (st_bus s')"
proof -
  have "map_of ACTIONS action \<noteq> None \<and> mid \<noteq> [] \<and> \<not> list_ex (\<lambda>ch. ch \<in> set ''*?[]'') mid
      \<and> (\<exists>c. pass_gate (action_gate e cu action mid) (st_ctx s) = Inr c
            \<and> act_known ou cu action mid (s\<lparr>st_ctx := c\<rparr>) = (r, s'))"
    using assms(1,2) unfolding act_body_def Let_def mid_def key_error_def
    by (auto simp del: list_ex_iff split: if_splits sum.splits)
  then show ?thesis using act_known_grows by (fastforce simp: list_all_iff list_ex_iff)
qed

text \<open>C22: What a posted key action can reach. The pods hear of it at all only for a known action and an id
  that is non-empty and free of glob characters, from an operator in legacy mode, and in scoped mode
  from a holder of the permission of the action (on that minion, for a deletion). Then the handler
  only reads the pods, sends them the action on exactly the posted id and, for an accept alone, asks
  for keys to copy; only an accept runs anything inside a pod, and what it runs is not confined to
  the posted id: it is the install script of any key that the picture, read after the accept went
  out, shows accepted with one fingerprint, disputed nowhere, and missing on the pod it runs in,
  with the text that an accepting pod answered for it.\<close>

theorem key_action_exact:
  assumes "act first e ou cu action f s = (r, s')"
  defines "mid \<equiv> py_strip (form_get f ''id'')" and "c \<equiv> st_ctx s"
  shows "(st_bus s' \<noteq> st_bus s \<longrightarrow> map_of ACTIONS action \<noteq> None
       \<and> mid \<noteq> [] \<and> list_all (\<lambda>ch. ch \<notin> set ''*?[]'') mid
       \<and> (if rbac_mode e (c_db c) = ''scoped''
          then authorize e (c_memo c) (c_db c) cu (action_perm action) (if action = ''delete'' then Some mid else None) None
          else role_level ''operator'' \<le> role_level (u_role cu)))
    \<and> (\<forall>x \<in> set (drop (length (bus_calls (st_bus s))) (bus_calls (st_bus s'))).
         key_read x \<or> snd x = action_call action mid \<or> action = ''accept'' \<and> (\<exists>k. snd x = print_call k))
    \<and> (\<forall>y \<in> set (drop (length (bus_execs (st_bus s))) (bus_execs (st_bus s'))).
         action = ''accept'' \<and> accept_copy ou (st_bus s) (st_bus s') y)"
proof (cases "st_bus s' = st_bus s")
  case True
  then show ?thesis by simp
next
  case ne: False
  then obtain c1 where c1: "pass_gate (roles_required first e cu [''operator'']) c = Inr c1"
    "act_body e ou cu action f (s\<lparr>st_ctx := c1\<rparr>) = (r, s')"
    using assms(1) unfolding act_def c_def by (auto split: sum.splits)
  note roles = pass_roles [OF c1(1)]
  from act_body_trace [OF c1(2)] ne obtain c2 where t: "map_of ACTIONS action \<noteq> None" "mid \<noteq> []"
    "list_all (\<lambda>ch. ch \<notin> set ''*?[]'') mid" "pass_gate (action_gate e cu action mid) c1 = Inr c2"
    "grows (act_call action mid) (act_exec ou action (st_bus s) (st_bus s')) (st_bus s) (st_bus s')"
    unfolding mid_def by auto
  have "authorize e (c_memo c) (c_db c) cu (action_perm action) (if action = ''delete'' then Some mid else None) None"
    if "rbac_mode e (c_db c) = ''scoped''"
    using pass_require(2) [OF t(4) [unfolded action_gate_require]] that roles(1) authorize_touched [of c1 c cu] by metis
  then show ?thesis
    using grows_new [OF t(5)] t(1-3) roles(2) unfolding act_call_def act_exec_def by simp
qed

definition key_site :: "unit site" where
  "key_site = \<lparr>st_ctx = start demo_store, st_bus = idle_bus, st_keys = None\<rparr>"

definition key_outside :: "unit outside" where
  "key_outside = \<lparr>ou_digest = (\<lambda>_. ''digest''), ou_sts = None, ou_cluster = demo_cluster, ou_pods = demo_clients\<rparr>"

definition any_perm :: "string set \<Rightarrow> string" where "any_perm _ = ''key.accept''"

definition key_form :: form where
  "key_form k = (if k = ''id'' then ['' web-01 ''] else [])"

lemma key_action_exact_witness:
  "last (bus_calls (st_bus (snd (act any_perm demo_env key_outside root ''delete'' key_form key_site))))
     = (''pod-1'', action_call ''delete'' ''web-01'')
   \<and> authorize demo_env fresh demo_store root ''key.delete'' (Some ''web-01'') None"
proof -
  let ?A = "act any_perm demo_env key_outside root ''delete'' key_form key_site"
  have l: "last (bus_calls (st_bus (snd ?A))) = (''pod-1'', action_call ''delete'' ''web-01'')"
    "bus_calls (st_bus (snd ?A)) \<noteq> []" "bus_calls (st_bus key_site) = []" "py_strip (form_get key_form ''id'') = ''web-01''"
    "rbac_mode demo_env demo_store = ''scoped''"
    by code_simp+
  then have "st_bus (snd ?A) \<noteq> st_bus key_site" by auto
  from key_action_exact [OF prod.collapse [symmetric], THEN conjunct1, rule_format, OF this] show ?thesis
    using l by (simp add: key_site_def start_def action_perm_def)
qed

section \<open>The key page\<close>

lemma key_page_rows:
  "set (kg_rows (key_page_of args tab n data)) \<subseteq> set (case map_of data tab of None \<Rightarrow> [] | Some rows \<Rightarrow> rows)
   \<and> kg_tab (key_page_of args tab n data) = tab"
  by (auto simp: key_page_of_def Let_def page_slice_def dest!: in_set_takeD in_set_dropD split: if_splits)

lemma scoped_rows_confined:
  assumes "rbac_mode e (c_db c) = ''scoped''" and "\<not> has_fleet e (c_memo c) (c_db c) cu ''key.read''"
    and "map_of (scoped_rows e cu c data) tab = Some rows" and "r \<in> set rows"
  shows "tab = ''accepted'' \<and> kr_id r \<in> minions_with e (c_memo c) (c_db c) cu ''key.read''"
  using assms by (auto simp: scoped_rows_def dest!: map_of_SomeD split: if_splits)

lemma keys_show_page:
  "\<exists>tab n data1 c1. fst (keys_show e ou cu args data failed s) = key_page_of args tab n (scoped_rows e cu c1 data1)
     \<and> c_db c1 = c_db (st_ctx s) \<and> c_memo c1 = c_memo (st_ctx s)"
  unfolding keys_show_def Let_def fst_conv
  by (rule exI, rule exI, rule exI, rule exI, rule conjI, rule refl) (simp add: st_flash_def)

lemma keys_index_page:
  assumes "keys_index e ou cu args s = ((Page, Some pg), s')"
  shows "\<exists>tab n data c. pg = key_page_of args tab n (scoped_rows e cu c data) \<and> c_db c = c_db (st_ctx s)
    \<and> (c_memo c = c_memo (st_ctx s) \<or> c_memo c = remember (c_memo (st_ctx s)) (c_db (st_ctx s)) cu)"
proof -
  obtain c where c: "pass_gate (read_required e cu ''key.read'') (st_ctx s) = Inr c"
    using assms by (auto simp: keys_index_def split: sum.splits)
  note gate = pass_require(1) [OF c [unfolded read_required_def]]
  obtain data failed s1 where r: "keys_roster ou (s\<lparr>st_ctx := c\<rparr>) = (Inr (data, failed), s1)"
    using assms by (auto simp: keys_index_def c split: sum.splits prod.splits)
  have s1: "st_ctx s1 = c" using r by (auto simp: keys_roster_def split: option.splits prod.splits sum.splits)
  have "pg = fst (keys_show e ou cu args data failed s1)"
    using assms by (simp add: keys_index_def c r split: prod.splits)
  with keys_show_page [of e ou cu args data failed s1] gate show ?thesis unfolding s1 by fastforce
qed

text \<open>A scoped viewer sees accepted keys of its own minions only: every row of the key page of a caller
  without a fleet grant is filed as accepted, and the caller may read the keys of that minion.\<close>

theorem key_page_confined:
  assumes "keys_index e ou cu args s = ((Page, Some pg), s')" and "rbac_mode e (c_db (st_ctx s)) = ''scoped''"
    and "\<not> has_fleet e (c_memo (st_ctx s)) (c_db (st_ctx s)) cu ''key.read''"
  shows "list_all (\<lambda>r. authorize e (c_memo (st_ctx s)) (c_db (st_ctx s)) cu ''key.read'' (Some (kr_id r)) None) (kg_rows pg)
    \<and> (kg_rows pg \<noteq> [] \<longrightarrow> kg_tab pg = ''accepted'')"
proof -
  obtain tab n data c where pg: "pg = key_page_of args tab n (scoped_rows e cu c data)" "c_db c = c_db (st_ctx s)"
    "c_memo c = c_memo (st_ctx s) \<or> c_memo c = remember (c_memo (st_ctx s)) (c_db (st_ctx s)) cu"
    using keys_index_page [OF assms(1)] by blast
  have dec: "has_fleet e (c_memo c) (c_db c) cu ''key.read'' = has_fleet e (c_memo (st_ctx s)) (c_db (st_ctx s)) cu ''key.read''"
    "minions_with e (c_memo c) (c_db c) cu ''key.read'' = minions_with e (c_memo (st_ctx s)) (c_db (st_ctx s)) cu ''key.read''"
    using pg(2,3) decisions_remember(1,2) by metis+
  have rows: "kg_tab pg = ''accepted'' \<and> kr_id r \<in> minions_with e (c_memo (st_ctx s)) (c_db (st_ctx s)) cu ''key.read''"
    if r: "r \<in> set (kg_rows pg)" for r
  proof -
    obtain rows where "map_of (scoped_rows e cu c data) tab = Some rows" "r \<in> set rows"
      using r key_page_rows [of args tab n "scoped_rows e cu c data"] by (cases "map_of (scoped_rows e cu c data) tab") (auto simp: pg(1))
    moreover have "rbac_mode e (c_db c) = ''scoped''" using assms(2) by (simp only: pg(2))
    moreover have "\<not> has_fleet e (c_memo c) (c_db c) cu ''key.read''" using assms(3) by (simp only: dec(1) not_False_eq_True)
    ultimately have "tab = ''accepted'' \<and> kr_id r \<in> minions_with e (c_memo c) (c_db c) cu ''key.read''"
      using scoped_rows_confined by blast
    moreover have "kg_tab pg = tab" using key_page_rows unfolding pg(1) by blast
    ultimately show ?thesis unfolding dec(2) by blast
  qed
  then have "list_all (\<lambda>r. authorize e (c_memo (st_ctx s)) (c_db (st_ctx s)) cu ''key.read'' (Some (kr_id r)) None) (kg_rows pg)"
    using minions_with_authorize by (simp add: list_all_iff)
  moreover have "kg_rows pg \<noteq> [] \<longrightarrow> kg_tab pg = ''accepted''" using rows by (metis list.set_sel(1))
  ultimately show ?thesis by blast
qed

lemma pair_parts: "fst (fst p) = r \<Longrightarrow> snd (fst p) = x \<Longrightarrow> p = ((r, x), snd p)"
  by (cases p) auto

lemma keys_index_shown: "snd (fst (keys_index e ou cu args s)) = Some pg \<Longrightarrow> fst (fst (keys_index e ou cu args s)) = Page"
  by (auto simp: keys_index_def split: sum.splits prod.splits)

definition key_query :: form where
  "key_query k = (if k = ''tab'' then [''accepted''] else [])"

definition demo_row :: "string \<Rightarrow> string \<Rightarrow> key_row" where
  "demo_row mid tab = \<lparr>kr_id = mid, kr_print = None, kr_states = [(''pod-0'', tab)]\<rparr>"

definition cached_site :: "unit site" where
  "cached_site = key_site\<lparr>st_keys := Some
     ([(''pending'', [demo_row ''new-01'' ''pending'']),
       (''accepted'', [demo_row ''db-01'' ''accepted'', demo_row ''web-01'' ''accepted''])], [])\<rparr>"

lemma key_page_confined_witness:
  "(case keys_index demo_env key_outside lead key_query cached_site of
      ((Page, Some pg), _) \<Rightarrow> map kr_id (kg_rows pg) = [''web-01'']
        \<and> list_all (\<lambda>r. authorize demo_env fresh demo_store lead ''key.read'' (Some (kr_id r)) None) (kg_rows pg)
    | _ \<Rightarrow> False)"
proof -
  let ?I = "keys_index demo_env key_outside lead key_query cached_site"
  have i1: "map_option (\<lambda>pg. map kr_id (kg_rows pg)) (snd (fst ?I)) = Some [''web-01'']" by code_simp
  have i3: "\<not> has_fleet demo_env fresh demo_store lead ''key.read''" by code_simp
  obtain pg where pg: "snd (fst ?I) = Some pg" "map kr_id (kg_rows pg) = [''web-01'']"
    using map_option_eq_Some [THEN iffD1, OF i1] by (elim exE conjE) (rule that)
  have I: "?I = ((Page, Some pg), snd ?I)" by (rule pair_parts [OF keys_index_shown [OF pg(1)] pg(1)])
  have st: "c_memo (st_ctx cached_site) = fresh" "c_db (st_ctx cached_site) = demo_store" by (simp_all add: cached_site_def key_site_def start_def)
  have "list_all (\<lambda>r. authorize demo_env fresh demo_store lead ''key.read'' (Some (kr_id r)) None) (kg_rows pg)"
    using key_page_confined [OF I, unfolded st, OF demo_scoped i3] by (rule conjunct1)
  then show ?thesis by (subst I) (simp only: prod.case option.case resp.case pg(2) simp_thms)
qed

end
