(* ===== verification/K8s.thy ===== *)
theory K8s
  imports SaltApi
begin

text \<open>
  The Kubernetes client, \<open>overstate_ui/k8s.py\<close>: its configuration, the transport with its error
  translation, the calls on ConfigMaps, StatefulSets and pods, and the exec stream of
  \<open>exec_command\<close>. The network is an argument over an arbitrary world; every request is kept in a
  trace. Environment variables, files and the clock are arguments too.
\<close>

section \<open>Configuration\<close>

definition SA_DIR :: string where "SA_DIR = ''/var/run/secrets/kubernetes.io/serviceaccount''"
definition RESTART_ANNOTATION :: string where "RESTART_ANNOTATION = ''kubectl.kubernetes.io/restartedAt''"

record k8s_config =
  kc_server :: "string option"
  kc_token :: "string option"
  kc_namespace :: string
  kc_ca_path :: "string option"

definition k8s_available :: "k8s_config \<Rightarrow> bool" where
  "k8s_available cfg = (kc_server cfg \<notin> {None, Some []} \<and> kc_token cfg \<notin> {None, Some []})"

text \<open>\<open>files\<close> gives the text of a readable file, \<open>None\<close> where opening it fails.\<close>

definition read_file :: "(string \<Rightarrow> string option) \<Rightarrow> string \<Rightarrow> string option" where
  "read_file files path =
     (case files path of
        None \<Rightarrow> None
      | Some t \<Rightarrow> if py_strip t = [] then None else Some (py_strip t))"

definition k8s_from_environment ::
  "(string \<Rightarrow> string option) \<Rightarrow> (string \<Rightarrow> string option) \<Rightarrow> k8s_config" where
  "k8s_from_environment environ files =
     \<lparr>kc_server = (case environ ''KUBERNETES_SERVICE_HOST'' of
         None \<Rightarrow> None
       | Some host \<Rightarrow>
           if host = [] then None
           else Some (''https://'' @ host @ '':''
                @ (case environ ''KUBERNETES_SERVICE_PORT'' of None \<Rightarrow> ''443'' | Some p \<Rightarrow> p))),
      kc_token = read_file files (SA_DIR @ ''/token''),
      kc_namespace = py_strip
        (case environ ''K8S_NAMESPACE'' of
           Some (c # cs) \<Rightarrow> c # cs
         | _ \<Rightarrow> (case read_file files (SA_DIR @ ''/namespace'') of None \<Rightarrow> ''default'' | Some n \<Rightarrow> n)),
      kc_ca_path = (if files (SA_DIR @ ''/ca.crt'') = None then None else Some (SA_DIR @ ''/ca.crt''))\<rparr>"

section \<open>The transport\<close>

record k8s_request =
  kq_method :: string
  kq_url :: string
  kq_body :: "pyval option"
  kq_token :: string
  kq_content_type :: "string option"
  kq_ca_path :: "string option"
  kq_timeout :: rat

datatype url_reply = UrlOk nat string | UrlHttpError nat string | UrlOsError string

type_synonym 'w net = "k8s_request \<Rightarrow> 'w \<Rightarrow> url_reply \<times> 'w"

record 'w kube =
  ku_world :: 'w
  ku_sent :: "k8s_request list"

text \<open>\<open>json.loads\<close> with its \<open>ValueError\<close>; the message of the decoder is not used.\<close>

definition load_json :: "string \<Rightarrow> pyval res" where
  "load_json s = (case json_loads s of None \<Rightarrow> Inl (ValueError []) | Some v \<Rightarrow> Inr v)"

definition error_message :: "string \<Rightarrow> string" where
  "error_message detail =
     (case json_loads detail of
        Some (PDict kvs) \<Rightarrow> (case dict_get ''message'' kvs of None \<Rightarrow> detail | Some m \<Rightarrow> py_str m)
      | _ \<Rightarrow> detail)"

definition transport_reply :: "url_reply \<Rightarrow> (nat \<times> pyval) res" where
  "transport_reply reply =
     (case reply of
        UrlOk st payload \<Rightarrow> res_bind (load_json (if payload = [] then ''{}'' else payload)) (\<lambda>v. Inr (st, v))
      | UrlHttpError code body \<Rightarrow>
          (let message = error_message (take 500 body)
           in if code = 409 then Inl (K8sConflict (''object changed since read: '' @ message))
              else Inl (K8sError (''kubernetes API HTTP '' @ nat_str code @ '': '' @ message)))
      | UrlOsError m \<Rightarrow> Inl (K8sError (''kubernetes API unreachable: '' @ m)))"

definition k8s_content_type :: "string \<Rightarrow> pyval option \<Rightarrow> string option" where
  "k8s_content_type meth body =
     (case body of
        None \<Rightarrow> None
      | Some _ \<Rightarrow> Some (if meth = ''PATCH'' then ''application/merge-patch+json'' else ''application/json''))"

definition default_transport :: "'w net \<Rightarrow> k8s_request \<Rightarrow> 'w kube \<Rightarrow> (nat \<times> pyval) res \<times> 'w kube" where
  "default_transport net rq s =
     (case net rq (ku_world s) of
        (reply, w) \<Rightarrow> (transport_reply reply, \<lparr>ku_world = w, ku_sent = ku_sent s @ [rq]\<rparr>))"

definition outside_cluster :: py_error where
  "outside_cluster = K8sUnavailable ''not running in a cluster; use kubectl from a workstation''"

definition k8s_call ::
  "'w net \<Rightarrow> k8s_config \<Rightarrow> string \<Rightarrow> string \<Rightarrow> pyval option \<Rightarrow> 'w kube \<Rightarrow> pyval res \<times> 'w kube" where
  "k8s_call net cfg meth path body s =
     (case (k8s_available cfg, kc_server cfg, kc_token cfg) of
        (True, Some server, Some token) \<Rightarrow>
          (case default_transport net
                  \<lparr>kq_method = meth, kq_url = server @ path, kq_body = body, kq_token = token,
                   kq_content_type = k8s_content_type meth body, kq_ca_path = kc_ca_path cfg, kq_timeout = 10\<rparr> s of
             (Inl er, s') \<Rightarrow> (Inl er, s')
           | (Inr (st, payload), s') \<Rightarrow>
               if 400 \<le> st then (Inl (K8sError (''kubernetes API HTTP '' @ nat_str st)), s') else (Inr payload, s'))
      | _ \<Rightarrow> (Inl outside_cluster, s))"

text \<open>\<open>obj.get(k) or {}\<close>, and the same with an empty list.\<close>

definition get_or_dict :: "string \<Rightarrow> pyval \<Rightarrow> pyval res" where
  "get_or_dict k v = res_bind (py_get k PNone v) (\<lambda>x. Inr (py_or x (PDict [])))"

definition get_or_list :: "string \<Rightarrow> pyval \<Rightarrow> pyval list res" where
  "get_or_list k v = res_bind (py_get k PNone v) (\<lambda>x. py_iter (py_or x (PList [])))"

section \<open>ConfigMaps\<close>

record configmap =
  cm_data :: pyval
  cm_revision :: pyval

definition configmap_path :: "k8s_config \<Rightarrow> string \<Rightarrow> string" where
  "configmap_path cfg cm = ''/api/v1/namespaces/'' @ kc_namespace cfg @ ''/configmaps/'' @ cm"

definition revision_of :: "pyval \<Rightarrow> pyval res" where
  "revision_of obj = res_bind (get_or_dict ''metadata'' obj) (py_get ''resourceVersion'' (PStr []))"

definition get_configmap :: "'w net \<Rightarrow> k8s_config \<Rightarrow> string \<Rightarrow> 'w kube \<Rightarrow> configmap res \<times> 'w kube" where
  "get_configmap net cfg cm s =
     (case k8s_call net cfg ''GET'' (configmap_path cfg cm) None s of
        (r, s') \<Rightarrow>
          (res_bind r (\<lambda>obj. res_bind (get_or_dict ''data'' obj) (\<lambda>d. res_bind (revision_of obj) (\<lambda>v.
             Inr \<lparr>cm_data = d, cm_revision = v\<rparr>))), s'))"

definition replace_body :: "k8s_config \<Rightarrow> string \<Rightarrow> pyval \<Rightarrow> pyval \<Rightarrow> pyval" where
  "replace_body cfg cm d base =
     PDict [(''apiVersion'', PStr ''v1''), (''kind'', PStr ''ConfigMap''),
       (''metadata'', PDict [(''name'', PStr cm), (''namespace'', PStr (kc_namespace cfg)), (''resourceVersion'', base)]),
       (''data'', d)]"

definition replace_configmap ::
  "'w net \<Rightarrow> k8s_config \<Rightarrow> string \<Rightarrow> pyval \<Rightarrow> pyval \<Rightarrow> 'w kube \<Rightarrow> pyval res \<times> 'w kube" where
  "replace_configmap net cfg cm d base s =
     (case k8s_call net cfg ''PUT'' (configmap_path cfg cm) (Some (replace_body cfg cm d base)) s of
        (r, s') \<Rightarrow> (res_bind r revision_of, s'))"

section \<open>StatefulSets\<close>

record rollout =
  ro_observed :: pyval
  ro_generation :: pyval
  ro_replicas :: pyval
  ro_ready :: pyval
  ro_updated :: pyval

definition statefulset_path :: "k8s_config \<Rightarrow> string \<Rightarrow> string" where
  "statefulset_path cfg sts = ''/apis/apps/v1/namespaces/'' @ kc_namespace cfg @ ''/statefulsets/'' @ sts"

definition restart_patch :: "string \<Rightarrow> pyval" where
  "restart_patch stamped =
     PDict [(''spec'', PDict [(''template'', PDict [(''metadata'',
       PDict [(''annotations'', PDict [(RESTART_ANNOTATION, PStr stamped)])])])])]"

definition restart_statefulset ::
  "'w net \<Rightarrow> k8s_config \<Rightarrow> string \<Rightarrow> string \<Rightarrow> 'w kube \<Rightarrow> unit res \<times> 'w kube" where
  "restart_statefulset net cfg stamped sts s =
     (case k8s_call net cfg ''PATCH'' (statefulset_path cfg sts) (Some (restart_patch stamped)) s of
        (r, s') \<Rightarrow> (res_bind r (\<lambda>_. Inr ()), s'))"

definition rollout_of :: "pyval \<Rightarrow> rollout res" where
  "rollout_of obj =
     res_bind (get_or_dict ''metadata'' obj) (\<lambda>meta. res_bind (get_or_dict ''status'' obj) (\<lambda>st.
     res_bind (get_or_dict ''spec'' obj) (\<lambda>spec.
     res_bind (py_get ''observedGeneration'' PNone st) (\<lambda>og. res_bind (py_get ''generation'' PNone meta) (\<lambda>g.
     res_bind (py_get ''replicas'' PNone spec) (\<lambda>n. res_bind (py_get ''readyReplicas'' (PInt 0) st) (\<lambda>r.
     res_bind (py_get ''updatedReplicas'' (PInt 0) st) (\<lambda>u.
       Inr \<lparr>ro_observed = og, ro_generation = g, ro_replicas = n, ro_ready = r, ro_updated = u\<rparr>))))))))"

definition statefulset_rollout :: "'w net \<Rightarrow> k8s_config \<Rightarrow> string \<Rightarrow> 'w kube \<Rightarrow> rollout res \<times> 'w kube" where
  "statefulset_rollout net cfg sts s =
     (case k8s_call net cfg ''GET'' (statefulset_path cfg sts) None s of
        (r, s') \<Rightarrow> (res_bind r rollout_of, s'))"

section \<open>Pods\<close>

record pod_status =
  po_name :: pyval
  po_phase :: pyval
  po_ready :: bool
  po_images :: "string list"
  po_restarts :: int

definition pods_path :: "k8s_config \<Rightarrow> string" where
  "pods_path cfg = ''/api/v1/namespaces/'' @ kc_namespace cfg @ ''/pods''"

definition image_name :: "pyval \<Rightarrow> string res" where
  "image_name c = res_bind (py_get ''image'' (PStr []) c) (\<lambda>v. case v of PStr s \<Rightarrow> Inr s | _ \<Rightarrow> Inl TypeErr)"

definition restart_count :: "pyval \<Rightarrow> int res" where
  "restart_count c =
     res_bind (py_get ''restartCount'' (PInt 0) c)
       (\<lambda>v. case v of PInt i \<Rightarrow> Inr i | PBool b \<Rightarrow> Inr (if b then 1 else 0) | _ \<Rightarrow> Inl TypeErr)"

text \<open>The Ready conditions of a pod: those of that type, with whether their status is true.\<close>

definition ready_conditions :: "pyval \<Rightarrow> bool list res" where
  "ready_conditions st =
     res_bind (get_or_list ''conditions'' st) (\<lambda>cs.
     res_bind (res_map (\<lambda>c. res_bind (py_get ''type'' PNone c) (\<lambda>t.
                 if t = PStr ''Ready'' then res_bind (py_get ''status'' PNone c) (\<lambda>v. Inr [v = PStr ''True''])
                 else Inr [])) cs)
       (\<lambda>oks. Inr (concat oks)))"

definition pod_row :: "pyval \<Rightarrow> pod_status res" where
  "pod_row pod =
     res_bind (get_or_dict ''metadata'' pod) (\<lambda>meta. res_bind (get_or_dict ''status'' pod) (\<lambda>st.
     res_bind (get_or_list ''containerStatuses'' st) (\<lambda>cs.
     res_bind (res_map image_name cs) (\<lambda>images.
     res_bind (ready_conditions st) (\<lambda>conds.
     res_bind (py_get ''name'' (PStr []) meta) (\<lambda>nm. res_bind (py_get ''phase'' (PStr []) st) (\<lambda>phase.
     res_bind (res_map (py_get ''ready'' PNone) cs) (\<lambda>oks.
     res_bind (res_map restart_count cs) (\<lambda>counts.
       Inr \<lparr>po_name = nm, po_phase = phase,
            po_ready = (cs \<noteq> [] \<and> list_all py_truth oks \<and> (conds = [] \<or> list_all id conds)),
            po_images = sort (remdups (filter (\<lambda>i. i \<noteq> []) images)), po_restarts = sum_list counts\<rparr>)))))))))"

definition list_pods :: "'w net \<Rightarrow> k8s_config \<Rightarrow> string \<Rightarrow> 'w kube \<Rightarrow> pod_status list res \<times> 'w kube" where
  "list_pods net cfg selector s =
     (case k8s_call net cfg ''GET'' (pods_path cfg @ ''?labelSelector='' @ selector) None s of
        (r, s') \<Rightarrow> (res_bind (res_bind r (get_or_list ''items'')) (res_map pod_row), s'))"

definition pods_ready :: "'w net \<Rightarrow> k8s_config \<Rightarrow> string \<Rightarrow> 'w kube \<Rightarrow> (nat \<times> nat) res \<times> 'w kube" where
  "pods_ready net cfg selector s =
     (case k8s_call net cfg ''GET'' (pods_path cfg @ ''?labelSelector='' @ selector) None s of
        (r, s') \<Rightarrow>
          (res_bind (res_bind r (get_or_list ''items'')) (\<lambda>items.
             res_bind (res_map (\<lambda>pod. res_bind (get_or_dict ''status'' pod) ready_conditions) items)
               (\<lambda>oks. Inr (length (filter (list_all id) oks), length items))), s'))"

text \<open>\<open>setdefault\<close> on the manifest, and the namespace of the client over whatever it named.\<close>

definition set_default :: "string \<Rightarrow> pyval \<Rightarrow> (string \<times> pyval) list \<Rightarrow> (string \<times> pyval) list" where
  "set_default k d kvs = (case dict_get k kvs of None \<Rightarrow> kvs @ [(k, d)] | Some _ \<Rightarrow> kvs)"

definition pod_manifest :: "k8s_config \<Rightarrow> (string \<times> pyval) list \<Rightarrow> pyval res" where
  "pod_manifest cfg m =
     (let m1 = set_default ''metadata'' (PDict []) (set_default ''kind'' (PStr ''Pod'') (set_default ''apiVersion'' (PStr ''v1'') m))
      in case dict_get ''metadata'' m1 of
           Some (PDict meta) \<Rightarrow>
             Inr (PDict (assoc_set ''metadata'' (PDict (assoc_set ''namespace'' (PStr (kc_namespace cfg)) meta)) m1))
         | _ \<Rightarrow> Inl TypeErr)"

definition create_pod ::
  "'w net \<Rightarrow> k8s_config \<Rightarrow> (string \<times> pyval) list \<Rightarrow> 'w kube \<Rightarrow> pyval res \<times> 'w kube" where
  "create_pod net cfg manifest s =
     (case pod_manifest cfg manifest of
        Inl er \<Rightarrow> (Inl er, s)
      | Inr body \<Rightarrow> k8s_call net cfg ''POST'' (pods_path cfg) (Some body) s)"

definition k8s_text :: "py_error \<Rightarrow> string option" where
  "k8s_text er = (case er of K8sError m \<Rightarrow> Some m | K8sConflict m \<Rightarrow> Some m | K8sUnavailable m \<Rightarrow> Some m | _ \<Rightarrow> None)"

definition absent_as_none :: "pyval res \<Rightarrow> pyval option res" where
  "absent_as_none r =
     (case r of
        Inr v \<Rightarrow> Inr (Some v)
      | Inl er \<Rightarrow>
          (case k8s_text er of
             None \<Rightarrow> Inl er
           | Some m \<Rightarrow> if py_contains ''404'' m \<or> py_contains ''not found'' (py_lower m) then Inr None else Inl er))"

definition get_pod :: "'w net \<Rightarrow> k8s_config \<Rightarrow> string \<Rightarrow> 'w kube \<Rightarrow> pyval option res \<times> 'w kube" where
  "get_pod net cfg nm s =
     (case k8s_call net cfg ''GET'' (pods_path cfg @ ''/'' @ nm) None s of (r, s') \<Rightarrow> (absent_as_none r, s'))"

definition delete_pod :: "'w net \<Rightarrow> k8s_config \<Rightarrow> string \<Rightarrow> int \<Rightarrow> 'w kube \<Rightarrow> pyval option res \<times> 'w kube" where
  "delete_pod net cfg nm grace s =
     (case k8s_call net cfg ''DELETE'' (pods_path cfg @ ''/'' @ nm @ ''?gracePeriodSeconds='' @ py_str_int grace) None s of
        (r, s') \<Rightarrow> (absent_as_none r, s'))"

text \<open>
  The sweep of finished salt-cli pods. \<open>age\<close> is the age in seconds of a creation time, \<open>None\<close> where it
  does not parse. A pod that cannot be read ends the sweep, one that cannot be deleted is passed over.
\<close>

definition pod_expired :: "(string \<Rightarrow> rat option) \<Rightarrow> int \<Rightarrow> pyval \<Rightarrow> bool" where
  "pod_expired age max_age v =
     (case v of
        PStr t \<Rightarrow> t \<noteq> [] \<and> (case age t of None \<Rightarrow> False | Some a \<Rightarrow> of_int max_age < a)
      | _ \<Rightarrow> False)"

definition sweepable :: "(string \<Rightarrow> rat option) \<Rightarrow> int \<Rightarrow> pyval \<Rightarrow> (pyval \<times> bool) res" where
  "sweepable age max_age item =
     res_bind (get_or_dict ''metadata'' item) (\<lambda>meta. res_bind (py_get ''name'' (PStr []) meta) (\<lambda>nm.
     res_bind (get_or_dict ''status'' item) (\<lambda>st. res_bind (py_get ''phase'' (PStr []) st) (\<lambda>phase.
     res_bind (py_get ''reason'' (PStr []) st) (\<lambda>reason. res_bind (py_get ''creationTimestamp'' (PStr []) meta) (\<lambda>created.
       Inr (nm, phase \<in> {PStr ''Succeeded'', PStr ''Failed''} \<or> pod_expired age max_age created
                \<or> reason = PStr ''DeadlineExceeded'')))))))"

fun sweep_pods ::
  "'w net \<Rightarrow> k8s_config \<Rightarrow> (string \<Rightarrow> rat option) \<Rightarrow> int \<Rightarrow> pyval list \<Rightarrow> 'w kube \<Rightarrow> pyval list \<times> 'w kube" where
  "sweep_pods net cfg age max_age [] s = ([], s)"
| "sweep_pods net cfg age max_age (item # items) s =
     (case sweepable age max_age item of
        Inl _ \<Rightarrow> ([], s)
      | Inr (nm, False) \<Rightarrow> sweep_pods net cfg age max_age items s
      | Inr (nm, True) \<Rightarrow>
          (case delete_pod net cfg (py_str nm) 0 s of
             (Inl _, s1) \<Rightarrow> sweep_pods net cfg age max_age items s1
           | (Inr _, s1) \<Rightarrow> (case sweep_pods net cfg age max_age items s1 of (ns, s2) \<Rightarrow> (nm # ns, s2))))"

definition cleanup_salt_cli_pods ::
  "'w net \<Rightarrow> k8s_config \<Rightarrow> (string \<Rightarrow> rat option) \<Rightarrow> int \<Rightarrow> 'w kube \<Rightarrow> pyval list \<times> 'w kube" where
  "cleanup_salt_cli_pods net cfg age max_age s =
     (case k8s_call net cfg ''GET'' (pods_path cfg @ ''?labelSelector=app.kubernetes.io/name=salt-cli'') None s of
        (r, s') \<Rightarrow>
          (case res_bind r (get_or_list ''items'') of
             Inl _ \<Rightarrow> ([], s')
           | Inr items \<Rightarrow> sweep_pods net cfg age max_age items s'))"

section \<open>Exec over a websocket\<close>

text \<open>The exit code on the status channel; a non-dictionary reply raises.\<close>

definition cause_code :: "pyval \<Rightarrow> int" where
  "cause_code v =
     (case v of
        PInt i \<Rightarrow> i
      | PBool b \<Rightarrow> if b then 1 else 0
      | PStr s \<Rightarrow> (case py_int s of None \<Rightarrow> 1 | Some i \<Rightarrow> i)
      | PFloat q _ \<Rightarrow> if q < 0 then - \<lfloor>- q\<rfloor> else \<lfloor>q\<rfloor>
      | _ \<Rightarrow> 1)"

fun cause_exit :: "pyval list \<Rightarrow> int res" where
  "cause_exit [] = Inr 1"
| "cause_exit (c # cs) =
     res_bind (py_get ''reason'' PNone c) (\<lambda>reason.
       if reason = PStr ''ExitCode''
       then res_bind (py_get ''message'' (PStr ''1'') c) (\<lambda>m. Inr (cause_code m))
       else cause_exit cs)"

definition exec_exit_code :: "string \<Rightarrow> int res" where
  "exec_exit_code st =
     (if st = [] then Inr 0
      else
        (case json_loads st of
           None \<Rightarrow> Inr 1
         | Some payload \<Rightarrow>
             res_bind (py_get ''status'' PNone payload) (\<lambda>v.
               if v = PStr ''Success'' then Inr 0
               else
                 res_bind (get_or_dict ''details'' payload) (\<lambda>d.
                 res_bind (get_or_list ''causes'' d) cause_exit))))"

record exec_result =
  er_ok :: bool
  er_code :: int
  er_stdout :: string
  er_stderr :: string

text \<open>
  The frames received until the stream ends, times out or yields an empty frame. A frame is its
  bytes, as characters; \<open>decode\<close> is \<open>bytes.decode('utf-8', 'replace')\<close>.
\<close>

fun exec_frames :: "string list \<Rightarrow> string \<times> string \<times> string option \<Rightarrow> string \<times> string \<times> string option" where
  "exec_frames [] acc = acc"
| "exec_frames ([] # frames) acc = acc"
| "exec_frames ((ch # payload) # frames) (out, err, st) =
     (if ch = CHR 0x01 then exec_frames frames (out @ payload, err, st)
      else if ch = CHR 0x02 then exec_frames frames (out, err @ payload, st)
      else if ch = CHR 0x03 then exec_frames frames (out, err, Some payload)
      else exec_frames frames (out, err, st))"

definition exec_outcome :: "(string \<Rightarrow> string) \<Rightarrow> string list \<Rightarrow> exec_result res" where
  "exec_outcome decode frames =
     (case exec_frames frames ([], [], None) of
        (out, err, st) \<Rightarrow>
          res_bind (exec_exit_code (case st of None \<Rightarrow> [] | Some p \<Rightarrow> decode p)) (\<lambda>code.
            Inr \<lparr>er_ok = (code = 0), er_code = code, er_stdout = decode out, er_stderr = decode err\<rparr>))"

text \<open>\<open>urllib.parse.urlencode\<close> of the parameters: \<open>quote_plus\<close> over the UTF-8 bytes.\<close>

definition utf8_bytes :: "char \<Rightarrow> nat list" where
  "utf8_bytes c = (let n = of_char c :: nat in if n < 128 then [n] else [192 + n div 64, 128 + n mod 64])"

definition hex_upper :: "nat \<Rightarrow> char" where
  "hex_upper n = (if n < 10 then char_of (48 + n) else char_of (55 + n))"

definition quote_plus :: "string \<Rightarrow> string" where
  "quote_plus s =
     concat (map (\<lambda>c. if c = CHR '' '' then ''+''
         else if ascii_digit c \<or> c \<in> set ''ABCDEFGHIJKLMNOPQRSTUVWXYZabcdefghijklmnopqrstuvwxyz_.-~'' then [c]
         else concat (map (\<lambda>b. [CHR ''%'', hex_upper (b div 16), hex_upper (b mod 16)]) (utf8_bytes c))) s)"

definition urlencode :: "(string \<times> string) list \<Rightarrow> string" where
  "urlencode kvs = py_join ''&'' (map (\<lambda>(k, v). quote_plus k @ ''='' @ quote_plus v) kvs)"

fun replace_first :: "string \<Rightarrow> string \<Rightarrow> string \<Rightarrow> string" where
  "replace_first old new [] = (if old = [] then new else [])"
| "replace_first old new (c # cs) =
     (if starts_with old (c # cs) then new @ drop (length old) (c # cs) else c # replace_first old new cs)"

definition exec_url :: "k8s_config \<Rightarrow> string \<Rightarrow> string list \<Rightarrow> string option \<Rightarrow> string" where
  "exec_url cfg pod command container =
     replace_first ''http://'' ''ws://''
       (replace_first ''https://'' ''wss://'' (case kc_server cfg of None \<Rightarrow> [] | Some sv \<Rightarrow> sv))
     @ ''/api/v1/namespaces/'' @ kc_namespace cfg @ ''/pods/'' @ pod @ ''/exec?''
     @ urlencode (map (\<lambda>a. (''command'', a)) command
         @ [(''stdout'', ''1''), (''stderr'', ''1''), (''stdin'', ''0''), (''tty'', ''0'')]
         @ (case container of None \<Rightarrow> [] | Some k \<Rightarrow> if k = [] then [] else [(''container'', k)]))"

text \<open>\<open>opens\<close> opens the stream of an address and gives the frames it then yields, \<open>None\<close> when it fails.\<close>

definition exec_command ::
  "(string \<Rightarrow> 'w \<Rightarrow> string list option \<times> 'w) \<Rightarrow> (string \<Rightarrow> string) \<Rightarrow> k8s_config \<Rightarrow> string \<Rightarrow> string list
   \<Rightarrow> string option \<Rightarrow> 'w \<Rightarrow> exec_result res \<times> 'w" where
  "exec_command opens decode cfg pod command container w =
     (if \<not> k8s_available cfg then (Inl outside_cluster, w)
      else
        (case opens (exec_url cfg pod command container) w of
           (None, w') \<Rightarrow> (Inl (K8sError ''could not open the exec stream''), w')
         | (Some frames, w') \<Rightarrow> (exec_outcome decode frames, w')))"

end
