(* ===== verification/ExecStream.thy ===== *)
theory ExecStream
  imports K8s "HOL-Library.Word"
begin

unbundle bit_operations_syntax

text \<open>
  The hand-written websocket reader of \<open>K8sClient.exec_pod\<close> in \<open>overstate_ui/k8s.py\<close>: the buffer that
  is filled from the socket, the frame header with its 7, 16 and 64 bit lengths, the mask, and the
  channels of the exec protocol. Bytes are \<open>8 word\<close>s. The socket is the list of the chunks its
  \<open>recv\<close> returns, and what happens after them: the end of the stream, or an exception.
\<close>

type_synonym byte = "8 word"

record socket =
  sk_chunks :: "byte list list"
  sk_fault :: "py_error option"

text \<open>One \<open>recv\<close>: an empty chunk is the end of the stream.\<close>

definition recv :: "socket \<Rightarrow> byte list res \<times> socket" where
  "recv sk =
     (case sk_chunks sk of
        c # cs \<Rightarrow> (Inr c, sk\<lparr>sk_chunks := cs\<rparr>)
      | [] \<Rightarrow> (case sk_fault sk of None \<Rightarrow> (Inr [], sk) | Some er \<Rightarrow> (Inl er, sk)))"

text \<open>\<open>while len(buf) < n\<close>: the buffer when it is long enough, or shorter when the stream ended.\<close>

function fill :: "nat \<Rightarrow> byte list \<Rightarrow> socket \<Rightarrow> byte list res \<times> socket" where
  "fill n buf sk =
     (if n \<le> length buf then (Inr buf, sk)
      else
        (case recv sk of
           (Inl er, sk') \<Rightarrow> (Inl er, sk')
         | (Inr c, sk') \<Rightarrow> if c = [] then (Inr buf, sk') else fill n (buf @ c) sk'))"
  by pat_completeness auto
termination
  by (relation "measure (\<lambda>(n, buf, sk). length (sk_chunks sk))")
    (auto simp: recv_def split: list.splits option.splits)

declare fill.simps [simp del]

definition int_from_bytes :: "byte list \<Rightarrow> nat" where
  "int_from_bytes bs = fold (\<lambda>b n. n * 256 + unat b) bs 0"

record frame =
  fr_opcode :: byte
  fr_payload :: "byte list"

text \<open>The three ways a read goes on: an exception, the end (\<open>break\<close>), or a value with the rest.\<close>

datatype 'a step = Raise py_error | Halt | More 'a

definition need :: "nat \<Rightarrow> byte list \<Rightarrow> socket \<Rightarrow> (byte list \<times> socket) step" where
  "need n buf sk =
     (case fill n buf sk of
        (Inl er, _) \<Rightarrow> Raise er
      | (Inr b, sk') \<Rightarrow> if length b < n then Halt else More (b, sk'))"

fun step_bind :: "'a step \<Rightarrow> ('a \<Rightarrow> 'b step) \<Rightarrow> 'b step" where
  "step_bind (Raise er) f = Raise er"
| "step_bind Halt f = Halt"
| "step_bind (More x) f = f x"

text \<open>The extended length, with the index after it.\<close>

definition read_length :: "nat \<Rightarrow> byte list \<Rightarrow> socket \<Rightarrow> (nat \<times> nat \<times> byte list \<times> socket) step" where
  "read_length len buf sk =
     (if len = 126 then
        step_bind (need 4 buf sk) (\<lambda>(b, sk'). More (int_from_bytes (take 2 (drop 2 b)), 4, b, sk'))
      else if len = 127 then
        step_bind (need 10 buf sk) (\<lambda>(b, sk'). More (int_from_bytes (take 8 (drop 2 b)), 10, b, sk'))
      else More (len, 2, buf, sk))"

definition read_mask ::
  "bool \<Rightarrow> nat \<Rightarrow> byte list \<Rightarrow> socket \<Rightarrow> (byte list option \<times> nat \<times> byte list \<times> socket) step" where
  "read_mask has_mask idx buf sk =
     (if has_mask then
        step_bind (need (idx + 4) buf sk) (\<lambda>(b, sk'). More (Some (take 4 (drop idx b)), idx + 4, b, sk'))
      else More (None, idx, buf, sk))"

definition unmask :: "byte list option \<Rightarrow> byte list \<Rightarrow> byte list" where
  "unmask key payload =
     (case key of
        None \<Rightarrow> payload
      | Some m \<Rightarrow> map (\<lambda>(i, b). b XOR (m ! (i mod 4))) (List.enumerate 0 payload))"

definition read_frame :: "byte list \<Rightarrow> socket \<Rightarrow> (frame \<times> byte list \<times> socket) step" where
  "read_frame buf sk =
     step_bind (need 2 buf sk) (\<lambda>(b0, sk0).
       (let b1 = b0 ! 0; b2 = b0 ! 1; opcode = b1 AND 0x0F; has_mask = (b2 AND 0x80 \<noteq> 0);
            len7 = unat (b2 AND 0x7F)
        in step_bind (read_length len7 b0 sk0) (\<lambda>(len, idx, ba, ska).
           step_bind (read_mask has_mask idx ba ska) (\<lambda>(key, idx', bb, skb).
           step_bind (need (idx' + len) bb skb) (\<lambda>(b, sk').
             More (\<lparr>fr_opcode = opcode, fr_payload = unmask key (take len (drop idx' b))\<rparr>,
                   drop (idx' + len) b, sk'))))))"

text \<open>The channels: 1 output, 2 errors, 3 status; an empty payload and other opcodes are skipped.\<close>

record channels =
  ch_out :: "byte list"
  ch_err :: "byte list"
  ch_status :: "byte list"

definition no_output :: channels where "no_output = \<lparr>ch_out = [], ch_err = [], ch_status = []\<rparr>"

definition take_frame :: "frame \<Rightarrow> channels \<Rightarrow> channels" where
  "take_frame f c =
     (if fr_opcode f \<in> {1, 2} \<and> fr_payload f \<noteq> [] then
        (let ch = hd (fr_payload f); data = tl (fr_payload f)
         in if ch = 1 then c\<lparr>ch_out := ch_out c @ data\<rparr>
            else if ch = 2 then c\<lparr>ch_err := ch_err c @ data\<rparr>
            else if ch = 3 then c\<lparr>ch_status := ch_status c @ data\<rparr>
            else c)
      else c)"

definition pending_bytes :: "byte list \<Rightarrow> socket \<Rightarrow> nat" where
  "pending_bytes buf sk = length buf + length (concat (sk_chunks sk))"

lemma fill_pending: "fill n buf sk = (Inr b, sk') \<Longrightarrow> pending_bytes b sk' = pending_bytes buf sk"
proof (induction n buf sk rule: fill.induct)
  case (1 n buf sk)
  show ?case
  proof (cases "n \<le> length buf")
    case True
    then show ?thesis using 1(2) by (subst (asm) fill.simps) auto
  next
    case False
    show ?thesis
    proof (cases "sk_chunks sk")
      case Nil
      then show ?thesis using 1(2) False by (subst (asm) fill.simps) (auto simp: recv_def split: option.splits)
    next
      case (Cons c cs)
      then have r: "recv sk = (Inr c, sk\<lparr>sk_chunks := cs\<rparr>)" by (simp add: recv_def)
      show ?thesis
      proof (cases "c = []")
        case True
        then show ?thesis using 1(2) False r Cons by (subst (asm) fill.simps) (auto simp: pending_bytes_def)
      next
        case c: False
        have "fill n (buf @ c) (sk\<lparr>sk_chunks := cs\<rparr>) = (Inr b, sk')"
          using 1(2) False r c by (subst (asm) fill.simps) auto
        from 1(1) [OF False _ refl _ this] r c show ?thesis
          by (auto simp: pending_bytes_def Cons)
      qed
    qed
  qed
qed

lemma need_pending: "need n buf sk = More (b, sk') \<Longrightarrow> pending_bytes b sk' = pending_bytes buf sk \<and> n \<le> length b"
  by (auto simp: need_def split: prod.splits sum.splits if_splits dest: fill_pending)

lemma step_bind_More [simp]: "step_bind r f = More y \<longleftrightarrow> (\<exists>x. r = More x \<and> f x = More y)"
  by (cases r) auto

lemma read_frame_consumes:
  assumes "read_frame buf sk = More (f, b, sk')"
  shows "pending_bytes b sk' < pending_bytes buf sk"
  using assms
  by (auto simp: read_frame_def read_length_def read_mask_def Let_def pending_bytes_def split: if_splits
           dest!: need_pending)

function read_frames :: "byte list \<Rightarrow> socket \<Rightarrow> channels \<Rightarrow> channels res" where
  "read_frames buf sk c =
     (case read_frame buf sk of
        Raise er \<Rightarrow> Inl er
      | Halt \<Rightarrow> Inr c
      | More (f, b, sk') \<Rightarrow> if fr_opcode f = 8 then Inr c else read_frames b sk' (take_frame f c))"
  by pat_completeness auto
termination
  by (relation "measure (\<lambda>(buf, sk, _). pending_bytes buf sk)") (auto dest: read_frame_consumes)

declare read_frames.simps [simp del]

section \<open>The call\<close>

definition ascii_bytes :: "string \<Rightarrow> byte list" where
  "ascii_bytes = map (\<lambda>c. word_of_nat (of_char c))"

definition CRLF2 :: "byte list" where "CRLF2 = [13, 10, 13, 10]"

fun bytes_split :: "byte list \<Rightarrow> byte list \<Rightarrow> (byte list \<times> byte list) option" where
  "bytes_split sep [] = (if sep = [] then Some ([], []) else None)"
| "bytes_split sep (b # bs) =
     (if take (length sep) (b # bs) = sep then Some ([], drop (length sep) (b # bs))
      else map_option (\<lambda>(x, y). (b # x, y)) (bytes_split sep bs))"

text \<open>The answer to the upgrade request is read until its blank line or the end of the stream.\<close>

function read_header :: "byte list \<Rightarrow> socket \<Rightarrow> byte list res \<times> socket" where
  "read_header buf sk =
     (if bytes_split CRLF2 buf \<noteq> None then (Inr buf, sk)
      else
        (case recv sk of
           (Inl er, sk') \<Rightarrow> (Inl er, sk')
         | (Inr c, sk') \<Rightarrow> if c = [] then (Inr buf, sk') else read_header (buf @ c) sk'))"
  by pat_completeness auto
termination
  by (relation "measure (\<lambda>(buf, sk). length (sk_chunks sk))")
    (auto simp: recv_def split: list.splits option.splits)

declare read_header.simps [simp del]

definition first_line :: "byte list \<Rightarrow> byte list" where
  "first_line bs = (case bytes_split [13, 10] bs of None \<Rightarrow> bs | Some (x, _) \<Rightarrow> x)"

definition upgraded :: "byte list \<Rightarrow> bool" where
  "upgraded header = (bytes_split (ascii_bytes ''101'') (first_line header) \<noteq> None)"

text \<open>
  The exit code: 0 without a status, and after any failure the value it had by then. \<open>int(x)\<close> of a
  cause: \<open>Some (Inl ())\<close> is a \<open>ValueError\<close>, \<open>None\<close> any other exception.
\<close>

definition cause_int :: "pyval \<Rightarrow> (unit + int) option" where
  "cause_int v =
     (case v of
        PInt i \<Rightarrow> Some (Inr i)
      | PBool b \<Rightarrow> Some (Inr (if b then 1 else 0))
      | PFloat q _ \<Rightarrow> Some (Inr (if q < 0 then - \<lfloor>- q\<rfloor> else \<lfloor>q\<rfloor>))
      | PStr s \<Rightarrow> (case py_int s of None \<Rightarrow> Some (Inl ()) | Some i \<Rightarrow> Some (Inr i))
      | _ \<Rightarrow> None)"

fun pod_causes :: "pyval list \<Rightarrow> int \<Rightarrow> int" where
  "pod_causes [] code = code"
| "pod_causes (c # cs) code =
     (case py_get ''reason'' PNone c of
        Inl _ \<Rightarrow> code
      | Inr reason \<Rightarrow>
          if reason \<noteq> PStr ''ExitCode'' then pod_causes cs code
          else
            (case py_get ''message'' (PInt 1) c of
               Inl _ \<Rightarrow> code
             | Inr m \<Rightarrow>
                 (case cause_int m of
                    None \<Rightarrow> code
                  | Some (Inl _) \<Rightarrow> pod_causes cs 1
                  | Some (Inr i) \<Rightarrow> pod_causes cs i)))"

definition pod_exit_code :: "string \<Rightarrow> int" where
  "pod_exit_code raw =
     (if raw = [] then 0
      else
        (case json_loads raw of
           None \<Rightarrow> 0
         | Some st \<Rightarrow>
             (case py_get ''status'' PNone st of
                Inl _ \<Rightarrow> 0
              | Inr v \<Rightarrow>
                  if v \<noteq> PStr ''Failure'' then 0
                  else
                    (case res_bind (get_or_dict ''details'' st) (py_get ''causes'' PNone) of
                       Inl _ \<Rightarrow> 0
                     | Inr causes \<Rightarrow>
                         (case py_iter (py_or causes (PList [])) of
                            Inl _ \<Rightarrow> 1 | Inr cs \<Rightarrow> pod_causes cs 1)))))"

definition exec_result_of :: "(byte list \<Rightarrow> string) \<Rightarrow> channels \<Rightarrow> int \<times> string \<times> string" where
  "exec_result_of decode c =
     (pod_exit_code (decode (ch_status c)), decode (ch_out c), decode (ch_err c))"

text \<open>\<open>decode\<close> is \<open>bytes.decode('utf-8', 'replace')\<close>; \<open>opens\<close> connects and sends the request.\<close>

definition exec_pod ::
  "(string \<Rightarrow> string list \<Rightarrow> string option \<Rightarrow> socket res) \<Rightarrow> (byte list \<Rightarrow> string) \<Rightarrow> k8s_config
   \<Rightarrow> string \<Rightarrow> string list \<Rightarrow> string option \<Rightarrow> (int \<times> string \<times> string) res" where
  "exec_pod opens decode cfg pod command container =
     (if \<not> k8s_available cfg then Inl (K8sUnavailable ''not running in a cluster'')
      else
        res_bind (opens pod command container) (\<lambda>sk.
          (case read_header [] sk of
             (Inl er, _) \<Rightarrow> Inl er
           | (Inr header, sk') \<Rightarrow>
               if \<not> upgraded header
               then Inl (K8sError (''WebSocket exec handshake failed: '' @ decode (take 200 header)))
               else
                 (case bytes_split CRLF2 header of
                    None \<Rightarrow> Inl IndexErr
                  | Some (_, buf) \<Rightarrow>
                      res_bind (read_frames buf sk' no_output) (\<lambda>c. Inr (exec_result_of decode c))))))"

end
