(* ===== verification/ExecProps.thy ===== *)
theory ExecProps
  imports ExecStream
begin

text \<open>
  The reader of the exec stream against the frame format it implements: whatever frames the server
  sends, in whatever chunks they arrive, the reader recovers them, and the end of the stream between
  two frames ends the read.
\<close>

section \<open>The frames a server sends\<close>

text \<open>RFC 6455: the first byte, the length in its shortest form with the mask bit, the key, the payload.\<close>

record wire_frame =
  wf_first :: byte
  wf_key :: "byte list option"
  wf_data :: "byte list"

fun to_bytes :: "nat \<Rightarrow> nat \<Rightarrow> byte list" where
  "to_bytes 0 n = []"
| "to_bytes (Suc k) n = to_bytes k (n div 256) @ [word_of_nat n]"

definition length_field :: "nat \<Rightarrow> byte \<times> byte list" where
  "length_field n =
     (if n < 126 then (word_of_nat n, []) else if n < 65536 then (126, to_bytes 2 n) else (127, to_bytes 8 n))"

definition key_bytes :: "wire_frame \<Rightarrow> byte list" where
  "key_bytes w = (case wf_key w of None \<Rightarrow> [] | Some k \<Rightarrow> k)"

text \<open>The key is used byte by byte, over and over.\<close>

fun masked_with :: "byte list \<Rightarrow> byte list \<Rightarrow> byte list" where
  "masked_with k [] = []"
| "masked_with k (b # bs) = (b XOR hd k) # masked_with (rotate1 k) bs"

definition masked_data :: "byte list option \<Rightarrow> byte list \<Rightarrow> byte list" where
  "masked_data key p = (case key of None \<Rightarrow> p | Some k \<Rightarrow> masked_with k p)"

definition encode_frame :: "wire_frame \<Rightarrow> byte list" where
  "encode_frame w =
     (case length_field (length (wf_data w)) of
        (len, ext) \<Rightarrow>
          [wf_first w, if wf_key w = None then len else len OR 0x80] @ ext @ key_bytes w
          @ masked_data (wf_key w) (wf_data w))"

definition wf_wire :: "wire_frame \<Rightarrow> bool" where
  "wf_wire w = (length (wf_data w) < 2 ^ 64 \<and> (\<forall>k. wf_key w = Some k \<longrightarrow> length k = 4) \<and> wf_first w AND 0x0F \<noteq> 8)"

definition frame_of :: "wire_frame \<Rightarrow> frame" where
  "frame_of w = \<lparr>fr_opcode = wf_first w AND 0x0F, fr_payload = wf_data w\<rparr>"

section \<open>Bytes\<close>

lemma length_to_bytes [simp]: "length (to_bytes k n) = k"
  by (induction k n rule: to_bytes.induct) auto

lemma from_to_bytes: "int_from_bytes (to_bytes k n) = n mod 256 ^ k"
proof (induction k n rule: to_bytes.induct)
  case (2 k n)
  have "int_from_bytes (to_bytes (Suc k) n) = int_from_bytes (to_bytes k (n div 256)) * 256 + n mod 256"
    by (simp add: int_from_bytes_def unat_of_nat)
  then show ?case using 2 by (simp add: mod_mult2_eq)
qed (simp add: int_from_bytes_def)

lemma length_masked_with [simp]: "length (masked_with k p) = length p"
  by (induction k p rule: masked_with.induct) auto

lemma length_masked [simp]: "length (masked_data key p) = length p"
  by (simp add: masked_data_def split: option.splits)

lemma nth_masked: "i < length p \<Longrightarrow> masked_with k p ! i = p ! i XOR hd (rotate i k)"
proof (induction k p arbitrary: i rule: masked_with.induct)
  case (2 k b bs)
  then show ?case by (cases i) (simp_all add: rotate1_rotate_swap rotate_def funpow_swap1)
qed simp

lemma unmask_masked:
  assumes "\<forall>k. key = Some k \<longrightarrow> length k = 4"
  shows "unmask key (masked_data key p) = p"
proof (cases key)
  case (Some k)
  then have "hd (rotate i k) = k ! (i mod 4)" for i using assms by (subst hd_rotate_conv_nth) auto
  then show ?thesis using Some
    by (auto simp: unmask_def masked_data_def nth_enumerate_eq nth_masked xor.assoc intro!: nth_equalityI)
qed (simp add: unmask_def masked_data_def)

lemma length_field_ext:
  "length_field n = (len, ext) \<Longrightarrow> length ext = (if n < 126 then 0 else if n < 65536 then 2 else 8)"
  by (auto simp: length_field_def split: if_splits)

lemma low_byte:
  assumes "n < 128"
  shows "(word_of_nat n :: byte) AND 0x80 = 0" and "unat ((word_of_nat n :: byte) AND 0x7F) = n"
proof -
  have m: "(0x7F :: byte) = mask 7" by (simp add: mask_eq_exp_minus_1)
  have u: "unat (word_of_nat n :: byte) = n" using assms by (simp add: unat_of_nat)
  have "unat ((word_of_nat n :: byte) AND 0x7F) = unat (take_bit 7 (word_of_nat n :: byte))"
    by (simp only: m take_bit_eq_mask)
  also have "\<dots> = take_bit 7 n" by (subst unsigned_take_bit_eq) (simp add: u)
  finally show "unat ((word_of_nat n :: byte) AND 0x7F) = n" using assms by (simp add: take_bit_eq_mod)
  have "bit (unat (word_of_nat n :: byte)) 7 = bit (word_of_nat n :: byte) 7"
    by (simp only: bit_unsigned_iff possible_bit_nat simp_thms)
  moreover have "\<not> bit n 7" using assms by (simp add: bit_iff_odd)
  ultimately have "\<not> bit (word_of_nat n :: byte) 7" by (simp only: u simp_thms)
  then have "(word_of_nat n :: byte) AND 2 ^ 7 = 0" by (simp only: and_exp_eq_0_iff_not_bit not_False_eq_True)
  then show "(word_of_nat n :: byte) AND 0x80 = 0" by simp
qed

lemma mask_bit:
  assumes "length_field n = (len, ext)"
  shows "len AND 0x80 = 0" and "(len OR 0x80) AND 0x80 \<noteq> 0"
    and "unat (len AND 0x7F) = (if n < 126 then n else if n < 65536 then 126 else 127)"
    and "(len OR 0x80) AND 0x7F = len AND 0x7F"
proof -
  have len: "len = word_of_nat (if n < 126 then n else if n < 65536 then 126 else 127)"
    using assms by (auto simp: length_field_def split: if_splits)
  show "len AND 0x80 = 0" "unat (len AND 0x7F) = (if n < 126 then n else if n < 65536 then 126 else 127)"
    unfolding len by (rule low_byte, simp)+
  show "(len OR 0x80) AND 0x80 \<noteq> 0" by (simp add: word_ao_absorbs)
  show "(len OR 0x80) AND 0x7F = len AND 0x7F" by (simp add: word_ao_dist)
qed

section \<open>Filling the buffer\<close>

definition stream_of :: "byte list \<Rightarrow> socket \<Rightarrow> byte list" where
  "stream_of buf sk = buf @ concat (sk_chunks sk)"

definition live :: "socket \<Rightarrow> bool" where
  "live sk = ([] \<notin> set (sk_chunks sk))"

lemma need_more:
  assumes "live sk" and "n \<le> length (stream_of buf sk)"
  shows "\<exists>b sk'. need n buf sk = More (b, sk') \<and> stream_of b sk' = stream_of buf sk \<and> n \<le> length b
    \<and> live sk' \<and> sk_fault sk' = sk_fault sk"
proof -
  have "\<exists>b sk'. fill n buf sk = (Inr b, sk') \<and> stream_of b sk' = stream_of buf sk \<and> n \<le> length b
      \<and> live sk' \<and> sk_fault sk' = sk_fault sk"
    using assms
  proof (induction n buf sk rule: fill.induct)
    case (1 n buf sk)
    show ?case
    proof (cases "n \<le> length buf")
      case True
      then show ?thesis using 1(2) by (subst fill.simps) auto
    next
      case False
      then obtain c cs where ch: "sk_chunks sk = c # cs"
        using 1(3) by (cases "sk_chunks sk") (auto simp: stream_of_def)
      then have c: "c \<noteq> []" and r: "recv sk = (Inr c, sk\<lparr>sk_chunks := cs\<rparr>)"
        using 1(2) by (auto simp: live_def recv_def)
      have "live (sk\<lparr>sk_chunks := cs\<rparr>)" "n \<le> length (stream_of (buf @ c) (sk\<lparr>sk_chunks := cs\<rparr>))"
        using 1(2,3) ch by (auto simp: live_def stream_of_def)
      from 1(1) [OF False r [symmetric] refl c this] show ?thesis
        using False r c ch by (subst fill.simps) (auto simp: stream_of_def)
    qed
  qed
  then show ?thesis by (fastforce simp: need_def)
qed

lemma need_end:
  assumes "sk_chunks sk = []" and "sk_fault sk = None" and "length buf < n"
  shows "need n buf sk = Halt"
  using assms by (simp add: need_def fill.simps recv_def)

lemma take_drop_stream:
  assumes "stream_of b sk = s" and "i + n \<le> length b"
  shows "take n (drop i b) = take n (drop i s)"
  using assms by (auto simp: stream_of_def)

text \<open>Where a read of one step stands: the whole stream is still there, and the socket still live.\<close>

definition same_stream :: "byte list \<Rightarrow> socket \<Rightarrow> byte list \<Rightarrow> socket \<Rightarrow> bool" where
  "same_stream b sk b' sk' =
     (stream_of b' sk' = stream_of b sk \<and> live sk' \<and> sk_fault sk' = sk_fault sk)"

lemma need_same:
  assumes "live sk" and "n \<le> length (stream_of buf sk)"
  obtains b sk' where "need n buf sk = More (b, sk')" and "same_stream buf sk b sk'" and "n \<le> length b"
  using need_more [OF assms] by (auto simp: same_stream_def)

lemma taken:
  "same_stream b sk b' sk' \<Longrightarrow> i + n \<le> length b' \<Longrightarrow> take n (drop i b') = take n (drop i (stream_of b sk))"
  by (rule take_drop_stream) (auto simp: same_stream_def)

lemma same_stream_trans:
  "same_stream a sa b sb \<Longrightarrow> same_stream b sb c sc \<Longrightarrow> same_stream a sa c sc"
  by (simp add: same_stream_def)

lemma read_length_encoded:
  assumes "length_field n = (len, ext)" and "n < 2 ^ 64" and "live sk"
    and "stream_of b sk = x # y # ext @ r"
  shows "\<exists>b' sk'. read_length (unat (len AND 0x7F)) b sk = More (n, 2 + length ext, b', sk')
    \<and> same_stream b sk b' sk'"
proof -
  note l = mask_bit(3) [OF assms(1)] length_field_ext [OF assms(1)]
  have "2 + length ext \<le> length (stream_of b sk)" using assms(4) by simp
  then obtain b' sk' where nd: "need (2 + length ext) b sk = More (b', sk')" "same_stream b sk b' sk'"
      "2 + length ext \<le> length b'"
    by (rule need_same [OF assms(3)])
  then have t: "take (length ext) (drop 2 b') = ext" using assms(4) by (simp add: taken)
  consider "n < 126" | "126 \<le> n" "n < 65536" | "65536 \<le> n" by linarith
  then show ?thesis
  proof cases
    case 1
    then show ?thesis using l assms(3) by (auto simp: read_length_def same_stream_def)
  next
    case 2
    then have "ext = to_bytes 2 n" using assms(1) by (simp add: length_field_def)
    then show ?thesis using 2 l nd t by (auto simp: read_length_def from_to_bytes)
  next
    case 3
    then have "ext = to_bytes 8 n" using assms(1) by (simp add: length_field_def)
    then show ?thesis using 3 l nd t assms(2) by (auto simp: read_length_def from_to_bytes)
  qed
qed

lemma read_mask_encoded:
  assumes "\<forall>k. key = Some k \<longrightarrow> length k = 4" and "live sk"
    and "stream_of b sk = p @ (case key of None \<Rightarrow> [] | Some k \<Rightarrow> k) @ r"
  shows "\<exists>b' sk'. read_mask (key \<noteq> None) (length p) b sk
      = More (key, length p + length (case key of None \<Rightarrow> [] | Some k \<Rightarrow> k), b', sk')
    \<and> same_stream b sk b' sk'"
proof (cases key)
  case None
  then show ?thesis using assms(2) by (auto simp: read_mask_def same_stream_def)
next
  case (Some k)
  have "length p + 4 \<le> length (stream_of b sk)" using assms(1,3) Some by simp
  then obtain b' sk' where nd: "need (length p + 4) b sk = More (b', sk')" "same_stream b sk b' sk'"
      "length p + 4 \<le> length b'"
    by (rule need_same [OF assms(2)])
  then have "take 4 (drop (length p) b') = k" using assms(1,3) Some by (simp add: taken)
  then show ?thesis using nd Some assms(1) by (auto simp: read_mask_def)
qed

lemma read_frame_encoded:
  assumes w: "wf_wire w" and "live sk" and s: "stream_of buf sk = encode_frame w @ rest"
  shows "\<exists>b sk'. read_frame buf sk = More (frame_of w, b, sk') \<and> stream_of b sk' = rest \<and> live sk'
    \<and> sk_fault sk' = sk_fault sk"
proof -
  obtain len ext where lf: "length_field (length (wf_data w)) = (len, ext)" by fastforce
  define y where "y = (if wf_key w = None then len else len OR 0x80)"
  define m where "m = masked_data (wf_key w) (wf_data w)"
  have st: "stream_of buf sk = wf_first w # y # ext @ key_bytes w @ m @ rest"
    using s by (simp add: encode_frame_def lf y_def m_def)
  have y: "(y AND 0x80 \<noteq> 0) = (wf_key w \<noteq> None)" "y AND 0x7F = len AND 0x7F"
    using mask_bit [OF lf] by (auto simp: y_def)
  have "2 \<le> length (stream_of buf sk)" by (simp add: st)
  then obtain b0 sk0 where n0: "need 2 buf sk = More (b0, sk0)" "same_stream buf sk b0 sk0" "2 \<le> length b0"
    by (rule need_same [OF assms(2)])
  have "take 2 b0 = [wf_first w, y]" using taken [OF n0(2), of 0 2] n0(3) by (simp add: st)
  moreover have "take 2 b0 ! 0 = b0 ! 0" "take 2 b0 ! 1 = b0 ! 1" by simp_all
  ultimately have hd: "b0 ! 0 = wf_first w" "b0 ! 1 = y" by simp_all
  have s0: "stream_of b0 sk0 = wf_first w # y # ext @ key_bytes w @ m @ rest" "live sk0"
    using n0(2) by (auto simp: same_stream_def st)
  have "length (wf_data w) < 2 ^ 64" using w by (simp add: wf_wire_def)
  from read_length_encoded [OF lf this s0(2,1)] obtain b1 sk1 where
    n1: "read_length (unat (y AND 0x7F)) b0 sk0 = More (length (wf_data w), 2 + length ext, b1, sk1)"
      "same_stream b0 sk0 b1 sk1" unfolding y(2) by blast
  have s1: "stream_of b1 sk1 = (wf_first w # y # ext) @ key_bytes w @ m @ rest" "live sk1"
    using n1(2) s0 by (auto simp: same_stream_def)
  have "\<forall>k. wf_key w = Some k \<longrightarrow> length k = 4" using w by (simp add: wf_wire_def)
  from read_mask_encoded [OF this s1(2) s1(1) [unfolded key_bytes_def]] obtain b2 sk2 where
    n2: "read_mask (wf_key w \<noteq> None) (2 + length ext) b1 sk1
           = More (wf_key w, 2 + length ext + length (key_bytes w), b2, sk2)" "same_stream b1 sk1 b2 sk2"
    by (auto simp: key_bytes_def)
  define i where "i = 2 + length ext + length (key_bytes w)"
  have s2: "stream_of b2 sk2 = (wf_first w # y # ext @ key_bytes w) @ m @ rest" "live sk2"
    using n2(2) s1 by (auto simp: same_stream_def)
  have m: "length m = length (wf_data w)" by (simp add: m_def)
  have um: "unmask (wf_key w) m = wf_data w" using w by (simp add: m_def unmask_masked wf_wire_def)
  have "i + length (wf_data w) \<le> length (stream_of b2 sk2)" by (simp add: s2 i_def m)
  then obtain b3 sk3 where n3: "need (i + length (wf_data w)) b2 sk2 = More (b3, sk3)"
      "same_stream b2 sk2 b3 sk3" "i + length (wf_data w) \<le> length b3"
    by (rule need_same [OF s2(2)])
  have t: "take (length (wf_data w)) (drop i b3) = m"
    using taken [OF n3(2,3)] m by (simp add: s2 i_def)
  have e: "b3 @ concat (sk_chunks sk3) = stream_of b2 sk2" using n3(2) by (simp add: same_stream_def stream_of_def)
  have "stream_of (drop (i + length (wf_data w)) b3) sk3 = drop (i + length (wf_data w)) (b3 @ concat (sk_chunks sk3))"
    using n3(3) by (simp add: stream_of_def)
  also have "\<dots> = rest" by (simp only: e) (simp add: s2 i_def m)
  finally have r: "stream_of (drop (i + length (wf_data w)) b3) sk3 = rest" .
  have "read_frame buf sk = More (frame_of w, drop (i + length (wf_data w)) b3, sk3)"
    using n0(1) n1(1) n2(1) n3(1) t
    by (simp add: read_frame_def Let_def hd(1) hd(2) [simplified] y(1) [simplified] y(2) i_def frame_of_def um)
  then show ?thesis using r n0(2) n1(2) n2(2) n3(2) by (auto simp: same_stream_def)
qed

lemma read_frames_encoded:
  assumes "list_all wf_wire ws" and "live sk" and "sk_fault sk = None"
    and "stream_of buf sk = concat (map encode_frame ws)"
  shows "read_frames buf sk c = Inr (fold take_frame (map frame_of ws) c)"
  using assms
proof (induction ws arbitrary: buf sk c)
  case Nil
  then have "buf = []" "sk_chunks sk = []" by (auto simp: stream_of_def live_def) (metis list.set_intros(1) neq_Nil_conv)
  then show ?case using Nil by (subst read_frames.simps) (simp add: read_frame_def need_end)
next
  case (Cons w ws)
  then have "wf_wire w" "stream_of buf sk = encode_frame w @ concat (map encode_frame ws)" by auto
  from read_frame_encoded [OF this(1) Cons.prems(2) this(2)] obtain b sk' where
    f: "read_frame buf sk = More (frame_of w, b, sk')" "stream_of b sk' = concat (map encode_frame ws)" "live sk'"
      "sk_fault sk' = None" using Cons.prems(3) by auto
  have "fr_opcode (frame_of w) \<noteq> 8" using Cons.prems(1) by (simp add: frame_of_def wf_wire_def)
  then show ?case using Cons.IH [OF _ f(3,4,2)] Cons.prems(1) by (subst read_frames.simps) (simp add: f)
qed

section \<open>The handshake\<close>

lemma bytes_split_Some: "bytes_split sep x = Some (a, r) \<Longrightarrow> x = a @ sep @ r"
proof (induction sep x arbitrary: a r rule: bytes_split.induct)
  case (2 sep b bs)
  then show ?case by (auto split: if_splits) (metis append_take_drop_id)
qed (auto split: if_splits)

lemma bytes_split_append: "bytes_split sep x = Some (a, r) \<Longrightarrow> bytes_split sep (x @ z) = Some (a, r @ z)"
proof (induction sep x arbitrary: a r rule: bytes_split.induct)
  case (1 sep)
  then show ?case by (cases z) (auto split: if_splits)
next
  case (2 sep b bs)
  show ?case
  proof (cases "take (length sep) (b # bs) = sep")
    case True
    moreover from True have "length sep \<le> length (b # bs)" by (metis length_take min.cobounded1)
    ultimately have "take (length sep) ((b # bs) @ z) = sep"
        "drop (length sep) ((b # bs) @ z) = drop (length sep) (b # bs) @ z"
      by (simp_all del: append_Cons)
    then show ?thesis using 2(2) True by simp
  next
    case False
    then obtain a' where a': "bytes_split sep bs = Some (a', r)" "a = b # a'" using 2(2) by auto
    then have "length sep \<le> length (b # bs)" using bytes_split_Some [OF a'(1)] by simp
    then have "take (length sep) ((b # bs) @ z) = take (length sep) (b # bs)" by (simp del: append_Cons)
    then show ?thesis using False 2(1) [OF False a'(1)] a' by simp
  qed
qed

lemma bytes_split_finds: "bytes_split sep (a @ sep @ r) \<noteq> None"
proof (induction a)
  case Nil
  have "take (length sep) (sep @ r) = sep" by simp
  then show ?case by (cases "sep @ r") (simp_all del: not_None_eq)
next
  case (Cons b bs)
  then obtain p where "bytes_split sep (bs @ sep @ r) = Some p" by blast
  then show ?case by (cases p) auto
qed

lemma read_header_finds:
  assumes "live sk" and "bytes_split CRLF2 (stream_of buf sk) = Some (a, rest)"
  shows "\<exists>h r sk'. read_header buf sk = (Inr h, sk') \<and> bytes_split CRLF2 h = Some (a, r)
    \<and> stream_of r sk' = rest \<and> live sk' \<and> sk_fault sk' = sk_fault sk"
  using assms
proof (induction buf sk rule: read_header.induct)
  case (1 buf sk)
  show ?case
  proof (cases "bytes_split CRLF2 buf")
    case (Some ar)
    then obtain a' r where s: "bytes_split CRLF2 buf = Some (a', r)" by (cases ar) auto
    from bytes_split_append [OF s, of "concat (sk_chunks sk)"] 1(3)
    have "a' = a" "stream_of r sk = rest" by (auto simp: stream_of_def)
    then show ?thesis using s 1(2) by (subst read_header.simps) auto
  next
    case None
    then obtain c cs where ch: "sk_chunks sk = c # cs"
      using 1(3) by (cases "sk_chunks sk") (auto simp: stream_of_def)
    then have c: "c \<noteq> []" and r: "recv sk = (Inr c, sk\<lparr>sk_chunks := cs\<rparr>)"
      using 1(2) by (auto simp: live_def recv_def)
    have "live (sk\<lparr>sk_chunks := cs\<rparr>)" "bytes_split CRLF2 (stream_of (buf @ c) (sk\<lparr>sk_chunks := cs\<rparr>)) = Some (a, rest)"
      using 1(2,3) ch by (auto simp: live_def stream_of_def)
    from 1(1) [OF _ r [symmetric] refl c this] None show ?thesis using r c by (subst read_header.simps) auto
  qed
qed

lemma first_line_header:
  assumes "bytes_split CRLF2 h = Some (a, r)"
  shows "first_line h = first_line (a @ CRLF2)"
proof -
  have h: "h = (a @ CRLF2) @ r" using bytes_split_Some [OF assms] by simp
  have "bytes_split [13, 10] (a @ [13, 10] @ [13, 10]) \<noteq> None" by (rule bytes_split_finds)
  then obtain l q where lq: "bytes_split [13, 10] (a @ CRLF2) = Some (l, q)" by (auto simp: CRLF2_def)
  show ?thesis using bytes_split_append [OF lq, of r] lq by (simp add: first_line_def h)
qed

text \<open>C23: The exec reader loses nothing: when the server accepts the upgrade and sends any frames, masked or
  not and of any length, cut into any chunks, the call returns exactly the bytes of the output, error
  and status channels in order, and the exit code of the status.\<close>

theorem exec_recovers_frames:
  assumes "k8s_available cfg" and "opens pod command container = Inr sk"
    and "[] \<notin> set (sk_chunks sk)" and "sk_fault sk = None" and "list_all wf_wire ws"
    and "bytes_split CRLF2 (concat (sk_chunks sk)) = Some (header, concat (map encode_frame ws))"
    and "upgraded (header @ CRLF2)"
  shows "exec_pod opens decode cfg pod command container
    = Inr (exec_result_of decode (fold take_frame (map frame_of ws) no_output))"
proof -
  have "live sk" "bytes_split CRLF2 (stream_of [] sk) = Some (header, concat (map encode_frame ws))"
    using assms(3,6) by (auto simp: live_def stream_of_def)
  from read_header_finds [OF this] obtain h r sk' where
    h: "read_header [] sk = (Inr h, sk')" "bytes_split CRLF2 h = Some (header, r)"
      "stream_of r sk' = concat (map encode_frame ws)" "live sk'" "sk_fault sk' = None"
    using assms(4) by auto
  have "upgraded h" using assms(7) first_line_header [OF h(2)] by (simp add: upgraded_def)
  then show ?thesis
    using assms(1,2) h(1,2) read_frames_encoded [OF assms(5) h(4,5,3)] by (simp add: exec_pod_def)
qed

definition demo_wire :: "wire_frame list" where
  "demo_wire = [\<lparr>wf_first = 0x82, wf_key = None, wf_data = 1 # ascii_bytes ''ok''\<rparr>,
     \<lparr>wf_first = 0x82, wf_key = Some [7, 1, 9, 250], wf_data = 2 # ascii_bytes ''bad''\<rparr>,
     \<lparr>wf_first = 0x82, wf_key = None,
       wf_data = 3 # ascii_bytes ''{\"status\":\"Failure\"}''\<rparr>]"

definition demo_socket :: socket where
  "demo_socket =
     (let s = ascii_bytes ''HTTP/1.1 101 x'' @ CRLF2 @ concat (map encode_frame demo_wire)
      in \<lparr>sk_chunks = [take 16 s, take 9 (drop 16 s), drop 25 s], sk_fault = None\<rparr>)"

definition text_of :: "byte list \<Rightarrow> string" where "text_of = map (\<lambda>b. char_of (unat b))"

definition demo_k8s :: k8s_config where
  "demo_k8s = \<lparr>kc_server = Some ''https://k'', kc_token = Some ''t'', kc_namespace = ''n'', kc_ca_path = None\<rparr>"

lemma exec_recovers_frames_witness:
  "exec_pod (\<lambda>_ _ _. Inr demo_socket) text_of demo_k8s ''p'' [''ls''] None = Inr (1, ''ok'', ''bad'')"
proof -
  have "exec_pod (\<lambda>_ _ _. Inr demo_socket) text_of demo_k8s ''p'' [''ls''] None
    = Inr (exec_result_of text_of (fold take_frame (map frame_of demo_wire) no_output))"
  proof (rule exec_recovers_frames [where header = "ascii_bytes ''HTTP/1.1 101 x''" and sk = demo_socket])
    show "k8s_available demo_k8s" by (simp add: k8s_available_def demo_k8s_def)
    show "[] \<notin> set (sk_chunks demo_socket)" "sk_fault demo_socket = None" by code_simp+
    show "list_all wf_wire demo_wire"
      by (simp add: demo_wire_def wf_wire_def ascii_bytes_def)
    show "bytes_split CRLF2 (concat (sk_chunks demo_socket))
      = Some (ascii_bytes ''HTTP/1.1 101 x'', concat (map encode_frame demo_wire))" by code_simp
    show "upgraded (ascii_bytes ''HTTP/1.1 101 x'' @ CRLF2)" by code_simp
  qed simp
  also have "exec_result_of text_of (fold take_frame (map frame_of demo_wire) no_output) = (1, ''ok'', ''bad'')"
    by code_simp
  finally show ?thesis .
qed

text \<open>A stream that breaks off before the status channel speaks is a success to the caller.\<close>

lemma silence_is_success:
  assumes "decode [] = []" and "ch_status c = []"
  shows "fst (exec_result_of decode c) = 0"
  using assms by (simp add: exec_result_of_def pod_exit_code_def)

end
