(* ===== verification/NodeGroups.thy ===== *)
theory NodeGroups
  imports K8s ViewFacts
begin

text \<open>
  The node groups of \<open>overstate_ui/groups.py\<close>: the \<open>nodegroups\<close> stanza of \<open>master.conf\<close> in the
  ConfigMap of the masters, the minion group rows kept beside it for the permission evaluator, and
  the flag that a restart of the masters is due, which clears itself once a newer rollout completed.
  A request carries its context, the requests sent to the Kubernetes API, and the answer of the last
  rollout check of the process. PyYAML is a pair of functions.
\<close>

record 'w desk =
  dk_ctx :: ctx
  dk_kube :: "'w kube"
  dk_check :: "rat \<times> bool"

record 'w master_env =
  me_net :: "'w net"
  me_cfg :: k8s_config
  me_load :: "string \<Rightarrow> pyval res"
  me_dump :: "pyval \<Rightarrow> string"
  me_now :: rat
  me_sts :: string
  me_cm :: string

definition dk_flash :: "string \<Rightarrow> string \<Rightarrow> 'w desk \<Rightarrow> 'w desk" where
  "dk_flash msg cat d = d\<lparr>dk_ctx := flash msg cat (dk_ctx d)\<rparr>"

definition dk_on_db :: "(store \<Rightarrow> store) \<Rightarrow> 'w desk \<Rightarrow> 'w desk" where
  "dk_on_db f d = d\<lparr>dk_ctx := on_db f (dk_ctx d)\<rparr>"

definition dk_note :: "string \<Rightarrow> string \<Rightarrow> 'w desk \<Rightarrow> 'w desk" where
  "dk_note actor action = dk_on_db (log_event actor action None None None None None)"

definition dk_log :: "user \<Rightarrow> string \<Rightarrow> 'w desk \<Rightarrow> 'w desk" where
  "dk_log cu = dk_note (u_username cu)"

section \<open>The restart flag\<close>

definition RESTART_KEY :: string where "RESTART_KEY = ''restart_pending''"
definition RESTART_GEN_KEY :: string where "RESTART_GEN_KEY = ''restart_pending_gen''"
definition RESTART_CHECK_INTERVAL :: rat where "RESTART_CHECK_INTERVAL = 10"

text \<open>Equality of JSON numbers, and \<open>int(x)\<close>.\<close>

definition py_num :: "pyval \<Rightarrow> rat option" where
  "py_num v = (case v of PInt i \<Rightarrow> Some (of_int i) | PBool b \<Rightarrow> Some (if b then 1 else 0) | PFloat q _ \<Rightarrow> Some q | _ \<Rightarrow> None)"

definition py_eq :: "pyval \<Rightarrow> pyval \<Rightarrow> bool" where
  "py_eq a b = (case (py_num a, py_num b) of (Some x, Some y) \<Rightarrow> x = y | _ \<Rightarrow> a = b)"

definition py_int_of :: "pyval \<Rightarrow> int res" where
  "py_int_of v =
     (case v of
        PInt i \<Rightarrow> Inr i
      | PBool b \<Rightarrow> Inr (if b then 1 else 0)
      | PFloat q _ \<Rightarrow> Inr (if 0 \<le> q then \<lfloor>q\<rfloor> else \<lceil>q\<rceil>)
      | PStr s \<Rightarrow> (case py_int s of None \<Rightarrow> Inl (ValueError s) | Some i \<Rightarrow> Inr i)
      | _ \<Rightarrow> Inl TypeErr)"

definition converged :: "rollout \<Rightarrow> bool" where
  "converged snap =
     (let n = py_or (ro_replicas snap) (PInt 1)
      in py_eq (ro_observed snap) (ro_generation snap) \<and> py_eq (ro_ready snap) n \<and> py_eq (ro_updated snap) n)"

text \<open>The answer of the API, \<open>False\<close> on the exceptions that are caught.\<close>

definition superseded_by :: "string \<Rightarrow> rollout res \<Rightarrow> bool res" where
  "superseded_by recorded r =
     (case res_bind r (\<lambda>snap. res_bind (py_int_of (ro_generation snap)) (\<lambda>g.
             res_bind (py_int_of (PStr recorded)) (\<lambda>old. Inr (old < g \<and> converged snap)))) of
        Inr ok \<Rightarrow> Inr ok
      | Inl er \<Rightarrow>
          (case er of
             KeyErr _ \<Rightarrow> Inr False | TypeErr \<Rightarrow> Inr False | ValueError _ \<Rightarrow> Inr False
           | _ \<Rightarrow> if is_k8s_error er then Inr False else Inl er))"

definition rollout_superseded :: "env \<Rightarrow> 'w master_env \<Rightarrow> 'w desk \<Rightarrow> bool res \<times> 'w desk" where
  "rollout_superseded e me d =
     (let recorded = get_setting e (c_db (dk_ctx d)) RESTART_GEN_KEY
      in if \<not> py_isdigit recorded then (Inr False, d)
         else if me_now me - fst (dk_check d) < RESTART_CHECK_INTERVAL then (Inr (snd (dk_check d)), d)
         else
           (case statefulset_rollout (me_net me) (me_cfg me) (me_sts me) (dk_kube d) of
              (r, ku) \<Rightarrow>
                (case superseded_by recorded r of
                   Inl er \<Rightarrow> (Inl er, d\<lparr>dk_kube := ku\<rparr>)
                 | Inr ok \<Rightarrow> (Inr ok, d\<lparr>dk_kube := ku, dk_check := (me_now me, ok)\<rparr>))))"

definition drop_setting :: "string \<Rightarrow> store \<Rightarrow> store" where
  "drop_setting k db = db\<lparr>settings := filter (\<lambda>(k', _). k' \<noteq> k) (settings db)\<rparr>"

definition clear_restart_needed :: "string \<Rightarrow> 'w desk \<Rightarrow> 'w desk" where
  "clear_restart_needed actor d =
     (let db = c_db (dk_ctx d); d1 = d\<lparr>dk_check := (0, False)\<rparr>
      in if setting_row db RESTART_KEY = None \<and> setting_row db RESTART_GEN_KEY = None then d1
         else dk_note actor ''restart-pending:cleared''
                (dk_on_db (drop_setting RESTART_GEN_KEY \<circ> drop_setting RESTART_KEY) d1))"

definition restart_needed :: "env \<Rightarrow> 'w master_env \<Rightarrow> user \<Rightarrow> 'w desk \<Rightarrow> bool res \<times> 'w desk" where
  "restart_needed e me cu d =
     (if get_setting e (c_db (dk_ctx d)) RESTART_KEY \<noteq> ''1'' then (Inr False, d)
      else
        (case rollout_superseded e me d of
           (Inl er, d1) \<Rightarrow> (Inl er, d1)
         | (Inr True, d1) \<Rightarrow> (Inr False, clear_restart_needed (u_username cu) d1)
         | (Inr False, d1) \<Rightarrow> (Inr True, d1)))"

fun is_lookup_error :: "py_error \<Rightarrow> bool" where
  "is_lookup_error (KeyErr _) = True"
| "is_lookup_error TypeErr = True"
| "is_lookup_error _ = False"

definition record_restart_generation :: "'w master_env \<Rightarrow> 'w desk \<Rightarrow> unit res \<times> 'w desk" where
  "record_restart_generation me d =
     (case statefulset_rollout (me_net me) (me_cfg me) (me_sts me) (dk_kube d) of
        (Inr snap, ku) \<Rightarrow>
          (Inr (), dk_on_db (set_setting RESTART_GEN_KEY (py_str (ro_generation snap))) (d\<lparr>dk_kube := ku\<rparr>))
      | (Inl er, ku) \<Rightarrow>
          (if is_k8s_error er \<or> is_lookup_error er then Inr () else Inl er, d\<lparr>dk_kube := ku\<rparr>))"

definition set_restart_needed :: "'w master_env \<Rightarrow> user \<Rightarrow> 'w desk \<Rightarrow> unit res \<times> 'w desk" where
  "set_restart_needed me cu d =
     (case record_restart_generation me (dk_on_db (set_setting RESTART_KEY ''1'') (d\<lparr>dk_check := (0, False)\<rparr>)) of
        (Inl er, d1) \<Rightarrow> (Inl er, d1)
      | (Inr _, d1) \<Rightarrow> (Inr (), dk_log cu ''restart-pending:config-change'' d1))"

section \<open>The stanza in the ConfigMap\<close>

type_synonym nodegroups = "(string \<times> pyval) list"

text \<open>\<open>master.conf\<close> as a string, and \<open>yaml.safe_load\<close> of what stands there.\<close>

definition master_conf :: "pyval \<Rightarrow> pyval res" where
  "master_conf d = py_get ''master.conf'' (PStr []) (py_or d (PDict []))"

definition load_yaml :: "'w master_env \<Rightarrow> pyval \<Rightarrow> pyval res" where
  "load_yaml me raw = (case raw of PStr s \<Rightarrow> me_load me s | _ \<Rightarrow> Inl AttributeErr)"

definition stanza_of :: "pyval \<Rightarrow> nodegroups" where
  "stanza_of parsed =
     (case parsed of
        PDict kvs \<Rightarrow> (case dict_get ''nodegroups'' kvs of Some (PDict ng) \<Rightarrow> ng | _ \<Rightarrow> [])
      | _ \<Rightarrow> [])"

fun is_dict :: "pyval \<Rightarrow> bool" where
  "is_dict (PDict _) = True"
| "is_dict _ = False"

fun is_yaml_error :: "py_error \<Rightarrow> bool" where
  "is_yaml_error (YamlError _) = True"
| "is_yaml_error _ = False"

definition load_nodegroups :: "'w master_env \<Rightarrow> 'w kube \<Rightarrow> nodegroups option res \<times> 'w kube" where
  "load_nodegroups me ku =
     (case get_configmap (me_net me) (me_cfg me) (me_cm me) ku of
        (Inl er, ku') \<Rightarrow> (if is_k8s_error er then Inr None else Inl er, ku')
      | (Inr cm, ku') \<Rightarrow>
          (case res_bind (master_conf (cm_data cm)) (load_yaml me) of
             Inl er \<Rightarrow> (if is_yaml_error er then Inr None else Inl er, ku')
           | Inr parsed \<Rightarrow> (Inr (if is_dict parsed then Some (stanza_of parsed) else None), ku')))"

text \<open>The new text of \<open>master.conf\<close>, or the message for the page.\<close>

definition edit_stanza :: "'w master_env \<Rightarrow> nodegroups \<Rightarrow> pyval \<Rightarrow> (string + string) res" where
  "edit_stanza me groups raw =
     (case res_bind (load_yaml me raw) (\<lambda>p. Inr (py_or p (PDict []))) of
        Inl er \<Rightarrow> if is_yaml_error er then Inr (Inl ''master.conf is not valid YAML'') else Inl er
      | Inr (PDict kvs) \<Rightarrow> Inr (Inr (me_dump me (PDict (assoc_set ''nodegroups'' (PDict groups) kvs))))
      | Inr _ \<Rightarrow> Inr (Inl ''master.conf is not a mapping''))"

definition put_conf :: "string \<Rightarrow> pyval \<Rightarrow> pyval" where
  "put_conf text d =
     (case d of PDict kvs \<Rightarrow> PDict (assoc_set ''master.conf'' (PStr text) kvs) | _ \<Rightarrow> d)"

definition write_error :: "py_error \<Rightarrow> string option res" where
  "write_error er =
     (case er of
        K8sConflict _ \<Rightarrow> Inr (Some ''the config changed since you opened it. Reload and re-apply.'')
      | _ \<Rightarrow> if is_k8s_error er then Inr (Some (''the app could not write the live config: '' @ error_text er)) else Inl er)"

text \<open>\<open>None\<close> on success, else the message; \<open>cm\<close> is what was read.\<close>

definition write_over :: "'w master_env \<Rightarrow> user \<Rightarrow> nodegroups \<Rightarrow> configmap \<Rightarrow> 'w desk \<Rightarrow> string option res \<times> 'w desk" where
  "write_over me cu groups cm d =
     (case res_bind (master_conf (cm_data cm)) (edit_stanza me groups) of
        Inl er \<Rightarrow> (Inl er, d)
      | Inr (Inl msg) \<Rightarrow> (Inr (Some msg), d)
      | Inr (Inr text) \<Rightarrow>
          (case replace_configmap (me_net me) (me_cfg me) (me_cm me) (put_conf text (py_or (cm_data cm) (PDict [])))
                  (cm_revision cm) (dk_kube d) of
             (Inl er, ku) \<Rightarrow> (write_error er, d\<lparr>dk_kube := ku\<rparr>)
           | (Inr _, ku) \<Rightarrow>
               (case set_restart_needed me cu (d\<lparr>dk_kube := ku\<rparr>) of
                  (r, d1) \<Rightarrow> (res_bind r (\<lambda>_. Inr None), d1))))"

definition write_nodegroups :: "'w master_env \<Rightarrow> user \<Rightarrow> nodegroups \<Rightarrow> 'w desk \<Rightarrow> string option res \<times> 'w desk" where
  "write_nodegroups me cu groups d =
     (case get_configmap (me_net me) (me_cfg me) (me_cm me) (dk_kube d) of
        (Inl er, ku) \<Rightarrow>
          (if is_k8s_error er then Inr (Some (''could not read master config: '' @ error_text er)) else Inl er,
           d\<lparr>dk_kube := ku\<rparr>)
      | (Inr cm, ku) \<Rightarrow> write_over me cu groups cm (d\<lparr>dk_kube := ku\<rparr>))"

definition load_nodegroup_names :: "'w master_env \<Rightarrow> 'w kube \<Rightarrow> string list res \<times> 'w kube" where
  "load_nodegroup_names me ku =
     (case load_nodegroups me ku of
        (r, ku') \<Rightarrow> (res_bind r (\<lambda>ng. Inr (case ng of None \<Rightarrow> [] | Some g \<Rightarrow> sort (map fst g))), ku'))"

section \<open>Expressions\<close>

definition MATCHERS :: "string list" where
  "MATCHERS = [''L@'', ''C@'', ''G@'', ''P@'', ''S@'', ''I@'', ''N@'']"

definition parse_expression :: "string \<Rightarrow> string \<times> string" where
  "parse_expression text =
     (let t = py_strip text
      in case find (\<lambda>p. starts_with p t) MATCHERS of
           Some p \<Rightarrow> (p, drop (length p) t)
         | None \<Rightarrow> ([], t))"

definition format_expression :: "string \<Rightarrow> string \<Rightarrow> string" where
  "format_expression prefix value = (if prefix = [] then value else prefix @ value)"

section \<open>The minion group rows\<close>

definition list_members :: "string \<Rightarrow> string list" where
  "list_members expr = filter (\<lambda>m. m \<noteq> []) (map py_strip (py_split CHR '','' (drop 2 expr)))"

text \<open>The row of a list expression is written, that of any other expression removed.\<close>

definition sync_to_minion_group :: "string \<Rightarrow> string \<Rightarrow> store \<Rightarrow> store" where
  "sync_to_minion_group nm expr db =
     (if starts_with ''L@'' expr then
        (let members = PList (map PStr (list_members expr))
         in case minion_group_by_name db nm of
              Some row \<Rightarrow> db\<lparr>minion_groups := update_rows (\<lambda>r. mg_id r = mg_id row) (\<lambda>r. r\<lparr>mg_members := members\<rparr>) (minion_groups db)\<rparr>
            | None \<Rightarrow>
                bump ''minion_groups''
                  (db\<lparr>minion_groups := minion_groups db
                        @ [\<lparr>mg_id = seq db ''minion_groups'', mg_name = nm, mg_members = members, mg_created_at = db_now db\<rparr>]\<rparr>))
      else
        (case minion_group_by_name db nm of
           None \<Rightarrow> db
         | Some row \<Rightarrow> db\<lparr>minion_groups := delete_rows (\<lambda>r. mg_id r = mg_id row) (minion_groups db)\<rparr>))"

definition frozen_group_ids :: "store \<Rightarrow> string set" where
  "frozen_group_ids db =
     set (map g_scope_value (filter (\<lambda>g. g_scope_kind g = ''group'') (grants db)))
     \<union> set (map irm_scope_value (filter (\<lambda>m. irm_scope_kind m = ''group'') (idp_role_mappings db)))"

section \<open>The page and the form\<close>

definition groups_home :: string where "groups_home = ''groups.index''"

definition dk_redirect :: "string \<Rightarrow> string \<Rightarrow> 'w desk \<Rightarrow> resp \<times> 'w desk" where
  "dk_redirect msg cat d = (Redirect groups_home, dk_flash msg cat d)"

record groups_page =
  gp_groups :: nodegroups
  gp_error :: "string option"
  gp_restart :: bool

definition groups_index ::
  "env \<Rightarrow> 'w master_env \<Rightarrow> user \<Rightarrow> 'w desk \<Rightarrow> (resp \<times> groups_page option) \<times> 'w desk" where
  "groups_index e me cu d =
     (case pass_gate (require e cu ''group.read'' None None ''no-grant'') (dk_ctx d) of
        Inl (r, c) \<Rightarrow> ((r, None), d\<lparr>dk_ctx := c\<rparr>)
      | Inr c \<Rightarrow>
          (case load_nodegroups me (dk_kube d) of
             (r, ku) \<Rightarrow>
               (case restart_needed e me cu (d\<lparr>dk_ctx := c, dk_kube := ku\<rparr>) of
                  (Inl er, d1) \<Rightarrow> ((Fail er, None), d1)
                | (Inr pending, d1) \<Rightarrow>
                    ((Page, Some \<lparr>gp_groups = (case r of Inr (Some ng) \<Rightarrow> sort_key fst ng | _ \<Rightarrow> []),
                        gp_error = (case r of
                            Inl er \<Rightarrow> Some (error_text er)
                          | Inr None \<Rightarrow> Some ''could not read nodegroups from master.conf''
                          | Inr (Some _) \<Rightarrow> None),
                        gp_restart = pending\<rparr>), d1))))"

definition delete_group :: "env \<Rightarrow> 'w master_env \<Rightarrow> user \<Rightarrow> string \<Rightarrow> nodegroups \<Rightarrow> 'w desk \<Rightarrow> resp \<times> 'w desk" where
  "delete_group e me cu nm groups d =
     (if nm \<notin> set (map fst groups) then dk_redirect (''Node group '' @ [CHR 0x27] @ nm @ [CHR 0x27] @ '' does not exist.'') ''error'' d
      else if rbac_mode e (c_db (dk_ctx d)) = ''scoped''
        \<and> (case minion_group_by_name (c_db (dk_ctx d)) nm of
             None \<Rightarrow> False
           | Some row \<Rightarrow> py_str_int (mg_id row) \<in> frozen_group_ids (c_db (dk_ctx d)))
      then (Abort 403, dk_on_db (audit_deny cu ''group.write'' None ''referenced'' None) d)
      else
        (case write_nodegroups me cu (filter (\<lambda>(k, _). k \<noteq> nm) groups) d of
           (Inl er, d1) \<Rightarrow> (Fail er, d1)
         | (Inr (Some err), d1) \<Rightarrow> dk_redirect (''Delete failed: '' @ err) ''error'' d1
         | (Inr None, d1) \<Rightarrow>
             dk_redirect (''Node group '' @ [CHR 0x27] @ nm @ [CHR 0x27] @ '' deleted.'') ''success''
               (dk_log cu (''nodegroup-delete:'' @ nm) (dk_on_db (sync_to_minion_group nm []) d1))))"

definition save_group :: "'w master_env \<Rightarrow> user \<Rightarrow> string \<Rightarrow> string \<Rightarrow> nodegroups \<Rightarrow> 'w desk \<Rightarrow> resp \<times> 'w desk" where
  "save_group me cu nm expr groups d =
     (case write_nodegroups me cu (assoc_set nm (PStr expr) groups) d of
        (Inl er, d1) \<Rightarrow> (Fail er, d1)
      | (Inr (Some err), d1) \<Rightarrow> dk_redirect (''Save failed: '' @ err) ''error'' d1
      | (Inr None, d1) \<Rightarrow>
          dk_redirect (''Node group '' @ [CHR 0x27] @ nm @ [CHR 0x27] @ '' saved as '' @ [CHR 0x27] @ expr @ [CHR 0x27]
              @ ''. Restart masters to activate it.'') ''success''
            (dk_log cu (''nodegroup-save:'' @ nm) (dk_on_db (sync_to_minion_group nm expr) d1)))"

definition prefix_field :: "form \<Rightarrow> string" where
  "prefix_field f = py_strip (case f ''prefix'' of [] \<Rightarrow> ''L@'' | v # _ \<Rightarrow> v)"

definition groups_save_body :: "env \<Rightarrow> 'w master_env \<Rightarrow> user \<Rightarrow> form \<Rightarrow> 'w desk \<Rightarrow> resp \<times> 'w desk" where
  "groups_save_body e me cu f d =
     (let nm = py_strip (form_get f ''name''); value = py_strip (form_get f ''value'');
          gone = form_get f ''delete''
      in case load_nodegroups me (dk_kube d) of
           (Inl er, ku) \<Rightarrow> (Fail er, d\<lparr>dk_kube := ku\<rparr>)
         | (Inr None, ku) \<Rightarrow>
             dk_redirect ''Cannot read nodegroups from the master config.'' ''error'' (d\<lparr>dk_kube := ku\<rparr>)
         | (Inr (Some groups), ku) \<Rightarrow>
             if gone \<noteq> [] then delete_group e me cu gone groups (d\<lparr>dk_kube := ku\<rparr>)
             else if nm = [] then dk_redirect ''Enter a group name.'' ''error'' (d\<lparr>dk_kube := ku\<rparr>)
             else if value = [] then dk_redirect ''Enter an expression value.'' ''error'' (d\<lparr>dk_kube := ku\<rparr>)
             else save_group me cu nm (format_expression (prefix_field f) value) groups (d\<lparr>dk_kube := ku\<rparr>))"

definition groups_save ::
  "(string set \<Rightarrow> string) \<Rightarrow> env \<Rightarrow> 'w master_env \<Rightarrow> user \<Rightarrow> form \<Rightarrow> 'w desk \<Rightarrow> resp \<times> 'w desk" where
  "groups_save first e me cu f d =
     (case pass_gate (\<lambda>k. roles_required first e cu [''operator'']
                (require e cu ''group.write'' None None ''no-grant'' k)) (dk_ctx d) of
        Inl (r, c) \<Rightarrow> (r, d\<lparr>dk_ctx := c\<rparr>)
      | Inr c \<Rightarrow> groups_save_body e me cu f (d\<lparr>dk_ctx := c\<rparr>))"

end
