(* ===== verification/GroupProps.thy ===== *)
theory GroupProps
  imports NodeGroups Demo
begin

text \<open>
  Properties of the node groups: the store stays well-formed, the ConfigMap is replaced at most once
  and only in its stanza, a referenced group is not deleted, and a saved list redefines every scope
  that names the group.
\<close>

section \<open>What a request sends to the cluster\<close>

definition asks :: "(k8s_request \<Rightarrow> bool) \<Rightarrow> 'w kube \<Rightarrow> 'w kube \<Rightarrow> bool" where
  "asks P ku ku' = (\<exists>new. ku_sent ku' = ku_sent ku @ new \<and> list_all P new)"

lemma asks_refl [simp, intro]: "asks P ku ku"
  by (simp add: asks_def)

lemma asks_trans: "asks P a b \<Longrightarrow> asks P b c \<Longrightarrow> asks P a c"
  by (force simp: asks_def)

lemma asks_mono: "asks P a b \<Longrightarrow> (\<And>q. P q \<Longrightarrow> Q q) \<Longrightarrow> asks Q a b"
  by (auto simp: asks_def list_all_iff)

abbreviation is_get :: "k8s_request \<Rightarrow> bool" where "is_get q \<equiv> kq_method q = ''GET''"

lemma call_asks:
  "k8s_call net cfg meth path body s = (r, s') \<Longrightarrow> (\<And>q. kq_method q = meth \<Longrightarrow> kq_body q = body \<Longrightarrow> P q) \<Longrightarrow> asks P s s'"
  by (auto simp: k8s_call_def default_transport_def asks_def split: prod.splits bool.splits option.splits sum.splits if_splits)

lemma get_configmap_asks: "get_configmap net cfg cm s = (r, s') \<Longrightarrow> asks is_get s s'"
  by (auto simp: get_configmap_def split: prod.splits intro: call_asks)

lemma rollout_asks: "statefulset_rollout net cfg sts s = (r, s') \<Longrightarrow> asks is_get s s'"
  by (auto simp: statefulset_rollout_def split: prod.splits intro: call_asks)

lemma load_nodegroups_asks: "load_nodegroups me s = (r, s') \<Longrightarrow> asks is_get s s'"
  by (auto simp: load_nodegroups_def split: prod.splits sum.splits dest: get_configmap_asks)

lemma dk_kube_db [simp]: "dk_kube (dk_on_db f d) = dk_kube d" "dk_kube (dk_log cu a d) = dk_kube d"
  "dk_kube (dk_flash m c d) = dk_kube d"
  by (simp_all add: dk_on_db_def dk_log_def dk_note_def dk_flash_def)

lemma record_asks:
  "record_restart_generation me d = (r, d') \<Longrightarrow> asks is_get (dk_kube d) (dk_kube d')"
  by (auto simp: record_restart_generation_def split: prod.splits sum.splits dest: rollout_asks)

lemma set_restart_asks: "set_restart_needed me cu d = (r, d') \<Longrightarrow> asks is_get (dk_kube d) (dk_kube d')"
  by (auto simp: set_restart_needed_def split: prod.splits sum.splits dest!: record_asks)

text \<open>The one replacement a request may make: the stanza of \<open>master.conf\<close>, over the revision that was read.\<close>

definition stanza_put :: "'w master_env \<Rightarrow> nodegroups \<Rightarrow> configmap \<Rightarrow> k8s_request \<Rightarrow> bool" where
  "stanza_put me groups cm q =
     (\<exists>data raw kvs. py_or (cm_data cm) (PDict []) = PDict data \<and> master_conf (PDict data) = Inr (PStr raw)
        \<and> (me_load me raw = Inr (PDict kvs) \<or> kvs = [] \<and> (\<exists>v. me_load me raw = Inr v \<and> \<not> py_truth v))
        \<and> kq_method q = ''PUT''
        \<and> kq_body q = Some (replace_body (me_cfg me) (me_cm me)
            (PDict (assoc_set ''master.conf'' (PStr (me_dump me (PDict (assoc_set ''nodegroups'' (PDict groups) kvs)))) data))
            (cm_revision cm)))"

lemma edit_stanza_text:
  assumes "edit_stanza me groups raw = Inr (Inr text)"
  obtains s kvs where "raw = PStr s" and "text = me_dump me (PDict (assoc_set ''nodegroups'' (PDict groups) kvs))"
    and "me_load me s = Inr (PDict kvs) \<or> kvs = [] \<and> (\<exists>v. me_load me s = Inr v \<and> \<not> py_truth v)"
proof -
  obtain s v where v: "raw = PStr s" "me_load me s = Inr v"
    using assms by (cases raw) (auto simp: edit_stanza_def load_yaml_def split: sum.splits if_splits)
  obtain kvs where "py_or v (PDict []) = PDict kvs"
      "text = me_dump me (PDict (assoc_set ''nodegroups'' (PDict groups) kvs))"
    using assms v by (cases "py_or v (PDict [])") (auto simp: edit_stanza_def load_yaml_def)
  then show ?thesis using v(2) by (intro that [OF v(1), of kvs]) (auto simp: py_or_def split: if_splits)
qed

lemma master_conf_or: "master_conf (py_or v (PDict [])) = master_conf v"
  by (auto simp: master_conf_def py_or_def)

text \<open>One replacement at most, the rest only reads.\<close>

definition one_put :: "(k8s_request \<Rightarrow> bool) \<Rightarrow> 'w kube \<Rightarrow> 'w kube \<Rightarrow> bool" where
  "one_put P ku ku' =
     (\<exists>new. ku_sent ku' = ku_sent ku @ new \<and> list_all (\<lambda>q. is_get q \<or> P q) new
        \<and> length (filter (\<lambda>q. \<not> is_get q) new) \<le> 1)"

lemma one_put_reads: "asks is_get ku ku' \<Longrightarrow> one_put P ku ku'"
  by (auto simp: asks_def one_put_def list_all_iff)

lemma one_put_then: "one_put P a b \<Longrightarrow> asks is_get b c \<Longrightarrow> one_put P a c"
  by (auto simp: asks_def one_put_def list_all_iff)

lemma one_put_after: "asks is_get a b \<Longrightarrow> one_put P b c \<Longrightarrow> one_put P a c"
  by (auto simp: asks_def one_put_def list_all_iff)

lemma call_once: "k8s_call net cfg meth path body s = (r, s')
    \<Longrightarrow> (\<And>q. kq_method q = meth \<Longrightarrow> kq_body q = body \<Longrightarrow> P q) \<Longrightarrow> one_put P s s'"
  by (auto simp: k8s_call_def default_transport_def one_put_def split: prod.splits bool.splits option.splits sum.splits if_splits)

lemma write_over_puts:
  assumes "write_over me cu groups cm d = (r, d')"
  shows "one_put (stanza_put me groups cm) (dk_kube d) (dk_kube d')"
proof (cases "res_bind (master_conf (cm_data cm)) (edit_stanza me groups)")
  case (Inl er)
  then show ?thesis using assms by (auto simp: write_over_def one_put_reads)
next
  case (Inr t)
  show ?thesis
  proof (cases t)
    case (Inl msg)
    then show ?thesis using assms Inr by (auto simp: write_over_def one_put_reads)
  next
    case tx: (Inr tx)
    obtain raw where raw: "master_conf (cm_data cm) = Inr raw" "edit_stanza me groups raw = Inr (Inr tx)"
      using Inr tx by auto
    obtain data where data: "py_or (cm_data cm) (PDict []) = PDict data"
      using raw(1) by (auto simp: master_conf_def py_get_def split: pyval.splits)
    let ?put = "put_conf tx (py_or (cm_data cm) (PDict []))"
    obtain x ku where rep: "replace_configmap (me_net me) (me_cfg me) (me_cm me) ?put (cm_revision cm) (dk_kube d) = (x, ku)"
      by fastforce
    have "stanza_put me groups cm q" if "kq_method q = ''PUT''"
        "kq_body q = Some (replace_body (me_cfg me) (me_cm me) ?put (cm_revision cm))" for q
      using edit_stanza_text [OF raw(2)] raw(1) that data master_conf_or [of "cm_data cm"]
      by (auto simp: stanza_put_def put_conf_def) metis+
    then have one: "one_put (stanza_put me groups cm) (dk_kube d) ku"
      using rep by (auto simp: replace_configmap_def split: prod.splits intro: call_once)
    show ?thesis
    proof (cases x)
      case (Inl er)
      then show ?thesis using assms Inr tx rep one by (auto simp: write_over_def)
    next
      case ok: (Inr v)
      obtain y d1 where fin: "set_restart_needed me cu (d\<lparr>dk_kube := ku\<rparr>) = (y, d1)" by fastforce
      then have "d' = d1" using assms Inr tx rep ok by (auto simp: write_over_def)
      then show ?thesis using one_put_then [OF one] set_restart_asks [OF fin] by simp
    qed
  qed
qed

lemma write_puts:
  assumes "write_nodegroups me cu groups d = (r, d')"
  shows "\<exists>cm. one_put (stanza_put me groups cm) (dk_kube d) (dk_kube d')"
proof -
  obtain x ku where g: "get_configmap (me_net me) (me_cfg me) (me_cm me) (dk_kube d) = (x, ku)" by fastforce
  have reads: "asks is_get (dk_kube d) ku" by (rule get_configmap_asks [OF g])
  show ?thesis
  proof (cases x)
    case (Inl er)
    then show ?thesis using assms g one_put_reads [OF reads] by (auto simp: write_nodegroups_def)
  next
    case (Inr cm)
    then have "write_over me cu groups cm (d\<lparr>dk_kube := ku\<rparr>) = (r, d')" using assms g by (simp add: write_nodegroups_def)
    from one_put_after [OF reads] write_over_puts [OF this] show ?thesis by auto
  qed
qed

lemma dk_redirect_kube [simp]: "dk_kube (snd (dk_redirect m c d)) = dk_kube d"
  by (simp add: dk_redirect_def)

lemma save_group_puts:
  assumes "save_group me cu nm expr groups d = (r, d')"
  shows "\<exists>cm. one_put (stanza_put me (assoc_set nm (PStr expr) groups) cm) (dk_kube d) (dk_kube d')"
proof -
  obtain x d1 where w: "write_nodegroups me cu (assoc_set nm (PStr expr) groups) d = (x, d1)" by fastforce
  have "dk_kube d' = dk_kube d1" using assms w by (auto simp: save_group_def dk_redirect_def split: sum.splits option.splits)
  then show ?thesis using write_puts [OF w] by simp
qed

lemma delete_group_puts:
  assumes "delete_group e me cu nm groups d = (r, d')"
  shows "\<exists>cm. one_put (stanza_put me (filter (\<lambda>(k, _). k \<noteq> nm) groups) cm) (dk_kube d) (dk_kube d')"
proof -
  obtain x d1 where w: "write_nodegroups me cu (filter (\<lambda>(k, _). k \<noteq> nm) groups) d = (x, d1)" by fastforce
  have "dk_kube d' = dk_kube d \<or> dk_kube d' = dk_kube d1"
    using assms w by (auto simp: delete_group_def dk_redirect_def split: sum.splits option.splits if_splits)
  then show ?thesis using write_puts [OF w] one_put_reads [OF asks_refl] by metis
qed

text \<open>What a post makes of the groups it has read.\<close>

definition posted_edit :: "form \<Rightarrow> nodegroups \<Rightarrow> nodegroups" where
  "posted_edit f groups =
     (if form_get f ''delete'' \<noteq> [] then filter (\<lambda>(k, _). k \<noteq> form_get f ''delete'') groups
      else assoc_set (py_strip (form_get f ''name''))
             (PStr (format_expression (prefix_field f) (py_strip (form_get f ''value'')))) groups)"

lemma body_puts:
  assumes "groups_save_body e me cu f d = (r, d')"
  shows "asks is_get (dk_kube d) (dk_kube d') \<or>
    (\<exists>groups ku cm. load_nodegroups me (dk_kube d) = (Inr (Some groups), ku)
       \<and> one_put (stanza_put me (posted_edit f groups) cm) (dk_kube d) (dk_kube d'))"
proof -
  obtain x ku where l: "load_nodegroups me (dk_kube d) = (x, ku)" by fastforce
  have reads: "asks is_get (dk_kube d) ku" by (rule load_nodegroups_asks [OF l])
  show ?thesis
  proof (cases x)
    case (Inl er)
    then show ?thesis using assms l reads by (auto simp: groups_save_body_def Let_def)
  next
    case (Inr ng)
    show ?thesis
    proof (cases ng)
      case None
      then show ?thesis using assms l reads Inr by (auto simp: groups_save_body_def Let_def dk_redirect_def)
    next
      case (Some groups)
      let ?d = "d\<lparr>dk_kube := ku\<rparr>"
      consider "asks is_get (dk_kube d) (dk_kube d')"
        | "delete_group e me cu (form_get f ''delete'') groups ?d = (r, d')" "form_get f ''delete'' \<noteq> []"
        | "save_group me cu (py_strip (form_get f ''name''))
             (format_expression (prefix_field f) (py_strip (form_get f ''value''))) groups ?d = (r, d')"
          "form_get f ''delete'' = []"
        using assms reads by (auto simp: groups_save_body_def l Inr Some dk_redirect_def Let_def split: if_splits)
      then show ?thesis
      proof cases
        case 2
        then obtain cm where "one_put (stanza_put me (posted_edit f groups) cm) ku (dk_kube d')"
          using delete_group_puts [OF 2(1)] by (auto simp: posted_edit_def)
        then show ?thesis using one_put_after [OF reads] l Inr Some by blast
      next
        case 3
        then obtain cm where "one_put (stanza_put me (posted_edit f groups) cm) ku (dk_kube d')"
          using save_group_puts [OF 3(1)] by (auto simp: posted_edit_def)
        then show ?thesis using one_put_after [OF reads] l Inr Some by blast
      qed simp
    qed
  qed
qed

text \<open>A post on the node groups replaces the ConfigMap at most once, over a revision it has read, and
  changes nothing in it but the node group stanza of \<open>master.conf\<close>: that stanza is the one of the
  first read with the posted entry set or removed. Everything else it sends is a read.\<close>

theorem group_post_puts_stanza:
  assumes "groups_save first e me cu f d = (r, d')"
  shows "asks is_get (dk_kube d) (dk_kube d') \<or>
    (\<exists>groups ku cm. load_nodegroups me (dk_kube d) = (Inr (Some groups), ku)
       \<and> one_put (stanza_put me (posted_edit f groups) cm) (dk_kube d) (dk_kube d'))"
proof -
  let ?gate = "\<lambda>k. roles_required first e cu [''operator''] (require e cu ''group.write'' None None ''no-grant'' k)"
  show ?thesis
  proof (cases "pass_gate ?gate (dk_ctx d)")
    case (Inl rc)
    then show ?thesis using assms by (cases rc) (auto simp: groups_save_def)
  next
    case (Inr c)
    then have "groups_save_body e me cu f (d\<lparr>dk_ctx := c\<rparr>) = (r, d')" using assms by (simp add: groups_save_def)
    from body_puts [OF this] show ?thesis by simp
  qed
qed

section \<open>The rows\<close>

text \<open>What setting the restart flag leaves of the store: settings and audit rows aside, everything.\<close>

definition same_but_settings :: "store \<Rightarrow> store \<Rightarrow> bool" where
  "same_but_settings db db' = (\<exists>kvs. same_but_audit (db\<lparr>settings := kvs\<rparr>) db')"

lemma settings_refl: "same_but_audit db db' \<Longrightarrow> same_but_settings db db'"
  unfolding same_but_settings_def by (rule exI [of _ "settings db"]) simp

lemma settings_self: "same_but_settings db db"
  by (simp add: settings_refl)

lemma settings_put: "same_but_settings (put_setting k v db) db' \<Longrightarrow> same_but_settings db db'"
  by (auto simp: same_but_settings_def put_setting_def)

lemma settings_log: "same_but_settings db db' \<Longrightarrow> same_but_settings db (log_event u a j o' p m x db')"
  unfolding same_but_settings_def by (blast intro: same_but_audit_trans same_but_audit_log)

lemma settings_put_last: "same_but_settings db db' \<Longrightarrow> same_but_settings db (put_setting k v db')"
proof -
  assume "same_but_settings db db'"
  then obtain kvs new n where "db' = (db\<lparr>settings := kvs\<rparr>)\<lparr>audit_events := audit_events db @ new,
      seq := (seq db)(''audit_events'' := n)\<rparr>"
    by (auto simp: same_but_settings_def same_but_audit_def)
  then have "put_setting k v db' = (db\<lparr>settings := assoc_set k v kvs\<rparr>)\<lparr>audit_events := audit_events db @ new,
      seq := (seq db)(''audit_events'' := n)\<rparr>"
    by (simp add: put_setting_def)
  then show ?thesis unfolding same_but_settings_def same_but_audit_def
    by (intro exI [of _ "assoc_set k v kvs"] exI [of _ new] exI [of _ n]) simp
qed

lemma dk_db [simp]: "c_db (dk_ctx (dk_on_db f d)) = f (c_db (dk_ctx d))"
  "c_db (dk_ctx (dk_flash m c d)) = c_db (dk_ctx d)"
  "c_db (dk_ctx (dk_log cu a d)) = log_event (u_username cu) a None None None None None (c_db (dk_ctx d))"
  by (simp_all add: dk_on_db_def dk_flash_def dk_log_def dk_note_def)

lemma set_restart_store:
  "set_restart_needed me cu d = (r, d') \<Longrightarrow> same_but_settings (c_db (dk_ctx d)) (c_db (dk_ctx d'))"
  by (auto simp: set_restart_needed_def record_restart_generation_def set_setting_def
      intro!: settings_put_last settings_log settings_self split: prod.splits sum.splits)

lemma write_store:
  "write_nodegroups me cu groups d = (r, d') \<Longrightarrow> same_but_settings (c_db (dk_ctx d)) (c_db (dk_ctx d'))"
  by (auto simp: write_nodegroups_def write_over_def intro: settings_refl dest!: set_restart_store
      split: prod.splits sum.splits if_splits)

lemma settings_tables:
  assumes "same_but_settings db db'"
  shows "minion_groups db' = minion_groups db" "minions db' = minions db" "grants db' = grants db"
    "users db' = users db" "idp_role_mappings db' = idp_role_mappings db" "seq db' ''minion_groups'' = seq db ''minion_groups''"
  using assms by (auto simp: same_but_settings_def same_but_audit_def)

lemma settings_wf: "same_but_settings db db' \<Longrightarrow> wf_store db \<Longrightarrow> wf_store db'"
  by (rule wf_store_cong [of db' db]) (auto simp: same_but_settings_def same_but_audit_def)

definition wf_minion_groups :: "store \<Rightarrow> bool" where
  "wf_minion_groups db =
     (distinct (map mg_id (minion_groups db)) \<and> distinct (map mg_name (minion_groups db))
      \<and> list_all (\<lambda>g. 0 \<le> mg_id g \<and> mg_id g < seq db ''minion_groups'') (minion_groups db)
      \<and> 0 \<le> seq db ''minion_groups'')"

lemma settings_wf_groups: "same_but_settings db db' \<Longrightarrow> wf_minion_groups db \<Longrightarrow> wf_minion_groups db'"
  by (simp add: wf_minion_groups_def settings_tables)

lemma wf_groups_log [simp]: "wf_minion_groups (log_event u a j o' p m x db) = wf_minion_groups db"
  by (simp add: wf_minion_groups_def)

lemma by_name_None: "minion_group_by_name db nm = None \<longleftrightarrow> nm \<notin> mg_name ` set (minion_groups db)"
  by (simp add: minion_group_by_name_def find_row_None)

lemma update_members_keys:
  "map mg_id (update_rows P (mg_members_update v) rs) = map mg_id rs"
  "map mg_name (update_rows P (mg_members_update v) rs) = map mg_name rs"
  "list_all (\<lambda>g. Q (mg_id g)) (update_rows P (mg_members_update v) rs) = list_all (\<lambda>g. Q (mg_id g)) rs"
  by (induction rs) (auto simp: update_rows_def)

lemma sync_wf:
  assumes "wf_store db \<and> wf_minion_groups db"
  shows "wf_store (sync_to_minion_group nm expr db) \<and> wf_minion_groups (sync_to_minion_group nm expr db)"
proof
  show "wf_store (sync_to_minion_group nm expr db)"
    by (rule wf_store_cong [OF _ _ _ _ _ conjunct1 [OF assms]])
      (auto simp: sync_to_minion_group_def bump_def Let_def split: option.splits)
  show "wf_minion_groups (sync_to_minion_group nm expr db)"
  proof (cases "minion_group_by_name db nm")
    case None
    then have "nm \<notin> mg_name ` set (minion_groups db)" by (simp add: by_name_None)
    then show ?thesis using assms None
      by (auto simp: sync_to_minion_group_def wf_minion_groups_def bump_def Let_def list_all_iff)
  next
    case (Some row)
    then show ?thesis using assms
      by (simp add: sync_to_minion_group_def wf_minion_groups_def Let_def
          update_members_keys(1,2) update_members_keys(3) [where Q = "\<lambda>i. 0 \<le> i \<and> i < seq db ''minion_groups''"])
        (auto simp: list_all_iff delete_rows_def distinct_map_filter)
  qed
qed

abbreviation wf_scopes :: "store \<Rightarrow> bool" where "wf_scopes db \<equiv> wf_store db \<and> wf_minion_groups db"

lemma write_wf:
  "write_nodegroups me cu groups d = (r, d') \<Longrightarrow> wf_scopes (c_db (dk_ctx d)) \<Longrightarrow> wf_scopes (c_db (dk_ctx d'))"
  using settings_wf settings_wf_groups write_store by blast

lemma audit_wf: "same_but_audit db db' \<Longrightarrow> wf_scopes db \<Longrightarrow> wf_scopes db'"
  using settings_wf settings_wf_groups settings_refl by blast

lemma redirect_db [simp]: "c_db (dk_ctx (snd (dk_redirect m c d))) = c_db (dk_ctx d)"
  by (simp add: dk_redirect_def)

lemma log_wf [simp]: "wf_store (log_event u a j o' p m x db) = wf_store db"
  by (simp add: wf_store_iff wf_keys_def)

lemma save_group_wf:
  assumes "save_group me cu nm expr groups d = (r, d')" and "wf_scopes (c_db (dk_ctx d))"
  shows "wf_scopes (c_db (dk_ctx d'))"
proof -
  obtain x d1 where w: "write_nodegroups me cu (assoc_set nm (PStr expr) groups) d = (x, d1)" by fastforce
  have "wf_scopes (c_db (dk_ctx d1))" by (rule write_wf [OF w assms(2)])
  then show ?thesis using assms(1) w sync_wf
    by (auto simp: save_group_def dk_redirect_def split: sum.splits option.splits)
qed

lemma delete_group_wf:
  assumes "delete_group e me cu nm groups d = (r, d')" and "wf_scopes (c_db (dk_ctx d))"
  shows "wf_scopes (c_db (dk_ctx d'))"
proof -
  obtain x d1 where w: "write_nodegroups me cu (filter (\<lambda>(k, _). k \<noteq> nm) groups) d = (x, d1)" by fastforce
  have "wf_scopes (c_db (dk_ctx d1))" by (rule write_wf [OF w assms(2)])
  moreover have "wf_scopes (audit_deny cu p m dt a (c_db (dk_ctx d)))" for p m dt a
    using audit_wf [OF audit_deny_same assms(2)] .
  ultimately show ?thesis using assms w sync_wf
    by (auto simp: delete_group_def dk_redirect_def split: sum.splits option.splits if_splits)
qed

lemma body_wf:
  assumes "groups_save_body e me cu f d = (r, d')" and "wf_scopes (c_db (dk_ctx d))"
  shows "wf_scopes (c_db (dk_ctx d'))"
proof -
  obtain x ku where l: "load_nodegroups me (dk_kube d) = (x, ku)" by fastforce
  show ?thesis
    using assms save_group_wf [of me cu _ _ _ "d\<lparr>dk_kube := ku\<rparr>" r d'] delete_group_wf [of e me cu _ _ "d\<lparr>dk_kube := ku\<rparr>" r d']
    by (auto simp: groups_save_body_def l dk_redirect_def Let_def split: sum.splits option.splits if_splits)
qed

text \<open>C26: The tables keep their shape: whatever is posted and whatever the cluster answers, a post on the node
  groups leaves the authorization tables well-formed, and the minion groups with distinct ids below
  their sequence and distinct names.\<close>

theorem group_post_keeps_wf:
  assumes "groups_save first e me cu f d = (r, d')" and "wf_scopes (c_db (dk_ctx d))"
  shows "wf_scopes (c_db (dk_ctx d'))"
proof -
  let ?gate = "\<lambda>k. roles_required first e cu [''operator''] (require e cu ''group.write'' None None ''no-grant'' k)"
  show ?thesis
  proof (cases "pass_gate ?gate (dk_ctx d)")
    case (Inl rc)
    then obtain x c where rc: "pass_gate ?gate (dk_ctx d) = Inl (x, c)" by (cases rc) simp
    have "wf_scopes (c_db c)" using audit_wf floor_gate.refused [OF rc] assms(2) by blast
    then show ?thesis using assms(1) rc by (auto simp: groups_save_def)
  next
    case (Inr c)
    then have "groups_save_body e me cu f (d\<lparr>dk_ctx := c\<rparr>) = (r, d')" using assms(1) by (simp add: groups_save_def)
    from body_wf [OF this] show ?thesis using floor_gate.passed_db [OF Inr] assms(2) by simp
  qed
qed

section \<open>Frozen groups and scopes\<close>

lemma find_row_distinct: "r \<in> set rs \<Longrightarrow> distinct (map key rs) \<Longrightarrow> find_row key (key r) rs = Some r"
  by (induction rs) force+

lemma delete_frozen:
  assumes "delete_group e me cu nm groups d = (r, d')" and "rbac_mode e (c_db (dk_ctx d)) = ''scoped''"
    and "minion_group_by_name (c_db (dk_ctx d)) nm = Some row"
    and "py_str_int (mg_id row) \<in> frozen_group_ids (c_db (dk_ctx d))"
  shows "same_but_audit (c_db (dk_ctx d)) (c_db (dk_ctx d')) \<and> dk_kube d' = dk_kube d"
  using assms by (auto simp: delete_group_def dk_redirect_def split: if_splits)

text \<open>A referenced group is not deleted: in scoped mode a post that asks to delete a node group whose row
  is the scope of a grant or of a provider mapping writes nothing to the cluster and changes nothing
  in the store but the audit trail.\<close>

theorem frozen_group_kept:
  assumes "groups_save first e me cu f d = (r, d')" and "rbac_mode e (c_db (dk_ctx d)) = ''scoped''"
    and "form_get f ''delete'' \<noteq> []"
    and "minion_group_by_name (c_db (dk_ctx d)) (form_get f ''delete'') = Some row"
    and "py_str_int (mg_id row) \<in> frozen_group_ids (c_db (dk_ctx d))"
  shows "same_but_audit (c_db (dk_ctx d)) (c_db (dk_ctx d')) \<and> asks is_get (dk_kube d) (dk_kube d')"
proof -
  let ?gate = "\<lambda>k. roles_required first e cu [''operator''] (require e cu ''group.write'' None None ''no-grant'' k)"
  show ?thesis
  proof (cases "pass_gate ?gate (dk_ctx d)")
    case (Inl rc)
    then obtain x c where rc: "pass_gate ?gate (dk_ctx d) = Inl (x, c)" by (cases rc) simp
    then show ?thesis using assms(1) floor_gate.refused [OF rc] by (auto simp: groups_save_def)
  next
    case (Inr c)
    note db = floor_gate.passed_db [OF Inr]
    have body: "groups_save_body e me cu f (d\<lparr>dk_ctx := c\<rparr>) = (r, d')"
      using assms(1) Inr by (simp add: groups_save_def)
    obtain x ku where l: "load_nodegroups me (dk_kube d) = (x, ku)" by fastforce
    have reads: "asks is_get (dk_kube d) ku" by (rule load_nodegroups_asks [OF l])
    show ?thesis using body reads assms(2-5) db
      by (auto simp: groups_save_body_def l dk_redirect_def Let_def split: sum.splits option.splits
          dest!: delete_frozen)
  qed
qed

text \<open>C27: Saving a list redefines every scope on the group: after a successful post of a list expression for an
  existing group, a grant scoped to that group covers exactly the snapshot minions the list names,
  whoever holds the grant, and the poster may be its holder.\<close>

theorem saved_list_is_scope:
  assumes "save_group me cu nm expr groups d = (r, d')" and "wf_minion_groups (c_db (dk_ctx d))"
    and "starts_with ''L@'' expr" and "minion_group_by_name (c_db (dk_ctx d)) nm = Some row"
    and "fst (write_nodegroups me cu (assoc_set nm (PStr expr) groups) d) = Inr None"
  shows "resolve_scope (c_db (dk_ctx d')) ''group'' (py_str_int (mg_id row))
    = set (list_members expr) \<inter> snapshot_ids (c_db (dk_ctx d))"
proof -
  obtain d1 where w: "write_nodegroups me cu (assoc_set nm (PStr expr) groups) d = (Inr None, d1)"
    using assms(5) by (metis prod.exhaust_sel)
  note same = settings_tables [OF write_store [OF w]]
  let ?db = "sync_to_minion_group nm expr (c_db (dk_ctx d1))"
  have row: "row \<in> set (minion_groups (c_db (dk_ctx d)))" "mg_name row = nm"
    using assms(4) find_row_Some by (fastforce simp: minion_group_by_name_def)+
  then have "0 \<le> mg_id row" using assms(2) by (auto simp: wf_minion_groups_def list_all_iff)
  then have i: "py_int (py_str_int (mg_id row)) = Some (mg_id row)" by (rule py_int_str)
  have dist: "distinct (map mg_id (minion_groups (c_db (dk_ctx d))))" using assms(2) by (simp add: wf_minion_groups_def)
  have byn: "minion_group_by_name (c_db (dk_ctx d1)) nm = Some row"
    using assms(4) same by (simp add: minion_group_by_name_def)
  have "find_row mg_id (mg_id row) (minion_groups (c_db (dk_ctx d))) = Some row"
    using row(1) dist by (rule find_row_distinct)
  then have "minion_group_by_id ?db (mg_id row) = Some (row\<lparr>mg_members := PList (map PStr (list_members expr))\<rparr>)"
    using assms(3) byn same by (simp add: sync_to_minion_group_def Let_def minion_group_by_id_def find_row_update)
  moreover have "snapshot_ids ?db = snapshot_ids (c_db (dk_ctx d))"
    using assms(3) byn same by (simp add: sync_to_minion_group_def Let_def snapshot_ids_def)
  moreover have "minion_groups (c_db (dk_ctx d')) = minion_groups ?db" "minions (c_db (dk_ctx d')) = minions ?db"
    using assms(1) w by (auto simp: save_group_def dk_redirect_def)
  ultimately show ?thesis
    by (simp add: resolve_scope_def scope_group_members_def i minion_group_by_id_def member_strs_def snapshot_ids_def
        comp_def)
qed

section \<open>Witnesses\<close>

text \<open>A cluster that answers every request with an empty object, and a lead of the web group.\<close>

definition demo_net :: "unit net" where
  "demo_net q w = (UrlOk 200 ''{}'', w)"

definition demo_master :: "unit master_env" where
  "demo_master = \<lparr>me_net = demo_net,
     me_cfg = \<lparr>kc_server = Some ''https://k'', kc_token = Some ''t'', kc_namespace = ''salt'', kc_ca_path = None\<rparr>,
     me_load = (\<lambda>_. Inr (PDict [(''nodegroups'', PDict [(''web'', PStr ''L@web-01,web-02'')])])),
     me_dump = (\<lambda>_. ''dump''), me_now = 100, me_sts = ''salt-master'', me_cm = ''salt-master-config''\<rparr>"

definition demo_desk :: "unit desk" where
  "demo_desk = \<lparr>dk_ctx = start demo_store, dk_kube = \<lparr>ku_world = (), ku_sent = []\<rparr>, dk_check = (0, False)\<rparr>"

definition widen_form :: form where
  "widen_form k = (if k = ''name'' then [''web''] else if k = ''value'' then [''web-01,db-01''] else [])"

definition drop_form :: form where
  "drop_form k = (if k = ''delete'' then [''web''] else [])"

abbreviation demo_post :: "user \<Rightarrow> form \<Rightarrow> resp \<times> unit desk" where
  "demo_post u f \<equiv> groups_save (\<lambda>_. []) demo_env demo_master u f demo_desk"

lemma demo_groups_wf: "wf_scopes (c_db (dk_ctx demo_desk))"
  using demo_wf by (simp add: demo_desk_def start_def) code_simp

definition legacy_desk :: "unit desk" where
  "legacy_desk = demo_desk\<lparr>dk_ctx := start (demo_store\<lparr>settings := [(''rbac_mode'', ''legacy'')]\<rparr>)\<rparr>"

abbreviation legacy_post :: "user \<Rightarrow> form \<Rightarrow> resp \<times> unit desk" where
  "legacy_post u f \<equiv> groups_save (\<lambda>_. []) demo_env demo_master u f legacy_desk"

lemma demo_json: "json_loads ''{}'' = Some (PDict [])"
  by code_simp

definition demo_request :: "string \<Rightarrow> string \<Rightarrow> pyval option \<Rightarrow> k8s_request" where
  "demo_request meth path body =
     \<lparr>kq_method = meth, kq_url = ''https://k'' @ path, kq_body = body, kq_token = ''t'',
      kq_content_type = k8s_content_type meth body, kq_ca_path = None, kq_timeout = 10\<rparr>"

lemma demo_call:
  "k8s_call (me_net demo_master) (me_cfg demo_master) meth path body s
     = (Inr (PDict []), \<lparr>ku_world = ku_world s, ku_sent = ku_sent s @ [demo_request meth path body]\<rparr>)"
  by (simp add: k8s_call_def k8s_available_def demo_master_def default_transport_def demo_net_def
      transport_reply_def load_json_def demo_json demo_request_def)

lemmas demo_calls = get_configmap_def replace_configmap_def statefulset_rollout_def get_or_dict_def revision_of_def
  rollout_of_def py_get_def py_or_def master_conf_def load_yaml_def edit_stanza_def put_conf_def

lemma demo_yaml:
  "me_load demo_master t = Inr (PDict [(''nodegroups'', PDict [(''web'', PStr ''L@web-01,web-02'')])])"
  "me_dump demo_master v = ''dump''"
  by (simp_all add: demo_master_def)

lemma demo_write:
  "write_nodegroups demo_master cu groups d =
     (Inr None, dk_log cu ''restart-pending:config-change''
        (dk_on_db (set_setting RESTART_GEN_KEY ''None'') (dk_on_db (set_setting RESTART_KEY ''1'')
          (d\<lparr>dk_check := (0, False),
             dk_kube := \<lparr>ku_world = (), ku_sent = ku_sent (dk_kube d)
               @ [demo_request ''GET'' (configmap_path (me_cfg demo_master) (me_cm demo_master)) None,
                  demo_request ''PUT'' (configmap_path (me_cfg demo_master) (me_cm demo_master))
                    (Some (replace_body (me_cfg demo_master) (me_cm demo_master)
                      (PDict [(''master.conf'', PStr ''dump'')]) (PStr []))),
                  demo_request ''GET'' (statefulset_path (me_cfg demo_master) (me_sts demo_master)) None]\<rparr>\<rparr>))))"
  by (simp add: write_nodegroups_def write_over_def demo_call demo_calls set_restart_needed_def
      record_restart_generation_def dk_on_db_def demo_yaml)

lemma legacy_gate:
  "pass_gate (\<lambda>k. roles_required (\<lambda>_. []) demo_env oper [''operator'']
     (require demo_env oper ''group.write'' None None ''no-grant'' k)) (dk_ctx legacy_desk) = Inr (dk_ctx legacy_desk)"
proof -
  have "rbac_mode demo_env (c_db (dk_ctx legacy_desk)) = ''legacy''"
    "1 \<le> role_level (u_role oper)" by code_simp+
  then show ?thesis by (simp add: pass_gate_def roles_required_def require_def Let_def)
qed

lemma widen_fields:
  "py_strip (form_get widen_form ''name'') = ''web''" "py_strip (form_get widen_form ''value'') = ''web-01,db-01''"
  "form_get widen_form ''delete'' = []" by code_simp+

theorem group_post_puts_stanza_witness:
  "\<exists>groups ku cm. load_nodegroups demo_master (dk_kube legacy_desk) = (Inr (Some groups), ku)
     \<and> one_put (stanza_put demo_master (posted_edit widen_form groups) cm) (dk_kube legacy_desk)
         (dk_kube (snd (legacy_post oper widen_form)))"
proof -
  have "list_ex (\<lambda>q. \<not> is_get q) (ku_sent (dk_kube (snd (legacy_post oper widen_form))))"
    by (simp add: groups_save_def legacy_gate groups_save_body_def load_nodegroups_def demo_call demo_calls demo_yaml widen_fields
        Let_def save_group_def demo_write dk_redirect_def demo_request_def)
  then have "\<not> asks is_get (dk_kube legacy_desk) (dk_kube (snd (legacy_post oper widen_form)))"
    by (auto simp: asks_def legacy_desk_def demo_desk_def list_all_iff list_ex_iff)
  moreover obtain r d where p: "legacy_post oper widen_form = (r, d)" by (cases "legacy_post oper widen_form")
  ultimately show ?thesis using group_post_puts_stanza [OF p] by (simp add: p)
qed

theorem group_post_keeps_wf_witness:
  "wf_scopes (c_db (dk_ctx (snd (demo_post lead widen_form))))"
proof -
  obtain r d where p: "demo_post lead widen_form = (r, d)" by (cases "demo_post lead widen_form")
  show ?thesis using group_post_keeps_wf [OF p demo_groups_wf] by (simp only: p snd_conv simp_thms)
qed

theorem frozen_group_kept_witness:
  "minion_groups (c_db (dk_ctx (snd (demo_post root drop_form)))) = minion_groups demo_store"
proof -
  have m: "minion_group_by_name (c_db (dk_ctx demo_desk)) (form_get drop_form ''delete'') =
      Some \<lparr>mg_id = 1, mg_name = ''web'', mg_members = PList [PStr ''web-01'', PStr ''web-02''], mg_created_at = 0\<rparr>"
    by code_simp
  obtain r d where p: "demo_post root drop_form = (r, d)" by (cases "demo_post root drop_form")
  have "rbac_mode demo_env (c_db (dk_ctx demo_desk)) = ''scoped''" "form_get drop_form ''delete'' \<noteq> []"
    "''1'' \<in> frozen_group_ids (c_db (dk_ctx demo_desk))" "py_str_int 1 = ''1''" by code_simp+
  then have "same_but_audit (c_db (dk_ctx demo_desk)) (c_db (dk_ctx d))"
    using frozen_group_kept [OF p _ _ m] by simp
  then have "same_but_audit (c_db (dk_ctx demo_desk)) (c_db (dk_ctx (snd (demo_post root drop_form))))"
    by (simp only: p snd_conv)
  then show ?thesis by (auto dest: same_but_audit_tables(7) simp: demo_desk_def start_def)
qed


text \<open>A lead of the web group who saves it with a foreign minion holds that minion from then on.\<close>

lemma lead_widens_own_group:
  "authorize demo_env fresh (sync_to_minion_group ''web'' ''L@web-01,db-01'' demo_store) lead ''minion.read'' (Some ''db-01'') None"
  by code_simp

lemma lead_before: "\<not> authorize demo_env fresh demo_store lead ''minion.read'' (Some ''db-01'') None"
  by code_simp

definition demo_save :: "resp \<times> unit desk" where
  "demo_save = save_group demo_master lead ''web'' ''L@web-01,db-01'' [] demo_desk"

theorem saved_list_is_scope_witness:
  "resolve_scope (c_db (dk_ctx (snd demo_save))) ''group'' ''1'' = {''web-01'', ''db-01''}"
proof -
  let ?row = "\<lparr>mg_id = 1, mg_name = ''web'', mg_members = PList [PStr ''web-01'', PStr ''web-02''], mg_created_at = 0\<rparr>"
  obtain r d where p: "demo_save = (r, d)" by (cases demo_save)
  have a: "starts_with ''L@'' ''L@web-01,db-01''" by code_simp
  have b: "minion_group_by_name (c_db (dk_ctx demo_desk)) ''web'' = Some ?row" by code_simp
  have c: "fst (write_nodegroups demo_master lead (assoc_set ''web'' (PStr ''L@web-01,db-01'') []) demo_desk) = Inr None"
    by (simp add: demo_write)
  have "resolve_scope (c_db (dk_ctx d)) ''group'' (py_str_int (mg_id ?row))
      = set (list_members ''L@web-01,db-01'') \<inter> snapshot_ids (c_db (dk_ctx demo_desk))"
    by (rule saved_list_is_scope [OF p [unfolded demo_save_def] conjunct2 [OF demo_groups_wf] a b c])
  moreover have "set (list_members ''L@web-01,db-01'') \<inter> snapshot_ids (c_db (dk_ctx demo_desk)) = {''web-01'', ''db-01''}"
    by code_simp
  moreover have "py_str_int (mg_id ?row) = ''1''" by code_simp
  ultimately show ?thesis by (simp only: p snd_conv)
qed

text \<open>The other way round the freeze: an expression that is not a list removes the row a grant is scoped to.\<close>

lemma frozen_group_dropped:
  "''1'' \<in> frozen_group_ids demo_store
   \<and> minion_groups (c_db (dk_ctx (snd (save_group demo_master root ''web'' ''G@os:*'' [] demo_desk)))) = []"
proof
  show "''1'' \<in> frozen_group_ids demo_store" by code_simp
  have "starts_with ''L@'' ''G@os:*'' = False" "minion_group_by_name demo_store ''web'' \<noteq> None" by code_simp+
  then show "minion_groups (c_db (dk_ctx (snd (save_group demo_master root ''web'' ''G@os:*'' [] demo_desk)))) = []"
    by (auto simp: save_group_def demo_write dk_redirect_def sync_to_minion_group_def demo_desk_def start_def
        minion_group_by_name_def set_setting_def put_setting_def demo_store_def delete_rows_def split: if_splits)
qed

end
