(* ===== verification/JsonText.thy ===== *)
theory JsonText
  imports PyValue
begin

text \<open>
  \<open>json.dumps\<close> of a whole value, and the round trip through \<open>json.loads\<close>: a value without floats whose
  dictionaries have distinct keys comes back as it was. What the program keeps as JSON text, in a
  settings row or in a ConfigMap, is read back through this law.
\<close>

definition json_float :: "string \<Rightarrow> string" where
  "json_float shown =
     (if shown = ''inf'' then ''Infinity'' else if shown = ''-inf'' then ''-Infinity''
      else if shown = ''nan'' then ''NaN'' else shown)"

fun json_dumps :: "pyval \<Rightarrow> string"
and dump_items :: "pyval list \<Rightarrow> string list"
and dump_pairs :: "(string \<times> pyval) list \<Rightarrow> string list" where
  "json_dumps PNone = ''null''"
| "json_dumps (PBool b) = (if b then ''true'' else ''false'')"
| "json_dumps (PInt i) = py_str_int i"
| "json_dumps (PFloat _ shown) = json_float shown"
| "json_dumps (PStr s) = json_quote s"
| "json_dumps (PList xs) = ''['' @ py_join '', '' (dump_items xs) @ '']''"
| "json_dumps (PDict kvs) = ''{'' @ py_join '', '' (dump_pairs kvs) @ ''}''"
| "dump_items [] = []"
| "dump_items (x # xs) = json_dumps x # dump_items xs"
| "dump_pairs [] = []"
| "dump_pairs ((k, v) # kvs) = (json_quote k @ '': '' @ json_dumps v) # dump_pairs kvs"

fun json_plain :: "pyval \<Rightarrow> bool"
and plain_items :: "pyval list \<Rightarrow> bool"
and plain_pairs :: "(string \<times> pyval) list \<Rightarrow> bool" where
  "json_plain (PFloat _ _) = False"
| "json_plain (PList xs) = plain_items xs"
| "json_plain (PDict kvs) = (distinct (map fst kvs) \<and> plain_pairs kvs)"
| "json_plain _ = True"
| "plain_items [] = True"
| "plain_items (x # xs) = (json_plain x \<and> plain_items xs)"
| "plain_pairs [] = True"
| "plain_pairs ((k, v) # kvs) = (json_plain v \<and> plain_pairs kvs)"

text \<open>What may follow a value inside a document.\<close>

definition json_stop :: "string \<Rightarrow> bool" where
  "json_stop r = (r = [] \<or> hd r \<in> {CHR '','', CHR '']'', CHR ''}''})"

section \<open>Numbers\<close>

lemma take_digits_app:
  assumes "list_all ascii_digit s" and "r = [] \<or> \<not> ascii_digit (hd r)"
  shows "take_digits (s @ r) = (s, r)"
  using assms by (cases r) (auto simp: take_digits_def list_all_iff takeWhile_append2 dropWhile_append2)

lemma nat_str_head:
  assumes "0 < n"
  shows "\<exists>c cs. nat_str n = c # cs \<and> c \<noteq> CHR ''0'' \<and> ascii_digit c"
  using assms
proof (induction n rule: nat_str.induct)
  case (1 n)
  show ?case
  proof (cases "n < 10")
    case True
    then have "digit_char n \<noteq> CHR ''0''" using 1(2) digit_val_digit_char [of n]
      by (auto simp: digit_val_def Let_def)
    then show ?thesis using True by (subst nat_str.simps) (simp add: ascii_digit_char)
  next
    case False
    then have "0 < n div 10" by (simp add: div_greater_zero_iff)
    then obtain c cs where "nat_str (n div 10) = c # cs" "c \<noteq> CHR ''0''" "ascii_digit c"
      using 1(1) False by auto
    then show ?thesis using False by (subst nat_str.simps) auto
  qed
qed

lemma stop_not_number:
  "json_stop r \<Longrightarrow> (r = [] \<or> \<not> ascii_digit (hd r)) \<and> json_frac r = ([], r) \<and> json_exp r = (None, r)"
  by (cases r) (auto simp: json_stop_def ascii_digit_def json_frac_def json_exp_def take_digits_def)

lemma nat_digits: "list_all ascii_digit (nat_str n)" "digits_nat (nat_str n) = n"
  by (simp_all add: nat_str_digits digits_nat_def digits_val_nat_str)

lemma json_number_nat:
  assumes "json_stop r"
  shows "json_number (nat_str n @ r) = Some (PInt (int n), r)"
proof (cases "n = 0")
  case True
  have "char_of (48 :: nat) = CHR ''0''" by code_simp
  then have s: "nat_str n = ''0''" using True by (subst nat_str.simps) (simp add: digit_char_def)
  then show ?thesis using True stop_not_number [OF assms] nat_digits(2) [of 0] s
    by (simp add: json_number_def ascii_digit_def)
next
  case False
  then obtain c cs where s: "nat_str n = c # cs" "c \<noteq> CHR ''0''" "ascii_digit c" using nat_str_head by blast
  then have c: "c \<noteq> CHR ''-''" by (auto dest: ascii_digit_no_sign)
  have "take_digits (nat_str n @ r) = (nat_str n, r)"
    by (rule take_digits_app) (use nat_digits stop_not_number [OF assms] in auto)
  then show ?thesis using s c stop_not_number [OF assms] nat_digits(2) [of n]
    by (simp add: json_number_def)
qed

lemma json_number_neg:
  assumes "json_stop r" and "0 < n"
  shows "json_number (CHR ''-'' # nat_str n @ r) = Some (PInt (- int n), r)"
proof -
  obtain c cs where s: "nat_str n = c # cs" "c \<noteq> CHR ''0''" "ascii_digit c" using nat_str_head assms(2) by blast
  have "take_digits (nat_str n @ r) = (nat_str n, r)"
    by (rule take_digits_app) (use nat_digits stop_not_number [OF assms(1)] in auto)
  then show ?thesis using s stop_not_number [OF assms(1)] nat_digits(2) [of n]
    by (simp add: json_number_def)
qed

lemma json_literal_int:
  assumes "json_stop r"
  shows "json_literal (py_str_int i @ r) = Some (PInt i, r)"
proof (cases "i < 0")
  case True
  obtain c cs where s: "nat_str (nat (- i)) = c # cs" "ascii_digit c" using nat_str_head [of "nat (- i)"] True by auto
  then have "CHR ''I'' \<noteq> c" by (auto simp: ascii_digit_def)
  then show ?thesis using True json_number_neg [OF assms, of "nat (- i)"] s
    by (simp add: json_literal_def py_str_int_def drop_prefix_def)
next
  case False
  obtain c cs where s: "nat_str (nat i) = c # cs" by (cases "nat_str (nat i)") auto
  have "ascii_digit c" using nat_digits(1) [of "nat i"] s by simp
  then have "CHR ''n'' \<noteq> c" "CHR ''t'' \<noteq> c" "CHR ''f'' \<noteq> c" "CHR ''N'' \<noteq> c" "CHR ''I'' \<noteq> c" "CHR ''-'' \<noteq> c"
    by (auto simp: ascii_digit_def)
  then show ?thesis using False json_number_nat [OF assms, of "nat i"] s
    by (simp add: json_literal_def py_str_int_def drop_prefix_def)
qed

lemma int_head: "\<exists>c cs. py_str_int i = c # cs \<and> c \<notin> set ''\"[{'' \<and> \<not> json_ws c"
proof (cases "i < 0")
  case True
  then show ?thesis by (simp add: py_str_int_def json_ws_def)
next
  case False
  obtain c cs where s: "nat_str (nat i) = c # cs" by (cases "nat_str (nat i)") auto
  moreover have "ascii_digit c" using nat_digits(1) [of "nat i"] s by simp
  ultimately show ?thesis using False by (auto simp: py_str_int_def ascii_digit_def json_ws_def)
qed

section \<open>The round trip\<close>

text \<open>How a printed value starts: never with white space or a closing bracket.\<close>

definition opens_value :: "string \<Rightarrow> bool" where
  "opens_value s = (s \<noteq> [] \<and> hd s \<notin> set '']}'' \<and> \<not> json_ws (hd s))"

lemma dumps_opens: "json_plain v \<Longrightarrow> opens_value (json_dumps v)"
proof (cases v)
  case (PInt i)
  have "c \<notin> set '']}''" if "ascii_digit c \<or> c = CHR ''-''" for c using that by (auto simp: ascii_digit_def)
  moreover have "ascii_digit (hd (nat_str n))" for n using nat_digits(1) [of n] by (cases "nat_str n") auto
  moreover have "\<not> json_ws c" if "ascii_digit c" for c using that by (auto simp: ascii_digit_def json_ws_def)
  ultimately show ?thesis using PInt by (auto simp: opens_value_def py_str_int_def json_ws_def)
qed (auto simp: opens_value_def json_ws_def json_quote_def)

lemma skip_opens: "opens_value s \<Longrightarrow> skip_ws (s @ r) = s @ r"
  by (cases s) (auto simp: opens_value_def skip_ws_def)

lemma skip_space: "opens_value s \<Longrightarrow> skip_ws (CHR '' '' # s @ r) = s @ r"
  using skip_opens [of s r] by (simp add: skip_ws_def json_ws_def)

lemma join_opens: "opens_value x \<Longrightarrow> opens_value (py_join sep (x # xs))"
  by (cases xs) (auto simp: opens_value_def)

lemma skip_stop: "json_stop r \<Longrightarrow> skip_ws r = r"
  by (cases r) (auto simp: json_stop_def skip_ws_def json_ws_def)

lemma fold_assoc_distinct:
  "distinct (map fst kvs) \<Longrightarrow> set (map fst kvs) \<inter> set (map fst acc) = {}
   \<Longrightarrow> fold (\<lambda>(k, v) acc. assoc_set k v acc) kvs acc = acc @ kvs"
proof (induction kvs arbitrary: acc)
  case (Cons kv kvs)
  obtain k v where kv: "kv = (k, v)" by fastforce
  have "k \<notin> set (map fst acc) \<Longrightarrow> assoc_set k v acc = acc @ [(k, v)]" for acc
    by (induction k v acc rule: assoc_set.induct) auto
  then have "assoc_set k v acc = acc @ [(k, v)]" using Cons.prems by (auto simp: kv)
  then show ?case using Cons by (simp add: kv)
qed simp

lemma members_of_distinct: "distinct (map fst kvs) \<Longrightarrow> fold (\<lambda>(k, v) acc. assoc_set k v acc) kvs [] = kvs"
  by (simp add: fold_assoc_distinct)

lemma skip_colon [simp]: "skip_ws (CHR '':'' # t) = CHR '':'' # t"
  by (simp add: skip_ws_def json_ws_def)

definition round_ok :: "pyval \<Rightarrow> bool" where
  "round_ok v = (\<forall>n r. length (json_dumps v) \<le> n \<longrightarrow> json_stop r \<longrightarrow> json_value n (json_dumps v @ r) = Some (v, r))"

lemma stops [simp]: "json_stop (CHR '','' # r)" "json_stop (CHR '']'' # r)" "json_stop (CHR ''}'' # r)"
  by (simp_all add: json_stop_def)

lemma items_round:
  assumes "plain_items xs" and "list_all round_ok xs" and "xs \<noteq> []" and "length (py_join '', '' (dump_items xs)) < m"
  shows "json_elems m (py_join '', '' (dump_items xs) @ CHR '']'' # r) = Some (xs, r)"
  using assms
proof (induction xs arbitrary: m)
  case (Cons x xs)
  obtain k where m: "m = Suc k" using Cons.prems by (cases m) auto
  have rest: "json_value k (json_dumps x @ t) = Some (x, t)" if "json_stop t" for t
    using Cons.prems that m by (cases xs) (auto simp: round_ok_def)
  show ?case
  proof (cases xs)
    case Nil
    then show ?thesis using rest [of "CHR '']'' # r"] by (simp add: m skip_stop)
  next
    case (Cons y ys)
    have op: "opens_value (py_join '', '' (dump_items xs))"
      using Cons.prems(1) Cons join_opens [OF dumps_opens] by simp
    have "json_elems k (py_join '', '' (dump_items xs) @ CHR '']'' # r) = Some (xs, r)"
      using Cons.IH [of k] Cons.prems Cons m by simp
    then show ?thesis
      using rest [of "CHR '','' # CHR '' '' # py_join '', '' (dump_items xs) @ CHR '']'' # r"] Cons
      by (simp add: m skip_stop skip_space [OF op, unfolded Cons dump_items.simps])
  qed
qed simp

lemma pairs_round:
  assumes "plain_pairs kvs" and "list_all round_ok (map snd kvs)" and "kvs \<noteq> []"
    and "length (py_join '', '' (dump_pairs kvs)) < m"
  shows "json_members m (py_join '', '' (dump_pairs kvs) @ CHR ''}'' # r) = Some (kvs, r)"
  using assms
proof (induction kvs arbitrary: m)
  case (Cons kv kvs)
  obtain k v where kv: "kv = (k, v)" by fastforce
  obtain n where m: "m = Suc n" using Cons.prems by (cases m) auto
  have rest: "json_value n (json_dumps v @ t) = Some (v, t)" if "json_stop t" for t
    using Cons.prems that m kv by (cases kvs) (auto simp: round_ok_def)
  have op: "opens_value (json_dumps v)" using Cons.prems(1) dumps_opens by (simp add: kv)
  have json_quote_app: "json_quote k @ t = CHR 0x22 # concat (map json_escape k) @ CHR 0x22 # t" for t
    by (simp add: json_quote_def)
  show ?case
  proof (cases kvs)
    case Nil
    then show ?thesis using rest [of "CHR ''}'' # r"]
      by (simp add: m kv json_quote_app json_str_quote skip_stop skip_space [OF op] del: json_str.simps)
  next
    case (Cons p ps)
    obtain k' v' where p: "p = (k', v')" by fastforce
    have op2: "opens_value (py_join '', '' (dump_pairs kvs))"
      unfolding Cons p dump_pairs.simps
      by (rule join_opens) (simp add: opens_value_def json_quote_def json_ws_def)
    define J where "J = py_join '', '' (dump_pairs kvs)"
    have "json_members n (J @ CHR ''}'' # r) = Some (kvs, r)"
      using Cons.IH [of n] Cons.prems Cons m by (simp add: kv p J_def)
    moreover have "py_join '', '' (dump_pairs (kv # kvs))
        = json_quote k @ CHR '':'' # CHR '' '' # json_dumps v @ CHR '','' # CHR '' '' # J"
      using Cons p by (simp add: kv J_def)
    ultimately show ?thesis
      using rest [of "CHR '','' # CHR '' '' # J @ CHR ''}'' # r"]
      by (simp add: m kv json_quote_app json_str_quote skip_stop skip_space [OF op]
          skip_space [OF op2, folded J_def] del: json_str.simps dump_pairs.simps)
  qed
qed simp

lemma round_okI:
  assumes "json_dumps v \<noteq> []"
    and "\<And>n r. json_stop r \<Longrightarrow> length (json_dumps v) \<le> Suc n \<Longrightarrow> json_value (Suc n) (json_dumps v @ r) = Some (v, r)"
  shows "round_ok v"
  unfolding round_ok_def
proof (intro allI impI)
  fix n r
  assume a: "length (json_dumps v) \<le> n" "json_stop r"
  then obtain k where "n = Suc k" using assms(1) by (cases n) auto
  then show "json_value n (json_dumps v @ r) = Some (v, r)" using assms(2) a by simp
qed

lemma plain_items_iff: "plain_items xs = list_all json_plain xs"
  by (induction xs) auto

lemma plain_pairs_iff: "plain_pairs kvs = list_all json_plain (map snd kvs)"
  by (induction kvs) auto

lemma round_trip: "json_plain v \<Longrightarrow> round_ok v"
proof (induction v)
  case (PInt i)
  obtain c cs where c: "py_str_int i = c # cs" "c \<notin> set ''\"[{''" using int_head by blast
  show ?case using c json_literal_int [of _ i] by (intro round_okI) auto
next
  case (PBool b)
  show ?case by (rule round_okI) (simp_all add: json_literal_def drop_prefix_def)
next
  case PNone
  show ?case by (rule round_okI) (simp_all add: json_literal_def drop_prefix_def)
next
  case (PStr s)
  show ?case by (rule round_okI) (simp_all add: json_value_quote del: json_value.simps, simp add: json_quote_def)
next
  case (PList xs)
  have ok: "list_all round_ok xs" "plain_items xs" using PList by (auto simp: plain_items_iff list_all_iff)
  show ?case
  proof (cases xs)
    case Nil
    then show ?thesis by (intro round_okI) (simp_all add: skip_ws_def json_ws_def)
  next
    case (Cons y ys)
    have op: "opens_value (py_join '', '' (dump_items xs))"
      using ok(2) Cons join_opens [OF dumps_opens] by simp
    then obtain d ds where d: "py_join '', '' (dump_items xs) = d # ds" "d \<noteq> CHR '']''"
      by (cases "py_join '', '' (dump_items xs)") (auto simp: opens_value_def)
    show ?thesis
    proof (rule round_okI)
      fix n r
      assume "length (json_dumps (PList xs)) \<le> Suc n"
      then have "json_elems n (py_join '', '' (dump_items xs) @ CHR '']'' # r) = Some (xs, r)"
        using Cons by (intro items_round ok) auto
      then show "json_value (Suc n) (json_dumps (PList xs) @ r) = Some (PList xs, r)"
        using skip_opens [OF op, of "CHR '']'' # r"] d by simp
    qed simp
  qed
next
  case (PDict kvs)
  have ok: "list_all round_ok (map snd kvs)" "plain_pairs kvs" "distinct (map fst kvs)"
    using PDict by (auto simp: plain_pairs_iff list_all_iff)
  show ?case
  proof (cases kvs)
    case Nil
    then show ?thesis by (intro round_okI) (simp_all add: skip_ws_def json_ws_def)
  next
    case (Cons p ps)
    obtain k v where p: "p = (k, v)" by fastforce
    have op: "opens_value (py_join '', '' (dump_pairs kvs))"
      unfolding Cons p dump_pairs.simps by (rule join_opens) (simp add: opens_value_def json_quote_def json_ws_def)
    then obtain d ds where d: "py_join '', '' (dump_pairs kvs) = d # ds" "d \<noteq> CHR ''}''"
      by (cases "py_join '', '' (dump_pairs kvs)") (auto simp: opens_value_def)
    show ?thesis
    proof (rule round_okI)
      fix n r
      assume "length (json_dumps (PDict kvs)) \<le> Suc n"
      then have "json_members n (py_join '', '' (dump_pairs kvs) @ CHR ''}'' # r) = Some (kvs, r)"
        using Cons by (intro pairs_round ok) auto
      then show "json_value (Suc n) (json_dumps (PDict kvs) @ r) = Some (PDict kvs, r)"
        using skip_opens [OF op, of "CHR ''}'' # r"] d members_of_distinct [OF ok(3)] by simp
    qed simp
  qed
qed simp

theorem json_loads_dumps_plain:
  assumes "json_plain v"
  shows "json_loads (json_dumps v) = Some v"
proof -
  have "skip_ws (json_dumps v) = json_dumps v" using skip_opens [OF dumps_opens [OF assms], of "[]"] by simp
  moreover have "json_value (2 * length (json_dumps v) + 2) (json_dumps v @ []) = Some (v, [])"
    by (rule round_trip [OF assms, unfolded round_ok_def, rule_format]) (simp_all add: json_stop_def)
  ultimately show ?thesis by (simp add: json_loads_def skip_ws_def del: json_value.simps)
qed

end
