(* ===== verification/MasterConfig.thy ===== *)
theory MasterConfig
  imports NodeGroups JsonText
begin

text \<open>
  The master configuration pages, \<open>overstate_ui/masterconfig.py\<close>: a save that first snapshots the
  live ConfigMap into a history of at most twenty revisions, the revert to the last of them, and the
  restart of the masters, whose outcome a background thread writes into a settings row that the page
  polls. Dates are microseconds; \<open>mc_iso\<close> and \<open>mc_iso_seconds\<close> print one and \<open>mc_parse\<close> reads one back.
\<close>

section \<open>Constants and names\<close>

definition HISTORY_KEY :: string where "HISTORY_KEY = ''history.json''"
definition REVISION_LIMIT :: nat where "REVISION_LIMIT = 20"
definition RESTART_MAX_POLLS :: nat where "RESTART_MAX_POLLS = 36"
definition POLL_INTERVAL_S :: int where "POLL_INTERVAL_S = 5"
definition RESTART_STATE_KEY :: string where "RESTART_STATE_KEY = ''master_restart_state''"
definition RESTART_ESTIMATE_S :: int where "RESTART_ESTIMATE_S = 90"
definition RESTART_STALE_S :: int where "RESTART_STALE_S = 600"
definition RESTART_NOTICE_S :: int where "RESTART_NOTICE_S = 300"
definition YAML_SUFFIXES :: "string list" where "YAML_SUFFIXES = [''.conf'', ''.yaml'', ''.yml'']"
definition AUTH_ADJACENT :: "string list" where "AUTH_ADJACENT = [''api.conf'']"
definition MAX_BYTES :: nat where "MAX_BYTES = 256 * 1024"

record 'w config_env = "'w master_env" +
  mc_history :: string
  mc_clock :: int
  mc_iso :: "int \<Rightarrow> string"
  mc_iso_seconds :: "int \<Rightarrow> string"
  mc_parse :: "string \<Rightarrow> int option"
  mc_sleep :: "'w \<Rightarrow> 'w"
  mc_healthy :: "'w \<Rightarrow> bool \<times> 'w"

definition ends_with :: "string \<Rightarrow> string \<Rightarrow> bool" where
  "ends_with suf s = starts_with (rev suf) (rev s)"

definition is_yaml_key :: "string \<Rightarrow> bool" where
  "is_yaml_key key = list_ex (\<lambda>suf. ends_with suf key) YAML_SUFFIXES"

definition kubectl_edit :: "string \<Rightarrow> string \<Rightarrow> string" where
  "kubectl_edit namespace cm = ''kubectl -n '' @ namespace @ '' edit configmap '' @ cm"

definition yaml_error :: "'w config_env \<Rightarrow> string \<Rightarrow> string \<Rightarrow> string option res" where
  "yaml_error me key text =
     (if \<not> is_yaml_key key then Inr None
      else
        (case me_load me text of
           Inl (YamlError m) \<Rightarrow> Inr (Some (''Invalid YAML: '' @ take 300 m))
         | Inl er \<Rightarrow> Inl er
         | Inr parsed \<Rightarrow>
             Inr (if parsed \<noteq> PNone \<and> \<not> is_dict parsed
                  then Some ''Config files must be a top-level mapping.'' else None)))"

section \<open>History\<close>

text \<open>The revisions and the version they were read at; a missing history is empty.\<close>

definition parse_history :: "configmap \<Rightarrow> (pyval list \<times> pyval) res" where
  "parse_history cm =
     res_bind (py_get HISTORY_KEY (PStr ''[]'') (py_or (cm_data cm) (PDict []))) (\<lambda>raw.
       case raw of
         PStr t \<Rightarrow>
           (case json_loads t of
              None \<Rightarrow> Inl (K8sError (''history '' @ HISTORY_KEY @ '' is unreadable''))
            | Some (PList revs) \<Rightarrow> Inr (revs, cm_revision cm)
            | Some _ \<Rightarrow> Inl (K8sError (''history '' @ HISTORY_KEY @ '' is unreadable: not a list'')))
       | _ \<Rightarrow> Inl TypeErr)"

definition read_history :: "'w config_env \<Rightarrow> 'w kube \<Rightarrow> (pyval list \<times> pyval) res \<times> 'w kube" where
  "read_history me ku =
     (case get_configmap (me_net me) (me_cfg me) (mc_history me) ku of
        (Inr cm, ku') \<Rightarrow> (parse_history cm, ku')
      | (Inl er, ku') \<Rightarrow>
          (case k8s_text er of
             Some m \<Rightarrow> if py_contains ''NotFound'' m \<or> py_contains ''404'' m then (Inr ([], PStr []), ku') else (Inl er, ku')
           | None \<Rightarrow> (Inl er, ku')))"

definition history_entry :: "'w config_env \<Rightarrow> user \<Rightarrow> pyval \<Rightarrow> pyval \<Rightarrow> pyval" where
  "history_entry me cu live_data live_rv =
     PDict [(''ts'', PStr (mc_iso_seconds me (mc_clock me))), (''user'', PStr (u_username cu)),
            (''resourceVersion'', live_rv), (''data'', live_data)]"

definition history_payload :: "pyval list \<Rightarrow> pyval" where
  "history_payload revs =
     PDict [(HISTORY_KEY, PStr (json_dumps (PList (drop (length revs - REVISION_LIMIT) revs))))]"

definition put_history :: "'w config_env \<Rightarrow> pyval \<Rightarrow> pyval list \<times> pyval \<Rightarrow> 'w kube \<Rightarrow> pyval res \<times> 'w kube" where
  "put_history me entry h ku =
     replace_configmap (me_net me) (me_cfg me) (mc_history me) (history_payload (fst h @ [entry])) (snd h) ku"

fun is_conflict :: "py_error \<Rightarrow> bool" where
  "is_conflict (K8sConflict _) = True"
| "is_conflict _ = False"

definition snapshot_live :: "'w config_env \<Rightarrow> user \<Rightarrow> pyval \<Rightarrow> pyval \<Rightarrow> 'w kube \<Rightarrow> unit res \<times> 'w kube" where
  "snapshot_live me cu live_data live_rv ku =
     (let entry = history_entry me cu live_data live_rv in
      case read_history me ku of
        (Inl er, k1) \<Rightarrow> (Inl er, k1)
      | (Inr h, k1) \<Rightarrow>
          (case put_history me entry h k1 of
             (Inr _, k2) \<Rightarrow> (Inr (), k2)
           | (Inl er, k2) \<Rightarrow>
               if \<not> is_conflict er then (Inl er, k2)
               else
                 (case read_history me k2 of
                    (Inl er', k3) \<Rightarrow> (Inl er', k3)
                  | (Inr h', k3) \<Rightarrow>
                      (case put_history me entry h' k3 of (r, k4) \<Rightarrow> (res_bind r (\<lambda>_. Inr ()), k4)))))"

definition history_count :: "'w config_env \<Rightarrow> 'w kube \<Rightarrow> nat option res \<times> 'w kube" where
  "history_count me ku =
     (case read_history me ku of
        (Inr (revs, _), ku') \<Rightarrow> (Inr (Some (length revs)), ku')
      | (Inl er, ku') \<Rightarrow> (if is_k8s_error er then Inr None else Inl er, ku'))"

section \<open>The live object\<close>

definition dk_with :: "'w kube \<Rightarrow> 'w desk \<Rightarrow> 'w desk" where
  "dk_with ku d = d\<lparr>dk_kube := ku\<rparr>"

fun is_unavailable :: "py_error \<Rightarrow> bool" where
  "is_unavailable (K8sUnavailable _) = True"
| "is_unavailable _ = False"

definition offline_edit :: "'w config_env \<Rightarrow> string" where
  "offline_edit me = ''No cluster connection from this page. Edit with kubectl instead: ''
     @ kubectl_edit (kc_namespace (me_cfg me)) (me_cm me) @ ''.''"

definition unreadable :: "py_error \<Rightarrow> string" where
  "unreadable er = ''The app could not read the live config: '' @ error_text er @ ''. Nothing changed.''"

text \<open>The data and the revision, or a flash; any other exception escapes.\<close>

definition load_live :: "'w config_env \<Rightarrow> 'w desk \<Rightarrow> (pyval \<times> pyval) option res \<times> 'w desk" where
  "load_live me d =
     (case get_configmap (me_net me) (me_cfg me) (me_cm me) (dk_kube d) of
        (Inr cm, ku) \<Rightarrow> (Inr (Some (py_or (cm_data cm) (PDict []), cm_revision cm)), dk_with ku d)
      | (Inl er, ku) \<Rightarrow>
          if is_unavailable er then (Inr None, dk_flash (offline_edit me) ''error'' (dk_with ku d))
          else if is_k8s_error er then (Inr None, dk_flash (unreadable er) ''error'' (dk_with ku d))
          else (Inl er, dk_with ku d))"

definition utf8_length :: "string \<Rightarrow> nat" where
  "utf8_length s = length (concat (map utf8_bytes s))"

record config_row =
  cr_key :: string
  cr_size :: nat
  cr_yaml :: bool
  cr_auth :: bool

definition config_row_of :: "string \<times> pyval \<Rightarrow> config_row res" where
  "config_row_of kv =
     (case snd kv of
        PStr v \<Rightarrow> Inr \<lparr>cr_key = fst kv, cr_size = utf8_length v, cr_yaml = is_yaml_key (fst kv),
                       cr_auth = fst kv \<in> set AUTH_ADJACENT\<rparr>
      | _ \<Rightarrow> Inl AttributeErr)"

definition config_rows :: "pyval \<Rightarrow> config_row list res" where
  "config_rows v =
     (case v of PDict kvs \<Rightarrow> res_map config_row_of (sort_key fst kvs) | _ \<Rightarrow> Inl AttributeErr)"

section \<open>The restart row\<close>

definition restart_state :: "env \<Rightarrow> store \<Rightarrow> (string \<times> pyval) list" where
  "restart_state e db =
     (let raw = get_setting e db RESTART_STATE_KEY
      in if raw = [] then [] else (case json_loads raw of Some (PDict kvs) \<Rightarrow> kvs | _ \<Rightarrow> []))"

definition set_restart_state :: "env \<Rightarrow> (string \<times> pyval) list \<Rightarrow> store \<Rightarrow> store" where
  "set_restart_state e upd db =
     set_setting RESTART_STATE_KEY (json_dumps (PDict (fold (\<lambda>(k, v). assoc_set k v) upd (restart_state e db)))) db"

definition field :: "string \<Rightarrow> (string \<times> pyval) list \<Rightarrow> pyval" where
  "field k kvs = (case dict_get k kvs of None \<Rightarrow> PNone | Some v \<Rightarrow> v)"

text \<open>\<open>int(seconds)\<close> rounds towards zero.\<close>

definition seconds_since :: "'w config_env \<Rightarrow> pyval \<Rightarrow> int option res" where
  "seconds_since me v =
     (if \<not> py_truth v then Inr None
      else
        (case v of
           PStr t \<Rightarrow>
             Inr (map_option (\<lambda>t0. let d = mc_clock me - t0 in if 0 \<le> d then d div 1000000 else - ((- d) div 1000000)) (mc_parse me t))
         | _ \<Rightarrow> Inl TypeErr))"

record restart_view =
  rv_status :: string
  rv_in_progress :: bool
  rv_elapsed :: int
  rv_remaining :: int
  rv_reason :: pyval

definition or_zero :: "int option \<Rightarrow> int" where
  "or_zero x = (case x of None \<Rightarrow> 0 | Some i \<Rightarrow> i)"

definition shown_status :: "string \<Rightarrow> int option \<Rightarrow> int option \<Rightarrow> string" where
  "shown_status status elapsed finished =
     (let s1 = (if status = ''running'' \<and> (elapsed = None \<or> RESTART_STALE_S < or_zero elapsed) then ''unknown'' else status)
      in if s1 \<in> {''ok'', ''failed''} \<and> finished \<noteq> None \<and> RESTART_NOTICE_S < or_zero finished then ''idle'' else s1)"

definition restart_status_payload :: "env \<Rightarrow> 'w config_env \<Rightarrow> store \<Rightarrow> restart_view res" where
  "restart_status_payload e me db =
     (let state = restart_state e db; status = py_str (py_or (field ''status'' state) (PStr ''idle''))
      in res_bind (seconds_since me (field ''started_at'' state)) (\<lambda>elapsed.
         res_bind (if status \<in> {''ok'', ''failed''} then seconds_since me (field ''finished_at'' state) else Inr None) (\<lambda>finished.
           let shown = shown_status status elapsed finished
           in Inr \<lparr>rv_status = shown, rv_in_progress = (shown = ''running''), rv_elapsed = or_zero elapsed,
                   rv_remaining = (if shown = ''running'' then max 0 (RESTART_ESTIMATE_S - or_zero elapsed) else 0),
                   rv_reason = py_or (field ''reason'' state) (PStr [])\<rparr>)))"

section \<open>The wait, off the request\<close>

definition rollout_converged :: "'w config_env \<Rightarrow> 'w kube \<Rightarrow> bool res \<times> 'w kube" where
  "rollout_converged me ku =
     (case statefulset_rollout (me_net me) (me_cfg me) (me_sts me) ku of
        (Inr snap, ku') \<Rightarrow> (Inr (converged snap), ku')
      | (Inl er, ku') \<Rightarrow> (if is_k8s_error er then Inr False else Inl er, ku'))"

definition poll_pause :: "'w config_env \<Rightarrow> 'w kube \<Rightarrow> 'w kube" where
  "poll_pause me ku = ku\<lparr>ku_world := mc_sleep me (ku_world ku)\<rparr>"

fun wait_polls :: "nat \<Rightarrow> 'w config_env \<Rightarrow> 'w kube \<Rightarrow> bool res \<times> 'w kube" where
  "wait_polls 0 me ku = rollout_converged me ku"
| "wait_polls (Suc n) me ku =
     (case rollout_converged me ku of
        (Inr False, ku') \<Rightarrow> wait_polls n me (poll_pause me ku')
      | (r, ku') \<Rightarrow> (r, ku'))"

definition wait_rollout :: "'w config_env \<Rightarrow> 'w kube \<Rightarrow> bool res \<times> 'w kube" where
  "wait_rollout me ku = wait_polls RESTART_MAX_POLLS me ku"

text \<open>An exception ends the thread with the row as it was.\<close>

definition restart_reason :: "'w config_env \<Rightarrow> bool \<Rightarrow> 'w kube \<Rightarrow> string \<times> 'w kube" where
  "restart_reason me ok ku =
     (if \<not> ok then (''the rollout did not finish in time'', ku)
      else
        (case mc_healthy me (ku_world ku) of
           (up, w) \<Rightarrow> (if up then [] else ''salt-api did not come back healthy'', ku\<lparr>ku_world := w\<rparr>)))"

definition finish_restart :: "env \<Rightarrow> 'w config_env \<Rightarrow> 'w desk \<Rightarrow> 'w desk" where
  "finish_restart e me d =
     (case wait_rollout me (dk_kube d) of
        (Inl er, ku) \<Rightarrow> dk_with ku d
      | (Inr ok, ku) \<Rightarrow>
          (case restart_reason me ok ku of
             (reason, ku') \<Rightarrow>
               (let good = (ok \<and> reason = []);
                    d1 = dk_on_db (set_restart_state e
                           [(''status'', PStr (if good then ''ok'' else ''failed'')),
                            (''finished_at'', PStr (mc_iso me (mc_clock me))), (''reason'', PStr reason)]) (dk_with ku' d)
                in if good then dk_note ''system'' ''master-restart:ok'' (clear_restart_needed ''system'' d1)
                   else dk_note ''system'' (''master-restart:failed:'' @ reason) d1)))"

text \<open>The stamp, and the row that says a restart is running; the thread it spawns runs \<open>finish_restart\<close>.\<close>

definition start_restart :: "env \<Rightarrow> 'w config_env \<Rightarrow> string \<Rightarrow> string \<Rightarrow> 'w desk \<Rightarrow> (bool \<times> string) res \<times> 'w desk" where
  "start_restart e me actor prefix d =
     (case restart_statefulset (me_net me) (me_cfg me) (replace_first ''+00:00'' ''Z'' (mc_iso_seconds me (mc_clock me))) (me_sts me) (dk_kube d) of
        (Inl er, ku) \<Rightarrow>
          (if is_k8s_error er then Inr (False, ''could not trigger the restart: '' @ error_text er) else Inl er, dk_with ku d)
      | (Inr _, ku) \<Rightarrow>
          (Inr (True, []),
           dk_note actor (prefix @ ''master-restart:started'')
             (dk_on_db (set_restart_state e
                [(''status'', PStr ''running''), (''started_at'', PStr (mc_iso me (mc_clock me))),
                 (''finished_at'', PNone), (''reason'', PStr [])]) (dk_with ku d))))"

end
