(* ===== verification/MasterViews.thy ===== *)
theory MasterViews
  imports MasterConfig
begin

text \<open>
  The handlers of \<open>overstate_ui/masterconfig.py\<close>: the pages, the save, the restart and the revert. A
  handler that starts a restart also says so (\<open>True\<close>): the thread it spawns runs \<open>finish_restart\<close>.
\<close>

definition master_gate :: "(string set \<Rightarrow> string) \<Rightarrow> env \<Rightarrow> user \<Rightarrow> string \<Rightarrow> view \<Rightarrow> view" where
  "master_gate first e cu perm k = roles_required first e cu [''admin''] (require e cu perm None None ''no-grant'' k)"

definition master_home :: string where "master_home = ''masterconfig.index''"
definition master_view :: string where "master_view = ''masterconfig.view''"
definition master_edit :: string where "master_edit = ''masterconfig.edit''"

definition dk_answer :: "string \<Rightarrow> string \<Rightarrow> string \<Rightarrow> 'w desk \<Rightarrow> resp \<times> 'w desk" where
  "dk_answer to msg cat d = (Redirect to, dk_flash msg cat d)"

section \<open>The pages\<close>

record config_page =
  gc_rows :: "config_row list option"
  gc_revision :: "pyval option"
  gc_snapshots :: "nat option"
  gc_restart :: restart_view

definition index_context :: "env \<Rightarrow> 'w config_env \<Rightarrow> 'w desk \<Rightarrow> config_page res \<times> 'w desk" where
  "index_context e me d =
     (case restart_status_payload e me (c_db (dk_ctx d)) of
        Inl er \<Rightarrow> (Inl er, d)
      | Inr rv \<Rightarrow>
          (case load_live me d of
             (Inl er, d1) \<Rightarrow> (Inl er, d1)
           | (Inr None, d1) \<Rightarrow>
               (Inr \<lparr>gc_rows = None, gc_revision = None, gc_snapshots = None, gc_restart = rv\<rparr>, d1)
           | (Inr (Some (data, revision)), d1) \<Rightarrow>
               (case config_rows data of
                  Inl er \<Rightarrow> (Inl er, d1)
                | Inr rows \<Rightarrow>
                    (case history_count me (dk_kube d1) of
                       (r, ku) \<Rightarrow>
                         (res_bind r (\<lambda>n. Inr \<lparr>gc_rows = Some rows, gc_revision = Some revision, gc_snapshots = n,
                                              gc_restart = rv\<rparr>), dk_with ku d1)))))"

definition config_index ::
  "(string set \<Rightarrow> string) \<Rightarrow> env \<Rightarrow> 'w config_env \<Rightarrow> user \<Rightarrow> 'w desk \<Rightarrow> (resp \<times> config_page option) \<times> 'w desk" where
  "config_index first e me cu d =
     (case pass_gate (master_gate first e cu ''master.read'') (dk_ctx d) of
        Inl (r, c) \<Rightarrow> ((r, None), d\<lparr>dk_ctx := c\<rparr>)
      | Inr c \<Rightarrow>
          (case index_context e me (d\<lparr>dk_ctx := c\<rparr>) of
             (Inl er, d1) \<Rightarrow> ((Fail er, None), d1)
           | (Inr pg, d1) \<Rightarrow> ((Page, Some pg), d1)))"

text \<open>One key, for the page that shows it and for the one that edits it.\<close>

record key_text =
  kt_key :: string
  kt_content :: string
  kt_revision :: pyval
  kt_auth :: bool

definition one_key :: "'w config_env \<Rightarrow> form \<Rightarrow> 'w desk \<Rightarrow> (resp + key_text) \<times> 'w desk" where
  "one_key me args d =
     (let key = form_get args ''key'' in
      case load_live me d of
        (Inl er, d1) \<Rightarrow> (Inl (Fail er), d1)
      | (Inr None, d1) \<Rightarrow> (Inl (Redirect master_home), d1)
      | (Inr (Some (data, revision)), d1) \<Rightarrow>
          (case data of
             PDict kvs \<Rightarrow>
               (case dict_get key kvs of
                  None \<Rightarrow> (Inl (Abort 404), d1)
                | Some (PStr t) \<Rightarrow>
                    (Inr \<lparr>kt_key = key, kt_content = t, kt_revision = revision, kt_auth = (key \<in> set AUTH_ADJACENT)\<rparr>, d1)
                | Some _ \<Rightarrow> (Inl (Fail AttributeErr), d1))
           | _ \<Rightarrow> (Inl (Fail TypeErr), d1)))"

definition config_view ::
  "(string set \<Rightarrow> string) \<Rightarrow> env \<Rightarrow> 'w config_env \<Rightarrow> user \<Rightarrow> form \<Rightarrow> 'w desk \<Rightarrow> (resp \<times> key_text option) \<times> 'w desk" where
  "config_view first e me cu args d =
     (case pass_gate (master_gate first e cu ''master.read'') (dk_ctx d) of
        Inl (r, c) \<Rightarrow> ((r, None), d\<lparr>dk_ctx := c\<rparr>)
      | Inr c \<Rightarrow>
          (case one_key me args (d\<lparr>dk_ctx := c\<rparr>) of
             (Inl r, d1) \<Rightarrow> ((r, None), d1) | (Inr k, d1) \<Rightarrow> ((Page, Some k), d1)))"

definition config_edit ::
  "(string set \<Rightarrow> string) \<Rightarrow> env \<Rightarrow> 'w config_env \<Rightarrow> user \<Rightarrow> form \<Rightarrow> 'w desk \<Rightarrow> (resp \<times> key_text option) \<times> 'w desk" where
  "config_edit first e me cu args d =
     (case pass_gate (master_gate first e cu ''master.write'') (dk_ctx d) of
        Inl (r, c) \<Rightarrow> ((r, None), d\<lparr>dk_ctx := c\<rparr>)
      | Inr c \<Rightarrow>
          (case one_key me args (d\<lparr>dk_ctx := c\<rparr>) of
             (Inl r, d1) \<Rightarrow> ((r, None), d1)
           | (Inr k, d1) \<Rightarrow>
               if MAX_BYTES < utf8_length (kt_content k)
               then ((Redirect master_view, None),
                     dk_flash ''That key is too large to edit here. Nothing changed.'' ''error'' d1)
               else ((Page, Some k), d1)))"

section \<open>Save\<close>

definition save_refused :: "user \<Rightarrow> string \<Rightarrow> string \<Rightarrow> 'w desk \<Rightarrow> 'w desk" where
  "save_refused cu key why = dk_log cu (''masterconfig-save-refused:'' @ key @ '':'' @ why)"

text \<open>The write itself: the snapshot, then the replacement at the revision of the form.\<close>

definition config_write ::
  "'w config_env \<Rightarrow> user \<Rightarrow> string \<Rightarrow> string \<Rightarrow> string \<Rightarrow> (string \<times> pyval) list \<Rightarrow> pyval \<Rightarrow> 'w desk \<Rightarrow> resp \<times> 'w desk" where
  "config_write me cu key text base_rv data revision d =
     (case snapshot_live me cu (PDict data) revision (dk_kube d) of
        (Inl er, ku) \<Rightarrow>
          if is_k8s_error er
          then dk_answer master_view (''The app could not snapshot history: '' @ error_text er @ ''. Nothing changed.'') ''error''
                 (save_refused cu key ''history'' (dk_with ku d))
          else (Fail er, dk_with ku d)
      | (Inr _, k1) \<Rightarrow>
          (case replace_configmap (me_net me) (me_cfg me) (me_cm me) (PDict (assoc_set key (PStr text) data)) (PStr base_rv) k1 of
             (Inl er, k2) \<Rightarrow>
               if is_conflict er
               then dk_answer master_edit
                 (''That config changed since you opened it. Reload the edit page and ''
                  @ ''re-apply your change. Nothing was written.'') ''error'' (save_refused cu key ''stale'' (dk_with k2 d))
               else if is_k8s_error er
               then dk_answer master_view (''The app could not write the live config: '' @ error_text er @ ''. Nothing changed.'')
                      ''error'' (save_refused cu key ''write'' (dk_with k2 d))
               else (Fail er, dk_with k2 d)
           | (Inr new_rv, k2) \<Rightarrow>
               (case set_restart_needed (master_env.truncate me) cu
                       (dk_flash (''Saved '' @ key @ '' (revision '' @ py_str new_rv @ ''). Restart the master to apply it.'') ''success''
                          (dk_with k2 d)) of
                  (Inl er, d1) \<Rightarrow> (Fail er, d1)
                | (Inr _, d1) \<Rightarrow>
                    (Redirect master_view, dk_log cu (''masterconfig-save:'' @ key @ '':'' @ py_str new_rv) d1))))"

definition too_large :: "string \<Rightarrow> string" where
  "too_large text =
     ''This file is too large to save ('' @ nat_str (utf8_length text) @ '' bytes; limit is '' @ nat_str MAX_BYTES
     @ ''). Nothing changed.''"

definition config_check ::
  "'w config_env \<Rightarrow> user \<Rightarrow> string \<Rightarrow> string \<Rightarrow> string \<Rightarrow> (string \<times> pyval) list \<Rightarrow> pyval \<Rightarrow> 'w desk \<Rightarrow> resp \<times> 'w desk" where
  "config_check me cu key text base_rv data revision d =
     (if dict_get key data = None then (Abort 404, d)
      else if MAX_BYTES < utf8_length text
      then dk_answer master_view (too_large text) ''error'' (save_refused cu key ''oversize'' d)
      else if dict_get key data = Some (PStr text) then dk_answer master_view ''No changes. Nothing saved.'' ''info'' d
      else
        (case yaml_error me key text of
           Inl er \<Rightarrow> (Fail er, d)
         | Inr (Some problem) \<Rightarrow> (Page, save_refused cu key ''invalid'' d)
         | Inr None \<Rightarrow> config_write me cu key text base_rv data revision d))"

definition config_save_body :: "'w config_env \<Rightarrow> user \<Rightarrow> form \<Rightarrow> 'w desk \<Rightarrow> resp \<times> 'w desk" where
  "config_save_body me cu f d =
     (let key = form_get f ''key'' in
      case get_configmap (me_net me) (me_cfg me) (me_cm me) (dk_kube d) of
        (Inl er, ku) \<Rightarrow>
          if is_unavailable er
          then dk_answer master_home (offline_edit me) ''error'' (save_refused cu key ''offline'' (dk_with ku d))
          else if is_k8s_error er
          then dk_answer master_home (unreadable er) ''error'' (save_refused cu key ''read'' (dk_with ku d))
          else (Fail er, dk_with ku d)
      | (Inr cm, ku) \<Rightarrow>
          (case py_or (cm_data cm) (PDict []) of
             PDict data \<Rightarrow>
               config_check me cu key (form_get f ''content'') (form_get f ''base_resource_version'') data (cm_revision cm)
                 (dk_with ku d)
           | _ \<Rightarrow> (Fail TypeErr, dk_with ku d)))"

definition config_save ::
  "(string set \<Rightarrow> string) \<Rightarrow> env \<Rightarrow> 'w config_env \<Rightarrow> user \<Rightarrow> form \<Rightarrow> 'w desk \<Rightarrow> resp \<times> 'w desk" where
  "config_save first e me cu f d =
     (case pass_gate (master_gate first e cu ''master.write'') (dk_ctx d) of
        Inl (r, c) \<Rightarrow> (r, d\<lparr>dk_ctx := c\<rparr>)
      | Inr c \<Rightarrow> config_save_body me cu f (d\<lparr>dk_ctx := c\<rparr>))"

section \<open>Restart and revert\<close>

definition restart_body :: "env \<Rightarrow> 'w config_env \<Rightarrow> user \<Rightarrow> 'w desk \<Rightarrow> (resp \<times> bool) \<times> 'w desk" where
  "restart_body e me cu d =
     (case restart_status_payload e me (c_db (dk_ctx d)) of
        Inl er \<Rightarrow> ((Fail er, False), d)
      | Inr rv \<Rightarrow>
          if rv_in_progress rv
          then ((Redirect master_home, False),
                dk_flash ''A master restart is already running. This page updates when it finishes.'' ''info'' d)
          else if \<not> k8s_available (me_cfg me)
          then ((Redirect master_home, False),
                dk_log cu ''master-restart:refused-offline''
                  (dk_flash (''No cluster connection from this page. Restart with kubectl: kubectl -n ''
                     @ kc_namespace (me_cfg me) @ '' rollout restart statefulset/'' @ me_sts me @ ''.'') ''error'' d))
          else
            (case start_restart e me (u_username cu) [] d of
               (Inl er, d1) \<Rightarrow> ((Fail er, False), d1)
             | (Inr (True, _), d1) \<Rightarrow>
                 ((Redirect master_home, True),
                  dk_flash (''Master restart started. The fleet reconnects in about a minute; ''
                    @ ''this page updates when the masters are healthy.'') ''info'' d1)
             | (Inr (False, reason), d1) \<Rightarrow>
                 ((Redirect master_home, False),
                  dk_log cu ''master-restart:refused'' (dk_flash (''Master restart not started: '' @ reason @ ''.'') ''error'' d1))))"

definition config_restart ::
  "(string set \<Rightarrow> string) \<Rightarrow> env \<Rightarrow> 'w config_env \<Rightarrow> user \<Rightarrow> 'w desk \<Rightarrow> (resp \<times> bool) \<times> 'w desk" where
  "config_restart first e me cu d =
     (case pass_gate (master_gate first e cu ''master.rollout'') (dk_ctx d) of
        Inl (r, c) \<Rightarrow> ((r, False), d\<lparr>dk_ctx := c\<rparr>)
      | Inr c \<Rightarrow> restart_body e me cu (d\<lparr>dk_ctx := c\<rparr>))"

definition restart_status ::
  "(string set \<Rightarrow> string) \<Rightarrow> env \<Rightarrow> 'w config_env \<Rightarrow> user \<Rightarrow> ctx \<Rightarrow> (resp \<times> restart_view option) \<times> ctx" where
  "restart_status first e me cu c =
     (case pass_gate (master_gate first e cu ''master.read'') c of
        Inl (r, c') \<Rightarrow> ((r, None), c')
      | Inr c' \<Rightarrow>
          (case restart_status_payload e me (c_db c') of
             Inl er \<Rightarrow> ((Fail er, None), c') | Inr rv \<Rightarrow> ((Page, Some rv), c')))"

definition revert_refused :: "user \<Rightarrow> string \<Rightarrow> string \<Rightarrow> 'w desk \<Rightarrow> (resp \<times> bool) \<times> 'w desk" where
  "revert_refused cu why msg d =
     ((Redirect master_home, False), dk_log cu (''masterconfig-revert:'' @ why) (dk_flash msg ''error'' d))"

definition revision_data :: "pyval list \<Rightarrow> pyval res" where
  "revision_data revs = py_item ''data'' (last revs)"

text \<open>From the written revision on: the restart, and what the page is told.\<close>

definition revert_roll :: "env \<Rightarrow> 'w config_env \<Rightarrow> user \<Rightarrow> pyval \<Rightarrow> 'w desk \<Rightarrow> (resp \<times> bool) \<times> 'w desk" where
  "revert_roll e me cu new_rv d =
     (case start_restart e me (u_username cu) (''masterconfig-revert:'' @ py_str new_rv @ '':'') d of
        (Inl er, d1) \<Rightarrow> ((Fail er, False), d1)
      | (Inr (False, reason), d1) \<Rightarrow>
          revert_refused cu (py_str new_rv @ '':refused'')
            (''Reverted to the previous snapshot (revision '' @ py_str new_rv @ '') but the restart did not start (''
             @ reason @ ''). Restart from this page.'') d1
      | (Inr (True, _), d1) \<Rightarrow>
          ((Redirect master_home, True),
           dk_flash (''Reverted to revision '' @ py_str new_rv @ ''. Masters restarting; this page updates ''
             @ ''when they are healthy.'') ''success'' d1))"

definition revert_write :: "env \<Rightarrow> 'w config_env \<Rightarrow> user \<Rightarrow> pyval list \<Rightarrow> 'w desk \<Rightarrow> (resp \<times> bool) \<times> 'w desk" where
  "revert_write e me cu revs d =
     (case get_configmap (me_net me) (me_cfg me) (me_cm me) (dk_kube d) of
        (r, k1) \<Rightarrow>
          (case (case res_bind r (\<lambda>cm. res_bind (revision_data revs) (\<lambda>v. Inr (v, cm_revision cm))) of
                   Inl er \<Rightarrow> (Inl er, k1)
                 | Inr (v, rv) \<Rightarrow> replace_configmap (me_net me) (me_cfg me) (me_cm me) v rv k1) of
             (Inl er, k2) \<Rightarrow>
               if is_conflict er
               then revert_refused cu ''refused-stale''
                      (''That config changed since you opened it. Reload and revert again. '' @ ''Nothing was written.'') (dk_with k2 d)
               else if is_k8s_error er
               then revert_refused cu ''refused-write''
                      (''The app could not write the live config: '' @ error_text er @ ''. Nothing changed.'') (dk_with k2 d)
               else ((Fail er, False), dk_with k2 d)
           | (Inr new_rv, k2) \<Rightarrow> revert_roll e me cu new_rv (dk_with k2 d)))"

definition revert_snapshot :: "env \<Rightarrow> 'w config_env \<Rightarrow> user \<Rightarrow> pyval list \<Rightarrow> 'w desk \<Rightarrow> (resp \<times> bool) \<times> 'w desk" where
  "revert_snapshot e me cu revs d =
     (case get_configmap (me_net me) (me_cfg me) (me_cm me) (dk_kube d) of
        (Inl er, k1) \<Rightarrow>
          if is_k8s_error er then revert_refused cu ''refused-read'' (unreadable er) (dk_with k1 d)
          else ((Fail er, False), dk_with k1 d)
      | (Inr cm, k1) \<Rightarrow>
          (case snapshot_live me cu (py_or (cm_data cm) (PDict [])) (cm_revision cm) k1 of
             (Inl er, k2) \<Rightarrow>
               if is_k8s_error er
               then revert_refused cu ''refused-history''
                      (''The app could not snapshot history: '' @ error_text er @ ''. Nothing changed.'') (dk_with k2 d)
               else ((Fail er, False), dk_with k2 d)
           | (Inr _, k2) \<Rightarrow> revert_write e me cu revs (dk_with k2 d)))"

definition revert_body :: "env \<Rightarrow> 'w config_env \<Rightarrow> user \<Rightarrow> 'w desk \<Rightarrow> (resp \<times> bool) \<times> 'w desk" where
  "revert_body e me cu d =
     (if \<not> k8s_available (me_cfg me)
      then revert_refused cu ''refused-offline''
             (''No cluster connection from this page. Revert with kubectl: ''
              @ kubectl_edit (kc_namespace (me_cfg me)) (me_cm me) @ ''.'') d
      else
        (case read_history me (dk_kube d) of
           (Inl er, ku) \<Rightarrow>
             if is_k8s_error er
             then revert_refused cu ''refused-history''
                    (''The app could not read history: '' @ error_text er @ ''. Nothing changed.'') (dk_with ku d)
             else ((Fail er, False), dk_with ku d)
         | (Inr (revs, _), ku) \<Rightarrow>
             if revs = [] then revert_refused cu ''refused-empty'' ''No snapshots yet. Nothing to revert to.'' (dk_with ku d)
             else revert_snapshot e me cu revs (dk_with ku d)))"

definition config_revert ::
  "(string set \<Rightarrow> string) \<Rightarrow> env \<Rightarrow> 'w config_env \<Rightarrow> user \<Rightarrow> 'w desk \<Rightarrow> (resp \<times> bool) \<times> 'w desk" where
  "config_revert first e me cu d =
     (case pass_gate (master_gate first e cu ''master.write'') (dk_ctx d) of
        Inl (r, c) \<Rightarrow> ((r, False), d\<lparr>dk_ctx := c\<rparr>)
      | Inr c \<Rightarrow> revert_body e me cu (d\<lparr>dk_ctx := c\<rparr>))"

end
