(* ===== verification/RestartLife.thy ===== *)
theory RestartLife
  imports MasterViews GroupProps
begin

text \<open>
  The life of a master restart as the page sees it. Requests start restarts, threads finish them or
  die with their worker, the clock moves: a step relation over the settings row, with the invariant
  of the row by rule induction, and what it gives for the page that polls.
\<close>

text \<open>\<open>li_start\<close> is a history variable: the time at which the last restart was spawned.\<close>

record 'w life =
  li_desk :: "'w desk"
  li_clock :: int
  li_threads :: nat
  li_start :: "int option"

definition at_time :: "'w config_env \<Rightarrow> int \<Rightarrow> 'w config_env" where
  "at_time me t = me\<lparr>mc_clock := t\<rparr>"

definition row_of :: "env \<Rightarrow> 'w desk \<Rightarrow> (string \<times> pyval) list" where
  "row_of e d = restart_state e (c_db (dk_ctx d))"

inductive life_step :: "(string set \<Rightarrow> string) \<Rightarrow> env \<Rightarrow> 'w config_env \<Rightarrow> user \<Rightarrow> 'w life \<Rightarrow> 'w life \<Rightarrow> bool"
  for first e me cu where
  tick: "li_clock L \<le> t \<Longrightarrow> life_step first e me cu L (L\<lparr>li_clock := t\<rparr>)"
| restart: "config_restart first e (at_time me (li_clock L)) cu (li_desk L) = ((r, spawned), d)
    \<Longrightarrow> life_step first e me cu L (L\<lparr>li_desk := d, li_threads := li_threads L + of_bool spawned,
          li_start := (if spawned then Some (li_clock L) else li_start L)\<rparr>)"
| revert: "config_revert first e (at_time me (li_clock L)) cu (li_desk L) = ((r, spawned), d)
    \<Longrightarrow> life_step first e me cu L (L\<lparr>li_desk := d, li_threads := li_threads L + of_bool spawned,
          li_start := (if spawned then Some (li_clock L) else li_start L)\<rparr>)"
| finish: "0 < li_threads L
    \<Longrightarrow> life_step first e me cu L (L\<lparr>li_desk := finish_restart e (at_time me (li_clock L)) (li_desk L),
                                      li_threads := li_threads L - 1\<rparr>)"
| die: "0 < li_threads L \<Longrightarrow> life_step first e me cu L (L\<lparr>li_threads := li_threads L - 1\<rparr>)"
| other: "row_of e d = row_of e (li_desk L) \<Longrightarrow> life_step first e me cu L (L\<lparr>li_desk := d\<rparr>)"

inductive reachable :: "(string set \<Rightarrow> string) \<Rightarrow> env \<Rightarrow> 'w config_env \<Rightarrow> user \<Rightarrow> 'w life \<Rightarrow> bool"
  for first e me cu where
  init: "row_of e (li_desk L) = [] \<Longrightarrow> li_threads L = 0 \<Longrightarrow> li_start L = None \<Longrightarrow> reachable first e me cu L"
| step: "reachable first e me cu L \<Longrightarrow> life_step first e me cu L L' \<Longrightarrow> reachable first e me cu L'"

text \<open>The one law of the date functions: a printed date reads back.\<close>

definition dates_read :: "'w config_env \<Rightarrow> bool" where
  "dates_read me = (\<forall>t. mc_parse me (mc_iso me t) = Some t \<and> mc_iso me t \<noteq> [])"

section \<open>The row\<close>

definition dated :: "'w config_env \<Rightarrow> int \<Rightarrow> pyval \<Rightarrow> bool" where
  "dated me now v = (\<exists>t \<le> now. v = PStr (mc_iso me t))"

definition row_ok :: "'w config_env \<Rightarrow> int \<Rightarrow> (string \<times> pyval) list \<Rightarrow> bool" where
  "row_ok me now row =
     (row = [] \<or>
      (distinct (map fst row) \<and> plain_pairs row
       \<and> field ''status'' row \<in> {PStr ''running'', PStr ''ok'', PStr ''failed''}
       \<and> dated me now (field ''started_at'' row)
       \<and> (field ''finished_at'' row = PNone \<or> dated me now (field ''finished_at'' row))))"

lemma field_assoc_set: "field k (assoc_set k' v row) = (if k = k' then v else field k row)"
  by (induction k' v row rule: assoc_set.induct) (auto simp: field_def)

lemma plain_assoc_set: "json_plain v \<Longrightarrow> plain_pairs row \<Longrightarrow> plain_pairs (assoc_set k v row)"
  by (induction k v row rule: assoc_set.induct) auto

lemma restart_state_set:
  assumes "json_plain (PDict (fold (\<lambda>(k, v). assoc_set k v) upd (restart_state e db)))"
  shows "restart_state e (set_restart_state e upd db) = fold (\<lambda>(k, v). assoc_set k v) upd (restart_state e db)"
proof -
  let ?v = "PDict (fold (\<lambda>(k, v). assoc_set k v) upd (restart_state e db))"
  have "get_setting e (set_restart_state e upd db) RESTART_STATE_KEY = json_dumps ?v"
    by (simp add: set_restart_state_def set_setting_def put_setting_def get_setting_def setting_row_def map_of_assoc_set)
  moreover have "json_dumps ?v \<noteq> []" by simp
  ultimately show ?thesis using json_loads_dumps_plain [OF assms]
    by (simp only: restart_state_def Let_def) simp
qed

lemma restart_state_log [simp]: "restart_state e (log_event u a j o' p m x db) = restart_state e db"
  by (simp add: restart_state_def get_setting_def setting_row_def)

lemma restart_state_drop:
  assumes "k \<noteq> RESTART_STATE_KEY"
  shows "restart_state e (drop_setting k db) = restart_state e db"
proof -
  have "map_of (filter (\<lambda>(k', _). k' \<noteq> k) kvs) RESTART_STATE_KEY = map_of kvs RESTART_STATE_KEY" for kvs :: "(string \<times> string) list"
    using assms by (induction kvs) auto
  then show ?thesis by (simp add: restart_state_def get_setting_def setting_row_def drop_setting_def Let_def)
qed

lemma row_note [simp]: "row_of e (dk_note a m d) = row_of e d" "row_of e (dk_log cu m d) = row_of e d"
  "row_of e (dk_flash m c d) = row_of e d" "row_of e (dk_with ku d) = row_of e d"
  by (simp_all add: row_of_def dk_note_def dk_log_def dk_flash_def dk_on_db_def dk_with_def)

lemma row_set:
  "json_plain (PDict (fold (\<lambda>(k, v). assoc_set k v) upd (row_of e d)))
   \<Longrightarrow> row_of e (dk_on_db (set_restart_state e upd) d) = fold (\<lambda>(k, v). assoc_set k v) upd (row_of e d)"
  by (simp add: row_of_def dk_on_db_def restart_state_set)

lemma row_clear [simp]: "row_of e (clear_restart_needed a d) = row_of e d"
  by (simp add: clear_restart_needed_def Let_def row_of_def dk_note_def dk_on_db_def restart_state_drop
      RESTART_KEY_def RESTART_GEN_KEY_def RESTART_STATE_KEY_def)

lemma plain_row: "row_ok me now row \<Longrightarrow> json_plain (PDict row)"
  by (auto simp: row_ok_def)

text \<open>The two updates the program makes keep the row in shape.\<close>

abbreviation started_row :: "'w config_env \<Rightarrow> int \<Rightarrow> (string \<times> pyval) list" where
  "started_row me now \<equiv> [(''status'', PStr ''running''), (''started_at'', PStr (mc_iso me now)),
     (''finished_at'', PNone), (''reason'', PStr [])]"

abbreviation finished_row :: "'w config_env \<Rightarrow> int \<Rightarrow> bool \<Rightarrow> string \<Rightarrow> (string \<times> pyval) list" where
  "finished_row me now good reason \<equiv> [(''status'', PStr (if good then ''ok'' else ''failed'')),
     (''finished_at'', PStr (mc_iso me now)), (''reason'', PStr reason)]"

lemma started_row_ok:
  assumes "row_ok me now row"
  shows "row_ok me now (fold (\<lambda>(k, v). assoc_set k v) (started_row me now) row)"
    and "json_plain (PDict (fold (\<lambda>(k, v). assoc_set k v) (started_row me now) row))"
proof -
  have p: "distinct (map fst row)" "plain_pairs row" using assms by (auto simp: row_ok_def)
  have "distinct (map fst (fold (\<lambda>(k, v). assoc_set k v) (started_row me now) row))
      \<and> plain_pairs (fold (\<lambda>(k, v). assoc_set k v) (started_row me now) row)"
    using p by (simp add: distinct_assoc_set plain_assoc_set)
  then show "json_plain (PDict (fold (\<lambda>(k, v). assoc_set k v) (started_row me now) row))"
    "row_ok me now (fold (\<lambda>(k, v). assoc_set k v) (started_row me now) row)"
    by (auto simp: row_ok_def field_assoc_set dated_def)
qed

lemma finished_row_ok:
  assumes "row_ok me now row" and "row \<noteq> []"
  shows "row_ok me now (fold (\<lambda>(k, v). assoc_set k v) (finished_row me now good reason) row)"
    and "json_plain (PDict (fold (\<lambda>(k, v). assoc_set k v) (finished_row me now good reason) row))"
proof -
  have p: "distinct (map fst row)" "plain_pairs row" using assms by (auto simp: row_ok_def)
  have "distinct (map fst (fold (\<lambda>(k, v). assoc_set k v) (finished_row me now good reason) row))
      \<and> plain_pairs (fold (\<lambda>(k, v). assoc_set k v) (finished_row me now good reason) row)"
    using p by (simp add: distinct_assoc_set plain_assoc_set)
  then show "json_plain (PDict (fold (\<lambda>(k, v). assoc_set k v) (finished_row me now good reason) row))"
    "row_ok me now (fold (\<lambda>(k, v). assoc_set k v) (finished_row me now good reason) row)"
    using assms by (auto simp: row_ok_def field_assoc_set dated_def)
qed

section \<open>What a request does to the row\<close>

lemma start_restart_row:
  assumes "start_restart e me actor pre d = (r, d')" and "row_ok me (mc_clock me) (row_of e d)"
  shows "row_of e d' = (if \<exists>x. r = Inr (True, x) then fold (\<lambda>(k, v). assoc_set k v) (started_row me (mc_clock me)) (row_of e d)
    else row_of e d)"
proof -
  obtain x ku where c: "restart_statefulset (me_net me) (me_cfg me)
      (replace_first ''+00:00'' ''Z'' (mc_iso_seconds me (mc_clock me))) (me_sts me) (dk_kube d) = (x, ku)" by fastforce
  have "json_plain (PDict (fold (\<lambda>(k, v). assoc_set k v) (started_row me (mc_clock me)) (row_of e (dk_with ku d))))"
    using started_row_ok(2) [OF assms(2)] by simp
  from row_set [OF this] show ?thesis
    using assms(1) c by (cases x) (auto simp: start_restart_def split: if_splits)
qed

text \<open>A response that says a thread was spawned wrote the row, any other left it.\<close>

definition spawns :: "env \<Rightarrow> 'w config_env \<Rightarrow> (resp \<times> bool) \<times> 'w desk \<Rightarrow> 'w desk \<Rightarrow> bool" where
  "spawns e me out d =
     (row_of e (snd out) = (if snd (fst out) then fold (\<lambda>(k, v). assoc_set k v) (started_row me (mc_clock me)) (row_of e d)
        else row_of e d))"

lemma restart_body_row:
  assumes "row_ok me (mc_clock me) (row_of e d)"
  shows "spawns e me (restart_body e me cu d) d"
proof -
  obtain r d1 where s: "start_restart e me (u_username cu) [] d = (r, d1)" by fastforce
  show ?thesis using start_restart_row [OF s assms]
    by (auto simp: spawns_def restart_body_def s split: sum.splits prod.splits bool.splits)
qed

lemma revert_refused_row [simp]: "spawns e me (revert_refused cu a m d') d \<longleftrightarrow> row_of e d' = row_of e d"
  by (simp add: spawns_def revert_refused_def)

lemma spawns_fail [simp]: "spawns e me ((r, False), d') d \<longleftrightarrow> row_of e d' = row_of e d"
  by (simp add: spawns_def)

lemma spawns_with [simp]: "spawns e me out (dk_with ku d) = spawns e me out d"
  by (simp add: spawns_def)

lemma revert_roll_row:
  assumes "row_ok me (mc_clock me) (row_of e d)"
  shows "spawns e me (revert_roll e me cu rv d) d"
proof -
  obtain r d1 where s: "start_restart e me (u_username cu) (''masterconfig-revert:'' @ py_str rv @ '':'') d = (r, d1)"
    by fastforce
  have "row_of e (snd (revert_roll e me cu rv d)) = row_of e d1 \<and> snd (fst (revert_roll e me cu rv d)) = (\<exists>x. r = Inr (True, x))"
    unfolding revert_roll_def s by (cases r) (auto simp: revert_refused_def split: prod.splits bool.splits)
  then show ?thesis using start_restart_row [OF s assms] by (simp add: spawns_def)
qed

lemma revert_write_row:
  "row_ok me (mc_clock me) (row_of e d) \<Longrightarrow> spawns e me (revert_write e me cu revs d) d"
  using revert_roll_row [of me e "dk_with _ d" cu]
  by (simp add: revert_write_def split: prod.splits sum.splits)

lemma revert_snapshot_row:
  "row_ok me (mc_clock me) (row_of e d) \<Longrightarrow> spawns e me (revert_snapshot e me cu revs d) d"
  using revert_write_row [of me e "dk_with _ d" cu]
  by (simp add: revert_snapshot_def split: prod.splits sum.splits)

lemma revert_body_row:
  "row_ok me (mc_clock me) (row_of e d) \<Longrightarrow> spawns e me (revert_body e me cu d) d"
  using revert_snapshot_row [of me e "dk_with _ d" cu]
  by (simp add: revert_body_def split: prod.splits sum.splits)

lemma row_audit: "same_but_audit (c_db (dk_ctx d)) (c_db c) \<Longrightarrow> row_of e (d\<lparr>dk_ctx := c\<rparr>) = row_of e d"
  by (drule same_but_audit_tables(2)) (simp add: row_of_def restart_state_def get_setting_def setting_row_def)

interpretation master: view_gate cu "master_gate first e cu perm" for cu first e perm
  unfolding master_gate_def by (rule floor_gate.view_gate_axioms)

lemma gated_row:
  assumes "\<And>d. row_ok me (mc_clock me) (row_of e d) \<Longrightarrow> spawns e me (body d) d"
    and "row_ok me (mc_clock me) (row_of e d)"
    and "out = (case pass_gate (master_gate first e cu perm) (dk_ctx d) of
        Inl (r, c) \<Rightarrow> ((r, False), d\<lparr>dk_ctx := c\<rparr>) | Inr c \<Rightarrow> body (d\<lparr>dk_ctx := c\<rparr>))"
  shows "spawns e me out d"
proof (cases "pass_gate (master_gate first e cu perm) (dk_ctx d)")
  case (Inl rc)
  then obtain r c where "pass_gate (master_gate first e cu perm) (dk_ctx d) = Inl (r, c)" by (cases rc) simp
  then show ?thesis using assms(3) master.refused row_audit by fastforce
next
  case (Inr c)
  then have "row_of e (d\<lparr>dk_ctx := c\<rparr>) = row_of e d" using master.passed_db [OF Inr] by (simp add: row_of_def)
  then show ?thesis using assms(1) [of "d\<lparr>dk_ctx := c\<rparr>"] assms(2,3) Inr by (simp add: spawns_def)
qed

lemma config_restart_row:
  "row_ok me (mc_clock me) (row_of e d) \<Longrightarrow> spawns e me (config_restart first e me cu d) d"
  by (rule gated_row [OF restart_body_row]) (simp_all add: config_restart_def)

lemma config_revert_row:
  "row_ok me (mc_clock me) (row_of e d) \<Longrightarrow> spawns e me (config_revert first e me cu d) d"
  by (rule gated_row [OF revert_body_row]) (simp_all add: config_revert_def)

lemma finish_row:
  assumes "row_ok me (mc_clock me) (row_of e d)" and "row_of e d \<noteq> []"
  shows "row_of e (finish_restart e me d) = row_of e d
    \<or> (\<exists>good reason. row_of e (finish_restart e me d)
         = fold (\<lambda>(k, v). assoc_set k v) (finished_row me (mc_clock me) good reason) (row_of e d))"
proof -
  have "json_plain (PDict (fold (\<lambda>(k, v). assoc_set k v) (finished_row me (mc_clock me) good reason) (row_of e (dk_with ku d))))"
    for good reason ku using finished_row_ok(2) [OF assms] by simp
  note set = row_set [OF this]
  obtain x ku where w: "wait_rollout me (dk_kube d) = (x, ku)" by fastforce
  show ?thesis
  proof (cases x)
    case (Inl er)
    then show ?thesis by (simp add: finish_restart_def w)
  next
    case (Inr ok)
    obtain reason ku' where r: "restart_reason me ok ku = (reason, ku')" by fastforce
    have "row_of e (finish_restart e me d)
        = fold (\<lambda>(k, v). assoc_set k v) (finished_row me (mc_clock me) (ok \<and> reason = []) reason) (row_of e (dk_with ku' d))"
      unfolding finish_restart_def w Inr prod.case sum.case r Let_def set [symmetric] by simp
    then show ?thesis by (simp only: row_note) blast
  qed
qed

section \<open>The invariant\<close>

lemma at_time_simps [simp]: "mc_clock (at_time me t) = t" "mc_iso (at_time me t) = mc_iso me"
  "mc_parse (at_time me t) = mc_parse me" "row_ok (at_time me t) = row_ok me"
  by (simp_all add: at_time_def row_ok_def dated_def fun_eq_iff)

lemma dated_later: "dated me now v \<Longrightarrow> now \<le> t \<Longrightarrow> dated me t v"
  unfolding dated_def by (blast intro: order_trans)

lemma row_ok_later: "row_ok me now row \<Longrightarrow> now \<le> t \<Longrightarrow> row_ok me t row"
  unfolding row_ok_def by (blast intro: dated_later)

definition start_ok :: "'w config_env \<Rightarrow> int \<Rightarrow> int option \<Rightarrow> (string \<times> pyval) list \<Rightarrow> bool" where
  "start_ok me now begun row =
     (case begun of
        None \<Rightarrow> row = []
      | Some t0 \<Rightarrow> t0 \<le> now \<and> row \<noteq> [] \<and> field ''started_at'' row = PStr (mc_iso me t0))"

definition life_ok :: "env \<Rightarrow> 'w config_env \<Rightarrow> 'w life \<Rightarrow> bool" where
  "life_ok e me L = (row_ok me (li_clock L) (row_of e (li_desk L)) \<and> (0 < li_threads L \<longrightarrow> row_of e (li_desk L) \<noteq> [])
     \<and> start_ok me (li_clock L) (li_start L) (row_of e (li_desk L)))"

lemma assoc_set_nonempty [simp]: "assoc_set k v row \<noteq> []" "[] \<noteq> assoc_set k v row"
  by (induction k v row rule: assoc_set.induct) auto

lemma fold_assoc_nonempty: "upd \<noteq> [] \<Longrightarrow> fold (\<lambda>(k, v). assoc_set k v) upd row \<noteq> []"
  by (induction upd arbitrary: row rule: rev_induct) auto

lemma started_row_start: "start_ok me now (Some now) (fold (\<lambda>(k, v). assoc_set k v) (started_row me now) row)"
  by (simp add: start_ok_def field_assoc_set)

lemma finished_row_start:
  "start_ok me now begun row \<Longrightarrow> row \<noteq> []
   \<Longrightarrow> start_ok me now begun (fold (\<lambda>(k, v). assoc_set k v) (finished_row me now good reason) row)"
  by (auto simp: start_ok_def field_assoc_set split: option.splits)

lemma spawned_ok:
  assumes "life_ok e me L" and "spawns e (at_time me (li_clock L)) ((r, spawned), d) (li_desk L)"
  shows "life_ok e me (L\<lparr>li_desk := d, li_threads := li_threads L + of_bool spawned,
    li_start := (if spawned then Some (li_clock L) else li_start L)\<rparr>)"
  using assms started_row_ok(1) [of me "li_clock L" "row_of e (li_desk L)"]
    started_row_start [of me "li_clock L" "row_of e (li_desk L)"]
    fold_assoc_nonempty [of "started_row me (li_clock L)" "row_of e (li_desk L)"]
  by (cases spawned) (auto simp: life_ok_def spawns_def)

lemma step_keeps_life:
  assumes "life_step first e me cu L L'" and "life_ok e me L"
  shows "life_ok e me L'"
  using assms
proof (cases rule: life_step.cases)
  case (tick t)
  then show ?thesis using assms(2) row_ok_later by (auto simp: life_ok_def start_ok_def split: option.splits)
next
  case (restart r spawned d)
  then show ?thesis
    using spawned_ok [OF assms(2)] config_restart_row [of "at_time me (li_clock L)" e "li_desk L" first cu] assms(2)
    by (simp add: life_ok_def)
next
  case (revert r spawned d)
  then show ?thesis
    using spawned_ok [OF assms(2)] config_revert_row [of "at_time me (li_clock L)" e "li_desk L" first cu] assms(2)
    by (simp add: life_ok_def)
next
  case finish
  have ok: "row_ok me (li_clock L) (row_of e (li_desk L))" "row_of e (li_desk L) \<noteq> []"
    "start_ok me (li_clock L) (li_start L) (row_of e (li_desk L))"
    using assms(2) finish(2) by (auto simp: life_ok_def)
  let ?row = "row_of e (finish_restart e (at_time me (li_clock L)) (li_desk L))"
  have "row_ok me (li_clock L) ?row \<and> ?row \<noteq> [] \<and> start_ok me (li_clock L) (li_start L) ?row"
    using finish_row [of "at_time me (li_clock L)" e "li_desk L"] ok finished_row_ok(1) [OF ok(1,2)]
      finished_row_start [OF ok(3,2)] fold_assoc_nonempty
    by (auto simp del: fold_simps)
  then show ?thesis by (simp add: finish(1) life_ok_def)
qed (use assms(2) in \<open>auto simp: life_ok_def\<close>)

lemma reachable_ok: "reachable first e me cu L \<Longrightarrow> life_ok e me L"
proof (induction rule: reachable.induct)
  case (init L)
  then show ?case by (simp add: life_ok_def row_ok_def start_ok_def)
next
  case (step L L')
  show ?case by (rule step_keeps_life [OF step(2,3)])
qed

lemma since_at:
  assumes "dates_read me" and "t0 \<le> t"
  shows "seconds_since (at_time me t) (PStr (mc_iso me t0)) = Inr (Some ((t - t0) div 1000000))"
  using assms by (simp add: seconds_since_def dates_read_def)

text \<open>C25: The restart banner tells the age of the last start and never gets stuck. After any sequence of
  restarts, reverts, finished or dead threads and other requests, the status page computes a status,
  one of five. Before the first start it is idle. From then on it shows the whole seconds since the
  last start, and says that a restart is in progress exactly as long as the row says so and less
  than 601 seconds have passed since that start, whether or not its thread survived; the remaining
  time it shows is what is left of 90 seconds, and 0 when none is in progress.\<close>

theorem restart_banner_bounded:
  assumes "reachable first e me cu L" and "dates_read me"
  shows "\<exists>rv. restart_status_payload e (at_time me (li_clock L)) (c_db (dk_ctx (li_desk L))) = Inr rv
    \<and> rv_status rv \<in> {''idle'', ''running'', ''ok'', ''failed'', ''unknown''}
    \<and> rv_in_progress rv = (rv_status rv = ''running'')
    \<and> rv_remaining rv = (if rv_in_progress rv then max 0 (90 - rv_elapsed rv) else 0)
    \<and> (case li_start L of
         None \<Rightarrow> rv_status rv = ''idle'' \<and> rv_elapsed rv = 0
       | Some t0 \<Rightarrow> t0 \<le> li_clock L \<and> rv_elapsed rv = (li_clock L - t0) div 1000000
           \<and> rv_in_progress rv = (field ''status'' (row_of e (li_desk L)) = PStr ''running''
                \<and> li_clock L - t0 < 601 * 1000000))"
proof -
  let ?row = "row_of e (li_desk L)" and ?me = "at_time me (li_clock L)"
  have row: "restart_state e (c_db (dk_ctx (li_desk L))) = ?row" by (simp add: row_of_def)
  have ok: "row_ok me (li_clock L) ?row" and begun: "start_ok me (li_clock L) (li_start L) ?row"
    using reachable_ok [OF assms(1)] by (simp_all add: life_ok_def)
  show ?thesis
  proof (cases "li_start L")
    case None
    then have "?row = []" using begun by (simp add: start_ok_def)
    then show ?thesis
      by (simp add: restart_status_payload_def row field_def seconds_since_def shown_status_def py_or_def or_zero_def None)
  next
    case (Some t0)
    then have t0: "t0 \<le> li_clock L" "?row \<noteq> []" "field ''started_at'' ?row = PStr (mc_iso me t0)"
      using begun by (auto simp: start_ok_def)
    have st: "field ''status'' ?row \<in> {PStr ''running'', PStr ''ok'', PStr ''failed''}"
      "field ''finished_at'' ?row = PNone \<or> dated me (li_clock L) (field ''finished_at'' ?row)"
      using ok t0(2) by (auto simp: row_ok_def)
    note i = since_at [OF assms(2) t0(1), folded t0(3)]
    obtain j where j: "seconds_since ?me (field ''finished_at'' ?row) = Inr j"
      using st(2) since_at [OF assms(2)] by (fastforce simp: seconds_since_def dated_def)
    have le: "\<not> RESTART_STALE_S < (li_clock L - t0) div 1000000 \<longleftrightarrow> li_clock L - t0 < 601 * 1000000"
      unfolding RESTART_STALE_S_def by linarith
    show ?thesis using st(1) i j t0(1) le
      by (auto simp: Some restart_status_payload_def row py_or_def shown_status_def or_zero_def RESTART_ESTIMATE_S_def Let_def)
  qed
qed

section \<open>Witness\<close>

text \<open>A date is a sign and as many strokes: enough for the law. The cluster of the other witnesses.\<close>

definition demo_iso :: "int \<Rightarrow> string" where
  "demo_iso t = (if 0 \<le> t then ''+'' else ''-'') @ replicate (nat \<bar>t\<bar>) (CHR ''1'')"

definition demo_parse :: "string \<Rightarrow> int option" where
  "demo_parse s = (case s of [] \<Rightarrow> None | c # r \<Rightarrow> Some (if c = CHR ''+'' then int (length r) else - int (length r)))"

definition demo_config :: "unit config_env" where
  "demo_config = master_env.extend demo_master
     \<lparr>mc_history = ''history'', mc_clock = 0, mc_iso = demo_iso, mc_iso_seconds = demo_iso, mc_parse = demo_parse,
      mc_sleep = id, mc_healthy = (\<lambda>w. (True, w))\<rparr>"

lemma demo_dates: "dates_read demo_config"
  by (simp add: dates_read_def demo_config_def master_env.defs demo_iso_def demo_parse_def)

definition demo_life :: "unit life" where
  "demo_life = \<lparr>li_desk = legacy_desk, li_clock = 0, li_threads = 0, li_start = None\<rparr>"

abbreviation demo_restart :: "(resp \<times> bool) \<times> unit desk" where
  "demo_restart \<equiv> config_restart (\<lambda>_. []) demo_env (at_time demo_config 0) root legacy_desk"

lemma demo_config_call:
  "k8s_call (me_net (at_time demo_config t)) (me_cfg (at_time demo_config t)) meth path body s
     = (Inr (PDict []), \<lparr>ku_world = ku_world s, ku_sent = ku_sent s @ [demo_request meth path body]\<rparr>)"
  using demo_call by (simp add: at_time_def demo_config_def master_env.defs)

lemma demo_fields: "mc_clock demo_config = 0" "mc_iso demo_config = demo_iso" "k8s_available (me_cfg (at_time demo_config t))"
  by (simp_all add: demo_config_def demo_master_def master_env.defs at_time_def k8s_available_def)

lemma demo_row: "row_of demo_env legacy_desk = []"
  by code_simp

lemma demo_gate:
  "pass_gate (master_gate (\<lambda>_. []) demo_env root ''master.rollout'') (dk_ctx legacy_desk) = Inr (dk_ctx legacy_desk)"
proof -
  have "rbac_mode demo_env (c_db (dk_ctx legacy_desk)) = ''legacy''" "2 \<le> role_level (u_role root)"
    by code_simp+
  then show ?thesis by (simp add: master_gate_def pass_gate_def roles_required_def require_def Let_def)
qed

lemma demo_started:
  "demo_restart = (fst demo_restart, snd demo_restart) \<and> snd (fst demo_restart)
   \<and> row_of demo_env (snd demo_restart) = started_row demo_config 0"
proof -
  have c: "legacy_desk\<lparr>dk_ctx := dk_ctx legacy_desk\<rparr> = legacy_desk" by simp
  have r: "restart_state demo_env (c_db (dk_ctx legacy_desk)) = []" using demo_row by (simp add: row_of_def)
  have s: "snd (fst demo_restart)"
    by (simp add: config_restart_def demo_gate restart_body_def restart_status_payload_def r field_def seconds_since_def
        shown_status_def py_or_def start_restart_def restart_statefulset_def demo_config_call demo_fields)
  have "spawns demo_env (at_time demo_config 0) demo_restart legacy_desk"
    by (rule config_restart_row) (simp add: demo_row row_ok_def)
  then show ?thesis using s by (simp add: spawns_def demo_row)
qed

text \<open>The master restarts, its thread dies with the worker, and time passes.\<close>

definition dead_life :: "int \<Rightarrow> unit life" where
  "dead_life t = demo_life\<lparr>li_desk := snd demo_restart, li_clock := t, li_start := Some 0\<rparr>"

lemma dead_reachable:
  assumes "0 \<le> t"
  shows "reachable (\<lambda>_. []) demo_env demo_config root (dead_life t)"
proof -
  let ?step = "life_step (\<lambda>_. []) demo_env demo_config root"
  let ?L1 = "demo_life\<lparr>li_desk := snd demo_restart, li_threads := Suc 0, li_start := Some 0\<rparr>"
  let ?L2 = "demo_life\<lparr>li_desk := snd demo_restart, li_start := Some 0\<rparr>"
  have "reachable (\<lambda>_. []) demo_env demo_config root demo_life"
    by (rule reachable.init) (simp_all add: demo_life_def demo_row)
  moreover obtain r d where p: "demo_restart = ((r, True), d)" using demo_started by (metis prod.collapse)
  have "?step demo_life ?L1"
    using life_step.restart [of "\<lambda>_. []" demo_env demo_config demo_life root r True d] p by (simp add: demo_life_def)
  moreover have "?step ?L1 ?L2"
    using life_step.die [of ?L1] by (simp add: demo_life_def)
  moreover have "?step ?L2 (dead_life t)"
    using life_step.tick [of ?L2 t] assms by (simp add: dead_life_def demo_life_def)
  ultimately show ?thesis by (blast intro: reachable.step)
qed

lemma demo_running: "field ''status'' (row_of demo_env (snd demo_restart)) = PStr ''running''"
  using demo_started by (simp add: field_def)

theorem restart_banner_bounded_witness:
  "(\<exists>rv. restart_status_payload demo_env (at_time demo_config (540 * 1000000)) (c_db (dk_ctx (snd demo_restart))) = Inr rv
     \<and> rv_in_progress rv \<and> rv_elapsed rv = 540)
   \<and> (\<exists>rv. restart_status_payload demo_env (at_time demo_config (1000 * 1000000)) (c_db (dk_ctx (snd demo_restart))) = Inr rv
     \<and> \<not> rv_in_progress rv \<and> rv_elapsed rv = 1000)"
proof (rule conjI)
  show "\<exists>rv. restart_status_payload demo_env (at_time demo_config (540 * 1000000)) (c_db (dk_ctx (snd demo_restart))) = Inr rv
      \<and> rv_in_progress rv \<and> rv_elapsed rv = 540"
    using restart_banner_bounded [OF dead_reachable [of "540 * 1000000"] demo_dates] demo_running
    by (auto simp: dead_life_def)
  show "\<exists>rv. restart_status_payload demo_env (at_time demo_config (1000 * 1000000)) (c_db (dk_ctx (snd demo_restart))) = Inr rv
      \<and> \<not> rv_in_progress rv \<and> rv_elapsed rv = 1000"
    using restart_banner_bounded [OF dead_reachable [of "1000 * 1000000"] demo_dates] by (auto simp: dead_life_def)
qed

lemma stuck_life_unknown:
  "map_option rv_status (case restart_status_payload demo_env (at_time demo_config (1000 * 1000000)) (c_db (dk_ctx (snd demo_restart)))
     of Inl _ \<Rightarrow> None | Inr rv \<Rightarrow> Some rv) = Some ''unknown''"
proof -
  have "restart_state demo_env (c_db (dk_ctx (snd demo_restart))) = started_row demo_config 0"
    using demo_started by (simp add: row_of_def)
  then show ?thesis
    using demo_dates by (simp add: restart_status_payload_def field_def seconds_since_def py_or_def shown_status_def
        dates_read_def or_zero_def RESTART_STALE_S_def)
qed

end
