(* ===== verification/MasterProps.thy ===== *)
theory MasterProps
  imports RestartLife
begin

text \<open>
  A save of the master configuration never loses what it replaces: the replacement of the live
  ConfigMap is the last write of the request and changes one key of the data it read there, and a
  history that ends with that data was accepted before it.
\<close>

section \<open>The writes of a request\<close>

text \<open>A request on one ConfigMap of the namespace, and a replacement of its data at a revision.\<close>

definition on_map :: "'w config_env \<Rightarrow> string \<Rightarrow> k8s_request \<Rightarrow> bool" where
  "on_map me cm q =
     (\<exists>server. kc_server (me_cfg me) = Some server
        \<and> kq_url q = server @ ''/api/v1/namespaces/'' @ kc_namespace (me_cfg me) @ ''/configmaps/'' @ cm)"

definition put_to :: "'w config_env \<Rightarrow> string \<Rightarrow> pyval \<Rightarrow> pyval \<Rightarrow> k8s_request \<Rightarrow> bool" where
  "put_to me cm v rv q =
     (kq_method q = ''PUT'' \<and> on_map me cm q \<and> kq_body q = Some (replace_body (me_cfg me) cm v rv))"

text \<open>An entry added to the history as some read of this program found it.\<close>

definition history_put :: "'w config_env \<Rightarrow> user \<Rightarrow> pyval \<Rightarrow> pyval \<Rightarrow> k8s_request \<Rightarrow> bool" where
  "history_put me cu v rv q =
     (\<exists>revs hrv a b. read_history me a = (Inr (revs, hrv), b)
        \<and> put_to me (mc_history me) (history_payload (revs @ [history_entry me cu v rv])) hrv q)"

definition accepted :: "'w config_env \<Rightarrow> k8s_request \<Rightarrow> bool" where
  "accepted me q = (\<exists>w st v. transport_reply (fst (me_net me q w)) = Inr (st, v) \<and> st < 400)"

text \<open>What the stored history says: at most twenty revisions, the new one last.\<close>

lemma history_payload_keeps:
  "history_payload (revs @ [x]) =
     PDict [(HISTORY_KEY, PStr (json_dumps (PList (drop (length revs + 1 - REVISION_LIMIT) revs @ [x]))))]"
  by (simp add: history_payload_def REVISION_LIMIT_def)

lemma history_bounded: "length (drop (length revs + 1 - REVISION_LIMIT) revs @ [x]) \<le> REVISION_LIMIT"
  by (simp add: REVISION_LIMIT_def)

lemma call_put:
  assumes "k8s_call (me_net me) (me_cfg me) meth path body s = (r, s')"
    and "\<And>q server. kq_method q = meth \<Longrightarrow> kq_body q = body \<Longrightarrow> kc_server (me_cfg me) = Some server
      \<Longrightarrow> kq_url q = server @ path \<Longrightarrow> P q"
  shows "ku_sent s' = ku_sent s \<or> (\<exists>q. ku_sent s' = ku_sent s @ [q] \<and> P q \<and> (\<forall>v. r = Inr v \<longrightarrow> accepted me q))"
    and "r = Inr v \<Longrightarrow> \<exists>q. ku_sent s' = ku_sent s @ [q] \<and> P q \<and> accepted me q"
proof -
  have "ku_sent s' = ku_sent s \<and> \<not> isr r \<or> (\<exists>q. ku_sent s' = ku_sent s @ [q] \<and> P q \<and> (isr r \<longrightarrow> accepted me q))"
    if "isr = (\<lambda>r :: pyval res. \<exists>v. r = Inr v)" for isr
  proof (cases "k8s_available (me_cfg me) \<and> kc_server (me_cfg me) \<noteq> None \<and> kc_token (me_cfg me) \<noteq> None")
    case False
    then show ?thesis using assms(1) that by (auto simp: k8s_call_def split: bool.splits option.splits)
  next
    case True
    then obtain server token where st: "kc_server (me_cfg me) = Some server" "kc_token (me_cfg me) = Some token" by blast
    let ?q = "\<lparr>kq_method = meth, kq_url = server @ path, kq_body = body, kq_token = token,
      kq_content_type = k8s_content_type meth body, kq_ca_path = kc_ca_path (me_cfg me), kq_timeout = 10\<rparr>"
    obtain reply w where n: "me_net me ?q (ku_world s) = (reply, w)" by fastforce
    have "ku_sent s' = ku_sent s @ [?q] \<and> (isr r \<longrightarrow> (\<exists>st v. transport_reply reply = Inr (st, v) \<and> st < 400))"
      using assms(1) st True n that
      by (auto simp: k8s_call_def default_transport_def split: sum.splits prod.splits if_splits)
    moreover have "P ?q" by (rule assms(2) [OF _ _ st(1)]) simp_all
    moreover have "fst (me_net me ?q (ku_world s)) = reply" by (simp add: n)
    ultimately show ?thesis unfolding accepted_def by metis
  qed
  from this [OF refl]
  show "ku_sent s' = ku_sent s \<or> (\<exists>q. ku_sent s' = ku_sent s @ [q] \<and> P q \<and> (\<forall>v. r = Inr v \<longrightarrow> accepted me q))"
    and "r = Inr v \<Longrightarrow> \<exists>q. ku_sent s' = ku_sent s @ [q] \<and> P q \<and> accepted me q" by auto
qed

text \<open>The reads and writes of one snapshot.\<close>

abbreviation reads_or :: "(k8s_request \<Rightarrow> bool) \<Rightarrow> k8s_request \<Rightarrow> bool" where
  "reads_or P q \<equiv> is_get q \<or> P q"

lemma read_history_asks: "read_history me s = (r, s') \<Longrightarrow> asks is_get s s'"
  by (auto simp: read_history_def split: prod.splits sum.splits option.splits if_splits dest: get_configmap_asks)

lemma put_history_sent:
  assumes "put_history me (history_entry me cu v rv) h s = (r, s')" and "read_history me a = (Inr h, b)"
  shows "asks (history_put me cu v rv) s s'"
    and "r = Inr x \<Longrightarrow> \<exists>q. ku_sent s' = ku_sent s @ [q] \<and> history_put me cu v rv q \<and> accepted me q"
proof -
  let ?body = "Some (replace_body (me_cfg me) (mc_history me) (history_payload (fst h @ [history_entry me cu v rv])) (snd h))"
  obtain r0 where c: "k8s_call (me_net me) (me_cfg me) ''PUT'' (configmap_path (me_cfg me) (mc_history me)) ?body s = (r0, s')"
    and r: "r = res_bind r0 revision_of"
    using assms(1) by (auto simp: put_history_def replace_configmap_def split: prod.splits)
  have P: "history_put me cu v rv q" if "kq_method q = ''PUT''" "kq_body q = ?body" "kc_server (me_cfg me) = Some server"
    "kq_url q = server @ configmap_path (me_cfg me) (mc_history me)" for q server
    unfolding history_put_def put_to_def on_map_def
    using that assms(2)
    by (intro exI [of _ "fst h"] exI [of _ "snd h"] exI [of _ a] exI [of _ b]) (simp add: configmap_path_def)
  show "asks (history_put me cu v rv) s s'" using call_put(1) [OF c, of "history_put me cu v rv"] P by (fastforce simp: asks_def)
  assume "r = Inr x"
  then obtain v0 where v0: "r0 = Inr v0" using r by (cases r0) auto
  show "\<exists>q. ku_sent s' = ku_sent s @ [q] \<and> history_put me cu v rv q \<and> accepted me q"
    by (rule call_put(2) [OF c _ v0]) (rule P)
qed

definition kept :: "'w config_env \<Rightarrow> user \<Rightarrow> pyval \<Rightarrow> pyval \<Rightarrow> 'w kube \<Rightarrow> 'w kube \<Rightarrow> bool" where
  "kept me cu v rv a b =
     (\<exists>new h. ku_sent b = ku_sent a @ new @ [h] \<and> list_all (reads_or (history_put me cu v rv)) new
        \<and> history_put me cu v rv h \<and> accepted me h)"

lemma kept_after: "asks (reads_or (history_put me cu v rv)) a b \<Longrightarrow> kept me cu v rv b c \<Longrightarrow> kept me cu v rv a c"
  by (force simp: asks_def kept_def)

lemma snapshot_sent:
  assumes "snapshot_live me cu v rv s = (r, s')"
  shows "asks (reads_or (history_put me cu v rv)) s s'" and "r = Inr () \<Longrightarrow> kept me cu v rv s s'"
proof -
  let ?P = "reads_or (history_put me cu v rv)" and ?entry = "history_entry me cu v rv"
  note get = asks_mono [OF read_history_asks, of me _ _ _ ?P]
  have put: "asks ?P a b" if "put_history me ?entry h a = (x, b)" "read_history me c = (Inr h, c')" for h a b c c' x
    by (rule asks_mono [OF put_history_sent(1) [OF that]]) simp
  have fin: "kept me cu v rv a b" if "put_history me ?entry h a = (Inr x, b)" "read_history me c = (Inr h, c')" for h a b c c' x
    using put_history_sent(2) [OF that refl] by (force simp: kept_def intro: exI [of _ "[]"])
  obtain r1 k1 where 1: "read_history me s = (r1, k1)" by fastforce
  have g1: "asks ?P s k1" by (rule get [OF 1]) simp
  have "asks ?P s s' \<and> (r = Inr () \<longrightarrow> kept me cu v rv s s')"
  proof (cases r1)
    case (Inl er)
    then show ?thesis using assms 1 g1 by (auto simp: snapshot_live_def)
  next
    case (Inr h)
    obtain r2 k2 where 2: "put_history me ?entry h k1 = (r2, k2)" by fastforce
    have g2: "asks ?P s k2" using g1 put [OF 2 1 [unfolded Inr]] by (blast intro: asks_trans)
    show ?thesis
    proof (cases r2)
      case r2: (Inr x)
      then have "k2 = s'" using assms 1 Inr 2 by (auto simp: snapshot_live_def)
      then show ?thesis using g2 kept_after [OF g1 fin [OF _ 1 [unfolded Inr]]] 2 r2 by blast
    next
      case r2: (Inl er)
      obtain r3 k3 where 3: "read_history me k2 = (r3, k3)" by fastforce
      have g3: "asks ?P s k3" using g2 get [OF 3] by (blast intro: asks_trans)
      show ?thesis
      proof (cases "is_conflict er \<and> (\<exists>h'. r3 = Inr h')")
        case False
        then have "r \<noteq> Inr () \<and> (s' = k2 \<or> s' = k3)"
          using assms 1 Inr 2 r2 3 by (cases r3) (auto simp: snapshot_live_def split: if_splits)
        then show ?thesis using g2 g3 by auto
      next
        case True
        then obtain h' where h': "r3 = Inr h'" by blast
        obtain r4 k4 where 4: "put_history me ?entry h' k3 = (r4, k4)" by fastforce
        have g4: "asks ?P s k4" using g3 put [OF 4 3 [unfolded h']] by (blast intro: asks_trans)
        have "s' = k4" "r = Inr () \<longrightarrow> (\<exists>x. r4 = Inr x)"
          using assms 1 Inr 2 r2 3 h' 4 True by (cases r4; auto simp: snapshot_live_def)+
        then show ?thesis using g4 kept_after [OF g3 fin [OF _ 3 [unfolded h']]] 4 by blast
      qed
    qed
  qed
  then show "asks ?P s s'" "r = Inr () \<Longrightarrow> kept me cu v rv s s'" by auto
qed

section \<open>The save\<close>

text \<open>The edit a save makes, and the shape of a request that made it.\<close>

definition acceptable :: "'w config_env \<Rightarrow> string \<Rightarrow> string \<Rightarrow> (string \<times> pyval) list \<Rightarrow> bool" where
  "acceptable me key text data =
     (dict_get key data \<noteq> None \<and> dict_get key data \<noteq> Some (PStr text) \<and> utf8_length text \<le> MAX_BYTES
      \<and> yaml_error me key text = Inr None)"

definition saved_after ::
  "'w config_env \<Rightarrow> user \<Rightarrow> form \<Rightarrow> (string \<times> pyval) list \<Rightarrow> pyval \<Rightarrow> k8s_request list \<Rightarrow> k8s_request \<Rightarrow> k8s_request list \<Rightarrow> bool" where
  "saved_after me cu f data rv pre q post =
     (acceptable me (form_get f ''key'') (form_get f ''content'') data
      \<and> put_to me (me_cm me) (PDict (assoc_set (form_get f ''key'') (PStr (form_get f ''content'')) data))
          (PStr (form_get f ''base_resource_version'')) q
      \<and> list_all (reads_or (history_put me cu (PDict data) rv)) pre
      \<and> (\<exists>h \<in> set pre. history_put me cu (PDict data) rv h \<and> accepted me h)
      \<and> list_all is_get post)"

text \<open>
  Nothing but reads; or, for an acceptable edit of the live object as its one read found it, either no
  write but to the history, or the replacement with the snapshot before it.
\<close>

definition save_writes :: "'w config_env \<Rightarrow> user \<Rightarrow> form \<Rightarrow> 'w kube \<Rightarrow> 'w kube \<Rightarrow> bool" where
  "save_writes me cu f a b =
     (asks is_get a b
      \<or> (\<exists>cm k data g. get_configmap (me_net me) (me_cfg me) (me_cm me) a = (Inr cm, k)
           \<and> py_or (cm_data cm) (PDict []) = PDict data
           \<and> ku_sent k = ku_sent a @ [g] \<and> kq_method g = ''GET'' \<and> on_map me (me_cm me) g \<and> accepted me g
           \<and> (asks (reads_or (history_put me cu (PDict data) (cm_revision cm))) k b
              \<or> (\<exists>pre q post. ku_sent b = ku_sent k @ pre @ q # post \<and> saved_after me cu f data (cm_revision cm) pre q post))))"

text \<open>What a save sends after the read of the live object.\<close>

definition edit_writes :: "'w config_env \<Rightarrow> user \<Rightarrow> form \<Rightarrow> (string \<times> pyval) list \<Rightarrow> pyval \<Rightarrow> 'w kube \<Rightarrow> 'w kube \<Rightarrow> bool" where
  "edit_writes me cu f data rv k b =
     (asks (reads_or (history_put me cu (PDict data) rv)) k b
      \<or> (\<exists>pre q post. ku_sent b = ku_sent k @ pre @ q # post \<and> saved_after me cu f data rv pre q post))"

lemma get_configmap_sent:
  assumes "get_configmap (me_net me) (me_cfg me) cm a = (Inr c, k)"
  shows "\<exists>g. ku_sent k = ku_sent a @ [g] \<and> kq_method g = ''GET'' \<and> on_map me cm g \<and> accepted me g"
proof -
  obtain r where c: "k8s_call (me_net me) (me_cfg me) ''GET'' (configmap_path (me_cfg me) cm) None a = (r, k)"
    using assms by (auto simp: get_configmap_def split: prod.splits)
  then obtain v where v: "r = Inr v" using assms by (cases r) (auto simp: get_configmap_def)
  have P: "kq_method g = ''GET'' \<and> on_map me cm g" if "kq_method g = ''GET''" "kc_server (me_cfg me) = Some server"
    "kq_url g = server @ configmap_path (me_cfg me) cm" for g server
    using that by (simp add: on_map_def configmap_path_def)
  have "\<exists>g. ku_sent k = ku_sent a @ [g] \<and> (kq_method g = ''GET'' \<and> on_map me cm g) \<and> accepted me g"
    by (rule call_put(2) [OF c _ v]) (rule P)
  then show ?thesis by simp
qed

lemma save_writes_edit:
  assumes "get_configmap (me_net me) (me_cfg me) (me_cm me) a = (Inr cm, k)" "py_or (cm_data cm) (PDict []) = PDict data"
    and "edit_writes me cu f data (cm_revision cm) k b"
  shows "save_writes me cu f a b"
  using get_configmap_sent [OF assms(1)] assms unfolding save_writes_def edit_writes_def by blast

lemma save_writes_reads: "asks is_get a b \<Longrightarrow> save_writes me cu f a b"
  unfolding save_writes_def by blast

lemma dk_kube_with [simp]: "dk_kube (dk_with ku d) = ku" "dk_kube (d\<lparr>dk_ctx := c\<rparr>) = dk_kube d"
  by (simp_all add: dk_with_def)

lemma dk_kube_refused [simp]: "dk_kube (save_refused cu key why d) = dk_kube d"
  "dk_kube (snd (dk_answer to m c d)) = dk_kube d"
  by (simp_all add: save_refused_def dk_answer_def)

lemma config_write_sends:
  assumes "acceptable me (form_get f ''key'') (form_get f ''content'') data"
    and "config_write me cu (form_get f ''key'') (form_get f ''content'') (form_get f ''base_resource_version'') data rv d = out"
  shows "edit_writes me cu f data rv (dk_kube d) (dk_kube (snd out))"
proof -
  let ?key = "form_get f ''key''" and ?text = "form_get f ''content''" and ?base = "form_get f ''base_resource_version''"
  let ?put = "PDict (assoc_set ?key (PStr ?text) data)"
  let ?P = "reads_or (history_put me cu (PDict data) rv)"
  obtain r1 k1 where 1: "snapshot_live me cu (PDict data) rv (dk_kube d) = (r1, k1)" by fastforce
  show ?thesis
  proof (cases r1)
    case (Inl er)
    then have "dk_kube (snd out) = k1" using assms(2) 1 by (auto simp: config_write_def)
    then show ?thesis using snapshot_sent(1) [OF 1] by (auto simp: edit_writes_def)
  next
    case (Inr u)
    obtain r0 k2 where c: "k8s_call (me_net me) (me_cfg me) ''PUT'' (configmap_path (me_cfg me) (me_cm me))
        (Some (replace_body (me_cfg me) (me_cm me) ?put (PStr ?base))) k1 = (r0, k2)" by fastforce
    have sent: "ku_sent k2 = ku_sent k1 \<or> (\<exists>q. ku_sent k2 = ku_sent k1 @ [q] \<and> put_to me (me_cm me) ?put (PStr ?base) q)"
      using call_put(1) [OF c, of "put_to me (me_cm me) ?put (PStr ?base)"]
      by (auto simp: put_to_def on_map_def configmap_path_def)
    have rest: "asks is_get k2 (dk_kube (snd out))"
      using assms(2) 1 c Inr
      by (auto simp: config_write_def replace_configmap_def split: sum.splits prod.splits dest!: set_restart_asks)
    from snapshot_sent(2) [OF 1] Inr obtain pre h where k1: "ku_sent k1 = ku_sent (dk_kube d) @ pre @ [h]"
      "list_all ?P pre" "history_put me cu (PDict data) rv h" "accepted me h" by (auto simp: kept_def)
    obtain post where post: "ku_sent (dk_kube (snd out)) = ku_sent k2 @ post" "list_all is_get post"
      using rest by (auto simp: asks_def)
    from sent show ?thesis
    proof
      assume "ku_sent k2 = ku_sent k1"
      then have "asks ?P (dk_kube d) (dk_kube (snd out))"
        using post k1 by (auto simp: asks_def list_all_iff)
      then show ?thesis by (auto simp: edit_writes_def)
    next
      assume "\<exists>q. ku_sent k2 = ku_sent k1 @ [q] \<and> put_to me (me_cm me) ?put (PStr ?base) q"
      then obtain q where q: "ku_sent k2 = ku_sent k1 @ [q]" "put_to me (me_cm me) ?put (PStr ?base) q" by blast
      then have "ku_sent (dk_kube (snd out)) = ku_sent (dk_kube d) @ (pre @ [h]) @ q # post" using k1 post by simp
      moreover have "saved_after me cu f data rv (pre @ [h]) q post"
        using assms(1) q k1 post by (auto simp: saved_after_def list_all_iff)
      ultimately show ?thesis unfolding edit_writes_def by blast
    qed
  qed
qed

lemma config_check_sends:
  "edit_writes me cu f data rv (dk_kube d) (dk_kube (snd (config_check me cu (form_get f ''key'') (form_get f ''content'')
     (form_get f ''base_resource_version'') data rv d)))"
proof (cases "acceptable me (form_get f ''key'') (form_get f ''content'') data")
  case True
  then show ?thesis using config_write_sends [OF True refl, where cu = cu and rv = rv and d = d] by (auto simp: config_check_def acceptable_def)
next
  case False
  then show ?thesis
    by (auto simp: config_check_def acceptable_def edit_writes_def split: sum.splits option.splits)
qed

lemma config_save_body_sends: "save_writes me cu f (dk_kube d) (dk_kube (snd (config_save_body me cu f d)))"
proof -
  obtain r ku where g: "get_configmap (me_net me) (me_cfg me) (me_cm me) (dk_kube d) = (r, ku)" by fastforce
  note reads = get_configmap_asks [OF g]
  show ?thesis
  proof (cases r)
    case (Inl er)
    then show ?thesis using g reads by (auto simp: config_save_body_def Let_def intro: save_writes_reads)
  next
    case (Inr cm)
    show ?thesis
    proof (cases "\<exists>data. py_or (cm_data cm) (PDict []) = PDict data")
      case True
      then obtain data where data: "py_or (cm_data cm) (PDict []) = PDict data" by blast
      have "dk_kube (dk_with ku d) = ku" by simp
      note e = config_check_sends [of me cu f data "cm_revision cm" "dk_with ku d", unfolded this]
      show ?thesis
        using save_writes_edit [OF g [unfolded Inr] data e] g Inr data by (simp add: config_save_body_def Let_def)
    next
      case False
      then show ?thesis using g Inr reads
        by (auto simp: config_save_body_def split: pyval.splits intro: save_writes_reads)
    qed
  qed
qed

text \<open>C24: A save of the master configuration never loses what it replaces. It sends reads only; or it reads
  the live ConfigMap first (an accepted GET of that object, whose reply gives the data and the
  revision spoken of below) and then sends reads and additions to the history ConfigMap only, or also
  one PUT to the live ConfigMap, at the revision of the form, of exactly the data it read with the
  posted key set to the posted text: a key that was there, a text that differs, is within the size
  limit and passes validation. That PUT comes after a PUT to the history ConfigMap was accepted whose
  last entry holds the whole data read and its revision, and no write follows it.\<close>

theorem save_snapshots_first:
  "save_writes me cu f (dk_kube d) (dk_kube (snd (config_save first e me cu f d)))"
proof (cases "pass_gate (master_gate first e cu ''master.write'') (dk_ctx d)")
  case (Inl rc)
  then show ?thesis by (cases rc) (auto simp: config_save_def intro: save_writes_reads)
next
  case (Inr c)
  then show ?thesis using config_save_body_sends [of me cu f "d\<lparr>dk_ctx := c\<rparr>"] by (simp add: config_save_def)
qed

end
