(* ===== verification/JobForms.thy ===== *)
theory JobForms
  imports Launch
begin

text \<open>
  The tables and pure helpers of the job runner, \<open>overstate_ui/jobs_helpers.py\<close>: the functions the
  forms may run, the presets, the sort of the job lists, the glob suggested for a selection of
  minions and the counts of a state return.
\<close>

definition TGT_TYPES :: "string list" where
  "TGT_TYPES = [''glob'', ''list'', ''grain'', ''compound'', ''nodegroup'']"

definition JOB_SORT_COLUMNS :: "string list" where
  "JOB_SORT_COLUMNS = [''started'', ''jid'', ''fun'', ''user'']"

section \<open>Names\<close>

definition ascii_alnum :: "char \<Rightarrow> bool" where
  "ascii_alnum c = (ascii_digit c \<or> (let n = of_char c :: nat in 65 \<le> n \<and> n < 91 \<or> 97 \<le> n \<and> n < 123))"

text \<open>\<open>^[...]+$\<close>: the dollar also stands before one newline at the end.\<close>

definition only_chars :: "(char \<Rightarrow> bool) \<Rightarrow> string \<Rightarrow> bool" where
  "only_chars P s =
     (let t = (if s \<noteq> [] \<and> last s = CHR 0x0A then butlast s else s) in t \<noteq> [] \<and> list_all P t)"

definition fun_re :: "string \<Rightarrow> bool" where
  "fun_re = only_chars (\<lambda>c. ascii_alnum c \<or> c \<in> set ''_.'')"

definition mods_re :: "string \<Rightarrow> bool" where
  "mods_re = only_chars (\<lambda>c. ascii_alnum c \<or> c \<in> set ''_.-'')"

definition saltenv_re :: "string \<Rightarrow> bool" where
  "saltenv_re = only_chars (\<lambda>c. ascii_alnum c \<or> c \<in> set ''_-'')"

section \<open>Sorting\<close>

text \<open>A sort by a pair of keys is two stable sorts; \<open>reverse=True\<close> keeps the order of equal rows.\<close>

definition sort_dir :: "('a \<Rightarrow> 'b::linorder) \<Rightarrow> string \<Rightarrow> 'a list \<Rightarrow> 'a list" where
  "sort_dir k dir rows = (if dir = ''desc'' then rev (sort_key k (rev rows)) else sort_key k rows)"

definition started_key :: "job \<Rightarrow> int" where
  "started_key j = (case j_started_at j of None \<Rightarrow> 0 | Some t \<Rightarrow> utc_micros t)"

definition sort_jobs :: "job list \<Rightarrow> string \<Rightarrow> string \<Rightarrow> job list" where
  "sort_jobs rows by dir =
     (let by_jid = sort_dir j_jid dir rows
      in if by = ''fun'' then sort_dir j_fun dir by_jid
         else if by = ''user'' then sort_dir j_user dir by_jid
         else if by = ''jid'' then by_jid
         else sort_dir (\<lambda>j. j_started_at j \<noteq> None) dir (sort_dir started_key dir by_jid))"

section \<open>A glob for a selection\<close>

fun shared_prefix :: "string \<Rightarrow> string \<Rightarrow> string" where
  "shared_prefix (a # x) (b # y) = (if a = b then a # shared_prefix x y else [])"
| "shared_prefix _ _ = []"

text \<open>\<open>os.path.commonprefix\<close> compares the least and the greatest.\<close>

definition common_prefix :: "string list \<Rightarrow> string" where
  "common_prefix xs = (if xs = [] then [] else shared_prefix (Min (set xs)) (Max (set xs)))"

definition suggest_glob :: "string list \<Rightarrow> string list \<Rightarrow> string \<times> string list \<times> string list" where
  "suggest_glob ids roster0 =
     (let selected = sort (remdups (filter (\<lambda>i. i \<noteq> []) (map py_strip ids)));
          roster = sort (remdups roster0);
          prefix = common_prefix selected
      in if selected = [] then ([], [], [])
         else if roster \<noteq> [] \<and> set roster \<subseteq> set selected then (''*'', selected, roster)
         else if length selected = 1 then (hd selected, selected, if hd selected \<in> set roster then [hd selected] else [])
         else if prefix = [] then ([], selected, [])
         else (prefix @ ''*'', selected, filter (starts_with prefix) roster))"

section \<open>The counts of a state return\<close>

fun is_py_int :: "pyval \<Rightarrow> bool" where
  "is_py_int (PInt _) = True"
| "is_py_int (PBool _) = True"
| "is_py_int _ = False"

text \<open>The \<open>result\<close> of every value that is a state result.\<close>

definition state_results :: "(string \<times> pyval) list \<Rightarrow> pyval list" where
  "state_results kvs =
     concat (map (\<lambda>(_, v). case v of PDict r \<Rightarrow> (case dict_get ''result'' r of None \<Rightarrow> [] | Some x \<Rightarrow> [x]) | _ \<Rightarrow> []) kvs)"

definition summarize_state_return :: "pyval \<Rightarrow> (pyval \<times> pyval) option" where
  "summarize_state_return payload =
     (case payload of
        PDict kvs \<Rightarrow>
          (case (dict_get ''succeeded'' kvs, dict_get ''failed'' kvs) of
             (Some s, Some f) \<Rightarrow>
               if is_py_int s \<and> is_py_int f then Some (s, f)
               else (let rs = state_results kvs; bad = filter (\<lambda>r. r = PBool False) rs
                     in if rs = [] then None
                        else Some (PInt (int (length rs) - int (length bad)), PInt (int (length bad))))
           | _ \<Rightarrow>
               (let rs = state_results kvs; bad = filter (\<lambda>r. r = PBool False) rs
                in if rs = [] then None
                   else Some (PInt (int (length rs) - int (length bad)), PInt (int (length bad)))))
      | _ \<Rightarrow> None)"

section \<open>Presets and operations\<close>

type_synonym preset_row = "(string \<times> string) list"

definition preset :: "string \<Rightarrow> string \<Rightarrow> string \<Rightarrow> string \<Rightarrow> preset_row" where
  "preset tgt tgt_type f args = [(''tgt'', tgt), (''tgt_type'', tgt_type), (''fun'', f), (''args'', args)]"

record op_row =
  op_preset :: string
  op_fun :: string
  op_args :: string
  op_about :: string

definition operation :: "string \<Rightarrow> string \<Rightarrow> string \<Rightarrow> string \<Rightarrow> op_row" where
  "operation p f args about = \<lparr>op_preset = p, op_fun = f, op_args = args, op_about = about\<rparr>"

definition FLEET_PRESETS :: "(string \<times> preset_row) list" where
  "FLEET_PRESETS = [
     (''pkg-install'', preset ''*'' ''glob'' ''pkg.install'' []),
     (''pkg-remove'', preset ''*'' ''glob'' ''pkg.remove'' []),
     (''service-restart'', preset ''*'' ''glob'' ''service.restart'' []),
     (''service-status'', preset ''*'' ''glob'' ''service.status'' []),
     (''process-signal'', preset ''*'' ''glob'' ''ps.kill_pid'' ''<pid> <signal>''),
     (''minion-restart'', preset ''*'' ''glob'' ''service.restart'' ''salt-minion''),
     (''mine-update'', preset ''*'' ''glob'' ''mine.update'' []),
     (''vuln-scan'', preset ''*'' ''glob'' ''schedule.run_job'' ''grype-cve-scan''),
     (''refresh-pillar'', preset ''*'' ''glob'' ''saltutil.refresh_pillar'' []),
     (''sync-all'', preset ''*'' ''glob'' ''saltutil.sync_all'' [])]"

definition OPERATION_GROUPS :: "(string \<times> op_row list) list" where
  "OPERATION_GROUPS = [
     (''First-class'', [
        operation ''ping'' ''test.ping'' []
          ''Check minions respond'',
        operation ''apply'' ''state.apply'' []
          ''Apply states (args: sls names)'',
        operation ''highstate'' ''state.highstate'' []
          ''Enforce the full state tree'',
        operation ''highstate-dry'' ''state.highstate'' ''test=True''
          ''Preview highstate, change nothing'']),
     (''Fleet'', [
        operation ''pkg-install'' ''pkg.install'' []
          ''Install packages (args: names)'',
        operation ''pkg-remove'' ''pkg.remove'' []
          ''Remove packages (args: names)'',
        operation ''service-restart'' ''service.restart'' []
          ''Restart a service (args: name)'',
        operation ''service-status'' ''service.status'' []
          ''Check a service status (args: name)'',
        operation ''process-signal'' ''ps.kill_pid'' ''<pid> <signal>''
          ''Signal a process by PID'',
        operation ''minion-restart'' ''service.restart'' ''salt-minion''
          ''Restart the salt-minion service'',
        operation ''mine-update'' ''mine.update'' []
          ''Refresh mine data'']),
     (''Pillar & sync'', [
        operation ''refresh-pillar'' ''saltutil.refresh_pillar'' []
          ''Refresh pillar data'',
        operation ''sync-all'' ''saltutil.sync_all'' []
          ''Sync modules to minions'']),
     (''Security'', [
        operation ''vuln-scan'' ''schedule.run_job'' ''grype-cve-scan''
          ''Run the daily grype scan now on the fleet''])]"

text \<open>The first description of a function stays.\<close>

definition all_ops :: "op_row list" where
  "all_ops = concat (map snd OPERATION_GROUPS)"

definition OP_FUNCTIONS :: "(string \<times> string) list" where
  "OP_FUNCTIONS = fold (\<lambda>op acc. if op_fun op \<in> set (map fst acc) then acc else acc @ [(op_fun op, op_about op)]) all_ops []"

definition ALLOWED_FUNS :: "string list" where
  "ALLOWED_FUNS =
     map op_fun all_ops
     @ concat (map (\<lambda>(_, p). case map_of p ''fun'' of None \<Rightarrow> [] | Some f \<Rightarrow> [f]) FLEET_PRESETS)
     @ [''schedule.list'', ''schedule.add'', ''schedule.enable_job'', ''schedule.disable_job'', ''schedule.delete'',
        ''beacons.list'', ''beacons.enable_beacon'', ''beacons.disable_beacon'', ''grains.items'', ''pillar.items'',
        ''mine.get'', ''sys.doc'', ''sys.list_functions'', ''state.show_highstate'', ''state.show_sls'',
        ''saltutil.kill_job'', ''schedule.run_job'']"

section \<open>Facts\<close>

text \<open>Every function the form may run belongs to a class of the permission catalog.\<close>

lemma allowed_funs_classified: "list_all (\<lambda>f. publish_perm f \<noteq> None) ALLOWED_FUNS"
  by code_simp

lemma allowed_funs_named: "list_all fun_re ALLOWED_FUNS"
  by code_simp

lemma sort_dir_set [simp]: "set (sort_dir k dir rows) = set rows"
  by (simp add: sort_dir_def)

lemma sort_jobs_set [simp]: "set (sort_jobs rows by dir) = set rows"
  by (simp add: sort_jobs_def Let_def)

lemma shared_prefix_starts: "starts_with (shared_prefix x y) x" "starts_with (shared_prefix x y) y"
  by (induction x y rule: shared_prefix.induct) auto

text \<open>Between two strings with a common prefix every string has that prefix.\<close>

lemma prefix_between:
  "starts_with p x \<Longrightarrow> starts_with p y \<Longrightarrow> x \<le> z \<Longrightarrow> z \<le> y \<Longrightarrow> starts_with p (z :: string)"
proof (induction p arbitrary: x y z)
  case (Cons c p)
  obtain x' where x: "x = c # x'" "starts_with p x'" using Cons.prems(1) by (cases x) (simp_all split: if_splits)
  obtain y' where y: "y = c # y'" "starts_with p y'" using Cons.prems(2) by (cases y) (simp_all split: if_splits)
  obtain d z' where z: "z = d # z'" using Cons.prems(3) x by (cases z) simp_all
  have "c < d \<or> c = d \<and> x' \<le> z'" "d < c \<or> d = c \<and> z' \<le> y'" using Cons.prems(3,4) by (simp_all only: x y z Cons_le_Cons)
  then have "d = c" "x' \<le> z'" "z' \<le> y'" by auto
  then show ?case using Cons.IH [OF x(2) y(2)] z by simp
qed simp

lemma common_prefix_starts:
  assumes "m \<in> set xs"
  shows "starts_with (common_prefix xs) m"
proof -
  have ne: "xs \<noteq> []" "Min (set xs) \<le> m" "m \<le> Max (set xs)" using assms by auto
  show ?thesis using prefix_between [OF shared_prefix_starts ne(2,3)] ne(1) by (simp add: common_prefix_def)
qed

end
