(* ===== verification/JobPages.thy ===== *)
theory JobPages
  imports JobForms BatchRequest ViewFacts
begin

text \<open>
  The pages of the job runner, \<open>overstate_ui/jobs.py\<close>: the list, the form, one job, one panel and the
  stream of a running job, with what a scoped viewer sees of each. A page syncs jobs on the way; what
  the master answers is an argument.
\<close>

text \<open>The database with the verdicts, as \<open>launch\<close> and \<open>sync_job\<close> change it.\<close>

type_synonym jstate = "ctx \<times> verdicts"

datatype live_reply = LiveSalt | LiveHttp | LiveOdd | LiveValue pyval

text \<open>Per job: the answer of the master at its sync with the time, and the answer the live rows are read from.\<close>

record job_env =
  je_reply :: "string \<Rightarrow> pyval option"
  je_now :: "string \<Rightarrow> int"
  je_live :: "string \<Rightarrow> live_reply"

definition sync_at :: "job_env \<Rightarrow> user \<Rightarrow> string \<Rightarrow> jstate \<Rightarrow> jstate" where
  "sync_at je cu jid s =
     (case sync_job (je_reply je jid) (u_username cu) (je_now je jid) jid (c_db (fst s), snd s) of
        (db, v) \<Rightarrow> ((fst s)\<lparr>c_db := db\<rparr>, v))"

section \<open>Scope of a job\<close>

definition is_scoped :: "env \<Rightarrow> ctx \<Rightarrow> bool" where
  "is_scoped e c = (rbac_mode e (c_db c) = ''scoped'')"

abbreviation fleet_of :: "env \<Rightarrow> user \<Rightarrow> string \<Rightarrow> ctx \<Rightarrow> bool" where
  "fleet_of e cu perm c \<equiv> has_fleet e (c_memo c) (c_db c) cu perm"

abbreviation ids_of :: "env \<Rightarrow> user \<Rightarrow> string \<Rightarrow> ctx \<Rightarrow> string set" where
  "ids_of e cu perm c \<equiv> minions_with e (c_memo c) (c_db c) cu perm"

definition published_ids :: "store \<Rightarrow> string \<Rightarrow> string \<Rightarrow> string set option" where
  "published_ids db tgt tgt_type = published_snapshot_ids db (Some tgt) (Some tgt_type)"

definition target_allowed_ids :: "env \<Rightarrow> user \<Rightarrow> string \<Rightarrow> string \<Rightarrow> ctx \<Rightarrow> string set option" where
  "target_allowed_ids e cu tgt tgt_type c =
     (if fleet_of e cu ''job.read'' c then None
      else
        (case published_ids (c_db c) tgt tgt_type of
           None \<Rightarrow> Some {} | Some ids \<Rightarrow> Some (ids \<inter> ids_of e cu ''job.read'' c)))"

abbreviation job_allowed_ids :: "env \<Rightarrow> user \<Rightarrow> job \<Rightarrow> ctx \<Rightarrow> string set option" where
  "job_allowed_ids e cu j c \<equiv> target_allowed_ids e cu (j_tgt j) (j_tgt_type j) c"

definition display_tgt :: "string \<Rightarrow> string set option \<Rightarrow> string" where
  "display_tgt tgt allowed = (case allowed of None \<Rightarrow> tgt | Some ids \<Rightarrow> csv_of ids)"

section \<open>Rows\<close>

text \<open>A stored return or a live one; only a stored one knows its job.\<close>

record shown_row =
  sw_jid :: "string option"
  sw_mid :: string
  sw_success :: bool
  sw_retcode :: pyval
  sw_payload :: pyval
  sw_live :: bool

definition stored_row :: "job_return \<Rightarrow> shown_row" where
  "stored_row r = \<lparr>sw_jid = Some (jr_jid r), sw_mid = jr_minion_id r, sw_success = jr_success r,
     sw_retcode = PInt (jr_retcode r), sw_payload = jr_payload r, sw_live = False\<rparr>"

definition live_row :: "string \<times> pyval \<Rightarrow> shown_row" where
  "live_row mv =
     (case snd mv of
        PDict kvs \<Rightarrow>
          \<lparr>sw_jid = None, sw_mid = fst mv,
           sw_success = py_truth (case dict_get ''success'' kvs of None \<Rightarrow> PBool True | Some x \<Rightarrow> x),
           sw_retcode = (case dict_get ''retcode'' kvs of None \<Rightarrow> PInt 0 | Some x \<Rightarrow> x),
           sw_payload = (case dict_get ''return'' kvs of None \<Rightarrow> PDict kvs | Some x \<Rightarrow> x), sw_live = True\<rparr>
      | v \<Rightarrow> \<lparr>sw_jid = None, sw_mid = fst mv, sw_success = py_truth v, sw_retcode = PInt 0, sw_payload = v, sw_live = True\<rparr>)"

definition live_returns_now :: "live_reply \<Rightarrow> string \<Rightarrow> shown_row list \<times> string option" where
  "live_returns_now reply jid =
     (case reply of
        LiveSalt \<Rightarrow> ([], Some ''salt-api error'')
      | LiveHttp \<Rightarrow> ([], Some ''connection error'')
      | LiveOdd \<Rightarrow> ([], Some ''unexpected response'')
      | LiveValue payload \<Rightarrow>
          (case payload of
             PDict kvs \<Rightarrow>
               (case (case dict_get jid kvs of None \<Rightarrow> payload | Some d \<Rightarrow> d) of
                  PDict rows \<Rightarrow> (map live_row rows, None) | _ \<Rightarrow> ([], None))
           | _ \<Rightarrow> ([], None)))"

text \<open>Rows outside the scope are dropped; a body the viewer may not see is emptied.\<close>

definition blank_row :: "env \<Rightarrow> user \<Rightarrow> string \<Rightarrow> ctx \<Rightarrow> shown_row \<Rightarrow> shown_row" where
  "blank_row e cu fun_name c r =
     (if can_see_return_body e (c_memo c) (c_db c) cu fun_name (sw_mid r) then r
      else r\<lparr>sw_jid := None, sw_payload := PDict []\<rparr>)"

definition redacted_rows :: "env \<Rightarrow> user \<Rightarrow> (shown_row \<Rightarrow> string) \<Rightarrow> ctx \<Rightarrow> shown_row list \<Rightarrow> shown_row list" where
  "redacted_rows e cu fun_of c rows =
     (if \<not> is_scoped e c then rows
      else map (\<lambda>r. (blank_row e cu (fun_of r) c r)\<lparr>sw_jid := None\<rparr>)
             (filter (\<lambda>r. fleet_of e cu ''job.read'' c \<or> sw_mid r \<in> ids_of e cu ''job.read'' c) rows))"

definition returns_of :: "store \<Rightarrow> string list \<Rightarrow> job_return list" where
  "returns_of db jids = filter (\<lambda>r. jr_jid r \<in> set jids) (job_returns db)"

section \<open>One job\<close>

text \<open>The row of a batch, and its waves in the order they started.\<close>

definition is_parent :: "job \<Rightarrow> string \<Rightarrow> bool" where
  "is_parent j jid = (case j_batch_group j of None \<Rightarrow> False | Some g \<Rightarrow> g \<noteq> [] \<and> jid = ''batch-'' @ g)"

definition waves_of :: "store \<Rightarrow> job \<Rightarrow> job list" where
  "waves_of db j =
     sort_key (\<lambda>w. j_started_at w = None)
       (sort_key started_key (filter (\<lambda>w. j_batch_group w = j_batch_group j \<and> j_jid w \<noteq> j_jid j) (jobs db)))"

record job_page =
  jp_job :: job
  jp_returns :: "shown_row list"
  jp_waves :: "job list"
  jp_kills :: "(string \<times> shown_row list) list"
  jp_targets :: "(string \<times> string) list"
  jp_degraded :: "string option"
  jp_killable :: bool

definition job_now :: "job \<Rightarrow> store \<Rightarrow> job" where
  "job_now j db = (case job_by_jid db (j_jid j) of None \<Rightarrow> j | Some j' \<Rightarrow> j')"

text \<open>The stored returns, after the sync of the job or of its waves.\<close>

definition detail_returns :: "job_env \<Rightarrow> user \<Rightarrow> job \<Rightarrow> jstate \<Rightarrow> (shown_row list \<times> job list) \<times> jstate" where
  "detail_returns je cu j s =
     (if is_parent j (j_jid j)
      then (let waves = waves_of (c_db (fst s)) j; s' = fold (\<lambda>w. sync_at je cu (j_jid w)) waves s;
                db = c_db (fst s')
            in ((map stored_row (sort_key jr_minion_id (returns_of db (map j_jid waves))),
                 map (\<lambda>w. job_now w db) waves), s'))
      else (let s' = sync_at je cu (j_jid j) s
            in ((map stored_row (returns_of (c_db (fst s')) [j_jid j]), []), s')))"

text \<open>The live rows of minions the returner has not recorded yet.\<close>

definition merge_live :: "job_env \<Rightarrow> job \<Rightarrow> shown_row list \<Rightarrow> shown_row list \<times> string option" where
  "merge_live je j returns =
     (if j_complete j then (returns, None)
      else
        (case live_returns_now (je_live je (j_jid j)) (j_jid j) of
           (live, degraded) \<Rightarrow> (returns @ filter (\<lambda>r. sw_mid r \<notin> sw_mid ` set returns) live, degraded)))"

text \<open>The reports of the kills of this job, each synced before it is read.\<close>

fun kill_reports :: "job_env \<Rightarrow> user \<Rightarrow> audit_event list \<Rightarrow> jstate \<Rightarrow> (string \<times> shown_row list) list \<times> jstate" where
  "kill_reports je cu [] s = ([], s)"
| "kill_reports je cu (ev # evs) s =
     (case a_jid ev of
        None \<Rightarrow> kill_reports je cu evs s
      | Some kjid \<Rightarrow>
          if kjid = [] then kill_reports je cu evs s
          else
            (let s1 = sync_at je cu kjid s; rows = map stored_row (returns_of (c_db (fst s1)) [kjid])
             in case kill_reports je cu evs s1 of (rest, s2) \<Rightarrow> ((kjid, rows) # rest, s2)))"

definition kill_events :: "store \<Rightarrow> string \<Rightarrow> audit_event list" where
  "kill_events db jid = filter (\<lambda>ev. a_action ev = ''kill:'' @ jid) (sort_key a_id (audit_events db))"

definition row_fun :: "job \<Rightarrow> job list \<Rightarrow> shown_row \<Rightarrow> string" where
  "row_fun j waves r =
     (let funs = (j_jid j, j_fun j) # map (\<lambda>w. (j_jid w, j_fun w)) waves
      in case map_of funs (case sw_jid r of None \<Rightarrow> j_jid j | Some i \<Rightarrow> i) of None \<Rightarrow> j_fun j | Some f \<Rightarrow> f)"

definition shown_targets :: "env \<Rightarrow> user \<Rightarrow> job \<Rightarrow> job list \<Rightarrow> ctx \<Rightarrow> (string \<times> string) list" where
  "shown_targets e cu j waves c =
     (let allowed = job_allowed_ids e cu j c
      in (j_jid j, display_tgt (j_tgt j) allowed)
         # map (\<lambda>w. (j_jid w, display_tgt (j_tgt w)
               (map_option (\<lambda>a. (case published_ids (c_db c) (j_tgt w) (j_tgt_type w) of None \<Rightarrow> {} | Some ids \<Rightarrow> ids) \<inter> a)
                  allowed))) waves)"

definition render_job :: "env \<Rightarrow> user \<Rightarrow> job \<Rightarrow> shown_row list \<Rightarrow> job list \<Rightarrow> (string \<times> shown_row list) list
    \<Rightarrow> string option \<Rightarrow> ctx \<Rightarrow> job_page" where
  "render_job e cu j returns waves kills degraded c =
     (if is_scoped e c \<and> \<not> fleet_of e cu ''job.read'' c
      then \<lparr>jp_job = j, jp_returns = redacted_rows e cu (row_fun j waves) c returns, jp_waves = waves,
            jp_kills = map (\<lambda>(k, rows). (k, redacted_rows e cu (\<lambda>_. ''saltutil.kill_job'') c rows)) kills,
            jp_targets = shown_targets e cu j waves c, jp_degraded = degraded, jp_killable = killable j\<rparr>
      else \<lparr>jp_job = j, jp_returns = returns, jp_waves = waves, jp_kills = kills, jp_targets = [],
            jp_degraded = degraded, jp_killable = killable j\<rparr>)"

definition detail_body :: "env \<Rightarrow> job_env \<Rightarrow> user \<Rightarrow> job \<Rightarrow> jstate \<Rightarrow> job_page \<times> jstate" where
  "detail_body e je cu j0 s =
     (case detail_returns je cu j0 s of
        ((stored, waves), s1) \<Rightarrow>
          (let j = job_now j0 (c_db (fst s1))
           in case merge_live je j stored of
                (returns, degraded) \<Rightarrow>
                  (case (if is_parent j (j_jid j) then ([], s1)
                         else kill_reports je cu (kill_events (c_db (fst s1)) (j_jid j)) s1) of
                     (kills, s2) \<Rightarrow> (render_job e cu j returns waves kills degraded (fst s2), s2))))"

definition out_of_scope :: "user \<Rightarrow> string \<Rightarrow> ctx \<Rightarrow> ctx" where
  "out_of_scope cu perm = on_db (audit_deny cu perm None ''out-of-scope'' None)"

definition jobs_index :: string where "jobs_index = ''jobs.index''"

definition job_detail :: "env \<Rightarrow> job_env \<Rightarrow> user \<Rightarrow> string \<Rightarrow> jstate \<Rightarrow> (resp \<times> job_page option) \<times> jstate" where
  "job_detail e je cu jid s =
     (case job_by_jid (c_db (fst s)) jid of
        None \<Rightarrow> ((Redirect jobs_index, None), (flash ''Unknown job.'' ''error'' (fst s), snd s))
      | Some j \<Rightarrow>
          (case pass_gate (read_required e cu ''job.read'') (fst s) of
             Inl (r, c) \<Rightarrow> ((r, None), (c, snd s))
           | Inr c \<Rightarrow>
               if is_scoped e c \<and> \<not> fleet_of e cu ''job.read'' c \<and> job_allowed_ids e cu j c = Some {}
               then ((Abort 403, None), (out_of_scope cu ''job.read'' c, snd s))
               else (case detail_body e je cu j (c, snd s) of (pg, s') \<Rightarrow> ((Page, Some pg), s'))))"

section \<open>One panel\<close>

definition panel_row :: "job_env \<Rightarrow> user \<Rightarrow> job \<Rightarrow> string \<Rightarrow> jstate \<Rightarrow> shown_row option \<times> jstate" where
  "panel_row je cu j mid s =
     (if is_parent j (j_jid j)
      then (let jids = map j_jid (filter (\<lambda>w. j_batch_group w = j_batch_group j \<and> j_jid w \<noteq> j_jid j) (jobs (c_db (fst s))));
                rows = filter (\<lambda>r. jr_minion_id r = mid) (returns_of (c_db (fst s)) jids)
            in (case rev (sort_key jr_jid rows) of [] \<Rightarrow> None | r # _ \<Rightarrow> Some (stored_row r), s))
      else (let s' = sync_at je cu (j_jid j) s
            in (map_option stored_row (return_of (c_db (fst s')) (j_jid j) mid), s')))"

definition panel_live :: "job_env \<Rightarrow> job \<Rightarrow> string \<Rightarrow> shown_row option" where
  "panel_live je j mid =
     (if j_complete j then None else find (\<lambda>r. sw_mid r = mid) (fst (live_returns_now (je_live je (j_jid j)) (j_jid j))))"

definition job_panel :: "env \<Rightarrow> job_env \<Rightarrow> user \<Rightarrow> string \<Rightarrow> string \<Rightarrow> jstate \<Rightarrow> (resp \<times> shown_row option) \<times> jstate" where
  "job_panel e je cu jid mid s =
     (case job_by_jid (c_db (fst s)) jid of
        None \<Rightarrow> ((Abort 404, None), s)
      | Some j0 \<Rightarrow>
          (case pass_gate (require e cu ''job.read'' (Some mid) None ''no-grant'') (fst s) of
             Inl (r, c) \<Rightarrow> ((r, None), (c, snd s))
           | Inr c \<Rightarrow>
               (case panel_row je cu j0 mid (c, snd s) of
                  (stored, s1) \<Rightarrow>
                    (let j = job_now j0 (c_db (fst s1))
                     in case (case stored of None \<Rightarrow> panel_live je j mid | Some r \<Rightarrow> Some r) of
                          None \<Rightarrow> ((Abort 404, None), s1)
                        | Some r \<Rightarrow> ((Page, Some (blank_row e cu (j_fun j) (fst s1) r)), s1)))))"

text \<open>
  The list of jobs, the run form and the event stream of one job (\<open>index\<close>, \<open>new\<close> and \<open>stream\<close> of
  \<open>overstate_ui/jobs.py\<close>). The case-insensitive match of the database is an argument.
\<close>

section \<open>The lists\<close>

definition visible_job :: "env \<Rightarrow> user \<Rightarrow> ctx \<Rightarrow> job \<Rightarrow> bool" where
  "visible_job e cu c j =
     (\<not> is_scoped e c \<or> fleet_of e cu ''job.read'' c
      \<or> (case published_ids (c_db c) (j_tgt j) (j_tgt_type j) of
           None \<Rightarrow> False | Some ids \<Rightarrow> ids \<inter> ids_of e cu ''job.read'' c \<noteq> {}))"

definition newest_first :: "job list \<Rightarrow> job list" where
  "newest_first js = rev (sort_key (\<lambda>j. j_started_at j = None) (sort_key started_key js))"

text \<open>The ten latest running jobs are synced, those the viewer may see.\<close>

definition sync_recent :: "env \<Rightarrow> job_env \<Rightarrow> user \<Rightarrow> jstate \<Rightarrow> jstate" where
  "sync_recent e je cu s =
     fold (\<lambda>j s'. if visible_job e cu (fst s') j then sync_at je cu (j_jid j) s' else s')
       (take 10 (newest_first (filter (\<lambda>j. \<not> j_complete j) (jobs (c_db (fst s)))))) s"

definition job_matches :: "string \<Rightarrow> job \<Rightarrow> bool" where
  "job_matches ql j =
     (ql = [] \<or> list_ex (\<lambda>t. py_contains ql (py_lower t)) [j_jid j, j_fun j, j_tgt j, j_tgt_type j, j_user j])"

definition history_rows :: "(string \<Rightarrow> string \<Rightarrow> bool) \<Rightarrow> string \<Rightarrow> store \<Rightarrow> job list" where
  "history_rows ilike q db =
     (let like = ''%'' @ q @ ''%''
      in filter (\<lambda>j. j_complete j \<and> (q = [] \<or> list_ex (ilike like) [j_jid j, j_fun j, j_tgt j, j_user j])) (jobs db))"

text \<open>A saved job is listed when its whole target is in scope, as it is deletable.\<close>

definition listed_saved :: "env \<Rightarrow> user \<Rightarrow> ctx \<Rightarrow> saved_job list \<Rightarrow> saved_job list" where
  "listed_saved e cu c saved =
     (if is_scoped e c \<and> \<not> fleet_of e cu ''job.read'' c
      then filter (\<lambda>s. case published_ids (c_db c) (sj_tgt s) (sj_tgt_type s) of
             None \<Rightarrow> False | Some mids \<Rightarrow> mids \<subseteq> ids_of e cu ''job.read'' c) saved
      else saved)"

definition saved_matches :: "string \<Rightarrow> saved_job \<Rightarrow> bool" where
  "saved_matches ql s =
     (ql = [] \<or> list_ex (\<lambda>t. py_contains ql (py_lower t)) [sj_name s, sj_fun s, sj_tgt s])"

record jobs_page =
  js_tab :: string
  js_running :: "job list"
  js_history :: "job list"
  js_saved :: "saved_job list"
  js_sort :: string
  js_dir :: string
  js_page :: int
  js_pages :: int
  js_per_page :: int
  js_targets :: "(string \<times> string) list"

definition scoped_target :: "env \<Rightarrow> user \<Rightarrow> ctx \<Rightarrow> string \<Rightarrow> string \<Rightarrow> string" where
  "scoped_target e cu c tgt tgt_type =
     display_tgt tgt (Some ((case published_ids (c_db c) tgt tgt_type of None \<Rightarrow> {} | Some ids \<Rightarrow> ids)
       \<inter> ids_of e cu ''job.read'' c))"

definition one_of :: "string list \<Rightarrow> string \<Rightarrow> string \<Rightarrow> string" where
  "one_of allowed d x = (if x \<in> set allowed then x else d)"

definition posted_page :: "form \<Rightarrow> int" where
  "posted_page args =
     (case args ''page'' of [] \<Rightarrow> 1 | t # _ \<Rightarrow> (case py_int t of None \<Rightarrow> 1 | Some n \<Rightarrow> max 1 n))"

definition list_page :: "env \<Rightarrow> (string \<Rightarrow> string \<Rightarrow> bool) \<Rightarrow> user \<Rightarrow> form \<Rightarrow> ctx \<Rightarrow> jobs_page" where
  "list_page e ilike cu args c =
     (let db = c_db c; q = py_strip (form_get args ''q''); ql = py_lower q;
          by = one_of JOB_SORT_COLUMNS ''started'' (form_or args ''sort'' ''started'');
          dir = one_of [''asc'', ''desc''] ''desc'' (form_or args ''dir'' ''desc'');
          per_page = resolve_page_size (case args ''per_page'' of [] \<Rightarrow> None | t # _ \<Rightarrow> Some t);
          running = sort_jobs (filter (\<lambda>j. \<not> j_complete j \<and> job_matches ql j \<and> visible_job e cu c j) (newest_first (jobs db))) by dir;
          found = history_rows ilike q db; pages = page_count (length found) per_page;
          page = min (posted_page args) pages;
          history = sort_jobs (filter (visible_job e cu c) (page_slice (newest_first found) page per_page)) by dir;
          saved = filter (saved_matches ql) (listed_saved e cu c (sort_key sj_name (saved_jobs db)))
      in \<lparr>js_tab = one_of [''running'', ''history'', ''saved''] ''running'' (form_or args ''tab'' ''running''),
          js_running = running, js_history = history, js_saved = saved, js_sort = by, js_dir = dir,
          js_page = page, js_pages = pages, js_per_page = per_page,
          js_targets =
            (if is_scoped e c \<and> \<not> fleet_of e cu ''job.read'' c
             then map (\<lambda>j. (j_jid j, scoped_target e cu c (j_tgt j) (j_tgt_type j))) (running @ history)
                  @ map (\<lambda>s. (''saved:'' @ py_str_int (sj_id s), scoped_target e cu c (sj_tgt s) (sj_tgt_type s))) saved
             else [])\<rparr>)"

definition jobs_list ::
  "env \<Rightarrow> (string \<Rightarrow> string \<Rightarrow> bool) \<Rightarrow> job_env \<Rightarrow> user \<Rightarrow> form \<Rightarrow> jstate \<Rightarrow> (resp \<times> jobs_page option) \<times> jstate" where
  "jobs_list e ilike je cu args s =
     (case pass_gate (read_required e cu ''job.read'') (fst s) of
        Inl (r, c) \<Rightarrow> ((r, None), (c, snd s))
      | Inr c \<Rightarrow>
          (let s1 = sync_recent e je cu (c, snd s); jump = py_strip (form_get args ''jump'')
           in if jump \<noteq> [] then
                (if job_by_jid (c_db (fst s1)) jump \<noteq> None then ((Redirect (jobs_detail jump), None), s1)
                 else ((Redirect jobs_index, None), (flash ''Unknown job.'' ''error'' (fst s1), snd s1)))
              else ((Page, Some (list_page e ilike cu args (fst s1))), s1)))"

section \<open>The run form\<close>

definition RUN_PERMS :: "string list" where
  "RUN_PERMS = [''job.run.read'', ''job.run.change'', ''job.run.state'']"

definition INLINE_PRESETS :: "(string \<times> preset_row) list" where
  "INLINE_PRESETS = [
     (''ping'', preset ''*'' ''glob'' ''test.ping'' []),
     (''highstate'', preset ''*'' ''glob'' ''state.highstate'' []),
     (''highstate-dry'', preset ''*'' ''glob'' ''state.highstate'' ''test=True''),
     (''apply'', preset ''*'' ''glob'' ''state.apply'' [])]"

record bulk_pick =
  bk_ids :: "string list"
  bk_glob :: string
  bk_covered :: "string list"

record run_form =
  rf_preset :: preset_row
  rf_saved :: "saved_job option"
  rf_bulk :: "bulk_pick option"
  rf_bulk_ignored :: bool
  rf_functions :: "(string \<times> string) list"
  rf_doc_minion :: "string option"

definition ping_target :: "store \<Rightarrow> string option" where
  "ping_target db = (case roster_ids db of [] \<Rightarrow> None | m # _ \<Rightarrow> Some m)"

definition narrow_run :: "env \<Rightarrow> user \<Rightarrow> ctx \<Rightarrow> bool" where
  "narrow_run e cu c = (is_scoped e c \<and> \<not> list_ex (\<lambda>p. fleet_of e cu p c) RUN_PERMS)"

text \<open>\<open>_job_allowed_ids\<close> is \<open>None\<close> for a fleet reader, and \<open>not None\<close> holds: its saved job is refused too.\<close>

definition picked_saved :: "env \<Rightarrow> user \<Rightarrow> form \<Rightarrow> ctx \<Rightarrow> saved_job option \<times> ctx" where
  "picked_saved e cu args c =
     (let raw = form_get args ''saved''
      in if raw = [] then (None, c)
         else
           (case py_int raw of
              None \<Rightarrow> (None, flash ''Invalid saved job reference.'' ''error'' c)
            | Some i \<Rightarrow>
                (case saved_job_by_id (c_db c) i of
                   None \<Rightarrow> (None, c)
                 | Some sj \<Rightarrow>
                     if narrow_run e cu c \<and> target_allowed_ids e cu (sj_tgt sj) (sj_tgt_type sj) c \<in> {None, Some {}}
                     then (None, flash ''Saved job is outside your scope.'' ''error'' c)
                     else (Some sj, c))))"

definition echoed :: "form \<Rightarrow> preset_row" where
  "echoed args =
     (let tgt = py_strip (form_get args ''tgt''); tt = form_get args ''tgt_type'';
          f = py_strip (form_get args ''fun''); a = py_strip (form_get args ''args'');
          keep = (\<lambda>(k, allowed). let v = form_get args k in if v \<in> set allowed then [(k, v)] else []);
          digits = (\<lambda>k. let v = form_get args k in if py_isdigit v then [(k, v)] else [])
      in (if tgt \<noteq> [] \<and> tt \<in> set TGT_TYPES
          then [(''tgt'', tgt), (''tgt_type'', tt)] @ (if f = [] then [] else [(''fun'', f)])
               @ (if a = [] then [] else [(''args'', a)])
          else [])
         @ concat (map keep [(''mode'', [''async'', ''sync'']), (''via'', [''local'', ''ssh'']),
             (''batch_mode'', [''off'', ''count'', ''percent''])])
         @ (let v = form_get args ''save_as'' in if v = [] then [] else [(''save_as'', v)])
         @ concat (map digits [''batch_size'', ''stop_after'']))"

definition default_tgt :: "env \<Rightarrow> user \<Rightarrow> ctx \<Rightarrow> preset_row" where
  "default_tgt e cu c =
     (if narrow_run e cu c
      then (case single_group_scope e (c_memo c) (c_db c) cu RUN_PERMS of
              Some g \<Rightarrow> [(''tgt'', g), (''tgt_type'', ''group'')]
            | None \<Rightarrow> [(''tgt'', []), (''tgt_type'', ''list'')])
      else [(''tgt'', get_setting e (c_db c) ''default_target'')])"

definition bulk_ids :: "form \<Rightarrow> string list" where
  "bulk_ids args = concat (map (\<lambda>v. filter (\<lambda>x. py_strip x \<noteq> []) (py_split CHR '','' v)) (args ''bulk''))"

definition bulk_of :: "env \<Rightarrow> user \<Rightarrow> string list \<Rightarrow> ctx \<Rightarrow> bulk_pick" where
  "bulk_of e cu raw c =
     (let all_ids = map m_id (minions (c_db c)); runnable = runnable_ids e (c_memo c) (c_db c) cu;
          roster = (if narrow_run e cu c then filter (\<lambda>m. m \<in> runnable) all_ids else all_ids);
          picked = (if narrow_run e cu c then filter (\<lambda>m. m \<in> runnable) raw else raw)
      in case suggest_glob picked roster of
           (glob, selected, covered) \<Rightarrow> \<lparr>bk_ids = selected, bk_glob = glob, bk_covered = covered\<rparr>)"

definition doc_minion :: "env \<Rightarrow> user \<Rightarrow> ctx \<Rightarrow> string option" where
  "doc_minion e cu c =
     (case ping_target (c_db c) of
        None \<Rightarrow> None
      | Some m \<Rightarrow> if narrow_run e cu c \<and> m \<notin> runnable_ids e (c_memo c) (c_db c) cu then None else Some m)"

text \<open>\<open>listed\<close> is the answer to the probe of one minion for its functions, \<open>None\<close> when it fails.\<close>

definition form_functions :: "(string \<Rightarrow> string list option) \<Rightarrow> string option \<Rightarrow> (string \<times> string) list" where
  "form_functions listed m =
     (case (case m of None \<Rightarrow> None | Some i \<Rightarrow> listed i) of
        None \<Rightarrow> OP_FUNCTIONS
      | Some names \<Rightarrow> OP_FUNCTIONS @ map (\<lambda>n. (n, [])) (filter (\<lambda>n. n \<notin> set (map fst OP_FUNCTIONS)) names))"

definition form_page :: "env \<Rightarrow> (string \<Rightarrow> string list option) \<Rightarrow> user \<Rightarrow> form \<Rightarrow> ctx \<Rightarrow> run_form \<times> ctx" where
  "form_page e listed cu args c =
     (case picked_saved e cu args c of
        (saved, c1) \<Rightarrow>
          (let c2 = (if form_get args ''bulk_run'' \<noteq> [] \<and> args ''bulk'' = []
                     then flash ''Select minions first.'' ''warning'' c1 else c1);
               named = (case map_of (INLINE_PRESETS @ FLEET_PRESETS) (form_get args ''preset'') of None \<Rightarrow> [] | Some p \<Rightarrow> p);
               raw = bulk_ids args;
               bulk = (if raw \<noteq> [] \<and> saved = None \<and> named = [] then Some (bulk_of e cu raw c2) else None);
               p1 = (case bulk of None \<Rightarrow> named | Some b \<Rightarrow> [(''tgt'', bk_glob b), (''tgt_type'', ''glob'')]);
               p2 = (if saved = None \<and> p1 = [] \<and> raw = [] then echoed args else p1);
               p3 = (if saved = None \<and> ''tgt'' \<notin> set (map fst p2) then p2 @ default_tgt e cu c2 else p2);
               m = doc_minion e cu c2
           in (\<lparr>rf_preset = p3, rf_saved = saved, rf_bulk = bulk, rf_bulk_ignored = (raw \<noteq> [] \<and> bulk = None),
                rf_functions = form_functions listed m, rf_doc_minion = m\<rparr>, c2)))"

definition jobs_new_view ::
  "env \<Rightarrow> (string \<Rightarrow> string list option) \<Rightarrow> user \<Rightarrow> form \<Rightarrow> ctx \<Rightarrow> (resp \<times> run_form option) \<times> ctx" where
  "jobs_new_view e listed cu args c =
     (case pass_gate (read_required e cu ''job.read'') c of
        Inl (r, c') \<Rightarrow> ((r, None), c')
      | Inr c' \<Rightarrow> (case form_page e listed cu args c' of (pg, c2) \<Rightarrow> ((Page, Some pg), c2)))"

section \<open>The stream\<close>

text \<open>One pass: what others did since the last one, and what the master answers.\<close>

record poll =
  po_others :: "jstate \<Rightarrow> jstate"
  po_env :: job_env

record stream_event =
  se_complete :: bool
  se_returned :: nat
  se_failed :: nat
  se_stored :: nat
  se_live :: nat
  se_minions :: "string list"
  se_degraded :: "string option"

definition live_of :: "job_env \<Rightarrow> string list \<Rightarrow> shown_row list \<times> string option" where
  "live_of je jids =
     (let replies = map (\<lambda>i. live_returns_now (je_live je i) i) jids
      in (concat (map fst replies),
          case filter (\<lambda>x. x \<noteq> None) (map snd replies) of [] \<Rightarrow> None | x # _ \<Rightarrow> x))"

definition in_view :: "string set option \<Rightarrow> string \<Rightarrow> bool" where
  "in_view allowed mid = (case allowed of None \<Rightarrow> True | Some ids \<Rightarrow> mid \<in> ids)"

definition stream_payload :: "string set option \<Rightarrow> job_env \<Rightarrow> string \<Rightarrow> store \<Rightarrow> stream_event" where
  "stream_payload allowed je jid db =
     (let job = job_by_jid db jid; parent = (case job of None \<Rightarrow> False | Some j \<Rightarrow> is_parent j jid);
          waves = (case job of None \<Rightarrow> [] | Some j \<Rightarrow> map j_jid (filter (\<lambda>w. j_batch_group w = j_batch_group j \<and> j_jid w \<noteq> jid) (jobs db)));
          jids = (if parent \<and> waves \<noteq> [] then waves else [jid]);
          returns = filter (\<lambda>r. in_view allowed (jr_minion_id r)) (returns_of db jids);
          running = (case job of None \<Rightarrow> False | Some j \<Rightarrow> \<not> j_complete j);
          polled = (if \<not> running then ([], None) else live_of je (if parent then filter (\<lambda>i. i \<noteq> jid) jids else [jid]));
          live = filter (\<lambda>r. in_view allowed (sw_mid r)) (fst polled);
          stored_ids = set (map jr_minion_id returns);
          mids = stored_ids \<union> set (map sw_mid live);
          live_only = filter (\<lambda>r. sw_mid r \<notin> stored_ids) live
      in \<lparr>se_complete = (case job of None \<Rightarrow> False | Some j \<Rightarrow> j_complete j),
          se_returned = card mids,
          se_failed = length (filter (\<lambda>r. \<not> jr_success r) returns) + length (filter (\<lambda>r. \<not> sw_success r) live_only),
          se_stored = length returns, se_live = length live_only, se_minions = sorted_list_of_set mids,
          se_degraded = snd polled\<rparr>)"

fun job_events :: "string set option \<Rightarrow> user \<Rightarrow> string \<Rightarrow> poll list \<Rightarrow> jstate \<Rightarrow> stream_event list \<times> jstate" where
  "job_events allowed cu jid [] s = ([], s)"
| "job_events allowed cu jid (p # ps) s =
     (let s1 = sync_at (po_env p) cu jid (po_others p s);
          ev = stream_payload allowed (po_env p) jid (c_db (fst s1))
      in if se_complete ev then ([ev], s1)
         else (case job_events allowed cu jid ps s1 of (evs, s2) \<Rightarrow> (ev # evs, s2)))"

definition STREAM_POLLS :: nat where "STREAM_POLLS = 600"

definition stream_scope :: "env \<Rightarrow> user \<Rightarrow> ctx \<Rightarrow> string set option" where
  "stream_scope e cu c =
     (if \<not> is_scoped e c \<or> fleet_of e cu ''job.read'' c then None else Some (ids_of e cu ''job.read'' c))"

definition job_stream ::
  "env \<Rightarrow> user \<Rightarrow> string \<Rightarrow> poll list \<Rightarrow> jstate \<Rightarrow> (resp \<times> stream_event list) \<times> jstate" where
  "job_stream e cu jid polls s =
     (case pass_gate (read_required e cu ''job.read'') (fst s) of
        Inl (r, c) \<Rightarrow> ((r, []), (c, snd s))
      | Inr c \<Rightarrow>
          (if is_scoped e c \<and> (case job_by_jid (c_db c) jid of
                 None \<Rightarrow> False
               | Some j \<Rightarrow> \<not> fleet_of e cu ''job.read'' c \<and> job_allowed_ids e cu j c = Some {})
           then ((Abort 403, []), (out_of_scope cu ''job.read'' c, snd s))
           else
             (case job_events (stream_scope e cu c) cu jid (take STREAM_POLLS polls) (c, snd s) of
                (evs, s') \<Rightarrow> ((Page, evs), s'))))"

end
