(* ===== verification/JobActions.thy ===== *)
theory JobActions
  imports JobPages
begin

text \<open>
  The actions of the job runner (\<open>run\<close>, \<open>orchestrate_run\<close>, \<open>cancel_batch\<close>, \<open>kill\<close>, \<open>sync\<close> and
  \<open>delete_saved\<close> of \<open>overstate_ui/jobs.py\<close>, \<open>build_sls_preview\<close> of \<open>jobs_service.py\<close>). Every action
  returns the publications it sent.
\<close>

definition deny_row :: "user \<Rightarrow> denied \<Rightarrow> ctx \<Rightarrow> ctx" where
  "deny_row cu d = on_db (audit_deny cu (d_perm d) None (d_detail d) None)"

text \<open>\<open>SaltApiError\<close>, which is a \<open>RuntimeError\<close>, but not the overflow of a column.\<close>

fun is_salt_error :: "py_error \<Rightarrow> bool" where
  "is_salt_error (RuntimeErr m) = (m \<noteq> ''value too long for type character varying(32)'')"
| "is_salt_error _ = False"

fun message_of :: "py_error \<Rightarrow> string" where
  "message_of (RuntimeErr m) = m"
| "message_of _ = []"

section \<open>The preview\<close>

datatype render_reply = RenderPending | RenderFailed string | RenderSalt string | Rendered "(string \<times> pyval) list"

record sls_preview =
  sp_sections :: "(string \<times> pyval) list"
  sp_minion :: "string option"
  sp_note :: "string option"

definition no_preview :: sls_preview where
  "no_preview = \<lparr>sp_sections = [], sp_minion = None, sp_note = None\<rparr>"

definition noted :: "string \<Rightarrow> string \<Rightarrow> sls_preview" where
  "noted m note = \<lparr>sp_sections = [], sp_minion = Some m, sp_note = Some note\<rparr>"

definition preview_minion :: "store \<Rightarrow> string list option \<Rightarrow> string option" where
  "preview_minion db matched =
     (case matched of Some (m # _) \<Rightarrow> if m = [] then ping_target db else Some m | _ \<Rightarrow> ping_target db)"

definition build_sls_preview ::
  "(string \<Rightarrow> string list \<Rightarrow> string \<Rightarrow> render_reply) \<Rightarrow> store \<Rightarrow> string \<Rightarrow> string list \<Rightarrow> string list option \<Rightarrow> string \<Rightarrow> sls_preview" where
  "build_sls_preview render db fun_name args matched via =
     (if fun_name \<noteq> ''state.apply'' \<or> args = [] then no_preview
      else
        (case preview_minion db matched of
           None \<Rightarrow> no_preview\<lparr>sp_note := Some ''No minion available to render against.''\<rparr>
         | Some m \<Rightarrow>
             (case render m args via of
                RenderPending \<Rightarrow> noted m ''Preview unavailable: render still running. Firing stays available.''
              | RenderFailed v \<Rightarrow> noted m (''Preview unavailable: render failed in the background: '' @ v)
              | RenderSalt v \<Rightarrow> noted m (''Preview unavailable: salt-api error: '' @ v)
              | Rendered kvs \<Rightarrow>
                  (let missing = filter (\<lambda>a. dict_get a kvs = None) args
                   in \<lparr>sp_sections = concat (map (\<lambda>a. case dict_get a kvs of None \<Rightarrow> [] | Some v \<Rightarrow> [(a, v)]) args),
                       sp_minion = Some m,
                       sp_note = (if missing = [] then None
                                  else Some (''Preview unavailable for: '' @ py_join '', '' missing @ ''.''))\<rparr>))))"

section \<open>Run\<close>

record run_request =
  rr_tgt :: string
  rr_tgt_type :: string
  rr_fun :: string
  rr_args :: "string list"
  rr_async :: bool
  rr_via :: string
  rr_save_as :: string
  rr_batch :: "batch option"

definition posted_run :: "form \<Rightarrow> run_request" where
  "posted_run f =
     (let via = (let v = form_or f ''via'' ''local'' in if v \<in> set [''local'', ''ssh''] then v else ''local'')
      in \<lparr>rr_tgt = py_strip (form_get f ''tgt''), rr_tgt_type = form_or f ''tgt_type'' ''glob'',
          rr_fun = py_strip (form_get f ''fun''), rr_args = py_split_ws (py_strip (form_get f ''args'')),
          rr_async = (form_or f ''mode'' ''async'' = ''async'' \<and> via \<noteq> ''ssh''), rr_via = via,
          rr_save_as = form_get f ''save_as'', rr_batch = parse_batch_fields f\<rparr>)"

definition bad_schedule_arg :: "string \<Rightarrow> bool" where
  "bad_schedule_arg a =
     (case py_partition CHR ''='' a of (name, sep, v) \<Rightarrow>
        sep \<and> name = ''function'' \<and> \<not> (fun_re v \<and> v \<in> set ALLOWED_FUNS))"

text \<open>The checks of the form, in order; the notice that ssh is synchronous comes between them.\<close>

definition form_refusal :: "form \<Rightarrow> run_request \<Rightarrow> string option" where
  "form_refusal f rr =
     (if rr_fun rr = [] \<or> rr_tgt_type rr \<notin> set TGT_TYPES then Some ''Pick a target type and a function.''
      else if rr_tgt rr = [] then Some ''Pick a target: an empty target never fires.''
      else if form_or f ''batch_mode'' ''off'' \<in> set [''count'', ''percent''] \<and> rr_batch rr = None
        then Some ''Batch wave size and stop-after must be positive numbers.''
      else None)"

definition fun_refusal :: "run_request \<Rightarrow> string option" where
  "fun_refusal rr =
     (if \<not> fun_re (rr_fun rr) \<or> rr_fun rr \<notin> set ALLOWED_FUNS
         \<or> rr_fun rr = ''schedule.add'' \<and> list_ex bad_schedule_arg (rr_args rr)
      then Some ''That function cannot run here.'' else None)"

definition ssh_notice :: "form \<Rightarrow> run_request \<Rightarrow> ctx \<Rightarrow> ctx" where
  "ssh_notice f rr c =
     (if rr_via rr = ''ssh'' \<and> form_or f ''mode'' ''async'' = ''async''
      then flash ''salt-ssh runs in sync mode only.'' ''info'' c else c)"

record confirm_page =
  cf_request :: run_request
  cf_matched :: "string list option"
  cf_preview :: sls_preview

text \<open>What the review page is about to show: the minions, and whether the rendered state may be shown.\<close>

definition review_matched ::
  "env \<Rightarrow> user \<Rightarrow> string \<Rightarrow> run_request \<Rightarrow> ctx \<Rightarrow> denied + (string list option \<times> string list \<times> ctx)" where
  "review_matched e cu perm rr c =
     (let roster = resolve_batch_roster (c_db c) (rr_tgt rr) (rr_tgt_type rr)
      in if \<not> is_scoped e c then Inr (roster, [], c)
         else
           (case constrain_target_verbose e (c_memo c) (c_db c) cu perm (rr_tgt rr) (rr_tgt_type rr) of
              Inl d \<Rightarrow> Inl d
            | Inr (_, _, requested, hit) \<Rightarrow>
                (case hit of
                   None \<Rightarrow>
                     Inr (roster,
                          (case roster of Some (m # ms) \<Rightarrow> m # ms
                           | _ \<Rightarrow> (case ping_target (c_db c) of None \<Rightarrow> [] | Some m \<Rightarrow> [m])), c)
                 | Some h \<Rightarrow>
                     (let dropped = (case requested of None \<Rightarrow> {} | Some r \<Rightarrow> r - h); ids = sorted_list_of_set h;
                          c1 = (if dropped = {} then c
                                else flash (nat_str (card dropped) @ '' minions are outside your scope and will not be touched.'')
                                       ''warning'' c)
                      in Inr (Some ids,
                              (if ids \<noteq> [] then ids
                               else (case ping_target (c_db c) of None \<Rightarrow> [] | Some m \<Rightarrow> [m])), c1)))))"

definition review_preview ::
  "env \<Rightarrow> (string \<Rightarrow> string list \<Rightarrow> string \<Rightarrow> render_reply) \<Rightarrow> user \<Rightarrow> run_request \<Rightarrow> string list option \<Rightarrow> string list \<Rightarrow> ctx \<Rightarrow> sls_preview" where
  "review_preview e render cu rr matched ids c =
     (if is_scoped e c \<and> rr_fun rr = ''state.apply'' \<and> rr_args rr \<noteq> [] \<and> ids \<noteq> []
         \<and> \<not> list_all (\<lambda>m. authorize e (c_memo c) (c_db c) cu ''pillar.read'' (Some m) None) ids
      then no_preview\<lparr>sp_note := Some ''SLS render hidden: outside your pillar scope.''\<rparr>
      else build_sls_preview render (c_db c) (rr_fun rr) (rr_args rr) matched (rr_via rr))"

definition needs_review :: "run_request \<Rightarrow> bool" where
  "needs_review rr = (rr_fun rr \<in> set CONFIRM_FUNS \<and> \<not> is_test_mode (rr_fun rr) (rr_args rr))"

definition typed_ok :: "form \<Rightarrow> run_request \<Rightarrow> bool" where
  "typed_ok f rr = (form_get f ''confirm_tgt'' = rr_tgt rr)"

definition confirmed_ok :: "form \<Rightarrow> run_request \<Rightarrow> string list option \<Rightarrow> bool" where
  "confirmed_ok f rr matched =
     (form_get f ''confirmed'' = ''yes'' \<and> typed_ok f rr
      \<and> (matched \<noteq> None \<or> form_get f ''no_preview_ok'' = ''on''))"

definition review_notice :: "form \<Rightarrow> run_request \<Rightarrow> ctx \<Rightarrow> ctx" where
  "review_notice f rr c =
     (if form_get f ''confirmed'' \<noteq> ''yes'' then c
      else if \<not> typed_ok f rr then flash ''Type the target exactly to confirm.'' ''error'' c
      else flash ''Confirm firing without a match preview.'' ''error'' c)"

text \<open>Either the context to go on with, or the answer.\<close>

definition review ::
  "env \<Rightarrow> (string \<Rightarrow> string list \<Rightarrow> string \<Rightarrow> render_reply) \<Rightarrow> user \<Rightarrow> form \<Rightarrow> string \<Rightarrow> run_request \<Rightarrow> ctx
   \<Rightarrow> ((resp \<times> confirm_page option) \<times> ctx) + ctx" where
  "review e render cu f perm rr c =
     (if \<not> needs_review rr then Inr c
      else
        (case review_matched e cu perm rr c of
           Inl d \<Rightarrow> Inl ((Abort 403, None), deny_row cu d c)
         | Inr (matched, ids, c1) \<Rightarrow>
             if confirmed_ok f rr matched then Inr c1
             else Inl ((Page, Some \<lparr>cf_request = rr, cf_matched = matched,
                                    cf_preview = review_preview e render cu rr matched ids c1\<rparr>),
                       review_notice f rr c1)))"

definition launch_request :: "run_request \<Rightarrow> request" where
  "launch_request rr =
     \<lparr>rq_tgt = rr_tgt rr, rq_tgt_type = rr_tgt_type rr, rq_fun = rr_fun rr, rq_args = map PStr (rr_args rr),
      rq_async = rr_async rr, rq_via = rr_via rr, rq_kwarg = None, rq_requested = None\<rparr>"

definition save_run :: "run_request \<Rightarrow> ctx \<Rightarrow> ctx" where
  "save_run rr c =
     (if rr_save_as rr = [] then c
      else
        (case add_saved_job \<lparr>sj_id = 0, sj_name = rr_save_as rr, sj_fun = rr_fun rr, sj_tgt = rr_tgt rr,
                sj_tgt_type = rr_tgt_type rr, sj_args = map PStr (rr_args rr), sj_batch = None\<rparr> (c_db c) of
           Inl _ \<Rightarrow> flash ''Name taken. The job still ran.'' ''warning'' c
         | Inr db \<Rightarrow> c\<lparr>c_db := db\<rparr>))"

type_synonym action = "(resp \<times> confirm_page option) \<times> jstate \<times> publication list"

definition fire_run :: "env \<Rightarrow> salt \<Rightarrow> int \<Rightarrow> pass list \<Rightarrow> user \<Rightarrow> run_request \<Rightarrow> jstate \<Rightarrow> action" where
  "fire_run e sl now passes cu rr s =
     (case launch e sl now passes cu None (launch_request rr) s of
        (Inl (LaunchDenied d), s1, wire) \<Rightarrow> ((Abort 403, None), (deny_row cu d (fst s1), snd s1), wire)
      | (Inl (LaunchFailed er), s1, wire) \<Rightarrow>
          if is_salt_error er
          then ((Redirect jobs_new, None), (flash (''salt-api error: '' @ message_of er) ''error'' (fst s1), snd s1), wire)
          else ((Fail er, None), s1, wire)
      | (Inr jid, s1, wire) \<Rightarrow> ((Redirect (jobs_detail jid), None), (save_run rr (fst s1), snd s1), wire))"

text \<open>The scope of a save, before anything is published; \<open>set(None)\<close> raises.\<close>

definition save_scope :: "env \<Rightarrow> user \<Rightarrow> string \<Rightarrow> run_request \<Rightarrow> ctx \<Rightarrow> (resp \<times> ctx) option" where
  "save_scope e cu perm rr c =
     (case constrain_target_verbose e (c_memo c) (c_db c) cu perm (rr_tgt rr) (rr_tgt_type rr) of
        Inl d \<Rightarrow> Some (Abort 403, deny_row cu d c)
      | Inr (_, _, _, hit) \<Rightarrow>
          if rr_save_as rr = [] \<or> fleet_of e cu ''job.save'' c then None
          else
            (case hit of
               None \<Rightarrow> Some (Fail TypeErr, c)
             | Some h \<Rightarrow> if h \<subseteq> ids_of e cu ''job.save'' c then None else Some (Abort 403, out_of_scope cu ''job.save'' c)))"

record batch_env =
  be_group :: string
  be_queued :: bool
  be_waves :: "nat \<Rightarrow> wave_env"

definition run_passed ::
  "env \<Rightarrow> salt \<Rightarrow> (string \<Rightarrow> string list \<Rightarrow> string \<Rightarrow> render_reply) \<Rightarrow> batch_env \<Rightarrow> int \<Rightarrow> pass list \<Rightarrow> user \<Rightarrow> form
   \<Rightarrow> string \<Rightarrow> run_request \<Rightarrow> jstate \<Rightarrow> action" where
  "run_passed e sl render be now passes cu f perm rr s =
     (case review e render cu f perm rr (fst s) of
        Inl (out, c) \<Rightarrow> (out, (c, snd s), [])
      | Inr c \<Rightarrow>
          (case rr_batch rr of
             Some b \<Rightarrow>
               (case run_batched e sl (be_group be) (be_queued be) (be_waves be) cu None (rr_tgt rr) (rr_tgt_type rr)
                       (rr_fun rr) (map PStr (rr_args rr)) b (rr_save_as rr) (c, snd s) of
                  (r, s1, wire) \<Rightarrow> ((r, None), s1, wire))
           | None \<Rightarrow>
               (case (if is_scoped e c then save_scope e cu perm rr c else None) of
                  Some (r, c1) \<Rightarrow> ((r, None), (c1, snd s), [])
                | None \<Rightarrow> fire_run e sl now passes cu rr (c, snd s))))"

definition run_body ::
  "env \<Rightarrow> salt \<Rightarrow> (string \<Rightarrow> string list \<Rightarrow> string \<Rightarrow> render_reply) \<Rightarrow> batch_env \<Rightarrow> int \<Rightarrow> pass list \<Rightarrow> user \<Rightarrow> form \<Rightarrow> jstate \<Rightarrow> action" where
  "run_body e sl render be now passes cu f s =
     (let rr = posted_run f; perm = or_empty (publish_perm (rr_fun rr))
      in case form_refusal f rr of
           Some msg \<Rightarrow> ((Redirect jobs_new, None), (flash msg ''error'' (fst s), snd s), [])
         | None \<Rightarrow>
             (let c1 = ssh_notice f rr (fst s)
              in case fun_refusal rr of
                   Some msg \<Rightarrow> ((Redirect jobs_new, None), (flash msg ''error'' c1, snd s), [])
                 | None \<Rightarrow>
                     (case pass_gate (require e cu perm None None ''no-grant'') c1 of
                        Inl (r, c) \<Rightarrow> ((r, None), (c, snd s), [])
                      | Inr c \<Rightarrow> run_passed e sl render be now passes cu f perm rr (c, snd s))))"

definition jobs_run ::
  "(string set \<Rightarrow> string) \<Rightarrow> env \<Rightarrow> salt \<Rightarrow> (string \<Rightarrow> string list \<Rightarrow> string \<Rightarrow> render_reply) \<Rightarrow> batch_env \<Rightarrow> int \<Rightarrow> pass list
   \<Rightarrow> user \<Rightarrow> form \<Rightarrow> jstate \<Rightarrow> action" where
  "jobs_run first e sl render be now passes cu f s =
     (case pass_gate (roles_required first e cu [''operator'']) (fst s) of
        Inl (r, c) \<Rightarrow> ((r, None), (c, snd s), [])
      | Inr c \<Rightarrow> run_body e sl render be now passes cu f (c, snd s))"

end
