(* ===== verification/JobControl.thy ===== *)
theory JobControl
  imports JobActions
begin

text \<open>
  Orchestration, the cancel of a batch, the kill and the sync of a job and the deletion of a saved
  one (\<open>overstate_ui/jobs.py\<close>).
\<close>

definition operator_gate :: "(string set \<Rightarrow> string) \<Rightarrow> env \<Rightarrow> user \<Rightarrow> ctx \<Rightarrow> (resp \<times> ctx) + ctx" where
  "operator_gate first e cu c = pass_gate (roles_required first e cu [''operator'']) c"

definition jobs_orchestrate :: string where "jobs_orchestrate = ''jobs.orchestrate''"

section \<open>Orchestration\<close>

record orch_request =
  or_mods :: string
  or_saltenv :: string
  or_test :: bool
  or_pillar :: "(string \<times> pyval) list"

definition posted_orch :: "form \<Rightarrow> string + orch_request" where
  "posted_orch f =
     (let mods = py_strip (form_get f ''mods''); env0 = py_strip (form_get f ''saltenv'');
          saltenv = (if env0 = [] then ''base'' else env0); raw = py_strip (form_get f ''pillar'');
          request = (\<lambda>kvs. if \<not> mods_re mods then Inl ''Mods must be a dotted orchestration name.''
                     else if \<not> saltenv_re saltenv then Inl ''Saltenv may only contain letters, numbers, dashes.''
                     else Inr \<lparr>or_mods = mods, or_saltenv = saltenv, or_test = (form_get f ''test'' = ''on''), or_pillar = kvs\<rparr>)
      in if raw = [] then request []
         else
           (case json_loads raw of
              None \<Rightarrow> Inl ''Pillar override is not valid JSON.''
            | Some (PDict kvs) \<Rightarrow> request kvs
            | Some _ \<Rightarrow> Inl ''Pillar override must be a JSON object.''))"

text \<open>\<open>None\<close> when everything is confirmed, else the notice of the review page, which may be empty.\<close>

definition orch_review :: "form \<Rightarrow> orch_request \<Rightarrow> (string option) option" where
  "orch_review f orq =
     (if form_get f ''confirmed'' \<noteq> ''yes'' then Some None
      else if form_get f ''confirm_tgt'' \<noteq> or_mods orq then Some (Some ''Type the orchestration name exactly to confirm.'')
      else if form_get f ''no_preview_ok'' \<noteq> ''on'' then Some (Some ''Confirm firing without a match preview.'')
      else None)"

definition plain_job :: "string \<Rightarrow> string \<Rightarrow> string \<Rightarrow> string \<Rightarrow> string \<Rightarrow> store \<Rightarrow> job" where
  "plain_job jid fun_name tgt tgt_type name db =
     \<lparr>j_jid = jid, j_fun = fun_name, j_tgt = tgt, j_tgt_type = tgt_type, j_user = name,
      j_started_at = Some (Aware (db_now db)), j_complete = False, j_batch_group = None, j_batch_state = None,
      j_tgt_requested = None\<rparr>"

text \<open>\<open>queued\<close> says that a worker took the task; otherwise it runs inside the request.\<close>

definition orch_fire :: "env \<Rightarrow> bool \<Rightarrow> string + pyval \<Rightarrow> int \<Rightarrow> user \<Rightarrow> orch_request \<Rightarrow> ctx \<Rightarrow> (resp \<times> bool) \<times> ctx" where
  "orch_fire e queued reply now cu orq c =
     (let jid = ''orch-'' @ py_str_int (now div 1000000); name = u_username cu; back = Redirect (jobs_detail jid)
      in case add_job (plain_job jid ''state.orchestrate'' (or_mods orq) ''runner'' name (c_db c)) (c_db c) of
           Inl er \<Rightarrow> ((Fail er, False), c)
         | Inr db \<Rightarrow>
             (let c1 = on_db (log_event name (''run-orchestrate:'' @ or_mods orq) (Some jid) None None None None) (c\<lparr>c_db := db\<rparr>)
              in if queued then ((back, False), flash ''Orchestration queued.'' ''success'' c1)
                 else
                   (case run_orchestrate_task e reply jid (or_mods orq) name (c_db c1) of
                      Inl er \<Rightarrow> ((Fail er, True), c1)
                    | Inr (called, db2) \<Rightarrow>
                        ((back, called),
                         (case (called, reply) of
                            (False, _) \<Rightarrow> flash ''Orchestration failed: authorization revoked'' ''error''
                          | (True, Inl msg) \<Rightarrow> if msg = [] then flash ''Orchestration finished synchronously.'' ''success''
                                              else flash (''Orchestration failed: '' @ msg) ''error''
                          | (True, Inr _) \<Rightarrow> flash ''Orchestration finished synchronously.'' ''success'')
                           (c1\<lparr>c_db := db2\<rparr>)))))"

definition orchestrate_run ::
  "(string set \<Rightarrow> string) \<Rightarrow> env \<Rightarrow> bool \<Rightarrow> string + pyval \<Rightarrow> int \<Rightarrow> user \<Rightarrow> form \<Rightarrow> ctx \<Rightarrow> (resp \<times> bool) \<times> ctx" where
  "orchestrate_run first e queued reply now cu f c =
     (case pass_gate (\<lambda>k. roles_required first e cu [''operator''] (read_required e cu ''job.run.orchestrate'' k)) c of
        Inl (r, c1) \<Rightarrow> ((r, False), c1)
      | Inr c1 \<Rightarrow>
          (case posted_orch f of
             Inl msg \<Rightarrow> ((Redirect jobs_orchestrate, False), flash msg ''error'' c1)
           | Inr orq \<Rightarrow>
               (case orch_review f orq of
                  Some None \<Rightarrow> ((Page, False), c1)
                | Some (Some msg) \<Rightarrow> ((Page, False), flash msg ''error'' c1)
                | None \<Rightarrow> orch_fire e queued reply now cu orq c1)))"

section \<open>Cancel\<close>

text \<open>Only the starter with \<open>job.batch\<close> on every remaining minion, or a fleet holder.\<close>

definition cancel_refused :: "env \<Rightarrow> user \<Rightarrow> string \<Rightarrow> ctx \<Rightarrow> bool" where
  "cancel_refused e cu grp c =
     (case job_by_jid (c_db c) (''batch-'' @ grp) of
        None \<Rightarrow> False
      | Some parent \<Rightarrow>
          \<not> fleet_of e cu ''job.batch'' c
          \<and> (u_username cu \<noteq> j_user parent
             \<or> (let remaining = set (case resolve_batch_roster (c_db c) (j_tgt parent) (j_tgt_type parent) of
                                      None \<Rightarrow> [] | Some ids \<Rightarrow> ids)
                in remaining = {} \<or> \<not> remaining \<subseteq> ids_of e cu ''job.batch'' c)))"

definition cancel_batch :: "(string set \<Rightarrow> string) \<Rightarrow> env \<Rightarrow> bool \<Rightarrow> user \<Rightarrow> string \<Rightarrow> ctx \<Rightarrow> (resp \<times> bool) \<times> ctx" where
  "cancel_batch first e stored cu grp c =
     (case operator_gate first e cu c of
        Inl (r, c1) \<Rightarrow> ((r, False), c1)
      | Inr c1 \<Rightarrow>
          if is_scoped e c1 \<and> cancel_refused e cu grp c1 then ((Abort 403, False), out_of_scope cu ''job.batch'' c1)
          else
            ((Redirect (jobs_detail (''batch-'' @ grp)), stored),
             if stored then flash ''Cancel requested: no new waves will start.'' ''info'' c1
             else flash ''No queue, so the cancel flag was not stored. A running inline batch cannot stop.'' ''warning'' c1))"

section \<open>Kill\<close>

definition kill_target :: "env \<Rightarrow> user \<Rightarrow> job \<Rightarrow> ctx \<Rightarrow> denied + string + string \<times> string" where
  "kill_target e cu j c =
     (if is_scoped e c
      then (case constrain_kill e (c_memo c) (c_db c) cu (j_tgt j) (j_tgt_type j) of
              Inl d \<Rightarrow> Inl d | Inr t \<Rightarrow> Inr (Inr t))
      else if j_tgt_type j = ''group''
      then (case resolve_group_target (c_db c) (j_tgt j) of
              Inl er \<Rightarrow> Inr (Inl (message_of er)) | Inr (targets, _) \<Rightarrow> Inr (Inr (py_join '','' targets, ''list'')))
      else Inr (Inr (j_tgt j, j_tgt_type j)))"

definition kill_log :: "user \<Rightarrow> string \<Rightarrow> string \<Rightarrow> string \<Rightarrow> store \<Rightarrow> store" where
  "kill_log cu jid kill_jid tgt =
     (let ids = csv_ids tgt
      in log_event (u_username cu) (''kill:'' @ jid) (Some kill_jid) None (Some ''job.kill'')
           (if length ids = 1 then Some (hd ids) else None) (if length ids \<noteq> 1 then Some (py_join '','' ids) else None))"

definition kill_publish :: "salt \<Rightarrow> int \<Rightarrow> user \<Rightarrow> string \<Rightarrow> string \<Rightarrow> string \<Rightarrow> ctx \<Rightarrow> resp \<times> ctx \<times> publication list" where
  "kill_publish sl now cu jid tgt tgt_type c =
     (let kill_jid = new_jid now; back = Redirect (jobs_detail jid)
      in case publish_all_async sl (PStr tgt) ''saltutil.kill_job'' [PStr jid] tgt_type kill_jid None of
           (Inl er, wire) \<Rightarrow> (back, flash (''kill failed: '' @ message_of er) ''error'' c, wire)
         | (Inr missed, wire) \<Rightarrow>
             (case add_job (plain_job kill_jid ''saltutil.kill_job'' tgt tgt_type (u_username cu) (c_db c)) (c_db c) of
                Inl er \<Rightarrow> (Fail er, c, wire)
              | Inr db \<Rightarrow>
                  (let c1 = on_db (kill_log cu jid kill_jid tgt) (c\<lparr>c_db := db\<rparr>)
                   in (back,
                       (if missed \<noteq> []
                        then flash (''Kill published for '' @ jid @ ''. '' @ py_join '', '' missed @ '' did not answer ''
                               @ ''- the job may still run on minions attached there. Retry to converge.'') ''warning'' c1
                        else flash (''Kill published for '' @ jid @ ''. Minion reports appear on this page.'') ''success'' c1),
                       wire))))"

definition kill_body :: "env \<Rightarrow> salt \<Rightarrow> int \<Rightarrow> user \<Rightarrow> string \<Rightarrow> ctx \<Rightarrow> resp \<times> ctx \<times> publication list" where
  "kill_body e sl now cu jid c =
     (case job_by_jid (c_db c) jid of
        None \<Rightarrow> (Redirect jobs_index, flash ''Unknown job.'' ''error'' c, [])
      | Some j \<Rightarrow>
          if \<not> killable j
          then (Redirect (jobs_detail jid), flash ''You can only kill running Salt jobs with minion targets.'' ''error'' c, [])
          else
            (let c1 = (if is_scoped e c then touch cu c else c)
             in case kill_target e cu j c of
                  Inl d \<Rightarrow> (Abort 403, deny_row cu d c1, [])
                | Inr (Inl msg) \<Rightarrow> (Redirect (jobs_detail jid), flash (''salt-api error: '' @ msg) ''error'' c1, [])
                | Inr (Inr (tgt, tgt_type)) \<Rightarrow> kill_publish sl now cu jid tgt tgt_type c1))"

definition job_kill ::
  "(string set \<Rightarrow> string) \<Rightarrow> env \<Rightarrow> salt \<Rightarrow> int \<Rightarrow> user \<Rightarrow> string \<Rightarrow> ctx \<Rightarrow> resp \<times> ctx \<times> publication list" where
  "job_kill first e sl now cu jid c =
     (case operator_gate first e cu c of
        Inl (r, c1) \<Rightarrow> (r, c1, [])
      | Inr c1 \<Rightarrow> kill_body e sl now cu jid c1)"

section \<open>Sync and saved jobs\<close>

definition job_sync :: "(string set \<Rightarrow> string) \<Rightarrow> env \<Rightarrow> job_env \<Rightarrow> user \<Rightarrow> string \<Rightarrow> jstate \<Rightarrow> resp \<times> jstate" where
  "job_sync first e je cu jid s =
     (case pass_gate (\<lambda>k. roles_required first e cu [''operator''] (read_required e cu ''job.read'' k)) (fst s) of
        Inl (r, c) \<Rightarrow> (r, (c, snd s))
      | Inr c \<Rightarrow> (Redirect (jobs_detail jid), sync_at je cu jid (c, snd s)))"

definition pinned_job :: "store \<Rightarrow> saved_job \<Rightarrow> bool" where
  "pinned_job db sj = list_ex (\<lambda>t. t_saved_job_id t = Some (sj_id sj)) (api_tokens db)"

definition drop_saved :: "saved_job \<Rightarrow> store \<Rightarrow> store" where
  "drop_saved sj db = db\<lparr>saved_jobs := filter (\<lambda>s. sj_id s \<noteq> sj_id sj) (saved_jobs db)\<rparr>"

definition saved_out_of_scope :: "env \<Rightarrow> user \<Rightarrow> saved_job \<Rightarrow> ctx \<Rightarrow> bool" where
  "saved_out_of_scope e cu sj c =
     (is_scoped e c \<and> \<not> fleet_of e cu ''job.save'' c
      \<and> (case published_ids (c_db c) (sj_tgt sj) (sj_tgt_type sj) of
           None \<Rightarrow> True | Some mids \<Rightarrow> \<not> mids \<subseteq> ids_of e cu ''job.save'' c))"

definition delete_saved_body :: "env \<Rightarrow> user \<Rightarrow> saved_job \<Rightarrow> ctx \<Rightarrow> resp \<times> ctx" where
  "delete_saved_body e cu sj c =
     (case pass_gate (read_required e cu ''job.save'') c of
        Inl (r, c1) \<Rightarrow> (r, c1)
      | Inr c1 \<Rightarrow>
          if saved_out_of_scope e cu sj c1 then (Abort 403, out_of_scope cu ''job.save'' c1)
          else if pinned_job (c_db c1) sj then (Abort 409, c1)
          else (Redirect jobs_index,
                flash (''Deleted saved job '' @ quoted (sj_name sj) @ ''.'') ''success'' (on_db (drop_saved sj) c1)))"

definition delete_saved :: "(string set \<Rightarrow> string) \<Rightarrow> env \<Rightarrow> user \<Rightarrow> int \<Rightarrow> ctx \<Rightarrow> resp \<times> ctx" where
  "delete_saved first e cu i c =
     (case operator_gate first e cu c of
        Inl (r, c1) \<Rightarrow> (r, c1)
      | Inr c1 \<Rightarrow>
          (case saved_job_by_id (c_db c1) i of
             None \<Rightarrow> (Redirect jobs_index, flash ''No such saved job.'' ''error'' c1)
           | Some sj \<Rightarrow> delete_saved_body e cu sj c1))"

end
