(* ===== verification/JobFacts.thy ===== *)
theory JobFacts
  imports JobControl BatchFacts
begin

text \<open>
  Facts about the job pages: a sync leaves the tables that decide access alone, and rows a page shows
  to a scoped viewer passed the filter of that viewer.
\<close>

section \<open>A sync and the decisions\<close>

definition same_grants :: "store \<Rightarrow> store \<Rightarrow> bool" where
  "same_grants db db' = (grants db' = grants db \<and> local_group_members db' = local_group_members db
     \<and> user_idp_groups db' = user_idp_groups db \<and> idp_role_mappings db' = idp_role_mappings db
     \<and> settings db' = settings db)"

lemma same_grants_refl [simp, intro]: "same_grants db db"
  by (simp add: same_grants_def)

lemma same_grants_trans: "same_grants a b \<Longrightarrow> same_grants b c \<Longrightarrow> same_grants a c"
  by (simp add: same_grants_def)

lemma same_grants_mode: "same_grants db db' \<Longrightarrow> rbac_mode e db' = rbac_mode e db"
  by (simp add: same_grants_def rbac_mode_def rbac_flag_def setting_row_def)

lemma same_grants_fleet:
  assumes "same_grants db db'"
  shows "has_fleet e g db' u p = has_fleet e g db u p"
proof -
  have s: "grants db' = grants db" "local_group_members db' = local_group_members db"
    "user_idp_groups db' = user_idp_groups db" "idp_role_mappings db' = idp_role_mappings db" "settings db' = settings db"
    using assms by (simp_all add: same_grants_def)
  have "queried_entries db' i = queried_entries db i" for i
    unfolding queried_entries_def user_entries_def group_entries_def idp_entries_def idp_names_def s ..
  then have q: "queried_entries db' = queried_entries db" by blast
  have f: "rbac_fallback_on e db' = rbac_fallback_on e db"
    unfolding rbac_fallback_on_def rbac_flag_def setting_row_def s ..
  show ?thesis unfolding has_fleet_def effective_entries_def grant_entries_def q f ..
qed

lemma same_grants_put [simp, intro]:
  "same_grants db (put_minion m db)" "same_grants db (put_job j db)" "same_grants db (copy_return jid r db)"
  by (simp_all add: same_grants_def put_minion_def put_job_def copy_return_def Let_def)

lemma same_grants_stamp: "same_grants (fst s) (fst (stamp j rows roster now mid s))"
  by (auto simp: stamp_def Let_def split: prod.splits option.splits)

lemma same_grants_stamps: "same_grants (fst s) (fst (fold (stamp j rows roster now) mids s))"
proof (induction mids arbitrary: s)
  case (Cons m ms)
  show ?case using same_grants_trans [OF same_grants_stamp Cons.IH] by simp
qed simp

lemma same_grants_copies: "same_grants db (fold (copy_return jid) rows db)"
proof (induction rows arbitrary: db)
  case (Cons r rs)
  show ?case using same_grants_trans [OF same_grants_put(3) Cons.IH] by simp
qed simp

lemma same_grants_verdicts: "same_grants (fst w) (fst (commit_verdicts j rows now w))"
  by (simp add: commit_verdicts_def apply_sync_verdicts_def Let_def same_grants_stamps)

lemma same_grants_saved:
  assumes "same_grants db db'"
  shows "same_grants db (fst (commit_verdicts j rows now (db', v)))"
  using same_grants_trans [OF assms] same_grants_verdicts [of "(db', v)"] by simp

lemma same_grants_sync_empty: "same_grants (fst w) (fst (sync_empty reply now j w))"
  unfolding sync_empty_def Let_def
  by (auto split: option.split intro: same_grants_saved)

lemma same_grants_sync_rows: "same_grants (fst w) (fst (sync_rows reply now j rows w))"
proof -
  have "same_grants (fst w) (put_job j' (fold (copy_return (j_jid j)) rows (fst w)))" for j'
    by (rule same_grants_trans [OF same_grants_copies same_grants_put(2)])
  then show ?thesis unfolding sync_rows_def Let_def by (simp add: same_grants_saved)
qed

lemma same_grants_sync: "same_grants (fst w) (fst (sync_job reply actor now jid w))"
  by (auto simp: sync_job_def Let_def same_grants_sync_empty same_grants_sync_rows split: option.splits list.splits)

section \<open>The state of a page\<close>

text \<open>From one state of a request to a later one: the grants and the remembered entries are those of before.\<close>

definition later :: "jstate \<Rightarrow> jstate \<Rightarrow> bool" where
  "later s s' = (same_grants (c_db (fst s)) (c_db (fst s')) \<and> c_memo (fst s') = c_memo (fst s))"

lemma later_refl [simp, intro]: "later s s"
  by (simp add: later_def)

lemma later_trans: "later a b \<Longrightarrow> later b c \<Longrightarrow> later a c"
  by (auto simp: later_def intro: same_grants_trans)

lemma later_sync [simp, intro]: "later s (sync_at je cu jid s)"
proof -
  let ?w = "sync_job (je_reply je jid) (u_username cu) (je_now je jid) jid (c_db (fst s), snd s)"
  obtain db v where w: "?w = (db, v)" by (cases ?w)
  have "same_grants (fst (c_db (fst s), snd s)) (fst ?w)" by (rule same_grants_sync)
  then have "same_grants (c_db (fst s)) db" by (simp only: w fst_conv)
  then show ?thesis by (simp add: later_def sync_at_def w)
qed

lemma later_syncs: "later s (fold (\<lambda>w. sync_at je cu (j_jid w)) ws s)"
proof (induction ws arbitrary: s)
  case (Cons w ws)
  show ?case using later_trans [OF later_sync Cons.IH] by simp
qed simp

lemma later_kills: "kill_reports je cu evs s = (ks, s') \<Longrightarrow> later s s'"
proof (induction evs arbitrary: s ks)
  case (Cons ev evs)
  show ?case
  proof (cases "a_jid ev = None \<or> a_jid ev = Some []")
    case True
    then have "kill_reports je cu evs s = (ks, s')" using Cons.prems by auto
    then show ?thesis by (rule Cons.IH)
  next
    case False
    then obtain k where k: "a_jid ev = Some k" "k \<noteq> []" by auto
    obtain rest s2 where r: "kill_reports je cu evs (sync_at je cu k s) = (rest, s2)"
      by (cases "kill_reports je cu evs (sync_at je cu k s)")
    moreover have "s2 = s'" using r Cons.prems k by (simp add: Let_def)
    ultimately have "later (sync_at je cu k s) s'" using Cons.IH by simp
    then show ?thesis by (rule later_trans [OF later_sync])
  qed
qed simp

lemma later_decisions:
  assumes "later s s'"
  shows "is_scoped e (fst s') = is_scoped e (fst s)" "fleet_of e cu p (fst s') = fleet_of e cu p (fst s)"
  using assms by (auto simp: later_def is_scoped_def same_grants_mode same_grants_fleet)

lemma detail_returns_later: "detail_returns je cu j s = (x, s') \<Longrightarrow> later s s'"
  by (auto simp: detail_returns_def Let_def later_syncs split: if_splits)

text \<open>The page of a job is rendered on the state that is left.\<close>

lemma detail_body_render:
  assumes "detail_body e je cu j s = (pg, s')"
  shows "later s s'" and "\<exists>j' rs ws ks dg. pg = render_job e cu j' rs ws ks dg (fst s')"
proof -
  obtain stored waves s1 where 1: "detail_returns je cu j s = ((stored, waves), s1)" by (metis prod.exhaust)
  define j' where "j' = job_now j (c_db (fst s1))"
  obtain rs dg where 3: "merge_live je j' stored = (rs, dg)" by (cases "merge_live je j' stored")
  obtain ks s2 where 2: "(if is_parent j' (j_jid j') then ([], s1)
      else kill_reports je cu (kill_events (c_db (fst s1)) (j_jid j')) s1) = (ks, s2)"
    by (cases "if is_parent j' (j_jid j') then ([], s1)
      else kill_reports je cu (kill_events (c_db (fst s1)) (j_jid j')) s1")
  have "later s1 s2"
  proof (cases "is_parent j' (j_jid j')")
    case False
    then show ?thesis using 2 later_kills by (simp only: if_False)
  next
    case True
    then show ?thesis using 2 by simp
  qed
  moreover have r: "(render_job e cu j' rs waves ks dg (fst s2), s2) = (pg, s')"
    using assms unfolding detail_body_def 1 prod.case Let_def j'_def [symmetric] 3 2 .
  ultimately show "later s s'" using later_trans [OF detail_returns_later [OF 1]] by simp
  show "\<exists>j' rs ws ks dg. pg = render_job e cu j' rs ws ks dg (fst s')" using r by blast
qed

lemma passed_read:
  assumes "pass_gate (read_required e cu p) c = Inr c'"
  shows "c_db c' = c_db c" and "c' = c \<or> c' = touch cu c"
  using pass_require(1) [OF assms [unfolded read_required_def]] by auto

section \<open>What the filter lets through\<close>

definition readable :: "env \<Rightarrow> user \<Rightarrow> ctx \<Rightarrow> string set \<Rightarrow> shown_row \<Rightarrow> bool" where
  "readable e cu c funs r =
     (authorize e (c_memo c) (c_db c) cu ''job.read'' (Some (sw_mid r)) None
      \<and> (sw_payload r = PDict [] \<or> (\<exists>f \<in> funs. can_see_return_body e (c_memo c) (c_db c) cu f (sw_mid r))))"

lemma redacted_readable:
  assumes "is_scoped e c" and "\<not> fleet_of e cu ''job.read'' c" and "\<And>r. fun_of r \<in> funs"
    and "row \<in> set (redacted_rows e cu fun_of c rows)"
  shows "readable e cu c funs row"
proof -
  obtain r where r: "row = (blank_row e cu (fun_of r) c r)\<lparr>sw_jid := None\<rparr>"
    "sw_mid r \<in> ids_of e cu ''job.read'' c" using assms by (auto simp: redacted_rows_def)
  then have "authorize e (c_memo c) (c_db c) cu ''job.read'' (Some (sw_mid r)) None"
    using minions_with_authorize by blast
  then show ?thesis using r assms(3) by (auto simp: readable_def blank_row_def)
qed

lemma row_fun_known: "row_fun j waves r \<in> insert (j_fun j) (j_fun ` set waves)"
  by (auto simp: row_fun_def Let_def split: option.splits if_splits dest!: map_of_SomeD)

lemma render_readable:
  assumes "is_scoped e c" and "\<not> fleet_of e cu ''job.read'' c"
    and "pg = render_job e cu j returns waves kills degraded c"
  shows "row \<in> set (jp_returns pg) \<Longrightarrow> readable e cu c (insert (j_fun (jp_job pg)) (j_fun ` set (jp_waves pg))) row"
    and "(k, rows) \<in> set (jp_kills pg) \<Longrightarrow> row \<in> set rows \<Longrightarrow> readable e cu c {''saltutil.kill_job''} row"
proof -
  have pg: "jp_job pg = j" "jp_waves pg = waves" "jp_returns pg = redacted_rows e cu (row_fun j waves) c returns"
    "jp_kills pg = map (\<lambda>(k, rows). (k, redacted_rows e cu (\<lambda>_. ''saltutil.kill_job'') c rows)) kills"
    using assms by (simp_all add: render_job_def)
  note red = redacted_readable [OF assms(1,2)]
  show "row \<in> set (jp_returns pg) \<Longrightarrow> readable e cu c (insert (j_fun (jp_job pg)) (j_fun ` set (jp_waves pg))) row"
    unfolding pg by (rule red [OF row_fun_known])
  show "(k, rows) \<in> set (jp_kills pg) \<Longrightarrow> row \<in> set rows \<Longrightarrow> readable e cu c {''saltutil.kill_job''} row"
    unfolding pg using red [of "\<lambda>_. ''saltutil.kill_job''" "{''saltutil.kill_job''}"] by auto
qed

end
