(* ===== verification/JobPageProps.thy ===== *)
theory JobPageProps
  imports JobFacts LaunchProps
begin

text \<open>
  Properties of the job pages: what a scoped viewer reads of a job, of one panel and of the stream.
\<close>

lemma scoped_fleet_touched:
  "c' = c \<or> c' = touch cu c \<Longrightarrow> is_scoped e c' = is_scoped e c"
  "c' = c \<or> c' = touch cu c \<Longrightarrow> fleet_of e cu p c' = fleet_of e cu p c"
  "c' = c \<or> c' = touch cu c \<Longrightarrow> ids_of e cu p c' = ids_of e cu p c"
  by (auto simp: is_scoped_def decisions_remember)

lemma detail_opened:
  assumes "job_detail e je cu jid s = ((r, Some pg), s')"
  obtains j c where "pass_gate (read_required e cu ''job.read'') (fst s) = Inr c"
    and "detail_body e je cu j (c, snd s) = (pg, s')"
proof (cases "job_by_jid (c_db (fst s)) jid")
  case None
  then show ?thesis using assms by (simp add: job_detail_def)
next
  case (Some j)
  note D = assms [unfolded job_detail_def Some option.case]
  show ?thesis
  proof (cases "pass_gate (read_required e cu ''job.read'') (fst s)")
    case (Inl rc)
    then show ?thesis using D by (cases rc) simp
  next
    case (Inr c)
    obtain pg' s2 where b: "detail_body e je cu j (c, snd s) = (pg', s2)" by (cases "detail_body e je cu j (c, snd s)")
    show ?thesis using D that [OF Inr] b unfolding Inr sum.case by (simp split: if_splits)
  qed
qed

text \<open>A job on every minion: the returns of two are stored, two more are read live.\<close>

definition page_job :: "string \<Rightarrow> job" where
  "page_job f = \<lparr>j_jid = ''20240101'', j_fun = f, j_tgt = ''*'', j_tgt_type = ''glob'', j_user = ''root'',
     j_started_at = Some (Aware 0), j_complete = False, j_batch_group = None, j_batch_state = None, j_tgt_requested = None\<rparr>"

definition page_return :: "string \<Rightarrow> job_return" where
  "page_return mid = \<lparr>jr_jid = ''20240101'', jr_minion_id = mid, jr_success = True, jr_retcode = 0,
     jr_payload = PDict [(''k'', PStr ''v'')]\<rparr>"

definition page_store :: "string \<Rightarrow> store" where
  "page_store f = demo_store\<lparr>jobs := [page_job f], job_returns := map page_return [''web-01'', ''db-01'']\<rparr>"

definition quiet_env :: job_env where
  "quiet_env = \<lparr>je_reply = (\<lambda>_. None), je_now = (\<lambda>_. 0),
     je_live = (\<lambda>_. LiveValue (PDict [(''web-02'', PDict [(''return'', PBool True)]), (''db-02'', PBool True)]))\<rparr>"

abbreviation page_state :: "string \<Rightarrow> jstate" where
  "page_state f \<equiv> (start (page_store f), demo_verdicts)"

lemma page_scoped: "rbac_mode demo_env (c_db (start (page_store f))) = ''scoped''"
  using same_grants_mode [of demo_store "page_store f"] demo_scoped
  by (simp add: start_def page_store_def same_grants_def)

lemma page_narrow: "\<not> has_fleet demo_env (c_memo (start (page_store f))) (c_db (start (page_store f))) lead ''job.read''"
proof -
  have "same_grants demo_store (page_store f)" by (simp add: page_store_def same_grants_def)
  moreover have "\<not> has_fleet demo_env fresh demo_store lead ''job.read''" by code_simp
  ultimately show ?thesis using same_grants_fleet by (simp add: start_def)
qed

text \<open>C30: The page of a job confines a scoped viewer: without fleet \<open>job.read\<close> every return and every kill
  report it shows, stored or live, is of a minion the viewer may read jobs of, and the body of each
  is empty unless the viewer may see the bodies of that function on that minion.\<close>

theorem job_page_confined:
  assumes "job_detail e je cu jid s = ((r, Some pg), s')"
    and "rbac_mode e (c_db (fst s)) = ''scoped''" and "\<not> has_fleet e (c_memo (fst s)) (c_db (fst s)) cu ''job.read''"
  shows "(\<forall>row \<in> set (jp_returns pg). readable e cu (fst s') (insert (j_fun (jp_job pg)) (j_fun ` set (jp_waves pg))) row)
    \<and> (\<forall>k rows row. (k, rows) \<in> set (jp_kills pg) \<and> row \<in> set rows \<longrightarrow> readable e cu (fst s') {''saltutil.kill_job''} row)"
proof -
  obtain j c where j: "pass_gate (read_required e cu ''job.read'') (fst s) = Inr c"
    "detail_body e je cu j (c, snd s) = (pg, s')"
    by (rule detail_opened [OF assms(1)])
  note c = scoped_fleet_touched [OF passed_read(2) [OF j(1)]]
  note r = detail_body_render [OF j(2)]
  have "is_scoped e (fst s')" "\<not> fleet_of e cu ''job.read'' (fst s')"
    using later_decisions [OF r(1)] c assms(2,3) by (simp_all add: is_scoped_def)
  moreover obtain j' rs ws ks dg where "pg = render_job e cu j' rs ws ks dg (fst s')" using r(2) by blast
  ultimately show ?thesis using render_readable [of e "fst s'" cu pg] by blast
qed

lemma shown_page: "map_option f (snd (fst x)) = Some y \<Longrightarrow> \<exists>r pg s'. x = ((r, Some pg), s') \<and> f pg = y"
  by (cases x, cases "fst x") auto

lemma job_page_confined_witness:
  "(case job_detail demo_env quiet_env lead ''20240101'' (page_state ''pillar.items'') of
      ((_, Some pg), s') \<Rightarrow>
        map (\<lambda>r. (sw_mid r, sw_payload r)) (jp_returns pg) = [(''web-01'', PDict []), (''web-02'', PDict [])]
        \<and> list_all (readable demo_env lead (fst s') (insert (j_fun (jp_job pg)) (j_fun ` set (jp_waves pg)))) (jp_returns pg)
    | _ \<Rightarrow> False)"
proof -
  let ?D = "job_detail demo_env quiet_env lead ''20240101'' (page_state ''pillar.items'')"
  have rows: "map_option (\<lambda>pg. map (\<lambda>r. (sw_mid r, sw_payload r)) (jp_returns pg)) (snd (fst ?D))
    = Some [(''web-01'', PDict []), (''web-02'', PDict [])]" by code_simp
  from shown_page [OF this] obtain r pg s' where l: "?D = ((r, Some pg), s')" by blast
  have "\<forall>row \<in> set (jp_returns pg). readable demo_env lead (fst s') (insert (j_fun (jp_job pg)) (j_fun ` set (jp_waves pg))) row"
    by (rule job_page_confined [OF l, unfolded fst_conv, OF page_scoped page_narrow, THEN conjunct1])
  then have "list_all (readable demo_env lead (fst s') (insert (j_fun (jp_job pg)) (j_fun ` set (jp_waves pg)))) (jp_returns pg)"
    by (simp only: list_all_iff)
  moreover have "map (\<lambda>r. (sw_mid r, sw_payload r)) (jp_returns pg) = [(''web-01'', PDict []), (''web-02'', PDict [])]"
    using rows unfolding l by simp
  ultimately show ?thesis unfolding l by (simp only: prod.case option.case)
qed

text \<open>A fleet reader of jobs without \<open>pillar.read\<close>: the page shows the pillar a job returned, and the panel
  of the same minion withholds it.\<close>

definition auditor :: user where "auditor = demo_user 8 ''auditor'' ''scoped''"

definition audited_state :: jstate where
  "audited_state = (start ((page_store ''pillar.items'')\<lparr>grants := [demo_grant 9 (Some 8) None ''auditor'' ''fleet'' ''*'']\<rparr>),
     demo_verdicts)"

lemma detail_shows_withheld_body:
  "map_option (\<lambda>pg. map sw_payload (filter (\<lambda>r. sw_mid r = ''db-01'') (jp_returns pg)))
     (snd (fst (job_detail demo_env quiet_env auditor ''20240101'' audited_state))) = Some [PDict [(''k'', PStr ''v'')]]"
  "map_option sw_payload (snd (fst (job_panel demo_env quiet_env auditor ''20240101'' ''db-01'' audited_state))) = Some (PDict [])"
  by code_simp+

text \<open>The panel of one minion: only its own row, and only for a reader of that minion.\<close>

lemma last_return_mid:
  assumes "rev (sort_key jr_jid (filter (\<lambda>r. jr_minion_id r = mid) rs)) = r # others"
  shows "jr_minion_id r = mid"
proof -
  have "r \<in> set (rev (sort_key jr_jid (filter (\<lambda>r. jr_minion_id r = mid) rs)))" using assms by simp
  then show ?thesis by simp
qed

lemma stored_panel_mid:
  assumes "panel_row je cu j mid s = (Some r, s1)"
  shows "sw_mid r = mid"
proof (cases "is_parent j (j_jid j)")
  case True
  then obtain rs x others where "rev (sort_key jr_jid (filter (\<lambda>r. jr_minion_id r = mid) rs)) = x # others" "r = stored_row x"
    using assms unfolding panel_row_def Let_def by (auto simp del: rev_eq_Cons_iff split: list.splits)
  then show ?thesis using last_return_mid by (simp add: stored_row_def del: rev_eq_Cons_iff)
next
  case False
  then show ?thesis using assms
    by (auto simp: panel_row_def Let_def stored_row_def return_of_def dest!: find_row_Some)
qed

lemma panel_later: "panel_row je cu j mid s = (x, s1) \<Longrightarrow> later s s1"
  unfolding panel_row_def Let_def by (cases "is_parent j (j_jid j)") auto

lemma live_panel_mid: "panel_live je j mid = Some r \<Longrightarrow> sw_mid r = mid"
  by (auto simp: panel_live_def find_Some_iff split: if_splits)

lemma panel_mid:
  assumes "panel_row je cu j mid s = (stored, s1)"
    and "(case stored of None \<Rightarrow> panel_live je j' mid | Some r \<Rightarrow> Some r) = Some row"
  shows "sw_mid row = mid"
proof (cases stored)
  case None
  then show ?thesis using assms(2) live_panel_mid by simp
next
  case (Some r)
  then show ?thesis using assms stored_panel_mid by simp
qed

text \<open>The panel of one minion is of that minion only, opens only to a viewer who may read its jobs, and
  holds the body of the return only where a body of its kind may be seen.\<close>

theorem panel_readable:
  assumes "job_panel e je cu jid mid s = ((r, Some row), s')"
    and "rbac_mode e (c_db (fst s)) = ''scoped''"
  shows "authorize e (c_memo (fst s)) (c_db (fst s)) cu ''job.read'' (Some mid) None \<and> sw_mid row = mid
    \<and> (sw_payload row = PDict [] \<or> (\<exists>f. can_see_return_body e (c_memo (fst s')) (c_db (fst s')) cu f mid))"
proof -
  obtain j0 c stored r0 where p: "pass_gate (require e cu ''job.read'' (Some mid) None ''no-grant'') (fst s) = Inr c"
    "panel_row je cu j0 mid (c, snd s) = (stored, s')"
    "(case stored of None \<Rightarrow> panel_live je (job_now j0 (c_db (fst s'))) mid | Some r \<Rightarrow> Some r) = Some r0"
    "row = blank_row e cu (j_fun (job_now j0 (c_db (fst s')))) (fst s') r0"
    using assms(1) by (auto simp: job_panel_def Let_def split: option.splits sum.splits prod.splits)
  have "sw_mid r0 = mid" by (rule panel_mid [OF p(2,3)])
  then show ?thesis using pass_require(2) [OF p(1) assms(2)] p(4) by (auto simp: blank_row_def)
qed

lemma panel_readable_witness:
  "(case job_panel demo_env quiet_env lead ''20240101'' ''web-01'' (page_state ''pillar.items'') of
      ((_, Some row), s') \<Rightarrow> sw_mid row = ''web-01'' \<and> sw_payload row = PDict []
        \<and> authorize demo_env fresh demo_store lead ''job.read'' (Some ''web-01'') None
    | _ \<Rightarrow> False)"
proof -
  let ?P = "job_panel demo_env quiet_env lead ''20240101'' ''web-01'' (page_state ''pillar.items'')"
  have row: "map_option sw_payload (snd (fst ?P)) = Some (PDict [])" by code_simp
  from shown_page [OF this] obtain r row s' where l: "?P = ((r, Some row), s')" by blast
  have "sw_mid row = ''web-01''" using panel_readable [OF l] page_scoped by (simp only: fst_conv)
  moreover have "sw_payload row = PDict []" using row unfolding l by simp
  moreover have "authorize demo_env fresh demo_store lead ''job.read'' (Some ''web-01'') None" by code_simp
  ultimately show ?thesis unfolding l by (simp only: prod.case option.case)
qed

lemma payload_shape:
  "\<exists>(rs :: job_return list) (ls :: shown_row list). se_minions (stream_payload a je jid db) = sorted_list_of_set
     (set (map jr_minion_id (filter (\<lambda>r. in_view a (jr_minion_id r)) rs))
      \<union> set (map sw_mid (filter (\<lambda>r. in_view a (sw_mid r)) ls)))"
  unfolding stream_payload_def Let_def stream_event.simps by (rule exI, rule exI, rule refl)

lemma payload_minions: "set (se_minions (stream_payload (Some ids) je jid db)) \<subseteq> ids"
proof -
  obtain rs :: "job_return list" and ls :: "shown_row list" where p: "se_minions (stream_payload (Some ids) je jid db) = sorted_list_of_set
     (set (map jr_minion_id (filter (\<lambda>r. in_view (Some ids) (jr_minion_id r)) rs))
      \<union> set (map sw_mid (filter (\<lambda>r. in_view (Some ids) (sw_mid r)) ls)))" using payload_shape by blast
  show ?thesis unfolding p by (auto simp: in_view_def)
qed

text \<open>Every event of the stream is a payload, and there is at most one for each pass.\<close>

lemma job_events_payload:
  "ev \<in> set (fst (job_events a cu jid ps s)) \<Longrightarrow> \<exists>je db. ev = stream_payload a je jid db"
proof (induction ps arbitrary: s)
  case (Cons p ps)
  let ?s = "sync_at (po_env p) cu jid (po_others p s)"
  have "ev = stream_payload a (po_env p) jid (c_db (fst ?s)) \<or> ev \<in> set (fst (job_events a cu jid ps ?s))"
    using Cons.prems by (auto simp: Let_def case_prod_beta split: if_splits)
  then show ?case using Cons.IH [of ?s] by blast
qed simp

lemma stream_length: "length (fst (job_events a cu jid ps s)) \<le> length ps"
proof (induction ps arbitrary: s)
  case (Cons p ps)
  then show ?case using Cons.IH [of "sync_at (po_env p) cu jid (po_others p s)"] by (simp add: Let_def case_prod_beta)
qed simp

lemma stream_minions:
  assumes "job_events (Some ids) cu jid ps s = (evs, s')" and "ev \<in> set evs"
  shows "set (se_minions ev) \<subseteq> ids"
proof -
  obtain je db where "ev = stream_payload (Some ids) je jid db"
    using job_events_payload [of ev "Some ids" cu jid ps s] assms by auto
  then show ?thesis using payload_minions by simp
qed

text \<open>C31: The stream of a running job names no minion outside the scope its viewer had when it opened,
  whatever arrives, however long it runs; and it ends after at most 600 passes.\<close>

theorem stream_confined:
  assumes "job_stream e cu jid polls s = ((r, evs), s')"
    and "rbac_mode e (c_db (fst s)) = ''scoped''" and "\<not> has_fleet e (c_memo (fst s)) (c_db (fst s)) cu ''job.read''"
  shows "length evs \<le> 600
    \<and> (\<forall>ev \<in> set evs. \<forall>mid \<in> set (se_minions ev). authorize e (c_memo (fst s)) (c_db (fst s)) cu ''job.read'' (Some mid) None)"
proof -
  show ?thesis
  proof (cases "evs = []")
    case False
    then obtain c where c: "pass_gate (read_required e cu ''job.read'') (fst s) = Inr c"
      "job_events (stream_scope e cu c) cu jid (take STREAM_POLLS polls) (c, snd s) = (evs, s')"
      using assms(1) by (auto simp: job_stream_def split: sum.splits if_splits prod.splits)
    note t = scoped_fleet_touched [OF passed_read(2) [OF c(1)]]
    have sc: "stream_scope e cu c = Some (ids_of e cu ''job.read'' (fst s))"
      using assms(2,3) t by (simp add: stream_scope_def is_scoped_def)
    have "length evs \<le> 600" using stream_length [of "stream_scope e cu c" cu jid "take STREAM_POLLS polls" "(c, snd s)"] c(2)
      by (simp add: STREAM_POLLS_def)
    then show ?thesis using stream_minions [OF c(2) [unfolded sc]] minions_with_authorize by blast
  qed simp
qed

lemma stream_confined_witness:
  "(case job_stream demo_env lead ''20240101'' [\<lparr>po_others = id, po_env = quiet_env\<rparr>] (page_state ''test.ping'') of
      ((_, evs), s') \<Rightarrow> map se_minions evs = [[''web-01'', ''web-02'']]
        \<and> authorize demo_env fresh (page_store ''test.ping'') lead ''job.read'' (Some ''web-02'') None)"
proof -
  let ?S = "job_stream demo_env lead ''20240101'' [\<lparr>po_others = id, po_env = quiet_env\<rparr>] (page_state ''test.ping'')"
  have evs: "map se_minions (snd (fst ?S)) = [[''web-01'', ''web-02'']]" by code_simp
  obtain r es s' where l: "?S = ((r, es), s')" by (metis prod.collapse)
  obtain ev where ev: "es = [ev]" "se_minions ev = [''web-01'', ''web-02'']" using evs l by auto
  have "\<forall>ev \<in> set es. \<forall>mid \<in> set (se_minions ev).
      authorize demo_env (c_memo (start (page_store ''test.ping''))) (c_db (start (page_store ''test.ping''))) lead ''job.read'' (Some mid) None"
    by (rule stream_confined [OF l, unfolded fst_conv, OF page_scoped page_narrow, THEN conjunct2])
  then have "authorize demo_env fresh (page_store ''test.ping'') lead ''job.read'' (Some ''web-02'') None"
    using ev by (simp add: start_def)
  then show ?thesis unfolding l using ev by simp
qed

end
