(* ===== verification/JobActProps.thy ===== *)
theory JobActProps
  imports JobFacts LaunchProps
begin

text \<open>
  Properties of the actions of the job runner: what a posted run needs before anything is published,
  whom a kill reaches, which saved jobs may be deleted, and the glob suggested for a selection.
\<close>

lemma ids_authorize:
  assumes "c' = c \<or> c' = touch cu c" and "m \<in> ids_of e cu p c'"
  shows "authorize e (c_memo c) (c_db c) cu p (Some m) None"
proof -
  have "m \<in> ids_of e cu p c" using assms by (auto simp: decisions_remember)
  then show ?thesis by (rule minions_with_authorize)
qed

section \<open>Run\<close>

lemma run_body_published:
  assumes "run_body e sl render be now passes cu f s = (out, s', wire)" and "wire \<noteq> []"
  obtains c where "c_db c = c_db (fst s)" "form_refusal f (posted_run f) = None" "fun_refusal (posted_run f) = None"
    "run_passed e sl render be now passes cu f (or_empty (publish_perm (rr_fun (posted_run f)))) (posted_run f) (c, snd s)
      = (out, s', wire)"
proof -
  let ?rr = "posted_run f"
  let ?gate = "require e cu (or_empty (publish_perm (rr_fun ?rr))) None None ''no-grant''"
  have form: "form_refusal f ?rr = None"
    using assms by (cases "form_refusal f ?rr") (auto simp: run_body_def Let_def)
  have fn: "fun_refusal ?rr = None"
    using assms form by (cases "fun_refusal ?rr") (auto simp: run_body_def Let_def)
  show thesis
  proof (cases "pass_gate ?gate (ssh_notice f ?rr (fst s))")
    case (Inl rc)
    then show ?thesis using assms form fn by (cases rc) (auto simp: run_body_def Let_def)
  next
    case (Inr c)
    have "c_db c = c_db (fst s)" using pass_require(1) [OF Inr] by (simp add: ssh_notice_def flash_def split: if_splits)
    then show ?thesis using that [of c] assms(1) form fn Inr by (simp add: run_body_def Let_def)
  qed
qed

lemma review_passed:
  assumes "review e render cu f perm rr c = Inr c'" and "needs_review rr"
  shows "form_get f ''confirmed'' = ''yes'' \<and> form_get f ''confirm_tgt'' = rr_tgt rr
    \<and> (form_get f ''no_preview_ok'' = ''on'' \<or> is_scoped e c
       \<or> resolve_batch_roster (c_db c) (rr_tgt rr) (rr_tgt_type rr) \<noteq> None)"
proof -
  obtain matched ids c1 where m: "review_matched e cu perm rr c = Inr (matched, ids, c1)" "confirmed_ok f rr matched"
    using assms by (auto simp: review_def split: sum.splits prod.splits if_splits)
  have "matched = resolve_batch_roster (c_db c) (rr_tgt rr) (rr_tgt_type rr)" if "\<not> is_scoped e c"
    using m(1) that unfolding review_matched_def Let_def by auto
  then show ?thesis using m(2) by (cases "is_scoped e c") (auto simp: confirmed_ok_def typed_ok_def)
qed

text \<open>C28: Nothing a posted run publishes skips the form's checks: the function is one of the allowed ones
  and has a permission, the target is not empty and of a known type, and a function of
  \<open>CONFIRM_FUNS\<close>, unless it runs in test mode, was confirmed with the target typed again, and, where the
  roster cannot tell what the target matches, with the consent to fire without a preview.\<close>

theorem run_needs_review:
  assumes "jobs_run first e sl render be now passes cu f s = (out, s', wire)" and "wire \<noteq> []" and "rr = posted_run f"
  shows "rr_fun rr \<in> set ALLOWED_FUNS \<and> publish_perm (rr_fun rr) \<noteq> None \<and> rr_tgt rr \<noteq> [] \<and> rr_tgt_type rr \<in> set TGT_TYPES
    \<and> (needs_review rr \<longrightarrow> form_get f ''confirmed'' = ''yes'' \<and> form_get f ''confirm_tgt'' = rr_tgt rr
         \<and> (form_get f ''no_preview_ok'' = ''on'' \<or> rbac_mode e (c_db (fst s)) = ''scoped''
            \<or> resolve_batch_roster (c_db (fst s)) (rr_tgt rr) (rr_tgt_type rr) \<noteq> None))"
proof -
  let ?perm = "or_empty (publish_perm (rr_fun rr))"
  obtain c0 where c0: "pass_gate (roles_required first e cu [''operator'']) (fst s) = Inr c0"
    "run_body e sl render be now passes cu f (c0, snd s) = (out, s', wire)"
    using assms(1,2) by (auto simp: jobs_run_def split: sum.splits prod.splits)
  obtain c where c: "c_db c = c_db c0" "form_refusal f rr = None" "fun_refusal rr = None"
    "run_passed e sl render be now passes cu f ?perm rr (c, snd s) = (out, s', wire)"
    using run_body_published [OF c0(2) assms(2)] unfolding assms(3) fst_conv snd_conv by metis
  have db: "c_db c = c_db (fst s)" using c(1) pass_roles(1) [OF c0(1)] by simp
  obtain c1 where r: "review e render cu f ?perm rr c = Inr c1"
    using c(4) assms(2) by (auto simp: run_passed_def split: sum.splits)
  have fn: "rr_fun rr \<in> set ALLOWED_FUNS" using c(3) by (auto simp: fun_refusal_def split: if_splits)
  moreover have "publish_perm (rr_fun rr) \<noteq> None" using fn allowed_funs_classified by (simp add: list_all_iff)
  moreover have "rr_tgt rr \<noteq> []" "rr_tgt_type rr \<in> set TGT_TYPES"
    using c(2) by (auto simp: form_refusal_def split: if_splits)
  ultimately show ?thesis using review_passed [OF r] unfolding db is_scoped_def by blast
qed

definition fields_of :: "(string \<times> string) list \<Rightarrow> form" where
  "fields_of kvs = (\<lambda>k. case map_of kvs k of None \<Rightarrow> [] | Some v \<Rightarrow> [v])"

definition apply_form :: form where
  "apply_form = fields_of [(''tgt'', ''web-*''), (''tgt_type'', ''glob''), (''fun'', ''state.apply''), (''args'', ''nginx''),
     (''confirmed'', ''yes''), (''confirm_tgt'', ''web-*'')]"

definition no_waves :: batch_env where
  "no_waves = \<lparr>be_group = [], be_queued = True, be_waves = (\<lambda>_. \<lparr>we_others = id, we_cancelled = False, we_passes = []\<rparr>)\<rparr>"

lemma run_needs_review_witness:
  "snd (snd (jobs_run (\<lambda>_. []) demo_env demo_salt (\<lambda>_ _ _. RenderPending) no_waves 0 [] lead apply_form (start demo_store, demo_verdicts))) \<noteq> []
   \<and> needs_review (posted_run apply_form) \<and> form_get apply_form ''confirm_tgt'' = ''web-*''"
proof -
  let ?R = "jobs_run (\<lambda>_. []) demo_env demo_salt (\<lambda>_ _ _. RenderPending) no_waves 0 [] lead apply_form (start demo_store, demo_verdicts)"
  have "map pb_tgt (snd (snd ?R)) = [PStr ''web-01,web-02'', PStr ''web-01,web-02'']" by code_simp
  then have wire: "snd (snd ?R) \<noteq> []" by auto
  have rr: "needs_review (posted_run apply_form)" "rr_tgt (posted_run apply_form) = ''web-*''" by code_simp+
  have "form_get apply_form ''confirm_tgt'' = rr_tgt (posted_run apply_form)"
    using run_needs_review [OF _ wire refl] rr(1) by (metis prod.collapse)
  then show ?thesis using wire rr by simp
qed

section \<open>Kill\<close>

lemma kill_publish_wire:
  assumes "kill_publish sl now cu jid tgt tt c = (r, c', wire)" and "p \<in> set wire"
  shows "pb_tgt p = PStr tgt" "pb_tgt_type p = tt" "pb_fun p = ''saltutil.kill_job''" "pb_args p = [PStr jid]"
proof -
  let ?pub = "publish_all_async sl (PStr tgt) ''saltutil.kill_job'' [PStr jid] tt (new_jid now) None"
  obtain res w where pub: "?pub = (res, w)" by (cases ?pub)
  then have "wire = w" using assms(1)
    by (cases res) (auto simp: kill_publish_def Let_def split: sum.splits)
  then have "p \<in> set (pod_publications sl (PStr tgt) ''saltutil.kill_job'' [PStr jid] tt (new_jid now) None)"
    using assms(2) pub publish_wire [of sl "PStr tgt" "''saltutil.kill_job''" "[PStr jid]" tt "new_jid now" None] by simp
  from pod_publication_fields [OF this]
  show "pb_tgt p = PStr tgt" "pb_tgt_type p = tt" "pb_fun p = ''saltutil.kill_job''" "pb_args p = [PStr jid]"
    by simp_all
qed

lemma kill_body_published:
  assumes "kill_body e sl now cu jid c = (r, c', wire)" and "wire \<noteq> []"
  obtains j tgt tt c1 where "job_by_jid (c_db c) jid = Some j" "killable j" "kill_target e cu j c = Inr (Inr (tgt, tt))"
    "kill_publish sl now cu jid tgt tt c1 = (r, c', wire)"
proof -
  obtain j where j: "job_by_jid (c_db c) jid = Some j"
    using assms by (cases "job_by_jid (c_db c) jid") (auto simp: kill_body_def)
  have k: "killable j" using assms j by (auto simp: kill_body_def split: if_splits)
  obtain tgt tt where t: "kill_target e cu j c = Inr (Inr (tgt, tt))"
    using assms j k by (auto simp: kill_body_def Let_def split: sum.splits prod.splits)
  show thesis using that [OF j k t] assms(1) j k t by (simp add: kill_body_def Let_def)
qed

text \<open>C29: A kill never reaches past its caller: in scoped mode, without fleet \<open>job.kill\<close>, all that is
  published is \<open>saltutil.kill_job\<close> with the id of a stored job that still runs, to exactly the
  minions its stored target names, and the caller may kill jobs on every one of them.\<close>

theorem kill_reaches_scope:
  assumes "job_kill first e sl now cu jid c = (r, c', wire)" and "p \<in> set wire"
    and "rbac_mode e (c_db c) = ''scoped''" and "\<not> has_fleet e (c_memo c) (c_db c) cu ''job.kill''"
    and "\<forall>m \<in> snapshot_ids (c_db c). plain_id m"
  shows "pb_fun p = ''saltutil.kill_job'' \<and> pb_args p = [PStr jid] \<and> pb_tgt_type p = ''list''
    \<and> (\<exists>j t ids. job_by_jid (c_db c) jid = Some j \<and> \<not> j_complete j
         \<and> published_snapshot_ids (c_db c) (Some (j_tgt j)) (Some (j_tgt_type j)) = Some ids \<and> ids \<noteq> {}
         \<and> pb_tgt p = PStr t \<and> set (csv_ids t) = ids
         \<and> (\<forall>m \<in> ids. authorize e (c_memo c) (c_db c) cu ''job.kill'' (Some m) None))"
proof -
  obtain c1 where c1: "pass_gate (roles_required first e cu [''operator'']) c = Inr c1"
    "kill_body e sl now cu jid c1 = (r, c', wire)"
    using assms(1,2) by (auto simp: job_kill_def operator_gate_def split: sum.splits prod.splits)
  have same: "c_db c1 = c_db c" "c1 = c \<or> c1 = touch cu c" using pass_roles(1) [OF c1(1)] by auto
  have "wire \<noteq> []" using assms(2) by auto
  from kill_body_published [OF c1(2) this] obtain j tgt tt c2 where j:
    "job_by_jid (c_db c) jid = Some j" "killable j" "kill_target e cu j c1 = Inr (Inr (tgt, tt))"
    "kill_publish sl now cu jid tgt tt c2 = (r, c', wire)" unfolding same(1) by metis
  note w = kill_publish_wire [OF j(4) assms(2)]
  have fleet: "\<not> has_fleet e (c_memo c1) (c_db c1) cu ''job.kill''"
    using same(2) assms(4) by (auto simp: decisions_remember)
  have "constrain_kill e (c_memo c1) (c_db c1) cu (j_tgt j) (j_tgt_type j) = Inr (tgt, tt)"
    using j(3) assms(3) same(1) by (auto simp: kill_target_def is_scoped_def split: sum.splits)
  then obtain ids where ids: "published_snapshot_ids (c_db c) (Some (j_tgt j)) (Some (j_tgt_type j)) = Some ids"
    "ids \<noteq> {}" "ids \<subseteq> minions_with e (c_memo c1) (c_db c1) cu ''job.kill''" "tgt = csv_of ids" "tt = ''list''"
    unfolding same(1) constrain_kill_local [OF fleet [unfolded same(1)]] by (auto split: option.splits if_splits)
  have auth: "\<forall>m \<in> ids. authorize e (c_memo c) (c_db c) cu ''job.kill'' (Some m) None"
    using ids(3) ids_authorize [OF same(2)] by blast
  have "ids \<subseteq> snapshot_ids (c_db c)" using ids(3) minions_with_snapshot unfolding same(1) by blast
  then have "finite ids" "\<forall>m \<in> ids. plain_id m" using finite_subset [OF _ finite_snapshot] assms(5) by blast+
  then have "set (csv_ids tgt) = ids" using ids(2) unfolding ids(4) by (simp add: csv_round_trip)
  then show ?thesis using w ids(1,2,5) j(1,2) auth by (auto simp: killable_def)
qed

definition kill_store :: store where
  "kill_store = demo_store\<lparr>jobs := [\<lparr>j_jid = ''20240101'', j_fun = ''test.ping'', j_tgt = ''web-*'', j_tgt_type = ''glob'',
     j_user = ''root'', j_started_at = Some (Aware 0), j_complete = False, j_batch_group = None, j_batch_state = None,
     j_tgt_requested = None\<rparr>]\<rparr>"

lemma kill_reaches_scope_witness:
  "(case job_kill (\<lambda>_. []) demo_env demo_salt 0 lead ''20240101'' (start kill_store) of
      (_, _, [p, _]) \<Rightarrow> pb_fun p = ''saltutil.kill_job'' \<and> pb_args p = [PStr ''20240101''] \<and> pb_tgt p = PStr ''web-01,web-02''
    | _ \<Rightarrow> False)"
proof -
  let ?K = "job_kill (\<lambda>_. []) demo_env demo_salt 0 lead ''20240101'' (start kill_store)"
  have w: "map pb_tgt (snd (snd ?K)) = [PStr ''web-01,web-02'', PStr ''web-01,web-02'']" by code_simp
  then obtain p q r c' where l: "?K = (r, c', [p, q])" "pb_tgt p = PStr ''web-01,web-02''" by (cases ?K) auto
  have m: "rbac_mode demo_env (c_db (start kill_store)) = ''scoped''" by code_simp
  have n: "\<not> has_fleet demo_env (c_memo (start kill_store)) (c_db (start kill_store)) lead ''job.kill''" by code_simp
  have i: "\<forall>m \<in> snapshot_ids (c_db (start kill_store)). plain_id m" by code_simp
  show ?thesis using kill_reaches_scope [OF l(1) _ m n i, of p] l by simp
qed

section \<open>Saved jobs\<close>

lemma delete_body_removed:
  assumes "delete_saved_body e cu sj c = (r, c')" and "saved_jobs (c_db c') \<noteq> saved_jobs (c_db c)"
  obtains c1 where "pass_gate (read_required e cu ''job.save'') c = Inr c1" "\<not> saved_out_of_scope e cu sj c1"
    "\<not> pinned_job (c_db c1) sj" "saved_jobs (c_db c') = filter (\<lambda>s. sj_id s \<noteq> sj_id sj) (saved_jobs (c_db c))"
proof (cases "pass_gate (read_required e cu ''job.save'') c")
  case (Inl rc)
  obtain r0 c0 where rc: "rc = (r0, c0)" by (cases rc)
  have "same_but_audit (c_db c) (c_db c0)"
    using require_gate.refused [OF Inl [unfolded rc read_required_def]] by simp
  then have "saved_jobs (c_db c0) = saved_jobs (c_db c)" by (auto simp: same_but_audit_def)
  then show ?thesis using assms Inl rc by (simp add: delete_saved_body_def)
next
  case (Inr c1)
  have "c_db c1 = c_db c" using passed_read(1) [OF Inr] .
  then show ?thesis using that [OF Inr] assms Inr
    by (auto simp: delete_saved_body_def drop_saved_def flash_def on_db_def out_of_scope_def audit_deny_def log_event_def
        bump_def Let_def split: if_splits)
qed

text \<open>A saved job goes only when nothing still needs it: the deletion removes exactly that row, no API
  token runs it, and in scoped mode, without fleet \<open>job.save\<close>, every minion of its target is one
  the caller may save jobs for.\<close>

theorem deleted_saved_guarded:
  assumes "delete_saved first e cu i c = (r, c')" and "saved_jobs (c_db c') \<noteq> saved_jobs (c_db c)"
  shows "\<exists>sj. saved_job_by_id (c_db c) i = Some sj \<and> \<not> pinned_job (c_db c) sj
    \<and> saved_jobs (c_db c') = filter (\<lambda>s. sj_id s \<noteq> sj_id sj) (saved_jobs (c_db c))
    \<and> (rbac_mode e (c_db c) = ''scoped'' \<and> \<not> has_fleet e (c_memo c) (c_db c) cu ''job.save'' \<longrightarrow>
         (\<exists>mids. published_snapshot_ids (c_db c) (Some (sj_tgt sj)) (Some (sj_tgt_type sj)) = Some mids
            \<and> (\<forall>m \<in> mids. authorize e (c_memo c) (c_db c) cu ''job.save'' (Some m) None)))"
proof -
  let ?gate = "roles_required first e cu [''operator'']"
  show ?thesis
  proof (cases "pass_gate ?gate c")
    case (Inl rc)
    obtain r0 c0 where rc: "rc = (r0, c0)" by (cases rc)
    have "saved_jobs (c_db c0) = saved_jobs (c_db c)"
      using roles_gate.refused [OF Inl [unfolded rc]] by (auto simp: same_but_audit_def)
    then show ?thesis using assms Inl rc by (simp add: delete_saved_def operator_gate_def)
  next
    case (Inr c0)
    have c0: "c_db c0 = c_db c" "c0 = c \<or> c0 = touch cu c" using pass_roles(1) [OF Inr] by auto
    obtain sj where sj: "saved_job_by_id (c_db c) i = Some sj" "delete_saved_body e cu sj c0 = (r, c')"
      using assms Inr c0(1) by (auto simp: delete_saved_def operator_gate_def flash_def split: option.splits)
    obtain c1 where c1: "pass_gate (read_required e cu ''job.save'') c0 = Inr c1" "\<not> saved_out_of_scope e cu sj c1"
      "\<not> pinned_job (c_db c1) sj" "saved_jobs (c_db c') = filter (\<lambda>s. sj_id s \<noteq> sj_id sj) (saved_jobs (c_db c0))"
      using delete_body_removed [OF sj(2)] assms(2) c0(1) by metis
    have same: "c_db c1 = c_db c" "c1 = c \<or> c1 = touch cu c"
      using passed_read [OF c1(1)] c0 by auto
    have fleet: "has_fleet e (c_memo c1) (c_db c1) cu ''job.save'' = has_fleet e (c_memo c) (c_db c) cu ''job.save''"
      using same(2) by (auto simp: decisions_remember)
    have scope: "\<exists>mids. published_snapshot_ids (c_db c) (Some (sj_tgt sj)) (Some (sj_tgt_type sj)) = Some mids
        \<and> (\<forall>m \<in> mids. authorize e (c_memo c) (c_db c) cu ''job.save'' (Some m) None)"
      if n: "rbac_mode e (c_db c) = ''scoped''" "\<not> has_fleet e (c_memo c) (c_db c) cu ''job.save''"
    proof -
      obtain mids where mids: "published_snapshot_ids (c_db c) (Some (sj_tgt sj)) (Some (sj_tgt_type sj)) = Some mids"
        "mids \<subseteq> minions_with e (c_memo c1) (c_db c1) cu ''job.save''"
        using c1(2) n fleet same(1)
        by (auto simp: saved_out_of_scope_def is_scoped_def published_ids_def split: option.splits)
      then show ?thesis using ids_authorize [OF same(2)] by blast
    qed
    have "\<not> pinned_job (c_db c) sj" using c1(3) unfolding same(1) .
    moreover have "saved_jobs (c_db c') = filter (\<lambda>s. sj_id s \<noteq> sj_id sj) (saved_jobs (c_db c))"
      using c1(4) unfolding c0(1) .
    ultimately show ?thesis by (intro exI [of _ sj] conjI impI) (use sj(1) scope in simp_all)
  qed
qed

definition saved_web :: saved_job where
  "saved_web = \<lparr>sj_id = 1, sj_name = ''ping web'', sj_fun = ''test.ping'', sj_tgt = ''web-*'', sj_tgt_type = ''glob'',
     sj_args = [], sj_batch = None\<rparr>"

definition saved_store :: store where
  "saved_store = demo_store\<lparr>saved_jobs := [saved_web]\<rparr>"

lemma deleted_saved_guarded_witness:
  "saved_jobs (c_db (snd (delete_saved (\<lambda>_. []) demo_env lead 1 (start saved_store)))) = []
   \<and> authorize demo_env fresh saved_store lead ''job.save'' (Some ''web-01'') None"
proof -
  let ?D = "delete_saved (\<lambda>_. []) demo_env lead 1 (start saved_store)"
  have gone: "saved_jobs (c_db (snd ?D)) = []" by code_simp
  have there: "saved_jobs (c_db (start saved_store)) = [saved_web]" by code_simp
  have sj: "saved_job_by_id (c_db (start saved_store)) 1 = Some saved_web" by code_simp
  have m: "rbac_mode demo_env (c_db (start saved_store)) = ''scoped''" by code_simp
  have n: "\<not> has_fleet demo_env (c_memo (start saved_store)) (c_db (start saved_store)) lead ''job.save''" by code_simp
  have t: "published_snapshot_ids (c_db (start saved_store)) (Some (sj_tgt saved_web)) (Some (sj_tgt_type saved_web))
    = Some {''web-01'', ''web-02''}" by code_simp
  obtain r c' where l: "?D = (r, c')" by (cases ?D)
  have "\<exists>mids. published_snapshot_ids (c_db (start saved_store)) (Some (sj_tgt saved_web)) (Some (sj_tgt_type saved_web)) = Some mids
      \<and> (\<forall>m \<in> mids. authorize demo_env (c_memo (start saved_store)) (c_db (start saved_store)) lead ''job.save'' (Some m) None)"
    using deleted_saved_guarded [OF l] gone there sj m n by (simp add: l)
  then show ?thesis using gone t by (simp add: start_def)
qed

section \<open>The suggested glob\<close>

lemma starts_with_chars: "starts_with p x \<Longrightarrow> set p \<subseteq> set x"
  by (auto simp: starts_with_iff)

text \<open>C32: The glob the form suggests for a selection of plain ids says what it does: the minions shown
  as covered are exactly those of the roster the glob matches, and every selected id matches.\<close>

theorem suggested_glob_exact:
  assumes "suggest_glob ids roster = (glob, selected, covered)" and "glob \<noteq> []"
    and "\<forall>m \<in> set selected. \<forall>c \<in> set m. \<not> glob_special c"
  shows "set covered = {m \<in> set roster. fnmatchcase m glob} \<and> (\<forall>m \<in> set selected. fnmatchcase m glob)"
proof -
  define picked where "picked = sort (remdups (filter (\<lambda>i. i \<noteq> []) (map py_strip ids)))"
  note S = assms(1) [unfolded suggest_glob_def Let_def, folded picked_def]
  have sel: "selected = picked" using S by (auto split: if_splits)
  have "set (sort (remdups roster)) = set roster" by simp
  then have ne: "sort (remdups roster) = [] \<longleftrightarrow> roster = []" by (metis set_empty)
  show ?thesis
  proof (cases "picked = [] \<or> roster \<noteq> [] \<and> set roster \<subseteq> set picked")
    case True
    then show ?thesis using S assms(2) ne by (auto split: if_splits)
  next
    case False
    show ?thesis
    proof (cases "length picked = 1")
      case True
      then obtain m where m: "picked = [m]" by (cases picked) auto
      then show ?thesis using S False fnmatch_plain [of m] assms(3) sel ne by (auto split: if_splits)
    next
      case len: False
      let ?p = "common_prefix picked"
      have g: "glob = ?p @ ''*''" "covered = filter (starts_with ?p) (sort (remdups roster))"
        using S False len assms(2) ne by (auto split: if_splits)
      have "picked \<noteq> []" using False by simp
      then have "\<forall>c \<in> set ?p. \<not> glob_special c"
        using assms(3) sel common_prefix_starts [of "hd picked" picked] starts_with_chars by (metis hd_in_set subsetD)
      from fnmatch_prefix_star [OF this] show ?thesis
        using g sel common_prefix_starts [of _ picked] by auto
    qed
  qed
qed

lemma suggested_glob_exact_witness:
  "suggest_glob [''web-01'', '' web-02 ''] [''web-01'', ''db-01'', ''web-03''] = (''web-0*'', [''web-01'', ''web-02''], [''web-01'', ''web-03''])
   \<and> fnmatchcase ''web-03'' ''web-0*''"
proof -
  have g: "suggest_glob [''web-01'', '' web-02 ''] [''web-01'', ''db-01'', ''web-03''] = (''web-0*'', [''web-01'', ''web-02''], [''web-01'', ''web-03''])"
    by code_simp
  have "\<forall>m \<in> set [''web-01'', ''web-02'']. \<forall>c \<in> set m. \<not> glob_special c" by code_simp
  from suggested_glob_exact [OF g _ this] show ?thesis using g by auto
qed

end
