(* ===== verification/FileTree.thy ===== *)
theory FileTree
  imports KeyViews "HOL-Library.Sublist"
begin

text \<open>
  A file tree with symbolic links, and what the file browser asks of it: \<open>Path.resolve\<close> of Python's
  standard library (\<open>os.path.realpath\<close>, not strict), \<open>safe_join\<close> of \<open>overstate_ui/files.py\<close>, and the
  validity of UTF-8. A path is the list of its components below the root; file contents are bytes.
\<close>

type_synonym path = "string list"

record file_row =
  fr_data :: string
  fr_mtime :: int

text \<open>\<open>t_files\<close> is in the order a walk meets the files; \<open>t_links\<close> gives the text of a link.\<close>

record tree =
  t_files :: "(path \<times> file_row) list"
  t_links :: "(path \<times> string) list"
  t_dirs :: "path list"

section \<open>Resolving a path\<close>

text \<open>The work list of \<open>realpath\<close>: components still to walk, and links whose target has been walked.\<close>

datatype item = Comp string | Walked path

text \<open>\<open>seen\<close> holds every link met, with its resolved target once that is known. A link that is met
  while its own target is being resolved is a loop and stays as it is.\<close>

function (sequential) realpath_loop ::
  "(path \<times> string) list \<Rightarrow> (path \<times> path option) list \<Rightarrow> path \<Rightarrow> item list \<Rightarrow> path" where
  "realpath_loop ls seen p [] = p"
| "realpath_loop ls seen p (Walked q # work) = realpath_loop ls ((q, Some p) # seen) p work"
| "realpath_loop ls seen p (Comp n # work) =
     (if n = [] \<or> n = ''.'' then realpath_loop ls seen p work
      else if n = ''..'' then realpath_loop ls seen (butlast p) work
      else
        (case map_of ls (p @ [n]) of
           None \<Rightarrow> realpath_loop ls seen (p @ [n]) work
         | Some target \<Rightarrow>
             (case map_of seen (p @ [n]) of
                Some (Some q) \<Rightarrow> realpath_loop ls seen q work
              | Some None \<Rightarrow> realpath_loop ls seen (p @ [n]) work
              | None \<Rightarrow>
                  realpath_loop ls ((p @ [n], None) # seen) (if starts_with ''/'' target then [] else p)
                    (map Comp (py_split CHR ''/'' target) @ Walked (p @ [n]) # work))))"
  by pat_completeness auto

text \<open>Every step either meets a link for the first time or shortens the work.\<close>

lemma new_link_fewer:
  assumes "map_of ls q = Some target" and "map_of seen q = None"
  shows "card {l \<in> fst ` set ls. map_of ((q, x) # seen) l = None} < card {l \<in> fst ` set ls. map_of seen l = None}"
proof (rule psubset_card_mono)
  show "finite {l \<in> fst ` set ls. map_of seen l = None}" by simp
  have "q \<in> {l \<in> fst ` set ls. map_of seen l = None}" using assms by (force dest: map_of_SomeD)
  then show "{l \<in> fst ` set ls. map_of ((q, x) # seen) l = None} \<subset> {l \<in> fst ` set ls. map_of seen l = None}"
    by (auto split: if_splits)
qed

lemma known_link_fewer:
  "card {l \<in> fst ` set ls. map_of ((q, x) # seen) l = None} \<le> card {l \<in> fst ` set ls. map_of seen l = None}"
  by (rule card_mono) auto

termination realpath_loop
proof (relation "measures [\<lambda>(ls, seen, p, work). card {l \<in> fst ` set ls. map_of seen l = None},
                           \<lambda>(ls, seen, p, work). length work]", goal_cases)
  case (2 ls seen p q work)
  then show ?case using known_link_fewer [of ls q "Some p" seen] by (simp add: le_less del: map_of.simps)
next
  case (6 ls seen p n work target)
  then show ?case using new_link_fewer [of ls "p @ [n]" target seen None] by (simp del: map_of.simps)
qed auto

definition resolve :: "tree \<Rightarrow> path \<Rightarrow> path" where
  "resolve t p = realpath_loop (t_links t) [] [] (map Comp p)"

definition is_file :: "tree \<Rightarrow> path \<Rightarrow> bool" where
  "is_file t p = (map_of (t_files t) p \<noteq> None)"

definition is_directory :: "tree \<Rightarrow> path \<Rightarrow> bool" where
  "is_directory t p = (p = [] \<or> p \<in> set (t_dirs t))"

definition bytes_at :: "tree \<Rightarrow> path \<Rightarrow> string option" where
  "bytes_at t p = map_option fr_data (map_of (t_files t) p)"

section \<open>Joining below a base\<close>

text \<open>\<open>base / rel\<close>: an absolute \<open>rel\<close> replaces the base.\<close>

definition path_join :: "path \<Rightarrow> string \<Rightarrow> path" where
  "path_join base rel = (if starts_with ''/'' rel then py_split CHR ''/'' rel else base @ py_split CHR ''/'' rel)"

text \<open>A null character makes \<open>resolve\<close> raise \<open>ValueError\<close>.\<close>

definition safe_join :: "tree \<Rightarrow> path \<Rightarrow> string \<Rightarrow> path option" where
  "safe_join t base rel =
     (if CHR 0x00 \<in> set rel then None
      else (let target = resolve t (path_join base rel) in if prefix base target then Some target else None))"

section \<open>Text\<close>

definition byte_of :: "char \<Rightarrow> nat" where "byte_of c = of_char c"

definition continuation :: "char \<Rightarrow> bool" where
  "continuation c = (128 \<le> byte_of c \<and> byte_of c < 192)"

text \<open>\<open>bytes.decode("utf-8")\<close> succeeds: no overlong form, no surrogate, nothing above U+10FFFF.\<close>

fun utf8_ok :: "string \<Rightarrow> bool" where
  "utf8_ok [] = True"
| "utf8_ok (a # s) =
     (if byte_of a < 128 then utf8_ok s
      else if 194 \<le> byte_of a \<and> byte_of a < 224
      then (case s of b # s1 \<Rightarrow> continuation b \<and> utf8_ok s1 | _ \<Rightarrow> False)
      else if 224 \<le> byte_of a \<and> byte_of a < 240
      then (case s of
              b # c # s2 \<Rightarrow> continuation b \<and> continuation c \<and> (byte_of a = 224 \<longrightarrow> 160 \<le> byte_of b)
                 \<and> (byte_of a = 237 \<longrightarrow> byte_of b < 160) \<and> utf8_ok s2
            | _ \<Rightarrow> False)
      else if 240 \<le> byte_of a \<and> byte_of a < 245
      then (case s of
              b # c # d # s3 \<Rightarrow> continuation b \<and> continuation c \<and> continuation d \<and> (byte_of a = 240 \<longrightarrow> 144 \<le> byte_of b)
                 \<and> (byte_of a = 244 \<longrightarrow> byte_of b < 144) \<and> utf8_ok s3
            | _ \<Rightarrow> False)
      else False)"

definition MAX_BYTES_FILE :: int where "MAX_BYTES_FILE = 262144"

definition editable_bytes :: "string \<Rightarrow> bool" where
  "editable_bytes data = (utf8_ok data \<and> int (length data) \<le> MAX_BYTES_FILE)"

text \<open>\<open>read_text\<close>: the bytes, where they are text and not too many.\<close>

definition read_text :: "tree \<Rightarrow> path \<Rightarrow> string option" where
  "read_text t p = (case bytes_at t p of None \<Rightarrow> None | Some data \<Rightarrow> if editable_bytes data then Some data else None)"

section \<open>Facts\<close>

lemma safe_join_inside: "safe_join t base rel = Some target \<Longrightarrow> prefix base target"
  by (auto simp: safe_join_def Let_def split: if_splits)

text \<open>A component that walking takes as it is.\<close>

definition plain_comp :: "string \<Rightarrow> bool" where
  "plain_comp n = (n \<noteq> [] \<and> n \<noteq> ''.'' \<and> n \<noteq> ''..'' \<and> CHR ''/'' \<notin> set n \<and> CHR 0x00 \<notin> set n)"

text \<open>Where no link lies on the way, walking plain components appends them.\<close>

lemma realpath_plain:
  assumes "list_all plain_comp comps" and "\<forall>k \<le> length comps. map_of ls (p @ take k comps) = None"
  shows "realpath_loop ls seen p (map Comp comps @ work) = realpath_loop ls seen (p @ comps) work"
  using assms
proof (induction comps arbitrary: p)
  case (Cons n comps)
  have "map_of ls (p @ [n]) = None" using Cons.prems(2) [rule_format, of 1] by simp
  moreover have "\<forall>k \<le> length comps. map_of ls ((p @ [n]) @ take k comps) = None"
  proof (intro allI impI)
    fix k assume "k \<le> length comps"
    then have "map_of ls (p @ take (Suc k) (n # comps)) = None" using Cons.prems(2) [rule_format, of "Suc k"] by simp
    then show "map_of ls ((p @ [n]) @ take k comps) = None" by simp
  qed
  ultimately show ?case using Cons.IH [of "p @ [n]"] Cons.prems(1) by (simp add: plain_comp_def)
qed simp

lemma realpath_up: "realpath_loop ls seen (p @ [n]) (Comp ''..'' # work) = realpath_loop ls seen p work"
  by simp

end
