(* ===== verification/GitSync.thy ===== *)
theory GitSync
  imports FileTree JobForms
begin

text \<open>
  The text side of \<open>overstate_ui/git_sync.py\<close>: the words of a refusal, the lines of
  \<open>git status --porcelain\<close>, the allow lists of remote URLs, branches, tokens and formula names, and the
  section of formulas in the exclude file.
\<close>

definition CREDENTIALS_NAME :: string where "CREDENTIALS_NAME = ''.git-credentials''"

text \<open>What a finished git command leaves.\<close>

record proc =
  pr_code :: int
  pr_out :: string
  pr_err :: string

definition proc_ok :: "proc option \<Rightarrow> bool" where
  "proc_ok r = (case r of None \<Rightarrow> False | Some p \<Rightarrow> pr_code p = 0)"

definition stdout_of :: "proc option \<Rightarrow> string" where
  "stdout_of r = (case r of None \<Rightarrow> [] | Some p \<Rightarrow> pr_out p)"

text \<open>The output of a good command, as it is and where it must not be empty.\<close>

definition answer :: "proc option \<Rightarrow> string option" where
  "answer r = (if proc_ok r then Some (py_strip (stdout_of r)) else None)"

definition word :: "proc option \<Rightarrow> string option" where
  "word r = (case answer r of None \<Rightarrow> None | Some s \<Rightarrow> if s = [] then None else Some s)"

section \<open>Words of refusal\<close>

definition raw_failure :: "proc option \<Rightarrow> string" where
  "raw_failure r = (case r of None \<Rightarrow> [] | Some p \<Rightarrow> py_lower (py_strip (if pr_err p = [] then pr_out p else pr_err p)))"

definition mentions :: "string list \<Rightarrow> string \<Rightarrow> bool" where
  "mentions subs s = list_ex (\<lambda>x. py_contains x s) subs"

definition git_failure :: "proc option \<Rightarrow> string \<Rightarrow> string" where
  "git_failure r fallback =
     (let s = raw_failure r
      in if mentions [''not a git repository''] s then ''not a git checkout''
         else if mentions [''diverged'', ''need to merge'', ''not possible to fast-forward'', ''cannot fast-forward''] s
           then ''branches have diverged''
         else if mentions [''local changes'', ''would be overwritten'', ''dirty'', ''your branch is ahead''] s
           then ''dirty tree or unpushed work''
         else if mentions [''no upstream'', ''no tracking information''] s then ''no upstream configured''
         else if mentions [''already exists and is not an empty directory''] s
           then ''directory not empty; re-clone to replace it''
         else if mentions [''remote branch''] s \<and> mentions [''not found''] s then ''branch not found on the remote''
         else if mentions [''authentication failed'', ''could not read username'', ''invalid username''] s
           then ''credentials missing or rejected''
         else if mentions [''could not resolve host'', ''could not resolve hostname''] s then ''remote host unreachable''
         else fallback)"

definition push_failure :: "proc option \<Rightarrow> string" where
  "push_failure r =
     (let s = raw_failure r
      in if mentions [''not a git repository''] s then ''not a git checkout''
         else if mentions [''no upstream'', ''no tracking information''] s then ''no upstream configured''
         else if mentions [''permission denied'', ''authentication failed'', ''could not read username'', ''invalid username''] s
           then ''push credentials missing or rejected''
         else if mentions [''fetch first'', ''non-fast-forward''] s
           then ''branches have diverged; merge or rebase outside the app first''
         else ''git push refused'')"

text \<open>Free text on one line: runs of whitespace and angle brackets become one space.\<close>

fun squeeze :: "bool \<Rightarrow> string \<Rightarrow> string" where
  "squeeze inside [] = []"
| "squeeze inside (c # cs) =
     (if is_space c \<or> c = CHR ''<'' \<or> c = CHR ''>''
      then (if inside then squeeze True cs else CHR '' '' # squeeze True cs)
      else c # squeeze False cs)"

definition oneline :: "string \<Rightarrow> nat \<Rightarrow> string" where
  "oneline value limit = take limit (py_strip (squeeze False value))"

section \<open>Porcelain\<close>

definition path_parts :: "string \<Rightarrow> string list" where
  "path_parts s = filter (\<lambda>c. c \<noteq> [] \<and> c \<noteq> ''.'') (py_split CHR ''/'' s)"

definition path_name :: "string \<Rightarrow> string" where
  "path_name s = (case rev (path_parts s) of [] \<Rightarrow> [] | n # _ \<Rightarrow> n)"

definition shown_line :: "string \<Rightarrow> bool" where
  "shown_line line =
     (let stripped = py_strip line; p = (if 3 < length line then lstrip_by (\<lambda>c. c = CHR 0x22) (drop 3 line) else line)
      in stripped \<noteq> [] \<and> path_name p \<noteq> CREDENTIALS_NAME \<and> \<not> (starts_with ''../'' p \<and> starts_with ''??'' stripped))"

definition visible_lines :: "string list \<Rightarrow> string list" where
  "visible_lines ls = filter shown_line ls"

definition lines_of :: "string \<Rightarrow> string list" where "lines_of s = split_lines [] s"

text \<open>Changed tracked paths, and untracked ones.\<close>

definition porcelain_lists :: "proc option \<Rightarrow> (string list \<times> string list) option" where
  "porcelain_lists r =
     (if \<not> proc_ok r then None
      else (let ls = visible_lines (lines_of (stdout_of r))
            in Some (map (\<lambda>l. if 3 < length l then drop 3 l else l) (filter (\<lambda>l. \<not> starts_with ''?? '' l) ls),
                     map (drop 3) (filter (starts_with ''?? '') ls))))"

text \<open>\<open>ahead, behind = out.split()\<close> with both as integers, and with the first only.\<close>

definition two_counts :: "string \<Rightarrow> (int \<times> int) option" where
  "two_counts s =
     (case py_split_ws (py_strip s) of
        [a, b] \<Rightarrow> (case (py_int a, py_int b) of (Some x, Some y) \<Rightarrow> Some (x, y) | _ \<Rightarrow> None)
      | _ \<Rightarrow> None)"

definition first_count :: "string \<Rightarrow> int option" where
  "first_count s = (case py_split_ws (py_strip s) of [a, _] \<Rightarrow> py_int a | _ \<Rightarrow> None)"

section \<open>Allow lists\<close>

definition host_char :: "char \<Rightarrow> bool" where "host_char c = (ascii_alnum c \<or> c \<in> set ''.-'')"
definition user_char :: "char \<Rightarrow> bool" where "user_char c = (ascii_alnum c \<or> c \<in> set ''._-'')"
definition url_char :: "char \<Rightarrow> bool" where "url_char c = (ascii_alnum c \<or> c \<in> set ''._/~$-'')"

definition all_of :: "(char \<Rightarrow> bool) \<Rightarrow> string \<Rightarrow> bool" where
  "all_of P s = (s \<noteq> [] \<and> list_all P s)"

text \<open>A host, an optional port and a slash; the rest must satisfy \<open>tail\<close>.\<close>

definition host_port :: "(string \<Rightarrow> bool) \<Rightarrow> string \<Rightarrow> bool" where
  "host_port tail_ok s =
     (takeWhile host_char s \<noteq> []
      \<and> (case dropWhile host_char s of
           [] \<Rightarrow> False
         | c # r \<Rightarrow>
             if c = CHR ''/'' then tail_ok r
             else if c = CHR '':''
             then takeWhile ascii_digit r \<noteq> []
               \<and> (case dropWhile ascii_digit r of [] \<Rightarrow> False | d # q \<Rightarrow> d = CHR ''/'' \<and> tail_ok q)
             else False))"

text \<open>An optional user before the first \<open>@\<close>.\<close>

definition with_user :: "(string \<Rightarrow> bool) \<Rightarrow> string \<Rightarrow> bool" where
  "with_user rest_ok s =
     (case py_partition CHR ''@'' s of (a, found, b) \<Rightarrow> if found then all_of user_char a \<and> rest_ok b else rest_ok a)"

definition scp_like :: "string \<Rightarrow> bool" where
  "scp_like s = (case py_partition CHR '':'' s of (h, found, p) \<Rightarrow> found \<and> all_of host_char h \<and> all_of url_char p)"

definition ssh_re :: "string \<Rightarrow> bool" where
  "ssh_re url =
     (with_user scp_like url
      \<or> (case drop_prefix ''ssh://'' url of None \<Rightarrow> False | Some r \<Rightarrow> with_user (host_port (all_of url_char)) r))"

definition https_re :: "string \<Rightarrow> bool" where
  "https_re url =
     (case drop_prefix ''https://'' url of None \<Rightarrow> False | Some r \<Rightarrow> host_port (all_of (\<lambda>c. \<not> is_space c)) r)"

text \<open>Accepted URLs with their host, which only https ones have.\<close>

definition validate_repo_url :: "string \<Rightarrow> string + string option" where
  "validate_repo_url raw =
     (let url = py_strip raw
      in if url = [] \<or> list_ex (\<lambda>c. is_space c \<or> byte_of c < 32) url then Inl ''enter a remote URL''
         else if py_contains ''://'' url \<and> \<not> (starts_with ''https://'' url \<or> starts_with ''ssh://'' url)
           then Inl ''only https:// and SSH remote URLs''
         else
           (case drop_prefix ''https://'' url of
              Some r \<Rightarrow>
                (let netloc = (if CHR ''/'' \<in> set r then takeWhile (\<lambda>c. c \<noteq> CHR ''/'') r else [])
                 in if CHR ''@'' \<in> set netloc then Inl ''credentials belong in the token field, not the URL''
                    else if https_re url \<and> netloc \<noteq> [] then Inr (Some netloc)
                    else Inl ''that https URL cannot be used'')
            | None \<Rightarrow> if ssh_re url then Inr None else Inl ''only https:// and SSH remote URLs''))"

definition branch_re :: "string \<Rightarrow> bool" where
  "branch_re s = (all_of (\<lambda>c. ascii_alnum c \<or> c \<in> set ''._/-'') s \<and> \<not> starts_with ''-'' s \<and> \<not> py_contains ''..'' s)"

definition validate_branch :: "string \<Rightarrow> string + string option" where
  "validate_branch raw =
     (let s = py_strip raw
      in if s = [] then Inr None
         else if \<not> branch_re s \<or> starts_with ''/'' s then Inl ''that branch name cannot be used''
         else Inr (Some s))"

text \<open>\<open>^[...]{8,256}$\<close> also accepts one newline at the end.\<close>

definition validate_token :: "string \<Rightarrow> bool" where
  "validate_token s =
     (let t = (if s \<noteq> [] \<and> last s = CHR 0x0A then butlast s else s)
      in 8 \<le> length t \<and> length t \<le> 256 \<and> list_all (\<lambda>c. ascii_alnum c \<or> c \<in> set ''._~+-'') t)"

definition validate_formula_name :: "string \<Rightarrow> string + string" where
  "validate_formula_name raw =
     (let slug = py_lower (py_strip raw);
          low = (\<lambda>c. 97 \<le> byte_of c \<and> byte_of c \<le> 122 \<or> ascii_digit c)
      in if \<not> (slug \<noteq> [] \<and> low (hd slug) \<and> list_all (\<lambda>c. low c \<or> c \<in> set ''_-'') slug \<and> length slug \<le> 128)
         then Inl ''use a short name: a-z, 0-9, - and _''
         else if slug \<in> set [''top'', ''pillar'', ''reactor'', ''_modules''] then Inl ''that name is reserved''
         else Inr slug)"

section \<open>The excludes of formulas\<close>

definition EXCLUDE_MARKER :: string where "EXCLUDE_MARKER = ''# overstate formulas''"

definition formula_pattern :: "string \<Rightarrow> string" where "formula_pattern n = ''salt/'' @ n @ ''/''"

definition is_marker :: "string \<Rightarrow> bool" where "is_marker l = (py_strip l = EXCLUDE_MARKER)"

definition comment_line :: "string \<Rightarrow> bool" where "comment_line l = starts_with ''#'' l"

text \<open>\<open>today\<close> is the date as the code prints it; the lines come back unchanged when the pattern is there.\<close>

definition add_exclude :: "string \<Rightarrow> string \<Rightarrow> string list \<Rightarrow> string list" where
  "add_exclude today n ls =
     (let pat = formula_pattern n
      in if list_ex (\<lambda>l. py_contains pat l \<and> py_strip l \<noteq> [] \<and> \<not> comment_line l) ls then ls
         else
           (case dropWhile (\<lambda>l. \<not> is_marker l) ls of
              [] \<Rightarrow> ls @ [[], EXCLUDE_MARKER, ''# Added by Overstate on '' @ today, pat]
            | m # after \<Rightarrow>
                takeWhile (\<lambda>l. \<not> is_marker l) ls @ m # takeWhile (\<lambda>l. \<not> comment_line l) after
                @ pat # dropWhile (\<lambda>l. \<not> comment_line l) after))"

text \<open>The pattern's lines go, with the blank line after one that had a blank line before it.\<close>

fun drop_pattern :: "string \<Rightarrow> string option \<Rightarrow> bool \<Rightarrow> string list \<Rightarrow> string list" where
  "drop_pattern pat previous skip [] = []"
| "drop_pattern pat previous skip (l # ls) =
     (if py_strip l = pat
      then drop_pattern pat (Some l) (case previous of None \<Rightarrow> False | Some p \<Rightarrow> py_strip p = []) ls
      else if skip \<and> py_strip l = [] then drop_pattern pat (Some l) False ls
      else l # drop_pattern pat (Some l) False ls)"

definition blank_line :: "string \<Rightarrow> bool" where "blank_line l = (py_strip l = [])"

definition remove_exclude :: "string \<Rightarrow> string list \<Rightarrow> string list" where
  "remove_exclude n ls =
     (let kept = drop_pattern (formula_pattern n) None False ls
      in case dropWhile (\<lambda>l. \<not> is_marker l) kept of
           [] \<Rightarrow> kept
         | m # after \<Rightarrow>
             if list_all (\<lambda>l. blank_line l \<or> comment_line l) after
             then rev (dropWhile blank_line (rev (takeWhile (\<lambda>l. \<not> is_marker l) kept)))
             else kept)"

text \<open>
  The git commands of \<open>overstate_ui/git_sync.py\<close>: status, sync, fetch, commit, push, the reset and the
  repointed origin. The \<open>git\<close> binary is an argument: any function of its argument list, of the
  directory and of everything that happened before, which may change the tree. Every call is kept in
  a trace. \<open>free\<close> says whether the lock of \<open>_single_flight\<close> could be taken; the permission bits that
  \<open>_ensure_world_readable\<close> widens are not part of the tree.
\<close>

record gworld =
  gw_tree :: tree
  gw_calls :: "(string list \<times> path) list"

type_synonym git = "string list \<Rightarrow> path \<Rightarrow> gworld \<Rightarrow> proc option \<times> tree"

definition run_git :: "git \<Rightarrow> path \<Rightarrow> string list \<Rightarrow> gworld \<Rightarrow> proc option \<times> gworld" where
  "run_git g cwd argv w =
     (case g argv cwd w of (r, t) \<Rightarrow> (r, \<lparr>gw_tree = t, gw_calls = gw_calls w @ [(argv, cwd)]\<rparr>))"

definition SYNC_RUNNING :: string where "SYNC_RUNNING = ''a sync is already running''"
definition NOT_CHECKOUT :: string where "NOT_CHECKOUT = ''not a git checkout''"

definition UPSTREAM_ARGV :: "string list" where
  "UPSTREAM_ARGV = [''rev-parse'', ''--abbrev-ref'', ''--symbolic-full-name'', ''@'' @ ''{u}'']"
definition COUNTS_ARGV :: "string list" where
  "COUNTS_ARGV = [''rev-list'', ''--left-right'', ''--count'', ''HEAD...@'' @ ''{u}'']"
definition SHORT_HEAD :: "string list" where "SHORT_HEAD = [''rev-parse'', ''--short'', ''HEAD'']"
definition FETCH_ARGV :: "string list" where "FETCH_ARGV = [''fetch'', ''--prune'']"
definition BRANCH_ARGV :: "string list" where "BRANCH_ARGV = [''symbolic-ref'', ''--quiet'', ''--short'', ''HEAD'']"

section \<open>Probes\<close>

definition is_checkout :: "git \<Rightarrow> path \<Rightarrow> gworld \<Rightarrow> bool \<times> gworld" where
  "is_checkout g home w = (case run_git g home [''rev-parse'', ''--git-dir''] w of (r, w') \<Rightarrow> (proc_ok r, w'))"

definition git_head :: "git \<Rightarrow> path \<Rightarrow> gworld \<Rightarrow> string option \<times> gworld" where
  "git_head g home w = (case run_git g home [''rev-parse'', ''HEAD''] w of (r, w') \<Rightarrow> (word r, w'))"

definition git_origin :: "git \<Rightarrow> path \<Rightarrow> gworld \<Rightarrow> string option \<times> gworld" where
  "git_origin g home w =
     (case is_checkout g home w of
        (False, w1) \<Rightarrow> (None, w1)
      | (True, w1) \<Rightarrow> (case run_git g home [''remote'', ''get-url'', ''origin''] w1 of (r, w2) \<Rightarrow> (word r, w2)))"

text \<open>The top of the checkout, with its links resolved.\<close>

definition toplevel :: "git \<Rightarrow> path \<Rightarrow> gworld \<Rightarrow> path option \<times> gworld" where
  "toplevel g home w =
     (case run_git g home [''rev-parse'', ''--show-toplevel''] w of
        (r, w') \<Rightarrow>
          (case word r of
             None \<Rightarrow> (None, w')
           | Some s \<Rightarrow> (if CHR 0x00 \<in> set s then None else Some (resolve (gw_tree w') (py_split CHR ''/'' s)), w')))"

definition browse_root :: "git \<Rightarrow> path \<Rightarrow> gworld \<Rightarrow> path \<times> gworld" where
  "browse_root g home w = (case toplevel g home w of (t, w') \<Rightarrow> (case t of None \<Rightarrow> home | Some p \<Rightarrow> p, w'))"

text \<open>Whether the pulled range touches a path with the component \<open>marker\<close>.\<close>

definition paths_changed :: "git \<Rightarrow> path \<Rightarrow> string option \<Rightarrow> string option \<Rightarrow> string \<Rightarrow> gworld \<Rightarrow> bool \<times> gworld" where
  "paths_changed g home old new marker w =
     (if old \<in> {None, Some []} \<or> new \<in> {None, Some []} \<or> old = new \<or> marker = [] then (False, w)
      else
        (case run_git g home [''diff'', ''--name-only'', or_empty old, or_empty new] w of
           (r, w') \<Rightarrow>
             (proc_ok r \<and> list_ex (\<lambda>l. py_strip l \<noteq> [] \<and> marker \<in> set (path_parts (py_strip l))) (lines_of (stdout_of r)),
              w')))"

section \<open>Status\<close>

record git_status =
  gs_branch :: string
  gs_sha :: string
  gs_dirty :: nat
  gs_upstream :: "string option"
  gs_counts :: "(int \<times> int) option"
  gs_log :: "string list"

definition status_counts :: "git \<Rightarrow> path \<Rightarrow> gworld \<Rightarrow> (string option \<times> (int \<times> int) option) \<times> gworld" where
  "status_counts g home w =
     (case run_git g home UPSTREAM_ARGV w of
        (u, w1) \<Rightarrow>
          (case word u of
             None \<Rightarrow> ((None, None), w1)
           | Some up \<Rightarrow>
               (case run_git g home COUNTS_ARGV w1 of
                  (c, w2) \<Rightarrow> ((Some up, if proc_ok c then two_counts (stdout_of c) else None), w2))))"

text \<open>An unborn or unreadable HEAD, or a status that did not run, gives a reason.\<close>

definition git_status_now :: "git \<Rightarrow> path \<Rightarrow> gworld \<Rightarrow> (string + git_status) \<times> gworld" where
  "git_status_now g home w =
     (case is_checkout g home w of
        (False, w1) \<Rightarrow> (Inl NOT_CHECKOUT, w1)
      | (True, w1) \<Rightarrow>
          (case run_git g home BRANCH_ARGV w1 of
             (b, w2) \<Rightarrow>
               (case run_git g home SHORT_HEAD w2 of
                  (s, w3) \<Rightarrow>
                    (case answer s of
                       None \<Rightarrow> (Inl ''cannot read HEAD'', w3)
                     | Some sha \<Rightarrow>
                         (case run_git g home [''status'', ''--porcelain''] w3 of
                            (None, w4) \<Rightarrow> (Inl ''git status failed'', w4)
                          | (Some p, w4) \<Rightarrow>
                              (case status_counts g home w4 of
                                 ((up, counts), w5) \<Rightarrow>
                                   (case run_git g home [''log'', ''--oneline'', ''-10''] w5 of
                                      (l, w6) \<Rightarrow>
                                        (Inr \<lparr>gs_branch = (case word b of None \<Rightarrow> ''detached'' | Some x \<Rightarrow> x), gs_sha = sha,
                                              gs_dirty = length (visible_lines (lines_of (pr_out p))),
                                              gs_upstream = up, gs_counts = counts,
                                              gs_log = (if proc_ok l then lines_of (stdout_of l) else [])\<rparr>, w6)))))))
     )"

section \<open>Sync, fetch, commit, push\<close>

text \<open>A pull has moved HEAD exactly when the two revisions differ; either may be unknown.\<close>

datatype pull_result = PullRefused string | Pulled "string option" "string option"

definition git_sync_now :: "bool \<Rightarrow> git \<Rightarrow> path \<Rightarrow> gworld \<Rightarrow> pull_result \<times> gworld" where
  "git_sync_now free g home w =
     (if \<not> free then (PullRefused SYNC_RUNNING, w)
      else
        (case is_checkout g home w of
           (False, w1) \<Rightarrow> (PullRefused NOT_CHECKOUT, w1)
         | (True, w1) \<Rightarrow>
             (case run_git g home FETCH_ARGV w1 of
                (f, w2) \<Rightarrow>
                  if \<not> proc_ok f then (PullRefused (git_failure f ''git fetch failed''), w2)
                  else
                    (case run_git g home SHORT_HEAD w2 of
                       (old, w3) \<Rightarrow>
                         (case run_git g home [''pull'', ''--ff-only''] w3 of
                            (p, w4) \<Rightarrow>
                              if \<not> proc_ok p then (PullRefused (git_failure p ''git pull refused''), w4)
                              else
                                (case run_git g home SHORT_HEAD w4 of
                                   (new, w5) \<Rightarrow>
                                     (Pulled (answer old) (answer new),
                                      if answer old \<noteq> answer new then snd (toplevel g home w5) else w5)))))))"

definition git_fetch_now :: "bool \<Rightarrow> git \<Rightarrow> path \<Rightarrow> gworld \<Rightarrow> string option \<times> gworld" where
  "git_fetch_now free g home w =
     (if \<not> free then (Some SYNC_RUNNING, w)
      else
        (case is_checkout g home w of
           (False, w1) \<Rightarrow> (Some NOT_CHECKOUT, w1)
         | (True, w1) \<Rightarrow>
             (case run_git g home FETCH_ARGV w1 of
                (f, w2) \<Rightarrow> (if proc_ok f then None else Some (git_failure f ''git fetch failed''), w2))))"

text \<open>The commit of exactly one file; the operator is its author.\<close>

definition commit_argv :: "string \<Rightarrow> string \<Rightarrow> string \<Rightarrow> string list" where
  "commit_argv rel subject author =
     (let who = (let o1 = oneline author 64 in if o1 = [] then ''overstate'' else o1)
      in [''-c'', ''user.name=overstate'', ''-c'', ''user.email=overstate@localhost'', ''commit'', ''--author'',
          who @ '' <overstate@localhost>'', ''-m'', oneline subject 160, ''--'', rel])"

definition git_commit_file :: "bool \<Rightarrow> git \<Rightarrow> path \<Rightarrow> path \<Rightarrow> string \<Rightarrow> string \<Rightarrow> string \<Rightarrow> gworld
    \<Rightarrow> (string + string option) \<times> gworld" where
  "git_commit_file free g home base rel subject author w =
     (if \<not> free then (Inl SYNC_RUNNING, w)
      else
        (case is_checkout g home w of
           (False, w1) \<Rightarrow> (Inl NOT_CHECKOUT, w1)
         | (True, w1) \<Rightarrow>
             (case run_git g base [''add'', ''--'', rel] w1 of
                (a, w2) \<Rightarrow>
                  if \<not> proc_ok a then (Inl (git_failure a ''git add failed''), w2)
                  else
                    (case run_git g base (commit_argv rel subject author) w2 of
                       (c, w3) \<Rightarrow>
                         if \<not> proc_ok c then (Inl (git_failure c ''git commit failed''), w3)
                         else (case run_git g base SHORT_HEAD w3 of (new, w4) \<Rightarrow> (Inr (answer new), w4))))))"

datatype push_result = PushRefused string | Pushed "string option" bool

definition PUSH_ARGV :: "string list" where "PUSH_ARGV = [''push'']"
definition DIRTY_ARGV :: "string list" where "DIRTY_ARGV = [''diff'', ''--quiet'']"

definition push_sent :: "proc option \<Rightarrow> bool" where
  "push_sent r =
     (let s = py_lower ((case r of None \<Rightarrow> [] | Some p \<Rightarrow> pr_err p) @ stdout_of r)
      in \<not> py_contains ''up-to-date'' s \<and> \<not> py_contains ''up to date'' s)"

definition git_push_now :: "bool \<Rightarrow> git \<Rightarrow> path \<Rightarrow> gworld \<Rightarrow> push_result \<times> gworld" where
  "git_push_now free g home w =
     (if \<not> free then (PushRefused SYNC_RUNNING, w)
      else
        (case is_checkout g home w of
           (False, w1) \<Rightarrow> (PushRefused NOT_CHECKOUT, w1)
         | (True, w1) \<Rightarrow>
             (case run_git g home DIRTY_ARGV w1 of
                (None, w2) \<Rightarrow> (PushRefused ''git status failed'', w2)
              | (Some d, w2) \<Rightarrow>
                  if pr_code d \<noteq> 0 then (PushRefused ''dirty tree; commit or revert local changes first'', w2)
                  else
                    (case run_git g home UPSTREAM_ARGV w2 of
                       (u, w3) \<Rightarrow>
                         if word u = None then (PushRefused ''no upstream configured'', w3)
                         else
                           (case run_git g home PUSH_ARGV w3 of
                              (p, w4) \<Rightarrow>
                                if \<not> proc_ok p then (PushRefused (push_failure p), w4)
                                else (case run_git g home SHORT_HEAD w4 of
                                        (new, w5) \<Rightarrow> (Pushed (answer new) (push_sent p), w5)))))))"

section \<open>Reset and origin\<close>

text \<open>Unpushed commits after a fresh fetch, \<open>None\<close> where that cannot be known.\<close>

definition ahead_count :: "git \<Rightarrow> path \<Rightarrow> gworld \<Rightarrow> int option \<times> gworld" where
  "ahead_count g home w =
     (case run_git g home FETCH_ARGV w of
        (f, w1) \<Rightarrow>
          if \<not> proc_ok f then (None, w1)
          else
            (case run_git g home UPSTREAM_ARGV w1 of
               (u, w2) \<Rightarrow>
                 if word u = None then (None, w2)
                 else
                   (case run_git g home COUNTS_ARGV w2 of
                      (c, w3) \<Rightarrow> (if proc_ok c then first_count (stdout_of c) else None, w3))))"

definition RESET_ARGV :: "string list" where "RESET_ARGV = [''reset'', ''--hard'', ''@'' @ ''{u}'']"

definition UNPUSHED :: string where "UNPUSHED = ''unpushed commits would be destroyed; push first''"

definition DETACHED :: string where "DETACHED = ''detached HEAD; checkout a branch first''"

definition reset_finish :: "git \<Rightarrow> path \<Rightarrow> gworld \<Rightarrow> (string + string option) \<times> gworld" where
  "reset_finish g home w =
     (case run_git g home SHORT_HEAD (snd (toplevel g home w)) of (new, w') \<Rightarrow> (Inr (answer new), w'))"

definition reset_hard :: "bool \<Rightarrow> git \<Rightarrow> path \<Rightarrow> bool \<Rightarrow> bool \<Rightarrow> gworld \<Rightarrow> (string + string option) \<times> gworld" where
  "reset_hard free g home clean force w =
     (if \<not> free then (Inl SYNC_RUNNING, w)
      else
        (case is_checkout g home w of
           (False, w1) \<Rightarrow> (Inl NOT_CHECKOUT, w1)
         | (True, w1) \<Rightarrow>
             (case run_git g home BRANCH_ARGV w1 of
                (b, w2) \<Rightarrow>
                  if word b = None then (Inl DETACHED, w2)
                  else
                    (case ahead_count g home w2 of
                       (None, w3) \<Rightarrow> (Inl ''cannot reach the remote'', w3)
                     | (Some n, w3) \<Rightarrow>
                         if 0 < n \<and> \<not> force then (Inl UNPUSHED, w3)
                         else
                           (case run_git g home RESET_ARGV w3 of
                              (r, w4) \<Rightarrow>
                                if \<not> proc_ok r then (Inl (git_failure r ''git reset refused''), w4)
                                else if \<not> clean then reset_finish g home w4
                                else
                                  (case run_git g home [''clean'', ''-fd''] w4 of
                                     (c, w5) \<Rightarrow>
                                       if \<not> proc_ok c then (Inl (git_failure c ''git clean refused''), w5)
                                       else reset_finish g home w5))))))"

record reset_preview =
  rp_branch :: string
  rp_upstream :: "string option"
  rp_counts :: "(int \<times> int) option"
  rp_dirty :: "string list"
  rp_untracked :: "string list"

definition reset_preview_now :: "git \<Rightarrow> path \<Rightarrow> gworld \<Rightarrow> (string + reset_preview) \<times> gworld" where
  "reset_preview_now g home w =
     (case is_checkout g home w of
        (False, w1) \<Rightarrow> (Inl NOT_CHECKOUT, w1)
      | (True, w1) \<Rightarrow>
          (case run_git g home BRANCH_ARGV w1 of
             (b, w2) \<Rightarrow>
               (case word b of
                  None \<Rightarrow> (Inl DETACHED, w2)
                | Some branch \<Rightarrow>
                    (case run_git g home FETCH_ARGV w2 of
                       (f, w3) \<Rightarrow>
                         if \<not> proc_ok f then (Inl (git_failure f ''git fetch failed''), w3)
                         else
                           (case run_git g home [''status'', ''--porcelain''] w3 of
                              (s, w4) \<Rightarrow>
                                (case porcelain_lists s of
                                   None \<Rightarrow> (Inl ''git status failed'', w4)
                                 | Some (dirty, untracked) \<Rightarrow>
                                     (case run_git g home UPSTREAM_ARGV w4 of
                                        (u, w5) \<Rightarrow>
                                          (case (if word u = None then (None, w5) else run_git g home COUNTS_ARGV w5) of
                                             (c, w6) \<Rightarrow>
                                               (Inr \<lparr>rp_branch = branch, rp_upstream = answer u,
                                                     rp_counts = (if proc_ok c then two_counts (stdout_of c) else None),
                                                     rp_dirty = dirty, rp_untracked = untracked\<rparr>, w6))))))))
     )"

definition set_remote_body :: "git \<Rightarrow> path \<Rightarrow> string \<Rightarrow> gworld \<Rightarrow> string option \<times> gworld" where
  "set_remote_body g home url w =
     (case is_checkout g home w of
        (False, w1) \<Rightarrow> (Some NOT_CHECKOUT, w1)
      | (True, w1) \<Rightarrow>
          (case run_git g home [''status'', ''--porcelain''] w1 of
             (s, w2) \<Rightarrow>
               (case porcelain_lists s of
                  None \<Rightarrow> (Some ''git status failed'', w2)
                | Some (dirty, _) \<Rightarrow>
                    if dirty \<noteq> [] then (Some ''dirty tree; commit or reset first'', w2)
                    else
                      (case ahead_count g home w2 of
                         (None, w3) \<Rightarrow> (Some ''cannot reach the remote'', w3)
                       | (Some n, w3) \<Rightarrow>
                           if 0 < n then (Some ''unpushed commits; push first'', w3)
                           else
                             (case run_git g home [''remote'', ''set-url'', ''origin'', url] w3 of
                                (p, w4) \<Rightarrow> (if proc_ok p then None else Some (git_failure p ''git remote refused''), w4))))))"

definition set_remote_origin :: "bool \<Rightarrow> git \<Rightarrow> path \<Rightarrow> string \<Rightarrow> gworld \<Rightarrow> string option \<times> gworld" where
  "set_remote_origin free g home url w =
     (case validate_repo_url url of
        Inl reason \<Rightarrow> (Some reason, w)
      | Inr _ \<Rightarrow> if \<not> free then (Some SYNC_RUNNING, w) else set_remote_body g home (py_strip url) w)"

definition ls_remote_sha :: "git \<Rightarrow> path \<Rightarrow> string \<Rightarrow> string option \<Rightarrow> gworld \<Rightarrow> (string + string) \<times> gworld" where
  "ls_remote_sha g home url branch w =
     (case run_git g home ([''ls-remote'', ''--'', url] @ (if branch \<in> {None, Some []} then [] else [or_empty branch])) w of
        (r, w') \<Rightarrow>
          (if \<not> proc_ok r then Inl (git_failure r ''cannot reach the remote'')
           else
             (let rows = map py_split_ws (lines_of (stdout_of r));
                  ends = (\<lambda>x. branch \<in> {None, Some []} \<or> starts_with (rev (or_empty branch)) (rev x))
              in case filter (\<lambda>ps. 2 \<le> length ps \<and> ends (ps ! 1)) rows of
                   ps # _ \<Rightarrow> Inr (hd ps)
                 | [] \<Rightarrow> (case py_split_ws (stdout_of r) of [] \<Rightarrow> Inl ''branch not found on the remote'' | x # _ \<Rightarrow> Inr x)),
           w'))"

definition formula_committed :: "git \<Rightarrow> path \<Rightarrow> string \<Rightarrow> gworld \<Rightarrow> bool \<times> gworld" where
  "formula_committed g home n w =
     (case is_checkout g home w of
        (False, w1) \<Rightarrow> (False, w1)
      | (True, w1) \<Rightarrow> (case run_git g home [''ls-files'', ''--'', n] w1 of (r, w2) \<Rightarrow> (word r \<noteq> None, w2)))"

end
