(* ===== verification/Files.thy ===== *)
theory Files
  imports GitSync
begin

text \<open>
  What the file browser of \<open>overstate_ui/files.py\<close> computes from a tree: the ignored paths, the listing of
  a folder, the folder tree, breadcrumbs and group rows, and the page of the listing.
\<close>

definition IGNORE_SETTING :: string where "IGNORE_SETTING = ''file_ignore_patterns''"
definition LIST_LIMIT :: nat where "LIST_LIMIT = 5000"
definition FILE_YAML_SUFFIXES :: "string list" where "FILE_YAML_SUFFIXES = [''.sls'', ''.yaml'', ''.yml'']"

section \<open>Listing\<close>

record entry_row =
  en_rel :: string
  en_size :: nat
  en_mtime :: int

definition entry_at :: "path \<Rightarrow> path \<Rightarrow> file_row \<Rightarrow> entry_row list" where
  "entry_at base p r =
     (let below = drop (length base) p
      in if strict_prefix base p \<and> ''.git'' \<notin> set below
         then [\<lparr>en_rel = py_join ''/'' below, en_size = length (fr_data r), en_mtime = fr_mtime r\<rparr>] else [])"

text \<open>The walk below a base: files, and links to files; a link to a directory is not entered.\<close>

definition walk_entries :: "tree \<Rightarrow> path \<Rightarrow> entry_row list" where
  "walk_entries t base0 =
     (let base = resolve t base0
      in concat (map (\<lambda>(p, r). entry_at base p r) (t_files t))
         @ concat (map (\<lambda>(p, _). case map_of (t_files t) (resolve t p) of None \<Rightarrow> [] | Some r \<Rightarrow> entry_at base p r)
                     (t_links t)))"

definition list_tree :: "nat option \<Rightarrow> tree \<Rightarrow> path \<Rightarrow> entry_row list" where
  "list_tree limit t base =
     (if \<not> is_directory t (resolve t base) then []
      else sort_key en_rel (case limit of None \<Rightarrow> walk_entries t base | Some n \<Rightarrow> take n (walk_entries t base)))"

definition ignore_patterns :: "env \<Rightarrow> store \<Rightarrow> string list" where
  "ignore_patterns e db =
     filter (\<lambda>l. l \<noteq> [] \<and> \<not> starts_with ''#'' l) (map py_strip (lines_of (get_setting e db IGNORE_SETTING)))"

text \<open>A pattern matches the path or one of the directories above it.\<close>

definition ignored :: "string list \<Rightarrow> string \<Rightarrow> bool" where
  "ignored patterns rel =
     (let parts = py_split CHR ''/'' rel
      in list_ex (\<lambda>depth. list_ex (fnmatchcase (py_join ''/'' (take depth parts))) patterns) [1..<length parts + 1])"

definition normalize_dir :: "string \<Rightarrow> string" where
  "normalize_dir value =
     (let parts = path_parts value
      in if parts = [] \<or> list_ex (\<lambda>p. p = ''..'' \<or> CHR 0x5C \<in> set p) parts then [] else py_join ''/'' parts)"

fun crumbs_below :: "string list \<Rightarrow> string list \<Rightarrow> (string \<times> string) list" where
  "crumbs_below upper [] = []"
| "crumbs_below upper (s # ss) = (s, py_join ''/'' (upper @ [s])) # crumbs_below (upper @ [s]) ss"

definition dir_crumbs :: "string \<Rightarrow> (string \<times> string) list" where
  "dir_crumbs d = (''Files'', []) # crumbs_below [] (filter (\<lambda>s. s \<noteq> []) (py_split CHR ''/'' d))"

text \<open>The folders of the listed files, nested; \<open>fuel\<close> is the depth that is left.\<close>

datatype folder =
  Folder (fo_key: string) (fo_title: string) (fo_expanded: bool) (fo_active: bool) (fo_children: "folder list")

fun build_folders :: "nat \<Rightarrow> string \<Rightarrow> string list \<Rightarrow> string list \<Rightarrow> string list list \<Rightarrow> folder list" where
  "build_folders 0 active_dir active upper dirs = []"
| "build_folders (Suc fuel) active_dir active upper dirs =
     sort_key (\<lambda>f. py_lower (fo_title f))
       (map (\<lambda>n. let here = upper @ [n]; key = py_join ''/'' here
                 in Folder key n (take (length here) active = here \<and> length upper < length active) (key = active_dir)
                      (build_folders fuel active_dir active here (map tl (filter (\<lambda>d. d \<noteq> [] \<and> hd d = n) dirs))))
          (sort (remdups (map hd (filter (\<lambda>d. d \<noteq> []) dirs)))))"

definition build_tree :: "entry_row list \<Rightarrow> string \<Rightarrow> folder list" where
  "build_tree entries active_dir =
     (let dirs = map (\<lambda>e. butlast (py_split CHR ''/'' (en_rel e))) entries
      in build_folders (Suc (fold max (map length dirs) 0)) active_dir
           (if active_dir = [] then [] else py_split CHR ''/'' active_dir) [] dirs)"

datatype list_row = Group_row string | Entry_row entry_row

definition top_of :: "string \<Rightarrow> string" where
  "top_of rel = (if CHR ''/'' \<in> set rel then takeWhile (\<lambda>c. c \<noteq> CHR ''/'') rel else ''/'')"

fun group_rows :: "string list \<Rightarrow> entry_row list \<Rightarrow> list_row list" where
  "group_rows seen [] = []"
| "group_rows seen (e # es) =
     (let t = top_of (en_rel e)
      in if t \<in> set seen then Entry_row e # group_rows seen es
         else Group_row t # Entry_row e # group_rows (t # seen) es)"

section \<open>The page\<close>

text \<open>The prefixes of a scoped viewer, \<open>None\<close> for the whole tree.\<close>

definition viewer_prefixes :: "env \<Rightarrow> user \<Rightarrow> ctx \<Rightarrow> string list option" where
  "viewer_prefixes e cu c = (if rbac_mode e (c_db c) = ''scoped'' then visible_prefixes e (c_memo c) (c_db c) cu else None)"

definition shown_entries :: "string list \<Rightarrow> string list option \<Rightarrow> entry_row list \<Rightarrow> entry_row list" where
  "shown_entries patterns scopes es =
     filter (\<lambda>x. \<not> ignored patterns (en_rel x) \<and> (case scopes of None \<Rightarrow> True | Some ps \<Rightarrow> prefix_visible ps (en_rel x))) es"

text \<open>The entries of a folder carry its name in front.\<close>

definition folder_entries :: "tree \<Rightarrow> path \<Rightarrow> string \<Rightarrow> entry_row list" where
  "folder_entries t base d =
     map (\<lambda>x. x\<lparr>en_rel := d @ ''/'' @ en_rel x\<rparr>)
       (list_tree (Some (LIST_LIMIT + 1)) t (base @ py_split CHR ''/'' d))"

definition sort_entries :: "string \<Rightarrow> string \<Rightarrow> entry_row list \<Rightarrow> entry_row list" where
  "sort_entries by dir es =
     (if by = ''size'' then sort_dir en_size dir es
      else if by = ''mtime'' then sort_dir en_mtime dir es
      else sort_dir (\<lambda>x. py_lower (en_rel x)) dir es)"

record files_page =
  fp_rows :: "list_row list"
  fp_tree :: "folder list"
  fp_crumbs :: "(string \<times> string) list"
  fp_dir :: string
  fp_sort :: string
  fp_direction :: string
  fp_page :: int
  fp_pages :: int
  fp_total :: nat
  fp_truncated :: bool
  fp_ignored :: nat

definition listing_page :: "env \<Rightarrow> user \<Rightarrow> form \<Rightarrow> path \<Rightarrow> tree \<Rightarrow> ctx \<Rightarrow> files_page" where
  "listing_page e cu args base t c =
     (let scopes = viewer_prefixes e cu c; patterns = ignore_patterns e (c_db c);
          q = py_lower (py_strip (form_get args ''q'')); d = normalize_dir (form_get args ''dir'');
          by = (let s = form_or args ''sort'' ''name'' in if s \<in> set [''name'', ''size'', ''mtime''] then s else ''name'');
          dir = (let s = form_or args ''sd'' ''asc'' in if s \<in> set [''asc'', ''desc''] then s else ''asc'');
          wanted = (case first_value args ''page'' of
                      None \<Rightarrow> 1 | Some s \<Rightarrow> (case py_int s of None \<Rightarrow> 1 | Some n \<Rightarrow> max 1 n));
          per_page = resolve_page_size (first_value args ''per_page'');
          whole = shown_entries patterns scopes (list_tree (Some (LIST_LIMIT + 1)) t base);
          entries = (if d = [] then whole else shown_entries patterns scopes (folder_entries t base d));
          found = filter (\<lambda>x. q = [] \<or> py_contains q (py_lower (en_rel x))) (take LIST_LIMIT entries);
          ordered = sort_entries by dir found; pages = page_count (length ordered) per_page; page = min wanted pages
      in \<lparr>fp_rows = group_rows [] (page_slice ordered page per_page), fp_tree = build_tree whole d,
          fp_crumbs = dir_crumbs d, fp_dir = d, fp_sort = by, fp_direction = dir, fp_page = page, fp_pages = pages,
          fp_total = length ordered, fp_truncated = (LIST_LIMIT < length entries), fp_ignored = length patterns\<rparr>)"

section \<open>Around a file\<close>

definition exists_at :: "tree \<Rightarrow> path \<Rightarrow> bool" where
  "exists_at t p = (let q = resolve t p in is_file t q \<or> is_directory t q)"

text \<open>The nearest directory above that holds \<open>.git\<close>.\<close>

function git_above :: "tree \<Rightarrow> path \<Rightarrow> path option" where
  "git_above t p = (if exists_at t (p @ [''.git'']) then Some p else if p = [] then None else git_above t (butlast p))"
  by auto
termination by (relation "measure (\<lambda>(t, p). length p)") auto

definition sync_revision :: "git \<Rightarrow> path \<Rightarrow> gworld \<Rightarrow> string option \<times> gworld" where
  "sync_revision g home w =
     (case git_above (gw_tree w) home of
        None \<Rightarrow> (None, w)
      | Some p \<Rightarrow> (case run_git g p SHORT_HEAD w of (r, w') \<Rightarrow> (word r, w')))"

definition US :: string where "US = [CHR 0x1F]"

declare git_above.simps [simp del]

text \<open>\<open>split\<close> at most three times; fewer than four fields cannot be unpacked.\<close>

definition commit_fields :: "string \<Rightarrow> string list res" where
  "commit_fields s =
     (case py_split CHR 0x1F s of
        a # b # c # d # ds \<Rightarrow> Inr [a, b, c, py_join US (d # ds)] | _ \<Rightarrow> Inl (ValueError ''not enough values to unpack''))"

definition last_commit :: "git \<Rightarrow> path \<Rightarrow> string \<Rightarrow> gworld \<Rightarrow> string list option res \<times> gworld" where
  "last_commit g home rel w =
     (case browse_root g home w of
        (top_dir, w1) \<Rightarrow>
          if \<not> is_directory (gw_tree w1) (resolve (gw_tree w1) (top_dir @ [''.git''])) then (Inr None, w1)
          else
            (case run_git g top_dir [''log'', ''-1'', ''--format=%h%x1f%an%x1f%ar%x1f%s'', ''--'', rel] w1 of
               (r, w2) \<Rightarrow>
                 (case word r of
                    None \<Rightarrow> (Inr None, w2)
                  | Some s \<Rightarrow> (case commit_fields s of Inl er \<Rightarrow> Inl er | Inr fs \<Rightarrow> Inr (Some fs), w2))))"

text \<open>The suffix of the last component, in lower case.\<close>

definition suffix_of :: "path \<Rightarrow> string" where
  "suffix_of p =
     (case rev p of
        [] \<Rightarrow> []
      | n # _ \<Rightarrow>
          (let stem = rev (dropWhile (\<lambda>c. c \<noteq> CHR ''.'') (rev n)); ext = rev (takeWhile (\<lambda>c. c \<noteq> CHR ''.'') (rev n))
           in if list_all (\<lambda>c. c = CHR ''.'') (butlast stem) \<or> stem = [] then [] else py_lower (CHR ''.'' # ext)))"

definition is_yaml_path :: "path \<Rightarrow> bool" where
  "is_yaml_path p = (suffix_of p \<in> set FILE_YAML_SUFFIXES)"

end
