(* ===== verification/FileViews.thy ===== *)
theory FileViews
  imports Files ViewFacts
begin

text \<open>
  The pages and actions of \<open>overstate_ui/files.py\<close>, over the git commands of GitSync and a tree. Posted
  text stands as its UTF-8 bytes; SHA-256, the replies of the Salt API, the lock and whether a write
  succeeds are arguments. The arrow in messages is written \<open>->\<close>.
\<close>

record file_env =
  fv_git :: git
  fv_home :: path
  fv_free :: bool
  fv_sha :: "string \<Rightarrow> string"
  fv_write :: bool
  fv_now :: int
  fv_refresh :: "string option"
  fv_modules :: "string option"
  fv_parses :: "string \<Rightarrow> bool"

type_synonym fstate = "ctx \<times> gworld"

definition fnote :: "string \<Rightarrow> string \<Rightarrow> fstate \<Rightarrow> fstate" where
  "fnote msg cat s = (flash msg cat (fst s), snd s)"

definition flog :: "user \<Rightarrow> string \<Rightarrow> fstate \<Rightarrow> fstate" where
  "flog cu action s = (on_db (log_event (u_username cu) action None None None None None) (fst s), snd s)"

definition files_home :: string where "files_home = ''files.index''"
definition files_view_at :: "string \<Rightarrow> string" where "files_view_at rel = ''files.view:'' @ rel"
definition files_edit_at :: "string \<Rightarrow> string" where "files_edit_at rel = ''files.edit:'' @ rel"

definition or_none :: "string option \<Rightarrow> string" where
  "or_none s = (case s of None \<Rightarrow> ''None'' | Some x \<Rightarrow> x)"

text \<open>The base of the browser, and the file a request names below it.\<close>

definition named_file :: "file_env \<Rightarrow> string \<Rightarrow> gworld \<Rightarrow> (path \<times> path) option \<times> gworld" where
  "named_file fv rel w =
     (case browse_root (fv_git fv) (fv_home fv) w of
        (base, w1) \<Rightarrow>
          ((case safe_join (gw_tree w1) base rel of
              None \<Rightarrow> None | Some t \<Rightarrow> if is_file (gw_tree w1) t then Some (base, t) else None), w1))"

section \<open>Listing and viewing\<close>

definition files_index :: "env \<Rightarrow> file_env \<Rightarrow> user \<Rightarrow> form \<Rightarrow> fstate
    \<Rightarrow> (resp \<times> (files_page \<times> (string + git_status) \<times> string option) option) \<times> fstate" where
  "files_index e fv cu args s =
     (case pass_gate (require e cu ''file.read'' None None ''no-grant'') (fst s) of
        Inl (r, c) \<Rightarrow> ((r, None), (c, snd s))
      | Inr c \<Rightarrow>
          if form_or args ''tab'' ''files'' = ''formulas'' then ((Redirect ''formulas.index'', None), (c, snd s))
          else if form_or args ''tab'' ''files'' = ''repo'' then ((Redirect ''state_repo.index'', None), (c, snd s))
          else
            (case browse_root (fv_git fv) (fv_home fv) (snd s) of
               (base, w1) \<Rightarrow>
                 (case sync_revision (fv_git fv) (fv_home fv) (snd (browse_root (fv_git fv) (fv_home fv) w1)) of
                    (rev0, w2) \<Rightarrow>
                      (case git_status_now (fv_git fv) (fv_home fv) w2 of
                         (st, w3) \<Rightarrow> ((Page, Some (listing_page e cu args base (gw_tree w1) c, st, rev0)), (c, w3))))))"

record view_page =
  vp_rel :: string
  vp_text :: "string option"
  vp_size :: "nat option"
  vp_reason :: "string option"
  vp_commit :: "string list option"

definition view_file :: "file_env \<Rightarrow> string \<Rightarrow> path \<Rightarrow> fstate \<Rightarrow> (resp \<times> view_page option) \<times> fstate" where
  "view_file fv rel target s =
     (let t = gw_tree (snd s)
      in case bytes_at t target of
           None \<Rightarrow> ((Abort 404, None), s)
         | Some data \<Rightarrow>
             (case sync_revision (fv_git fv) (fv_home fv) (snd s) of
                (_, w1) \<Rightarrow>
                  (case last_commit (fv_git fv) (fv_home fv) rel w1 of
                     (Inl er, w2) \<Rightarrow> ((Fail er, None), (fst s, w2))
                   | (Inr info, w2) \<Rightarrow>
                       ((Page, Some \<lparr>vp_rel = rel, vp_text = read_text t target,
                           vp_size = (if read_text t target = None then Some (length data) else None),
                           vp_reason = (if read_text t target \<noteq> None then None
                                        else if MAX_BYTES_FILE < int (length data) then Some ''too large to display''
                                        else Some ''not readable text''),
                           vp_commit = info\<rparr>), (fst s, w2)))))"

definition files_view :: "env \<Rightarrow> file_env \<Rightarrow> user \<Rightarrow> form \<Rightarrow> fstate \<Rightarrow> (resp \<times> view_page option) \<times> fstate" where
  "files_view e fv cu args s =
     (let rel = form_get args ''path''
      in case named_file fv rel (snd s) of
           (None, w1) \<Rightarrow> ((Abort 404, None), (fst s, w1))
         | (Some (_, target), w1) \<Rightarrow>
             (case pass_gate (require e cu ''file.read'' None (Some rel) ''no-grant'') (fst s) of
                Inl (r, c) \<Rightarrow> ((r, None), (c, w1))
              | Inr c \<Rightarrow> view_file fv rel target (c, w1)))"

section \<open>Editing\<close>

record edit_page =
  ep_rel :: string
  ep_text :: string
  ep_yaml :: bool
  ep_base_sha :: string
  ep_base_hash :: string

definition edit_body :: "file_env \<Rightarrow> string \<Rightarrow> path \<Rightarrow> fstate \<Rightarrow> (resp \<times> edit_page option) \<times> fstate" where
  "edit_body fv rel target s =
     (case read_text (gw_tree (snd s)) target of
        None \<Rightarrow>
          ((Redirect (files_view_at rel), None),
           fnote ''That file cannot be edited here (too large or not text).'' ''error'' s)
      | Some txt \<Rightarrow>
          (case git_head (fv_git fv) (fv_home fv) (snd s) of
             (head, w1) \<Rightarrow>
               ((Page, Some \<lparr>ep_rel = rel, ep_text = txt, ep_yaml = is_yaml_path target,
                   ep_base_sha = (case head of None \<Rightarrow> ''nogit'' | Some h \<Rightarrow> h), ep_base_hash = fv_sha fv txt\<rparr>),
                (fst s, snd (sync_revision (fv_git fv) (fv_home fv) w1)))))"

definition files_edit ::
  "(string set \<Rightarrow> string) \<Rightarrow> env \<Rightarrow> file_env \<Rightarrow> user \<Rightarrow> form \<Rightarrow> fstate \<Rightarrow> (resp \<times> edit_page option) \<times> fstate" where
  "files_edit first e fv cu args s =
     (let rel = form_get args ''path''
      in case pass_gate (roles_required first e cu [''operator'']) (fst s) of
           Inl (r, c) \<Rightarrow> ((r, None), (c, snd s))
         | Inr c \<Rightarrow>
             (case named_file fv rel (snd s) of
                (None, w1) \<Rightarrow> ((Abort 404, None), (c, w1))
              | (Some (_, target), w1) \<Rightarrow>
                  (case pass_gate (require e cu ''file.write'' None (Some rel) ''no-grant'') c of
                     Inl (r, c1) \<Rightarrow> ((r, None), (c1, w1))
                   | Inr c1 \<Rightarrow> edit_body fv rel target (c1, w1))))"

section \<open>Saving\<close>

text \<open>The bytes go to a file beside the target, which then replaces it. A link in the place of that file
  is written through and becomes the target.\<close>

definition tmp_beside :: "path \<Rightarrow> path" where
  "tmp_beside p = butlast p @ [last p @ ''.overstate-tmp'']"

definition put_bytes :: "path \<Rightarrow> string \<Rightarrow> int \<Rightarrow> tree \<Rightarrow> tree" where
  "put_bytes p data now t = t\<lparr>t_files := assoc_set p \<lparr>fr_data = data, fr_mtime = now\<rparr> (t_files t)\<rparr>"

definition replace_file :: "path \<Rightarrow> string \<Rightarrow> int \<Rightarrow> tree \<Rightarrow> tree" where
  "replace_file target data now t =
     (case map_of (t_links t) (tmp_beside target) of
        None \<Rightarrow>
          put_bytes target data now (t\<lparr>t_files := filter (\<lambda>(p, _). p \<noteq> tmp_beside target) (t_files t)\<rparr>)
      | Some l \<Rightarrow>
          (put_bytes (resolve t (tmp_beside target)) data now t)
            \<lparr>t_files := filter (\<lambda>(p, _). p \<noteq> target)
                 (t_files (put_bytes (resolve t (tmp_beside target)) data now t)),
             t_links := (target, l) # filter (\<lambda>(p, _). p \<noteq> tmp_beside target) (t_links t)\<rparr>)"

definition written_tree :: "file_env \<Rightarrow> path \<Rightarrow> string \<Rightarrow> gworld \<Rightarrow> gworld" where
  "written_tree fv target data w = w\<lparr>gw_tree := replace_file target data (fv_now fv) (gw_tree w)\<rparr>"

definition base_matches :: "form \<Rightarrow> string option \<Rightarrow> bool" where
  "base_matches f head = (form_get f ''base_sha'' = (case head of None \<Rightarrow> ''nogit'' | Some h \<Rightarrow> h) \<and> f ''base_sha'' \<noteq> [])"

definition save_done :: "file_env \<Rightarrow> user \<Rightarrow> string \<Rightarrow> path \<Rightarrow> string \<Rightarrow> string option \<Rightarrow> fstate \<Rightarrow> resp \<times> fstate" where
  "save_done fv cu rel target data new s =
     (let s1 = (case fv_refresh fv of
                  None \<Rightarrow> fnote (''Saved '' @ rel @ '' as '' @ or_none new @ ''.'') ''success'' s
                | Some er \<Rightarrow> fnote (''Saved '' @ rel @ '' as '' @ or_none new @ ''. Master refresh failed ('' @ er
                               @ ''); applies may lag.'') ''warning'' s);
          s2 = (if is_yaml_path target \<and> \<not> fv_parses fv data
                then fnote ''Warning: that YAML does not parse. Saved anyway. Salt parses it at apply time.'' ''warning'' s1
                else s1)
      in (Redirect (files_view_at rel), flog cu (''file-save:'' @ rel @ '':'' @ or_none new) s2))"

text \<open>After the write: the commit of that file, whose failure leaves the file written.\<close>

definition save_commit :: "file_env \<Rightarrow> user \<Rightarrow> string \<Rightarrow> path \<Rightarrow> string \<Rightarrow> fstate \<Rightarrow> resp \<times> fstate" where
  "save_commit fv cu rel target data s =
     (case browse_root (fv_git fv) (fv_home fv) (snd s) of
        (base1, w1) \<Rightarrow>
          if \<not> prefix base1 target then (Fail (ValueError ''not in the subpath''), (fst s, w1))
          else
            (let posix = py_join ''/'' (drop (length base1) target)
             in case browse_root (fv_git fv) (fv_home fv) w1 of
                  (base2, w2) \<Rightarrow>
                    (case git_commit_file (fv_free fv) (fv_git fv) (fv_home fv) base2 posix
                            (''overstate('' @ u_username cu @ ''): '' @ posix) (u_username cu) w2 of
                       (Inl reason, w3) \<Rightarrow>
                         (Redirect (files_view_at rel),
                          flog cu (''file-save-uncommitted:'' @ rel @ '':'' @ reason)
                            (fnote (''Saved on disk but not committed ('' @ reason @ ''). Fix it in git.'') ''error'' (fst s, w3)))
                     | (Inr new, w3) \<Rightarrow> save_done fv cu rel target data new (fst s, w3))))"

definition refuse_save :: "user \<Rightarrow> string \<Rightarrow> string \<Rightarrow> string \<Rightarrow> fstate \<Rightarrow> resp \<times> fstate" where
  "refuse_save cu rel msg word0 s =
     (Redirect (files_view_at rel), flog cu (''file-save-refused:'' @ rel @ '':'' @ word0) (fnote msg ''error'' s))"

type_synonym save_outcome = "resp \<times> fstate \<times> (path \<times> string) option"

text \<open>The last component of an outcome is what was written, and where.\<close>

definition nothing :: "resp \<times> fstate \<Rightarrow> save_outcome" where
  "nothing rs = (fst rs, snd rs, None)"

definition save_checked :: "file_env \<Rightarrow> user \<Rightarrow> form \<Rightarrow> string \<Rightarrow> path \<Rightarrow> string \<Rightarrow> string \<Rightarrow> fstate \<Rightarrow> save_outcome" where
  "save_checked fv cu f rel target current data s =
     (case git_head (fv_git fv) (fv_home fv) (snd s) of
        (head, w1) \<Rightarrow>
          (let s1 = (fst s, w1)
           in if \<not> base_matches f head \<or> form_get f ''base_hash'' \<noteq> fv_sha fv current \<or> f ''base_hash'' = []
              then nothing (Redirect (files_edit_at rel),
                     flog cu (''file-save-refused:'' @ rel @ '':stale'')
                       (fnote (''That file changed (now '' @ (case head of None \<Rightarrow> ''unknown'' | Some h \<Rightarrow> take 7 h)
                          @ ''). Reload and re-apply your edits. Nothing was written.'') ''error'' s1))
              else if \<not> fv_write fv
              then nothing (refuse_save cu rel ''Could not write the file. Nothing changed.'' ''write-failed'' s1)
              else (case save_commit fv cu rel target data (fst s, written_tree fv target data w1) of
                      (r, s2) \<Rightarrow> (r, s2, Some (target, data)))))"

definition save_body :: "file_env \<Rightarrow> user \<Rightarrow> form \<Rightarrow> string \<Rightarrow> path \<Rightarrow> fstate \<Rightarrow> save_outcome" where
  "save_body fv cu f rel target s =
     (case bytes_at (gw_tree (snd s)) target of
        None \<Rightarrow> nothing (Abort 404, s)
      | Some current \<Rightarrow>
          (let data = form_get f ''content''
           in if \<not> editable_bytes current
              then nothing (refuse_save cu rel ''That file is no longer editable text. Nothing changed.'' ''uneditable'' s)
              else if MAX_BYTES_FILE < int (length data)
              then nothing (refuse_save cu rel (''Too large to save ('' @ nat_str (length data) @ '' bytes; limit is ''
                      @ py_str_int MAX_BYTES_FILE @ ''). Nothing changed.'') ''oversize'' s)
              else if data = current
              then nothing (Redirect (files_view_at rel), fnote ''No changes. Nothing committed.'' ''info'' s)
              else
                (case is_checkout (fv_git fv) (fv_home fv) (snd s) of
                   (False, w1) \<Rightarrow>
                     nothing (refuse_save cu rel ''Not a git checkout: files are read-only here. Nothing changed.''
                       ''not-a-checkout'' (fst s, w1))
                 | (True, w1) \<Rightarrow> save_checked fv cu f rel target current data (fst s, w1))))"

definition files_save :: "(string set \<Rightarrow> string) \<Rightarrow> env \<Rightarrow> file_env \<Rightarrow> user \<Rightarrow> form \<Rightarrow> fstate \<Rightarrow> save_outcome" where
  "files_save first e fv cu f s =
     (let rel = form_get f ''path''
      in case pass_gate (roles_required first e cu [''operator'']) (fst s) of
           Inl (r, c) \<Rightarrow> nothing (r, (c, snd s))
         | Inr c \<Rightarrow>
             (case named_file fv rel (snd s) of
                (None, w1) \<Rightarrow> nothing (Abort 404, (c, w1))
              | (Some (_, target), w1) \<Rightarrow>
                  (case pass_gate (require e cu ''file.write'' None (Some rel) ''no-grant'') c of
                     Inl (r, c1) \<Rightarrow> nothing (r, (c1, w1))
                   | Inr c1 \<Rightarrow> save_body fv cu f rel target (c1, w1))))"

section \<open>Sync, fetch and push\<close>

definition sync_gate :: "(string set \<Rightarrow> string) \<Rightarrow> env \<Rightarrow> user \<Rightarrow> string list \<Rightarrow> string \<Rightarrow> ctx \<Rightarrow> (resp \<times> ctx) + ctx" where
  "sync_gate first e cu roles perm c =
     pass_gate (\<lambda>k. roles_required first e cu roles (require e cu perm None None ''no-grant'' k)) c"

definition refresh_notice :: "file_env \<Rightarrow> user \<Rightarrow> string \<Rightarrow> string \<Rightarrow> fstate \<Rightarrow> fstate" where
  "refresh_notice fv cu done_text failed_text s =
     (case fv_refresh fv of
        None \<Rightarrow> flog cu ''fileserver-update'' (fnote done_text ''success'' s)
      | Some er \<Rightarrow> flog cu (''fileserver-update-failed:'' @ er)
                    (fnote (failed_text @ '' Master refresh failed ('' @ er @ ''); applies may lag.'') ''warning'' s))"

definition files_sync :: "(string set \<Rightarrow> string) \<Rightarrow> env \<Rightarrow> file_env \<Rightarrow> user \<Rightarrow> fstate \<Rightarrow> resp \<times> fstate" where
  "files_sync first e fv cu s =
     (case sync_gate first e cu [''operator''] ''file.sync'' (fst s) of
        Inl (r, c) \<Rightarrow> (r, (c, snd s))
      | Inr c \<Rightarrow>
          (case git_sync_now (fv_free fv) (fv_git fv) (fv_home fv) (snd s) of
             (PullRefused reason, w1) \<Rightarrow>
               (Redirect files_home,
                flog cu (''git-sync-refused:'' @ reason) (fnote (''Sync refused: '' @ reason @ ''. Nothing changed.'') ''error'' (c, w1)))
           | (Pulled old new, w1) \<Rightarrow>
               (let s1 = flog cu (''git-sync:'' @ or_none new) (c, w1)
                in if old = new
                   then (Redirect files_home, fnote (''Already up to date at '' @ or_none new @ ''.'') ''info'' s1)
                   else
                     (let moved = ''Synced '' @ or_none old @ '' -> '' @ or_none new;
                          s2 = refresh_notice fv cu (moved @ ''; master fileserver refreshed.'') (moved @ ''.'') s1
                      in case paths_changed (fv_git fv) (fv_home fv) old new ''_modules'' (snd s2) of
                           (hit, w2) \<Rightarrow>
                             (Redirect files_home,
                              if hit then fnote ''Custom modules changed. Run Sync modules.'' ''info'' (fst s2, w2)
                              else (fst s2, w2))))))"

definition as_git_result :: "pull_result \<Rightarrow> git_result" where
  "as_git_result p =
     (case p of
        PullRefused reason \<Rightarrow> \<lparr>gr_ok = False, gr_reason = reason, gr_changed = False, gr_old = [], gr_new = []\<rparr>
      | Pulled old new \<Rightarrow> \<lparr>gr_ok = True, gr_reason = [], gr_changed = (old \<noteq> new), gr_old = or_empty old, gr_new = or_empty new\<rparr>)"

definition files_sync_now :: "(string set \<Rightarrow> string) \<Rightarrow> env \<Rightarrow> file_env \<Rightarrow> user \<Rightarrow> fstate \<Rightarrow> resp \<times> fstate" where
  "files_sync_now first e fv cu s =
     (case pass_gate (roles_required first e cu [''admin'']) (fst s) of
        Inl (r, c) \<Rightarrow> (r, (c, snd s))
      | Inr c \<Rightarrow>
          (case git_sync_now (fv_free fv) (fv_git fv) (fv_home fv) (snd s) of
             (p, w1) \<Rightarrow>
               (case run_manual_sync e (as_git_result p) (or_empty (fv_refresh fv)) (fv_now fv) (c_db c) of
                  (outcome, db) \<Rightarrow>
                    (let c1 = c\<lparr>c_db := db\<rparr>
                     in (Redirect files_home,
                         if so_ok outcome
                         then flog cu ''file-sync:manual''
                                (fnote (so_message outcome)
                                   (if get_setting e db LAST_STATUS = ''warning'' then ''warning'' else ''success'') (c1, w1))
                         else fnote (so_message outcome) ''error'' (c1, w1))))))"

definition files_sync_modules :: "(string set \<Rightarrow> string) \<Rightarrow> env \<Rightarrow> file_env \<Rightarrow> user \<Rightarrow> fstate \<Rightarrow> resp \<times> fstate" where
  "files_sync_modules first e fv cu s =
     (case sync_gate first e cu [''operator''] ''file.sync'' (fst s) of
        Inl (r, c) \<Rightarrow> (r, (c, snd s))
      | Inr c \<Rightarrow>
          (Redirect files_home,
           (case fv_modules fv of
              Some er \<Rightarrow> flog cu ''modules-sync-failed''
                  (fnote (''Module sync failed (salt-api error: '' @ er @ ''). Nothing sent.'') ''error'' (c, snd s))
            | None \<Rightarrow> flog cu ''modules-sync'' (fnote ''Custom modules synced to the master.'' ''success'' (c, snd s)))))"

definition behind_of :: "(string + git_status) \<Rightarrow> int" where
  "behind_of st = (case st of Inr g \<Rightarrow> (case gs_counts g of Some (_, b) \<Rightarrow> b | None \<Rightarrow> 0) | Inl _ \<Rightarrow> 0)"

definition files_fetch :: "(string set \<Rightarrow> string) \<Rightarrow> env \<Rightarrow> file_env \<Rightarrow> user \<Rightarrow> fstate \<Rightarrow> resp \<times> fstate" where
  "files_fetch first e fv cu s =
     (case sync_gate first e cu [''operator''] ''file.sync'' (fst s) of
        Inl (r, c) \<Rightarrow> (r, (c, snd s))
      | Inr c \<Rightarrow>
          (case git_fetch_now (fv_free fv) (fv_git fv) (fv_home fv) (snd s) of
             (Some reason, w1) \<Rightarrow>
               (Redirect files_home,
                flog cu (''git-fetch-refused:'' @ reason) (fnote (''Check failed: '' @ reason @ ''. Nothing changed.'') ''error'' (c, w1)))
           | (None, w1) \<Rightarrow>
               (case git_status_now (fv_git fv) (fv_home fv) w1 of
                  (st, w2) \<Rightarrow>
                    (Redirect files_home,
                     flog cu ''git-fetch''
                       (if behind_of st \<noteq> 0
                        then fnote (''Fetched: '' @ py_str_int (behind_of st) @ '' behind. Sync to pull.'') ''info'' (c, w2)
                        else fnote ''Already up to date.'' ''info'' (c, w2))))))"

definition files_push :: "(string set \<Rightarrow> string) \<Rightarrow> env \<Rightarrow> file_env \<Rightarrow> user \<Rightarrow> fstate \<Rightarrow> resp \<times> fstate" where
  "files_push first e fv cu s =
     (case sync_gate first e cu [''admin''] ''file.git'' (fst s) of
        Inl (r, c) \<Rightarrow> (r, (c, snd s))
      | Inr c \<Rightarrow>
          (case git_push_now (fv_free fv) (fv_git fv) (fv_home fv) (snd s) of
             (PushRefused reason, w1) \<Rightarrow>
               (Redirect files_home,
                flog cu (''git-push-refused:'' @ reason) (fnote (''Push refused: '' @ reason @ ''. Nothing changed.'') ''error'' (c, w1)))
           | (Pushed new sent, w1) \<Rightarrow>
               (Redirect files_home,
                flog cu (''git-push:'' @ or_none new)
                  (if sent then fnote (''Pushed '' @ or_none new @ '' upstream.'') ''success'' (c, w1)
                   else fnote (''Already up to date at '' @ or_none new @ ''.'') ''info'' (c, w1)))))"

end
