(* ===== verification/FileProps.thy ===== *)
theory FileProps
  imports FileViews AuthzProps
begin

text \<open>
  Properties of the file browser: what a save checked before it wrote, and how far the prefix check of
  a file grant carries. The witnesses use a small checkout and a git that answers every command.
\<close>

section \<open>A checkout for the witnesses\<close>

text \<open>A checkout in \<open>/srv\<close> with a link, and a git that answers every command.\<close>

definition demo_home :: path where "demo_home = [''srv'']"

definition demo_tree :: tree where
  "demo_tree = \<lparr>t_files = [([''srv'', ''web'', ''init.sls''], \<lparr>fr_data = ''nginx:'', fr_mtime = 1\<rparr>),
                      ([''srv'', ''pillar'', ''secret.sls''], \<lparr>fr_data = ''key: old'', fr_mtime = 2\<rparr>)],
                t_links = [([''srv'', ''web'', ''loop''], ''loop'')],
                t_dirs = [[''srv''], [''srv'', ''web''], [''srv'', ''pillar'']]\<rparr>"

definition demo_world :: gworld where "demo_world = \<lparr>gw_tree = demo_tree, gw_calls = []\<rparr>"

definition demo_git :: git where
  "demo_git argv cwd w =
     (Some \<lparr>pr_code = 0,
        pr_out = (if argv = [''rev-parse'', ''--show-toplevel''] then ''/srv''
                  else if hd argv = ''rev-list'' then ''0 2'' else ''a1b2c3d''),
        pr_err = []\<rparr>, gw_tree w)"

definition demo_files :: file_env where
  "demo_files = \<lparr>fv_git = demo_git, fv_home = demo_home, fv_free = True, fv_sha = rev, fv_write = True, fv_now = 9,
     fv_refresh = None, fv_modules = None, fv_parses = (\<lambda>_. True)\<rparr>"

section \<open>Prefixes and paths\<close>

lemma realpath_ups:
  "realpath_loop ls seen (p @ ds) (map Comp (replicate (length ds) ''..'') @ work) = realpath_loop ls seen p work"
proof (induction ds rule: rev_induct)
  case (snoc d ds)
  then show ?case by (simp flip: append_assoc)
qed simp

text \<open>A chain of directories without a link on it.\<close>

definition no_link :: "tree \<Rightarrow> path \<Rightarrow> path \<Rightarrow> bool" where
  "no_link t base comps = (\<forall>k \<le> length comps. map_of (t_links t) (base @ take k comps) = None)"

lemma no_link_code [code]:
  "no_link t base comps = list_all (\<lambda>k. map_of (t_links t) (base @ take k comps) = None) [0..<Suc (length comps)]"
  by (auto simp: no_link_def list_all_iff)

definition plain_base :: "tree \<Rightarrow> path \<Rightarrow> bool" where
  "plain_base t base = (list_all plain_comp base \<and> no_link t [] base)"

lemma resolve_below:
  assumes "plain_base t base"
  shows "resolve t (base @ comps) = realpath_loop (t_links t) [] base (map Comp comps)"
  using realpath_plain [of base "t_links t" "[]" "[]" "map Comp comps"] assms
  by (simp add: resolve_def plain_base_def no_link_def)

lemma split_plain: "list_all plain_comp comps \<Longrightarrow> comps \<noteq> [] \<Longrightarrow> py_split CHR ''/'' (py_join ''/'' comps) = comps"
  by (rule py_split_join) (auto simp: list_all_iff plain_comp_def)

lemma join_set: "set (py_join sep xs) \<subseteq> set sep \<union> (\<Union>x \<in> set xs. set x)"
  by (induction sep xs rule: py_join.induct) auto

text \<open>A relative path of components that are not absolute.\<close>

lemma path_join_relative:
  assumes "comps \<noteq> []" and "\<forall>c \<in> set comps. c \<noteq> [] \<and> CHR ''/'' \<notin> set c"
  shows "path_join base (py_join ''/'' comps) = base @ comps"
proof -
  obtain c cs where c: "comps = c # cs" using assms(1) by (cases comps) auto
  then obtain x xs where x: "c = x # xs" "x \<noteq> CHR ''/''" using assms(2) by (cases c) auto
  have "\<not> starts_with ''/'' (py_join ''/'' comps)" using x c by (cases cs) auto
  moreover have "py_split CHR ''/'' (py_join ''/'' comps) = comps"
    by (rule py_split_join) (use assms in auto)
  ultimately show ?thesis by (simp add: path_join_def)
qed

lemma safe_join_comps:
  assumes "comps \<noteq> []" and "\<forall>c \<in> set comps. c \<noteq> [] \<and> CHR ''/'' \<notin> set c \<and> CHR 0x00 \<notin> set c"
  shows "safe_join t base (py_join ''/'' comps)
    = (let target = resolve t (base @ comps) in if prefix base target then Some target else None)"
proof -
  have "CHR 0x00 \<notin> set (py_join ''/'' comps)" using join_set [of "''/''" comps] assms(2) by auto
  then show ?thesis using path_join_relative [OF assms(1)] assms(2) by (simp add: safe_join_def)
qed

text \<open>On plain paths the prefix check is sound: a path of plain components with no link on the way
  below the base names the file at those components, so a file whose check passed on the scope \<open>v\<close>
  lies in the directory \<open>v\<close> of the checkout.\<close>

theorem plain_path_in_prefix:
  assumes "safe_join t base rel = Some target" and "prefix_covers v rel"
    and "plain_base t base" and "no_link t base (py_split CHR ''/'' rel)"
    and "list_all plain_comp (py_split CHR ''/'' rel)"
  shows "target = base @ py_split CHR ''/'' rel \<and> prefix (base @ py_split CHR ''/'' v) target"
proof -
  let ?cs = "py_split CHR ''/'' rel"
  have rel: "rel = py_join ''/'' ?cs" by (rule py_join_split [symmetric])
  have cs: "?cs \<noteq> []" "\<forall>c \<in> set ?cs. c \<noteq> [] \<and> CHR ''/'' \<notin> set c \<and> CHR 0x00 \<notin> set c"
    using assms(5) by (auto simp: list_all_iff plain_comp_def)
  have "resolve t (base @ ?cs) = base @ ?cs"
    using resolve_below [OF assms(3), of ?cs] realpath_plain [OF assms(5), of "t_links t" base "[]" "[]"] assms(4)
    by (simp add: no_link_def)
  then have t: "target = base @ ?cs"
    using assms(1) safe_join_comps [OF cs, of t base] rel by (simp add: Let_def split: if_splits)
  moreover have "prefix (py_split CHR ''/'' v) ?cs" using assms(2) prefix_covers_components by simp
  ultimately show ?thesis by simp
qed

text \<open>C34: With dots the prefix check does not hold the caller: for every scope \<open>ds\<close> and every path \<open>q\<close> of
  the checkout, \<open>ds/../q\<close> with as many steps up passes the check of the scope and names the file \<open>q\<close>.\<close>

theorem dots_leave_prefix:
  assumes "plain_base t base" and "ds \<noteq> []" and "list_all plain_comp ds" and "list_all plain_comp q"
    and "no_link t base ds" and "no_link t base q"
    and "rel = py_join ''/'' (ds @ replicate (length ds) ''..'' @ q)"
  shows "prefix_covers (py_join ''/'' ds) rel \<and> safe_join t base rel = Some (base @ q)"
proof -
  let ?up = "replicate (length ds) ''..''"
  have cs: "ds @ ?up @ q \<noteq> []" "\<forall>c \<in> set (ds @ ?up @ q). c \<noteq> [] \<and> CHR ''/'' \<notin> set c \<and> CHR 0x00 \<notin> set c"
    using assms(2-4) by (auto simp: list_all_iff plain_comp_def)
  have split: "py_split CHR ''/'' rel = ds @ ?up @ q"
    unfolding assms(7) by (rule py_split_join) (use cs in auto)
  have "prefix_covers (py_join ''/'' ds) rel"
    unfolding prefix_covers_components split split_plain [OF assms(3,2)] by simp
  moreover have "resolve t (base @ ds @ ?up @ q) = base @ q"
  proof -
    have "resolve t (base @ ds @ ?up @ q) = realpath_loop (t_links t) [] base (map Comp ds @ map Comp ?up @ map Comp q)"
      using resolve_below [OF assms(1), of "ds @ ?up @ q"] by simp
    also have "\<dots> = realpath_loop (t_links t) [] (base @ ds) (map Comp ?up @ map Comp q)"
      by (rule realpath_plain) (use assms(3,5) in \<open>auto simp: no_link_def\<close>)
    also have "\<dots> = realpath_loop (t_links t) [] base (map Comp q @ [])" by (simp only: realpath_ups append_Nil2)
    also have "\<dots> = realpath_loop (t_links t) [] (base @ q) []"
      by (rule realpath_plain) (use assms(4,6) in \<open>auto simp: no_link_def\<close>)
    finally show ?thesis by simp
  qed
  ultimately show ?thesis using safe_join_comps [OF cs, of t base] by (simp add: assms(7) Let_def)
qed

theorem dots_leave_prefix_witness:
  "prefix_covers ''web'' ''web/../pillar/secret.sls''
   \<and> safe_join demo_tree demo_home ''web/../pillar/secret.sls'' = Some (demo_home @ [''pillar'', ''secret.sls''])"
proof -
  have b: "plain_base demo_tree demo_home" by code_simp
  have c: "list_all plain_comp [''web'']" "list_all plain_comp [''pillar'', ''secret.sls'']" by code_simp+
  have l: "no_link demo_tree demo_home [''web'']" "no_link demo_tree demo_home [''pillar'', ''secret.sls'']" by code_simp+
  have r: "''web/../pillar/secret.sls'' = py_join ''/'' ([''web''] @ replicate (length [''web'']) ''..'' @ [''pillar'', ''secret.sls''])"
    by code_simp
  show ?thesis using dots_leave_prefix [OF b _ c l r] by simp
qed

section \<open>Saving\<close>

text \<open>The commands a save runs, and a git whose runs of them leave the working tree as it is.\<close>

definition save_command :: "string list \<Rightarrow> bool" where
  "save_command argv = (hd argv \<in> {''rev-parse'', ''add'', ''-c''})"

definition quiet_git :: "git \<Rightarrow> bool" where
  "quiet_git g = (\<forall>argv cwd w. save_command argv \<longrightarrow> snd (g argv cwd w) = gw_tree w)"

lemma quiet_run: "quiet_git g \<Longrightarrow> run_git g cwd argv w = (r, w') \<Longrightarrow> save_command argv \<Longrightarrow> gw_tree w' = gw_tree w"
  by (auto simp: quiet_git_def run_git_def split: prod.splits) (metis snd_conv)

lemma save_commands [simp]:
  "save_command (''rev-parse'' # x)" "save_command (''add'' # x)" "save_command (commit_argv rel subject author)"
  "save_command SHORT_HEAD"
  by (simp_all add: save_command_def commit_argv_def Let_def SHORT_HEAD_def)

lemma quiet_reads:
  assumes "quiet_git g"
  shows "browse_root g home w = (base, w') \<Longrightarrow> gw_tree w' = gw_tree w"
    and "is_checkout g home w = (b, w') \<Longrightarrow> gw_tree w' = gw_tree w"
    and "git_head g home w = (h, w') \<Longrightarrow> gw_tree w' = gw_tree w"
  using quiet_run [OF assms]
  by (auto simp: browse_root_def toplevel_def is_checkout_def git_head_def split: prod.splits option.splits)

lemma quiet_commit:
  assumes "quiet_git g" and "git_commit_file free g home base rel subject author w = (r, w')"
  shows "gw_tree w' = gw_tree w"
proof -
  obtain b w1 where 1: "is_checkout g home w = (b, w1)" by fastforce
  obtain a w2 where 2: "run_git g base [''add'', ''--'', rel] w1 = (a, w2)" by fastforce
  obtain c w3 where 3: "run_git g base (commit_argv rel subject author) w2 = (c, w3)" by fastforce
  obtain d w4 where 4: "run_git g base SHORT_HEAD w3 = (d, w4)" by fastforce
  have "gw_tree w1 = gw_tree w" "gw_tree w2 = gw_tree w" "gw_tree w3 = gw_tree w" "gw_tree w4 = gw_tree w"
    using quiet_reads(2) [OF assms(1) 1] quiet_run [OF assms(1) 2] quiet_run [OF assms(1) 3] quiet_run [OF assms(1) 4] by simp_all
  then show ?thesis using assms(2) by (auto simp: git_commit_file_def 1 2 3 4 split: if_splits bool.splits)
qed

lemma note_tree [simp]: "snd (fnote m cat s) = snd s" "snd (flog cu a s) = snd s"
  "snd (snd (refuse_save cu rel m why s)) = snd s" "snd (snd (save_done fv cu rel target data new s)) = snd s"
  by (simp_all add: fnote_def flog_def refuse_save_def save_done_def Let_def split: option.split)

lemma save_commit_tree:
  assumes "quiet_git (fv_git fv)"
  shows "gw_tree (snd (snd (save_commit fv cu rel target data s))) = gw_tree (snd s)"
proof -
  obtain base1 w1 where 1: "browse_root (fv_git fv) (fv_home fv) (snd s) = (base1, w1)" by fastforce
  obtain base2 w2 where 2: "browse_root (fv_git fv) (fv_home fv) w1 = (base2, w2)" by fastforce
  let ?posix = "py_join ''/'' (drop (length base1) target)"
  obtain r w3 where 3: "git_commit_file (fv_free fv) (fv_git fv) (fv_home fv) base2 ?posix
      (''overstate('' @ u_username cu @ ''): '' @ ?posix) (u_username cu) w2 = (r, w3)" by fastforce
  have "gw_tree w1 = gw_tree (snd s)" "gw_tree w3 = gw_tree (snd s)"
    using quiet_reads(1) [OF assms 1] quiet_reads(1) [OF assms 2] quiet_commit [OF assms 3] by simp_all
  then show ?thesis
    unfolding save_commit_def 1 2 prod.case Let_def 3 by (auto split: sum.split)
qed

lemma nothing_none [simp]: "nothing x = (r, s', Some y) \<longleftrightarrow> False"
  by (simp add: nothing_def)

lemma nothing_state: "nothing x = (r, s', out) \<longleftrightarrow> r = fst x \<and> s' = snd x \<and> out = None"
  by (auto simp: nothing_def)

text \<open>The state a save leaves: the tree it found, or that tree with the one replacement.\<close>

definition wrote :: "file_env \<Rightarrow> (path \<times> string) option \<Rightarrow> tree \<Rightarrow> tree \<Rightarrow> bool" where
  "wrote fv out t t' = (t' = (case out of None \<Rightarrow> t | Some (target, data) \<Rightarrow> replace_file target data (fv_now fv) t))"

lemma save_checked_tree:
  assumes "save_checked fv cu f rel target current data s = (r, s', out)" "quiet_git (fv_git fv)"
  shows "wrote fv out (gw_tree (snd s)) (gw_tree (snd s'))"
proof -
  obtain head w1 where 1: "git_head (fv_git fv) (fv_home fv) (snd s) = (head, w1)" by fastforce
  have w1: "gw_tree w1 = gw_tree (snd s)" by (rule quiet_reads(3) [OF assms(2) 1])
  let ?w = "written_tree fv target data w1"
  have "gw_tree (snd (snd (save_commit fv cu rel target data (fst s, ?w)))) = gw_tree ?w"
    using save_commit_tree [OF assms(2), of cu rel target data "(fst s, ?w)"] by simp
  then show ?thesis
    using assms(1) w1 unfolding save_checked_def 1 Let_def prod.case
    by (auto simp: wrote_def written_tree_def nothing_state split: if_splits prod.splits)
qed

lemma save_body_tree:
  assumes "save_body fv cu f rel target s = (r, s', out)" "quiet_git (fv_git fv)"
  shows "wrote fv out (gw_tree (snd s)) (gw_tree (snd s'))"
proof (cases "bytes_at (gw_tree (snd s)) target")
  case None
  then show ?thesis using assms(1) by (auto simp: save_body_def nothing_state wrote_def)
next
  case (Some current)
  obtain b w1 where 1: "is_checkout (fv_git fv) (fv_home fv) (snd s) = (b, w1)" by fastforce
  have w1: "gw_tree w1 = gw_tree (snd s)" by (rule quiet_reads(2) [OF assms(2) 1])
  show ?thesis
    using assms(1) w1 save_checked_tree [OF _ assms(2), of cu f rel target current "form_get f ''content''" "(fst s, w1)"]
    unfolding save_body_def Some 1 Let_def option.case prod.case
    by (auto simp: nothing_state wrote_def split: if_splits bool.splits)
qed

lemma save_checked_written:
  assumes "save_checked fv cu f rel target current data s = (r, s', Some x)"
  shows "x = (target, data) \<and> form_get f ''base_hash'' = fv_sha fv current
    \<and> base_matches f (fst (git_head (fv_git fv) (fv_home fv) (snd s)))"
  using assms unfolding save_checked_def Let_def
  by (cases "git_head (fv_git fv) (fv_home fv) (snd s)") (auto split: if_splits prod.splits)

lemma save_body_written:
  assumes "save_body fv cu f rel target s = (r, s', Some x)"
  shows "\<exists>current. bytes_at (gw_tree (snd s)) target = Some current \<and> editable_bytes current
    \<and> x = (target, form_get f ''content'') \<and> int (length (form_get f ''content'')) \<le> MAX_BYTES_FILE
    \<and> form_get f ''content'' \<noteq> current \<and> form_get f ''base_hash'' = fv_sha fv current"
proof -
  obtain current where c: "bytes_at (gw_tree (snd s)) target = Some current"
    using assms by (cases "bytes_at (gw_tree (snd s)) target") (auto simp: save_body_def)
  note B = assms [unfolded save_body_def c option.case Let_def]
  obtain w1 where w1: "is_checkout (fv_git fv) (fv_home fv) (snd s) = (True, w1)"
    "save_checked fv cu f rel target current (form_get f ''content'') (fst s, w1) = (r, s', Some x)"
    "editable_bytes current" "int (length (form_get f ''content'')) \<le> MAX_BYTES_FILE" "form_get f ''content'' \<noteq> current"
    using B by (cases "is_checkout (fv_git fv) (fv_home fv) (snd s)") (auto split: if_splits bool.splits)
  show ?thesis using save_checked_written [OF w1(2)] w1(3-5) c by blast
qed

lemma map_of_filter_key: "map_of (filter (\<lambda>(p, _). p \<noteq> k) l) q = (if q = k then None else map_of l q)"
  by (induction l) auto

text \<open>The bytes after the replacement, path by path.\<close>

definition replaced :: "path \<Rightarrow> string \<Rightarrow> tree \<Rightarrow> tree \<Rightarrow> bool" where
  "replaced target data t t' =
     (case map_of (t_links t) (tmp_beside target) of
        None \<Rightarrow> t_links t' = t_links t \<and> t_dirs t' = t_dirs t
          \<and> (\<forall>p. bytes_at t' p = (if p = target then Some data else if p = tmp_beside target then None else bytes_at t p))
      | Some l \<Rightarrow> t_links t' = (target, l) # filter (\<lambda>(p, _). p \<noteq> tmp_beside target) (t_links t) \<and> t_dirs t' = t_dirs t
          \<and> (\<forall>p. bytes_at t' p = (if p = target then None else if p = resolve t (tmp_beside target) then Some data
                                   else bytes_at t p)))"

lemma replace_file_replaced: "replaced target data t (replace_file target data now t)"
  by (auto simp: replaced_def replace_file_def put_bytes_def bytes_at_def map_of_assoc_set map_of_filter_key split: option.split)


text \<open>Passing the gates of a save.\<close>

lemma roles_pass:
  assumes "rbac_mode e (c_db c) = ''scoped''" and "role_floor roles = Inr n" and "p \<in> LEGACY_FLOOR_PERMS n"
    and "authorize e (c_memo c) (c_db c) u p None None"
  shows "pass_gate (roles_required first e u roles) c = Inr (touch u c)"
  using assms by (auto simp: pass_gate_def roles_required_def Let_def)

lemma require_pass:
  assumes "rbac_mode e (c_db c) = ''scoped''" and "authorize e (c_memo c) (c_db c) u p m pre"
  shows "pass_gate (require e u p m pre d) (touch u c) = Inr (touch u (touch u c))"
proof -
  have "c_db (touch u c) = c_db c" by (simp add: touch_def)
  moreover have "authorize e (c_memo (touch u c)) (c_db c) u p m pre" using assms(2) authorize_touched [of "touch u c" c u] by blast
  ultimately show ?thesis using assms(1) by (simp add: pass_gate_def require_def)
qed

text \<open>Who may edit below \<open>web\<close> alone replaces a file of the pillar.\<close>

definition dotted_form :: form where
  "dotted_form = (\<lambda>_. [])(''path'' := [''web/../pillar/secret.sls''], ''content'' := [''key: new''], ''base_sha'' := [''a1b2c3d''],
     ''base_hash'' := [rev ''key: old''])"


end
