(* ===== verification/RepoClone.thy ===== *)
theory RepoClone
  imports FileViews
begin

text \<open>
  The file operations of \<open>overstate_ui/git_sync.py\<close> on a tree: clearing a directory, staging beside the
  checkout, moving what was staged into place, the token slot, and the exclude file. A step of the file
  system may fail; what it leaves then is an argument of the model. \<open>ck_temp\<close> is the file \<open>mkstemp\<close> names; the exclude
  file can be read and written.
\<close>

record clone_env =
  ck_files :: file_env
  ck_fault :: "string \<Rightarrow> tree \<Rightarrow> tree option"
  ck_today :: string
  ck_temp :: path

abbreviation ck_git :: "clone_env \<Rightarrow> git" where "ck_git e \<equiv> fv_git (ck_files e)"
abbreviation ck_home :: "clone_env \<Rightarrow> path" where "ck_home e \<equiv> fv_home (ck_files e)"
abbreviation ck_free :: "clone_env \<Rightarrow> bool" where "ck_free e \<equiv> fv_free (ck_files e)"
abbreviation ck_now :: "clone_env \<Rightarrow> int" where "ck_now e \<equiv> fv_now (ck_files e)"

definition srv_of :: "clone_env \<Rightarrow> path" where "srv_of e = butlast (ck_home e)"

definition name_of :: "path \<Rightarrow> string" where "name_of p = (if p = [] then [] else last p)"

definition path_str :: "path \<Rightarrow> string" where "path_str p = ''/'' @ py_join ''/'' p"

definition credentials_file :: "clone_env \<Rightarrow> path" where "credentials_file e = srv_of e @ [CREDENTIALS_NAME]"

definition exclude_file :: "clone_env \<Rightarrow> path" where "exclude_file e = srv_of e @ [''.git'', ''info'', ''exclude'']"

text \<open>The sibling of the checkout that a clone is staged in.\<close>

definition staged_at :: "clone_env \<Rightarrow> string \<Rightarrow> path" where
  "staged_at e ext = butlast (srv_of e) @ [name_of (srv_of e) @ ext]"

section \<open>Steps on a tree\<close>

definition all_paths :: "tree \<Rightarrow> path list" where
  "all_paths t = map fst (t_files t) @ map fst (t_links t) @ t_dirs t"

definition entry_names :: "tree \<Rightarrow> path \<Rightarrow> string list" where
  "entry_names t p = remdups (map (\<lambda>q. q ! length p) (filter (strict_prefix p) (all_paths t)))"

definition lexists :: "tree \<Rightarrow> path \<Rightarrow> bool" where
  "lexists t p = (is_file t p \<or> map_of (t_links t) p \<noteq> None \<or> is_directory t p)"

definition keep_paths :: "(path \<Rightarrow> bool) \<Rightarrow> tree \<Rightarrow> tree" where
  "keep_paths P t = \<lparr>t_files = filter (\<lambda>(p, _). P p) (t_files t), t_links = filter (\<lambda>(p, _). P p) (t_links t),
                     t_dirs = filter P (t_dirs t)\<rparr>"

definition rm_tree :: "path \<Rightarrow> tree \<Rightarrow> tree" where
  "rm_tree p = keep_paths (\<lambda>q. \<not> prefix p q)"

definition clear_under :: "path \<Rightarrow> string set \<Rightarrow> tree \<Rightarrow> tree" where
  "clear_under p keep = keep_paths (\<lambda>q. \<not> (strict_prefix p q \<and> q ! length p \<notin> keep))"

definition moved_path :: "path \<Rightarrow> path \<Rightarrow> path \<Rightarrow> path" where
  "moved_path src dst q = (if prefix src q then dst @ drop (length src) q else q)"

text \<open>A rename takes the place of a file or a link at its target.\<close>

definition rename_tree :: "path \<Rightarrow> path \<Rightarrow> tree \<Rightarrow> tree" where
  "rename_tree src dst t =
     (let u = rm_tree dst t; m = moved_path src dst
      in \<lparr>t_files = map (\<lambda>(p, x). (m p, x)) (t_files u), t_links = map (\<lambda>(p, x). (m p, x)) (t_links u),
          t_dirs = map m (t_dirs u)\<rparr>)"

definition make_dirs :: "path \<Rightarrow> tree \<Rightarrow> tree" where
  "make_dirs p t =
     t\<lparr>t_dirs := t_dirs t @ filter (\<lambda>q. \<not> is_directory t q) (map (\<lambda>k. take k p) [1..<Suc (length p)])\<rparr>"

definition try_step :: "clone_env \<Rightarrow> string \<Rightarrow> (tree \<Rightarrow> tree) \<Rightarrow> gworld \<Rightarrow> bool \<times> gworld" where
  "try_step e label f w =
     (case ck_fault e label (gw_tree w) of
        Some t \<Rightarrow> (False, w\<lparr>gw_tree := t\<rparr>) | None \<Rightarrow> (True, w\<lparr>gw_tree := f (gw_tree w)\<rparr>))"

section \<open>Directories\<close>

text \<open>\<open>_clear_dir\<close>: the directory stays, with what is named in \<open>keep\<close>.\<close>

definition clear_dir :: "clone_env \<Rightarrow> string \<Rightarrow> path \<Rightarrow> string set \<Rightarrow> gworld \<Rightarrow> bool \<times> gworld" where
  "clear_dir e label p keep w =
     (let q = resolve (gw_tree w) p
      in if \<not> is_directory (gw_tree w) q then (False, w) else try_step e label (clear_under q keep) w)"

definition rm_dir :: "clone_env \<Rightarrow> path \<Rightarrow> gworld \<Rightarrow> bool \<times> gworld" where
  "rm_dir e p w =
     (if p \<notin> set (t_dirs (gw_tree w)) \<or> entry_names (gw_tree w) p \<noteq> [] then (False, w)
      else try_step e ''rmdir'' (rm_tree p) w)"

definition drop_staged :: "clone_env \<Rightarrow> path \<Rightarrow> gworld \<Rightarrow> gworld" where
  "drop_staged e tmp w = snd (rm_dir e tmp (snd (clear_dir e ''clear-stage'' tmp {} w)))"

text \<open>What an earlier attempt left goes first.\<close>

definition prepare_stage :: "clone_env \<Rightarrow> path \<Rightarrow> gworld \<Rightarrow> bool \<times> gworld" where
  "prepare_stage e tmp w =
     (if \<not> exists_at (gw_tree w) tmp then (True, w)
      else
        (case clear_dir e ''clear-stage'' tmp {} w of
           (False, w1) \<Rightarrow> (False, w1)
         | (True, w1) \<Rightarrow> if exists_at (gw_tree w1) tmp then rm_dir e tmp w1 else (True, w1)))"

text \<open>\<open>shutil.move\<close>: into a directory that is there, else in its place.\<close>

definition move_entry :: "clone_env \<Rightarrow> path \<Rightarrow> path \<Rightarrow> gworld \<Rightarrow> bool \<times> gworld" where
  "move_entry e src dst w =
     (let t = gw_tree w; q = resolve t dst
      in if is_directory t q
         then (if exists_at t (q @ [name_of src]) then (False, w) else try_step e ''move'' (rename_tree src (q @ [name_of src])) w)
         else if is_directory t src \<and> lexists t dst then (False, w)
         else try_step e ''move'' (rename_tree src dst) w)"

fun move_entries :: "clone_env \<Rightarrow> path \<Rightarrow> path \<Rightarrow> string set \<Rightarrow> string list \<Rightarrow> gworld \<Rightarrow> bool \<times> gworld" where
  "move_entries e src dst keep [] w = (True, w)"
| "move_entries e src dst keep (n # ns) w =
     (case (if n \<in> keep \<and> exists_at (gw_tree w) (dst @ [n]) then try_step e ''drop'' (rm_tree (src @ [n])) w
            else move_entry e (src @ [n]) (dst @ [n]) w) of
        (False, w1) \<Rightarrow> (False, w1)
      | (True, w1) \<Rightarrow> move_entries e src dst keep ns w1)"

definition move_staged :: "clone_env \<Rightarrow> path \<Rightarrow> path \<Rightarrow> string set \<Rightarrow> gworld \<Rightarrow> bool \<times> gworld" where
  "move_staged e tmp dest keep w =
     (case try_step e ''mkdir'' (make_dirs dest) w of
        (False, w1) \<Rightarrow> (False, w1)
      | (True, w1) \<Rightarrow>
          (case move_entries e tmp dest keep (entry_names (gw_tree w1) tmp) w1 of
             (False, w2) \<Rightarrow> (False, w2)
           | (True, w2) \<Rightarrow> rm_dir e tmp w2))"

text \<open>Everything below a directory, by relative name.\<close>

definition tree_names :: "tree \<Rightarrow> path \<Rightarrow> string list" where
  "tree_names t p = sort (map (\<lambda>q. py_join ''/'' (drop (length p) q)) (filter (strict_prefix p) (all_paths t)))"

section \<open>The token slot and the excludes\<close>

definition write_file :: "clone_env \<Rightarrow> string \<Rightarrow> path \<Rightarrow> string \<Rightarrow> gworld \<Rightarrow> bool \<times> gworld" where
  "write_file e label p data w =
     try_step e label (put_bytes (resolve (gw_tree w) p) data (ck_now e)) w"

definition has_token :: "clone_env \<Rightarrow> gworld \<Rightarrow> bool" where
  "has_token e w = is_file (gw_tree w) (resolve (gw_tree w) (credentials_file e))"

definition credential_line :: "string \<Rightarrow> string \<Rightarrow> string" where
  "credential_line token host = ''https://x:'' @ token @ ''@'' @ host @ [CHR 0x0A]"

definition save_token :: "clone_env \<Rightarrow> string \<Rightarrow> string \<Rightarrow> gworld \<Rightarrow> string option \<times> gworld" where
  "save_token e token host w =
     (if \<not> validate_token token then (Some ''that token cannot be stored safely'', w)
      else if host = [] \<or> list_ex is_space host then (Some ''that host cannot be used'', w)
      else
        (case write_file e ''token'' (credentials_file e) (credential_line token host) w of
           (ok, w1) \<Rightarrow> (if ok then None else Some ''could not store the token'', w1)))"

definition clear_token :: "clone_env \<Rightarrow> gworld \<Rightarrow> string option \<times> gworld" where
  "clear_token e w =
     (case try_step e ''unlink'' (rm_tree (credentials_file e)) w of
        (False, w1) \<Rightarrow> (Some ''could not clear the token'', w1)
      | (True, w1) \<Rightarrow>
          (case is_checkout (ck_git e) (ck_home e) w1 of
             (False, w2) \<Rightarrow> (None, w2)
           | (True, w2) \<Rightarrow> (None, snd (run_git (ck_git e) (ck_home e) [''config'', ''--unset'', ''credential.helper''] w2))))"

definition read_excludes :: "clone_env \<Rightarrow> gworld \<Rightarrow> string list" where
  "read_excludes e w =
     (case bytes_at (gw_tree w) (resolve (gw_tree w) (exclude_file e)) of None \<Rightarrow> [] | Some s \<Rightarrow> lines_of s)"

definition write_excludes :: "clone_env \<Rightarrow> string list \<Rightarrow> gworld \<Rightarrow> gworld" where
  "write_excludes e ls w =
     (let t = make_dirs (butlast (exclude_file e)) (gw_tree w)
      in w\<lparr>gw_tree := put_bytes (resolve t (exclude_file e)) (py_join [CHR 0x0A] ls @ [CHR 0x0A]) (ck_now e) t\<rparr>)"

definition add_formula_exclude :: "clone_env \<Rightarrow> string \<Rightarrow> gworld \<Rightarrow> gworld" where
  "add_formula_exclude e n w =
     (let ls = read_excludes e w; new = add_exclude (ck_today e) n ls in if new = ls then w else write_excludes e new w)"

definition remove_formula_exclude :: "clone_env \<Rightarrow> string \<Rightarrow> gworld \<Rightarrow> gworld" where
  "remove_formula_exclude e n w = write_excludes e (remove_exclude n (read_excludes e w)) w"

text \<open>
  The clone and the re-clone of \<open>overstate_ui/git_sync.py\<close>: both stage a fresh clone beside the checkout
  and only then touch what is there. Commands that git leaves running past their timeout count as failed.
\<close>

definition helper_value :: "path \<Rightarrow> string" where "helper_value p = ''store --file '' @ path_str p"

definition helper_arg :: "path \<Rightarrow> string" where "helper_arg p = ''credential.helper='' @ helper_value p"

definition given :: "string option \<Rightarrow> bool" where "given x = (or_empty x \<noteq> [])"

definition clone_argv :: "string list \<Rightarrow> string \<Rightarrow> string option \<Rightarrow> path \<Rightarrow> string list" where
  "clone_argv front url branch dest =
     front @ [''clone''] @ (if given branch then [''--branch'', or_empty branch] else []) @ [''--'', url, path_str dest]"

definition git_clone :: "clone_env \<Rightarrow> path \<Rightarrow> string \<Rightarrow> string option \<Rightarrow> string option \<Rightarrow> gworld \<Rightarrow> string option \<times> gworld" where
  "git_clone e dest url branch token w =
     (let front = (if given token then [''-c'', helper_arg (credentials_file e)] else [])
      in case try_step e ''mkdir'' (make_dirs (butlast dest)) w of
           (False, w1) \<Rightarrow> (Some ''cannot prepare the checkout directory'', w1)
         | (True, w1) \<Rightarrow>
             (case run_git (ck_git e) (butlast dest) (clone_argv front url branch dest) w1 of
                (p, w2) \<Rightarrow>
                  if \<not> proc_ok p then (Some (git_failure p ''git clone failed''), w2)
                  else if given token \<or> has_token e w2
                  then (case run_git (ck_git e) dest
                               [''config'', ''credential.helper'', helper_value (credentials_file e)] w2 of
                          (q, w3) \<Rightarrow> (if proc_ok q then None else Some ''cloned, but credentials did not stick'', w3))
                  else (None, w2)))"

definition stage_clone :: "clone_env \<Rightarrow> string \<Rightarrow> string option \<Rightarrow> string option \<Rightarrow> gworld \<Rightarrow> (string + path) \<times> gworld" where
  "stage_clone e url branch token w =
     (let tmp = staged_at e ''.__clone_tmp''
      in case prepare_stage e tmp w of
           (False, w1) \<Rightarrow> (Inl ''cannot clear a previous attempt'', w1)
         | (True, w1) \<Rightarrow>
             (case git_clone e tmp url branch token w1 of
                (Some reason, w2) \<Rightarrow> (Inl reason, drop_staged e tmp w2)
              | (None, w2) \<Rightarrow> (Inr tmp, w2)))"

text \<open>The branch is checked once more below the public functions.\<close>

definition checked_branch :: "string option \<Rightarrow> string option option" where
  "checked_branch b =
     (case b of None \<Rightarrow> Some None | Some s \<Rightarrow> (case validate_branch s of Inr (Some x) \<Rightarrow> Some (Some x) | _ \<Rightarrow> None))"

datatype clone_result = CloneRefused string | ConfirmReplace "string list" | Cloned "string list"

section \<open>Clone\<close>

definition install_clone :: "clone_env \<Rightarrow> string list \<Rightarrow> path \<Rightarrow> gworld \<Rightarrow> clone_result \<times> gworld" where
  "install_clone e doomed tmp w =
     (case (if lexists (gw_tree w) (ck_home e) then try_step e ''clear'' (rm_tree (ck_home e)) w else (True, w)) of
        (False, w1) \<Rightarrow> (CloneRefused ''cannot clear the old checkout'', drop_staged e tmp w1)
      | (True, w1) \<Rightarrow>
          (case move_staged e tmp (srv_of e) {''reactor''} w1 of
             (ok, w2) \<Rightarrow> (if ok then Cloned doomed else CloneRefused ''cannot install the fresh clone'', w2)))"

definition clone_body :: "clone_env \<Rightarrow> string \<Rightarrow> string option \<Rightarrow> string option \<Rightarrow> bool \<Rightarrow> gworld \<Rightarrow> clone_result \<times> gworld" where
  "clone_body e url branch token replace w =
     (case checked_branch branch of
        None \<Rightarrow> (CloneRefused ''that branch name cannot be used'', w)
      | Some b \<Rightarrow>
          (case is_checkout (ck_git e) (ck_home e) w of
             (True, w1) \<Rightarrow> (CloneRefused ''already a git checkout; use re-clone'', w1)
           | (False, w1) \<Rightarrow>
               (let t = gw_tree w1; doomed = (if lexists t (ck_home e) then tree_names t (ck_home e) else [])
                in if ck_fault e ''list'' t \<noteq> None then (CloneRefused ''cannot read the checkout directory'', w1)
                   else if \<not> set (entry_names t (srv_of e)) \<subseteq> {name_of (ck_home e), ''reactor'', CREDENTIALS_NAME}
                   then (CloneRefused ''directory not empty; re-clone to replace it'', w1)
                   else if doomed \<noteq> [] \<and> \<not> replace then (ConfirmReplace doomed, w1)
                   else
                     (case stage_clone e url b token w1 of
                        (Inl reason, w2) \<Rightarrow> (CloneRefused reason, w2)
                      | (Inr tmp, w2) \<Rightarrow> install_clone e doomed tmp w2))))"

text \<open>The checks of the public functions: the URL with its host, the branch, and that a token suits.\<close>

definition clone_request :: "string \<Rightarrow> string \<Rightarrow> string option \<Rightarrow> string + string option \<times> string option" where
  "clone_request url branch token =
     (case validate_repo_url (py_strip url) of
        Inl reason \<Rightarrow> Inl reason
      | Inr host \<Rightarrow>
          (case validate_branch branch of
             Inl reason \<Rightarrow> Inl reason
           | Inr b \<Rightarrow>
               if given token \<and> host = None then Inl ''tokens are for https URLs - SSH uses deploy keys''
               else if given token \<and> \<not> validate_token (or_empty token) then Inl ''that token cannot be stored safely''
               else Inr (host, b)))"

definition clone_repo :: "clone_env \<Rightarrow> string \<Rightarrow> string \<Rightarrow> string option \<Rightarrow> bool \<Rightarrow> gworld \<Rightarrow> clone_result \<times> gworld" where
  "clone_repo e url branch token replace w =
     (case clone_request url branch token of
        Inl reason \<Rightarrow> (CloneRefused reason, w)
      | Inr (host, b) \<Rightarrow>
          if \<not> ck_free e then (CloneRefused SYNC_RUNNING, w)
          else
            (case clone_body e (py_strip url) b token replace w of
               (Cloned doomed, w1) \<Rightarrow>
                 if given token
                 then (case save_token e (or_empty token) (or_empty host) w1 of
                         (None, w2) \<Rightarrow> (Cloned doomed, w2)
                       | (Some _, w2) \<Rightarrow> (CloneRefused ''cloned, but the token did not store'', w2))
                 else (Cloned doomed, w1)
             | other \<Rightarrow> other))"

section \<open>Re-clone\<close>

text \<open>What is there goes only once the fresh clone is staged; a re-clone replaces no names it reports.\<close>

definition install_reclone :: "clone_env \<Rightarrow> path \<Rightarrow> gworld \<Rightarrow> clone_result \<times> gworld" where
  "install_reclone e tmp w =
     (case (if exists_at (gw_tree w) (srv_of e) then clear_dir e ''clear'' (srv_of e) {''reactor'', CREDENTIALS_NAME} w else (True, w)) of
        (False, w1) \<Rightarrow> (CloneRefused ''cannot clear the old checkout'', drop_staged e tmp w1)
      | (True, w1) \<Rightarrow>
          (case move_staged e tmp (srv_of e) {''reactor''} w1 of
             (ok, w2) \<Rightarrow> (if ok then Cloned [] else CloneRefused ''cannot install the fresh clone'', w2)))"

text \<open>The commits a re-clone would lose, as a reason to refuse.\<close>

definition unpushed :: "clone_env \<Rightarrow> bool \<Rightarrow> gworld \<Rightarrow> string option \<times> gworld" where
  "unpushed e force w =
     (if force then (None, w)
      else
        (case is_checkout (ck_git e) (ck_home e) w of
           (False, w1) \<Rightarrow> (None, w1)
         | (True, w1) \<Rightarrow>
             (case ahead_count (ck_git e) (ck_home e) w1 of
                (None, w2) \<Rightarrow> (Some ''cannot reach the remote'', w2)
              | (Some n, w2) \<Rightarrow> (if 0 < n then Some UNPUSHED else None, w2))))"

definition reclone_body :: "clone_env \<Rightarrow> string \<Rightarrow> string option \<Rightarrow> string option \<Rightarrow> bool \<Rightarrow> gworld \<Rightarrow> clone_result \<times> gworld" where
  "reclone_body e url branch token force w =
     (case checked_branch branch of
        None \<Rightarrow> (CloneRefused ''that branch name cannot be used'', w)
      | Some b \<Rightarrow>
          (case unpushed e force w of
             (Some reason, w1) \<Rightarrow> (CloneRefused reason, w1)
           | (None, w1) \<Rightarrow>
               (case stage_clone e url b token w1 of
                  (Inl reason, w2) \<Rightarrow> (CloneRefused reason, w2)
                | (Inr tmp, w2) \<Rightarrow> install_reclone e tmp w2)))"

definition reclone_repo :: "clone_env \<Rightarrow> string \<Rightarrow> string \<Rightarrow> string option \<Rightarrow> bool \<Rightarrow> gworld \<Rightarrow> clone_result \<times> gworld" where
  "reclone_repo e url branch token force w =
     (case clone_request url branch token of
        Inl reason \<Rightarrow> (CloneRefused reason, w)
      | Inr (host, b) \<Rightarrow>
          if \<not> ck_free e then (CloneRefused SYNC_RUNNING, w)
          else
            (case reclone_body e (py_strip url) b token force w of
               (Cloned names, w1) \<Rightarrow>
                 if given token
                 then (case save_token e (or_empty token) (or_empty host) w1 of
                         (None, w2) \<Rightarrow> (Cloned names, w2)
                       | (Some _, w2) \<Rightarrow> (CloneRefused ''re-cloned, but the token did not store'', w2))
                 else (Cloned names, w1)
             | other \<Rightarrow> other))"

end
