(* ===== verification/Formulas.thy ===== *)
theory Formulas
  imports RepoClone
begin

text \<open>
  The formulas of \<open>overstate_ui/git_sync.py\<close>: a formula is cloned beside the checkout, moved to
  \<open>salt/<name>/\<close> without its \<open>.git\<close>, and excluded from the repository around it.
\<close>

definition TOKENS_HTTPS :: string where "TOKENS_HTTPS = ''tokens are for https URLs - SSH uses deploy keys''"

definition formula_dir :: "clone_env \<Rightarrow> string \<Rightarrow> path" where "formula_dir e n = ck_home e @ [n]"

definition dir_at :: "tree \<Rightarrow> path \<Rightarrow> bool" where "dir_at t p = is_directory t (resolve t p)"

definition file_at :: "tree \<Rightarrow> path \<Rightarrow> bool" where "file_at t p = is_file t (resolve t p)"

definition formula_at :: "tree \<Rightarrow> path \<Rightarrow> bool" where "formula_at t p = file_at t (p @ [''init.sls''])"

definition list_formula_dirs :: "clone_env \<Rightarrow> tree \<Rightarrow> string list" where
  "list_formula_dirs e t =
     (if \<not> is_directory t (ck_home e) then []
      else sort (filter (\<lambda>n. is_directory t (formula_dir e n) \<and> \<not> starts_with ''.'' n \<and> formula_at t (formula_dir e n))
                   (entry_names t (ck_home e))))"

definition formula_in_top :: "clone_env \<Rightarrow> string \<Rightarrow> tree \<Rightarrow> bool" where
  "formula_in_top e n t =
     (case bytes_at t (resolve t (ck_home e @ [''top.sls''])) of None \<Rightarrow> False | Some s \<Rightarrow> py_contains n s)"

section \<open>The source\<close>

text \<open>The credentials of a clone: nothing, the shared slot, or a file for this clone only.\<close>

definition source_front :: "clone_env \<Rightarrow> string \<Rightarrow> string \<Rightarrow> string option \<Rightarrow> gworld \<Rightarrow> (string + string list) \<times> gworld" where
  "source_front e url auth token w =
     (if auth = ''token''
      then
        (if \<not> given token then (Inl ''enter a token for this clone'', w)
         else
           (case (if starts_with ''https://'' url then validate_repo_url url else Inr None) of
              Inr (Some host) \<Rightarrow>
                (case write_file e ''creds'' (ck_temp e) (credential_line (or_empty token) host) w of
                   (False, w1) \<Rightarrow> (Inl ''could not stage credentials'', w1)
                 | (True, w1) \<Rightarrow> (Inr [''-c'', helper_arg (ck_temp e)], w1))
            | _ \<Rightarrow> (Inl TOKENS_HTTPS, w)))
      else if auth = ''shared'' \<and> has_token e w then (Inr [''-c'', helper_arg (credentials_file e)], w)
      else (Inr [], w))"

definition source_argv :: "string list \<Rightarrow> string \<Rightarrow> string option \<Rightarrow> path \<Rightarrow> string list" where
  "source_argv front url branch dest =
     front @ [''clone'', ''--depth'', ''1''] @ (if given branch then [''--branch'', or_empty branch] else [])
     @ [''--'', url, path_str dest]"

definition fetch_source :: "clone_env \<Rightarrow> path \<Rightarrow> string list \<Rightarrow> gworld \<Rightarrow> (string + path \<times> string option) \<times> gworld" where
  "fetch_source e tmp argv w =
     (case try_step e ''mkdir'' (make_dirs (butlast (srv_of e))) w of
        (False, w1) \<Rightarrow> (Inl ''cannot prepare the checkout directory'', w1)
      | (True, w1) \<Rightarrow>
          (case run_git (ck_git e) (butlast (srv_of e)) argv w1 of
             (p, w2) \<Rightarrow>
               if \<not> proc_ok p then (Inl (git_failure p ''git clone failed''), drop_staged e tmp w2)
               else (case run_git (ck_git e) tmp [''rev-parse'', ''HEAD''] w2 of (s, w3) \<Rightarrow> (Inr (tmp, word s), w3))))"

text \<open>The credential file goes in every case.\<close>

definition clone_formula_source :: "clone_env \<Rightarrow> string \<Rightarrow> string option \<Rightarrow> string \<Rightarrow> string option \<Rightarrow> gworld
    \<Rightarrow> (string + path \<times> string option) \<times> gworld" where
  "clone_formula_source e url branch auth token w =
     (let tmp = staged_at e ''.__formula_tmp''
      in case prepare_stage e tmp w of
           (False, w1) \<Rightarrow> (Inl ''cannot clear a previous attempt'', w1)
         | (True, w1) \<Rightarrow>
             (case source_front e url auth token w1 of
                (Inl reason, w2) \<Rightarrow> (Inl reason, w2)
              | (Inr front, w2) \<Rightarrow>
                  (case fetch_source e tmp (source_argv front url branch tmp) w2 of
                     (r, w3) \<Rightarrow>
                       (r, if auth = ''token'' then snd (try_step e ''unlink'' (rm_tree (ck_temp e)) w3) else w3))))"

section \<open>Installing\<close>

text \<open>Everything but \<open>.git\<close> moves into a directory that must be new.\<close>

definition move_formula_contents :: "clone_env \<Rightarrow> path \<Rightarrow> path \<Rightarrow> gworld \<Rightarrow> bool \<times> gworld" where
  "move_formula_contents e src dest w =
     (if lexists (gw_tree w) dest then (False, w)
      else
        (case try_step e ''mkdir'' (make_dirs dest) w of
           (False, w1) \<Rightarrow> (False, w1)
         | (True, w1) \<Rightarrow> move_entries e src dest {} (filter (\<lambda>n. n \<noteq> ''.git'') (entry_names (gw_tree w1) src)) w1))"

text \<open>The subdirectory of the formula's name, where it holds one.\<close>

definition formula_src :: "tree \<Rightarrow> path \<Rightarrow> string \<Rightarrow> path" where
  "formula_src t tmp n = (if dir_at t (tmp @ [n]) \<and> formula_at t (tmp @ [n]) then tmp @ [n] else tmp)"

definition NO_INIT :: string where "NO_INIT = ''that repo has no init.sls at its root''"

definition install_formula_tree :: "clone_env \<Rightarrow> path \<Rightarrow> string \<Rightarrow> gworld \<Rightarrow> string option \<times> gworld" where
  "install_formula_tree e tmp n w =
     (let dest = formula_dir e n; src = formula_src (gw_tree w) tmp n
      in if lexists (gw_tree w) dest
         then (Some (CHR 0x27 # n @ ''/'' @ [CHR 0x27] @ '' already exists''), drop_staged e tmp w)
         else if \<not> formula_at (gw_tree w) src then (Some NO_INIT, drop_staged e tmp w)
         else
           (case (case try_step e ''mkdir'' (make_dirs (ck_home e)) w of
                    (False, w1) \<Rightarrow> (False, w1) | (True, w1) \<Rightarrow> move_formula_contents e src dest w1) of
              (True, w2) \<Rightarrow> (None, drop_staged e tmp w2)
            | (False, w2) \<Rightarrow>
                (let w3 = drop_staged e tmp w2;
                     w4 = (if dir_at (gw_tree w3) dest \<and> entry_names (gw_tree w3) dest = [] then snd (rm_dir e dest w3) else w3)
                 in (Some ''cannot install the formula tree'', drop_staged e tmp w4))))"

text \<open>The checks in front of a vendored or an updated formula.\<close>

definition formula_request :: "string \<Rightarrow> string \<Rightarrow> string option \<Rightarrow> string \<Rightarrow> string option \<Rightarrow> string + string \<times> string option" where
  "formula_request name url branch auth token =
     (case validate_formula_name name of
        Inl reason \<Rightarrow> Inl reason
      | Inr n \<Rightarrow>
          (case validate_repo_url (py_strip url) of
             Inl reason \<Rightarrow> Inl reason
           | Inr host \<Rightarrow>
               (case validate_branch (or_empty branch) of
                  Inl reason \<Rightarrow> Inl reason
                | Inr b \<Rightarrow>
                    if auth \<notin> set [''shared'', ''token'', ''ssh''] then Inl ''pick how to authenticate''
                    else if auth = ''token'' \<and> host = None then Inl TOKENS_HTTPS
                    else if auth = ''token'' \<and> \<not> validate_token (or_empty token) then Inl ''that token cannot be used safely''
                    else Inr (n, b))))"

text \<open>A vendored formula comes with the commit it was cloned at.\<close>

definition vendor_formula :: "clone_env \<Rightarrow> string \<Rightarrow> string \<Rightarrow> string option \<Rightarrow> string \<Rightarrow> string option \<Rightarrow> gworld
    \<Rightarrow> (string + string \<times> string option) \<times> gworld" where
  "vendor_formula e name url branch auth token w =
     (case formula_request name url branch auth token of
        Inl reason \<Rightarrow> (Inl reason, w)
      | Inr (n, b) \<Rightarrow>
          if \<not> ck_free e then (Inl SYNC_RUNNING, w)
          else
            (case is_checkout (ck_git e) (ck_home e) w of
               (False, w1) \<Rightarrow> (Inl NOT_CHECKOUT, w1)
             | (True, w1) \<Rightarrow>
                 (case clone_formula_source e (py_strip url) b auth (Some (py_strip (or_empty token))) w1 of
                    (Inl reason, w2) \<Rightarrow> (Inl reason, w2)
                  | (Inr (tmp, sha), w2) \<Rightarrow>
                      (case install_formula_tree e tmp n w2 of
                         (Some reason, w3) \<Rightarrow> (Inl reason, w3)
                       | (None, w3) \<Rightarrow> (Inr (n, sha), add_formula_exclude e n w3)))))"

definition not_installed :: "string \<Rightarrow> string" where
  "not_installed n = CHR 0x27 # n @ ''/'' @ [CHR 0x27] @ '' is not installed''"

text \<open>The old tree goes before the new one is moved: what fails then leaves the formula without files.\<close>

definition replace_formula :: "clone_env \<Rightarrow> path \<Rightarrow> string \<Rightarrow> gworld \<Rightarrow> string option \<times> gworld" where
  "replace_formula e tmp n w =
     (let dest = formula_dir e n; src = formula_src (gw_tree w) tmp n
      in if \<not> formula_at (gw_tree w) src then (Some NO_INIT, drop_staged e tmp w)
         else if map_of (t_links (gw_tree w)) dest \<noteq> None then (Some ''formula path is a symlink'', drop_staged e tmp w)
         else
           (case (case try_step e ''rmtree'' (rm_tree dest) w of
                    (False, w1) \<Rightarrow> (False, w1) | (True, w1) \<Rightarrow> move_formula_contents e src dest w1) of
              (ok, w2) \<Rightarrow> (if ok then None else Some ''cannot install the formula tree'', drop_staged e tmp w2)))"

definition update_formula :: "clone_env \<Rightarrow> string \<Rightarrow> string \<Rightarrow> string option \<Rightarrow> string \<Rightarrow> string option \<Rightarrow> gworld
    \<Rightarrow> (string + string \<times> string option) \<times> gworld" where
  "update_formula e name url branch auth token w =
     (case formula_request name url branch auth token of
        Inl reason \<Rightarrow> (Inl reason, w)
      | Inr (n, b) \<Rightarrow>
          if \<not> ck_free e then (Inl SYNC_RUNNING, w)
          else
            (case is_checkout (ck_git e) (ck_home e) w of
               (False, w1) \<Rightarrow> (Inl NOT_CHECKOUT, w1)
             | (True, w1) \<Rightarrow>
                 if \<not> dir_at (gw_tree w1) (formula_dir e n) then (Inl (not_installed n), w1)
                 else
                   (case clone_formula_source e (py_strip url) b auth (Some (py_strip (or_empty token))) w1 of
                      (Inl reason, w2) \<Rightarrow> (Inl reason, w2)
                    | (Inr (tmp, sha), w2) \<Rightarrow>
                        (case replace_formula e tmp n w2 of
                           (Some reason, w3) \<Rightarrow> (Inl reason, w3)
                         | (None, w3) \<Rightarrow> (Inr (n, sha), add_formula_exclude e n w3)))))"

definition remove_formula_files :: "clone_env \<Rightarrow> string \<Rightarrow> gworld \<Rightarrow> string option \<times> gworld" where
  "remove_formula_files e name w =
     (case validate_formula_name name of
        Inl reason \<Rightarrow> (Some reason, w)
      | Inr n \<Rightarrow>
          if \<not> ck_free e then (Some SYNC_RUNNING, w)
          else
            (case is_checkout (ck_git e) (ck_home e) w of
               (False, w1) \<Rightarrow> (Some NOT_CHECKOUT, w1)
             | (True, w1) \<Rightarrow>
                 (let t = gw_tree w1; dest = formula_dir e n
                  in if map_of (t_links t) dest \<noteq> None then (Some ''formula path is a symlink'', w1)
                     else if \<not> is_directory t dest then (Some (not_installed n), w1)
                     else if \<not> formula_at t dest
                     then (Some (CHR 0x27 # n @ ''/'' @ [CHR 0x27] @ '' is not a formula''), w1)
                     else (None, remove_formula_exclude e n (snd (try_step e ''rmtree'' (rm_tree dest) w1))))))"

end
