(* ===== verification/RepoActions.thy ===== *)
theory RepoActions
  imports FileViews Formulas
begin

text \<open>
  The actions of \<open>overstate_ui/state_repo.py\<close> and \<open>overstate_ui/formulas.py\<close>: first the reset to the
  upstream with its preview and the repointed origin, then the formulas, and last the clone and the
  re-clone, which install the formulas again.
\<close>

definition repo_home :: string where "repo_home = ''state_repo.index''"

definition note_refreshed :: "file_env \<Rightarrow> user \<Rightarrow> string \<Rightarrow> string option \<Rightarrow> fstate \<Rightarrow> fstate" where
  "note_refreshed fv cu verb sha s =
     (let at_sha = verb @ '' at '' @ or_none sha
      in refresh_notice fv cu (at_sha @ ''; master fileserver refreshed.'') (at_sha @ ''.'') s)"

definition short_list :: "string list \<Rightarrow> string" where
  "short_list names =
     (py_join '', '' (take 12 names)
      @ (if 12 < length names then '', and '' @ nat_str (length names - 12) @ '' more'' else []))"

definition repo_gate :: "(string set \<Rightarrow> string) \<Rightarrow> env \<Rightarrow> user \<Rightarrow> ctx \<Rightarrow> (resp \<times> ctx) + ctx" where
  "repo_gate first e cu c = sync_gate first e cu [''admin''] ''file.git'' c"

definition repo_set_remote :: "(string set \<Rightarrow> string) \<Rightarrow> env \<Rightarrow> file_env \<Rightarrow> user \<Rightarrow> form \<Rightarrow> fstate \<Rightarrow> resp \<times> fstate" where
  "repo_set_remote first e fv cu f s =
     (case repo_gate first e cu (fst s) of
        Inl (r, c) \<Rightarrow> (r, (c, snd s))
      | Inr c \<Rightarrow>
          (case set_remote_origin (fv_free fv) (fv_git fv) (fv_home fv) (form_get f ''url'') (snd s) of
             (None, w1) \<Rightarrow> (Redirect repo_home, fnote ''Origin repointed.'' ''success'' (flog cu ''git-set-remote'' (c, w1)))
           | (Some reason, w1) \<Rightarrow>
               (Redirect repo_home,
                flog cu (''git-set-remote-refused:'' @ reason)
                  (fnote (''Repoint refused: '' @ reason @ ''. Nothing changed.'') ''error'' (c, w1)))))"

definition repo_reset ::
  "(string set \<Rightarrow> string) \<Rightarrow> env \<Rightarrow> file_env \<Rightarrow> user \<Rightarrow> form \<Rightarrow> fstate \<Rightarrow> (resp \<times> reset_preview option) \<times> fstate" where
  "repo_reset first e fv cu f s =
     (case repo_gate first e cu (fst s) of
        Inl (r, c) \<Rightarrow> ((r, None), (c, snd s))
      | Inr c \<Rightarrow>
          if form_get f ''confirm'' \<noteq> ''1''
          then
            (case reset_preview_now (fv_git fv) (fv_home fv) (snd s) of
               (Inl reason, w1) \<Rightarrow>
                 ((Redirect repo_home, None),
                  fnote (''Reset refused: '' @ reason @ ''. Nothing changed.'') ''error'' (c, w1))
             | (Inr pv, w1) \<Rightarrow> ((Page, Some pv), (c, w1)))
          else
            (case reset_hard (fv_free fv) (fv_git fv) (fv_home fv) (form_get f ''clean'' = ''1'') (form_get f ''force'' \<noteq> [])
                    (snd s) of
               (Inr new, w1) \<Rightarrow>
                 ((Redirect repo_home, None), note_refreshed fv cu ''Reset'' new (flog cu ''git-reset'' (c, w1)))
             | (Inl reason, w1) \<Rightarrow>
                 ((Redirect repo_home, None),
                  flog cu (''git-reset-refused:'' @ reason)
                    (fnote (''Reset refused: '' @ reason @ ''. Nothing changed.'') ''error'' (c, w1)))))"

text \<open>
  The pages and actions of \<open>overstate_ui/formulas.py\<close>; a row of the page names its formula, the columns
  that repeat the table are left out. The table of formulas stands beside the store, in
  insertion order; git, the file system and the master are those of the clone record.
\<close>

record formula =
  fm_id :: int
  fm_name :: string
  fm_url :: string
  fm_branch :: "string option"
  fm_sha :: "string option"
  fm_created_by :: string

type_synonym forge = "fstate \<times> formula list"

definition formulas_home :: string where "formulas_home = ''formulas.index''"

definition on_fst :: "(fstate \<Rightarrow> fstate) \<Rightarrow> forge \<Rightarrow> forge" where "on_fst f s = (f (fst s), snd s)"

definition formula_note :: "string \<Rightarrow> string \<Rightarrow> forge \<Rightarrow> forge" where "formula_note msg cat = on_fst (fnote msg cat)"

definition formula_log :: "user \<Rightarrow> string \<Rightarrow> forge \<Rightarrow> forge" where "formula_log cu action = on_fst (flog cu action)"

definition with_world :: "gworld \<Rightarrow> forge \<Rightarrow> forge" where "with_world w s = ((fst (fst s), w), snd s)"

definition formula_named :: "string \<Rightarrow> forge \<Rightarrow> formula option" where
  "formula_named n s = find (\<lambda>r. fm_name r = n) (snd s)"

definition add_formula :: "string \<Rightarrow> string \<Rightarrow> string \<Rightarrow> string option \<Rightarrow> user \<Rightarrow> forge \<Rightarrow> forge" where
  "add_formula n url branch sha cu s =
     (fst s,
      snd s @ [\<lparr>fm_id = 1 + fold max (map fm_id (snd s)) 0, fm_name = n, fm_url = url,
                fm_branch = (if branch = [] then None else Some branch), fm_sha = sha, fm_created_by = u_username cu\<rparr>])"

section \<open>The page\<close>

record formula_row =
  fw_name :: string
  fw_tracked :: bool
  fw_present :: bool
  fw_in_top :: bool
  fw_in_git :: bool

text \<open>Tracked formulas by name, then the directories no row tracks, each probed for a commit.\<close>

definition tracked_rows :: "clone_env \<Rightarrow> tree \<Rightarrow> formula list \<Rightarrow> formula_row list" where
  "tracked_rows e t rows =
     (let dirs = list_formula_dirs e t
      in map (\<lambda>r. let p = fm_name r \<in> set dirs
                  in \<lparr>fw_name = fm_name r, fw_tracked = True, fw_present = p,
                      fw_in_top = (p \<and> formula_in_top e (fm_name r) t), fw_in_git = False\<rparr>)
           (sort_key fm_name rows))"

fun untracked_rows :: "clone_env \<Rightarrow> string list \<Rightarrow> gworld \<Rightarrow> formula_row list \<times> gworld" where
  "untracked_rows e [] w = ([], w)"
| "untracked_rows e (n # ns) w =
     (case formula_committed (ck_git e) (ck_home e) n w of
        (c, w1) \<Rightarrow>
          (case untracked_rows e ns w1 of
             (rows, w2) \<Rightarrow>
               (\<lparr>fw_name = n, fw_tracked = False, fw_present = True, fw_in_top = formula_in_top e n (gw_tree w),
                 fw_in_git = c\<rparr> # rows, w2)))"

definition formulas_page :: "clone_env \<Rightarrow> forge \<Rightarrow> formula_row list \<times> forge" where
  "formulas_page e s =
     (let w = snd (fst s); t = gw_tree w
      in case untracked_rows e (filter (\<lambda>n. n \<notin> fm_name ` set (snd s)) (list_formula_dirs e t)) w of
           (rows, w1) \<Rightarrow> (tracked_rows e t (snd s) @ rows, with_world w1 s))"

definition formulas_index :: "env \<Rightarrow> clone_env \<Rightarrow> user \<Rightarrow> forge \<Rightarrow> (resp \<times> formula_row list) \<times> forge" where
  "formulas_index e ce cu s =
     (case pass_gate (require e cu ''file.read'' None None ''no-grant'') (fst (fst s)) of
        Inl (r, c) \<Rightarrow> ((r, []), ((c, snd (fst s)), snd s))
      | Inr c \<Rightarrow> (case formulas_page ce ((c, snd (fst s)), snd s) of (rows, s1) \<Rightarrow> ((Page, rows), s1)))"

text \<open>The files a removal would delete: the walk stops at two hundred names.\<close>

definition files_preview :: "clone_env \<Rightarrow> string \<Rightarrow> tree \<Rightarrow> string list" where
  "files_preview e n t =
     (case safe_join t (ck_home e) n of
        None \<Rightarrow> []
      | Some p \<Rightarrow>
          if \<not> is_directory t p then []
          else sort (map (\<lambda>q. n @ ''/'' @ py_join ''/'' (drop (length p) q))
                 (take 200 (filter (\<lambda>q. strict_prefix p q \<and> \<not> dir_at t q) (all_paths t)))))"

section \<open>Shared steps\<close>

definition formula_refreshed :: "clone_env \<Rightarrow> user \<Rightarrow> string \<Rightarrow> string \<Rightarrow> forge \<Rightarrow> forge" where
  "formula_refreshed e cu verb n s =
     (let s1 = (case fv_refresh (ck_files e) of
                  None \<Rightarrow> formula_log cu ''fileserver-update'' s
                | Some er \<Rightarrow> formula_log cu (''fileserver-update-failed:'' @ er)
                    (formula_note (verb @ '' '' @ n @ '', but the master refresh failed ('' @ er @ ''); applies may lag.'')
                       ''warning'' s))
      in if dir_at (gw_tree (snd (fst s1))) (formula_dir e n @ [''_modules''])
         then formula_note ''Custom modules changed. Run Sync modules.'' ''info'' s1 else s1)"

text \<open>The host in an https URL, as the code cuts it.\<close>

definition url_host :: "string \<Rightarrow> string" where
  "url_host url =
     (if CHR ''/'' \<in> set (drop 8 url) then (case py_split CHR ''/'' url of _ # _ # h # _ \<Rightarrow> h | _ \<Rightarrow> []) else [])"

definition store_shared :: "clone_env \<Rightarrow> user \<Rightarrow> string \<Rightarrow> string \<Rightarrow> forge \<Rightarrow> forge" where
  "store_shared e cu token url s =
     (case save_token e (py_strip token) (url_host url) (snd (fst s)) of
        (None, w) \<Rightarrow>
          formula_note (''Token stored for '' @ url_host url @ ''.'') ''success'' (formula_log cu ''git-token-saved'' (with_world w s))
      | (Some reason, w) \<Rightarrow> formula_note (''Shared token not stored ('' @ reason @ '').'') ''warning'' (with_world w s))"

definition persist_shared_token :: "env \<Rightarrow> clone_env \<Rightarrow> user \<Rightarrow> string \<Rightarrow> string \<Rightarrow> bool \<Rightarrow> forge \<Rightarrow> forge" where
  "persist_shared_token e ce cu token url requested s =
     (let c = fst (fst s)
      in if \<not> requested \<or> py_strip token = [] \<or> \<not> starts_with ''https://'' url then s
         else if rbac_mode e (c_db c) = ''scoped''
         then
           (let s1 = ((touch cu c, snd (fst s)), snd s)
            in if authorize e (c_memo c) (c_db c) cu ''file.git'' None None then store_shared ce cu token url s1
               else formula_note ''Cloned with the one-time token. Only a file.git grant can store shared credentials.'' ''warning'' s1)
         else if u_role cu \<noteq> ''admin''
         then formula_note ''Cloned with the one-time token. Only admins store shared credentials.'' ''warning'' s
         else store_shared ce cu token url s)"

definition form_field :: "form \<Rightarrow> string \<Rightarrow> string" where "form_field f k = py_strip (form_get f k)"

definition posted_auth :: "form \<Rightarrow> string" where
  "posted_auth f = (let a = form_get f ''auth'' in if a = [] then ''shared'' else py_strip a)"

definition posted_token :: "form \<Rightarrow> string option" where
  "posted_token f = (let t = form_get f ''token'' in if t = [] then None else Some t)"

definition short_sha :: "string option \<Rightarrow> string" where
  "short_sha sha = (let s = take 12 (or_empty sha) in if s = [] then ''unknown'' else s)"

definition refuse_formula :: "string \<Rightarrow> forge \<Rightarrow> resp \<times> forge" where
  "refuse_formula msg s = (Redirect formulas_home, formula_note msg ''error'' s)"

text \<open>The gate of an action on a formula: the ladder, then \<open>file.write\<close> with the name as prefix.\<close>

definition formula_roles :: "(string set \<Rightarrow> string) \<Rightarrow> env \<Rightarrow> user \<Rightarrow> forge \<Rightarrow> (resp \<times> forge) + forge" where
  "formula_roles first e cu s =
     (case pass_gate (roles_required first e cu [''operator'']) (fst (fst s)) of
        Inl (r, c) \<Rightarrow> Inl (r, ((c, snd (fst s)), snd s)) | Inr c \<Rightarrow> Inr ((c, snd (fst s)), snd s))"

definition formula_write :: "env \<Rightarrow> user \<Rightarrow> string option \<Rightarrow> forge \<Rightarrow> (resp \<times> forge) + forge" where
  "formula_write e cu pre s =
     (case pass_gate (require e cu ''file.write'' None pre ''no-grant'') (fst (fst s)) of
        Inl (r, c) \<Rightarrow> Inl (r, ((c, snd (fst s)), snd s)) | Inr c \<Rightarrow> Inr ((c, snd (fst s)), snd s))"

section \<open>Actions\<close>

definition vendor_posted :: "env \<Rightarrow> clone_env \<Rightarrow> user \<Rightarrow> form \<Rightarrow> string \<Rightarrow> forge \<Rightarrow> resp \<times> forge" where
  "vendor_posted e ce cu f n s =
     (let url = form_field f ''url''; branch = form_field f ''branch''
      in case vendor_formula ce n url (Some branch) (posted_auth f) (posted_token f) (snd (fst s)) of
           (Inl reason, w) \<Rightarrow>
             (Redirect formulas_home,
              formula_log cu (''formula-add-refused:'' @ n)
                (formula_note (''Add refused: '' @ reason @ ''. Nothing changed.'') ''error'' (with_world w s)))
         | (Inr (m, sha), w) \<Rightarrow>
             (let s1 = add_formula m url branch sha cu (with_world w s);
                  s2 = persist_shared_token e ce cu (or_empty (posted_token f)) url (form_get f ''save_shared'' \<noteq> []) s1;
                  s3 = formula_refreshed ce cu ''Vendored'' m s2
              in (Redirect formulas_home,
                  formula_log cu (''formula-add:'' @ m @ '':'' @ short_sha sha)
                    (formula_note (''Vendored formula '' @ CHR 0x27 # m @ [CHR 0x27] @ '' at '' @ short_sha sha @ ''.'') ''success'' s3))))"

definition formula_add :: "(string set \<Rightarrow> string) \<Rightarrow> env \<Rightarrow> clone_env \<Rightarrow> user \<Rightarrow> form \<Rightarrow> forge \<Rightarrow> resp \<times> forge" where
  "formula_add first e ce cu f s =
     (let name = py_lower (form_field f ''name'')
      in case formula_roles first e cu s of
           Inl rs \<Rightarrow> rs
         | Inr s1 \<Rightarrow>
             (case formula_write e cu (if name = [] then None else Some name) s1 of
                Inl rs \<Rightarrow> rs
              | Inr s2 \<Rightarrow>
                  (case validate_formula_name name of
                     Inl reason \<Rightarrow> refuse_formula (''Add refused: '' @ reason @ ''. Nothing changed.'') s2
                   | Inr n \<Rightarrow>
                       if formula_named n s2 \<noteq> None
                       then refuse_formula (''Add refused: '' @ CHR 0x27 # n @ [CHR 0x27] @ '' is already tracked.'') s2
                       else vendor_posted e ce cu f n s2)))"

definition track_posted :: "clone_env \<Rightarrow> user \<Rightarrow> form \<Rightarrow> string \<Rightarrow> forge \<Rightarrow> resp \<times> forge" where
  "track_posted ce cu f n s =
     (if formula_named n s \<noteq> None
      then (Redirect formulas_home, formula_note (CHR 0x27 # n @ [CHR 0x27] @ '' is already tracked.'') ''info'' s)
      else if n \<notin> set (list_formula_dirs ce (gw_tree (snd (fst s))))
      then refuse_formula (''Track refused: '' @ not_installed n @ ''.'') s
      else
        (case formula_committed (ck_git ce) (ck_home ce) n (snd (fst s)) of
           (True, w) \<Rightarrow>
             (Redirect formulas_home,
              formula_log cu (''formula-track-refused:'' @ n @ '':from-repo'')
                (formula_note (''Track refused: '' @ CHR 0x27 # n @ ''/'' @ [CHR 0x27] @ '' comes from the states repo.'') ''error''
                   (with_world w s)))
         | (False, w) \<Rightarrow>
             (Redirect formulas_home,
              formula_log cu (''formula-track:'' @ n)
                (formula_note (''Tracking '' @ CHR 0x27 # n @ [CHR 0x27] @ ''. Update pins its upstream commit.'') ''success''
                   (add_formula n (form_field f ''url'') (form_field f ''branch'') None cu (with_world w s))))))"

definition formula_track :: "(string set \<Rightarrow> string) \<Rightarrow> env \<Rightarrow> clone_env \<Rightarrow> user \<Rightarrow> form \<Rightarrow> forge \<Rightarrow> resp \<times> forge" where
  "formula_track first e ce cu f s =
     (let name = py_lower (form_field f ''name'')
      in case formula_roles first e cu s of
           Inl rs \<Rightarrow> rs
         | Inr s1 \<Rightarrow>
             (case formula_write e cu (if name = [] then None else Some name) s1 of
                Inl rs \<Rightarrow> rs
              | Inr s2 \<Rightarrow>
                  (case validate_formula_name name of
                     Inl reason \<Rightarrow> refuse_formula (''Track refused: '' @ reason @ ''.'') s2
                   | Inr n \<Rightarrow>
                       (case validate_repo_url (form_field f ''url'') of
                          Inl reason \<Rightarrow> refuse_formula (''Track refused: '' @ reason @ ''.'') s2
                        | Inr _ \<Rightarrow> track_posted ce cu f n s2))))"

text \<open>A name that is refused is not checked against the grants.\<close>

definition tracked_row :: "(string set \<Rightarrow> string) \<Rightarrow> env \<Rightarrow> user \<Rightarrow> string \<Rightarrow> string \<Rightarrow> forge
    \<Rightarrow> (resp \<times> forge) + formula \<times> forge" where
  "tracked_row first e cu verb name s =
     (case formula_roles first e cu s of
        Inl rs \<Rightarrow> Inl rs
      | Inr s1 \<Rightarrow>
          (case validate_formula_name name of
             Inl reason \<Rightarrow> Inl (refuse_formula (verb @ '' refused: '' @ reason @ ''.'') s1)
           | Inr n \<Rightarrow>
               (case formula_write e cu (Some n) s1 of
                  Inl rs \<Rightarrow> Inl rs
                | Inr s2 \<Rightarrow>
                    (case formula_named n s2 of
                       None \<Rightarrow> Inl (refuse_formula (verb @ '' refused: '' @ CHR 0x27 # n @ [CHR 0x27] @ '' is not tracked.'') s2)
                     | Some row \<Rightarrow> Inr (row, s2)))))"

definition update_posted :: "env \<Rightarrow> clone_env \<Rightarrow> user \<Rightarrow> form \<Rightarrow> formula \<Rightarrow> forge \<Rightarrow> resp \<times> forge" where
  "update_posted e ce cu f row s =
     (let n = fm_name row
      in case update_formula ce n (fm_url row) (fm_branch row) (posted_auth f) (posted_token f) (snd (fst s)) of
           (Inl reason, w) \<Rightarrow>
             (Redirect formulas_home,
              formula_log cu (''formula-update-refused:'' @ n)
                (formula_note (''Update refused: '' @ reason @ ''. Nothing changed.'') ''error'' (with_world w s)))
         | (Inr (_, sha), w) \<Rightarrow>
             (let s1 = (fst (with_world w s),
                        map (\<lambda>r. if fm_id r = fm_id row \<and> or_empty sha \<noteq> [] then r\<lparr>fm_sha := sha\<rparr> else r) (snd s));
                  s2 = persist_shared_token e ce cu (or_empty (posted_token f)) (fm_url row) (form_get f ''save_shared'' \<noteq> []) s1;
                  s3 = formula_refreshed ce cu ''Updated'' n s2
              in (Redirect formulas_home,
                  formula_log cu (''formula-update:'' @ n @ '':'' @ short_sha sha)
                    (formula_note (''Updated formula '' @ CHR 0x27 # n @ [CHR 0x27] @ '' to '' @ short_sha sha @ ''.'') ''success'' s3))))"

definition formula_update :: "(string set \<Rightarrow> string) \<Rightarrow> env \<Rightarrow> clone_env \<Rightarrow> user \<Rightarrow> string \<Rightarrow> form \<Rightarrow> forge \<Rightarrow> resp \<times> forge" where
  "formula_update first e ce cu name f s =
     (case tracked_row first e cu ''Update'' name s of Inl rs \<Rightarrow> rs | Inr (row, s1) \<Rightarrow> update_posted e ce cu f row s1)"

section \<open>Re-vendoring\<close>

record revendor =
  rv_restored :: nat
  rv_skipped :: nat
  rv_failed :: "(string \<times> string) list"

text \<open>A formula whose directory is gone is vendored again from its row, with the shared credentials; the
  commit it was cloned at does not reach the row.\<close>

definition re_vendor_row :: "clone_env \<Rightarrow> formula \<Rightarrow> revendor \<times> gworld \<Rightarrow> revendor \<times> gworld" where
  "re_vendor_row e row s =
     (case s of
        (rep, w) \<Rightarrow>
          if dir_at (gw_tree w) (formula_dir e (fm_name row)) then (rep\<lparr>rv_skipped := Suc (rv_skipped rep)\<rparr>, w)
          else
            (case vendor_formula e (fm_name row) (fm_url row) (if given (fm_branch row) then fm_branch row else None) ''shared'' None w of
               (Inr _, w1) \<Rightarrow> (rep\<lparr>rv_restored := Suc (rv_restored rep)\<rparr>, w1)
             | (Inl reason, w1) \<Rightarrow> (rep\<lparr>rv_failed := rv_failed rep @ [(fm_name row, reason)]\<rparr>, w1)))"

definition re_vendor_all :: "clone_env \<Rightarrow> formula list \<Rightarrow> gworld \<Rightarrow> revendor \<times> gworld" where
  "re_vendor_all e rows w =
     fold (re_vendor_row e) (sort_key fm_name rows) (\<lparr>rv_restored = 0, rv_skipped = 0, rv_failed = []\<rparr>, w)"

definition revendor_text :: "revendor \<Rightarrow> string" where
  "revendor_text rep =
     py_join ''. ''
       ([''Restored '' @ nat_str (rv_restored rep) @ '' formula'' @ (if rv_restored rep \<noteq> 1 then ''s'' else [])]
        @ (if rv_skipped rep \<noteq> 0 then [nat_str (rv_skipped rep) @ '' already present''] else [])
        @ (if rv_failed rep \<noteq> [] then [nat_str (length (rv_failed rep)) @ '' failed''] else [])
        @ map (\<lambda>(n, reason). CHR 0x27 # n @ [CHR 0x27] @ '': '' @ reason) (rv_failed rep))"

definition flash_revendor :: "user \<Rightarrow> revendor \<Rightarrow> forge \<Rightarrow> forge" where
  "flash_revendor cu rep s =
     formula_note (revendor_text rep) ''info''
       (fold (\<lambda>(n, reason). formula_log cu (''formula-revendor-failed:'' @ n @ '':'' @ reason)) (rv_failed rep) s)"

definition formula_re_vendor :: "(string set \<Rightarrow> string) \<Rightarrow> env \<Rightarrow> clone_env \<Rightarrow> user \<Rightarrow> forge \<Rightarrow> resp \<times> forge" where
  "formula_re_vendor first e ce cu s =
     (case formula_roles first e cu s of
        Inl rs \<Rightarrow> rs
      | Inr s1 \<Rightarrow>
          (case formula_write e cu None s1 of
             Inl rs \<Rightarrow> rs
           | Inr s2 \<Rightarrow>
               (case re_vendor_all ce (snd s2) (snd (fst s2)) of
                  (rep, w) \<Rightarrow>
                    (Redirect formulas_home,
                     formula_log cu (''formula-revendor:'' @ nat_str (rv_restored rep) @ '':'' @ nat_str (length (rv_failed rep)))
                       (flash_revendor cu rep (with_world w s2))))))"

section \<open>Removing\<close>

definition drop_row :: "formula \<Rightarrow> user \<Rightarrow> forge \<Rightarrow> resp \<times> forge" where
  "drop_row row cu s =
     (Redirect formulas_home,
      formula_log cu (''formula-remove:'' @ fm_name row)
        (formula_note (''Removed formula '' @ CHR 0x27 # fm_name row @ [CHR 0x27] @ ''.'') ''success''
           (fst s, filter (\<lambda>r. fm_id r \<noteq> fm_id row) (snd s))))"

text \<open>Unconfirmed, a removal shows the files it would delete.\<close>

definition remove_posted :: "clone_env \<Rightarrow> user \<Rightarrow> form \<Rightarrow> formula \<Rightarrow> forge \<Rightarrow> (resp \<times> string list option) \<times> forge" where
  "remove_posted ce cu f row s =
     (let n = fm_name row; w = snd (fst s); plain = (\<lambda>rs. ((fst rs, None), snd rs))
      in if form_get f ''confirm'' \<noteq> ''1''
         then ((Page, Some (files_preview ce n (gw_tree w))),
               snd (formulas_page ce (formula_log cu (''formula-remove-preview:'' @ n) s)))
         else if \<not> dir_at (gw_tree w) (formula_dir ce n) then plain (drop_row row cu s)
         else
           (case remove_formula_files ce n w of
              (Some reason, w1) \<Rightarrow>
                ((Redirect formulas_home, None),
                 formula_log cu (''formula-remove-refused:'' @ n)
                   (formula_note (''Remove refused: '' @ reason @ ''. Nothing changed.'') ''error'' (with_world w1 s)))
            | (None, w1) \<Rightarrow> plain (drop_row row cu (formula_refreshed ce cu ''Removed'' n (with_world w1 s)))))"

definition formula_remove :: "(string set \<Rightarrow> string) \<Rightarrow> env \<Rightarrow> clone_env \<Rightarrow> user \<Rightarrow> string \<Rightarrow> form \<Rightarrow> forge
    \<Rightarrow> (resp \<times> string list option) \<times> forge" where
  "formula_remove first e ce cu name f s =
     (case tracked_row first e cu ''Remove'' name s of
        Inl (r, s1) \<Rightarrow> ((r, None), s1) | Inr (row, s1) \<Rightarrow> remove_posted ce cu f row s1)"

text \<open>
  The clone, the re-clone and the token slot of \<open>overstate_ui/state_repo.py\<close>, which install the tracked
  formulas again once the checkout has been replaced.
\<close>

definition auto_revendor :: "clone_env \<Rightarrow> user \<Rightarrow> forge \<Rightarrow> forge" where
  "auto_revendor e cu s =
     (if snd s = [] then s
      else (case re_vendor_all e (snd s) (snd (fst s)) of (rep, w) \<Rightarrow> flash_revendor cu rep (with_world w s)))"

text \<open>What a clone leaves to confirm, or to do again as a re-clone, is shown on the page.\<close>

datatype repo_prompt = ReplaceFiles string string "string list" | RecloneInstead string string

definition after_clone :: "clone_env \<Rightarrow> user \<Rightarrow> string \<Rightarrow> string \<Rightarrow> forge \<Rightarrow> forge" where
  "after_clone e cu action verb s =
     (let s1 = formula_log cu action s
      in case git_head (ck_git e) (ck_home e) (snd (fst s1)) of
           (sha, w) \<Rightarrow> on_fst (note_refreshed (ck_files e) cu verb sha) (with_world w s1))"

definition refused_note :: "user \<Rightarrow> string \<Rightarrow> string \<Rightarrow> string \<Rightarrow> forge \<Rightarrow> forge" where
  "refused_note cu label action reason s =
     formula_log cu (action @ reason) (formula_note (label @ reason @ ''. Nothing changed.'') ''error'' s)"

definition clone_posted :: "clone_env \<Rightarrow> user \<Rightarrow> form \<Rightarrow> forge \<Rightarrow> (resp \<times> repo_prompt option) \<times> forge" where
  "clone_posted e cu f s =
     (let url = form_get f ''url''; branch = form_get f ''branch''
      in case clone_repo e url branch (posted_token f) (form_get f ''confirm'' = ''1'') (snd (fst s)) of
           (Cloned names, w) \<Rightarrow>
             (let s1 = after_clone e cu ''git-clone'' ''Cloned'' (with_world w s);
                  s2 = (if names = [] then s1
                        else formula_note (''Replaced the existing salt/ tree: '' @ short_list names @ ''.'') ''info'' s1)
              in ((Redirect repo_home, None), auto_revendor e cu s2))
         | (ConfirmReplace names, w) \<Rightarrow>
             ((Page, Some (ReplaceFiles url branch names)), formula_log cu ''git-clone-needs-confirm'' (with_world w s))
         | (CloneRefused reason, w) \<Rightarrow>
             (let s1 = refused_note cu ''Clone refused: '' ''git-clone-refused:'' reason (with_world w s)
              in if starts_with ''directory not empty'' reason then ((Page, Some (RecloneInstead url branch)), s1)
                 else ((Redirect repo_home, None), s1)))"

definition repo_admin :: "(string set \<Rightarrow> string) \<Rightarrow> env \<Rightarrow> user \<Rightarrow> forge \<Rightarrow> (resp \<times> forge) + forge" where
  "repo_admin first e cu s =
     (case repo_gate first e cu (fst (fst s)) of
        Inl (r, c) \<Rightarrow> Inl (r, ((c, snd (fst s)), snd s)) | Inr c \<Rightarrow> Inr ((c, snd (fst s)), snd s))"

definition repo_clone :: "(string set \<Rightarrow> string) \<Rightarrow> env \<Rightarrow> clone_env \<Rightarrow> user \<Rightarrow> form \<Rightarrow> forge
    \<Rightarrow> (resp \<times> repo_prompt option) \<times> forge" where
  "repo_clone first e ce cu f s =
     (case repo_admin first e cu s of Inl (r, s1) \<Rightarrow> ((r, None), s1) | Inr s1 \<Rightarrow> clone_posted ce cu f s1)"

definition reclone_posted :: "clone_env \<Rightarrow> user \<Rightarrow> form \<Rightarrow> forge \<Rightarrow> (resp \<times> repo_prompt option) \<times> forge" where
  "reclone_posted e cu f s =
     (let typed = form_get f ''url''; branch = form_get f ''branch''
      in case (if typed \<noteq> [] then (typed, snd (fst s))
               else (case git_origin (ck_git e) (ck_home e) (snd (fst s)) of (og, w) \<Rightarrow> (or_empty og, w))) of
           (url, w0) \<Rightarrow>
             if form_get f ''confirm'' \<noteq> ''1''
             then
               (case validate_repo_url url of
                  Inl _ \<Rightarrow> ((Redirect repo_home, None),
                            formula_note ''Re-clone refused: enter a remote URL first.'' ''error'' (with_world w0 s))
                | Inr _ \<Rightarrow> ((Page, Some (RecloneInstead url branch)), with_world w0 s))
             else
               (case reclone_repo e url branch (posted_token f) (form_get f ''force'' \<noteq> []) w0 of
                  (Cloned _, w) \<Rightarrow>
                    ((Redirect repo_home, None),
                     auto_revendor e cu (after_clone e cu ''git-reclone'' ''Re-cloned'' (with_world w s)))
                | (CloneRefused reason, w) \<Rightarrow>
                    ((Redirect repo_home, None),
                     refused_note cu ''Re-clone refused: '' ''git-reclone-refused:'' reason (with_world w s))
                | (ConfirmReplace _, w) \<Rightarrow> ((Redirect repo_home, None), with_world w s)))"

definition repo_reclone :: "(string set \<Rightarrow> string) \<Rightarrow> env \<Rightarrow> clone_env \<Rightarrow> user \<Rightarrow> form \<Rightarrow> forge
    \<Rightarrow> (resp \<times> repo_prompt option) \<times> forge" where
  "repo_reclone first e ce cu f s =
     (case repo_admin first e cu s of Inl (r, s1) \<Rightarrow> ((r, None), s1) | Inr s1 \<Rightarrow> reclone_posted ce cu f s1)"

section \<open>The token slot\<close>

definition repo_token_save :: "(string set \<Rightarrow> string) \<Rightarrow> env \<Rightarrow> clone_env \<Rightarrow> user \<Rightarrow> form \<Rightarrow> forge \<Rightarrow> resp \<times> forge" where
  "repo_token_save first e ce cu f s =
     (case repo_admin first e cu s of
        Inl rs \<Rightarrow> rs
      | Inr s1 \<Rightarrow>
          (case git_origin (ck_git ce) (ck_home ce) (snd (fst s1)) of
             (origin, w) \<Rightarrow>
               (let s2 = with_world w s1
                in if \<not> given origin \<or> \<not> starts_with ''https://'' (or_empty origin)
                   then (Redirect repo_home,
                         formula_note ''Save refused: clone or set an https remote first. Tokens are stored per host.'' ''error'' s2)
                   else
                     (let host = py_split CHR ''/'' (or_empty origin) ! 2
                      in case save_token ce (form_get f ''token'') host w of
                           (None, w1) \<Rightarrow>
                             (Redirect repo_home,
                              formula_note (''Token stored for '' @ host @ ''.'') ''success''
                                (formula_log cu ''git-token-saved'' (with_world w1 s2)))
                         | (Some reason, w1) \<Rightarrow>
                             (Redirect repo_home,
                              formula_note (''Save refused: '' @ reason @ ''. Nothing changed.'') ''error'' (with_world w1 s2))))))"

definition repo_token_clear :: "(string set \<Rightarrow> string) \<Rightarrow> env \<Rightarrow> clone_env \<Rightarrow> user \<Rightarrow> forge \<Rightarrow> resp \<times> forge" where
  "repo_token_clear first e ce cu s =
     (case repo_admin first e cu s of
        Inl rs \<Rightarrow> rs
      | Inr s1 \<Rightarrow>
          (case clear_token ce (snd (fst s1)) of
             (None, w) \<Rightarrow>
               (Redirect repo_home,
                formula_note ''Stored token cleared.'' ''info'' (formula_log cu ''git-token-cleared'' (with_world w s1)))
           | (Some reason, w) \<Rightarrow>
               (Redirect repo_home, formula_note (''Clear refused: '' @ reason @ ''.'') ''error'' (with_world w s1))))"

end
