(* ===== verification/GitProps.thy ===== *)
theory GitProps
  imports RepoActions FileProps
begin

text \<open>
  Properties of the git commands: which commands a push and a reset issue, and that the excludes of a
  formula can be taken back.
\<close>

section \<open>The trace of commands\<close>

text \<open>The commands a state has beyond an earlier one.\<close>

definition issued :: "gworld \<Rightarrow> gworld \<Rightarrow> (string list \<times> path) list \<Rightarrow> bool" where
  "issued w w' cs = (gw_calls w' = gw_calls w @ cs)"

lemma run_issued: "run_git g cwd a w = (r, w') \<Longrightarrow> gw_calls w' = gw_calls w @ [(a, cwd)]"
  by (auto simp: run_git_def split: prod.splits)

lemma checkout_issued: "is_checkout g home w = (b, w') \<Longrightarrow> gw_calls w' = gw_calls w @ [([''rev-parse'', ''--git-dir''], home)]"
  by (auto simp: is_checkout_def dest: run_issued split: prod.splits)

lemma toplevel_issued: "gw_calls (snd (toplevel g home w)) = gw_calls w @ [([''rev-parse'', ''--show-toplevel''], home)]"
  by (auto simp: toplevel_def dest: run_issued split: prod.splits option.splits)

lemma ahead_issued:
  assumes "ahead_count g home w = (n, w')"
  shows "\<exists>cs. gw_calls w' = gw_calls w @ cs \<and> set cs \<subseteq> {(FETCH_ARGV, home), (UPSTREAM_ARGV, home), (COUNTS_ARGV, home)}"
proof -
  obtain f w1 where f: "run_git g home FETCH_ARGV w = (f, w1)" by (cases "run_git g home FETCH_ARGV w")
  obtain u w2 where u: "run_git g home UPSTREAM_ARGV w1 = (u, w2)" by (cases "run_git g home UPSTREAM_ARGV w1")
  obtain c w3 where c: "run_git g home COUNTS_ARGV w2 = (c, w3)" by (cases "run_git g home COUNTS_ARGV w2")
  show ?thesis using assms run_issued [OF f] run_issued [OF u] run_issued [OF c]
    by (auto simp: ahead_count_def f u c split: if_splits)
qed

lemma argv_apart:
  "PUSH_ARGV \<noteq> FETCH_ARGV" "RESET_ARGV \<notin> {FETCH_ARGV, UPSTREAM_ARGV, COUNTS_ARGV, BRANCH_ARGV, SHORT_HEAD}"
  "RESET_ARGV \<noteq> [''rev-parse'', ''--git-dir'']" "PUSH_ARGV \<notin> {UPSTREAM_ARGV, DIRTY_ARGV, SHORT_HEAD}"
  "PUSH_ARGV \<noteq> [''rev-parse'', ''--git-dir'']"
  by (simp_all add: PUSH_ARGV_def FETCH_ARGV_def RESET_ARGV_def UPSTREAM_ARGV_def COUNTS_ARGV_def BRANCH_ARGV_def SHORT_HEAD_def DIRTY_ARGV_def)

text \<open>C35: A push sends only reviewed commits: \<open>git push\<close> runs only when the lock was free, after
  \<open>git diff --quiet\<close> found the tracked tree clean and an upstream is configured, and no command of a push
  forces anything.\<close>

theorem push_reviewed_only:
  assumes "git_push_now free g home w = (res, w')" and "gw_calls w' = gw_calls w @ cs" and "(PUSH_ARGV, cwd) \<in> set cs"
  shows "free \<and> (\<exists>w1 d w2 u w3. run_git g home DIRTY_ARGV w1 = (Some d, w2) \<and> pr_code d = 0
      \<and> run_git g home UPSTREAM_ARGV w2 = (u, w3) \<and> word u \<noteq> None)
    \<and> (\<forall>(argv, dir) \<in> set cs. dir = home \<and> list_all (\<lambda>x. x \<notin> {''-f'', ''--force'', ''--force-with-lease''}) argv)"
proof -
  have free: free using assms by (cases free) (auto simp: git_push_now_def)
  obtain b w1 where b: "is_checkout g home w = (b, w1)" by (cases "is_checkout g home w")
  obtain d w2 where d: "run_git g home DIRTY_ARGV w1 = (d, w2)" by (cases "run_git g home DIRTY_ARGV w1")
  obtain u w3 where u: "run_git g home UPSTREAM_ARGV w2 = (u, w3)" by (cases "run_git g home UPSTREAM_ARGV w2")
  obtain p w4 where p: "run_git g home PUSH_ARGV w3 = (p, w4)" by (cases "run_git g home PUSH_ARGV w3")
  obtain n w5 where n: "run_git g home SHORT_HEAD w4 = (n, w5)" by (cases "run_git g home SHORT_HEAD w4")
  note calls = checkout_issued [OF b] run_issued [OF d] run_issued [OF u] run_issued [OF p] run_issued [OF n]
  have flow: "b \<and> (\<exists>q. d = Some q \<and> pr_code q = 0) \<and> word u \<noteq> None \<and> (w' = w4 \<or> w' = w5)"
    using assms free calls argv_apart
    by (auto simp: git_push_now_def b d u p n split: bool.splits option.splits if_splits)
  have "cs = [([''rev-parse'', ''--git-dir''], home), (DIRTY_ARGV, home), (UPSTREAM_ARGV, home), (PUSH_ARGV, home)]
      \<or> cs = [([''rev-parse'', ''--git-dir''], home), (DIRTY_ARGV, home), (UPSTREAM_ARGV, home), (PUSH_ARGV, home), (SHORT_HEAD, home)]"
    using flow calls assms(2) by auto
  then have "\<forall>(argv, dir) \<in> set cs. dir = home \<and> list_all (\<lambda>x. x \<notin> {''-f'', ''--force'', ''--force-with-lease''}) argv"
    by (auto simp: PUSH_ARGV_def UPSTREAM_ARGV_def SHORT_HEAD_def DIRTY_ARGV_def)
  then show ?thesis using free flow d u by blast
qed

theorem push_reviewed_only_witness:
  "case git_push_now True demo_git demo_home demo_world of (res, w') \<Rightarrow>
     res = Pushed (Some ''a1b2c3d'') True \<and> gw_calls w' ! 3 = (PUSH_ARGV, demo_home)
     \<and> (\<exists>w1 d w2 u w3. run_git demo_git demo_home DIRTY_ARGV w1 = (Some d, w2) \<and> pr_code d = 0
          \<and> run_git demo_git demo_home UPSTREAM_ARGV w2 = (u, w3) \<and> word u \<noteq> None)"
proof -
  let ?P = "git_push_now True demo_git demo_home demo_world"
  have e: "fst ?P = Pushed (Some ''a1b2c3d'') True" by code_simp
  have c: "gw_calls (snd ?P) = gw_calls demo_world @ gw_calls (snd ?P)" by (simp add: demo_world_def)
  have p: "(PUSH_ARGV, demo_home) \<in> set (gw_calls (snd ?P))" by code_simp
  have "gw_calls (snd ?P) ! 3 = (PUSH_ARGV, demo_home)" by code_simp
  then show ?thesis using push_reviewed_only [OF prod.collapse [symmetric] c p] e by (simp add: case_prod_beta)
qed

text \<open>C36: A reset never silently destroys commits: \<open>git reset --hard\<close> runs only when a fresh fetch
  succeeded and, unless the caller forces it, the count of commits ahead of the upstream is not positive.\<close>

theorem reset_keeps_unpushed:
  assumes "reset_hard free g home clean force w = (res, w')" and "gw_calls w' = gw_calls w @ cs" and "(RESET_ARGV, cwd) \<in> set cs"
  shows "free \<and> (\<exists>w1 n w2. ahead_count g home w1 = (Some n, w2) \<and> (n \<le> 0 \<or> force)
    \<and> gw_calls w1 = gw_calls w @ [([''rev-parse'', ''--git-dir''], home), (BRANCH_ARGV, home)])"
proof -
  have free: free using assms by (cases free) (auto simp: reset_hard_def)
  obtain b w1 where b: "is_checkout g home w = (b, w1)" by (cases "is_checkout g home w")
  obtain br w2 where br: "run_git g home BRANCH_ARGV w1 = (br, w2)" by (cases "run_git g home BRANCH_ARGV w1")
  obtain n w3 where n: "ahead_count g home w2 = (n, w3)" by (cases "ahead_count g home w2")
  obtain bs where bs: "gw_calls w3 = gw_calls w2 @ bs"
    "set bs \<subseteq> {(FETCH_ARGV, home), (UPSTREAM_ARGV, home), (COUNTS_ARGV, home)}"
    using ahead_issued [OF n] by blast
  note calls = checkout_issued [OF b] run_issued [OF br]
  show ?thesis
  proof (cases "w' \<in> {w1, w2, w3}")
    case True
    then have "(RESET_ARGV, cwd) \<notin> set cs" using calls bs assms(2) argv_apart by auto
    then show ?thesis using assms(3) by simp
  next
    case False
    then have "\<exists>k. n = Some k \<and> (k \<le> 0 \<or> force)"
      using assms(1) free by (auto simp: reset_hard_def b br n split: bool.splits if_splits option.splits)
    then show ?thesis using free n calls by auto
  qed
qed

theorem reset_keeps_unpushed_witness:
  "case reset_hard True demo_git demo_home True False demo_world of (res, w') \<Rightarrow>
     res = Inr (Some ''a1b2c3d'') \<and> gw_calls w' ! 5 = (RESET_ARGV, demo_home)
     \<and> (\<exists>w1 n w2. ahead_count demo_git demo_home w1 = (Some n, w2) \<and> n \<le> 0)"
proof -
  let ?R = "reset_hard True demo_git demo_home True False demo_world"
  have e: "fst ?R = Inr (Some ''a1b2c3d'')" by code_simp
  have c: "gw_calls (snd ?R) = gw_calls demo_world @ gw_calls (snd ?R)" by (simp add: demo_world_def)
  have p: "(RESET_ARGV, demo_home) \<in> set (gw_calls (snd ?R))" by code_simp
  have "gw_calls (snd ?R) ! 5 = (RESET_ARGV, demo_home)" by code_simp
  then show ?thesis using reset_keeps_unpushed [OF prod.collapse [symmetric] c p] e by (auto simp: case_prod_beta)
qed

section \<open>The excludes of formulas\<close>

lemma contains_inside: "py_contains sub (a @ sub @ b)"
proof (induction a)
  case Nil
  then show ?case proof (cases "sub @ b")
    case (Cons c s)
    then have "starts_with sub (c # s)" by (metis starts_with_iff)
    then show ?thesis using Cons by simp
  qed simp
qed auto

lemma contains_strip: "py_contains (py_strip l) l"
proof -
  let ?m = "dropWhile is_space l"
  have "l = takeWhile is_space l @ ?m" by simp
  moreover have "?m = py_strip l @ rev (takeWhile is_space (rev ?m))"
    by (metis py_strip_def lstrip_by_def rstrip_by_def rev_append rev_rev_ident takeWhile_dropWhile_id)
  ultimately have "l = takeWhile is_space l @ py_strip l @ rev (takeWhile is_space (rev ?m))" by metis
  then show ?thesis using contains_inside by metis
qed

lemma drop_pattern_none:
  "list_all (\<lambda>l. py_strip l \<noteq> pat) ls \<Longrightarrow> drop_pattern pat previous False (ls @ rest)
     = ls @ drop_pattern pat (if ls = [] then previous else Some (last ls)) False rest"
  by (induction ls arbitrary: previous) auto

lemma takeWhile_no_marker:
  "list_all (\<lambda>l. \<not> is_marker l) ls \<Longrightarrow> takeWhile (\<lambda>l. \<not> is_marker l) (ls @ [[]] @ m # r) = ls @ [[]] @ takeWhile (\<lambda>l. \<not> is_marker l) (m # r)
    \<and> dropWhile (\<lambda>l. \<not> is_marker l) (ls @ [[]] @ m # r) = dropWhile (\<lambda>l. \<not> is_marker l) (m # r)"
  by (induction ls) (auto simp: is_marker_def EXCLUDE_MARKER_def py_strip_def rstrip_by_def lstrip_by_def)

lemma formula_char:
  "97 \<le> byte_of c \<and> byte_of c \<le> 122 \<or> ascii_digit c \<or> c = CHR ''_'' \<or> c = CHR ''-'' \<Longrightarrow> \<not> is_space c"
  by (auto simp: is_space_def ascii_digit_def byte_of_def Let_def)

text \<open>A pattern is one word, and no comment is one.\<close>

lemma strip_pattern:
  assumes "validate_formula_name name = Inr n"
  shows "py_strip (formula_pattern n) = formula_pattern n"
proof -
  have "list_all (\<lambda>c. (97 \<le> byte_of c \<and> byte_of c \<le> 122 \<or> ascii_digit c) \<or> c \<in> set ''_-'') n"
    using assms by (simp add: validate_formula_name_def Let_def split: if_splits)
  then have "\<not> is_space c" if "c \<in> set n" for c
    using that formula_char [of c] by (simp add: list_all_iff)
  then have "list_all (\<lambda>c. \<not> is_space c) n" by (simp add: list_all_iff)
  then show ?thesis by (intro py_strip_id) (auto simp: formula_pattern_def is_space_def)
qed

lemma strip_comment: "py_strip (CHR ''#'' # s) \<noteq> formula_pattern n"
proof -
  have "lstrip_by is_space (CHR ''#'' # s) = CHR ''#'' # s" by (simp add: lstrip_by_def is_space_def)
  moreover have "\<not> is_space CHR ''#''" by (simp add: is_space_def)
  then have "rstrip_by is_space (CHR ''#'' # s) = CHR ''#'' # rev (dropWhile is_space (rev s))"
    by (cases "\<forall>x \<in> set (rev s). is_space x") (auto simp: rstrip_by_def dropWhile_append)
  ultimately show ?thesis by (simp add: py_strip_def formula_pattern_def)
qed

text \<open>Vendoring and removing a formula gives the exclude file back: from lines without the section of
  formulas and without the pattern, adding the exclude of a formula and removing it leaves the lines
  without the blank ones at their end.\<close>

theorem exclude_round_trip:
  assumes "validate_formula_name name = Inr n" and "list_all (\<lambda>l. \<not> is_marker l) ls"
    and "list_all (\<lambda>l. \<not> py_contains (formula_pattern n) l) ls"
  shows "remove_exclude n (add_exclude today n ls) = rev (dropWhile blank_line (rev ls))"
proof -
  let ?pat = "formula_pattern n" and ?c = "''# Added by Overstate on '' @ today"
  have none: "list_all (\<lambda>l. py_strip l \<noteq> ?pat) ls"
    using assms(3) by (auto simp: list_all_iff) (metis contains_strip)
  have marker: "is_marker EXCLUDE_MARKER" "py_strip EXCLUDE_MARKER \<noteq> ?pat"
    using strip_comment [of "'' overstate formulas''" n] by (auto simp: is_marker_def EXCLUDE_MARKER_def py_strip_def rstrip_by_def lstrip_by_def is_space_def)
  have nil: "py_strip [] \<noteq> ?pat" by (simp add: py_strip_def rstrip_by_def lstrip_by_def formula_pattern_def)
  have absent: "\<not> list_ex (\<lambda>l. py_contains ?pat l \<and> py_strip l \<noteq> [] \<and> \<not> comment_line l) ls"
    using assms(3) by (auto simp: list_ex_iff list_all_iff)
  have "dropWhile (\<lambda>l. \<not> is_marker l) ls = []" using assms(2) by (simp add: list_all_iff)
  with absent have "add_exclude today n ls = ls @ [[], EXCLUDE_MARKER, ?c, ?pat]"
    by (simp only: add_exclude_def Let_def if_False list.case)
  then have "drop_pattern ?pat None False (add_exclude today n ls) = ls @ [[]] @ EXCLUDE_MARKER # [?c]"
    using drop_pattern_none [OF none, of None "[[], EXCLUDE_MARKER, ?c, ?pat]"] marker nil strip_comment strip_pattern [OF assms(1)]
    by simp
  then show ?thesis
    using takeWhile_no_marker [OF assms(2), of EXCLUDE_MARKER "[?c]"] marker
    by (simp add: remove_exclude_def comment_line_def blank_line_def py_strip_def rstrip_by_def lstrip_by_def)
qed

theorem exclude_round_trip_witness:
  "remove_exclude ''nginx'' (add_exclude ''2025-01-01'' ''nginx'' [''*.swp'', []]) = [''*.swp'']"
proof -
  have v: "validate_formula_name '' Nginx'' = Inr ''nginx''" by code_simp
  have m: "list_all (\<lambda>l. \<not> is_marker l) [''*.swp'', []]" by code_simp
  have p: "list_all (\<lambda>l. \<not> py_contains (formula_pattern ''nginx'') l) [''*.swp'', []]" by code_simp
  have "rev (dropWhile blank_line (rev [''*.swp'', []])) = [''*.swp'']" by code_simp
  then show ?thesis using exclude_round_trip [OF v m p, of "''2025-01-01''"] by simp
qed

end
