(* ===== verification/CloneProps.thy ===== *)
theory CloneProps
  imports RepoActions FileProps
begin

text \<open>
  Properties of the clone, the re-clone and the formulas: that a refusal leaves the checkout alone, what
  unpushed commits are worth, and what happens to tokens.
\<close>

section \<open>A seed tree\<close>

text \<open>The tree a deployment starts with, a git that refuses everything, and one with an unpushed commit.\<close>

definition seed_world :: gworld where
  "seed_world = \<lparr>gw_tree = \<lparr>t_files = [([''srv'', ''salt'', ''top.sls''], \<lparr>fr_data = ''base:'', fr_mtime = 1\<rparr>)], t_links = [],
       t_dirs = [[''srv''], [''srv'', ''salt'']]\<rparr>, gw_calls = []\<rparr>"

definition seed_env :: "git \<Rightarrow> clone_env" where
  "seed_env g = \<lparr>ck_files = demo_files\<lparr>fv_home := [''srv'', ''salt''], fv_git := g\<rparr>, ck_fault = (\<lambda>_ _. None),
     ck_today = ''2025-01-01'', ck_temp = [''tmp'', ''creds'']\<rparr>"

definition refusing_git :: git where
  "refusing_git argv cwd w = (Some \<lparr>pr_code = 128, pr_out = [], pr_err = ''fatal: Authentication failed''\<rparr>, gw_tree w)"

definition ahead_git :: git where
  "ahead_git argv cwd w = (Some \<lparr>pr_code = 0, pr_out = (if hd argv = ''rev-list'' then ''1 0'' else ''main''), pr_err = []\<rparr>, gw_tree w)"

definition seed_url :: string where "seed_url = ''https://git.example/states.git''"

lemma seed_refused:
  "fst (clone_repo (seed_env refusing_git) seed_url [] (Some ''token-one'') True seed_world)
     = CloneRefused ''credentials missing or rejected''"
  by code_simp

section \<open>Tokens\<close>

text \<open>Only whether there is a token matters before it is stored.\<close>

lemma given_git:
  assumes "given t1" and "given t2"
  shows "git_clone e d u b t1 = git_clone e d u b t2"
  unfolding git_clone_def eqTrueI [OF assms(1)] eqTrueI [OF assms(2)] by (rule refl)

lemma given_stage:
  assumes "given t1" and "given t2"
  shows "stage_clone e url b t1 = stage_clone e url b t2"
  unfolding stage_clone_def given_git [OF assms] by (rule refl)

lemma given_clone:
  assumes "given t1" and "given t2"
  shows "clone_body e url b t1 replace w = clone_body e url b t2 replace w"
  unfolding clone_body_def given_stage [OF assms] by (rule refl)

lemma given_token: "validate_token t \<Longrightarrow> given (Some t) \<and> or_empty (Some t) = t"
  by (auto simp: given_def or_empty_def validate_token_def)

definition TOKEN_LOST :: string where "TOKEN_LOST = ''cloned, but the token did not store''"

text \<open>C39: The token of a clone does not reach git: a clone that fails with one token, for any reason but
  storing it afterwards, fails in the same way with every other token, and git issues the same commands
  on the same tree.\<close>

theorem clone_fails_for_every_token:
  assumes "validate_token t1" and "validate_token t2"
    and "clone_repo e url branch (Some t1) replace w = (CloneRefused r, w')" and "r \<noteq> TOKEN_LOST"
  shows "clone_repo e url branch (Some t2) replace w = (CloneRefused r, w')"
proof -
  note g = given_token [OF assms(1)] given_token [OF assms(2)]
  note c = given_clone [OF conjunct1 [OF g(1)] conjunct1 [OF g(2)]]
  have q: "clone_request url branch (Some t1) = clone_request url branch (Some t2)"
    unfolding clone_request_def using g assms(1,2) by presburger
  show ?thesis
  proof (cases "clone_request url branch (Some t1)")
    case (Inl x)
    then show ?thesis using assms(3) q by (simp add: clone_repo_def)
  next
    case (Inr hb)
    then obtain host b where hb: "clone_request url branch (Some t1) = Inr (host, b)" by (cases hb) auto
    obtain res v where body: "clone_body e (py_strip url) b (Some t1) replace w = (res, v)"
      by (cases "clone_body e (py_strip url) b (Some t1) replace w")
    show ?thesis
    proof (cases res)
      case (Cloned names)
      then show ?thesis using assms(3,4) g hb hb [unfolded q] body
        by (auto simp: clone_repo_def TOKEN_LOST_def split: if_splits prod.splits option.splits)
    qed (use assms(3) hb q body c in \<open>auto simp: clone_repo_def split: if_splits\<close>)
  qed
qed

theorem clone_fails_for_every_token_witness:
  "fst (clone_repo (seed_env refusing_git) seed_url [] (Some ''token-two'') True seed_world)
     = CloneRefused ''credentials missing or rejected''"
proof -
  obtain w' where w: "clone_repo (seed_env refusing_git) seed_url [] (Some ''token-one'') True seed_world
      = (CloneRefused ''credentials missing or rejected'', w')"
    using seed_refused by (metis prod.collapse)
  have v: "validate_token ''token-one''" "validate_token ''token-two''" by code_simp+
  have "''credentials missing or rejected'' \<noteq> TOKEN_LOST" by code_simp
  from clone_fails_for_every_token [OF v w this] show ?thesis by simp
qed

section \<open>Unpushed commits\<close>

text \<open>C38: What an unforced re-clone knows of unpushed commits. Let the first probe be whether the roots
  are a git checkout, as \<open>git rev-parse --git-dir\<close> answers it, and, when it says so, the second the
  count of commits ahead of the upstream. Unless the request is refused before any probe, nothing
  touched: when the roots are a checkout and commits are ahead, or the count cannot be had, the
  re-clone refuses for that reason and the world is the one the probes left. In every other case it is
  exactly the forced re-clone, run from the world the probes left: so where the first probe fails, as
  with a damaged \<open>.git\<close>, it goes ahead without knowing whether commits are unpushed.\<close>

theorem reclone_keeps_unpushed:
  fixes e url branch token w
  defines "here \<equiv> fst (is_checkout (ck_git e) (ck_home e) w)" and "w1 \<equiv> snd (is_checkout (ck_git e) (ck_home e) w)"
  defines "n \<equiv> fst (ahead_count (ck_git e) (ck_home e) w1)" and "w2 \<equiv> snd (ahead_count (ck_git e) (ck_home e) w1)"
  assumes "reclone_repo e url branch token False w = (res, w')"
  shows "(\<exists>reason. res = CloneRefused reason \<and> w' = w)
    \<or> (if here \<and> (n = None \<or> (\<exists>k. n = Some k \<and> 0 < k))
       then res = CloneRefused (if n = None then ''cannot reach the remote'' else UNPUSHED) \<and> w' = w2
       else (res, w') = reclone_repo e url branch token True (if here then w2 else w1))"
proof -
  have un: "unpushed e False w = (if \<not> here then (None, w1)
      else if n = None then (Some ''cannot reach the remote'', w2)
      else if \<exists>k. n = Some k \<and> 0 < k then (Some UNPUSHED, w2) else (None, w2))"
    by (simp add: unpushed_def here_def w1_def n_def w2_def split: prod.split bool.split option.split)
  show ?thesis
  proof (cases "\<exists>host b b'. clone_request url branch token = Inr (host, b) \<and> ck_free e \<and> checked_branch b = Some b'")
    case False
    then have "(\<exists>reason. res = CloneRefused reason) \<and> w' = w"
      using assms(5) by (auto simp: reclone_repo_def reclone_body_def split: sum.splits option.splits if_splits)
    then show ?thesis by blast
  next
    case True
    then obtain host b b' where r: "clone_request url branch token = Inr (host, b)" "ck_free e" "checked_branch b = Some b'" by blast
    note R = reclone_repo_def [of e url branch token, unfolded r(1) sum.case prod.case]
    have body: "reclone_body e (py_strip url) b token False w
        = (if here \<and> (n = None \<or> (\<exists>k. n = Some k \<and> 0 < k))
           then (CloneRefused (if n = None then ''cannot reach the remote'' else UNPUSHED), w2)
           else reclone_body e (py_strip url) b token True (if here then w2 else w1))"
      by (cases n) (auto simp: reclone_body_def r(3) un unpushed_def [of e True])
    show ?thesis
      using assms(5) r(2) unfolding R body by (auto split: if_splits)
  qed
qed

text \<open>With a commit ahead the re-clone refuses; where \<open>rev-parse\<close> fails it clears the roots, the commit's file too.\<close>

definition damaged_git :: git where
  "damaged_git argv cwd w = (Some \<lparr>pr_code = (if hd argv = ''rev-parse'' then 128 else 0),
     pr_out = (if hd argv = ''rev-list'' then ''1 0'' else ''main''), pr_err = []\<rparr>, gw_tree w)"

theorem reclone_keeps_unpushed_witness:
  "reclone_repo (seed_env ahead_git) seed_url [] None False seed_world
     = (CloneRefused UNPUSHED, snd (ahead_count ahead_git [''srv'', ''salt''] (snd (is_checkout ahead_git [''srv'', ''salt''] seed_world))))
   \<and> reclone_repo (seed_env damaged_git) seed_url [] None False seed_world
     = reclone_repo (seed_env damaged_git) seed_url [] None True (snd (is_checkout damaged_git [''srv'', ''salt''] seed_world))
   \<and> t_files (gw_tree (snd (reclone_repo (seed_env damaged_git) seed_url [] None False seed_world))) = []"
proof -
  let ?R = "reclone_repo (seed_env ahead_git) seed_url [] None False seed_world"
  let ?D = "reclone_repo (seed_env damaged_git) seed_url [] None False seed_world"
  have e: "ck_git (seed_env g) = g" "ck_home (seed_env g) = [''srv'', ''salt'']" for g by (simp_all add: seed_env_def)
  have f: "fst (is_checkout ahead_git [''srv'', ''salt''] seed_world)"
    "fst (ahead_count ahead_git [''srv'', ''salt''] (snd (is_checkout ahead_git [''srv'', ''salt''] seed_world))) = Some 1"
    "fst ?R = CloneRefused UNPUSHED" "gw_calls (snd ?R) \<noteq> gw_calls seed_world" by code_simp+
  have d: "\<not> fst (is_checkout damaged_git [''srv'', ''salt''] seed_world)"
    "t_files (gw_tree (snd ?D)) = []" by code_simp+
  have "gw_calls (snd ?D) \<noteq> gw_calls seed_world" by code_simp
  then have "snd ?D \<noteq> seed_world" by auto
  moreover have "snd ?R \<noteq> seed_world" using f(4) by auto
  ultimately show ?thesis
    using reclone_keeps_unpushed [of "seed_env ahead_git" seed_url "[]" None seed_world "fst ?R" "snd ?R"]
      reclone_keeps_unpushed [of "seed_env damaged_git" seed_url "[]" None seed_world "fst ?D" "snd ?D"] f(1-3) d
    by (simp add: e prod_eq_iff)
qed

section \<open>What a refusal leaves\<close>

text \<open>Everything but the staged clone and the insides of \<open>.git\<close>; no link may stand at the stage itself.\<close>

definition stage_of :: "clone_env \<Rightarrow> path" where "stage_of e = staged_at e ''.__clone_tmp''"

definition kept :: "path \<Rightarrow> tree \<Rightarrow> (path \<times> file_row) list \<times> (path \<times> string) list" where
  "kept tmp t =
     (filter (\<lambda>(q, _). \<not> prefix tmp q \<and> ''.git'' \<notin> set q) (t_files t),
      filter (\<lambda>(q, _). \<not> strict_prefix tmp q \<and> ''.git'' \<notin> set q) (t_links t))"

text \<open>The commands that a clone issues; they write to the clone and to \<open>.git\<close> only.\<close>

definition quiet_command :: "string list \<Rightarrow> bool" where
  "quiet_command argv = (''clone'' \<in> set argv \<or> hd argv \<in> {''rev-parse'', ''fetch'', ''rev-list'', ''config''})"

definition tame_stage :: "clone_env \<Rightarrow> bool" where
  "tame_stage e =
     ((\<forall>argv cwd w. quiet_command argv \<longrightarrow> kept (stage_of e) (snd (ck_git e argv cwd w)) = kept (stage_of e) (gw_tree w))
      \<and> (\<forall>l t t'. l \<in> {''clear-stage'', ''rmdir'', ''mkdir''} \<longrightarrow> ck_fault e l t = Some t'
           \<longrightarrow> kept (stage_of e) t' = kept (stage_of e) t))"

definition clean_stage :: "clone_env \<Rightarrow> tree \<Rightarrow> bool" where
  "clean_stage e t = (plain_base t (stage_of e) \<and> ''.git'' \<notin> set (stage_of e))"

text \<open>The two states agree outside the stage, and the stage is no link in either.\<close>

definition same_checkout :: "clone_env \<Rightarrow> gworld \<Rightarrow> gworld \<Rightarrow> bool" where
  "same_checkout e w w' =
     (kept (stage_of e) (gw_tree w') = kept (stage_of e) (gw_tree w) \<and> clean_stage e (gw_tree w) \<and> clean_stage e (gw_tree w'))"

lemma map_of_kept: "P q \<Longrightarrow> map_of (filter (\<lambda>(k, _). P k) l) q = map_of l q"
  by (induction l) auto

lemma kept_clean:
  assumes "kept (stage_of e) t' = kept (stage_of e) t" and "clean_stage e t"
  shows "clean_stage e t'"
proof -
  let ?P = "\<lambda>q. \<not> strict_prefix (stage_of e) q \<and> ''.git'' \<notin> set q"
  have "map_of (t_links t') q = map_of (t_links t) q" if "?P q" for q
    using assms(1) map_of_kept [of ?P q "t_links t'"] map_of_kept [of ?P q "t_links t"] that by (simp add: kept_def)
  moreover have "?P (take k (stage_of e))" for k
    using assms(2) prefix_length_less [of "stage_of e" "take k (stage_of e)"]
    by (auto simp: clean_stage_def dest: in_set_takeD)
  ultimately show ?thesis using assms(2) by (simp add: clean_stage_def plain_base_def no_link_def)
qed

lemma same_refl: "clean_stage e (gw_tree w) \<Longrightarrow> same_checkout e w w"
  by (simp add: same_checkout_def)

lemma same_trans: "same_checkout e w w1 \<Longrightarrow> same_checkout e w1 w2 \<Longrightarrow> same_checkout e w w2"
  by (simp add: same_checkout_def)

lemma same_step:
  "clean_stage e (gw_tree w) \<Longrightarrow> kept (stage_of e) (gw_tree w') = kept (stage_of e) (gw_tree w) \<Longrightarrow> same_checkout e w w'"
  using kept_clean by (simp add: same_checkout_def)

lemma stage_resolved: "clean_stage e t \<Longrightarrow> resolve t (stage_of e) = stage_of e"
  using resolve_below [of t "stage_of e" "[]"] by (simp add: clean_stage_def)

lemma cleared_kept: "kept tmp (clear_under tmp {} t) = kept tmp t"
  by (auto simp: kept_def clear_under_def keep_paths_def intro!: filter_cong)

lemma removed_kept:
  assumes "clean_stage e t"
  shows "kept (stage_of e) (rm_tree (stage_of e) t) = kept (stage_of e) t"
proof -
  have "map_of (t_links t) (stage_of e) = None"
    using assms by (auto simp: clean_stage_def plain_base_def no_link_def dest: spec [of _ "length (stage_of e)"])
  then have "(stage_of e, x) \<notin> set (t_links t)" for x by (force simp: map_of_eq_None_iff)
  then show ?thesis by (auto simp: kept_def rm_tree_def keep_paths_def strict_prefix_def intro!: filter_cong)
qed

lemma made_kept: "kept tmp (make_dirs p t) = kept tmp t"
  by (simp add: kept_def make_dirs_def)


section \<open>The steps of a clone\<close>

lemma tame_try:
  assumes "tame_stage e" and "clean_stage e (gw_tree w)" and "l \<in> {''clear-stage'', ''rmdir'', ''mkdir''}"
    and "try_step e l f w = (b, w')" and "kept (stage_of e) (f (gw_tree w)) = kept (stage_of e) (gw_tree w)"
  shows "same_checkout e w w'"
proof (rule same_step [OF assms(2)])
  show "kept (stage_of e) (gw_tree w') = kept (stage_of e) (gw_tree w)"
    using assms unfolding tame_stage_def try_step_def by (cases "ck_fault e l (gw_tree w)") auto
qed

lemma tame_run:
  assumes "tame_stage e" and "clean_stage e (gw_tree w)" and "quiet_command argv"
    and "run_git (ck_git e) cwd argv w = (r, w')"
  shows "same_checkout e w w'"
proof (rule same_step [OF assms(2)])
  have "kept (stage_of e) (snd (ck_git e argv cwd w)) = kept (stage_of e) (gw_tree w)"
    using assms(1,3) by (simp add: tame_stage_def)
  then show "kept (stage_of e) (gw_tree w') = kept (stage_of e) (gw_tree w)"
    using assms(4) by (cases "ck_git e argv cwd w") (auto simp: run_git_def)
qed

lemma same_clear:
  assumes "tame_stage e" and "clean_stage e (gw_tree w)" and "clear_dir e ''clear-stage'' (stage_of e) {} w = (b, w')"
  shows "same_checkout e w w'"
  using assms tame_try [OF assms(1,2), of "''clear-stage''"] cleared_kept same_refl [OF assms(2)] stage_resolved [OF assms(2)]
  by (auto simp: clear_dir_def Let_def split: if_splits)

lemma same_rmdir:
  assumes "tame_stage e" and "clean_stage e (gw_tree w)" and "rm_dir e (stage_of e) w = (b, w')"
  shows "same_checkout e w w'"
  using assms tame_try [OF assms(1,2), of "''rmdir''"] removed_kept [OF assms(2)] same_refl [OF assms(2)]
  by (auto simp: rm_dir_def split: if_splits)

lemma same_clean: "same_checkout e w w' \<Longrightarrow> clean_stage e (gw_tree w')"
  by (simp add: same_checkout_def)

lemma same_drop:
  assumes "tame_stage e" and "clean_stage e (gw_tree w)"
  shows "same_checkout e w (drop_staged e (stage_of e) w)"
proof -
  obtain b1 w1 where c: "clear_dir e ''clear-stage'' (stage_of e) {} w = (b1, w1)" by (cases "clear_dir e ''clear-stage'' (stage_of e) {} w")
  obtain b2 w2 where r: "rm_dir e (stage_of e) w1 = (b2, w2)" by (cases "rm_dir e (stage_of e) w1")
  note s1 = same_clear [OF assms c]
  show ?thesis using same_trans [OF s1 same_rmdir [OF assms(1) same_clean [OF s1] r]] by (simp add: drop_staged_def c r)
qed

lemma same_prepare:
  assumes "tame_stage e" and "clean_stage e (gw_tree w)" and "prepare_stage e (stage_of e) w = (b, w')"
  shows "same_checkout e w w'"
proof (cases "exists_at (gw_tree w) (stage_of e)")
  case True
  obtain b1 w1 where c: "clear_dir e ''clear-stage'' (stage_of e) {} w = (b1, w1)" by (cases "clear_dir e ''clear-stage'' (stage_of e) {} w")
  note s1 = same_clear [OF assms(1,2) c]
  obtain b2 w2 where r: "rm_dir e (stage_of e) w1 = (b2, w2)" by (cases "rm_dir e (stage_of e) w1")
  note s2 = same_trans [OF s1 same_rmdir [OF assms(1) same_clean [OF s1] r]]
  show ?thesis using assms(3) True s1 s2 by (cases b1) (auto simp: prepare_stage_def c r split: if_splits)
qed (use assms same_refl in \<open>auto simp: prepare_stage_def\<close>)

lemma quiet_clone: "quiet_command (clone_argv front url b d)" "quiet_command [''config'', x, y]"
  "quiet_command (''rev-parse'' # xs)" "quiet_command FETCH_ARGV" "quiet_command COUNTS_ARGV"
  by (simp_all add: quiet_command_def clone_argv_def FETCH_ARGV_def COUNTS_ARGV_def)

lemma same_git_clone:
  assumes "tame_stage e" and "clean_stage e (gw_tree w)" and "git_clone e (stage_of e) url b token w = (r, w')"
  shows "same_checkout e w w'"
proof -
  let ?d = "stage_of e"
  let ?argv = "clone_argv (if given token then [''-c'', helper_arg (credentials_file e)] else []) url b ?d"
  let ?conf = "[''config'', ''credential.helper'', helper_value (credentials_file e)]"
  obtain b1 w1 where m: "try_step e ''mkdir'' (make_dirs (butlast ?d)) w = (b1, w1)"
    by (cases "try_step e ''mkdir'' (make_dirs (butlast ?d)) w")
  obtain p w2 where p: "run_git (ck_git e) (butlast ?d) ?argv w1 = (p, w2)" by (cases "run_git (ck_git e) (butlast ?d) ?argv w1")
  obtain q w3 where q: "run_git (ck_git e) ?d ?conf w2 = (q, w3)" by (cases "run_git (ck_git e) ?d ?conf w2")
  have s1: "same_checkout e w w1" using tame_try [OF assms(1,2) _ m] made_kept by simp
  note s2 = same_trans [OF s1 tame_run [OF assms(1) same_clean [OF s1] quiet_clone(1) p]]
  note s3 = same_trans [OF s2 tame_run [OF assms(1) same_clean [OF s2] quiet_clone(2) q]]
  show ?thesis using assms(3) s1 s2 s3 by (cases b1) (auto simp: git_clone_def Let_def m p q split: if_splits)
qed

lemma same_stage:
  assumes "tame_stage e" and "clean_stage e (gw_tree w)" and "stage_clone e url b token w = (r, w')"
  shows "same_checkout e w w'"
proof -
  obtain b1 w1 where m: "prepare_stage e (stage_of e) w = (b1, w1)" by (cases "prepare_stage e (stage_of e) w")
  obtain r2 w2 where g: "git_clone e (stage_of e) url b token w1 = (r2, w2)" by (cases "git_clone e (stage_of e) url b token w1")
  note s1 = same_prepare [OF assms(1,2) m]
  note s2 = same_trans [OF s1 same_git_clone [OF assms(1) same_clean [OF s1] g]]
  note s3 = same_trans [OF s2 same_drop [OF assms(1) same_clean [OF s2]]]
  show ?thesis using assms(3) s1 s2 s3
    by (cases b1; cases r2) (auto simp: stage_clone_def stage_of_def [symmetric] Let_def m g)
qed

lemma same_checkout_probe:
  assumes "tame_stage e" and "clean_stage e (gw_tree w)" and "is_checkout (ck_git e) (ck_home e) w = (b, w')"
  shows "same_checkout e w w'"
  using assms tame_run [OF assms(1,2) quiet_clone(3)] by (auto simp: is_checkout_def split: prod.splits)

lemma same_ahead:
  assumes "tame_stage e" and "clean_stage e (gw_tree w)" and "ahead_count (ck_git e) (ck_home e) w = (n, w')"
  shows "same_checkout e w w'"
proof -
  let ?g = "ck_git e" and ?h = "ck_home e"
  obtain f w1 where f: "run_git ?g ?h FETCH_ARGV w = (f, w1)" by (cases "run_git ?g ?h FETCH_ARGV w")
  obtain u w2 where u: "run_git ?g ?h UPSTREAM_ARGV w1 = (u, w2)" by (cases "run_git ?g ?h UPSTREAM_ARGV w1")
  obtain c w3 where c: "run_git ?g ?h COUNTS_ARGV w2 = (c, w3)" by (cases "run_git ?g ?h COUNTS_ARGV w2")
  note s1 = tame_run [OF assms(1,2) quiet_clone(4) f]
  note s2 = same_trans [OF s1 tame_run [OF assms(1) same_clean [OF s1] quiet_clone(3) u [unfolded UPSTREAM_ARGV_def]]]
  note s3 = same_trans [OF s2 tame_run [OF assms(1) same_clean [OF s2] quiet_clone(5) c]]
  show ?thesis using assms(3) s1 s2 s3 by (auto simp: ahead_count_def f u c split: if_splits)
qed

text \<open>What a refused clone may have changed already.\<close>

definition LATE_REASONS :: "string set" where
  "LATE_REASONS = {''cannot clear the old checkout'', ''cannot install the fresh clone'', TOKEN_LOST,
     ''re-cloned, but the token did not store''}"

definition refused_early :: "clone_result \<Rightarrow> bool" where
  "refused_early res = (case res of CloneRefused r \<Rightarrow> r \<notin> LATE_REASONS | ConfirmReplace _ \<Rightarrow> True | Cloned _ \<Rightarrow> False)"

lemma clone_body_early:
  assumes "tame_stage e" and "clean_stage e (gw_tree w)" and "clone_body e url b token replace w = (res, w')" and "refused_early res"
  shows "same_checkout e w w'"
proof (cases "checked_branch b")
  case (Some b1)
  obtain co w1 where c: "is_checkout (ck_git e) (ck_home e) w = (co, w1)" by (cases "is_checkout (ck_git e) (ck_home e) w")
  note s1 = same_checkout_probe [OF assms(1,2) c]
  obtain r w2 where st: "stage_clone e url b1 token w1 = (r, w2)" by (cases "stage_clone e url b1 token w1")
  note s2 = same_trans [OF s1 same_stage [OF assms(1) same_clean [OF s1] st]]
  have late: "\<not> refused_early (fst (install_clone e doomed tmp v))" for doomed tmp v
    by (simp add: install_clone_def refused_early_def LATE_REASONS_def split: prod.splits bool.splits)
  show ?thesis using assms(3,4) s1 s2 late
    by (cases co; cases r) (auto simp: clone_body_def Some c st Let_def split: if_splits dest!: arg_cong [where f = fst])
qed (use assms same_refl in \<open>auto simp: clone_body_def\<close>)

lemma reclone_body_early:
  assumes "tame_stage e" and "clean_stage e (gw_tree w)" and "reclone_body e url b token force w = (res, w')" and "refused_early res"
  shows "same_checkout e w w'"
proof (cases "checked_branch b")
  case (Some b1)
  obtain co w1 where c: "is_checkout (ck_git e) (ck_home e) w = (co, w1)" by (cases "is_checkout (ck_git e) (ck_home e) w")
  note s1 = same_checkout_probe [OF assms(1,2) c]
  obtain n w2 where n: "ahead_count (ck_git e) (ck_home e) w1 = (n, w2)" by (cases "ahead_count (ck_git e) (ck_home e) w1")
  note s2 = same_trans [OF s1 same_ahead [OF assms(1) same_clean [OF s1] n]]
  obtain u v where u: "unpushed e force w = (u, v)" by (cases "unpushed e force w")
  have s: "same_checkout e w v"
    using u s1 s2 same_refl [OF assms(2)] by (auto simp: unpushed_def c n split: if_splits bool.splits option.splits)
  obtain r w3 where st: "stage_clone e url b1 token v = (r, w3)" by (cases "stage_clone e url b1 token v")
  note s3 = same_trans [OF s same_stage [OF assms(1) same_clean [OF s] st]]
  have late: "\<not> refused_early (fst (install_reclone e tmp x))" for tmp x
    by (simp add: install_reclone_def refused_early_def LATE_REASONS_def split: prod.splits bool.splits)
  show ?thesis using assms(3,4) s s3 late
    by (cases u; cases r) (auto simp: reclone_body_def Some u st dest!: arg_cong [where f = fst])
qed (use assms same_refl in \<open>auto simp: reclone_body_def\<close>)

text \<open>C37: A refused clone or re-clone leaves the checkout as it was, whatever failed: for every reason that
  does not come from the installation itself, all files and links outside \<open>.git\<close> and outside the stage
  are those of before. Git is assumed to write its commands' results to \<open>.git\<close> and to the clone only,
  and the stage is no link.\<close>

theorem clone_refusal_clean:
  assumes "tame_stage e" and "clean_stage e (gw_tree w)" and "refused_early res"
    and "clone_repo e url branch token flag w = (res, w') \<or> reclone_repo e url branch token flag w = (res, w')"
  shows "kept (stage_of e) (gw_tree w') = kept (stage_of e) (gw_tree w)"
proof (cases "clone_request url branch token")
  case (Inl reason)
  then show ?thesis using assms(4) by (auto simp: clone_repo_def reclone_repo_def)
next
  case (Inr hb)
  then obtain host b where hb: "clone_request url branch token = Inr (host, b)" by (cases hb) auto
  obtain r1 w1 where c: "clone_body e (py_strip url) b token flag w = (r1, w1)" by (cases "clone_body e (py_strip url) b token flag w")
  obtain r2 w2 where r: "reclone_body e (py_strip url) b token flag w = (r2, w2)" by (cases "reclone_body e (py_strip url) b token flag w")
  have "w' = w \<or> (w' = w1 \<and> refused_early r1) \<or> (w' = w2 \<and> refused_early r2)"
    using assms(3,4)
    by (cases r1; cases r2)
      (auto simp: clone_repo_def reclone_repo_def hb c r refused_early_def LATE_REASONS_def TOKEN_LOST_def
        split: if_splits prod.splits option.splits)
  then show ?thesis
    using clone_body_early [OF assms(1,2) c] reclone_body_early [OF assms(1,2) r] by (auto simp: same_checkout_def)
qed

text \<open>The credentials are refused when the seed tree would have been replaced: it is still there.\<close>

theorem clone_refusal_clean_witness:
  "fst (clone_repo (seed_env refusing_git) seed_url [] (Some ''token-one'') True seed_world)
     = CloneRefused ''credentials missing or rejected''
   \<and> kept (stage_of (seed_env refusing_git)) (gw_tree (snd (clone_repo (seed_env refusing_git) seed_url [] (Some ''token-one'') True seed_world)))
     = kept (stage_of (seed_env refusing_git)) (gw_tree seed_world)"
proof -
  let ?C = "clone_repo (seed_env refusing_git) seed_url [] (Some ''token-one'') True seed_world"
  have t: "tame_stage (seed_env refusing_git)"
    by (simp add: tame_stage_def seed_env_def refusing_git_def demo_files_def)
  have c: "clean_stage (seed_env refusing_git) (gw_tree seed_world)" by code_simp
  have r: "refused_early (fst ?C)" unfolding seed_refused by code_simp
  show ?thesis using clone_refusal_clean [OF t c r disjI1 [OF prod.collapse [symmetric]]] seed_refused by simp
qed

text \<open>
  Properties of the formulas: the table keeps its names distinct and safe as directories, and a token
  given for one clone is gone after it.
\<close>

section \<open>Names\<close>

definition slug_char :: "char \<Rightarrow> bool" where
  "slug_char c = ((97 \<le> byte_of c \<and> byte_of c \<le> 122 \<or> ascii_digit c) \<or> c \<in> set ''_-'')"

lemma slug_chars: "validate_formula_name name = Inr n \<Longrightarrow> list_all slug_char n"
  by (auto simp: validate_formula_name_def Let_def list_all_iff slug_char_def split: if_splits)

lemma slug_char_space: "slug_char c \<Longrightarrow> \<not> is_space c"
  by (auto simp: slug_char_def is_space_def ascii_digit_def byte_of_def Let_def)

lemma slug_char_lower: "slug_char c \<Longrightarrow> lower_char c = c"
  by (auto simp: slug_char_def lower_char_def ascii_digit_def byte_of_def Let_def)

lemma slug_fixed: "validate_formula_name name = Inr n \<Longrightarrow> py_lower (py_strip n) = n"
  using slug_chars [of name n]
  by (simp add: py_strip_id list_all_iff slug_char_space py_lower_def map_idI slug_char_lower)

lemma slug_again:
  assumes "validate_formula_name name = Inr n"
  shows "validate_formula_name n = Inr n"
proof -
  have "py_lower (py_strip name) = n" using assms by (simp add: validate_formula_name_def Let_def split: if_splits)
  then show ?thesis using assms slug_fixed [OF assms] by (simp add: validate_formula_name_def Let_def)
qed

text \<open>A slug is one plain component: its directory is a child of \<open>salt/\<close>.\<close>

lemma slug_plain: "validate_formula_name name = Inr n \<Longrightarrow> plain_comp n"
  using slug_chars [of name n]
  by (auto simp: plain_comp_def slug_char_def list_all_iff byte_of_def ascii_digit_def Let_def validate_formula_name_def
      split: if_splits)

section \<open>The table\<close>

definition formulas_wf :: "formula list \<Rightarrow> bool" where
  "formulas_wf rows =
     (distinct (map fm_name rows) \<and> distinct (map fm_id rows)
      \<and> list_all (\<lambda>r. validate_formula_name (fm_name r) = Inr (fm_name r)) rows)"

lemma fold_max_upper: "x \<in> set xs \<Longrightarrow> x \<le> fold max xs (a::int)"
  using Max.set_eq_fold [of a xs] Max_ge [of "set (a # xs)" x] by simp

lemma add_formula_wf:
  assumes "formulas_wf (snd s)" and "validate_formula_name n = Inr n" and "formula_named n s = None"
  shows "formulas_wf (snd (add_formula n url branch sha cu s))"
proof -
  have "1 + fold max (map fm_id (snd s)) 0 \<notin> fm_id ` set (snd s)"
    using fold_max_upper [of _ "map fm_id (snd s)" 0] by (force simp: image_iff)
  then show ?thesis
    using assms by (auto simp: formulas_wf_def add_formula_def formula_named_def find_None_iff)
qed

text \<open>What a handler does beside the table leaves it alone.\<close>

lemma rows_kept [simp]:
  "snd (formula_note m cat s) = snd s" "snd (formula_log cu a s) = snd s" "snd (with_world w s) = snd s"
  "snd (formula_refreshed ce cu verb n s) = snd s" "snd (store_shared ce cu tok url s) = snd s"
  by (auto simp: formula_note_def formula_log_def on_fst_def with_world_def formula_refreshed_def store_shared_def Let_def
      split: prod.splits option.splits)

lemma rows_kept_more [simp]:
  "snd (persist_shared_token e ce cu tok url req s) = snd s" "snd (snd (refuse_formula m s)) = snd s"
  "snd (flash_revendor cu rep s) = snd s"
proof -
  show "snd (persist_shared_token e ce cu tok url req s) = snd s" by (simp add: persist_shared_token_def Let_def)
  show "snd (snd (refuse_formula m s)) = snd s" by (simp add: refuse_formula_def)
  have "snd (fold (\<lambda>(n, reason). formula_log cu (f n reason)) xs t) = snd t" for f xs t
    by (induction xs arbitrary: t) auto
  then show "snd (flash_revendor cu rep s) = snd s" by (simp add: flash_revendor_def)
qed

lemma gates_kept:
  "case formula_roles first e cu s of Inl rs \<Rightarrow> snd (snd rs) = snd s | Inr s1 \<Rightarrow> snd s1 = snd s"
  "case formula_write e cu pre s of Inl rs \<Rightarrow> snd (snd rs) = snd s | Inr s1 \<Rightarrow> snd s1 = snd s"
  by (simp_all add: formula_roles_def formula_write_def split: sum.splits prod.splits)

lemma both_gates_wf:
  assumes "formulas_wf (snd s)" and "\<And>s2. formulas_wf (snd s2) \<Longrightarrow> formulas_wf (snd (snd (k s2)))"
  shows "formulas_wf (snd (snd (case formula_roles first e cu s of
           Inl rs \<Rightarrow> rs | Inr s1 \<Rightarrow> (case formula_write e cu pre s1 of Inl rs \<Rightarrow> rs | Inr s2 \<Rightarrow> k s2))))"
proof (cases "formula_roles first e cu s")
  case (Inr s1)
  then have s1: "snd s1 = snd s" using gates_kept(1) [of s first e cu] by simp
  show ?thesis
    using gates_kept(2) [of s1 e cu pre] s1 assms Inr by (cases "formula_write e cu pre s1") (simp_all del: prod.collapse)
qed (use assms(1) gates_kept(1) [of s first e cu] in simp)

lemma vendor_name: "vendor_formula e name url b auth tok w = (Inr (m, sha), w') \<Longrightarrow> validate_formula_name name = Inr m"
  by (auto simp: vendor_formula_def formula_request_def split: sum.splits if_splits prod.splits bool.splits option.splits)

lemma formula_named_rows: "snd s1 = snd s \<Longrightarrow> formula_named n s1 = formula_named n s"
  by (simp add: formula_named_def)

lemma vendor_posted_wf:
  assumes "formulas_wf (snd s)" and "validate_formula_name n = Inr n" and "formula_named n s = None"
  shows "formulas_wf (snd (snd (vendor_posted e ce cu f n s)))"
proof (cases "vendor_formula ce n (form_field f ''url'') (Some (form_field f ''branch'')) (posted_auth f) (posted_token f) (snd (fst s))")
  case (Pair r w)
  show ?thesis
  proof (cases r)
    case (Inr x)
    obtain m sha where x: "x = (m, sha)" by (cases x)
    have "m = n" using vendor_name Pair Inr x assms(2) by fastforce
    then show ?thesis
      using assms Inr Pair x add_formula_wf [of "with_world w s" n] formula_named_rows [of "with_world w s" s]
      by (simp add: vendor_posted_def Let_def)
  qed (use assms Pair in \<open>simp add: vendor_posted_def Let_def\<close>)
qed

lemma add_wf: "formulas_wf (snd s) \<Longrightarrow> formulas_wf (snd (snd (formula_add first e ce cu f s)))"
  unfolding formula_add_def Let_def
  by (rule both_gates_wf) (auto simp: vendor_posted_wf slug_again split: sum.splits)

lemma track_posted_wf:
  assumes "formulas_wf (snd s)" and "validate_formula_name n = Inr n"
  shows "formulas_wf (snd (snd (track_posted ce cu f n s)))"
proof (cases "formula_committed (ck_git ce) (ck_home ce) n (snd (fst s))")
  case (Pair c w)
  then show ?thesis
    using assms add_formula_wf [of "with_world w s" n] formula_named_rows [of "with_world w s" s]
    by (cases c) (simp_all add: track_posted_def)
qed

lemma track_wf: "formulas_wf (snd s) \<Longrightarrow> formulas_wf (snd (snd (formula_track first e ce cu f s)))"
  unfolding formula_track_def Let_def
  by (rule both_gates_wf) (auto simp: track_posted_wf slug_again split: sum.splits)

lemma tracked_row_kept:
  "case tracked_row first e cu verb name s of Inl rs \<Rightarrow> snd (snd rs) = snd s | Inr rs \<Rightarrow> snd (snd rs) = snd s"
proof (cases "formula_roles first e cu s")
  case (Inr s1)
  then have s1: "snd s1 = snd s" using gates_kept(1) [of s first e cu] by simp
  show ?thesis
  proof (cases "validate_formula_name name")
    case (Inr n)
    note n = this
    show ?thesis
    proof (cases "formula_write e cu (Some n) s1")
      case (Inr s2)
      then show ?thesis
        using \<open>formula_roles first e cu s = Inr s1\<close> s1 n gates_kept(2) [of s1 e cu "Some n"]
        by (cases "formula_named n s2") (simp_all add: tracked_row_def)
    qed (use Inr \<open>formula_roles first e cu s = Inr s1\<close> s1 gates_kept(2) [of s1 e cu "Some n"] in \<open>simp add: tracked_row_def\<close>)
  qed (simp add: tracked_row_def Inr s1)
qed (use gates_kept(1) [of s first e cu] in \<open>simp add: tracked_row_def\<close>)

lemma map_sha_wf:
  assumes "formulas_wf rows"
  shows "formulas_wf (map (\<lambda>r. if P r then r\<lparr>fm_sha := sha\<rparr> else r) rows)"
proof -
  let ?rows = "map (\<lambda>r. if P r then r\<lparr>fm_sha := sha\<rparr> else r) rows"
  have "map fm_name ?rows = map fm_name rows" "map fm_id ?rows = map fm_id rows" by auto
  then show ?thesis using assms unfolding formulas_wf_def by (auto simp: list_all_iff simp del: map_map)
qed

lemma update_posted_wf: "formulas_wf (snd s) \<Longrightarrow> formulas_wf (snd (snd (update_posted e ce cu f row s)))"
  by (cases "update_formula ce (fm_name row) (fm_url row) (fm_branch row) (posted_auth f) (posted_token f) (snd (fst s))")
    (auto simp: update_posted_def Let_def intro: map_sha_wf split: sum.splits)

lemma update_wf:
  assumes "formulas_wf (snd s)"
  shows "formulas_wf (snd (snd (formula_update first e ce cu name f s)))"
proof (cases "tracked_row first e cu ''Update'' name s")
  case (Inl rs)
  then show ?thesis
    using tracked_row_kept [of s first e cu "''Update''" name] assms by (cases rs) (simp add: formula_update_def)
next
  case (Inr rs)
  then have "formulas_wf (snd (snd rs))"
    using tracked_row_kept [of s first e cu "''Update''" name] assms by simp
  then show ?thesis using Inr update_posted_wf by (cases rs) (simp add: formula_update_def)
qed

lemma filter_wf: "formulas_wf rows \<Longrightarrow> formulas_wf (filter P rows)"
  by (auto simp: formulas_wf_def list_all_iff distinct_map_filter)

lemma page_rows [simp]: "snd (snd (formulas_page e s)) = snd s"
  by (simp add: formulas_page_def Let_def split: prod.splits)

lemma remove_posted_wf: "formulas_wf (snd s) \<Longrightarrow> formulas_wf (snd (snd (remove_posted ce cu f row s)))"
  by (cases "remove_formula_files ce (fm_name row) (snd (fst s))")
    (auto simp: remove_posted_def drop_row_def Let_def intro: filter_wf split: option.splits)

lemma remove_wf:
  assumes "formulas_wf (snd s)"
  shows "formulas_wf (snd (snd (formula_remove first e ce cu name f s)))"
proof (cases "tracked_row first e cu ''Remove'' name s")
  case (Inl rs)
  then show ?thesis
    using tracked_row_kept [of s first e cu "''Remove''" name] assms by (cases rs) (simp add: formula_remove_def)
next
  case (Inr rs)
  then have "formulas_wf (snd (snd rs))"
    using tracked_row_kept [of s first e cu "''Remove''" name] assms by simp
  then show ?thesis using Inr remove_posted_wf by (cases rs) (simp add: formula_remove_def)
qed

lemma re_vendor_rows: "snd (snd (formula_re_vendor first e ce cu s)) = snd s"
proof (cases "formula_roles first e cu s")
  case (Inr s1)
  then show ?thesis
    using gates_kept(1) [of s first e cu] gates_kept(2) [of s1 e cu None]
    by (cases "formula_write e cu None s1") (simp_all add: formula_re_vendor_def split: prod.splits)
qed (use gates_kept(1) [of s first e cu] in \<open>simp add: formula_re_vendor_def\<close>)

lemma repo_rows [simp]:
  "snd (on_fst k s) = snd s" "snd (after_clone ce cu a v s) = snd s" "snd (refused_note cu l a r s) = snd s"
  "snd (auto_revendor ce cu s) = snd s"
  by (auto simp: on_fst_def after_clone_def refused_note_def auto_revendor_def Let_def split: prod.splits)

lemma admin_kept: "repo_admin first e cu s = Inl (r, s1) \<Longrightarrow> snd s1 = snd s" "repo_admin first e cu s = Inr s1 \<Longrightarrow> snd s1 = snd s"
  by (auto simp: repo_admin_def split: sum.splits)

lemma posted_rows: "snd (snd (clone_posted ce cu f s)) = snd s" "snd (snd (reclone_posted ce cu f s)) = snd s"
  by (simp_all add: clone_posted_def reclone_posted_def Let_def split: prod.splits clone_result.splits sum.splits)

lemma clone_rows: "snd (snd (repo_clone first e ce cu f s)) = snd s" "snd (snd (repo_reclone first e ce cu f s)) = snd s"
  using posted_rows by (auto simp: repo_clone_def repo_reclone_def dest!: admin_kept split: sum.splits)

text \<open>The requests that reach the table, by any user with any form.\<close>

inductive formula_step :: "(string set \<Rightarrow> string) \<Rightarrow> env \<Rightarrow> clone_env \<Rightarrow> forge \<Rightarrow> forge \<Rightarrow> bool"
  for first e ce where
  step_add: "formula_step first e ce s (snd (formula_add first e ce cu f s))"
| step_track: "formula_step first e ce s (snd (formula_track first e ce cu f s))"
| step_update: "formula_step first e ce s (snd (formula_update first e ce cu name f s))"
| step_remove: "formula_step first e ce s (snd (formula_remove first e ce cu name f s))"
| step_re_vendor: "formula_step first e ce s (snd (formula_re_vendor first e ce cu s))"
| step_clone: "formula_step first e ce s (snd (repo_clone first e ce cu f s))"
| step_reclone: "formula_step first e ce s (snd (repo_reclone first e ce cu f s))"

lemma step_wf: "formula_step first e ce s s' \<Longrightarrow> formulas_wf (snd s) \<Longrightarrow> formulas_wf (snd s')"
  by (induction rule: formula_step.induct)
    (simp_all add: add_wf track_wf update_wf remove_wf re_vendor_rows clone_rows)

text \<open>C40: Whatever sequence of requests reaches the formulas, no name and no id is tracked twice, and every
  name is a valid slug, so that the directory of a tracked formula is always a plain child of \<open>salt/\<close>.\<close>

theorem formula_names_safe:
  assumes "(formula_step first e ce)\<^sup>*\<^sup>* s s'" and "formulas_wf (snd s)" and "r \<in> set (snd s')"
  shows "formulas_wf (snd s') \<and> plain_comp (fm_name r) \<and> formula_dir ce (fm_name r) = fv_home (ck_files ce) @ [fm_name r]"
proof -
  have "formulas_wf (snd s')" using assms(1,2) by induction (auto dest: step_wf)
  moreover have "plain_comp (fm_name r)"
    using calculation assms(3) slug_plain by (auto simp: formulas_wf_def list_all_iff)
  ultimately show ?thesis by (simp add: formula_dir_def)
qed

section \<open>A formula that is tracked\<close>

definition nginx_files :: clone_env where
  "nginx_files = \<lparr>ck_files = demo_files\<lparr>fv_home := [''srv'', ''salt''],
       fv_git := (\<lambda>argv cwd w. (Some \<lparr>pr_code = 0, pr_out = [], pr_err = []\<rparr>, gw_tree w))\<rparr>,
     ck_fault = (\<lambda>_ _. None), ck_today = ''2025-01-01'', ck_temp = [''tmp'', ''creds'']\<rparr>"

definition nginx_world :: gworld where
  "nginx_world = \<lparr>gw_tree = \<lparr>t_files = [([''srv'', ''salt'', ''nginx'', ''init.sls''], \<lparr>fr_data = ''nginx:'', fr_mtime = 1\<rparr>)],
       t_links = [], t_dirs = [[''srv''], [''srv'', ''salt''], [''srv'', ''salt'', ''nginx'']]\<rparr>, gw_calls = []\<rparr>"

definition nginx_form :: form where
  "nginx_form = (\<lambda>_. [])(''name'' := ['' Nginx''], ''url'' := [''https://git.example/nginx.git''])"

theorem formula_names_safe_witness:
  "case formula_track (\<lambda>_. []) demo_env nginx_files root nginx_form ((start empty_store, nginx_world), []) of
     (r, s') \<Rightarrow> map fm_name (snd s') = [''nginx''] \<and> formulas_wf (snd s') \<and> plain_comp ''nginx''"
proof -
  let ?T = "formula_track (\<lambda>_. []) demo_env nginx_files root nginx_form ((start empty_store, nginx_world), [])"
  have n: "map fm_name (snd (snd ?T)) = [''nginx'']" by code_simp
  then obtain r where r: "r \<in> set (snd (snd ?T))" "fm_name r = ''nginx''" by (cases "snd (snd ?T)") auto
  have "(formula_step (\<lambda>_. []) demo_env nginx_files)\<^sup>*\<^sup>* ((start empty_store, nginx_world), []) (snd ?T)"
    by (rule r_into_rtranclp) (rule step_track)
  then show ?thesis using formula_names_safe [OF _ _ r(1)] r(2) n by (simp add: formulas_wf_def case_prod_beta)
qed

end
