(* ===== verification/Spec2Isabelle.thy ===== *)
theory Spec2Isabelle
  imports AuthzProps TargetProps GateProps UserProps ScopeProps SettingsProps AuthProps CronProps LaunchProps SyncProps BatchProps ApiProps SaltApiProps KeyProps KeyActProps ExecProps GroupProps RestartLife MasterProps JobPageProps JobActProps FileProps GitProps CloneProps
begin

text \<open>
  Verification of the Overstate UI, a Flask application over a Salt master (\<open>src/overstate_ui/\<close>).

  The program. Every request is gated by the permission evaluator of \<open>authz.py\<close>: grants give a
  role on a scope (the fleet, a list, a glob, a grain, a minion group, a file prefix), to a user, to
  a local group or to a group of the identity provider; the evaluator takes the union of the entries
  that reach the user. \<open>users.py\<close> and \<open>settings.py\<close> write the rows it reads, \<open>auth.py\<close> decides who
  the user is, \<open>jobs_service.py\<close> publishes Salt jobs inside the scope the evaluator returns and copies
  their returns back, \<open>states.py\<close> derives conformity verdicts from the returns, \<open>tasks_batch.py\<close> runs
  batches wave by wave, \<open>api.py\<close> lets a bearer token launch, and \<open>file_sync_schedule.py\<close> pulls the
  file tree on a cron schedule. The masters are several pods that do not share their keys:
  \<open>salt_client.py\<close> speaks to one, \<open>fleet.py\<close> routes between them, \<open>keys.py\<close> merges, accepts and copies
  their minion keys. \<open>k8s.py\<close> is the client of the cluster, through which \<open>groups.py\<close> edits the node
  groups and \<open>masterconfig.py\<close> edits the configuration of the masters and restarts them. \<open>jobs.py\<close> holds
  the pages of the job runner: its handlers call the launcher, the sync and the batches. The states
  themselves are a git checkout: \<open>files.py\<close> browses and edits it, \<open>git_sync.py\<close> runs the git commands,
  \<open>state_repo.py\<close> clones and repairs it, and \<open>formulas.py\<close> vendors formulas into it.

  The database is one explicit \<open>store\<close> (theory Store): a list of rows per table of \<open>models.py\<close>, in
  insertion order, with the primary keys as sequences and the unique, check and foreign-key
  constraints in the insert operations, which return an error value where the database raises. A
  handler takes the store and returns it changed; an exception is an \<open>Inl\<close>. A request context
  (\<open>ctx\<close>) adds the memo of \<open>flask.g\<close>, the flashed messages and the current user.

  Theories, in order of dependence:
  Prelude, PyValue, Fnmatch (the Python the code uses: strings, dictionaries, JSON values,
  \<open>fnmatch\<close>); Store and StoreFacts (the tables, their constraints, the well-formedness of a store);
  Catalog (roles, permissions, domains and function classes of \<open>authz.py\<close>); Authz, AuthzFacts and
  AuthzTargets (the evaluator, and the narrowing of publish, kill and schedule targets); Delegation
  (the subset rule of a team lead); Gates and GateFacts (the view decorators, the role cache, the
  backfill); Users, UserGroups and UserFacts (the handlers of \<open>users.py\<close>); Settings (the settings
  table, the switch of the RBAC mode, provider mappings); Auth (rate limit, local login, single
  sign-on, seeding); Cron (\<open>file_sync_schedule.py\<close>); Salt, Launch and LaunchFacts (\<open>jobs_helpers.py\<close>,
  \<open>launch\<close> and its helpers in \<open>jobs_service.py\<close>); JobSync and SyncFacts (\<open>sync_job\<close>); Conformity (the
  verdicts of \<open>states.py\<close>); Api (\<open>api.py\<close>); Batch, BatchRequest and BatchFacts (\<open>tasks_batch.py\<close> and
  \<open>run_batched\<close>); Demo (a small concrete store for the witnesses); SaltApi (\<open>salt_client.py\<close>: login,
  the retry after a 401, the payloads, the event stream); Fleet (\<open>fleet.py\<close>); Keys, KeyBackfill and
  KeyViews (\<open>keys.py\<close>: listings and fingerprints, reconciliation, the copy of agreed keys, the pages
  and actions); ViewFacts (what the view decorators promise, as an interface); K8s (\<open>k8s.py\<close>: transport,
  ConfigMaps, rollouts, pods, exec over the library); ExecStream (\<open>exec_pod\<close> of \<open>k8s.py\<close>: the frame
  reader on 8-bit words); NodeGroups (\<open>groups.py\<close>); JsonText (\<open>json.dumps\<close>, with the round trip through
  the parser of PyValue); MasterConfig and MasterViews (\<open>masterconfig.py\<close>); RestartLife (the life of a
  restart as a step relation over the settings row); JobForms (the tables and pure helpers of
  \<open>jobs_helpers.py\<close>), JobPages (the pages of \<open>jobs.py\<close>: one job, one panel, the lists, the
  form, the stream), JobActions and JobControl (run, orchestration, cancel, kill, sync, deletion), and
  JobFacts; FileTree (a tree with symbolic links, the resolution of paths, \<open>safe_join\<close>, UTF-8), GitSync (the texts and the commands of \<open>git_sync.py\<close>, each command kept in a trace), Files and
  FileViews (\<open>files.py\<close>: the listing, and view, edit, save, sync and push), RepoClone (the
  staged clone and re-clone of \<open>git_sync.py\<close> on a tree), Formulas (the table of formulas and its
  installation), RepoActions (the pages and actions of \<open>formulas.py\<close> and \<open>state_repo.py\<close>). The properties of a group stand in its \<open>Props\<close>
  theory, those of a restart in RestartLife.

  Interfaces. The locales state what a client relies on, and each is interpreted on the code's own
  definitions: keyed_table (the laws of a table with a primary key, in Store), scope_union and
  memo_table (the union of scopes and the memo of a request, in AuthzFacts), window_budget (the login
  limiter of \<open>auth.py\<close> and the token limiter of \<open>api.py\<close>) and view_gate (a decorator runs the view on
  the same database or answers and leaves all but audit rows alone, in ViewFacts; also interpreted for
  the gate of the master pages in RestartLife).

  What the lemmas show. Evaluator: the check of one minion and the set of permitted minions agree,
  caches change no decision, entries confine, nothing is allowed by default. Targets: what a publish
  or a kill reaches is inside the scope of the caller. Delegation: no delegated grant confers what
  the delegator lacks. Administration: every handler keeps the store well-formed, writes for a
  delegate only checked rows, and never removes the caller's own last administrator grant. Modes: the
  backfill is complete and idempotent and agrees with the legacy ladder. Launch, API and batches:
  whatever leaves the program is confined, and a refusal publishes nothing; a token sends the stored
  request of the saved job it is pinned to, or the read-class request of its body. Sync: a job
  completes exactly when the minions the master lists have returned and the returns are quiet, a newer
  verdict keeps the floor, the trail stays bounded. Keys: reconciliation only completes a trust another
  pod already gave to the same fingerprint; a copy installs, on a pod that lacks the key, the text an
  accepting pod answered, and never a disputed key; a key action is sent for the posted id only, while
  an accept also runs the copy of every agreed key. Cluster: the exec reader recovers the frames from
  any chunking, an edit of the node groups touches their stanza only, a configuration save replaces
  just the posted key of the data it read and after a snapshot of all of it, and the restart banner
  gives the age of the last start and ends with its eleventh minute at the latest. Job pages: a scoped viewer sees the returns in its scope and no
  body it may not see, a posted run is reviewed before it fires, a kill stays in scope, the suggested
  glob is exact. Checkout: a save replaces only the text its form was made from, below the base of the
  browser, and changes nothing else of the tree unless a link lies in the place of its temporary file;
  a push sends reviewed commits only, a reset spares unpushed commits, and so does a re-clone of what
  git takes for a checkout; a refused clone leaves the checkout as it was; the names of formulas stay
  safe. Some results state what does not hold: a file grant does not hold a caller who writes dots in a
  path, no token reaches the clone it was given for, a save writes through a link beside the file, and
  a re-clone of a damaged checkout does not ask for unpushed commits. Some properties state a
  behaviour that looks unintended; the manifest lists those as findings.

  Arguments of the model, for what is not in the repository: the clock and random tokens; argon2
  verification; the Redis counters (any functions that may fail); the Salt API as a record \<open>salt\<close> of
  pods, refusals, the order in which the threads of a fan-out complete and the reply of salt-ssh; the
  reply of the master to \<open>jobs.list_job\<close> and \<open>jobs.lookup_jid\<close>, and of a minion to \<open>state.show_sls\<close>;
  the \<open>ILIKE\<close> of the database; whether the queue took a task; git, any function of its arguments, the directory and all that happened
  before, which may change the tree; whether the lock of the git writes is free; the failures of the file
  system, each leaving any tree; SHA-256; the fileserver refresh; the HTTP transports of
  the Salt API and of the cluster, any functions of the request and a world they change; the websocket
  library and the socket; PyYAML; the printing and parsing of dates, with the one law that a printed
  date reads back (\<open>dates_read\<close>). What other
  processes do between two waves of a batch is a function on the store, and the polling of a wave is
  the list of its passes, one per five seconds before the deadline, so the loop is a recursion over
  that list. No other loop needs fuel: the cron field loops run over lists, the wave loop over the
  waves, the event stream of a job over its passes, of which the code makes 600, the readers of the exec
  stream over the chunks that are left, and the wait for a rollout over
  its 36 polls. The resolution of a path ends because every step meets a link for the first time or
  shortens the work that is left (a termination proof in FileTree).

  Not modelled: rendering of templates and syntax highlighting; gpg; permission bits of files; the servers at the other
  end of a transport; the OIDC redirect, which Authlib implements; the modules
  listed as not modelled in the manifest, most of which only render or do I/O.
\<close>

end
